(* ===== verification/Atlas_Prelude.thy ===== *)
theory Atlas_Prelude
  imports Complex_Main "HOL-Library.AList" "HOL-Library.Char_ord" "HOL-Library.List_Lexorder"
begin

text \<open>
  Shared vocabulary of the development: Go's 64-bit signed integers, the time and duration
  values of package \<open>time\<close>, the operations of package \<open>strings\<close> that the modelled code calls,
  association lists for Go maps, and the generic lemmas the components share.

  Integers.  Go's \<open>int\<close> is 64 bits wide here.  Quantities that are only compared are \<open>int\<close>;
  a counter or product that can leave the range is written with \<open>wrap64\<close>.

  Time.  A \<open>time.Time\<close> is its distance to the Unix epoch in nanoseconds, a
  \<open>time.Duration\<close> a number of nanoseconds.  \<open>time.Now()\<close> is an argument \<open>now\<close> of the
  operation that reads the clock; the several readings inside one operation that holds a
  mutex are one value.

  Strings.  A Go string is its list of bytes (\<open>char\<close> is an 8-bit value).

  Maps.  A Go map is an association list with distinct keys.  Where the code ranges over a
  map and the visiting order can be observed, the order is an argument, any permutation of
  the entries.
\<close>

section \<open>Collections of facts\<close>

named_theorems frame_simps "fields an operation leaves unchanged"
named_theorems f64_simps "evaluation of float64 operations on finite values"

section \<open>64-bit integers\<close>

definition i64_max :: int where
  "i64_max = 9223372036854775807"

definition i64_min :: int where
  "i64_min = -9223372036854775808"

definition wrap64 :: "int \<Rightarrow> int" where
  "wrap64 x = (x + 9223372036854775808) mod 18446744073709551616 - 9223372036854775808"

lemma wrap64_id: "i64_min \<le> x \<Longrightarrow> x \<le> i64_max \<Longrightarrow> wrap64 x = x"
  by (simp add: wrap64_def i64_min_def i64_max_def)

lemma wrap64_lower: "i64_min \<le> wrap64 x"
  by (simp add: wrap64_def i64_min_def)

lemma wrap64_upper: "wrap64 x \<le> i64_max"
proof -
  have "(x + 9223372036854775808) mod 18446744073709551616 < (18446744073709551616::int)"
    by (rule pos_mod_bound) simp
  then show ?thesis by (simp add: wrap64_def i64_max_def)
qed

section \<open>Time\<close>

type_synonym time = int
type_synonym duration = int

abbreviation millisecond :: duration where "millisecond \<equiv> 1000000"
abbreviation second :: duration where "second \<equiv> 1000000000"
abbreviation minute :: duration where "minute \<equiv> 60000000000"
abbreviation hour :: duration where "hour \<equiv> 3600000000000"

text \<open>The zero \<open>time.Time\<close>: midnight UTC, January 1 of year 1.\<close>

definition zero_time :: time where
  "zero_time = -62135596800000000000"

text \<open>\<open>Time.Sub\<close> saturates at the ends of the \<open>Duration\<close> range.\<close>

definition time_sub :: "time \<Rightarrow> time \<Rightarrow> duration" where
  "time_sub a b = max i64_min (min i64_max (a - b))"

lemma time_sub_exact: "i64_min \<le> a - b \<Longrightarrow> a - b \<le> i64_max \<Longrightarrow> time_sub a b = a - b"
  by (simp add: time_sub_def)

lemma time_sub_mono: "a \<le> a' \<Longrightarrow> time_sub a b \<le> time_sub a' b"
  by (auto simp: time_sub_def)

lemma time_sub_self [simp]: "time_sub a a = 0"
  by (simp add: time_sub_def i64_min_def i64_max_def)

lemma time_sub_gt: "i64_min \<le> d \<Longrightarrow> d < i64_max \<Longrightarrow> d < time_sub a b \<longleftrightarrow> d < a - b"
  by (auto simp: time_sub_def)

section \<open>Strings\<close>

text \<open>
  \<open>strings.TrimSpace\<close> removes leading and trailing Unicode white space.  The white-space
  runes in UTF-8 are the six ASCII ones and the multi-byte sequences listed here.
\<close>

definition ascii_space :: "char \<Rightarrow> bool" where
  "ascii_space c \<longleftrightarrow> c \<in> {CHR 0x09, CHR 0x0A, CHR 0x0B, CHR 0x0C, CHR 0x0D, CHR 0x20}"

definition wide_spaces :: "string list" where
  "wide_spaces =
     [[CHR 0xC2, CHR 0x85], [CHR 0xC2, CHR 0xA0], [CHR 0xE1, CHR 0x9A, CHR 0x80],
      [CHR 0xE2, CHR 0x80, CHR 0x80], [CHR 0xE2, CHR 0x80, CHR 0x81], [CHR 0xE2, CHR 0x80, CHR 0x82],
      [CHR 0xE2, CHR 0x80, CHR 0x83], [CHR 0xE2, CHR 0x80, CHR 0x84], [CHR 0xE2, CHR 0x80, CHR 0x85],
      [CHR 0xE2, CHR 0x80, CHR 0x86], [CHR 0xE2, CHR 0x80, CHR 0x87], [CHR 0xE2, CHR 0x80, CHR 0x88],
      [CHR 0xE2, CHR 0x80, CHR 0x89], [CHR 0xE2, CHR 0x80, CHR 0x8A], [CHR 0xE2, CHR 0x80, CHR 0xA8],
      [CHR 0xE2, CHR 0x80, CHR 0xA9], [CHR 0xE2, CHR 0x80, CHR 0xAF], [CHR 0xE2, CHR 0x81, CHR 0x9F],
      [CHR 0xE3, CHR 0x80, CHR 0x80]]"

definition starts_with :: "string \<Rightarrow> string \<Rightarrow> bool" where
  "starts_with s p \<longleftrightarrow> take (length p) s = p"

text \<open>The length in bytes of the white-space rune a string starts with, 0 if it starts with none.\<close>

definition lead_space :: "string list \<Rightarrow> string \<Rightarrow> nat" where
  "lead_space ws s = (case s of [] \<Rightarrow> 0
     | c # _ \<Rightarrow> if ascii_space c then 1
               else (case find (starts_with s) ws of None \<Rightarrow> 0 | Some p \<Rightarrow> length p))"

lemma lead_space_le: "lead_space ws s \<le> length s"
proof -
  have "find (starts_with s) ws = Some p \<Longrightarrow> length p \<le> length s" for p
    by (auto simp: find_Some_iff starts_with_def) (metis length_take min.cobounded1)
  then show ?thesis
    by (auto simp: lead_space_def split: list.splits option.splits)
qed

function trim_by :: "string list \<Rightarrow> string \<Rightarrow> string" where
  "trim_by ws s = (if lead_space ws s = 0 then s else trim_by ws (drop (lead_space ws s) s))"
  by pat_completeness auto
termination
proof (relation "measure (\<lambda>(ws, s). length s)")
  fix ws s
  assume "lead_space ws s \<noteq> 0"
  with lead_space_le [of ws s]
  show "((ws, drop (lead_space ws s) s), ws, s) \<in> measure (\<lambda>(ws, s). length s)" by simp
qed simp

declare trim_by.simps [simp del]

definition trim_space :: "string \<Rightarrow> string" where
  "trim_space s = rev (trim_by (map rev wide_spaces) (rev (trim_by wide_spaces s)))"

lemma trim_by_nil [simp]: "trim_by ws [] = []"
  by (simp add: trim_by.simps lead_space_def)

lemma trim_space_nil [simp]: "trim_space [] = []"
  by (simp add: trim_space_def)

lemma trim_by_length: "length (trim_by ws s) \<le> length s"
proof (induction ws s rule: trim_by.induct)
  case (1 ws s)
  show ?case
  proof (cases "lead_space ws s = 0")
    case True
    then show ?thesis by (simp add: trim_by.simps [of ws s])
  next
    case False
    with 1 show ?thesis by (simp add: trim_by.simps [of ws s])
  qed
qed

lemma trim_by_lead: "lead_space ws (trim_by ws s) = 0"
proof (induction ws s rule: trim_by.induct)
  case (1 ws s)
  then show ?case by (cases "lead_space ws s = 0") (simp_all add: trim_by.simps [of ws s])
qed

text \<open>
  \<open>strings.ToLower\<close> on bytes: ASCII letters, and the two non-ASCII runes whose lower case is
  an ASCII letter (U+0130 gives \<open>i\<close>, U+212A gives \<open>k\<close>).  Every other non-ASCII rune stays
  outside ASCII under Go's mapping, so comparing the result with an ASCII literal is exact.
\<close>

definition lower_char :: "char \<Rightarrow> char" where
  "lower_char c = (let n = of_char c :: nat in if 65 \<le> n \<and> n \<le> 90 then char_of (n + 32) else c)"

fun to_lower :: "string \<Rightarrow> string" where
  "to_lower (a # b # c # s) =
     (if a = CHR 0xC4 \<and> b = CHR 0xB0 then CHR ''i'' # to_lower (c # s)
      else if a = CHR 0xE2 \<and> b = CHR 0x84 \<and> c = CHR 0xAA then CHR ''k'' # to_lower s
      else lower_char a # to_lower (b # c # s))"
| "to_lower [a, b] = (if a = CHR 0xC4 \<and> b = CHR 0xB0 then ''i'' else [lower_char a, lower_char b])"
| "to_lower [a] = [lower_char a]"
| "to_lower [] = []"

text \<open>\<open>strings.EqualFold\<close> on ASCII letters.\<close>

definition equal_fold :: "string \<Rightarrow> string \<Rightarrow> bool" where
  "equal_fold s t \<longleftrightarrow> map lower_char s = map lower_char t"

lemma equal_fold_refl [simp]: "equal_fold s s"
  by (simp add: equal_fold_def)

text \<open>The verb \<open>%d\<close> of package \<open>fmt\<close>.\<close>

function show_nat :: "nat \<Rightarrow> string" where
  "show_nat n = (if n < 10 then [char_of (48 + n)] else show_nat (n div 10) @ [char_of (48 + n mod 10)])"
  by pat_completeness auto
termination by (relation "measure id") auto

declare show_nat.simps [simp del]

definition show_int :: "int \<Rightarrow> string" where
  "show_int i = (if i < 0 then CHR ''-'' # show_nat (nat (- i)) else show_nat (nat i))"

section \<open>Association lists as Go maps\<close>

lemma alist_lookup_update [simp]: "map_of (AList.update k v m) k' = (if k' = k then Some v else map_of m k')"
  by (simp add: update_conv')

lemma alist_lookup_delete [simp]: "map_of (AList.delete k m) k' = (if k' = k then None else map_of m k')"
  by (simp add: delete_conv')

lemma distinct_keys_update [intro]: "distinct (map fst m) \<Longrightarrow> distinct (map fst (AList.update k v m))"
  by (rule distinct_update)

lemma map_of_filter_key:
  "distinct (map fst m) \<Longrightarrow>
   map_of (filter P m) k = (case map_of m k of None \<Rightarrow> None | Some v \<Rightarrow> if P (k, v) then Some v else None)"
  by (induction m) (auto split: option.splits simp: map_of_eq_None_iff dest: weak_map_of_SomeI)

lemma distinct_keys_filter [intro]: "distinct (map fst m) \<Longrightarrow> distinct (map fst (filter P m))"
  by (induction m) auto

end
