(* ===== verification/Float64.thy ===== *)
theory Float64
  imports Atlas_Prelude
begin

text \<open>
  Go's \<open>float64\<close>: IEEE 754 binary64 with rounding to nearest, ties to even.

  A value is NaN, an infinity, or a finite number given by its exact rational value.  The
  arithmetic operations compute the exact result and round it once with \<open>rnd\<close>, as the
  standard prescribes.  The two zeros are one value here: they compare equal in Go, and the
  modelled code observes the sign of a zero nowhere except in a division by it, where \<open>+0\<close>
  is taken.  No fused multiply-add is used (Go's compiler fuses on some architectures, not on
  amd64, which the deployment images target).
\<close>

section \<open>Values and rounding\<close>

datatype f64 = NaN | PInf | NInf | Fin rat

text \<open>The binary exponent of a positive rational: \<open>2 powi expo x \<le> x < 2 powi (expo x + 1)\<close>.\<close>

function bits :: "int \<Rightarrow> int" where
  "bits n = (if n \<le> 0 then 0 else 1 + bits (n div 2))"
  by pat_completeness auto
termination by (relation "measure nat") auto

declare bits.simps [simp del]

definition expo :: "rat \<Rightarrow> int" where
  "expo x = (let (a, b) = quotient_of x; k = bits a - bits b
             in if 2 powi k \<le> x then k else k - 1)"

text \<open>Rounding to the nearest integer, ties to even (\<open>rhe\<close>).\<close>

definition rhe :: "rat \<Rightarrow> int" where
  "rhe q = (let n = \<lfloor>q\<rfloor>; r = q - of_int n
            in if r < 1 / 2 then n else if r > 1 / 2 then n + 1 else if even n then n else n + 1)"

text \<open>The exponent of the unit in the last place, not below that of the subnormals.\<close>

definition ulp_expo :: "rat \<Rightarrow> int" where
  "ulp_expo x = max (expo x - 52) (-1074)"

definition rnd_pos :: "rat \<Rightarrow> rat" where
  "rnd_pos x = of_int (rhe (x / 2 powi ulp_expo x)) * 2 powi ulp_expo x"

definition f64_bound :: rat where
  "f64_bound = 2 ^ 1024"

definition rnd :: "rat \<Rightarrow> f64" where
  "rnd x = (if x = 0 then Fin 0
            else if 0 < x then (if f64_bound \<le> rnd_pos x then PInf else Fin (rnd_pos x))
            else (if f64_bound \<le> rnd_pos (- x) then NInf else Fin (- rnd_pos (- x))))"

text \<open>The values a \<open>float64\<close> can hold.\<close>

definition is_f64 :: "f64 \<Rightarrow> bool" where
  "is_f64 v = (case v of Fin q \<Rightarrow> rnd q = Fin q | _ \<Rightarrow> True)"

section \<open>Operations\<close>

definition f64_of_int :: "int \<Rightarrow> f64" where
  "f64_of_int i = rnd (of_int i)"

fun fneg :: "f64 \<Rightarrow> f64" where
  "fneg NaN = NaN" | "fneg PInf = NInf" | "fneg NInf = PInf" | "fneg (Fin x) = Fin (- x)"

fun fabs :: "f64 \<Rightarrow> f64" where
  "fabs NaN = NaN" | "fabs PInf = PInf" | "fabs NInf = PInf" | "fabs (Fin x) = Fin \<bar>x\<bar>"

fun fadd :: "f64 \<Rightarrow> f64 \<Rightarrow> f64" where
  "fadd NaN _ = NaN"
| "fadd _ NaN = NaN"
| "fadd PInf NInf = NaN"
| "fadd NInf PInf = NaN"
| "fadd PInf _ = PInf"
| "fadd _ PInf = PInf"
| "fadd NInf _ = NInf"
| "fadd _ NInf = NInf"
| "fadd (Fin x) (Fin y) = rnd (x + y)"

definition fsub :: "f64 \<Rightarrow> f64 \<Rightarrow> f64" where
  "fsub a b = fadd a (fneg b)"

text \<open>An infinity with the sign of a non-zero rational; \<open>NaN\<close> for zero times infinity.\<close>

definition inf_signed :: "rat \<Rightarrow> f64" where
  "inf_signed x = (if 0 < x then PInf else if x < 0 then NInf else NaN)"

fun fmul :: "f64 \<Rightarrow> f64 \<Rightarrow> f64" where
  "fmul NaN _ = NaN"
| "fmul _ NaN = NaN"
| "fmul (Fin x) (Fin y) = rnd (x * y)"
| "fmul (Fin x) PInf = inf_signed x"
| "fmul (Fin x) NInf = inf_signed (- x)"
| "fmul PInf (Fin y) = inf_signed y"
| "fmul NInf (Fin y) = inf_signed (- y)"
| "fmul PInf PInf = PInf"
| "fmul PInf NInf = NInf"
| "fmul NInf PInf = NInf"
| "fmul NInf NInf = PInf"

fun fdiv :: "f64 \<Rightarrow> f64 \<Rightarrow> f64" where
  "fdiv NaN _ = NaN"
| "fdiv _ NaN = NaN"
| "fdiv (Fin x) (Fin y) = (if y = 0 then inf_signed x else rnd (x / y))"
| "fdiv (Fin x) _ = Fin 0"
| "fdiv PInf (Fin y) = (if y < 0 then NInf else PInf)"
| "fdiv NInf (Fin y) = (if y < 0 then PInf else NInf)"
| "fdiv _ _ = NaN"

text \<open>Comparisons: every comparison with NaN is false.\<close>

fun flt :: "f64 \<Rightarrow> f64 \<Rightarrow> bool" where
  "flt NaN _ = False"
| "flt _ NaN = False"
| "flt (Fin x) (Fin y) = (x < y)"
| "flt PInf _ = False"
| "flt _ NInf = False"
| "flt NInf _ = True"
| "flt _ PInf = True"

definition feq :: "f64 \<Rightarrow> f64 \<Rightarrow> bool" where
  "feq a b \<longleftrightarrow> a = b \<and> a \<noteq> NaN"

definition fle :: "f64 \<Rightarrow> f64 \<Rightarrow> bool" where
  "fle a b \<longleftrightarrow> flt a b \<or> feq a b"

section \<open>Facts about rounding\<close>

text \<open>
  Rounding is monotone, is the identity on representable values, and keeps the sign.  These
  facts carry every proof about float arithmetic of the development; none of them looks into
  \<open>rnd_pos\<close>.
\<close>


lemma p2_pos [simp]: "0 < (2::rat) powi e" by simp
lemma p2_add: "(2::rat) powi (a + b) = 2 powi a * 2 powi b" by (simp add: power_int_add)
lemma p2_mono: "a \<le> b \<Longrightarrow> (2::rat) powi a \<le> 2 powi b" by (simp add: power_int_increasing)
lemma p2_nat: "0 \<le> d \<Longrightarrow> (2::rat) powi d = of_int (2 ^ nat d)"
  by (simp add: power_int_def)

lemma bits_nonneg: "0 \<le> bits n"
proof (induction n rule: bits.induct)
  case (1 n) then show ?case by (cases "n \<le> 0") (simp_all add: bits.simps [of n])
qed

lemma half_bounds: "(a::int) \<le> n div 2 \<Longrightarrow> n div 2 < b \<Longrightarrow> 2 * a \<le> n \<and> n < 2 * b"
  by linarith

lemma bits_bounds: "0 < n \<Longrightarrow> 0 < bits n \<and> 2 ^ nat (bits n - 1) \<le> n \<and> n < 2 ^ nat (bits n)"
proof (induction n rule: bits.induct)
  case (1 n)
  show ?case
  proof (cases "n = 1")
    case True
    have "bits 1 = 1" by (simp add: bits.simps [of 1] bits.simps [of 0])
    then show ?thesis using True by simp
  next
    case False
    with 1 have p: "0 < n div 2" by simp
    with 1 have ih: "0 < bits (n div 2)" "2 ^ nat (bits (n div 2) - 1) \<le> n div 2" "n div 2 < 2 ^ nat (bits (n div 2))"
      by auto
    have b: "bits n = 1 + bits (n div 2)" using 1(2) by (simp add: bits.simps [of n])
    have e1: "(2::int) ^ nat (bits n) = 2 * 2 ^ nat (bits (n div 2))"
      using ih(1) by (simp add: b nat_add_distrib)
    have e2: "(2::int) ^ nat (bits n - 1) = 2 * 2 ^ nat (bits (n div 2) - 1)"
    proof -
      have "nat (bits n - 1) = Suc (nat (bits (n div 2) - 1))" using ih(1) b by simp
      then show ?thesis by simp
    qed
    have "0 < bits n" using ih(1) b by simp
    then show ?thesis using half_bounds [OF ih(2) ih(3)] by (simp only: e1 e2)
  qed
qed

lemma bits_p2: "0 < n \<Longrightarrow> (2::rat) powi (bits n - 1) \<le> of_int n \<and> of_int n < (2::rat) powi bits n"
proof -
  assume n: "0 < n"
  note b = bits_bounds [OF n]
  have "(2::rat) powi (bits n - 1) = of_int (2 ^ nat (bits n - 1))" using b by (intro p2_nat) simp
  moreover have "(2::rat) powi (bits n) = of_int (2 ^ nat (bits n))" using b by (intro p2_nat) simp
  ultimately show ?thesis using b by (metis of_int_le_iff of_int_less_iff)
qed

lemma expo_bounds:
  assumes "0 < x"
  shows "2 powi expo x \<le> x" and "x < 2 powi (expo x + 1)"
proof -
  obtain a b where q: "quotient_of x = (a, b)" by fastforce
  have b: "0 < b" using q by (rule quotient_of_denom_pos)
  have x: "x = of_int a / of_int b" using q by (rule quotient_of_div)
  have a: "0 < a" using assms b unfolding x by (simp add: zero_less_divide_iff)
  let ?k = "bits a - bits b"
  note A = bits_p2 [OF a] and B = bits_p2 [OF b]
  have bp: "(0::rat) < of_int b" using b by simp
  have up: "x < 2 powi (?k + 1)"
  proof -
    have "of_int a < (2::rat) powi bits a" using A by simp
    also have "\<dots> = 2 powi (?k + 1) * 2 powi (bits b - 1)" by (simp flip: p2_add)
    also have "\<dots> \<le> 2 powi (?k + 1) * of_int b" using B by (intro mult_left_mono) auto
    finally show ?thesis using bp by (simp add: x pos_divide_less_eq)
  qed
  have lo: "2 powi (?k - 1) \<le> x"
  proof -
    have "(2::rat) powi (?k - 1) * of_int b \<le> 2 powi (?k - 1) * 2 powi bits b" using B by (intro mult_left_mono) auto
    also have "\<dots> = (2::rat) powi (bits a - 1)" by (simp flip: p2_add)
    also have "\<dots> \<le> of_int a" using A by simp
    finally show ?thesis using bp by (simp add: x pos_le_divide_eq)
  qed
  show "2 powi expo x \<le> x" using lo by (simp add: expo_def q Let_def)
  show "x < 2 powi (expo x + 1)" using up by (auto simp: expo_def q Let_def not_le)
qed

lemma p2_less_cancel: "(2::rat) powi a < 2 powi b \<Longrightarrow> a < b"
  using p2_mono [of b a] by (simp add: not_le [symmetric]) (meson not_le)

lemma expo_mono: "0 < x \<Longrightarrow> x \<le> y \<Longrightarrow> expo x \<le> expo y"
proof -
  assume x: "0 < x" and le: "x \<le> y"
  have "2 powi expo x < (2::rat) powi (expo y + 1)"
    using expo_bounds(1) [OF x] expo_bounds(2) [of y] x le by linarith
  then show ?thesis using p2_less_cancel by fastforce
qed

lemma expo_less: "0 < x \<Longrightarrow> x < 2 powi e \<Longrightarrow> expo x < e"
  using expo_bounds(1) [of x] p2_less_cancel by (metis order_le_less_trans)

lemma expo_ge: "2 powi e \<le> x \<Longrightarrow> e \<le> expo x"
  using expo_bounds(2) [of x] p2_less_cancel [of e "expo x + 1"] p2_pos [of e] by force

lemma rhe_int [simp]: "rhe (of_int n) = n"
  by (simp add: rhe_def Let_def)

lemma rhe_cases: "rhe q = \<lfloor>q\<rfloor> \<or> rhe q = \<lfloor>q\<rfloor> + 1"
  by (auto simp: rhe_def Let_def)

lemma rhe_mono: "p \<le> q \<Longrightarrow> rhe p \<le> rhe q"
proof -
  assume pq: "p \<le> q"
  have f: "\<lfloor>p\<rfloor> \<le> \<lfloor>q\<rfloor>" using pq by (rule floor_mono)
  show ?thesis
  proof (cases "\<lfloor>p\<rfloor> = \<lfloor>q\<rfloor>")
    case True
    then show ?thesis using pq by (auto simp: rhe_def Let_def)
  next
    case False
    with f rhe_cases [of p] rhe_cases [of q] show ?thesis by linarith
  qed
qed

lemma rhe_le_int: "q \<le> of_int n \<Longrightarrow> rhe q \<le> n"
  using rhe_mono [of q "of_int n"] by simp
lemma rhe_ge_int: "of_int n \<le> q \<Longrightarrow> n \<le> rhe q"
  using rhe_mono [of "of_int n" q] by simp
lemma rhe_nonneg: "0 \<le> q \<Longrightarrow> 0 \<le> rhe q"
  using rhe_ge_int [of 0 q] by simp

lemma rnd_pos_nonneg: "0 < x \<Longrightarrow> 0 \<le> rnd_pos x"
  by (simp add: rnd_pos_def rhe_nonneg)

text \<open>A multiple of a power of two that is at least the unit in the last place is a bound that rounding respects.\<close>

lemma rnd_pos_le_grid:
  assumes "0 < x" "x \<le> of_int m * 2 powi e" "ulp_expo x \<le> e"
  shows "rnd_pos x \<le> of_int m * 2 powi e"
proof -
  let ?u = "ulp_expo x" and ?d = "nat (e - ulp_expo x)"
  have e: "(2::rat) powi e = of_int (2 ^ ?d) * 2 powi ?u"
    using assms(3) p2_add [of "e - ?u" ?u] p2_nat [of "e - ?u"] by simp
  have "x / 2 powi ?u \<le> of_int (m * 2 ^ ?d)"
    using assms(2) by (simp add: pos_divide_le_eq e mult.assoc)
  then have "rhe (x / 2 powi ?u) \<le> m * 2 ^ ?d" by (rule rhe_le_int)
  then have "of_int (rhe (x / 2 powi ?u)) \<le> (of_int (m * 2 ^ ?d) :: rat)" by (simp only: of_int_le_iff)
  then have "of_int (rhe (x / 2 powi ?u)) * 2 powi ?u \<le> (of_int (m * 2 ^ ?d) :: rat) * 2 powi ?u"
    by (rule mult_right_mono) simp
  then show ?thesis by (simp add: rnd_pos_def e mult.assoc)
qed

lemma rnd_pos_ge_grid:
  assumes "0 < x" "of_int m * 2 powi e \<le> x" "ulp_expo x \<le> e"
  shows "of_int m * 2 powi e \<le> rnd_pos x"
proof -
  let ?u = "ulp_expo x" and ?d = "nat (e - ulp_expo x)"
  have e: "(2::rat) powi e = of_int (2 ^ ?d) * 2 powi ?u"
    using assms(3) p2_add [of "e - ?u" ?u] p2_nat [of "e - ?u"] by simp
  have "of_int (m * 2 ^ ?d) \<le> x / 2 powi ?u"
    using assms(2) by (simp add: pos_le_divide_eq e mult.assoc)
  then have "m * 2 ^ ?d \<le> rhe (x / 2 powi ?u)" by (rule rhe_ge_int)
  then have "(of_int (m * 2 ^ ?d) :: rat) \<le> of_int (rhe (x / 2 powi ?u))" by (simp only: of_int_le_iff)
  then have "(of_int (m * 2 ^ ?d) :: rat) * 2 powi ?u \<le> of_int (rhe (x / 2 powi ?u)) * 2 powi ?u"
    by (rule mult_right_mono) simp
  then show ?thesis by (simp add: rnd_pos_def e mult.assoc)
qed

lemma rnd_pos_grid:
  assumes "0 < x" "x = of_int m * 2 powi e" "ulp_expo x \<le> e"
  shows "rnd_pos x = x"
  using rnd_pos_le_grid [OF assms(1) _ assms(3), of m] rnd_pos_ge_grid [OF assms(1) _ assms(3), of m] assms(2)
  by force

lemma rnd_pos_mono:
  assumes "0 < x" "x \<le> y"
  shows "rnd_pos x \<le> rnd_pos y"
proof (cases "ulp_expo x = ulp_expo y")
  case True
  have "x / 2 powi ulp_expo y \<le> y / 2 powi ulp_expo y" using assms by (simp add: divide_right_mono)
  then show ?thesis using True by (simp add: rnd_pos_def rhe_mono mult_right_mono)
next
  case False
  have y: "0 < y" using assms by simp
  have le: "expo x \<le> expo y" using assms by (rule expo_mono)
  with False have ux: "ulp_expo x < ulp_expo y" and uy: "ulp_expo y = expo y - 52" and lt: "expo x < expo y"
    by (auto simp: ulp_expo_def max_def split: if_splits)
  have "x < 2 powi (expo x + 1)" using assms(1) by (rule expo_bounds)
  also have "\<dots> \<le> (2::rat) powi expo y" using lt by (intro p2_mono) simp
  finally have "x \<le> of_int 1 * 2 powi expo y" by simp
  then have "rnd_pos x \<le> of_int 1 * 2 powi expo y"
    using assms(1) ux uy by (intro rnd_pos_le_grid) auto
  also have "\<dots> \<le> rnd_pos y"
    using y uy expo_bounds(1) [OF y] by (intro rnd_pos_ge_grid) auto
  finally show ?thesis .
qed

text \<open>Rounding twice is rounding once.\<close>

lemma rnd_pos_idem:
  assumes "0 < x" "0 < rnd_pos x"
  shows "rnd_pos (rnd_pos x) = rnd_pos x"
proof -
  let ?u = "ulp_expo x" and ?m = "rhe (x / 2 powi ulp_expo x)"
  let ?y = "rnd_pos x"
  have y: "?y = of_int ?m * 2 powi ?u" by (simp add: rnd_pos_def)
  have "x < 2 powi (expo x + 1)" using assms(1) by (rule expo_bounds)
  also have "\<dots> \<le> (2::rat) powi (?u + 53)" by (intro p2_mono) (simp add: ulp_expo_def)
  finally have "x \<le> of_int (2 ^ 53) * 2 powi ?u" using p2_add [of ?u 53] p2_nat [of 53] by (simp add: mult.commute)
  then have le: "?y \<le> of_int (2 ^ 53) * 2 powi ?u" using assms(1) by (intro rnd_pos_le_grid) auto
  show ?thesis
  proof (cases "?y = of_int (2 ^ 53) * 2 powi ?u")
    case True
    then have y53: "?y = of_int 1 * 2 powi (?u + 53)" using p2_add [of ?u 53] p2_nat [of 53] by (simp add: mult.commute)
    have "expo ?y < ?u + 54" using assms(2) p2_add [of "?u + 53" 1] by (intro expo_less) (simp_all add: y53 add.commute)
    then have "ulp_expo ?y \<le> ?u + 53" by (auto simp: ulp_expo_def)
    with assms(2) y53 show ?thesis by (intro rnd_pos_grid)
  next
    case False
    with le have "?y < 2 powi (?u + 53)" using p2_add [of ?u 53] p2_nat [of 53] by (simp add: mult.commute)
    with assms(2) have "expo ?y < ?u + 53" by (rule expo_less)
    then have "ulp_expo ?y \<le> ?u" by (auto simp: ulp_expo_def)
    with assms(2) y show ?thesis by (intro rnd_pos_grid)
  qed
qed


lemma rnd_pos_cases: "0 < x \<Longrightarrow> rnd x = PInf \<and> f64_bound \<le> rnd_pos x \<or> rnd x = Fin (rnd_pos x) \<and> rnd_pos x < f64_bound"
  by (auto simp: rnd_def)

lemma rnd_neg: "rnd (- x) = fneg (rnd x)"
  by (auto simp: rnd_def)

lemma rnd_zero [simp]: "rnd 0 = Fin 0"
  by (simp add: rnd_def)

lemma rnd_not_NaN [simp]: "rnd x \<noteq> NaN"
  by (simp add: rnd_def)

lemma rnd_idem: "rnd x = Fin y \<Longrightarrow> rnd y = Fin y"
proof -
  have pos: "rnd y = Fin y" if "0 < x" "rnd x = Fin y" for x y
  proof -
    have y: "y = rnd_pos x" "rnd_pos x < f64_bound" using rnd_pos_cases [OF that(1)] that(2) by auto
    show ?thesis
    proof (cases "y = 0")
      case False
      then have "0 < y" using y(1) rnd_pos_nonneg [OF that(1)] by simp
      then show ?thesis using y rnd_pos_idem [OF that(1)] by (auto simp: rnd_def)
    qed simp
  qed
  assume r: "rnd x = Fin y"
  consider "x = 0" | "0 < x" | "0 < - x" by linarith
  then show ?thesis
  proof cases
    case 1 then show ?thesis using r by auto
  next
    case 2 then show ?thesis using r pos by blast
  next
    case 3
    have "rnd (- x) = Fin (- y)" using r by (simp add: rnd_neg)
    then have "rnd (- y) = Fin (- y)" using 3 pos by blast
    then show ?thesis using rnd_neg [of "- y"] by simp
  qed
qed

lemma is_f64_rnd [simp]: "is_f64 (rnd x)"
  by (auto simp: is_f64_def split: f64.split intro: rnd_idem)

lemma is_f64_NaN [simp]: "is_f64 NaN" and is_f64_PInf [simp]: "is_f64 PInf"
  and is_f64_NInf [simp]: "is_f64 NInf" and is_f64_zero [simp]: "is_f64 (Fin 0)"
  by (simp_all add: is_f64_def)

lemma is_f64_of_int [simp]: "is_f64 (f64_of_int i)"
  by (simp add: f64_of_int_def)

lemma is_f64_fneg: "is_f64 a \<Longrightarrow> is_f64 (fneg a)"
  by (cases a) (auto simp: is_f64_def rnd_neg)

lemma is_f64_fadd: "is_f64 a \<Longrightarrow> is_f64 b \<Longrightarrow> is_f64 (fadd a b)"
  by (cases a; cases b) auto

lemma is_f64_fsub: "is_f64 a \<Longrightarrow> is_f64 b \<Longrightarrow> is_f64 (fsub a b)"
  by (simp add: fsub_def is_f64_fadd is_f64_fneg)

lemma is_f64_inf_signed [simp]: "is_f64 (inf_signed x)"
  by (simp add: inf_signed_def)

lemma is_f64_fmul: "is_f64 (fmul a b)"
  by (cases a; cases b) auto

lemma is_f64_fdiv: "is_f64 (fdiv a b)"
  by (cases a; cases b) auto

lemma flt_irrefl [simp]: "\<not> flt a a"
  by (cases a) auto

lemma flt_trans: "flt a b \<Longrightarrow> flt b c \<Longrightarrow> flt a c"
  by (cases a; cases b; cases c) auto

lemma fle_refl: "a \<noteq> NaN \<Longrightarrow> fle a a"
  by (simp add: fle_def feq_def)

lemma fle_trans: "fle a b \<Longrightarrow> fle b c \<Longrightarrow> fle a c"
  by (auto simp: fle_def feq_def intro: flt_trans)

lemma flt_fle_trans: "flt a b \<Longrightarrow> fle b c \<Longrightarrow> flt a c"
  by (auto simp: fle_def feq_def intro: flt_trans)

lemma fle_flt_trans: "fle a b \<Longrightarrow> flt b c \<Longrightarrow> flt a c"
  by (auto simp: fle_def feq_def intro: flt_trans)

lemma fle_not_flt: "fle a b \<Longrightarrow> \<not> flt b a"
  by (cases a; cases b) (auto simp: fle_def feq_def)

lemma not_flt_fle: "a \<noteq> NaN \<Longrightarrow> b \<noteq> NaN \<Longrightarrow> \<not> flt b a \<Longrightarrow> fle a b"
  by (cases a; cases b) (auto simp: fle_def feq_def)

lemma fle_Fin [simp]: "fle (Fin x) (Fin y) \<longleftrightarrow> x \<le> y"
  by (auto simp: fle_def feq_def)

lemma fle_fneg: "fle a b \<Longrightarrow> fle (fneg b) (fneg a)"
  by (cases a; cases b) (auto simp: fle_def feq_def)

text \<open>Rounding is monotone.\<close>

lemma rnd_mono: "x \<le> y \<Longrightarrow> fle (rnd x) (rnd y)"
proof -
  have pos: "fle (rnd x) (rnd y)" if "0 < x" "x \<le> y" for x y
    using rnd_pos_cases [of x] rnd_pos_cases [of y] rnd_pos_mono [OF that] that
    by (auto simp: fle_def feq_def)
  have nonneg: "fle (Fin 0) (rnd y)" if "0 \<le> y" for y
    using that rnd_pos_cases [of y] rnd_pos_nonneg [of y] by (cases "y = 0") (auto simp: fle_def feq_def)
  assume le: "x \<le> y"
  consider "0 < x" | "x \<le> 0" "0 \<le> y" | "0 < - y" by linarith
  then show ?thesis
  proof cases
    case 1 then show ?thesis using le pos by blast
  next
    case 2
    have "fle (fneg (rnd (- x))) (fneg (Fin 0))" using 2 by (intro fle_fneg nonneg) simp
    then have "fle (rnd x) (Fin 0)" by (simp flip: rnd_neg)
    then show ?thesis using nonneg [OF 2(2)] fle_trans by blast
  next
    case 3
    then have "fle (rnd (- y)) (rnd (- x))" using le pos [of "- y" "- x"] by simp
    then have "fle (fneg (rnd (- x))) (fneg (rnd (- y)))" by (rule fle_fneg)
    then show ?thesis by (simp flip: rnd_neg)
  qed
qed

lemma rnd_le: "is_f64 (Fin y) \<Longrightarrow> x \<le> y \<Longrightarrow> fle (rnd x) (Fin y)"
  using rnd_mono [of x y] by (simp add: is_f64_def)

lemma rnd_ge: "is_f64 (Fin y) \<Longrightarrow> y \<le> x \<Longrightarrow> fle (Fin y) (rnd x)"
  using rnd_mono [of y x] by (simp add: is_f64_def)

lemma rnd_nonneg: "0 \<le> x \<Longrightarrow> fle (Fin 0) (rnd x)"
  by (rule rnd_ge) simp

text \<open>Integers up to \<open>2 ^ 53\<close> in absolute value are represented exactly.\<close>

lemma rnd_of_int:
  assumes "\<bar>n\<bar> \<le> 2 ^ 53"
  shows "rnd (of_int n) = Fin (of_int n)"
proof -
  have pos: "rnd (of_int m) = Fin (of_int m)" if m: "0 < m" "m \<le> 2 ^ 53" for m :: int
  proof -
    have le: "of_int m \<le> (2::rat) ^ 53" using m(2) by (metis of_int_le_iff of_int_numeral of_int_power)
    have "(of_int m :: rat) < 2 powi 54" using le by (simp add: power_int_def)
    then have "ulp_expo (of_int m) \<le> 53 - 52" using m(1) expo_less [of "of_int m" 54] by (simp add: ulp_expo_def)
    have r: "rnd_pos (of_int m) = of_int m"
    proof (cases "m = 2 ^ 53")
      case True
      have "(of_int m :: rat) = of_int (2 ^ 52) * 2 powi 1" using True by simp
      then show ?thesis using m(1) \<open>ulp_expo _ \<le> _\<close> by (intro rnd_pos_grid) auto
    next
      case False
      then have "m < 2 ^ 53" using m(2) by simp
      then have "(of_int m :: rat) < of_int (2 ^ 53)" by (simp only: of_int_less_iff)
      then have "expo (of_int m) < 53" using m(1) by (intro expo_less) (simp_all add: power_int_def)
      then show ?thesis using m(1) by (intro rnd_pos_grid [of _ m 0]) (auto simp: ulp_expo_def)
    qed
    have "(2::rat) ^ 53 < f64_bound" unfolding f64_bound_def by (rule power_strict_increasing) simp_all
    then show ?thesis using le r m(1) by (auto simp: rnd_def)
  qed
  consider "n = 0" | "0 < n" | "0 < - n" by linarith
  then show ?thesis
  proof cases
    case 3
    then have "rnd (of_int (- n)) = Fin (of_int (- n))" using assms by (intro pos) auto
    then show ?thesis using rnd_neg [of "of_int (- n)"] by simp
  qed (use assms pos in auto)
qed

lemma rnd_numeral [f64_simps]: "(numeral k :: int) \<le> 2 ^ 53 \<Longrightarrow> rnd (numeral k) = Fin (numeral k)"
  using rnd_of_int [of "numeral k"] by simp

lemma rnd_one [f64_simps, simp]: "rnd 1 = Fin 1"
  using rnd_of_int [of 1] by simp

lemma is_f64_one [simp]: "is_f64 (Fin 1)"
  by (simp add: is_f64_def)



text \<open>Dyadic rationals with a short numerator are represented exactly.\<close>

lemma rnd_dyadic:
  assumes "\<bar>n\<bar> < 2 ^ 53" "k \<le> 1074"
  shows "rnd (of_int n / 2 ^ k) = Fin (of_int n / 2 ^ k)"
proof -
  have pos: "rnd (of_int m / 2 ^ k) = Fin (of_int m / 2 ^ k)" if m: "0 < m" "m < 2 ^ 53" for m :: int
  proof -
    let ?x = "of_int m / (2::rat) ^ k"
    have x: "?x = of_int m * 2 powi (- int k)" by (simp add: power_int_minus divide_inverse)
    have p: "0 < ?x" using m by simp
    have lt: "of_int m < (2::rat) ^ 53" using m(2) by (metis of_int_less_iff of_int_numeral of_int_power)
    then have "?x < 2 powi 53 * 2 powi (- int k)" unfolding x by (intro mult_strict_right_mono) simp_all
    then have "expo ?x < 53 - int k" using p expo_less [of ?x "53 - int k"] p2_add [of 53 "- int k"] by simp
    then have "ulp_expo ?x \<le> - int k" using assms(2) by (simp add: ulp_expo_def)
    with p x have r: "rnd_pos ?x = ?x" by (intro rnd_pos_grid)
    have "?x \<le> of_int m" using m by (simp add: divide_le_eq)
    also have "\<dots> < 2 ^ 53" by (rule lt)
    also have "\<dots> < f64_bound" unfolding f64_bound_def by (rule power_strict_increasing) simp_all
    finally show ?thesis using r p by (auto simp: rnd_def)
  qed
  consider "n = 0" | "0 < n" | "0 < - n" by linarith
  then show ?thesis
  proof cases
    case 3
    then have "rnd (of_int (- n) / 2 ^ k) = Fin (of_int (- n) / 2 ^ k)" using assms by (intro pos) auto
    then show ?thesis using rnd_neg [of "of_int (- n) / 2 ^ k"] by simp
  qed (use assms pos in auto)
qed

text \<open>Rounding a constant: the nearest multiple of the unit in the last place.\<close>

lemma rnd_nearest:
  assumes "0 < x" "2 ^ 52 \<le> x * 2 ^ k" "x * 2 ^ k < 2 ^ 53" "\<bar>x * 2 ^ k - of_int m\<bar> < 1 / 2" "k \<le> 1074"
  shows "rnd x = Fin (of_int m / 2 ^ k)"
proof -
  have p: "(2::rat) powi (- int k) = 1 / 2 ^ k" by (simp add: power_int_minus divide_inverse)
  have "(2::rat) powi (52 - int k) \<le> x" using assms(2) p2_add[of 52 "- int k"] by (simp add: p pos_divide_le_eq)
  then have lo: "52 - int k \<le> expo x" by (rule expo_ge)
  have "x < (2::rat) powi (53 - int k)" using assms(3) p2_add[of 53 "- int k"] by (simp add: p pos_less_divide_eq)
  with assms(1) have "expo x < 53 - int k" by (rule expo_less)
  with lo assms(5) have u: "ulp_expo x = - int k" by (simp add: ulp_expo_def)
  have "rhe (x * 2 ^ k) = m"
  proof (cases "of_int m \<le> x * 2 ^ k")
    case True
    with assms(4) have "\<lfloor>x * 2 ^ k\<rfloor> = m" by linarith
    with assms(4) True show ?thesis by (simp add: rhe_def Let_def)
  next
    case False
    with assms(4) have "\<lfloor>x * 2 ^ k\<rfloor> = m - 1" by linarith
    with assms(4) False show ?thesis by (simp add: rhe_def Let_def)
  qed
  then have r: "rnd_pos x = of_int m / 2 ^ k" by (simp add: rnd_pos_def u p)
  have "x * 2 ^ k < 9007199254740992" using assms(3) by simp
  with assms(4) have "of_int m < (9007199254740993::rat)" by linarith
  then have "of_int m < (2::rat) ^ 54" by simp
  moreover have "of_int m / 2 ^ k \<le> (of_int m :: rat)" if "0 \<le> m"
    using that one_le_power[of "2::rat" k] mult_left_mono[of 1 "2 ^ k" "of_int m :: rat"] by (simp add: pos_divide_le_eq)
  moreover have "(2::rat) ^ 54 \<le> f64_bound" unfolding f64_bound_def by (rule power_increasing) simp_all
  moreover have "0 \<le> m" using assms(1,4) \<open>rhe (x * 2 ^ k) = m\<close> rhe_nonneg[of "x * 2 ^ k"] by simp
  ultimately have "of_int m / 2 ^ k < f64_bound" by linarith
  then show ?thesis using assms(1) r by (simp add: rnd_def)
qed

lemma fle_special [simp]:
  "\<not> fle NaN b" "\<not> fle a NaN" "fle a PInf \<longleftrightarrow> a \<noteq> NaN" "fle NInf a \<longleftrightarrow> a \<noteq> NaN"
  "fle PInf a \<longleftrightarrow> a = PInf" "fle a NInf \<longleftrightarrow> a = NInf"
  by (cases a; cases b; auto simp: fle_def feq_def)+

lemma flt_special [simp]:
  "\<not> flt a NaN" "\<not> flt PInf a" "\<not> flt a NInf" "flt NInf (Fin x)" "flt (Fin x) PInf" "flt NInf PInf"
  by (cases a; simp)+

lemma flt_iff_fle: "flt a b \<longleftrightarrow> fle a b \<and> a \<noteq> b"
  by (cases a; cases b) (auto simp: fle_def feq_def)

lemma fadd_nonneg: "fle (Fin 0) a \<Longrightarrow> fle (Fin 0) b \<Longrightarrow> fle (Fin 0) (fadd a b)"
  by (cases a; cases b) (auto intro: rnd_nonneg)

text \<open>Subtracting a non-negative amount does not increase a value.\<close>

lemma fsub_le: "is_f64 (Fin a) \<Longrightarrow> 0 \<le> b \<Longrightarrow> fle (fsub (Fin a) (Fin b)) (Fin a)"
  by (auto simp: fsub_def intro: rnd_le)

lemma fsub_nonneg: "b \<le> a \<Longrightarrow> fle (Fin 0) (fsub (Fin a) (Fin b))"
  by (auto simp: fsub_def intro: rnd_nonneg)

lemma fsub_neg_iff: "flt (fsub (Fin a) (Fin b)) (Fin 0) \<Longrightarrow> a < b"
  using fsub_nonneg [of b a] fle_not_flt by (meson not_le)

section \<open>Durations in seconds\<close>

text \<open>\<open>Duration.Seconds\<close>.\<close>

definition duration_seconds :: "duration \<Rightarrow> f64" where
  "duration_seconds d =
     (let sec = sgn d * (\<bar>d\<bar> div second); nsec = d - sec * second
      in fadd (f64_of_int sec) (fdiv (f64_of_int nsec) (Fin 1000000000)))"

lemma duration_seconds_0 [simp]: "duration_seconds 0 = Fin 0"
  by (simp add: duration_seconds_def f64_of_int_def)

lemma fadd_int_0: "\<bar>i\<bar> \<le> 2 ^ 53 \<Longrightarrow> fadd (Fin (of_int i)) (Fin 0) = Fin (of_int i)"
  using rnd_of_int [of i] by simp

lemma f64_int: "\<bar>n\<bar> \<le> 2 ^ 53 \<Longrightarrow> f64_of_int n = Fin (of_int n)"
  by (simp add: f64_of_int_def rnd_of_int)

lemma of_int_less_step: "x < y \<Longrightarrow> (of_int x :: rat) + 1 \<le> of_int y"
  using of_int_le_iff[of "x + 1" y] by simp

lemma fle_between: "fle (Fin a) v \<Longrightarrow> fle v (Fin b) \<Longrightarrow> \<exists>q. v = Fin q \<and> a \<le> q \<and> q \<le> b"
  by (cases v) auto

lemma is_f64_tick: "0 \<le> W \<Longrightarrow> W \<le> 2 ^ 22 \<Longrightarrow> is_f64 (Fin (of_int W + 1 / 2 ^ 30))"
proof -
  assume "0 \<le> W" "W \<le> 2 ^ 22"
  then have "\<bar>W * 2 ^ 30 + 1\<bar> < 2 ^ 53" by simp
  from rnd_dyadic[OF this, of 30] show ?thesis by (simp add: is_f64_def add_divide_distrib)
qed

lemma second_fraction:
  assumes "0 \<le> r" "r < (1000000000::int)"
  shows "\<exists>q. rnd (of_int r / 1000000000) = Fin q \<and> 0 \<le> q \<and> q \<le> 1 \<and> (r = 0 \<longrightarrow> q = 0) \<and> (0 < r \<longrightarrow> 1 / 2 ^ 30 \<le> q)"
proof -
  have r: "0 \<le> (of_int r :: rat)" "(of_int r :: rat) < 1000000000" using assms
    by simp_all
  have "fle (Fin 0) (rnd (of_int r / 1000000000))" using r by (intro rnd_nonneg) simp
  moreover have "fle (rnd (of_int r / 1000000000)) (Fin 1)" using r by (intro rnd_le) simp_all
  ultimately obtain q where q: "rnd (of_int r / 1000000000) = Fin q" "0 \<le> q" "q \<le> 1" using fle_between by blast
  have "1 / 2 ^ 30 \<le> q" if "0 < r"
  proof -
    have "1 \<le> (of_int r :: rat)" using that by simp
    then have "(1 / 2 ^ 30 :: rat) \<le> of_int r / 1000000000" by (simp add: field_simps)
    with rnd_ge[of "1 / 2 ^ 30" "of_int r / 1000000000"] is_f64_tick[of 0] q(1) show ?thesis by simp
  qed
  with q show ?thesis by auto
qed

lemma duration_seconds_value:
  assumes "0 \<le> d" "d \<le> 2 ^ 63"
  shows "\<exists>q. duration_seconds d = rnd (of_int (d div second) + q) \<and> 0 \<le> q \<and> q \<le> 1 \<and> (d mod second = 0 \<longrightarrow> q = 0) \<and>
    (0 < d mod second \<longrightarrow> 1 / 2 ^ 30 \<le> q)"
proof -
  have m: "d - d div second * second = d mod second" by (simp add: minus_div_mult_eq_mod)
  have sec: "0 \<le> d div second" "d div second \<le> 2 ^ 53"
    using assms zdiv_mono1[OF assms(2), of second] by (simp_all add: pos_imp_zdiv_nonneg_iff)
  obtain q where q: "rnd (of_int (d mod second) / 1000000000) = Fin q" "0 \<le> q" "q \<le> 1" "d mod second = 0 \<longrightarrow> q = 0"
    "0 < d mod second \<longrightarrow> 1 / 2 ^ 30 \<le> q"
    using second_fraction[of "d mod second"] by auto
  have "f64_of_int (d div second) = Fin (of_int (d div second))" using sec by (intro f64_int) auto
  moreover have "f64_of_int (d mod second) = Fin (of_int (d mod second))"
    using pos_mod_bound[of second d] pos_mod_sign[of second d] by (intro f64_int) auto
  moreover have "sgn d * (\<bar>d\<bar> div second) = d div second" using assms(1) by (cases "d = 0") auto
  ultimately show ?thesis using q by (auto simp: duration_seconds_def Let_def m)
qed

lemma duration_seconds_whole: "0 \<le> W \<Longrightarrow> W \<le> 2 ^ 22 \<Longrightarrow> duration_seconds (W * second) = Fin (of_int W)"
  using duration_seconds_value[of "W * second"] rnd_of_int[of W] by auto

lemma duration_seconds_le:
  assumes "0 \<le> W" "W \<le> 2 ^ 22" "0 \<le> d" "d \<le> W * second"
  shows "fle (duration_seconds d) (Fin (of_int W))"
proof -
  obtain q where q: "duration_seconds d = rnd (of_int (d div second) + q)" "q \<le> 1" "d mod second = 0 \<longrightarrow> q = 0"
    using duration_seconds_value[of d] assms by auto
  have d: "second * (d div second) + d mod second = d" by simp
  have "of_int (d div second) + q \<le> of_int W"
  proof (cases "d div second = W")
    case True
    then have "d mod second = 0" using d assms(4) pos_mod_sign[of second d] by linarith
    with q(3) True show ?thesis by simp
  next
    case False
    moreover have "d div second \<le> W" using zdiv_mono1[OF assms(4), of second] by simp
    ultimately have "of_int (d div second) + 1 \<le> (of_int W :: rat)" by (intro of_int_less_step) simp
    with q(2) show ?thesis by simp
  qed
  moreover have "is_f64 (Fin (of_int W))" using assms(1,2) by (simp add: is_f64_def rnd_of_int)
  ultimately show ?thesis unfolding q(1) by (intro rnd_le)
qed

lemma duration_seconds_gt:
  assumes "0 \<le> W" "W \<le> 2 ^ 22" "d \<le> 2 ^ 63" "W * second < d"
  shows "\<exists>x. duration_seconds d = Fin x \<and> of_int W + 1 / 2 ^ 30 \<le> x"
proof -
  have d0: "0 \<le> d" using assms(1,4) by (smt (verit) mult_nonneg_nonneg zero_le_numeral)
  obtain q where q: "duration_seconds d = rnd (of_int (d div second) + q)" "0 \<le> q" "q \<le> 1" "0 < d mod second \<longrightarrow> 1 / 2 ^ 30 \<le> q"
    using duration_seconds_value[OF d0 assms(3)] by auto
  have d: "second * (d div second) + d mod second = d" by simp
  have "of_int W + 1 / 2 ^ 30 \<le> of_int (d div second) + q"
  proof (cases "d div second = W")
    case True
    then have "0 < d mod second" using d assms(4) by linarith
    with q(4) True show ?thesis by simp
  next
    case False
    moreover have "W \<le> d div second" using zdiv_mono1[of "W * second" d second] assms(4) by simp
    ultimately have "of_int W + 1 \<le> (of_int (d div second) :: rat)" by (intro of_int_less_step) simp
    with q(2) show ?thesis by simp
  qed
  then have lower: "fle (Fin (of_int W + 1 / 2 ^ 30)) (duration_seconds d)"
    unfolding q(1) using is_f64_tick[OF assms(1,2)] by (intro rnd_ge)
  have "d div second \<le> 2 ^ 53 - 1" using zdiv_mono1[OF assms(3), of second] by simp
  then have "of_int (d div second) + q \<le> (of_int (2 ^ 53) :: rat)" 
    using of_int_less_step[of "d div second" "2 ^ 53"] q(3) by simp
  then have "fle (duration_seconds d) (Fin (of_int (2 ^ 53)))"
    unfolding q(1) by (intro rnd_le) (auto simp: is_f64_def rnd_of_int[of "2 ^ 53", simplified])
  from fle_between[OF lower this] show ?thesis by blast
qed

lemma duration_seconds_neg: "d < 0 \<Longrightarrow> duration_seconds d = fneg (duration_seconds (- d))"
proof -
  assume d: "d < 0"
  have neg: "f64_of_int (- i) = fneg (f64_of_int i)" for i by (simp add: f64_of_int_def rnd_neg)
  have fdivn: "fdiv (fneg a) (Fin 1000000000) = fneg (fdiv a (Fin 1000000000))" for a
    by (cases a) (auto simp: rnd_neg[symmetric])
  have faddn: "fadd (fneg a) (fneg b) = fneg (fadd a b)" for a b
    by (cases a; cases b) (auto simp: rnd_neg[symmetric])
  have "duration_seconds d = fadd (f64_of_int (- (- d div second))) (fdiv (f64_of_int (- (- d - (- d div second) * second))) (Fin 1000000000))"
    using d by (simp add: duration_seconds_def Let_def add.commute)
  also have "\<dots> = fneg (duration_seconds (- d))"
    using d by (simp only: neg fdivn faddn) (simp add: duration_seconds_def Let_def add.commute)
  finally show ?thesis .
qed

lemma seconds_exceed:
  assumes "0 \<le> W" "W \<le> 2 ^ 22" "i64_min \<le> d" "d \<le> i64_max"
  shows "flt (Fin 0) (fsub (duration_seconds d) (duration_seconds (W * second))) \<longleftrightarrow> W * second < d"
proof
  show "flt (Fin 0) (fsub (duration_seconds d) (duration_seconds (W * second)))" if gt: "W * second < d"
  proof -
    have "d \<le> 2 ^ 63" using assms(4) by (simp add: i64_max_def)
    then obtain x where x: "duration_seconds d = Fin x" "of_int W + 1 / 2 ^ 30 \<le> x"
      using duration_seconds_gt[OF assms(1,2) _ gt] by blast
    then have "(1 / 2 ^ 30 :: rat) \<le> x - of_int W" by simp
    from rnd_ge[OF _ this] is_f64_tick[of 0] have "fle (Fin (1 / 2 ^ 30)) (rnd (x - of_int W))" by simp
    then show ?thesis using x(1) duration_seconds_whole[OF assms(1,2)] by (cases "rnd (x - of_int W)") (auto simp: fsub_def)
  qed
  show "W * second < d" if gt: "flt (Fin 0) (fsub (duration_seconds d) (duration_seconds (W * second)))"
  proof (rule ccontr)
    assume le: "\<not> W * second < d"
    have "fle (duration_seconds d) (Fin (of_int W))"
    proof (cases "0 \<le> d")
      case True
      with le show ?thesis using duration_seconds_le[OF assms(1,2)] by simp
    next
      case False
      then have "0 \<le> - d" "- d \<le> 2 ^ 63" using assms(3) by (auto simp: i64_min_def)
      then obtain q where q: "duration_seconds (- d) = rnd (of_int (- d div second) + q)" "0 \<le> q" using duration_seconds_value by blast
      then have "fle (Fin 0) (duration_seconds (- d))" unfolding q(1) using \<open>0 \<le> - d\<close>
        by (intro rnd_nonneg) (simp add: pos_imp_zdiv_nonneg_iff)
      then have "fle (duration_seconds d) (Fin 0)" using False duration_seconds_neg[of d] fle_fneg[of "Fin 0"] by fastforce
      then show ?thesis using assms(1) by (metis fle_Fin fle_trans of_int_0_le_iff)
    qed
    moreover have "fle (rnd (x - of_int W)) (Fin 0)" if "x \<le> of_int W" for x
      using that by (intro rnd_le) (simp_all add: is_f64_def)
    ultimately show False using gt fle_not_flt duration_seconds_whole[OF assms(1,2)]
      by (cases "duration_seconds d") (auto simp: fsub_def)
  qed
qed

text \<open>\<open>Duration.Hours\<close>, and \<open>int(d.Hours() / 24)\<close> after the conversion below.\<close>

definition duration_hours :: "duration \<Rightarrow> f64" where
  "duration_hours d =
     (let h = sgn d * (\<bar>d\<bar> div hour); nsec = d - h * hour
      in fadd (f64_of_int h) (fdiv (f64_of_int nsec) (Fin 3600000000000)))"

section \<open>Conversions and functions of package \<open>math\<close>\<close>

text \<open>
  The conversion of a float to a 64-bit integer: truncation towards zero; a value outside the range gives the
  smallest integer (amd64).
\<close>

definition f64_to_i64 :: "f64 \<Rightarrow> int" where
  "f64_to_i64 v = (case v of
     Fin q \<Rightarrow> (let n = (if q < 0 then \<lceil>q\<rceil> else \<lfloor>q\<rfloor>) in if i64_min \<le> n \<and> n \<le> i64_max then n else i64_min)
   | _ \<Rightarrow> i64_min)"

definition whole_days :: "duration \<Rightarrow> int" where
  "whole_days d = f64_to_i64 (fdiv (duration_hours d) (Fin 24))"

text \<open>The built-in \<open>min\<close>, \<open>math.Floor\<close>, a decimal constant.\<close>

definition fmin :: "f64 \<Rightarrow> f64 \<Rightarrow> f64" where
  "fmin a b = (if a = NaN \<or> b = NaN then NaN else if flt b a then b else a)"

definition fmax :: "f64 \<Rightarrow> f64 \<Rightarrow> f64" where
  "fmax a b = (if a = NaN \<or> b = NaN then NaN else if flt a b then b else a)"

fun ffloor :: "f64 \<Rightarrow> f64" where
  "ffloor (Fin q) = Fin (of_int \<lfloor>q\<rfloor>)"
| "ffloor v = v"

definition f64_const :: "rat \<Rightarrow> f64" where
  "f64_const q = rnd q"

text \<open>\<open>math.MaxFloat64\<close>.\<close>

definition f64_max :: f64 where
  "f64_max = Fin ((2 ^ 53 - 1) * 2 ^ 971)"

text \<open>\<open>math.Sqrt\<close>, correctly rounded: the root of a double is never halfway between two doubles.\<close>

function isqrt :: "int \<Rightarrow> int" where
  "isqrt n = (if n \<le> 0 then 0 else let r = 2 * isqrt (n div 4) in if (r + 1) * (r + 1) \<le> n then r + 1 else r)"
  by pat_completeness auto
termination by (relation "measure nat") auto

declare isqrt.simps [simp del]

definition nearest_root :: "rat \<Rightarrow> int" where
  "nearest_root y = (let n = isqrt \<lfloor>y\<rfloor> in if (of_int n + 1 / 2) * (of_int n + 1 / 2) < y then n + 1 else n)"

fun fsqrt :: "f64 \<Rightarrow> f64" where
  "fsqrt (Fin x) =
     (if x < 0 then NaN else if x = 0 then Fin 0
      else let u = expo x div 2 - 52 in Fin (of_int (nearest_root (x / 2 powi (2 * u))) * 2 powi u))"
| "fsqrt PInf = PInf"
| "fsqrt v = NaN"

lemma isqrt_bounds: "0 \<le> n \<Longrightarrow> 0 \<le> isqrt n \<and> isqrt n * isqrt n \<le> n \<and> n < (isqrt n + 1) * (isqrt n + 1)"
proof (induction n rule: isqrt.induct)
  case (1 n)
  show ?case
  proof (cases "n = 0")
    case True
    then show ?thesis by (simp add: isqrt.simps)
  next
    case False
    define r where "r = isqrt (n div 4)"
    have r: "0 \<le> r" "r * r \<le> n div 4" "n div 4 < (r + 1) * (r + 1)"
      using 1 False by (simp_all add: r_def pos_imp_zdiv_nonneg_iff)
    have n: "4 * (n div 4) + n mod 4 = n" "0 \<le> n mod 4" "n mod 4 < 4" by simp_all
    have lower: "(2 * r) * (2 * r) \<le> n" using r(2) n by (simp add: algebra_simps)
    have "n div 4 + 1 \<le> (r + 1) * (r + 1)" using r(3) by linarith
    then have upper: "n < (2 * r + 2) * (2 * r + 2)" using n by (simp add: algebra_simps)
    have "isqrt n = (if (2 * r + 1) * (2 * r + 1) \<le> n then 2 * r + 1 else 2 * r)"
      using False 1(2) by (subst isqrt.simps) (simp add: r_def Let_def)
    then show ?thesis using lower upper r(1) by (auto simp: algebra_simps)
  qed
qed

lemma nearest_root_nonneg: "0 \<le> y \<Longrightarrow> 0 \<le> nearest_root y"
  using isqrt_bounds[of "\<lfloor>y\<rfloor>"] by (simp add: nearest_root_def Let_def)

lemma fsqrt_nonneg: "0 \<le> x \<Longrightarrow> fle (Fin 0) (fsqrt (Fin x))"
  using nearest_root_nonneg by (simp add: Let_def)

lemma fmin_le: "fmin a b \<noteq> NaN \<Longrightarrow> fle (fmin a b) a \<and> fle (fmin a b) b"
  by (cases a; cases b) (auto simp: fmin_def split: if_splits)

end
