(* ===== verification/Event_Bus.thy ===== *)
theory Event_Bus
  imports Atlas_Prelude
begin

text \<open>
  The in-process event bus, \<open>internal/eventbus/eventbus.go\<close>: a bounded channel of events, a
  dispatcher goroutine that hands each event to its subscribers, per-type throttling, and
  counters of what was dropped.  Payloads and handlers are type parameters.

  \<open>Publish\<close> is a Go \<open>select\<close> with a send case, a \<open>ctx.Done\<close> case and a default.  When
  both cases are ready the runtime picks one; that choice is the argument \<open>pick_send\<close>.
  A send on an unbuffered channel is ready only while the dispatcher waits in its receive,
  which is the argument \<open>rcv\<close>.  A send on a closed channel panics.
\<close>

section \<open>Events, subscribers, the bus\<close>

record 'p bus_event =
  ev_id :: string
  ev_type :: string
  ev_time :: time
  ev_payload :: 'p
  ev_description :: string
  ev_severity :: string
  ev_schema :: int

record 'h subscriber =
  sub_id :: string
  sub_handler :: 'h
  sub_critical :: bool

record handler_error =
  he_event_type :: string
  he_subscriber :: string
  he_err :: string

record throttle_entry =
  last_allowed :: time
  min_interval :: duration

record ('p, 'h) bus =
  subscribers :: "(string \<times> 'h subscriber list) list"
  all_subscribers :: "'h subscriber list"
  event_chan :: "'p bus_event list"
  chan_cap :: nat
  critical_errs :: "handler_error list"
  critical_closed :: bool
  ctx_done :: bool
  chan_closed :: bool
  publish_dropped :: nat
  publish_throttled :: nat
  handler_timeouts :: nat
  throttle_configs :: "(string \<times> throttle_entry) list"

definition NewChannelEventBus :: "nat \<Rightarrow> ('p, 'h) bus" where
  "NewChannelEventBus n =
     \<lparr>subscribers = [], all_subscribers = [], event_chan = [], chan_cap = n, critical_errs = [],
      critical_closed = False, ctx_done = False, chan_closed = False, publish_dropped = 0, publish_throttled = 0, handler_timeouts = 0,
      throttle_configs = []\<rparr>"

section \<open>Throttling\<close>

definition allowEvent :: "time \<Rightarrow> string \<Rightarrow> ('p, 'h) bus \<Rightarrow> bool \<times> ('p, 'h) bus" where
  "allowEvent now et b =
     (case map_of (throttle_configs b) et of
        None \<Rightarrow> (True, b)
      | Some e \<Rightarrow>
          if time_sub now (last_allowed e) < min_interval e then (False, b)
          else (True, b\<lparr>throttle_configs :=
                          AList.update et (e\<lparr>last_allowed := now\<rparr>) (throttle_configs b)\<rparr>))"

definition SetEventThrottle :: "string \<Rightarrow> int \<Rightarrow> ('p, 'h) bus \<Rightarrow> ('p, 'h) bus" where
  "SetEventThrottle et per_second b =
     (let iv = (if 0 < per_second then second div per_second else 0)
      in b\<lparr>throttle_configs :=
             AList.update et \<lparr>last_allowed = zero_time, min_interval = iv\<rparr> (throttle_configs b)\<rparr>)"

section \<open>Publishing\<close>

datatype pub_outcome = Sent | Throttled | DroppedClosed | DroppedFull | PanicClosedChan

definition send_ready :: "bool \<Rightarrow> ('p, 'h) bus \<Rightarrow> bool" where
  "send_ready rcv b \<longleftrightarrow>
     length (event_chan b) < chan_cap b \<or> (chan_cap b = 0 \<and> rcv \<and> event_chan b = [])"

definition Publish ::
  "bool \<Rightarrow> bool \<Rightarrow> time \<Rightarrow> 'p bus_event \<Rightarrow> ('p, 'h) bus \<Rightarrow> pub_outcome \<times> ('p, 'h) bus" where
  "Publish pick_send rcv now ev b =
     (case allowEvent now (ev_type ev) b of
        (False, b') \<Rightarrow> (Throttled, b'\<lparr>publish_throttled := publish_throttled b' + 1\<rparr>)
      | (True, b') \<Rightarrow>
          if chan_closed b' \<and> (pick_send \<or> \<not> ctx_done b') then (PanicClosedChan, b')
          else if \<not> chan_closed b' \<and> send_ready rcv b' \<and> (pick_send \<or> \<not> ctx_done b')
            then (Sent, b'\<lparr>event_chan := event_chan b' @ [ev]\<rparr>)
          else if ctx_done b' then (DroppedClosed, b'\<lparr>publish_dropped := publish_dropped b' + 1\<rparr>)
          else (DroppedFull, b'\<lparr>publish_dropped := publish_dropped b' + 1\<rparr>))"

section \<open>Subscriptions\<close>

definition subs_of :: "('p, 'h) bus \<Rightarrow> string \<Rightarrow> 'h subscriber list" where
  "subs_of b et = (case map_of (subscribers b) et of None \<Rightarrow> [] | Some l \<Rightarrow> l)"

text \<open>The identifiers are \<open>sub-\<close>, \<open>sub-all-\<close> or \<open>sub-crit-\<close> and the clock reading in nanoseconds.\<close>

definition Subscribe :: "time \<Rightarrow> string \<Rightarrow> 'h \<Rightarrow> ('p, 'h) bus \<Rightarrow> string \<times> ('p, 'h) bus" where
  "Subscribe now et h b =
     (let i = ''sub-'' @ show_int now
      in (i, b\<lparr>subscribers := AList.update et
               (subs_of b et @ [\<lparr>sub_id = i, sub_handler = h, sub_critical = False\<rparr>]) (subscribers b)\<rparr>))"

definition SubscribeAll :: "time \<Rightarrow> 'h \<Rightarrow> ('p, 'h) bus \<Rightarrow> string \<times> ('p, 'h) bus" where
  "SubscribeAll now h b =
     (let i = ''sub-all-'' @ show_int now
      in (i, b\<lparr>all_subscribers :=
               all_subscribers b @ [\<lparr>sub_id = i, sub_handler = h, sub_critical = False\<rparr>]\<rparr>))"

definition SubscribeCritical :: "time \<Rightarrow> string \<Rightarrow> 'h \<Rightarrow> ('p, 'h) bus \<Rightarrow> string \<times> ('p, 'h) bus" where
  "SubscribeCritical now et h b =
     (let i = ''sub-crit-'' @ show_int now
      in (i, b\<lparr>subscribers := AList.update et
               (subs_of b et @ [\<lparr>sub_id = i, sub_handler = h, sub_critical = True\<rparr>]) (subscribers b)\<rparr>))"

definition unsubscribe :: "string \<Rightarrow> string \<Rightarrow> ('p, 'h) bus \<Rightarrow> ('p, 'h) bus" where
  "unsubscribe et i b =
     (case map_of (subscribers b) et of
        None \<Rightarrow> b
      | Some subs \<Rightarrow> b\<lparr>subscribers := AList.update et (filter (\<lambda>s. sub_id s \<noteq> i) subs) (subscribers b)\<rparr>)"

definition unsubscribeAll :: "string \<Rightarrow> ('p, 'h) bus \<Rightarrow> ('p, 'h) bus" where
  "unsubscribeAll i b = b\<lparr>all_subscribers := filter (\<lambda>s. sub_id s \<noteq> i) (all_subscribers b)\<rparr>"

section \<open>Dispatching and closing\<close>

text \<open>\<open>dispatch\<close> starts one goroutine per recipient; the model returns the handler calls it starts.\<close>

definition dispatch :: "('p, 'h) bus \<Rightarrow> 'p bus_event \<Rightarrow> ('h subscriber \<times> 'p bus_event) list" where
  "dispatch b ev = map (\<lambda>s. (s, ev)) (subs_of b (ev_type ev)) @ map (\<lambda>s. (s, ev)) (all_subscribers b)"

text \<open>
  One turn of the dispatcher loop, a \<open>select\<close> between the event channel and \<open>ctx.Done\<close>.
  Receiving from a closed and drained channel yields the zero event at once; \<open>pick_recv\<close> is
  the runtime's choice when both cases are ready.
\<close>

datatype ('p, 'h) turn = Waiting | Returned | Dispatched "('h subscriber \<times> 'p bus_event) list" "('p, 'h) bus"

definition dispatcher_step :: "'p bus_event \<Rightarrow> bool \<Rightarrow> ('p, 'h) bus \<Rightarrow> ('p, 'h) turn" where
  "dispatcher_step zero_ev pick_recv b =
     (case event_chan b of
        ev # rest \<Rightarrow> if ctx_done b \<and> \<not> pick_recv then Returned
                     else Dispatched (dispatch b ev) (b\<lparr>event_chan := rest\<rparr>)
      | [] \<Rightarrow> if ctx_done b \<and> \<not> (chan_closed b \<and> pick_recv) then Returned
              else if chan_closed b then Dispatched (dispatch b zero_ev) b
              else Waiting)"

text \<open>
  \<open>Close\<close> cancels the context, closes the event channel, waits for the dispatcher (not for
  the handlers) and closes the channel of critical errors; \<open>None\<close> is the panic of closing a
  closed channel on a second call.
\<close>

definition Close :: "('p, 'h) bus \<Rightarrow> ('p, 'h) bus option" where
  "Close b = (if chan_closed b then None
              else Some (b\<lparr>ctx_done := True, chan_closed := True, critical_closed := True\<rparr>))"

definition subscribers_total :: "('p, 'h) bus \<Rightarrow> nat" where
  "subscribers_total b = length (all_subscribers b) + sum_list (map (length \<circ> snd) (subscribers b))"

definition Stats :: "('p, 'h) bus \<Rightarrow> (string \<times> nat) list" where
  "Stats b =
     [(''subscribers_total'', subscribers_total b),
      (''subscribers_by_type'', length (subscribers b)),
      (''channel_capacity'', chan_cap b),
      (''channel_length'', length (event_chan b)),
      (''publish_dropped'', publish_dropped b),
      (''publish_throttled'', publish_throttled b),
      (''handler_timeouts'', handler_timeouts b)]"

section \<open>Running a handler\<close>

text \<open>
  \<open>handleEvent\<close> runs the handler in a goroutine of its own and waits for it or for its context
  (30 seconds, or the context of the bus).  A run is what the handler returns (\<open>None\<close> for nil)
  and whether the wait ends by the context; a late handler still reports when it returns.  The
  deferred \<open>recover\<close> is in the waiting goroutine, so a panic of the handler, and that of a
  report on the closed error channel, is not caught: it ends the process.
\<close>

datatype handler_run = Finishes "string option" bool | HandlerPanics

datatype handled = Completed | TimedOut | ProcessDies

definition report_error :: "'h subscriber \<Rightarrow> string \<Rightarrow> string \<Rightarrow> ('p, 'h) bus \<Rightarrow> ('p, 'h) bus option" where
  "report_error sub et err b =
     (if \<not> sub_critical sub then Some b
      else if critical_closed b then None
      else if length (critical_errs b) < 10
        then Some (b\<lparr>critical_errs := critical_errs b @
                     [\<lparr>he_event_type = et, he_subscriber = sub_id sub, he_err = err\<rparr>]\<rparr>)
      else Some b)"

definition handleEvent ::
  "'h subscriber \<Rightarrow> 'p bus_event \<Rightarrow> handler_run \<Rightarrow> ('p, 'h) bus \<Rightarrow> handled \<times> ('p, 'h) bus" where
  "handleEvent sub ev run b =
     (case run of
        HandlerPanics \<Rightarrow> (ProcessDies, b)
      | Finishes err late \<Rightarrow>
          let b1 = (if late then b\<lparr>handler_timeouts := handler_timeouts b + 1\<rparr> else b)
          in case err of
               None \<Rightarrow> (if late then TimedOut else Completed, b1)
             | Some e \<Rightarrow>
                 (case report_error sub (ev_type ev) e b1 of
                    None \<Rightarrow> (ProcessDies, b1)
                  | Some b2 \<Rightarrow> (if late then TimedOut else Completed, b2)))"

text \<open>
  The reader goroutine of the critical subscription \<open>i\<close>: it receives the next error, whoever
  reported it, and passes it on only if it is its own.
\<close>

definition critical_reader :: "string \<Rightarrow> ('p, 'h) bus \<Rightarrow> string option \<times> ('p, 'h) bus" where
  "critical_reader i b =
     (case critical_errs b of
        [] \<Rightarrow> (None, b)
      | he # rest \<Rightarrow> (if he_subscriber he = i then Some (he_err he) else None, b\<lparr>critical_errs := rest\<rparr>))"

section \<open>Lemmas\<close>

lemma allowEvent_frame [frame_simps]:
  "event_chan (snd (allowEvent now et b)) = event_chan b"
  "chan_cap (snd (allowEvent now et b)) = chan_cap b"
  "ctx_done (snd (allowEvent now et b)) = ctx_done b"
  "chan_closed (snd (allowEvent now et b)) = chan_closed b"
  "publish_dropped (snd (allowEvent now et b)) = publish_dropped b"
  "publish_throttled (snd (allowEvent now et b)) = publish_throttled b"
  "subscribers (snd (allowEvent now et b)) = subscribers b"
  "all_subscribers (snd (allowEvent now et b)) = all_subscribers b"
  by (auto simp: allowEvent_def split: option.split)

lemma allowEvent_unconfigured [simp]:
  "map_of (throttle_configs b) et = None \<Longrightarrow> allowEvent now et b = (True, b)"
  by (simp add: allowEvent_def)

lemma Publish_frame [frame_simps]:
  "chan_cap (snd (Publish ps rcv now ev b)) = chan_cap b"
  "ctx_done (snd (Publish ps rcv now ev b)) = ctx_done b"
  "chan_closed (snd (Publish ps rcv now ev b)) = chan_closed b"
  "subscribers (snd (Publish ps rcv now ev b)) = subscribers b"
  "all_subscribers (snd (Publish ps rcv now ev b)) = all_subscribers b"
  using allowEvent_frame [of now "ev_type ev" b]
  by (auto simp: Publish_def split: prod.split bool.split)

text \<open>What a call of \<open>Publish\<close> adds to the queue and the counters.\<close>

definition accounted :: "('p, 'h) bus \<Rightarrow> nat" where
  "accounted b = length (event_chan b) + publish_dropped b + publish_throttled b"

lemma Publish_accounts:
  "Publish ps rcv now ev b = (out, b') \<Longrightarrow>
   accounted b' = accounted b + (if out = PanicClosedChan then 0 else 1)"
  using allowEvent_frame [of now "ev_type ev" b]
  by (auto simp: Publish_def accounted_def split: prod.splits bool.splits if_splits)

lemma Publish_queue:
  "Publish ps rcv now ev b = (out, b') \<Longrightarrow>
   event_chan b' = (if out = Sent then event_chan b @ [ev] else event_chan b)"
  using allowEvent_frame [of now "ev_type ev" b]
  by (auto simp: Publish_def split: prod.splits bool.splits if_splits)

lemma Publish_bounded:
  "length (event_chan b) \<le> max (chan_cap b) 1 \<Longrightarrow>
   length (event_chan (snd (Publish ps rcv now ev b))) \<le> max (chan_cap b) 1"
  using allowEvent_frame [of now "ev_type ev" b]
  by (auto simp: Publish_def send_ready_def split: prod.splits bool.splits)

lemma Publish_open_no_panic:
  "\<not> chan_closed b \<Longrightarrow> fst (Publish ps rcv now ev b) \<noteq> PanicClosedChan"
  using allowEvent_frame [of now "ev_type ev" b]
  by (auto simp: Publish_def split: prod.splits bool.splits)

section \<open>Runs of publications\<close>

text \<open>A sequence of \<open>Publish\<close> calls, each with its runtime choices and clock reading.\<close>

fun publish_all ::
  "(bool \<times> bool \<times> time \<times> 'p bus_event) list \<Rightarrow> ('p, 'h) bus \<Rightarrow> pub_outcome list \<times> ('p, 'h) bus" where
  "publish_all [] b = ([], b)"
| "publish_all ((ps, rcv, now, ev) # cs) b =
     (let (out, b1) = Publish ps rcv now ev b; (outs, b2) = publish_all cs b1 in (out # outs, b2))"

text \<open>The times at which events of type \<open>et\<close> passed the throttle.\<close>

fun passed_times :: "string \<Rightarrow> (bool \<times> bool \<times> time \<times> 'p bus_event) list \<Rightarrow> pub_outcome list \<Rightarrow> time list" where
  "passed_times et ((ps, rcv, now, ev) # cs) (out # outs) =
     (if ev_type ev = et \<and> out \<noteq> Throttled then now # passed_times et cs outs else passed_times et cs outs)"
| "passed_times et _ _ = []"

lemma Publish_throttles:
  assumes "Publish ps rcv now ev b = (out, b')"
  shows "throttle_configs b' = throttle_configs (snd (allowEvent now (ev_type ev) b))"
    and "out = Throttled \<longleftrightarrow> \<not> fst (allowEvent now (ev_type ev) b)"
  using assms by (auto simp: Publish_def split: prod.splits bool.splits if_splits)

lemma publish_all_spacing:
  assumes "map_of (throttle_configs b) et = Some e" "0 \<le> min_interval e" "min_interval e \<le> i64_max"
    and "publish_all cs b = (outs, b')"
  shows "sorted_wrt (\<lambda>s t. min_interval e \<le> t - s) (last_allowed e # passed_times et cs outs)"
  using assms
proof (induction cs arbitrary: b e outs)
  case Nil
  then show ?case by simp
next
  case (Cons c cs)
  obtain ps rcv now ev where c: "c = (ps, rcv, now, ev)" by (cases c) auto
  obtain out b1 where p: "Publish ps rcv now ev b = (out, b1)" by fastforce
  obtain outs1 where r: "publish_all cs b1 = (outs1, b')" and o: "outs = out # outs1"
    using Cons.prems(4) by (auto simp: c p split: prod.splits)
  note th = Publish_throttles [OF p]
  show ?case
  proof (cases "ev_type ev = et \<and> out \<noteq> Throttled")
    case True
    let ?e = "e\<lparr>last_allowed := now\<rparr>"
    have "min_interval e \<le> time_sub now (last_allowed e)"
      using True th(2) Cons.prems(1) by (auto simp: allowEvent_def split: if_splits)
    then have gap: "min_interval e \<le> now - last_allowed e"
      using Cons.prems(2,3) by (auto simp: time_sub_def i64_min_def)
    have "map_of (throttle_configs b1) et = Some ?e"
      using True th Cons.prems(1) by (auto simp: allowEvent_def split: if_splits)
    then have ih: "sorted_wrt (\<lambda>s t. min_interval e \<le> t - s) (now # passed_times et cs outs1)"
      using Cons.IH [of b1 ?e outs1] Cons.prems r by simp
    then show ?thesis using True gap Cons.prems(2) by (fastforce simp: c o)
  next
    case False
    have "map_of (throttle_configs b1) et = Some e"
      using False th Cons.prems(1) by (auto simp: allowEvent_def split: if_splits option.splits)
    then have "sorted_wrt (\<lambda>s t. min_interval e \<le> t - s) (last_allowed e # passed_times et cs outs1)"
      using Cons.IH [of b1 e outs1] Cons.prems r by simp
    then show ?thesis using False by (auto simp: c o)
  qed
qed

lemma publish_all_accounts:
  "publish_all cs b = (outs, b') \<Longrightarrow> PanicClosedChan \<notin> set outs \<Longrightarrow>
   accounted b' = accounted b + length cs \<and>
   event_chan b' = event_chan b @ map (\<lambda>((_, _, _, ev), _). ev) (filter (\<lambda>(_, out). out = Sent) (zip cs outs))"
proof (induction cs arbitrary: b outs)
  case (Cons c cs)
  obtain ps rcv now ev where c: "c = (ps, rcv, now, ev)" by (cases c) auto
  obtain out b1 where p: "Publish ps rcv now ev b = (out, b1)" by fastforce
  obtain outs1 where r: "publish_all cs b1 = (outs1, b')" and o: "outs = out # outs1"
    using Cons.prems(1) by (auto simp: c p split: prod.splits)
  show ?case
    using Cons.IH [OF r] Cons.prems(2) Publish_accounts [OF p] Publish_queue [OF p] by (auto simp: c o)
qed simp

section \<open>Critical errors\<close>

text \<open>Handler runs of critical subscriptions and turns of their readers, in the order they happen.\<close>

datatype ('p, 'h) critical_op = Handle "'h subscriber" "'p bus_event" string bool | Read string

text \<open>The errors delivered to \<open>i\<close>, and those accepted by the channel, over such a sequence.\<close>

fun critical_run ::
  "string \<Rightarrow> ('p, 'h) critical_op list \<Rightarrow> ('p, 'h) bus \<Rightarrow> string list \<times> ('p, 'h) bus" where
  "critical_run i [] b = ([], b)"
| "critical_run i (Handle sub ev e late # ops) b = critical_run i ops (snd (handleEvent sub ev (Finishes (Some e) late) b))"
| "critical_run i (Read j # ops) b =
     (let (d, b1) = critical_reader j b; (ds, b2) = critical_run i ops b1
      in ((if j = i then (case d of None \<Rightarrow> [] | Some e \<Rightarrow> [e]) else []) @ ds, b2))"

fun reported_errors :: "string \<Rightarrow> ('p, 'h) critical_op list \<Rightarrow> string list" where
  "reported_errors i [] = []"
| "reported_errors i (Handle sub ev e late # ops) =
     (if sub_critical sub \<and> sub_id sub = i then e # reported_errors i ops else reported_errors i ops)"
| "reported_errors i (Read j # ops) = reported_errors i ops"

definition pending_for :: "string \<Rightarrow> ('p, 'h) bus \<Rightarrow> string list" where
  "pending_for i b = map he_err (filter (\<lambda>he. he_subscriber he = i) (critical_errs b))"

definition handles :: "('p, 'h) critical_op list \<Rightarrow> nat" where
  "handles ops = length (filter (\<lambda>p. case p of Handle _ _ _ _ \<Rightarrow> True | Read _ \<Rightarrow> False) ops)"

definition reads_only :: "string \<Rightarrow> ('p, 'h) critical_op \<Rightarrow> bool" where
  "reads_only i p = (case p of Read j \<Rightarrow> j = i | _ \<Rightarrow> True)"

lemma handleEvent_reports:
  assumes "\<not> critical_closed b" "length (critical_errs b) < 10"
  shows "critical_errs (snd (handleEvent sub ev (Finishes (Some e) late) b)) =
           critical_errs b @ (if sub_critical sub
             then [\<lparr>he_event_type = ev_type ev, he_subscriber = sub_id sub, he_err = e\<rparr>] else [])"
    and "critical_closed (snd (handleEvent sub ev (Finishes (Some e) late) b)) = critical_closed b"
  using assms by (simp_all add: handleEvent_def report_error_def)

lemma critical_run_conserves:
  assumes "\<not> critical_closed b" "list_all (reads_only i) ops" "length (critical_errs b) + handles ops \<le> 10"
    and "critical_run i ops b = (ds, b')"
  shows "ds @ pending_for i b' = pending_for i b @ reported_errors i ops"
  using assms
proof (induction ops arbitrary: b ds)
  case (Cons p ops)
  show ?case
  proof (cases p)
    case (Handle sub ev e late)
    let ?b = "snd (handleEvent sub ev (Finishes (Some e) late) b)"
    have n: "length (critical_errs b) < 10" using Cons.prems(3) by (simp add: Handle handles_def)
    note h = handleEvent_reports [OF Cons.prems(1) n, of sub ev e late]
    have "ds @ pending_for i b' = pending_for i ?b @ reported_errors i ops"
      using Cons.prems by (intro Cons.IH) (auto simp: Handle h handles_def)
    then show ?thesis by (simp add: Handle pending_for_def h(1))
  next
    case (Read j)
    then have j: "j = i" using Cons.prems(2) by (simp add: reads_only_def)
    obtain d b1 where r: "critical_reader i b = (d, b1)" by fastforce
    obtain ds1 where t: "critical_run i ops b1 = (ds1, b')" and
      ds: "ds = (case d of None \<Rightarrow> [] | Some e \<Rightarrow> [e]) @ ds1"
      using Cons.prems(4) r by (auto simp: Read j split: prod.splits)
    have b1: "critical_closed b1 = critical_closed b" "length (critical_errs b1) \<le> length (critical_errs b)"
      "(case d of None \<Rightarrow> [] | Some e \<Rightarrow> [e]) @ pending_for i b1 = pending_for i b"
      using r by (auto simp: critical_reader_def pending_for_def split: list.splits if_splits)
    have "ds1 @ pending_for i b' = pending_for i b1 @ reported_errors i ops"
      using Cons.prems b1 by (intro Cons.IH [OF _ _ _ t]) (auto simp: Read handles_def)
    then show ?thesis using b1(3) by (simp add: Read ds)
  qed
qed (simp add: pending_for_def)

text \<open>A second critical subscription takes errors that are not its own from the shared channel.\<close>

lemma critical_error_stolen:
  assumes "\<not> critical_closed b" "critical_errs b = []" "sub_critical sub" "j \<noteq> sub_id sub"
  shows "critical_run (sub_id sub) [Handle sub ev e late, Read j, Read (sub_id sub)] b =
    ([], (if late then b\<lparr>handler_timeouts := handler_timeouts b + 1\<rparr> else b)\<lparr>critical_errs := []\<rparr>)"
  using assms by (simp add: handleEvent_def report_error_def critical_reader_def)

lemma handler_panic_kills: "fst (handleEvent sub ev HandlerPanics b) = ProcessDies"
  by (simp add: handleEvent_def)

section \<open>Properties\<close>

text \<open>C13 (bounds). After a call of SetEventThrottle for an event type with a positive number n of events per second, over any sequence of
  publications of any types made one after the other (with any clock readings and no further throttle setting): any two events of
  that type that the throttle lets through are at least 1s / n (rounded down to a nanosecond) apart, and the first one is at least that
  long after the zero time.  An event that the throttle lets through may still be dropped because the queue is full.\<close>
theorem throttle_spaces_events:
  assumes "0 < n" "publish_all cs (SetEventThrottle et n b) = (outs, b')"
  shows "sorted_wrt (\<lambda>s t. second div n \<le> t - s) (zero_time # passed_times et cs outs)"
proof -
  let ?e = "\<lparr>last_allowed = zero_time, min_interval = second div n\<rparr>"
  have e: "map_of (throttle_configs (SetEventThrottle et n b)) et = Some ?e"
    using assms(1) by (simp add: SetEventThrottle_def)
  have "second div n \<le> second" using assms(1) zdiv_mono2 [of second 1 n] by simp
  then have "0 \<le> second div n" "second div n \<le> i64_max"
    using assms(1) by (simp_all add: pos_imp_zdiv_nonneg_iff i64_max_def)
  then show ?thesis using publish_all_spacing [OF e _ _ assms(2)] by simp
qed

definition tick :: "time \<Rightarrow> bool \<times> bool \<times> time \<times> unit bus_event" where
  "tick t = (True, False, t, \<lparr>ev_id = [], ev_type = ''q'', ev_time = t, ev_payload = (), ev_description = [],
     ev_severity = [], ev_schema = 1\<rparr>)"

theorem throttle_spaces_events_witness:
  "sorted_wrt (\<lambda>s t. second div 4 \<le> t - s) [zero_time, 0, 300 * millisecond]"
proof -
  obtain outs b' where r: "publish_all [tick 0, tick (100 * millisecond), tick (300 * millisecond)]
      (SetEventThrottle ''q'' 4 (NewChannelEventBus 8 :: (unit, unit) bus)) = (outs, b')" by fastforce
  have "passed_times ''q'' [tick 0, tick (100 * millisecond), tick (300 * millisecond)] outs = [0, 300 * millisecond]"
    using r by (auto simp: tick_def Publish_def allowEvent_def SetEventThrottle_def NewChannelEventBus_def send_ready_def
        time_sub_def zero_time_def i64_max_def i64_min_def)
  then show ?thesis using throttle_spaces_events [OF _ r] by simp
qed

text \<open>
  Every publication on a bus that is not closed is accounted for exactly once: it
  is queued, counted as dropped or counted as throttled, it never panics, and the queue is the
  old queue followed by the accepted events in the order of their publication.
\<close>

theorem publications_accounted:
  assumes "\<not> chan_closed b" "publish_all cs b = (outs, b')"
  shows "accounted b' = accounted b + length cs \<and> PanicClosedChan \<notin> set outs \<and>
    event_chan b' = event_chan b @ map (\<lambda>((_, _, _, ev), _). ev) (filter (\<lambda>(_, out). out = Sent) (zip cs outs))"
proof -
  have "PanicClosedChan \<notin> set (fst (publish_all cs b))" using assms(1)
  proof (induction cs arbitrary: b)
    case (Cons c cs)
    obtain ps rcv now ev where c: "c = (ps, rcv, now, ev)" by (cases c) auto
    have "\<not> chan_closed (snd (Publish ps rcv now ev b))" using Cons.prems by (simp add: frame_simps)
    from Cons.IH [OF this] show ?case
      using Publish_open_no_panic [OF Cons.prems, of ps rcv now ev] by (auto simp: c split: prod.splits)
  qed simp
  then have "PanicClosedChan \<notin> set outs" using assms(2) by simp
  then show ?thesis using publish_all_accounts [OF assms(2)] by simp
qed

theorem publications_accounted_witness:
  "accounted (snd (publish_all [tick 0, tick 1, tick 2] (NewChannelEventBus 1 :: (unit, unit) bus))) = 3"
proof -
  let ?b = "NewChannelEventBus 1 :: (unit, unit) bus"
  have b: "\<not> chan_closed ?b" "accounted ?b = 0" by (simp_all add: NewChannelEventBus_def accounted_def)
  have "accounted (snd (publish_all [tick 0, tick 1, tick 2] ?b)) = accounted ?b + length [tick 0, tick 1, tick 2]"
    using publications_accounted [OF b(1) prod.collapse [symmetric]] by blast
  then show ?thesis using b(2) by simp
qed

text \<open>
  If a bus that is not closed has one reader of critical errors, that of
  subscription \<open>i\<close>, and at most ten errors are pending or reported, then every error the
  handlers of \<open>i\<close> return reaches the reader or is still queued, once and in order, whether the
  handler was late or not.
\<close>

theorem critical_errors_delivered:
  assumes "\<not> critical_closed b" "list_all (reads_only i) ops" "length (critical_errs b) + handles ops \<le> 10"
  shows "fst (critical_run i ops b) @ pending_for i (snd (critical_run i ops b)) =
    pending_for i b @ reported_errors i ops"
  using critical_run_conserves [OF assms prod.collapse [symmetric]] .

definition demo_sub :: "unit subscriber" where
  "demo_sub = \<lparr>sub_id = ''c'', sub_handler = (), sub_critical = True\<rparr>"

theorem critical_errors_delivered_witness:
  "fst (critical_run ''c'' [Handle demo_sub (snd (snd (snd (tick 0)))) ''e1'' True, Read ''c'',
     Handle demo_sub (snd (snd (snd (tick 0)))) ''e2'' False] (NewChannelEventBus 4)) @ [''e2''] = [''e1'', ''e2'']"
proof -
  let ?ev = "snd (snd (snd (tick 0)))"
  let ?ops = "[Handle demo_sub ?ev ''e1'' True, Read ''c'', Handle demo_sub ?ev ''e2'' False]"
  have "pending_for ''c'' (snd (critical_run ''c'' ?ops (NewChannelEventBus 4))) = [''e2'']"
    by (simp add: demo_sub_def tick_def handleEvent_def report_error_def critical_reader_def
        NewChannelEventBus_def pending_for_def)
  then show ?thesis
    using critical_errors_delivered [of "NewChannelEventBus 4 :: (unit, unit) bus" "''c''" ?ops]
    by (simp add: reads_only_def handles_def NewChannelEventBus_def pending_for_def demo_sub_def)
qed

text \<open>
  After \<open>Close\<close> a publication that passes the throttle panics or is dropped, as the runtime picks
  one of the two ready cases: the send on the closed channel or the cancelled context.
\<close>

lemma publish_after_close:
  "fst (allowEvent now (ev_type ev) b) \<Longrightarrow>
   Close b = Some b' \<Longrightarrow> fst (Publish ps rcv now ev b') = (if ps then PanicClosedChan else DroppedClosed)"
  by (auto simp: Publish_def Close_def allowEvent_def split: option.splits if_splits)

text \<open>Two subscriptions of one clock reading share an identifier: cancelling one cancels both.\<close>

lemma unsubscribe_takes_namesakes:
  "let (i, b1) = Subscribe now et h b; (j, b2) = Subscribe now et h' b1
   in i = j \<and> subs_of (unsubscribe et i b2) et = filter (\<lambda>s. sub_id s \<noteq> i) (subs_of b et)"
  by (simp add: Subscribe_def subs_of_def unsubscribe_def Let_def)

end
