(* ===== verification/Live_Nonce.thy ===== *)
theory Live_Nonce
  imports Atlas_Prelude
begin

text \<open>
  The nonce replay guards of the HTTP broker adapter (\<open>internal/live/store/nonce_store.go\<close>):
  the in-memory, file and Redis stores and the function that chooses one.

  The in-memory store is its map.  The file store is the content of its file; the failures of
  the file system during one call are the fields of a record \<open>nonce_io\<close>.  The Redis server is a
  parameter \<open>set_nx\<close>, the call \<open>SET key value NX EX ttl\<close> on a server state.  The contract of
  \<open>NonceReplayStore\<close> is the locale \<open>nonce_guard\<close>, interpreted on the two stores whose state
  the code owns.
\<close>

section \<open>Errors and stores\<close>

datatype nonce_error =
    ReplayDetected string
  | NoncePathRequired
  | LoadNonce string
  | SaveNonce string
  | NonceNilMap
  | RedisClientRequired
  | RedisFailed string
  | FileStorePathRequired
  | RedisURLRequired
  | ParseRedisURL string
  | PingRedis string
  | UnsupportedStoreType string

type_synonym nonce_items = "(string \<times> time) list"

text \<open>The expiry test of the in-memory and file stores: \<open>requestTime.Sub(ts) > ttl\<close>.\<close>

definition nonce_expired :: "time \<Rightarrow> duration \<Rightarrow> time \<Rightarrow> bool" where
  "nonce_expired requestTime ttl ts \<longleftrightarrow> ttl < time_sub requestTime ts"

text \<open>The loop that deletes the expired entries.\<close>

definition prune :: "time \<Rightarrow> duration \<Rightarrow> nonce_items \<Rightarrow> nonce_items" where
  "prune requestTime ttl items = filter (\<lambda>(n, ts). \<not> nonce_expired requestTime ttl ts) items"

lemma prune_distinct [simp]: "distinct (map fst items) \<Longrightarrow> distinct (map fst (prune t ttl items))"
  unfolding prune_def by (rule distinct_keys_filter)

lemma prune_lookup: "distinct (map fst items) \<Longrightarrow>
  map_of (prune t ttl items) n =
    (case map_of items n of None \<Rightarrow> None | Some ts \<Rightarrow> if nonce_expired t ttl ts then None else Some ts)"
  unfolding prune_def by (subst map_of_filter_key) (auto split: option.splits)

section \<open>The in-memory store\<close>

definition NewInMemoryNonceReplayStore :: nonce_items where
  "NewInMemoryNonceReplayStore = []"

definition mem_register :: "string \<Rightarrow> time \<Rightarrow> duration \<Rightarrow> nonce_items \<Rightarrow> nonce_error option \<times> nonce_items" where
  "mem_register nonce requestTime ttl items =
     (let kept = prune requestTime ttl items
      in if map_of kept nonce \<noteq> None then (Some (ReplayDetected nonce), kept)
         else (None, AList.update nonce requestTime kept))"

section \<open>The file store\<close>

text \<open>\<open>filepath.Clean\<close>: the shortest equivalent path by lexical processing.\<close>

fun path_segments :: "string \<Rightarrow> string \<Rightarrow> string list" where
  "path_segments acc [] = [rev acc]"
| "path_segments acc (c # s) = (if c = CHR ''/'' then rev acc # path_segments [] s else path_segments (c # acc) s)"

definition clean_segment :: "bool \<Rightarrow> string list \<Rightarrow> string \<Rightarrow> string list" where
  "clean_segment rooted out seg =
     (if seg = [] \<or> seg = ''.'' then out
      else if seg = ''..'' then
        (case out of
           [] \<Rightarrow> if rooted then [] else [''..'']
         | x # xs \<Rightarrow> if x = ''..'' then ''..'' # out else xs)
      else seg # out)"

fun join_path :: "string list \<Rightarrow> string" where
  "join_path [] = []"
| "join_path [s] = s"
| "join_path (s # ss) = s @ ''/'' @ join_path ss"

definition filepath_clean :: "string \<Rightarrow> string" where
  "filepath_clean p =
     (let rooted = (p \<noteq> [] \<and> hd p = CHR ''/'');
          out = join_path (rev (foldl (clean_segment rooted) [] (path_segments [] p)));
          full = (if rooted then ''/'' @ out else out)
      in if full = [] then ''.'' else full)"

lemma filepath_clean_nonempty: "filepath_clean p \<noteq> []"
  by (simp add: filepath_clean_def Let_def)

definition NewFileNonceReplayStore :: "string \<Rightarrow> string" where
  "NewFileNonceReplayStore path =
     (let trimmed = trim_space path in if trimmed = [] then [] else filepath_clean trimmed)"

text \<open>
  The file: absent, unreadable, not JSON, the JSON value \<open>null\<close> (which makes the decoded map
  nil), or a JSON object of times.  An empty file decodes to no items.
\<close>

datatype nonce_file =
    NoFile
  | Unreadable string
  | EmptyFile
  | Garbage string
  | NullFile
  | ItemsFile nonce_items

record nonce_io =
  io_mkdir :: "string option"
  io_write :: "string option"
  io_rename :: "string option"

definition io_fine :: nonce_io where
  "io_fine = \<lparr>io_mkdir = None, io_write = None, io_rename = None\<rparr>"

text \<open>\<open>Time.MarshalJSON\<close> fails on a year outside 0 to 9999.\<close>

definition json_time_ok :: "time \<Rightarrow> bool" where
  "json_time_ok t \<longleftrightarrow> -62167219200000000000 \<le> t \<and> t < 253402300800000000000"

text \<open>The decoded map: \<open>Inr None\<close> is the nil map.\<close>

definition nonce_load :: "nonce_file \<Rightarrow> nonce_error + nonce_items option" where
  "nonce_load f = (case f of
     NoFile \<Rightarrow> Inr (Some [])
   | Unreadable e \<Rightarrow> Inl (LoadNonce e)
   | EmptyFile \<Rightarrow> Inr (Some [])
   | Garbage e \<Rightarrow> Inl (LoadNonce e)
   | NullFile \<Rightarrow> Inr None
   | ItemsFile items \<Rightarrow> Inr (Some items))"

definition nonce_save :: "nonce_io \<Rightarrow> nonce_items \<Rightarrow> nonce_file \<Rightarrow> nonce_error option \<times> nonce_file" where
  "nonce_save io items f = (case io_mkdir io of Some e \<Rightarrow> (Some (SaveNonce e), f)
     | None \<Rightarrow> if \<not> list_all (\<lambda>(n, ts). json_time_ok ts) items then (Some (SaveNonce ''marshal''), f)
       else (case io_write io of Some e \<Rightarrow> (Some (SaveNonce e), f)
         | None \<Rightarrow> (case io_rename io of Some e \<Rightarrow> (Some (SaveNonce e), f)
             | None \<Rightarrow> (None, ItemsFile items))))"

definition file_register ::
  "string \<Rightarrow> nonce_io \<Rightarrow> string \<Rightarrow> time \<Rightarrow> duration \<Rightarrow> nonce_file \<Rightarrow> nonce_error option \<times> nonce_file" where
  "file_register path io nonce requestTime ttl f =
     (if trim_space path = [] then (Some NoncePathRequired, f)
      else (case nonce_load f of
        Inl e \<Rightarrow> (Some e, f)
      | Inr None \<Rightarrow> (Some NonceNilMap, f)
      | Inr (Some items) \<Rightarrow>
          (let kept = prune requestTime ttl items
           in if map_of kept nonce \<noteq> None then (Some (ReplayDetected nonce), f)
              else nonce_save io (AList.update nonce requestTime kept) f)))"

section \<open>The Redis store\<close>

datatype redis_error = RedisNil | RedisOther string

record redis_store =
  rs_client :: bool
  rs_prefix :: string

definition NewRedisNonceReplayStore :: "bool \<Rightarrow> string \<Rightarrow> redis_store" where
  "NewRedisNonceReplayStore client keyPrefix =
     (let prefix = trim_space keyPrefix;
          prefix = (if prefix = [] then ''atlas:nonce:'' else prefix);
          prefix = (if List.last prefix = CHR '':'' then prefix else prefix @ '':'')
      in \<lparr>rs_client = client, rs_prefix = prefix\<rparr>)"

definition redis_register ::
  "(string \<Rightarrow> time \<Rightarrow> duration \<Rightarrow> 'r \<Rightarrow> (string \<times> redis_error option) \<times> 'r) \<Rightarrow> redis_store \<Rightarrow>
   string \<Rightarrow> time \<Rightarrow> duration \<Rightarrow> 'r \<Rightarrow> nonce_error option \<times> 'r" where
  "redis_register set_nx st nonce requestTime ttl r =
     (if \<not> rs_client st then (Some RedisClientRequired, r)
      else let ttl' = (if ttl \<le> 0 then 5 * minute else ttl);
               ((ok, err), r') = set_nx (rs_prefix st @ nonce) requestTime ttl' r
           in if err = Some RedisNil \<or> ok = [] then (Some (ReplayDetected nonce), r')
              else (case err of Some (RedisOther e) \<Rightarrow> (Some (RedisFailed e), r') | _ \<Rightarrow> (None, r')))"

section \<open>Choosing a store\<close>

datatype nonce_choice = MemoryStore | FileStore string | RedisStore redis_store

record nonce_options =
  opt_file_path :: string
  opt_redis_url :: string
  opt_redis_prefix :: string
  opt_redis_client :: bool

text \<open>
  \<open>parse_url\<close> (\<open>redis.ParseURL\<close>) and \<open>ping\<close> answer with the error, if any.
\<close>

definition BuildNonceReplayStoreWithOptions ::
  "(string \<Rightarrow> string option) \<Rightarrow> (string \<Rightarrow> string option) \<Rightarrow> string \<Rightarrow> nonce_options \<Rightarrow> nonce_error + nonce_choice" where
  "BuildNonceReplayStoreWithOptions parse_url ping storeType opts =
     (let kind = trim_space (to_lower storeType);
          kind = (if kind = [] then ''memory'' else kind)
      in if kind = ''memory'' then Inr MemoryStore
         else if kind = ''file'' then
           (if trim_space (opt_file_path opts) = [] then Inl FileStorePathRequired
            else Inr (FileStore (NewFileNonceReplayStore (opt_file_path opts))))
         else if kind = ''redis'' then
           (if opt_redis_client opts then Inr (RedisStore (NewRedisNonceReplayStore True (opt_redis_prefix opts)))
            else if trim_space (opt_redis_url opts) = [] then Inl RedisURLRequired
            else (case parse_url (trim_space (opt_redis_url opts)) of
                Some e \<Rightarrow> Inl (ParseRedisURL e)
              | None \<Rightarrow> (case ping (trim_space (opt_redis_url opts)) of
                    Some e \<Rightarrow> Inl (PingRedis e)
                  | None \<Rightarrow> Inr (RedisStore (NewRedisNonceReplayStore True (opt_redis_prefix opts))))))
         else Inl (UnsupportedStoreType kind))"

definition BuildNonceReplayStore ::
  "(string \<Rightarrow> string option) \<Rightarrow> (string \<Rightarrow> string option) \<Rightarrow> string \<Rightarrow> string \<Rightarrow> nonce_error + nonce_choice" where
  "BuildNonceReplayStore parse_url ping storeType storePath =
     BuildNonceReplayStoreWithOptions parse_url ping storeType
       \<lparr>opt_file_path = storePath, opt_redis_url = [], opt_redis_prefix = [], opt_redis_client = False\<rparr>"

section \<open>The contract of a replay guard\<close>

text \<open>
  A sequence of registrations with one TTL.  The environment of each call (file-system
  failures) comes with the call.
\<close>

fun register_all ::
  "('e \<Rightarrow> string \<Rightarrow> time \<Rightarrow> duration \<Rightarrow> 's \<Rightarrow> 'x option \<times> 's) \<Rightarrow> duration \<Rightarrow> ('e \<times> string \<times> time) list \<Rightarrow> 's \<Rightarrow> bool list \<times> 's" where
  "register_all reg ttl [] s = ([], s)"
| "register_all reg ttl ((e, n, t) # calls) s =
     (let (err, s') = reg e n t ttl s; (oks, s'') = register_all reg ttl calls s'
      in ((err = None) # oks, s''))"

locale nonce_guard =
  fixes register :: "'e \<Rightarrow> string \<Rightarrow> time \<Rightarrow> duration \<Rightarrow> 's \<Rightarrow> 'x option \<times> 's"
    and seen :: "'s \<Rightarrow> string \<Rightarrow> time option"
    and wf :: "'s \<Rightarrow> bool"
  assumes wf_register: "wf s \<Longrightarrow> wf (snd (register e n t ttl s))"
    and accepted_seen: "wf s \<Longrightarrow> fst (register e n t ttl s) = None \<Longrightarrow> seen (snd (register e n t ttl s)) n = Some t"
    and fresh_rejected: "wf s \<Longrightarrow> seen s n = Some ts \<Longrightarrow> \<not> nonce_expired t ttl ts \<Longrightarrow>
          fst (register e n t ttl s) \<noteq> None"
    and fresh_kept: "wf s \<Longrightarrow> seen s m = Some ts \<Longrightarrow> \<not> nonce_expired t ttl ts \<Longrightarrow>
          seen (snd (register e n t ttl s)) m = Some ts"
begin

lemma recorded_blocks_until_expiry:
  assumes "wf s" "seen s n = Some t0" "j < length calls" "fst (register_all register ttl calls s) ! j"
    "fst (snd (calls ! j)) = n"
  shows "\<exists>k \<le> j. nonce_expired (snd (snd (calls ! k))) ttl t0"
  using assms
proof (induction calls arbitrary: s j)
  case (Cons c calls)
  obtain e m t where c: "c = (e, m, t)" by (cases c)
  show ?case
  proof (cases "nonce_expired t ttl t0")
    case True
    then show ?thesis using c by (intro exI [of _ 0]) simp
  next
    case False
    let ?s' = "snd (register e m t ttl s)"
    have wf': "wf ?s'" using Cons.prems(1) by (rule wf_register)
    have seen': "seen ?s' n = Some t0"
      using fresh_kept [OF Cons.prems(1) Cons.prems(2) False] .
    have run: "fst (register_all register ttl (c # calls) s) =
        (fst (register e m t ttl s) = None) # fst (register_all register ttl calls ?s')"
      by (simp add: c split: prod.split)
    show ?thesis
    proof (cases j)
      case 0
      then have "fst (register e m t ttl s) = None" "m = n"
        using Cons.prems(4) Cons.prems(5) unfolding run by (simp_all add: c)
      then show ?thesis using fresh_rejected [OF Cons.prems(1) Cons.prems(2) False] by blast
    next
      case (Suc i)
      then obtain k where "k \<le> i" "nonce_expired (snd (snd (calls ! k))) ttl t0"
        using Cons.IH [OF wf' seen', of i] Cons.prems(3-5) unfolding run by auto
      then show ?thesis using Suc by (intro exI [of _ "Suc k"]) simp
    qed
  qed
qed simp

lemma accepted_twice_apart:
  assumes "wf s" "sorted (map (\<lambda>c. snd (snd c)) calls)" "i < j" "j < length calls"
    and "fst (register_all register ttl calls s) ! i" "fst (register_all register ttl calls s) ! j"
    and "fst (snd (calls ! i)) = fst (snd (calls ! j))"
  shows "nonce_expired (snd (snd (calls ! j))) ttl (snd (snd (calls ! i)))"
  using assms
proof (induction calls arbitrary: s i j)
  case (Cons c calls)
  obtain e m t where c: "c = (e, m, t)" by (cases c)
  let ?s' = "snd (register e m t ttl s)"
  have wf': "wf ?s'" using Cons.prems(1) by (rule wf_register)
  have run: "fst (register_all register ttl (c # calls) s) =
      (fst (register e m t ttl s) = None) # fst (register_all register ttl calls ?s')"
    by (simp add: c split: prod.split)
  obtain j' where j: "j = Suc j'" using Cons.prems(3) by (cases j) auto
  show ?case
  proof (cases i)
    case 0
    have acc: "fst (register e m t ttl s) = None" using Cons.prems(5) run 0 by simp
    have "seen ?s' m = Some t" using accepted_seen [OF Cons.prems(1) acc] .
    moreover have "fst (register_all register ttl calls ?s') ! j'"
      using Cons.prems(6) unfolding run j by simp
    moreover have "fst (snd (calls ! j')) = m" "j' < length calls"
      using Cons.prems(4,7) j 0 c by simp_all
    ultimately obtain k where k: "k \<le> j'" "nonce_expired (snd (snd (calls ! k))) ttl t"
      using recorded_blocks_until_expiry [OF wf'] by blast
    have "snd (snd (calls ! k)) \<le> snd (snd (calls ! j'))"
      using Cons.prems(2,4) j k(1) sorted_nth_mono [of "map (\<lambda>c. snd (snd c)) calls" k j'] by simp
    then have "nonce_expired (snd (snd (calls ! j'))) ttl t"
      using k(2) time_sub_mono unfolding nonce_expired_def by (meson less_le_trans)
    then show ?thesis using 0 j c by simp
  next
    case (Suc i')
    then show ?thesis using Cons.IH [OF wf', of i' j'] Cons.prems(2-7) unfolding run j by simp
  qed
qed simp

end

section \<open>The two stores keep the contract\<close>

definition file_seen :: "nonce_file \<Rightarrow> string \<Rightarrow> time option" where
  "file_seen f n = (case f of ItemsFile items \<Rightarrow> map_of items n | _ \<Rightarrow> None)"

definition file_wf :: "nonce_file \<Rightarrow> bool" where
  "file_wf f \<longleftrightarrow> (case f of ItemsFile items \<Rightarrow> distinct (map fst items) | _ \<Rightarrow> True)"

lemma nonce_save_cases:
  "nonce_save io items f = (None, ItemsFile items) \<or> (\<exists>e. nonce_save io items f = (Some (SaveNonce e), f))"
  by (auto simp: nonce_save_def split: option.splits)

text \<open>A call either fails and leaves the file alone, or replaces it by the pruned and extended map.\<close>

lemma file_register_cases:
  "(\<exists>e. file_register path io n t ttl f = (Some e, f)) \<or>
   (\<exists>items. nonce_load f = Inr (Some items) \<and> map_of (prune t ttl items) n = None \<and>
      file_register path io n t ttl f = (None, ItemsFile (AList.update n t (prune t ttl items))))"
proof (cases "nonce_load f")
  case (Inr r)
  then show ?thesis
    using nonce_save_cases [of io "AList.update n t (prune t ttl (the r))" f]
    by (cases r) (auto simp: file_register_def Let_def)
qed (simp add: file_register_def)

lemma nonce_load_seen:
  "nonce_load f = Inr (Some items) \<Longrightarrow> file_wf f \<Longrightarrow> distinct (map fst items) \<and> file_seen f = map_of items"
  by (auto simp: nonce_load_def file_wf_def file_seen_def split: nonce_file.splits)

lemma file_register_ok:
  assumes "file_wf f"
  shows "(\<exists>e. file_register path io n t ttl f = (Some e, f)) \<or>
    (\<exists>items. distinct (map fst items) \<and> file_seen f = map_of items \<and> map_of (prune t ttl items) n = None \<and>
      file_register path io n t ttl f = (None, ItemsFile (AList.update n t (prune t ttl items))))"
  using file_register_cases [of path io n t ttl f] nonce_load_seen [OF _ assms] by blast

interpretation memory_guard: nonce_guard "\<lambda>_ :: unit. mem_register" map_of "\<lambda>items. distinct (map fst items)"
proof (unfold_locales, goal_cases)
  case (1 s e n t ttl)
  then show ?case by (simp add: mem_register_def Let_def distinct_keys_update)
next
  case (2 s e n t ttl)
  then show ?case by (simp add: mem_register_def Let_def split: if_splits)
next
  case (3 s n ts t ttl e)
  then show ?case by (simp add: mem_register_def Let_def prune_lookup del: map_of_eq_Some_iff)
next
  case (4 s m ts t ttl e n)
  then show ?case
    by (cases "m = n") (simp_all add: mem_register_def Let_def prune_lookup del: map_of_eq_Some_iff)
qed

interpretation file_guard: nonce_guard "file_register path" file_seen file_wf
proof (unfold_locales, goal_cases)
  case (1 s e n t ttl)
  show ?case using file_register_ok [OF 1, of path e n t ttl] 1
    by (elim disjE exE) (simp_all add: file_wf_def distinct_keys_update)
next
  case (2 s e n t ttl)
  show ?case using file_register_ok [OF 2(1), of path e n t ttl] 2(2)
    by (elim disjE exE) (simp_all add: file_seen_def)
next
  case (3 s n ts t ttl e)
  show ?case using file_register_ok [OF 3(1), of path e n t ttl] 3(2,3)
    by (elim disjE exE) (auto simp: prune_lookup simp del: map_of_eq_Some_iff)
next
  case (4 s m ts t ttl e n)
  show ?case using file_register_ok [OF 4(1), of path e n t ttl] 4(2,3)
    by (elim disjE exE) (auto simp: file_seen_def prune_lookup simp del: map_of_eq_Some_iff)
qed


section \<open>Properties\<close>

text \<open>
  C18 (safety).  A file replay guard never accepts one nonce twice within its time to live:
  in any run of registrations at non-decreasing request times, through any mixture of
  file-system failures, two accepted registrations of the same nonce lie more than \<open>ttl\<close> apart.
\<close>

theorem file_no_replay:
  assumes "file_wf f" "sorted (map (\<lambda>c. snd (snd c)) calls)" "i < j" "j < length calls"
    and "fst (register_all (file_register path) ttl calls f) ! i"
    and "fst (register_all (file_register path) ttl calls f) ! j"
    and "fst (snd (calls ! i)) = fst (snd (calls ! j))"
  shows "nonce_expired (snd (snd (calls ! j))) ttl (snd (snd (calls ! i)))"
  using assms by (rule file_guard.accepted_twice_apart)

theorem file_no_replay_witness:
  "nonce_expired 9 5 2"
  using file_no_replay [where f = NoFile and calls = "[(io_fine, ''a'', 2), (io_fine, ''a'', 4), (io_fine, ''a'', 9)]"
      and i = 0 and j = 2 and path = "''/n''" and ttl = 5]
  by (simp add: file_register_def nonce_load_def prune_def nonce_save_def io_fine_def json_time_ok_def
      nonce_expired_def time_sub_def i64_max_def i64_min_def file_wf_def trim_space_def trim_by.simps
      lead_space_def ascii_space_def wide_spaces_def starts_with_def Let_def)

text \<open>
  The in-memory replay guard, created empty, never accepts one nonce twice
  within its time to live, in any run of registrations at non-decreasing request times.
\<close>

lemma memory_no_replay:
  assumes "sorted (map (\<lambda>c. snd (snd c)) calls)" "i < j" "j < length calls"
    and "fst (register_all (\<lambda>_ :: unit. mem_register) ttl calls NewInMemoryNonceReplayStore) ! i"
    and "fst (register_all (\<lambda>_ :: unit. mem_register) ttl calls NewInMemoryNonceReplayStore) ! j"
    and "fst (snd (calls ! i)) = fst (snd (calls ! j))"
  shows "nonce_expired (snd (snd (calls ! j))) ttl (snd (snd (calls ! i)))"
  by (rule memory_guard.accepted_twice_apart [OF _ assms]) (simp add: NewInMemoryNonceReplayStore_def)

text \<open>
  The Redis guard reports every failed \<open>SET\<close> whose reply is empty, a network
  failure included, as a detected replay; the branch for other Redis errors is reached only
  with a non-empty reply.  A registration succeeds exactly on a non-empty reply without an
  error, so the guard fails closed.
\<close>

lemma redis_register_outcome:
  "fst (redis_register set_nx st nonce t ttl r) =
     (if \<not> rs_client st then Some RedisClientRequired
      else (case fst (set_nx (rs_prefix st @ nonce) t (if ttl \<le> 0 then 5 * minute else ttl) r) of
          ([], _) \<Rightarrow> Some (ReplayDetected nonce)
        | (_, None) \<Rightarrow> None
        | (_, Some RedisNil) \<Rightarrow> Some (ReplayDetected nonce)
        | (_, Some (RedisOther e)) \<Rightarrow> Some (RedisFailed e)))"
  by (auto simp: redis_register_def Let_def split: prod.split list.split option.split redis_error.split)

end
