(* ===== verification/Live_Types.thy ===== *)
theory Live_Types
  imports Float64 Event_Bus Live_Nonce
begin

text \<open>
  The data the live-trading engine passes around: orders, positions and quotes
  (\<open>internal/domain/types.go\<close>, \<open>internal/domain/shared/shared.go\<close>), broker results
  (\<open>internal/live/broker.go\<close>), the event payloads of \<open>internal/eventbus/eventbus.go\<close> that
  the engine publishes, and its errors.

  An error is a value of \<open>live_error\<close> with the data its message is formatted from; the
  message text itself is not modelled.  A wrapped error (\<open>%w\<close>) is a constructor around
  the inner one.
\<close>

section \<open>Domain records\<close>

text \<open>A trade side is a Go string; these are its named values.\<close>

definition SideBuy :: string where "SideBuy = ''BUY''"
definition SideSell :: string where "SideSell = ''SELL''"
definition SideReduce :: string where "SideReduce = ''REDUCE''"

record order =
  o_symbol :: string
  o_side :: string
  o_quantity :: int
  o_price :: f64
  o_reason :: string

record position =
  p_symbol :: string
  p_quantity :: int
  average_cost :: f64
  current_price :: f64
  market_value :: f64
  unrealized_pnl :: f64
  entry_date :: time

record quote =
  q_symbol :: string
  q_last :: f64
  q_open :: f64
  q_high :: f64
  q_low :: f64
  q_volume :: int
  q_market :: string
  q_as_of :: time
  q_tradable :: bool
  q_source :: string
  q_complete :: "bool option"
  q_trading_day :: "bool option"

record broker_result =
  br_order_id :: string
  br_status :: string
  br_fill_price :: f64
  br_reason :: string

definition empty_result :: broker_result where
  "empty_result = \<lparr>br_order_id = [], br_status = [], br_fill_price = Fin 0, br_reason = []\<rparr>"

section \<open>Circuit states and errors\<close>

text \<open>\<open>CircuitState\<close> is a Go string; a state file can hold any other string.\<close>

datatype circuit_state = CircuitNormal | CircuitPaused | CircuitHalted | CircuitOther string

datatype live_error =
    SymbolRequired
  | QuantityNotPositive
  | PriceNotPositive
  | UnsupportedSide string
  | ErrAdapterNotConfigured
  | AdapterSubmit live_error
  | TradingHalted string string int
  | DailyLossExceeds f64 f64 string string int
  | VaRExceeds f64 f64 string string int
  | RiskGateBlocked string live_error
  | AttemptFailed int int live_error
  | BrokerRejected string string
  | SubmitFailed string int live_error
  | BreakerNotInitialized
  | CircuitBlocks string string circuit_state
  | ExecuteViaManager live_error
  | OrderNotFound string
  | ConfigRequired string
  | MarshalFailed
  | CircuitBlocked string string
  | BuildRequestFailed
  | ClockSkewExceeded duration duration
  | NonceReplay string
  | NonceGuardFailed nonce_error
  | BrokerHTTP string bool
  | HTTPAttempt int int live_error
  | HTTPSubmitFailed int live_error
  | TransportFailed string
  | ReadBodyFailed string
  | APIError int string
  | DecodeFailed string
  | DMANotConnected
  | DMANotRunning
  | DMAPipe string
  | DMAIO string
  | DMAEmptyResponse
  | DMALoginFailed string
  | DMAPingFailed string
  | DMAWrapped string live_error
  | NilDereference
  | SliceOutOfRange
  | External string

section \<open>Event payloads\<close>

record order_event_payload =
  oe_order_id :: string
  oe_order :: order
  oe_status :: string
  oe_fill_price :: f64
  oe_fill_time :: time

record order_error_payload =
  oerr_order_id :: string
  oerr_symbol :: string
  oerr_side :: string
  oerr_price :: f64
  oerr_quantity :: int
  oerr_code :: string
  oerr_message :: live_error
  oerr_attempts :: int
  oerr_last_status :: string
  oerr_timestamp :: time

record risk_event_payload =
  re_symbol :: string
  re_position :: position
  re_trigger_type :: string
  re_trigger_price :: f64

record slippage_payload =
  sl_order_id :: string
  sl_symbol :: string
  sl_side :: string
  sl_quantity :: int
  sl_expected :: f64
  sl_fill :: f64
  sl_bps :: f64
  sl_cost :: f64
  sl_broker_mode :: string
  sl_timestamp :: time

text \<open>A value of a \<open>map[string]any\<close> or \<open>map[string]string\<close> payload.\<close>

datatype map_value = IntV int | FloatV f64 | TextV string | BoolV bool | IntsV "int list" | ErrorV live_error

datatype live_payload =
    OrderP order_event_payload
  | OrderErrorP order_error_payload
  | RiskP risk_event_payload
  | SlippageP slippage_payload
  | MarketP string quote time
  | PositionP string position string
  | MapP "(string \<times> map_value) list"

type_synonym live_event = "live_payload bus_event"

section \<open>The publishing helpers\<close>

definition EventMarketSnapshot :: string where "EventMarketSnapshot = ''market.snapshot''"
definition EventMarketOpen :: string where "EventMarketOpen = ''market.open''"
definition EventMarketClose :: string where "EventMarketClose = ''market.close''"
definition EventPositionUpdate :: string where "EventPositionUpdate = ''portfolio.position.update''"
definition EventOrderPlaced :: string where "EventOrderPlaced = ''order.placed''"
definition EventOrderFilled :: string where "EventOrderFilled = ''order.filled''"
definition EventOrderRejected :: string where "EventOrderRejected = ''order.rejected''"
definition EventOrderError :: string where "EventOrderError = ''order.error''"
definition EventStopLossTriggered :: string where "EventStopLossTriggered = ''risk.stoploss.triggered''"
definition EventTakeProfitTriggered :: string where "EventTakeProfitTriggered = ''risk.takeprofit.triggered''"
definition EventRiskAlert :: string where "EventRiskAlert = ''risk.alert''"
definition EventSystemStart :: string where "EventSystemStart = ''system.start''"
definition EventSystemError :: string where "EventSystemError = ''system.error''"
definition EventTradeSlippage :: string where "EventTradeSlippage = ''trade.slippage''"

lemmas event_type_defs =
  EventMarketSnapshot_def EventMarketOpen_def EventMarketClose_def EventPositionUpdate_def
  EventOrderPlaced_def EventOrderFilled_def EventOrderRejected_def EventOrderError_def
  EventStopLossTriggered_def EventTakeProfitTriggered_def EventRiskAlert_def EventSystemStart_def
  EventSystemError_def EventTradeSlippage_def

text \<open>A bus event as the publishing helpers of \<open>ChannelEventBus\<close> build it.\<close>

definition mk_event :: "time \<Rightarrow> string \<Rightarrow> live_payload \<Rightarrow> int \<Rightarrow> live_event" where
  "mk_event now ty p schema =
     \<lparr>ev_id = ''evt-'' @ show_int now, ev_type = ty, ev_time = now, ev_payload = p,
      ev_description = [], ev_severity = [], ev_schema = schema\<rparr>"

definition PublishOrderEvent :: "time \<Rightarrow> order \<Rightarrow> string \<Rightarrow> string \<Rightarrow> f64 \<Rightarrow> live_event" where
  "PublishOrderEvent now ord oid status fill =
     mk_event now
       (if status = ''filled'' then EventOrderFilled
        else if status = ''rejected'' then EventOrderRejected else EventOrderPlaced)
       (OrderP \<lparr>oe_order_id = oid, oe_order = ord, oe_status = status,
                oe_fill_price = (if status = ''filled'' then fill else Fin 0),
                oe_fill_time = (if status = ''filled'' then now else zero_time)\<rparr>) 1"

definition PublishOrderError ::
  "time \<Rightarrow> string \<Rightarrow> order \<Rightarrow> string \<Rightarrow> live_error \<Rightarrow> int \<Rightarrow> string \<Rightarrow> live_event" where
  "PublishOrderError now oid ord code msg attempts lstat =
     mk_event now EventOrderError
       (OrderErrorP \<lparr>oerr_order_id = oid, oerr_symbol = o_symbol ord, oerr_side = o_side ord,
                     oerr_price = o_price ord, oerr_quantity = o_quantity ord, oerr_code = code,
                     oerr_message = msg, oerr_attempts = attempts, oerr_last_status = lstat,
                     oerr_timestamp = now\<rparr>) 1"

definition PublishRiskEvent :: "time \<Rightarrow> string \<Rightarrow> string \<Rightarrow> position \<Rightarrow> string \<Rightarrow> f64 \<Rightarrow> live_event" where
  "PublishRiskEvent now ty symb pos trig price =
     mk_event now ty (RiskP \<lparr>re_symbol = symb, re_position = pos, re_trigger_type = trig,
                             re_trigger_price = price\<rparr>) 1"

definition PublishTradeSlippage :: "time \<Rightarrow> slippage_payload \<Rightarrow> live_event" where
  "PublishTradeSlippage now p = (mk_event now EventTradeSlippage (SlippageP p) 1)\<lparr>ev_severity := ''info''\<rparr>"

definition PublishMarketSnapshot :: "time \<Rightarrow> quote \<Rightarrow> live_event" where
  "PublishMarketSnapshot now q = mk_event now EventMarketSnapshot (MarketP (q_symbol q) q now) 1"

definition PublishPositionUpdate :: "time \<Rightarrow> string \<Rightarrow> position \<Rightarrow> string \<Rightarrow> live_event" where
  "PublishPositionUpdate now symb pos change = mk_event now EventPositionUpdate (PositionP symb pos change) 1"

end
