(* ===== verification/Live_Broker.thy ===== *)
theory Live_Broker
  imports Live_Types
begin

text \<open>
  The broker interface of the live engine (\<open>internal/live/broker.go\<close>, \<open>mock_adapter.go\<close>):
  the order validation every broker starts with, the dry-run broker, the guarded live broker
  around an optional adapter, and the mock adapter.

  \<open>SubmitOrder\<close> is a function from an order and the state of the broker (with everything
  behind it: network, exchange) to the result, the error and the next state.  Go returns the
  result and the error side by side, so both are there.
\<close>

type_synonym 's submit = "order \<Rightarrow> 's \<Rightarrow> (broker_result \<times> live_error option) \<times> 's"

section \<open>Validation\<close>

definition validateOrder :: "order \<Rightarrow> live_error option" where
  "validateOrder ord =
     (if trim_space (o_symbol ord) = [] then Some SymbolRequired
      else if o_quantity ord \<le> 0 then Some QuantityNotPositive
      else if fle (o_price ord) (Fin 0) then Some PriceNotPositive
      else if o_side ord \<noteq> SideBuy \<and> o_side ord \<noteq> SideSell then Some (UnsupportedSide (o_side ord))
      else None)"

text \<open>A NaN price is not \<open>\<le> 0\<close>, so it passes.\<close>

lemma validateOrder_None:
  "validateOrder ord = None \<longleftrightarrow>
     trim_space (o_symbol ord) \<noteq> [] \<and> 0 < o_quantity ord \<and>
     (o_price ord = NaN \<or> flt (Fin 0) (o_price ord)) \<and> (o_side ord = SideBuy \<or> o_side ord = SideSell)"
  by (cases "o_price ord") (auto simp: validateOrder_def)

section \<open>The brokers\<close>

text \<open>\<open>DryRunBroker\<close> has no state.\<close>

definition dryrun_submit :: "'s submit" where
  "dryrun_submit ord s =
     (case validateOrder ord of
        Some e \<Rightarrow> ((empty_result, Some e), s)
      | None \<Rightarrow>
          ((\<lparr>br_order_id = ''dryrun-'' @ o_symbol ord @ ''-'' @ show_int (o_quantity ord),
             br_status = ''filled'', br_fill_price = o_price ord, br_reason = ''dry-run execution''\<rparr>, None), s))"

text \<open>\<open>MockLiveAdapter\<close>, which does not validate.\<close>

definition mock_submit :: "'s submit" where
  "mock_submit ord s =
     ((\<lparr>br_order_id = ''mocklive-'' @ o_symbol ord @ ''-'' @ show_int (o_quantity ord),
        br_status = ''filled'', br_fill_price = o_price ord, br_reason = ''mock live adapter execution''\<rparr>, None), s)"

text \<open>\<open>GuardedLiveBroker\<close> around its adapter (\<open>None\<close> when not configured).\<close>

definition guarded_submit :: "'s submit option \<Rightarrow> 's submit" where
  "guarded_submit adapter ord s =
     (case validateOrder ord of
        Some e \<Rightarrow> ((empty_result, Some e), s)
      | None \<Rightarrow> (case adapter of
            None \<Rightarrow> ((empty_result\<lparr>br_status := ''rejected'', br_reason := ''live broker adapter not configured''\<rparr>,
                      Some ErrAdapterNotConfigured), s)
          | Some submit \<Rightarrow>
              (let ((result, err), s') = submit ord s
               in case err of
                    Some e \<Rightarrow> ((empty_result, Some (AdapterSubmit e)), s')
                  | None \<Rightarrow>
                      ((if trim_space (br_status result) = [] then result\<lparr>br_status := ''placed''\<rparr> else result, None), s'))))"

definition dryrun_mode :: string where "dryrun_mode = ''dry-run''"
definition guarded_mode :: string where "guarded_mode = ''live''"

section \<open>What a client of a broker may rely on\<close>

text \<open>
  The contract of \<open>Broker.SubmitOrder\<close> that the order manager uses: an order that fails the
  validation is refused before anything happens, and an accepted submission has a status.
\<close>

locale broker_contract =
  fixes submit :: "'s submit"
  assumes invalid_refused:
      "validateOrder ord = Some e \<Longrightarrow> submit ord s = ((empty_result, Some e), s)"
    and accepted_status:
      "submit ord s = ((result, None), s') \<Longrightarrow> trim_space (br_status result) \<noteq> []"
begin

lemma accepted_valid: "submit ord s = ((result, None), s') \<Longrightarrow> validateOrder ord = None"
  using invalid_refused by (cases "validateOrder ord") auto

lemma accepted_positive: "submit ord s = ((result, None), s') \<Longrightarrow> 0 < o_quantity ord"
  using accepted_valid validateOrder_None by blast

end

lemma trim_literals [simp]:
  "trim_space ''filled'' = ''filled''" "trim_space ''placed'' = ''placed''"
  "trim_space ''rejected'' = ''rejected''"
  by (simp_all add: trim_space_def trim_by.simps lead_space_def ascii_space_def wide_spaces_def starts_with_def)

interpretation dry_broker: broker_contract "dryrun_submit"
  by unfold_locales (auto simp: dryrun_submit_def split: option.splits)

interpretation guarded_broker: broker_contract "guarded_submit adapter"
  by unfold_locales (auto simp: guarded_submit_def Let_def split: option.splits prod.splits if_splits)

end
