(* ===== verification/Live_HTTP.thy ===== *)
theory Live_HTTP
  imports Live_Broker
begin

text \<open>
  The HTTP broker adapter (\<open>internal/live/http_adapter.go\<close>): its construction from the
  configuration, the choice of a signer, the checks before the first request (signer
  configuration, clock skew, nonce registration), the retry loop and the classification of
  the broker's answers.

  The exchange is the function \<open>do_req\<close>, from a request and a world to a reply and the next
  world.  The body is carried as the order it is encoded from, a signature as the term that
  says which algorithm was applied to which data; SHA-256 of the idempotency key and the JSON
  decoding of the answer are parameters.  The nonce guard is the operation \<open>register\<close> of
  \<open>Live_Nonce\<close>.
\<close>

section \<open>Signers\<close>

datatype signer = PlaceholderSigner | DeadSigner | HmacSHA256Signer

datatype signature =
    PlaceholderSig order string time string
  | HmacSig string order string time string
  | EmptySig

fun signer_name :: "signer \<Rightarrow> string" where
  "signer_name PlaceholderSigner = ''placeholder''"
| "signer_name DeadSigner = ''dead''"
| "signer_name HmacSHA256Signer = ''hmac-sha256''"

fun signer_version :: "signer \<Rightarrow> string" where
  "signer_version PlaceholderSigner = ''v1''"
| "signer_version DeadSigner = ''v0''"
| "signer_version HmacSHA256Signer = ''v1''"

text \<open>
  \<open>Sign(payload, secret, timestamp, nonce)\<close>.  Both hashes cover the secret, the time stamp,
  the nonce and the payload; the HMAC is also keyed with the secret.
\<close>

fun sign_request :: "signer \<Rightarrow> order \<Rightarrow> string \<Rightarrow> time \<Rightarrow> string \<Rightarrow> signature" where
  "sign_request PlaceholderSigner payload secret timestamp nonce = PlaceholderSig payload secret timestamp nonce"
| "sign_request DeadSigner payload secret timestamp nonce = EmptySig"
| "sign_request HmacSHA256Signer payload secret timestamp nonce = HmacSig secret payload secret timestamp nonce"

definition selectSigner :: "string \<Rightarrow> string \<times> signer" where
  "selectSigner s =
     (let name = trim_space (to_lower s)
      in if name = ''hmac-sha256'' then (''hmac-sha256'', HmacSHA256Signer)
         else if name = ''placeholder'' \<or> name = [] then (''placeholder'', PlaceholderSigner)
         else (''dead'', DeadSigner))"

section \<open>Configuration\<close>

definition trim_right_slash :: "string \<Rightarrow> string" where
  "trim_right_slash s = rev (dropWhile (\<lambda>c. c = CHR ''/'') (rev s))"

definition defaultRetryableStatusCodes :: "int list" where
  "defaultRetryableStatusCodes = [408, 425, 429, 500, 502, 503, 504]"

text \<open>The set of retryable codes as the list of its members.\<close>

definition toRetryableStatusCodeSet :: "int list \<Rightarrow> int list" where
  "toRetryableStatusCodeSet codes =
     filter (\<lambda>code. 400 \<le> code \<and> code \<le> 599) (if codes = [] then defaultRetryableStatusCodes else codes)"

record http_config =
  hc_base_url :: string
  hc_api_key :: string
  hc_api_secret :: string
  hc_key_id :: string
  hc_timeout :: duration
  hc_max_attempts :: int
  hc_retry_codes :: "int list"
  hc_max_clock_skew :: duration
  hc_nonce_ttl :: duration
  hc_signer :: string

record http_adapter =
  ha_base_url :: string
  ha_api_key :: string
  ha_api_secret :: string
  ha_key_id :: string
  ha_timeout :: duration
  ha_max_attempts :: int
  ha_retry_codes :: "int list"
  ha_signer_name :: string
  ha_signer_ver :: string
  ha_signer :: signer
  ha_max_clock_skew :: duration
  ha_nonce_ttl :: duration

definition NewHTTPBrokerAdapter :: "http_config \<Rightarrow> http_adapter" where
  "NewHTTPBrokerAdapter cfg =
     (let (name, sg) = selectSigner (hc_signer cfg)
      in \<lparr>ha_base_url = trim_right_slash (trim_space (hc_base_url cfg)),
          ha_api_key = trim_space (hc_api_key cfg),
          ha_api_secret = trim_space (hc_api_secret cfg),
          ha_key_id = (if trim_space (hc_key_id cfg) = [] then ''default'' else trim_space (hc_key_id cfg)),
          ha_timeout = (if hc_timeout cfg \<le> 0 then 5 * second else hc_timeout cfg),
          ha_max_attempts = (if hc_max_attempts cfg \<le> 0 then 1 else hc_max_attempts cfg),
          ha_retry_codes = toRetryableStatusCodeSet (hc_retry_codes cfg),
          ha_signer_name = name, ha_signer_ver = signer_version sg, ha_signer = sg,
          ha_max_clock_skew = max (hc_max_clock_skew cfg) 0,
          ha_nonce_ttl = (if hc_nonce_ttl cfg \<le> 0 then 5 * minute else hc_nonce_ttl cfg)\<rparr>)"

section \<open>Checks before the first request\<close>

definition validateSignerConfig :: "http_adapter \<Rightarrow> live_error option" where
  "validateSignerConfig a =
     (if ha_signer_name a = ''hmac-sha256'' \<and> trim_space (ha_api_secret a) = []
      then Some (BrokerHTTP ''signer.misconfigured'' False) else None)"

text \<open>The negation of the smallest \<open>Duration\<close> is itself, as in Go.\<close>

definition validateClockSkew :: "http_adapter \<Rightarrow> time \<Rightarrow> time \<Rightarrow> live_error option" where
  "validateClockSkew a now requestTime =
     (if ha_max_clock_skew a \<le> 0 then None
      else let delta = time_sub now requestTime;
               delta = (if delta < 0 then wrap64 (- delta) else delta)
           in if delta > ha_max_clock_skew a then Some (ClockSkewExceeded delta (ha_max_clock_skew a)) else None)"

definition registerRequestNonce ::
  "(string \<Rightarrow> time \<Rightarrow> duration \<Rightarrow> 'n \<Rightarrow> nonce_error option \<times> 'n) \<Rightarrow> http_adapter \<Rightarrow> string \<Rightarrow> time \<Rightarrow> 'n
    \<Rightarrow> live_error option \<times> 'n" where
  "registerRequestNonce register a nonce requestTime ns =
     (let (err, ns') = register nonce requestTime (ha_nonce_ttl a) ns
      in case err of
           None \<Rightarrow> (None, ns')
         | Some (ReplayDetected _) \<Rightarrow> (Some (NonceReplay nonce), ns')
         | Some e \<Rightarrow> (Some (NonceGuardFailed e), ns'))"

section \<open>One request\<close>

record http_request =
  hr_url :: string
  hr_body :: order
  hr_api_key :: string
  hr_signature :: signature
  hr_sig_method :: string
  hr_sig_version :: string
  hr_key_id :: string
  hr_idempotency :: string
  hr_timestamp :: time
  hr_nonce :: string

datatype http_reply =
    BadRequest
  | Transport bool string
  | Response int string

text \<open>\<open>BadRequest\<close>: \<open>http.NewRequest\<close> refused the URL; \<open>Transport canceled msg\<close>: no answer.\<close>

record order_reply =
  or_order_id :: string
  or_status :: string
  or_fill_price :: f64
  or_reason :: string

definition empty_reply :: order_reply where
  "empty_reply = \<lparr>or_order_id = [], or_status = [], or_fill_price = Fin 0, or_reason = []\<rparr>"

definition classifyBrokerErrorCode :: "int \<Rightarrow> string" where
  "classifyBrokerErrorCode code =
     (if code = 401 \<or> code = 403 then ''auth.signature_invalid''
      else if code = 429 then ''throttle.rate_limited''
      else if code = 400 \<or> code = 422 then ''request.invalid''
      else if code \<ge> 500 then ''server.unavailable''
      else ''request.rejected'')"

definition isRetryableBrokerError :: "live_error \<Rightarrow> bool" where
  "isRetryableBrokerError e = (case e of BrokerHTTP _ retryable \<Rightarrow> retryable | _ \<Rightarrow> False)"

text \<open>What \<open>sendOrderRequest\<close> makes of a reply.\<close>

definition broker_reply ::
  "(string \<Rightarrow> order_reply option) \<Rightarrow> http_adapter \<Rightarrow> http_reply \<Rightarrow> live_error + broker_result" where
  "broker_reply decode a reply = (case reply of
     BadRequest \<Rightarrow> Inl (BrokerHTTP ''request.build_error'' False)
   | Transport canceled _ \<Rightarrow> Inl (BrokerHTTP ''transport.request_failed'' (\<not> canceled))
   | Response code body \<Rightarrow>
       if code \<ge> 400 then Inl (BrokerHTTP (classifyBrokerErrorCode code) (code \<in> set (ha_retry_codes a)))
       else (case (if body = [] then Some empty_reply else decode body) of
           None \<Rightarrow> Inl (BrokerHTTP ''response.decode_error'' False)
         | Some p \<Rightarrow> Inr \<lparr>br_order_id = or_order_id p,
             br_status = (if trim_space (or_status p) = [] then ''placed'' else or_status p),
             br_fill_price = or_fill_price p, br_reason = or_reason p\<rparr>))"

definition order_request :: "http_adapter \<Rightarrow> order \<Rightarrow> string \<Rightarrow> time \<Rightarrow> string \<Rightarrow> http_request" where
  "order_request a body idempotencyKey timestamp nonce =
     \<lparr>hr_url = ha_base_url a @ ''/orders'', hr_body = body, hr_api_key = ha_api_key a,
      hr_signature = sign_request (ha_signer a) body (ha_api_secret a) timestamp nonce,
      hr_sig_method = ha_signer_name a, hr_sig_version = ha_signer_ver a, hr_key_id = ha_key_id a,
      hr_idempotency = idempotencyKey, hr_timestamp = timestamp, hr_nonce = nonce\<rparr>"

definition sendOrderRequest ::
  "(http_request \<Rightarrow> 'w \<Rightarrow> http_reply \<times> 'w) \<Rightarrow> (string \<Rightarrow> order_reply option) \<Rightarrow> http_adapter \<Rightarrow>
   order \<Rightarrow> string \<Rightarrow> time \<Rightarrow> string \<Rightarrow> 'w \<Rightarrow> (live_error + broker_result) \<times> 'w" where
  "sendOrderRequest do_req decode a body idempotencyKey timestamp nonce w =
     (let (reply, w') = do_req (order_request a body idempotencyKey timestamp nonce) w
      in (broker_reply decode a reply, w'))"

section \<open>The idempotency key\<close>

text \<open>The verb \<open>%.6f\<close>: six decimals, rounded to the nearest, ties to even on the exact value.\<close>

definition fmt_f6 :: "f64 \<Rightarrow> string" where
  "fmt_f6 v = (case v of NaN \<Rightarrow> ''NaN'' | PInf \<Rightarrow> ''+Inf'' | NInf \<Rightarrow> ''-Inf''
   | Fin r \<Rightarrow>
       (let n = rhe (\<bar>r\<bar> * 1000000);
            frac = show_int (n mod 1000000)
        in (if r < 0 then ''-'' else []) @ show_int (n div 1000000) @ ''.'' @ replicate (6 - length frac) (CHR ''0'') @ frac))"

definition orderIdempotencyKey :: "(string \<Rightarrow> string) \<Rightarrow> order \<Rightarrow> string" where
  "orderIdempotencyKey sha256_hex ord =
     (let base = o_symbol ord @ ''|'' @ o_side ord @ ''|'' @ show_int (o_quantity ord) @ ''|'' @
                 fmt_f6 (o_price ord) @ ''|'' @ o_reason ord
      in ''atlas-'' @ take 32 (sha256_hex base))"

section \<open>SubmitOrder\<close>

text \<open>
  The loop \<open>for attempt := 1; attempt <= maxAttempts\<close>; \<open>k\<close> is the number of attempts left
  and \<open>lastErr\<close> the last wrapped error.
\<close>

fun http_attempts ::
  "('w \<Rightarrow> (live_error + broker_result) \<times> 'w) \<Rightarrow> int \<Rightarrow> nat \<Rightarrow> live_error \<Rightarrow> 'w \<Rightarrow> (live_error + broker_result) \<times> 'w" where
  "http_attempts send maxAttempts 0 lastErr w = (Inl (HTTPSubmitFailed maxAttempts lastErr), w)"
| "http_attempts send maxAttempts (Suc k) lastErr w =
     (case send w of
        (Inr res, w') \<Rightarrow> (Inr res, w')
      | (Inl e, w') \<Rightarrow>
          (let lastErr' = HTTPAttempt (maxAttempts - int k) maxAttempts e
           in if isRetryableBrokerError e then http_attempts send maxAttempts k lastErr' w'
              else (Inl (HTTPSubmitFailed maxAttempts lastErr'), w')))"

text \<open>
  The whole handler.  \<open>now\<close> is \<open>nowFn()\<close>, \<open>clock\<close> is \<open>currentTimeFn()\<close>, \<open>nonce\<close> and
  \<open>fallback\<close> what \<open>nonceFn\<close> and \<open>defaultRequestNonce\<close> return.  \<open>json.Marshal\<close> of the payload
  fails when the price is not finite.
\<close>

definition http_submit ::
  "(http_request \<Rightarrow> 'w \<Rightarrow> http_reply \<times> 'w) \<Rightarrow> (string \<Rightarrow> order_reply option) \<Rightarrow> (string \<Rightarrow> string) \<Rightarrow>
   (string \<Rightarrow> time \<Rightarrow> duration \<Rightarrow> 'n \<Rightarrow> nonce_error option \<times> 'n) \<Rightarrow>
   time \<Rightarrow> time \<Rightarrow> string \<Rightarrow> string \<Rightarrow> http_adapter \<Rightarrow> ('w \<times> 'n) submit" where
  "http_submit do_req decode sha256_hex register now clock nonce fallback a ord s =
     (let (w, ns) = s
      in case validateOrder ord of Some e \<Rightarrow> ((empty_result, Some e), s)
      | None \<Rightarrow>
        if ha_base_url a = [] then ((empty_result, Some (ConfigRequired ''base url'')), s)
        else if ha_api_key a = [] then ((empty_result, Some (ConfigRequired ''api key'')), s)
        else case validateSignerConfig a of Some e \<Rightarrow> ((empty_result, Some e), s)
        | None \<Rightarrow>
          if (case o_price ord of Fin _ \<Rightarrow> False | _ \<Rightarrow> True) then ((empty_result, Some MarshalFailed), s)
          else case validateClockSkew a clock now of Some e \<Rightarrow> ((empty_result, Some e), s)
          | None \<Rightarrow>
            (let key = orderIdempotencyKey sha256_hex ord;
                 nonce' = (if trim_space nonce = [] then fallback else nonce);
                 (nerr, ns') = registerRequestNonce register a nonce' now ns
             in case nerr of Some e \<Rightarrow> ((empty_result, Some e), (w, ns'))
             | None \<Rightarrow>
               (case http_attempts (sendOrderRequest do_req decode a ord key now nonce')
                       (ha_max_attempts a) (nat (ha_max_attempts a)) NilDereference w of
                  (Inr res, w') \<Rightarrow> ((res, None), (w', ns'))
                | (Inl e, w') \<Rightarrow> ((empty_result, Some e), (w', ns')))))"

section \<open>The attempts against a server\<close>

text \<open>
  A world that records the requests: the server answers the \<open>i\<close>-th request it ever got with
  \<open>server i\<close>.
\<close>

definition logged :: "(nat \<Rightarrow> http_reply) \<Rightarrow> http_request \<Rightarrow> http_request list \<Rightarrow> http_reply \<times> http_request list" where
  "logged server req reqs = (server (length reqs), reqs @ [req])"

definition retryable_reply :: "(string \<Rightarrow> order_reply option) \<Rightarrow> http_adapter \<Rightarrow> http_reply \<Rightarrow> bool" where
  "retryable_reply decode a r = (case broker_reply decode a r of Inl e \<Rightarrow> isRetryableBrokerError e | Inr _ \<Rightarrow> False)"

lemma retryable_reply_iff:
  "retryable_reply decode a r \<longleftrightarrow>
     (case r of Transport canceled _ \<Rightarrow> \<not> canceled
      | Response code _ \<Rightarrow> 400 \<le> code \<and> code \<in> set (ha_retry_codes a) | BadRequest \<Rightarrow> False)"
  by (auto simp: retryable_reply_def broker_reply_def isRetryableBrokerError_def split: http_reply.splits option.splits)

lemma http_attempts_run:
  assumes "0 < k"
  shows "\<exists>n. 1 \<le> n \<and> n \<le> k \<and>
     snd (http_attempts (sendOrderRequest (logged server) decode a ord key ts nonce) m k le l) =
       l @ replicate n (order_request a ord key ts nonce) \<and>
     (\<forall>i < n - 1. retryable_reply decode a (server (length l + i))) \<and>
     (n < k \<longrightarrow> \<not> retryable_reply decode a (server (length l + n - 1))) \<and>
     fst (http_attempts (sendOrderRequest (logged server) decode a ord key ts nonce) m k le l) =
       (case broker_reply decode a (server (length l + n - 1)) of
          Inr res \<Rightarrow> Inr res
        | Inl e \<Rightarrow> Inl (HTTPSubmitFailed m (HTTPAttempt (m - int (k - n)) m e)))"
  using assms
proof (induction k arbitrary: le l)
  case (Suc k)
  let ?req = "order_request a ord key ts nonce"
  let ?send = "sendOrderRequest (logged server) decode a ord key ts nonce"
  have send: "?send l = (broker_reply decode a (server (length l)), l @ [?req])"
    by (simp add: sendOrderRequest_def logged_def)
  show ?case
  proof (cases "broker_reply decode a (server (length l))")
    case (Inr res)
    then show ?thesis using send by (intro exI [of _ 1]) (simp add: retryable_reply_def)
  next
    case (Inl e)
    show ?thesis
    proof (cases "isRetryableBrokerError e \<and> 0 < k")
      case True
      let ?le = "HTTPAttempt (m - int k) m e"
      obtain n where n: "1 \<le> n" "n \<le> k"
        "snd (http_attempts ?send m k ?le (l @ [?req])) = (l @ [?req]) @ replicate n ?req"
        "\<forall>i < n - 1. retryable_reply decode a (server (length (l @ [?req]) + i))"
        "n < k \<longrightarrow> \<not> retryable_reply decode a (server (length (l @ [?req]) + n - 1))"
        "fst (http_attempts ?send m k ?le (l @ [?req])) =
           (case broker_reply decode a (server (length (l @ [?req]) + n - 1)) of
              Inr res \<Rightarrow> Inr res
            | Inl e \<Rightarrow> Inl (HTTPSubmitFailed m (HTTPAttempt (m - int (k - n)) m e)))"
        using Suc.IH [of ?le "l @ [?req]"] True by blast
      have first: "retryable_reply decode a (server (length l))"
        using Inl True by (simp add: retryable_reply_def)
      have all: "retryable_reply decode a (server (length l + i))" if "i < n" for i
        using that first n(4) by (cases i) auto
      show ?thesis
        using send Inl True n all by (intro exI [of _ "Suc n"]) (simp add: Let_def split: sum.split)
    next
      case False
      then show ?thesis using send Inl
        by (intro exI [of _ 1]) (auto simp: Let_def retryable_reply_def)
    qed
  qed
qed simp

section \<open>Properties\<close>

lemma NewHTTPBrokerAdapter_attempts: "1 \<le> ha_max_attempts (NewHTTPBrokerAdapter cfg)"
  by (simp add: NewHTTPBrokerAdapter_def split: prod.split)

lemma http_submit_cases:
  assumes "http_submit do_req decode sha256_hex register now clock nonce fallback a ord (w, ns) = ((res, err), (w', ns'))"
  shows "(err \<noteq> None \<and> w' = w) \<or>
    (\<exists>nonce'. validateOrder ord = None \<and> fst (registerRequestNonce register a nonce' now ns) = None \<and>
      (case http_attempts (sendOrderRequest do_req decode a ord (orderIdempotencyKey sha256_hex ord) now nonce')
              (ha_max_attempts a) (nat (ha_max_attempts a)) NilDereference w of
         (Inr r, v) \<Rightarrow> res = r \<and> err = None \<and> w' = v
       | (Inl e, v) \<Rightarrow> res = empty_result \<and> err = Some e \<and> w' = v))"
proof (cases "validateOrder ord = None \<and> ha_base_url a \<noteq> [] \<and> ha_api_key a \<noteq> [] \<and>
    validateSignerConfig a = None \<and> \<not> (case o_price ord of Fin _ \<Rightarrow> False | _ \<Rightarrow> True) \<and>
    validateClockSkew a clock now = None")
  case False
  then have "err \<noteq> None \<and> w' = w" using assms
    by (auto simp: http_submit_def split: option.splits if_splits) metis+
  then show ?thesis by blast
next
  case True
  obtain nonce' where n: "nonce' = (if trim_space nonce = [] then fallback else nonce)" by simp
  obtain nerr v where r: "registerRequestNonce register a nonce' now ns = (nerr, v)" by fastforce
  show ?thesis
  proof (cases nerr)
    case None
    have "validateOrder ord = None \<and> fst (registerRequestNonce register a nonce' now ns) = None \<and>
      (case http_attempts (sendOrderRequest do_req decode a ord (orderIdempotencyKey sha256_hex ord) now nonce')
              (ha_max_attempts a) (nat (ha_max_attempts a)) NilDereference w of
         (Inr r, v) \<Rightarrow> res = r \<and> err = None \<and> w' = v
       | (Inl e, v) \<Rightarrow> res = empty_result \<and> err = Some e \<and> w' = v)"
      using assms True r None
      by (simp add: http_submit_def n [symmetric] split: prod.split_asm sum.split_asm)
    then show ?thesis by (intro disjI2 exI [of _ nonce'])
  next
    case (Some e)
    then have "err \<noteq> None \<and> w' = w"
      using assms True r by (auto simp: http_submit_def n [symmetric])
    then show ?thesis ..
  qed
qed

lemma http_attempts_fresh:
  assumes "0 < k"
  shows "\<exists>n. 1 \<le> n \<and> n \<le> k \<and>
     snd (http_attempts (sendOrderRequest (logged server) decode a ord key ts nonce) m k le []) =
       replicate n (order_request a ord key ts nonce) \<and>
     (\<forall>i < n - 1. retryable_reply decode a (server i)) \<and>
     (n < k \<longrightarrow> \<not> retryable_reply decode a (server (n - 1))) \<and>
     fst (http_attempts (sendOrderRequest (logged server) decode a ord key ts nonce) m k le []) =
       (case broker_reply decode a (server (n - 1)) of
          Inr res \<Rightarrow> Inr res
        | Inl e \<Rightarrow> Inl (HTTPSubmitFailed m (HTTPAttempt (m - int (k - n)) m e)))"
  using http_attempts_run [OF assms, of server decode a ord key ts nonce m le "[]"]
  by (simp only: list.size add_0 append_Nil)

lemma registerRequestNonce_ok:
  "fst (registerRequestNonce register a n t ns) = None \<longleftrightarrow> fst (register n t (ha_nonce_ttl a) ns) = None"
  by (auto simp: registerRequestNonce_def Let_def split: prod.splits option.splits nonce_error.splits)

text \<open>
  A submission that reaches the exchange sends one request some number of
  times, at most \<open>maxAttempts\<close>: every request carries the same body, idempotency key, time
  stamp and nonce, and the nonce was accepted by the replay guard.  Every reply but the last was
  retryable; the submission succeeds exactly with the result decoded from the last reply, and
  when it fails, the attempts are used up or the last reply was not retryable.
\<close>

theorem http_submit_attempts:
  assumes "a = NewHTTPBrokerAdapter cfg"
    and "http_submit (logged server) decode sha256_hex register now clock nonce fallback a ord ([], ns)
           = ((res, err), (reqs, ns'))"
    and "reqs \<noteq> []"
  shows "(\<exists>nonce'. fst (register nonce' now (ha_nonce_ttl a) ns) = None \<and>
        reqs = replicate (length reqs) (order_request a ord (orderIdempotencyKey sha256_hex ord) now nonce')) \<and>
    validateOrder ord = None \<and> int (length reqs) \<le> ha_max_attempts a \<and>
    (\<forall>i < length reqs - 1. retryable_reply decode a (server i)) \<and>
    (err = None \<longleftrightarrow> broker_reply decode a (server (length reqs - 1)) = Inr res) \<and>
    (err \<noteq> None \<longrightarrow> int (length reqs) = ha_max_attempts a \<or> \<not> retryable_reply decode a (server (length reqs - 1)))"
proof (intro conjI)
  let ?key = "orderIdempotencyKey sha256_hex ord"
  obtain nonce' where valid: "validateOrder ord = None"
    and nonce': "fst (registerRequestNonce register a nonce' now ns) = None"
    and run: "case http_attempts (sendOrderRequest (logged server) decode a ord ?key now nonce')
              (ha_max_attempts a) (nat (ha_max_attempts a)) NilDereference [] of
         (Inr r, v) \<Rightarrow> res = r \<and> err = None \<and> reqs = v
       | (Inl e, v) \<Rightarrow> res = empty_result \<and> err = Some e \<and> reqs = v"
    using http_submit_cases [OF assms(2)] assms(3) by (elim disjE exE conjE) simp_all
  have pos: "0 < nat (ha_max_attempts a)"
    using NewHTTPBrokerAdapter_attempts [of cfg] assms(1) by simp
  obtain n where n: "1 \<le> n" "n \<le> nat (ha_max_attempts a)"
    "snd (http_attempts (sendOrderRequest (logged server) decode a ord ?key now nonce')
        (ha_max_attempts a) (nat (ha_max_attempts a)) NilDereference []) =
      replicate n (order_request a ord ?key now nonce')"
    "\<forall>i < n - 1. retryable_reply decode a (server i)"
    "n < nat (ha_max_attempts a) \<longrightarrow> \<not> retryable_reply decode a (server (n - 1))"
    "fst (http_attempts (sendOrderRequest (logged server) decode a ord ?key now nonce')
        (ha_max_attempts a) (nat (ha_max_attempts a)) NilDereference []) =
      (case broker_reply decode a (server (n - 1)) of
          Inr res \<Rightarrow> Inr res
        | Inl e \<Rightarrow> Inl (HTTPSubmitFailed (ha_max_attempts a)
            (HTTPAttempt (ha_max_attempts a - int (nat (ha_max_attempts a) - n)) (ha_max_attempts a) e)))"
    using http_attempts_fresh [OF pos] by blast
  have reqs: "reqs = replicate n (order_request a ord ?key now nonce')"
    using run n(3) by (auto split: prod.splits sum.splits)
  show "\<exists>nonce'. fst (register nonce' now (ha_nonce_ttl a) ns) = None \<and>
       reqs = replicate (length reqs) (order_request a ord ?key now nonce')"
    using nonce' reqs by (auto simp: registerRequestNonce_ok)
  show "validateOrder ord = None" by (rule valid)
  show "int (length reqs) \<le> ha_max_attempts a" using n(2) reqs pos by simp
  show "\<forall>i < length reqs - 1. retryable_reply decode a (server i)" using n(4) reqs by simp
  show "err = None \<longleftrightarrow> broker_reply decode a (server (length reqs - 1)) = Inr res"
    using run n(6) reqs by (auto split: prod.splits sum.splits)
  show "err \<noteq> None \<longrightarrow> int (length reqs) = ha_max_attempts a \<or> \<not> retryable_reply decode a (server (length reqs - 1))"
    using n(2,5) reqs pos by auto
qed

definition demo_http_config :: http_config where
  "demo_http_config = \<lparr>hc_base_url = ''https://b/'', hc_api_key = ''k'', hc_api_secret = ''s'', hc_key_id = [],
     hc_timeout = 0, hc_max_attempts = 2, hc_retry_codes = [], hc_max_clock_skew = 0, hc_nonce_ttl = 0,
     hc_signer = ''hmac-sha256''\<rparr>"

definition demo_http_order :: order where
  "demo_http_order = \<lparr>o_symbol = ''2330'', o_side = SideBuy, o_quantity = 10, o_price = Fin 100, o_reason = []\<rparr>"

definition demo_server :: "nat \<Rightarrow> http_reply" where
  "demo_server i = (if i = 0 then Response 503 [] else Response 200 [])"

lemma demo_http_submit:
  "http_submit (logged demo_server) (\<lambda>_. None) id mem_register 7 7 ''n'' [] (NewHTTPBrokerAdapter demo_http_config)
     demo_http_order ([], []) =
   ((\<lparr>br_order_id = [], br_status = ''placed'', br_fill_price = Fin 0, br_reason = []\<rparr>, None),
    (replicate 2 (order_request (NewHTTPBrokerAdapter demo_http_config) demo_http_order
        (orderIdempotencyKey id demo_http_order) 7 ''n''), [(''n'', 7)]))"
  by (simp add: http_submit_def demo_http_config_def demo_http_order_def NewHTTPBrokerAdapter_def selectSigner_def
      to_lower.simps lower_char_def trim_space_def trim_by.simps lead_space_def ascii_space_def wide_spaces_def
      starts_with_def Let_def validateOrder_def SideBuy_def validateSignerConfig_def validateClockSkew_def
      registerRequestNonce_def mem_register_def prune_def sendOrderRequest_def logged_def demo_server_def
      broker_reply_def empty_reply_def toRetryableStatusCodeSet_def defaultRetryableStatusCodes_def
      isRetryableBrokerError_def trim_right_slash_def numeral_2_eq_2)

theorem http_submit_attempts_witness:
  "int 2 \<le> ha_max_attempts (NewHTTPBrokerAdapter demo_http_config) \<and>
   retryable_reply (\<lambda>_. None) (NewHTTPBrokerAdapter demo_http_config) (demo_server 0)"
  using http_submit_attempts [OF refl demo_http_submit] by simp

text \<open>
  With a positive bound, the clock-skew check accepts a request time exactly
  when it is at most that far from the adapter's clock, except that a request time at least
  \<open>2^63\<close> ns ahead of the clock is accepted as well: the saturated difference is its own negation.
\<close>

lemma clock_skew_exact:
  assumes "0 < ha_max_clock_skew a" "ha_max_clock_skew a < i64_max"
  shows "validateClockSkew a now t = None \<longleftrightarrow> \<bar>now - t\<bar> \<le> ha_max_clock_skew a \<or> now - t \<le> i64_min"
proof (cases "now - t \<le> i64_min")
  case True
  then have "time_sub now t = i64_min" by (simp add: time_sub_def i64_min_def i64_max_def)
  then show ?thesis using True assms by (simp add: validateClockSkew_def wrap64_def i64_min_def)
next
  case False
  then have "i64_min < time_sub now t \<and> time_sub now t \<le> i64_max"
    by (auto simp: time_sub_def i64_min_def i64_max_def)
  moreover from this have "wrap64 (- time_sub now t) = - time_sub now t"
    by (intro wrap64_id) (auto simp: i64_min_def i64_max_def)
  ultimately show ?thesis using False assms
    by (auto simp: validateClockSkew_def Let_def time_sub_def i64_min_def i64_max_def)
qed

end
