(* ===== verification/Live_Circuit.thy ===== *)
theory Live_Circuit
  imports Live_Types
begin

text \<open>
  The portfolio circuit breaker of the live engine, \<open>internal/live/circuit_breaker.go\<close>, and
  the interface its clients use, \<open>CircuitBreakerOps\<close> of \<open>circuit_breaker_ops.go\<close>.

  Besides the fields of the struct the record holds the two files the breaker writes: the
  JSONL transition log (an entry is \<open>None\<close> for a line that does not decode) and the state
  file.  Whether a write succeeds is decided by the environment, an \<open>io_env\<close>; a float that is
  not finite has no JSON form, so encoding it fails too.  Failures are logged and ignored by
  the code.
\<close>

section \<open>State\<close>

record cb_rule =
  rule_name :: string
  rule_enabled :: bool
  daily_loss_pct :: f64
  drawdown_pct :: f64
  rule_consecutive_sl :: int
  cooldown_minutes :: int

definition DefaultCircuitBreakerRules :: "cb_rule list" where
  "DefaultCircuitBreakerRules =
     [\<lparr>rule_name = ''daily_loss_limit'', rule_enabled = True, daily_loss_pct = Fin 2,
       drawdown_pct = Fin 3, rule_consecutive_sl = 3, cooldown_minutes = 15\<rparr>]"

datatype cb_reason =
    DailyLoss f64 f64
  | Drawdown f64 f64
  | ConsecutiveStopLosses int
  | CooldownExpired
  | Manual string

record cb_event =
  cbe_timestamp :: time
  cbe_from :: circuit_state
  cbe_to :: circuit_state
  cbe_reason :: cb_reason
  cbe_day_pnl_pct :: f64
  cbe_drawdown_pct :: f64

text \<open>The fields written to the state file.\<close>

record cb_saved =
  sv_state :: circuit_state
  sv_changed_at :: time
  sv_consecutive_sl :: int
  sv_cooldown_until :: time
  sv_intraday_peak :: f64
  sv_day_start :: f64

record circuit_breaker =
  cb_rules :: "cb_rule list"
  cb_state :: circuit_state
  state_changed_at :: time
  consecutive_sl :: int
  last_sl_time :: time
  cooldown_until :: time
  intraday_peak :: f64
  day_start_value :: f64
  cb_log :: "cb_event option list"
  cb_file :: "cb_saved option"

record io_env =
  append_ok :: bool
  persist_ok :: bool

fun finite_f64 :: "f64 \<Rightarrow> bool" where
  "finite_f64 (Fin _) = True" | "finite_f64 _ = False"

section \<open>Persistence and transitions\<close>

definition persistStateLocked :: "io_env \<Rightarrow> circuit_breaker \<Rightarrow> circuit_breaker" where
  "persistStateLocked io cb =
     (if persist_ok io \<and> finite_f64 (intraday_peak cb) \<and> finite_f64 (day_start_value cb)
      then cb\<lparr>cb_file := Some \<lparr>sv_state = cb_state cb, sv_changed_at = state_changed_at cb,
                sv_consecutive_sl = consecutive_sl cb, sv_cooldown_until = cooldown_until cb,
                sv_intraday_peak = intraday_peak cb, sv_day_start = day_start_value cb\<rparr>\<rparr>
      else cb)"

definition appendLog :: "io_env \<Rightarrow> cb_event \<Rightarrow> circuit_breaker \<Rightarrow> circuit_breaker" where
  "appendLog io ev cb =
     (if append_ok io \<and> finite_f64 (cbe_day_pnl_pct ev) \<and> finite_f64 (cbe_drawdown_pct ev)
      then cb\<lparr>cb_log := cb_log cb @ [Some ev]\<rparr> else cb)"

definition transitionLocked ::
  "io_env \<Rightarrow> time \<Rightarrow> circuit_state \<Rightarrow> cb_reason \<Rightarrow> f64 \<Rightarrow> f64 \<Rightarrow> circuit_breaker \<Rightarrow> circuit_breaker" where
  "transitionLocked io now to reason pnl dd cb =
     (if cb_state cb = to then cb
      else let ev = \<lparr>cbe_timestamp = now, cbe_from = cb_state cb, cbe_to = to, cbe_reason = reason,
                     cbe_day_pnl_pct = pnl, cbe_drawdown_pct = dd\<rparr>;
               cb1 = cb\<lparr>cb_state := to, state_changed_at := now\<rparr>
           in persistStateLocked io (appendLog io ev cb1))"

text \<open>\<open>loadState\<close>: \<open>None\<close> when the file is missing or unreadable, the breaker is unchanged then.\<close>

definition loadState :: "circuit_breaker \<Rightarrow> circuit_breaker option" where
  "loadState cb =
     map_option (\<lambda>s. cb\<lparr>cb_state := sv_state s, state_changed_at := sv_changed_at s,
                        consecutive_sl := sv_consecutive_sl s, cooldown_until := sv_cooldown_until s,
                        intraday_peak := sv_intraday_peak s, day_start_value := sv_day_start s\<rparr>) (cb_file cb)"

definition NewCircuitBreaker :: "time \<Rightarrow> cb_event option list \<Rightarrow> cb_saved option \<Rightarrow> circuit_breaker" where
  "NewCircuitBreaker now lg file =
     (let cb = \<lparr>cb_rules = DefaultCircuitBreakerRules, cb_state = CircuitNormal, state_changed_at = now,
                consecutive_sl = 0, last_sl_time = zero_time, cooldown_until = zero_time,
                intraday_peak = Fin 0, day_start_value = Fin 0, cb_log = lg, cb_file = file\<rparr>
      in case loadState cb of None \<Rightarrow> cb | Some cb' \<Rightarrow> cb')"

section \<open>Operations\<close>

definition SetRules :: "cb_rule list \<Rightarrow> circuit_breaker \<Rightarrow> circuit_breaker" where
  "SetRules rs cb = cb\<lparr>cb_rules := rs\<rparr>"

definition ResetDayState :: "io_env \<Rightarrow> time \<Rightarrow> f64 \<Rightarrow> circuit_breaker \<Rightarrow> circuit_breaker" where
  "ResetDayState io now v cb =
     persistStateLocked io
       (cb\<lparr>cb_state := CircuitNormal, state_changed_at := now, consecutive_sl := 0,
           last_sl_time := zero_time, cooldown_until := zero_time, intraday_peak := v,
           day_start_value := v\<rparr>)"

text \<open>The rule loop of \<open>RecordStopLoss\<close>; it returns at the first rule that fires.\<close>

fun stop_loss_rules :: "io_env \<Rightarrow> time \<Rightarrow> cb_rule list \<Rightarrow> circuit_breaker \<Rightarrow> circuit_breaker" where
  "stop_loss_rules io now [] cb = cb"
| "stop_loss_rules io now (r # rs) cb =
     (if \<not> rule_enabled r \<or> rule_consecutive_sl r \<le> 0 then stop_loss_rules io now rs cb
      else if consecutive_sl cb \<ge> rule_consecutive_sl r
        then transitionLocked io now CircuitPaused (ConsecutiveStopLosses (consecutive_sl cb)) (Fin 0) (Fin 0)
               (cb\<lparr>cooldown_until := now + wrap64 (cooldown_minutes r * minute)\<rparr>)
      else stop_loss_rules io now rs cb)"

definition RecordStopLoss :: "io_env \<Rightarrow> time \<Rightarrow> circuit_breaker \<Rightarrow> circuit_breaker" where
  "RecordStopLoss io now cb =
     (let cb1 = cb\<lparr>consecutive_sl := wrap64 (consecutive_sl cb + 1), last_sl_time := now\<rparr>
      in stop_loss_rules io now (cb_rules cb1) cb1)"

text \<open>The rule loop of \<open>Evaluate\<close>; the daily-loss branch returns.\<close>

fun evaluate_rules ::
  "io_env \<Rightarrow> time \<Rightarrow> f64 \<Rightarrow> f64 \<Rightarrow> cb_rule list \<Rightarrow> circuit_breaker \<Rightarrow> circuit_breaker" where
  "evaluate_rules io now pnl dd [] cb = cb"
| "evaluate_rules io now pnl dd (r # rs) cb =
     (if \<not> rule_enabled r then evaluate_rules io now pnl dd rs cb
      else if flt (Fin 0) (daily_loss_pct r) \<and> flt pnl (fneg (daily_loss_pct r))
        then (if cb_state cb \<noteq> CircuitHalted
              then transitionLocked io now CircuitHalted (DailyLoss pnl (daily_loss_pct r)) pnl dd cb else cb)
      else if flt (Fin 0) (drawdown_pct r) \<and> flt (drawdown_pct r) dd
        then evaluate_rules io now pnl dd rs
               (if cb_state cb = CircuitNormal
                then transitionLocked io now CircuitPaused (Drawdown dd (drawdown_pct r)) pnl dd cb else cb)
      else evaluate_rules io now pnl dd rs cb)"

definition day_pnl_pct :: "f64 \<Rightarrow> f64 \<Rightarrow> f64" where
  "day_pnl_pct day_pnl day_start =
     (if flt (Fin 0) day_start then fmul (fdiv day_pnl day_start) (Fin 100) else Fin 0)"

definition drawdown_from :: "f64 \<Rightarrow> f64 \<Rightarrow> f64" where
  "drawdown_from peak current =
     (if flt (Fin 0) peak then fmul (fdiv (fsub peak current) peak) (Fin 100) else Fin 0)"

text \<open>\<open>Evaluate\<close> reads \<open>Cash\<close>, \<open>UnrealizedPnL\<close> and \<open>DayPnL\<close> of the portfolio; it ignores its
  positions and events.\<close>

definition Evaluate :: "io_env \<Rightarrow> time \<Rightarrow> f64 \<Rightarrow> f64 \<Rightarrow> f64 \<Rightarrow> circuit_breaker \<Rightarrow> circuit_breaker" where
  "Evaluate io now cash unrealized day_pnl cb =
     (let cb1 = (if cb_state cb = CircuitPaused \<and> now > cooldown_until cb
                 then transitionLocked io now CircuitNormal CooldownExpired (Fin 0) (Fin 0) cb else cb);
          current = fadd cash unrealized;
          cb2 = (if flt (intraday_peak cb1) current then cb1\<lparr>intraday_peak := current\<rparr> else cb1)
      in evaluate_rules io now (day_pnl_pct day_pnl (day_start_value cb2))
           (drawdown_from (intraday_peak cb2) current) (cb_rules cb2) cb2)"

fun CanPlaceOrder :: "string \<Rightarrow> circuit_state \<Rightarrow> bool" where
  "CanPlaceOrder side CircuitNormal = True"
| "CanPlaceOrder side CircuitPaused = (side = SideSell)"
| "CanPlaceOrder side CircuitHalted = False"
| "CanPlaceOrder side (CircuitOther _) = False"

definition LoadEvents :: "circuit_breaker \<Rightarrow> cb_event list" where
  "LoadEvents cb = List.map_filter id (cb_log cb)"

definition Reset :: "io_env \<Rightarrow> time \<Rightarrow> string \<Rightarrow> circuit_breaker \<Rightarrow> circuit_breaker" where
  "Reset io now reason cb =
     transitionLocked io now CircuitNormal
       (Manual (if reason = [] then ''manual_reset'' else reason)) (Fin 0) (Fin 0) cb"

section \<open>Frames\<close>

lemma persistStateLocked_frame [frame_simps]:
  "cb_rules (persistStateLocked io cb) = cb_rules cb"
  "cb_state (persistStateLocked io cb) = cb_state cb"
  "state_changed_at (persistStateLocked io cb) = state_changed_at cb"
  "consecutive_sl (persistStateLocked io cb) = consecutive_sl cb"
  "last_sl_time (persistStateLocked io cb) = last_sl_time cb"
  "cooldown_until (persistStateLocked io cb) = cooldown_until cb"
  "intraday_peak (persistStateLocked io cb) = intraday_peak cb"
  "day_start_value (persistStateLocked io cb) = day_start_value cb"
  "cb_log (persistStateLocked io cb) = cb_log cb"
  by (simp_all add: persistStateLocked_def)

lemma appendLog_frame [frame_simps]:
  "cb_rules (appendLog io ev cb) = cb_rules cb"
  "cb_state (appendLog io ev cb) = cb_state cb"
  "state_changed_at (appendLog io ev cb) = state_changed_at cb"
  "consecutive_sl (appendLog io ev cb) = consecutive_sl cb"
  "last_sl_time (appendLog io ev cb) = last_sl_time cb"
  "cooldown_until (appendLog io ev cb) = cooldown_until cb"
  "intraday_peak (appendLog io ev cb) = intraday_peak cb"
  "day_start_value (appendLog io ev cb) = day_start_value cb"
  "cb_file (appendLog io ev cb) = cb_file cb"
  by (simp_all add: appendLog_def)

lemma transitionLocked_frame [frame_simps]:
  "cb_rules (transitionLocked io now to rs p d cb) = cb_rules cb"
  "cb_state (transitionLocked io now to rs p d cb) = to"
  "consecutive_sl (transitionLocked io now to rs p d cb) = consecutive_sl cb"
  "last_sl_time (transitionLocked io now to rs p d cb) = last_sl_time cb"
  "cooldown_until (transitionLocked io now to rs p d cb) = cooldown_until cb"
  "intraday_peak (transitionLocked io now to rs p d cb) = intraday_peak cb"
  "day_start_value (transitionLocked io now to rs p d cb) = day_start_value cb"
  by (simp_all add: transitionLocked_def Let_def frame_simps)

lemma evaluate_rules_frame [frame_simps]:
  "cb_rules (evaluate_rules io now p d rs cb) = cb_rules cb"
  "consecutive_sl (evaluate_rules io now p d rs cb) = consecutive_sl cb"
  "cooldown_until (evaluate_rules io now p d rs cb) = cooldown_until cb"
  "intraday_peak (evaluate_rules io now p d rs cb) = intraday_peak cb"
  "day_start_value (evaluate_rules io now p d rs cb) = day_start_value cb"
  by (induction rs arbitrary: cb) (auto simp: frame_simps)

section \<open>The daily-loss halt\<close>

definition daily_breach :: "f64 \<Rightarrow> cb_rule \<Rightarrow> bool" where
  "daily_breach pnl r \<longleftrightarrow>
     rule_enabled r \<and> flt (Fin 0) (daily_loss_pct r) \<and> flt pnl (fneg (daily_loss_pct r))"

lemma evaluate_rules_halts:
  "\<exists>r\<in>set rs. daily_breach pnl r \<Longrightarrow> cb_state (evaluate_rules io now pnl dd rs cb) = CircuitHalted"
  by (induction rs arbitrary: cb) (auto simp: daily_breach_def frame_simps)

lemma evaluate_rules_no_breach:
  "\<forall>r\<in>set rs. \<not> daily_breach pnl r \<Longrightarrow>
   cb_state (evaluate_rules io now pnl dd rs cb) =
     (if cb_state cb = CircuitNormal \<and>
         (\<exists>r\<in>set rs. rule_enabled r \<and> flt (Fin 0) (drawdown_pct r) \<and> flt (drawdown_pct r) dd)
      then CircuitPaused else cb_state cb)"
proof (induction rs arbitrary: cb)
  case (Cons r rs)
  have nb: "\<not> daily_breach pnl r" and rest: "\<forall>r\<in>set rs. \<not> daily_breach pnl r"
    using Cons.prems by auto
  show ?case
    using nb Cons.IH [OF rest] by (auto simp: daily_breach_def frame_simps)
qed simp

section \<open>The transition log\<close>

text \<open>Consecutive decoded entries chain: each starts in the state the one before ended in.\<close>

fun chained :: "circuit_state \<Rightarrow> cb_event list \<Rightarrow> circuit_state \<Rightarrow> bool" where
  "chained s [] t = (s = t)"
| "chained s (e # es) t = (cbe_from e = s \<and> cbe_to e \<noteq> s \<and> chained (cbe_to e) es t)"

lemma chained_snoc: "chained s (es @ [e]) t \<longleftrightarrow> chained s es (cbe_from e) \<and> cbe_to e \<noteq> cbe_from e \<and> cbe_to e = t"
  by (induction es arbitrary: s) auto

lemma map_filter_append: "List.map_filter f (xs @ ys) = List.map_filter f xs @ List.map_filter f ys"
  by (induction xs) (auto simp: List.map_filter_simps split: option.splits)

lemma LoadEvents_persist [simp]: "LoadEvents (persistStateLocked io cb) = LoadEvents cb"
  by (simp add: LoadEvents_def frame_simps)

lemma transition_chained:
  assumes "chained s (LoadEvents cb) (cb_state cb)" "append_ok io" "finite_f64 p" "finite_f64 d"
  shows "chained s (LoadEvents (transitionLocked io now to rs p d cb)) to"
  using assms
  by (auto simp: transitionLocked_def Let_def appendLog_def LoadEvents_def map_filter_append
      List.map_filter_simps chained_snoc frame_simps)

lemma LoadEvents_field_update [simp]:
  "LoadEvents (cb\<lparr>cooldown_until := c\<rparr>) = LoadEvents cb"
  "LoadEvents (cb\<lparr>intraday_peak := q\<rparr>) = LoadEvents cb"
  "LoadEvents (cb\<lparr>consecutive_sl := n, last_sl_time := t\<rparr>) = LoadEvents cb"
  by (simp_all add: LoadEvents_def)

lemma evaluate_rules_chained:
  "chained s (LoadEvents cb) (cb_state cb) \<Longrightarrow> append_ok io \<Longrightarrow> finite_f64 pnl \<Longrightarrow> finite_f64 dd \<Longrightarrow>
   chained s (LoadEvents (evaluate_rules io now pnl dd rs cb)) (cb_state (evaluate_rules io now pnl dd rs cb))"
proof (induction rs arbitrary: cb)
  case (Cons r rs)
  then show ?case
    by (auto simp: frame_simps intro!: Cons.IH transition_chained)
qed simp

lemma stop_loss_rules_chained:
  "chained s (LoadEvents cb) (cb_state cb) \<Longrightarrow> append_ok io \<Longrightarrow>
   chained s (LoadEvents (stop_loss_rules io now rs cb)) (cb_state (stop_loss_rules io now rs cb))"
  by (induction rs arbitrary: cb) (auto simp: frame_simps intro: transition_chained)

section \<open>Peak and drawdown\<close>

lemma fmul_hundred_le:
  "fle (Fin 0) q \<Longrightarrow> fle q (Fin 1) \<Longrightarrow> fle (Fin 0) (fmul q (Fin 100)) \<and> fle (fmul q (Fin 100)) (Fin 100)"
proof -
  assume q: "fle (Fin 0) q" "fle q (Fin 1)"
  then obtain x where x: "q = Fin x" "0 \<le> x" "x \<le> 1" by (cases q) auto
  have "is_f64 (Fin 100)" by (simp add: is_f64_def f64_simps)
  then have "fle (rnd (x * 100)) (Fin 100)" using x by (intro rnd_le) auto
  then show ?thesis using x by (simp add: rnd_nonneg)
qed

lemma drawdown_bounds:
  assumes "is_f64 peak" "fle (Fin 0) current" "fle current peak" "peak \<noteq> PInf"
  shows "fle (Fin 0) (drawdown_from peak current) \<and> fle (drawdown_from peak current) (Fin 100)"
proof (cases "flt (Fin 0) peak")
  case True
  obtain p where p: "peak = Fin p" "0 < p" using True assms(4) by (cases peak) auto
  obtain c where c: "current = Fin c" "0 \<le> c" "c \<le> p" using assms(2,3) p by (cases current) auto
  have sub: "fsub peak current = rnd (p - c)" by (simp add: fsub_def p c)
  have "fle (Fin 0) (rnd (p - c))" using c by (intro rnd_nonneg) simp
  moreover have "fle (rnd (p - c)) (Fin p)" using assms(1) p c by (intro rnd_le) auto
  ultimately obtain d where d: "rnd (p - c) = Fin d" "0 \<le> d" "d \<le> p" by (cases "rnd (p - c)") auto
  have "fle (Fin 0) (rnd (d / p))" using d p by (intro rnd_nonneg) simp
  moreover have "fle (rnd (d / p)) (Fin 1)" using d p by (intro rnd_le) (auto simp: divide_le_eq)
  moreover have "drawdown_from peak current = fmul (rnd (d / p)) (Fin 100)"
    using True p(2) d sub by (simp add: drawdown_from_def p(1))
  ultimately show ?thesis using fmul_hundred_le by simp
next
  case False
  then show ?thesis by (simp add: drawdown_from_def)
qed

section \<open>Runs of the breaker\<close>

text \<open>The operations called between two market opens, and their composition.\<close>

datatype cb_op = OpEvaluate time f64 f64 f64 | OpStopLoss time | OpReset time string

fun cb_apply :: "io_env \<Rightarrow> cb_op \<Rightarrow> circuit_breaker \<Rightarrow> circuit_breaker" where
  "cb_apply io (OpEvaluate now cash u pnl) cb = Evaluate io now cash u pnl cb"
| "cb_apply io (OpStopLoss now) cb = RecordStopLoss io now cb"
| "cb_apply io (OpReset now reason) cb = Reset io now reason cb"

fun cb_run :: "io_env \<Rightarrow> cb_op list \<Rightarrow> circuit_breaker \<Rightarrow> circuit_breaker" where
  "cb_run io [] cb = cb"
| "cb_run io (op # ops) cb = cb_run io ops (cb_apply io op cb)"

text \<open>
  The breaker's numbers are representable and not NaN, the recorded peak is finite and not
  negative: what \<open>ResetDayState\<close> establishes when it is given a finite starting value.
\<close>

definition cb_wf :: "circuit_breaker \<Rightarrow> bool" where
  "cb_wf cb \<longleftrightarrow> is_f64 (intraday_peak cb) \<and> fle (Fin 0) (intraday_peak cb) \<and> finite_f64 (intraday_peak cb)
     \<and> is_f64 (day_start_value cb) \<and> finite_f64 (day_start_value cb)"

lemma cb_wf_ResetDayState: "is_f64 v \<Longrightarrow> fle (Fin 0) v \<Longrightarrow> finite_f64 v \<Longrightarrow> cb_wf (ResetDayState io now v cb)"
  by (simp add: cb_wf_def ResetDayState_def frame_simps)

lemma Evaluate_peak:
  "intraday_peak (Evaluate io now cash u pnl cb) =
     (if flt (intraday_peak cb) (fadd cash u) then fadd cash u else intraday_peak cb)"
  by (simp add: Evaluate_def Let_def frame_simps)

lemma Evaluate_day_start [frame_simps]: "day_start_value (Evaluate io now cash u pnl cb) = day_start_value cb"
  by (simp add: Evaluate_def Let_def frame_simps)

lemma stop_loss_rules_frame [frame_simps]:
  "intraday_peak (stop_loss_rules io now rs cb) = intraday_peak cb"
  "day_start_value (stop_loss_rules io now rs cb) = day_start_value cb"
  "cb_rules (stop_loss_rules io now rs cb) = cb_rules cb"
  "consecutive_sl (stop_loss_rules io now rs cb) = consecutive_sl cb"
  by (induction rs arbitrary: cb) (auto simp: frame_simps)

text \<open>The state \<open>Evaluate\<close> starts its rules from, after the cooldown recovery.\<close>

definition recovered_state :: "time \<Rightarrow> circuit_breaker \<Rightarrow> circuit_state" where
  "recovered_state now cb =
     (if cb_state cb = CircuitPaused \<and> now > cooldown_until cb then CircuitNormal else cb_state cb)"

text \<open>
  The specification of \<open>Evaluate\<close>, without an order on the rules: a daily-loss breach of any
  enabled rule halts; otherwise a drawdown breach of any enabled rule pauses a normal breaker.
\<close>

definition evaluate_spec :: "time \<Rightarrow> f64 \<Rightarrow> f64 \<Rightarrow> f64 \<Rightarrow> circuit_breaker \<Rightarrow> circuit_state" where
  "evaluate_spec now cash u pnl cb =
     (let current = fadd cash u;
          peak = (if flt (intraday_peak cb) current then current else intraday_peak cb);
          loss = day_pnl_pct pnl (day_start_value cb);
          dd = drawdown_from peak current
      in if \<exists>r\<in>set (cb_rules cb). daily_breach loss r then CircuitHalted
         else if recovered_state now cb = CircuitNormal \<and>
                 (\<exists>r\<in>set (cb_rules cb). rule_enabled r \<and> flt (Fin 0) (drawdown_pct r) \<and> flt (drawdown_pct r) dd)
           then CircuitPaused
         else recovered_state now cb)"

text \<open>C1 (refinement).  The rule loop of \<open>CircuitBreaker.Evaluate\<close> implements its order-free specification:
  the resulting state depends on which rules are breached, not on where they stand in the rule
  list, and a daily-loss breach of any enabled rule halts the breaker from every state.\<close>

theorem evaluate_refines_spec:
  "cb_state (Evaluate io now cash u pnl cb) = evaluate_spec now cash u pnl cb"
proof -
  let ?cur = "fadd cash u"
  define cb1 where "cb1 = (if cb_state cb = CircuitPaused \<and> now > cooldown_until cb
      then transitionLocked io now CircuitNormal CooldownExpired (Fin 0) (Fin 0) cb else cb)"
  define cb2 where "cb2 = (if flt (intraday_peak cb1) ?cur then cb1\<lparr>intraday_peak := ?cur\<rparr> else cb1)"
  have st: "cb_state cb2 = recovered_state now cb"
    by (simp add: cb2_def cb1_def recovered_state_def frame_simps)
  have pk: "intraday_peak cb2 = (if flt (intraday_peak cb) ?cur then ?cur else intraday_peak cb)"
    by (simp add: cb2_def cb1_def frame_simps)
  have fr: "cb_rules cb2 = cb_rules cb" "day_start_value cb2 = day_start_value cb"
    by (simp_all add: cb2_def cb1_def frame_simps)
  let ?loss = "day_pnl_pct pnl (day_start_value cb)" and ?dd = "drawdown_from (intraday_peak cb2) ?cur"
  have ev: "Evaluate io now cash u pnl cb = evaluate_rules io now ?loss ?dd (cb_rules cb) cb2"
    by (simp add: Evaluate_def Let_def fr flip: cb1_def cb2_def)
  show ?thesis
  proof (cases "\<exists>r\<in>set (cb_rules cb). daily_breach ?loss r")
    case True
    then show ?thesis by (simp add: ev evaluate_rules_halts evaluate_spec_def Let_def)
  next
    case False
    then show ?thesis
      by (auto simp: ev evaluate_rules_no_breach st evaluate_spec_def Let_def pk)
  qed
qed

lemma evaluate_peak_bounds:
  assumes "cb_wf cb" "is_f64 (fadd cash u)" "fle (Fin 0) (fadd cash u)" "finite_f64 (fadd cash u)"
  shows "cb_wf (Evaluate io now cash u pnl cb) \<and> fle (intraday_peak cb) (intraday_peak (Evaluate io now cash u pnl cb)) \<and> fle (fadd cash u) (intraday_peak (Evaluate io now cash u pnl cb))
    \<and> fle (Fin 0) (drawdown_from (intraday_peak (Evaluate io now cash u pnl cb)) (fadd cash u))
    \<and> fle (drawdown_from (intraday_peak (Evaluate io now cash u pnl cb)) (fadd cash u)) (Fin 100)"
proof -
  define cb' where cb'_def: "cb' = Evaluate io now cash u pnl cb"
  obtain p where p: "intraday_peak cb = Fin p" using assms(1) by (cases "intraday_peak cb") (auto simp: cb_wf_def)
  obtain c where c: "fadd cash u = Fin c" using assms(4) by (cases "fadd cash u") auto
  have pk: "intraday_peak cb' = (if p < c then Fin c else Fin p)"
    by (simp add: cb'_def Evaluate_peak p c)
  have ds: "day_start_value cb' = day_start_value cb" by (simp add: cb'_def frame_simps)
  have wf: "cb_wf cb'" using assms(1-4) by (auto simp: cb_wf_def pk ds p c)
  have "fle (Fin 0) (drawdown_from (intraday_peak cb') (fadd cash u)) \<and>
        fle (drawdown_from (intraday_peak cb') (fadd cash u)) (Fin 100)"
    using wf assms(3) by (intro drawdown_bounds) (auto simp: cb_wf_def c pk)
  then show ?thesis using wf unfolding cb'_def [symmetric] by (auto simp: pk p c)
qed

text \<open>From a well-formed breaker and a finite, non-negative portfolio value, \<open>Evaluate\<close> keeps
  the breaker well-formed, never lowers the intraday peak, leaves the peak at least at the current
  value, and computes a drawdown between 0 and 100 percent.\<close>

theorem evaluate_keeps_peak:
  assumes "cb_wf cb" "is_f64 (fadd cash u)" "fle (Fin 0) (fadd cash u)" "finite_f64 (fadd cash u)"
  shows "cb_wf (Evaluate io now cash u pnl cb) \<and> fle (intraday_peak cb) (intraday_peak (Evaluate io now cash u pnl cb)) \<and> fle (fadd cash u) (intraday_peak (Evaluate io now cash u pnl cb))
    \<and> fle (Fin 0) (drawdown_from (intraday_peak (Evaluate io now cash u pnl cb)) (fadd cash u))
    \<and> fle (drawdown_from (intraday_peak (Evaluate io now cash u pnl cb)) (fadd cash u)) (Fin 100)"
  using assms by (rule evaluate_peak_bounds)

theorem evaluate_keeps_peak_witness:
  "fle (Fin 100) (intraday_peak (Evaluate \<lparr>append_ok = True, persist_ok = True\<rparr> 5 (Fin 80) (Fin 10) (Fin 0)
      (ResetDayState \<lparr>append_ok = True, persist_ok = True\<rparr> 1 (Fin 100) (NewCircuitBreaker 0 [] None))))"
proof -
  let ?io = "\<lparr>append_ok = True, persist_ok = True\<rparr>"
  let ?cb = "ResetDayState ?io 1 (Fin 100) (NewCircuitBreaker 0 [] None)"
  have "cb_wf ?cb" by (rule cb_wf_ResetDayState) (simp_all add: is_f64_def f64_simps)
  moreover have "fadd (Fin 80) (Fin 10) = Fin 90" by (simp add: f64_simps)
  moreover have "is_f64 (Fin 90)" by (simp add: is_f64_def f64_simps)
  moreover have "intraday_peak ?cb = Fin 100" by (simp add: ResetDayState_def frame_simps)
  ultimately show ?thesis
    using evaluate_keeps_peak [of ?cb "Fin 80" "Fin 10" ?io 5 "Fin 0"] by simp
qed


section \<open>The log and the state file over a run\<close>

text \<open>The inputs for which every number the breaker computes is finite.\<close>

fun op_finite :: "f64 \<Rightarrow> cb_op \<Rightarrow> bool" where
  "op_finite ds (OpEvaluate now cash u pnl) \<longleftrightarrow>
     is_f64 (fadd cash u) \<and> fle (Fin 0) (fadd cash u) \<and> finite_f64 (fadd cash u) \<and> finite_f64 (day_pnl_pct pnl ds)"
| "op_finite ds _ = True"

lemma finite_between: "fle (Fin a) x \<Longrightarrow> fle x (Fin b) \<Longrightarrow> finite_f64 x"
  by (cases x) auto

lemma Evaluate_chained:
  assumes "cb_wf cb" "chained s (LoadEvents cb) (cb_state cb)" "append_ok io"
    and "op_finite (day_start_value cb) (OpEvaluate now cash u pnl)"
  shows "chained s (LoadEvents (Evaluate io now cash u pnl cb)) (cb_state (Evaluate io now cash u pnl cb))"
proof -
  have "fle (Fin 0) (drawdown_from (intraday_peak (Evaluate io now cash u pnl cb)) (fadd cash u)) \<and>
        fle (drawdown_from (intraday_peak (Evaluate io now cash u pnl cb)) (fadd cash u)) (Fin 100)"
    using evaluate_peak_bounds [OF assms(1)] assms(4) by simp
  then have fin: "finite_f64 (drawdown_from (intraday_peak (Evaluate io now cash u pnl cb)) (fadd cash u))"
    using finite_between by blast
  show ?thesis
    unfolding Evaluate_def Let_def
    by (rule evaluate_rules_chained)
      (use assms fin in \<open>auto simp: frame_simps Evaluate_peak intro!: transition_chained\<close>)
qed

lemma RecordStopLoss_chained:
  "chained s (LoadEvents cb) (cb_state cb) \<Longrightarrow> append_ok io \<Longrightarrow>
   chained s (LoadEvents (RecordStopLoss io now cb)) (cb_state (RecordStopLoss io now cb))"
  by (simp add: RecordStopLoss_def Let_def stop_loss_rules_chained)

lemma Reset_chained:
  "chained s (LoadEvents cb) (cb_state cb) \<Longrightarrow> append_ok io \<Longrightarrow>
   chained s (LoadEvents (Reset io now reason cb)) (cb_state (Reset io now reason cb))"
  by (simp add: Reset_def frame_simps transition_chained)

lemma cb_wf_apply: "cb_wf cb \<Longrightarrow> op_finite (day_start_value cb) op \<Longrightarrow> cb_wf (cb_apply io op cb)"
  using evaluate_peak_bounds [of cb]
  by (cases op) (auto simp: RecordStopLoss_def Reset_def Let_def cb_wf_def frame_simps)

lemma day_start_apply [frame_simps]: "day_start_value (cb_apply io op cb) = day_start_value cb"
  by (cases op) (simp_all add: RecordStopLoss_def Reset_def Let_def frame_simps)

text \<open>The state file records the current circuit state.\<close>

definition file_current :: "circuit_breaker \<Rightarrow> bool" where
  "file_current cb \<longleftrightarrow> (\<exists>s. cb_file cb = Some s \<and> sv_state s = cb_state cb)"

lemma persist_current: "persist_ok io \<Longrightarrow> cb_wf cb \<Longrightarrow> file_current (persistStateLocked io cb)"
  by (simp add: persistStateLocked_def file_current_def cb_wf_def)

lemma cb_wf_fields [simp]:
  "cb_wf (cb\<lparr>cb_state := st, state_changed_at := t\<rparr>) = cb_wf cb"
  "cb_wf (cb\<lparr>cooldown_until := t\<rparr>) = cb_wf cb"
  "cb_wf (cb\<lparr>consecutive_sl := n, last_sl_time := t\<rparr>) = cb_wf cb"
  "cb_wf (appendLog io ev cb) = cb_wf cb"
  by (simp_all add: cb_wf_def frame_simps)

lemma file_current_fields [simp]:
  "file_current (cb\<lparr>cooldown_until := t\<rparr>) = file_current cb"
  "file_current (cb\<lparr>intraday_peak := q\<rparr>) = file_current cb"
  "file_current (cb\<lparr>consecutive_sl := n, last_sl_time := t\<rparr>) = file_current cb"
  by (simp_all add: file_current_def)

lemma cb_wf_transition [simp]: "cb_wf (transitionLocked io now to rs p d cb) = cb_wf cb"
  by (simp add: cb_wf_def frame_simps)

lemma transition_current:
  "persist_ok io \<Longrightarrow> cb_wf cb \<Longrightarrow> file_current cb \<Longrightarrow> file_current (transitionLocked io now to rs p d cb)"
  by (simp add: transitionLocked_def Let_def persist_current)

lemma evaluate_rules_current:
  "persist_ok io \<Longrightarrow> cb_wf cb \<Longrightarrow> file_current cb \<Longrightarrow> file_current (evaluate_rules io now pnl dd rs cb)"
  by (induction rs arbitrary: cb) (auto simp: transition_current)

lemma stop_loss_rules_current:
  "persist_ok io \<Longrightarrow> cb_wf cb \<Longrightarrow> file_current cb \<Longrightarrow> file_current (stop_loss_rules io now rs cb)"
  by (induction rs arbitrary: cb) (auto simp: transition_current)

lemma cb_wf_peak: "cb_wf cb \<Longrightarrow> is_f64 v \<Longrightarrow> fle (Fin 0) v \<Longrightarrow> finite_f64 v \<Longrightarrow> cb_wf (cb\<lparr>intraday_peak := v\<rparr>)"
  by (simp add: cb_wf_def)

lemma apply_current:
  assumes "persist_ok io" "cb_wf cb" "file_current cb" "op_finite (day_start_value cb) op"
  shows "file_current (cb_apply io op cb)"
proof (cases op)
  case (OpEvaluate now cash u pnl)
  then show ?thesis
    using assms unfolding OpEvaluate cb_apply.simps Evaluate_def Let_def
    by (intro evaluate_rules_current) (auto simp: transition_current intro: cb_wf_peak)
next
  case (OpStopLoss now)
  then show ?thesis using assms by (simp add: RecordStopLoss_def Let_def stop_loss_rules_current)
next
  case (OpReset now reason)
  then show ?thesis using assms by (simp add: Reset_def transition_current)
qed

lemma run_invariant:
  assumes "append_ok io" "persist_ok io" "cb_wf cb" "file_current cb" "chained s (LoadEvents cb) (cb_state cb)"
    and "\<forall>op\<in>set ops. op_finite (day_start_value cb) op"
  shows "cb_wf (cb_run io ops cb) \<and> file_current (cb_run io ops cb) \<and>
         chained s (LoadEvents (cb_run io ops cb)) (cb_state (cb_run io ops cb))"
  using assms
proof (induction ops arbitrary: cb)
  case (Cons op ops)
  have fin: "op_finite (day_start_value cb) op" using Cons.prems(6) by simp
  have ch: "chained s (LoadEvents (cb_apply io op cb)) (cb_state (cb_apply io op cb))"
    using Cons.prems fin
    by (cases op) (auto intro: Evaluate_chained RecordStopLoss_chained Reset_chained)
  show ?case
    using Cons.IH [of "cb_apply io op cb"] Cons.prems fin ch
    by (simp add: cb_wf_apply apply_current frame_simps)
qed simp


lemma file_current_ResetDayState:
  "persist_ok io \<Longrightarrow> finite_f64 v \<Longrightarrow> file_current (ResetDayState io now v cb)"
  by (simp add: ResetDayState_def persistStateLocked_def file_current_def)

lemma restart_reads_file:
  "file_current cb \<Longrightarrow> cb_state (NewCircuitBreaker now lg (cb_file cb)) = cb_state cb"
  by (auto simp: file_current_def NewCircuitBreaker_def loadState_def Let_def)

text \<open>C35 (roundtrip).  Start a day (ResetDayState) on any breaker with a working disk and a start value that is a finite,
  non-negative float, and run any sequence of evaluations, stop losses and manual resets whose inputs are finite, with a
  non-negative sum of cash and unrealised profit and a computed percentage of the day that is finite: a breaker created
  afterwards from the two files comes up in the state the old one was in.  This is about NewCircuitBreaker only; what the
  scheduler does with the new breaker is another matter (it starts the market day again and resets it).\<close>

theorem restart_restores_state:
  assumes "append_ok io" "persist_ok io"
    and "is_f64 v" "fle (Fin 0) v" "finite_f64 v" "\<forall>op\<in>set ops. op_finite v op"
  shows "cb_state (NewCircuitBreaker now (cb_log (cb_run io ops (ResetDayState io t v cb)))
           (cb_file (cb_run io ops (ResetDayState io t v cb))))
         = cb_state (cb_run io ops (ResetDayState io t v cb))"
proof -
  let ?cb = "(ResetDayState io t v cb)\<lparr>cb_log := []\<rparr>"
  have "file_current (cb_run io ops (ResetDayState io t v cb))"
    using assms
  proof (induction ops rule: rev_induct)
    case Nil
    then show ?case by (simp add: file_current_ResetDayState)
  next
    case (snoc op ops)
    have app: "cb_run io (xs @ ys) c = cb_run io ys (cb_run io xs c)" for xs ys c
      by (induction xs arbitrary: c) auto
    have ds: "day_start_value (cb_run io xs c) = day_start_value c" for xs c
      by (induction xs arbitrary: c) (auto simp: frame_simps)
    have v: "day_start_value (ResetDayState io t v cb) = v" by (simp add: ResetDayState_def frame_simps)
    have wf: "cb_wf c \<Longrightarrow> \<forall>op\<in>set xs. op_finite (day_start_value c) op \<Longrightarrow> cb_wf (cb_run io xs c)" for xs c
      by (induction xs arbitrary: c) (auto simp: frame_simps cb_wf_apply)
    show ?case
      using snoc wf [of "ResetDayState io t v cb" ops]
      by (simp add: app apply_current ds v cb_wf_ResetDayState)
  qed
  then show ?thesis by (rule restart_reads_file)
qed

theorem restart_restores_state_witness:
  "\<exists>halted. halted = cb_run \<lparr>append_ok = True, persist_ok = True\<rparr> [OpStopLoss 2, OpStopLoss 3, OpStopLoss 4]
       (ResetDayState \<lparr>append_ok = True, persist_ok = True\<rparr> 1 (Fin 100) (NewCircuitBreaker 0 [] None))
     \<and> cb_state (NewCircuitBreaker 9 (cb_log halted) (cb_file halted)) = CircuitPaused"
proof -
  let ?io = "\<lparr>append_ok = True, persist_ok = True\<rparr>"
  let ?cb = "cb_run ?io [OpStopLoss 2, OpStopLoss 3, OpStopLoss 4] (ResetDayState ?io 1 (Fin 100) (NewCircuitBreaker 0 [] None))"
  have "cb_state ?cb = CircuitPaused"
    by (simp add: RecordStopLoss_def ResetDayState_def Let_def frame_simps NewCircuitBreaker_def loadState_def
        DefaultCircuitBreakerRules_def wrap64_def)
  moreover have "is_f64 (Fin 100)" by (simp add: is_f64_def f64_simps)
  ultimately show ?thesis
    using restart_restores_state [of ?io "Fin 100" "[OpStopLoss 2, OpStopLoss 3, OpStopLoss 4]" 9 1 "NewCircuitBreaker 0 [] None"]
    by (simp del: cb_run.simps)
qed

text \<open>The transition log is a faithful history.  Over any run of operations on finite inputs with
  a working disk, the decoded entries form a chain: each starts in the state its predecessor ended
  in, no entry is a self-transition, and the last one ends in the current state.\<close>

theorem log_is_history:
  assumes "append_ok io" "persist_ok io" "cb_wf cb" "file_current cb"
    and "chained s (LoadEvents cb) (cb_state cb)" "\<forall>op\<in>set ops. op_finite (day_start_value cb) op"
  shows "chained s (LoadEvents (cb_run io ops cb)) (cb_state (cb_run io ops cb))"
  using run_invariant [OF assms] by simp

theorem log_is_history_witness:
  "map cbe_to (LoadEvents (cb_run \<lparr>append_ok = True, persist_ok = True\<rparr>
       [OpStopLoss 2, OpStopLoss 3, OpStopLoss 4, OpReset 5 []]
       (ResetDayState \<lparr>append_ok = True, persist_ok = True\<rparr> 1 (Fin 100) (NewCircuitBreaker 0 [] None))))
   = [CircuitPaused, CircuitNormal] \<and>
   chained CircuitNormal (LoadEvents (cb_run \<lparr>append_ok = True, persist_ok = True\<rparr>
       [OpStopLoss 2, OpStopLoss 3, OpStopLoss 4, OpReset 5 []]
       (ResetDayState \<lparr>append_ok = True, persist_ok = True\<rparr> 1 (Fin 100) (NewCircuitBreaker 0 [] None)))) CircuitNormal"
proof -
  let ?io = "\<lparr>append_ok = True, persist_ok = True\<rparr>"
  let ?ops = "[OpStopLoss 2, OpStopLoss 3, OpStopLoss 4, OpReset 5 []]"
  let ?c = "ResetDayState ?io 1 (Fin 100) (NewCircuitBreaker 0 [] None)"
  have f: "is_f64 (Fin 100)" by (simp add: is_f64_def f64_simps)
  have wf: "cb_wf ?c" using f by (intro cb_wf_ResetDayState) simp_all
  have fc: "file_current ?c" by (rule file_current_ResetDayState) simp_all
  have ch: "chained CircuitNormal (LoadEvents ?c) (cb_state ?c)"
    by (simp add: ResetDayState_def frame_simps NewCircuitBreaker_def loadState_def LoadEvents_def
        List.map_filter_simps Let_def)
  have st: "cb_state (cb_run ?io ?ops ?c) = CircuitNormal"
    by (simp add: Reset_def frame_simps)
  have "map cbe_to (LoadEvents (cb_run ?io ?ops ?c)) = [CircuitPaused, CircuitNormal]"
    by (simp add: RecordStopLoss_def ResetDayState_def Reset_def transitionLocked_def appendLog_def LoadEvents_def
        Let_def frame_simps NewCircuitBreaker_def loadState_def DefaultCircuitBreakerRules_def wrap64_def
        List.map_filter_simps)
  then show ?thesis
    using log_is_history [OF _ _ wf fc ch, where ops = ?ops and io = ?io] st by (simp del: cb_run.simps)
qed

text \<open>The exact effect of \<open>RecordStopLoss\<close> on the state.\<close>

lemma stop_loss_rules_state:
  "cb_state (stop_loss_rules io now rs cb) =
     (if \<exists>r\<in>set rs. rule_enabled r \<and> 0 < rule_consecutive_sl r \<and> rule_consecutive_sl r \<le> consecutive_sl cb
      then CircuitPaused else cb_state cb)"
  by (induction rs arbitrary: cb) (auto simp: frame_simps)

text \<open>A stop loss that reaches the configured count replaces a halt by a pause: from
  \<open>CircuitHalted\<close> with the default rules and two stop losses counted, \<open>RecordStopLoss\<close> leaves the
  breaker paused, so sell orders pass again, and once the fifteen minutes are over the next
  evaluation starts from \<open>CircuitNormal\<close>.\<close>

theorem stop_loss_downgrades_halt:
  assumes "cb_state cb = CircuitHalted" "cb_rules cb = DefaultCircuitBreakerRules"
    and "2 \<le> consecutive_sl cb" "consecutive_sl cb < i64_max" "now + 15 * minute < later"
  shows "cb_state (RecordStopLoss io now cb) = CircuitPaused
    \<and> CanPlaceOrder SideSell (cb_state (RecordStopLoss io now cb))
    \<and> recovered_state later (RecordStopLoss io now cb) = CircuitNormal"
proof -
  have n: "wrap64 (consecutive_sl cb + 1) = consecutive_sl cb + 1"
    using assms(3,4) by (intro wrap64_id) (auto simp: i64_min_def)
  have st: "cb_state (RecordStopLoss io now cb) = CircuitPaused"
    using assms n by (simp add: RecordStopLoss_def Let_def stop_loss_rules_state DefaultCircuitBreakerRules_def frame_simps)
  have "cooldown_until (RecordStopLoss io now cb) = now + 15 * minute"
    using assms n by (simp add: RecordStopLoss_def Let_def frame_simps DefaultCircuitBreakerRules_def wrap64_def)
  then show ?thesis using st assms(5) by (simp add: recovered_state_def)
qed

theorem stop_loss_downgrades_halt_witness:
  "cb_state (RecordStopLoss \<lparr>append_ok = True, persist_ok = True\<rparr> 0
     ((NewCircuitBreaker 0 [] None)\<lparr>cb_state := CircuitHalted, consecutive_sl := 2\<rparr>)) = CircuitPaused"
proof -
  let ?cb = "(NewCircuitBreaker 0 [] None)\<lparr>cb_state := CircuitHalted, consecutive_sl := 2\<rparr>"
  have "cb_rules ?cb = DefaultCircuitBreakerRules" by (simp add: NewCircuitBreaker_def loadState_def Let_def)
  then show ?thesis
    using stop_loss_downgrades_halt [of ?cb 0 "16 * minute"] by (simp add: i64_max_def)
qed

text \<open>A pause caused by a drawdown has no cooldown: unless stop losses set one, the next evaluation
  lifts it before it looks at the drawdown again.\<close>

lemma drawdown_pause_lifts:
  "cooldown_until cb = zero_time \<Longrightarrow> zero_time < later \<Longrightarrow>
   cb_state (Evaluate io now cash u pnl cb) = CircuitPaused \<Longrightarrow>
   recovered_state later (Evaluate io now cash u pnl cb) = CircuitNormal"
  by (simp add: recovered_state_def Evaluate_def Let_def frame_simps)

section \<open>The interface the order path relies on\<close>

text \<open>
  \<open>CircuitBreakerOps\<close> as its clients read it: a circuit state and the guard
  \<open>CanPlaceOrder\<close> that depends on nothing else.
\<close>

locale circuit_ops =
  fixes st :: "'cb \<Rightarrow> circuit_state"
    and can :: "string \<Rightarrow> 'cb \<Rightarrow> bool"
  assumes normal_allows: "st c = CircuitNormal \<Longrightarrow> can side c"
    and paused_sells: "st c = CircuitPaused \<Longrightarrow> can side c = (side = SideSell)"
    and halted_blocks: "st c = CircuitHalted \<Longrightarrow> \<not> can side c"
    and other_blocks: "st c = CircuitOther x \<Longrightarrow> \<not> can side c"
begin

lemma restricted_sells_only: "st c \<noteq> CircuitNormal \<Longrightarrow> can side c \<Longrightarrow> side = SideSell"
  by (cases "st c") (auto simp: paused_sells dest: halted_blocks other_blocks)

lemma buy_only_normal: "can SideBuy c \<longleftrightarrow> st c = CircuitNormal"
  using restricted_sells_only [of c SideBuy] normal_allows [of c SideBuy]
  by (auto simp: SideBuy_def SideSell_def)

lemma can_determined: "st c = st c' \<Longrightarrow> can side c = can side c'"
  by (metis circuit_state.exhaust normal_allows paused_sells halted_blocks other_blocks)

end

definition cb_can_place :: "string \<Rightarrow> circuit_breaker \<Rightarrow> bool" where
  "cb_can_place side cb = CanPlaceOrder side (cb_state cb)"

interpretation live_cb: circuit_ops cb_state cb_can_place
  by unfold_locales (auto simp: cb_can_place_def)

end
