(* ===== verification/Live_TWSE.thy ===== *)
theory Live_TWSE
  imports Live_Broker Live_Circuit
begin

text \<open>
  The TWSE broker adapter (\<open>internal/live/twse_adapter.go\<close>, \<open>twse_types.go\<close>): construction,
  the token bucket that paces its requests, order submission, status query and cancellation.

  As in \<open>Live_HTTP\<close> the exchange is a function \<open>do_req\<close> on a world, a signature is the term
  of its arguments, and the JSON decoders and the redaction of upstream text are parameters.
  The circuit breaker is represented by its state, the only part \<open>CanPlaceOrder\<close> reads.
\<close>

section \<open>Configuration and state\<close>

record twse_config =
  tc_base_url :: string
  tc_api_key :: string
  tc_api_secret :: string
  tc_account_id :: string
  tc_timeout :: duration
  tc_rps :: f64

record twse_adapter =
  ta_base_url :: string
  ta_api_key :: string
  ta_api_secret :: string
  ta_account_id :: string
  ta_timeout :: duration
  ta_rps :: f64
  ta_breaker :: "circuit_state option"
  ta_last :: time
  ta_tokens :: f64

definition twse_trim_url :: "string \<Rightarrow> string" where
  "twse_trim_url s = rev (dropWhile (\<lambda>c. c = CHR ''/'') (rev (trim_space s)))"

definition NewTWSEBrokerAdapter :: "twse_config \<Rightarrow> circuit_state option \<Rightarrow> twse_adapter" where
  "NewTWSEBrokerAdapter cfg cb =
     (let rps = (if fle (tc_rps cfg) (Fin 0) then Fin 2 else tc_rps cfg)
      in \<lparr>ta_base_url = twse_trim_url (tc_base_url cfg), ta_api_key = trim_space (tc_api_key cfg),
          ta_api_secret = trim_space (tc_api_secret cfg), ta_account_id = trim_space (tc_account_id cfg),
          ta_timeout = (if tc_timeout cfg \<le> 0 then 5 * second else tc_timeout cfg),
          ta_rps = rps, ta_breaker = cb, ta_last = zero_time, ta_tokens = rps\<rparr>)"

section \<open>The token bucket\<close>

text \<open>
  \<open>waitRateLimit\<close>: the time it sleeps, if it does, and the adapter after it.  \<open>now\<close> is the
  clock on entry and \<open>wake w\<close> the clock at the end, after a sleep of \<open>w\<close>.
\<close>

definition waitRateLimit :: "time \<Rightarrow> (duration option \<Rightarrow> time) \<Rightarrow> twse_adapter \<Rightarrow> duration option \<times> twse_adapter" where
  "waitRateLimit now wake a =
     (if fle (ta_rps a) (Fin 0) then (None, a)
      else let elapsed = duration_seconds (time_sub now (ta_last a));
               tokens = fadd (ta_tokens a) (fmul elapsed (ta_rps a));
               tokens = (if flt (ta_rps a) tokens then ta_rps a else tokens);
               wait = (if flt tokens (Fin 1)
                       then Some (wrap64 (f64_to_i64 (fmul (fdiv (fsub (Fin 1) tokens) (ta_rps a)) (Fin 1000000000)) + millisecond))
                       else None)
           in (wait, a\<lparr>ta_tokens := fsub tokens (Fin 1), ta_last := wake wait\<rparr>))"

section \<open>Requests\<close>

definition mapSide :: "string \<Rightarrow> string" where
  "mapSide side = (if side = SideBuy then ''B'' else if side = SideSell then ''S'' else ''B'')"

definition twse_validateConfig :: "twse_adapter \<Rightarrow> live_error option" where
  "twse_validateConfig a =
     (if ta_base_url a = [] then Some (ConfigRequired ''base_url'')
      else if ta_api_key a = [] then Some (ConfigRequired ''api_key'')
      else if ta_api_secret a = [] then Some (ConfigRequired ''api_secret'')
      else if ta_account_id a = [] then Some (ConfigRequired ''account_id'')
      else None)"

record twse_order_request =
  tor_symbol :: string
  tor_side :: string
  tor_quantity :: int
  tor_price :: f64
  tor_order_type :: string
  tor_time_in_force :: string
  tor_account_id :: string

datatype twse_payload = OrderBody twse_order_request | IdPayload string

text \<open>\<open>sign\<close> keys an HMAC-SHA256 with the secret and feeds it secret, time stamp, nonce and payload.\<close>

datatype twse_signature = TwseHmac string time string twse_payload

datatype http_method = POST | GET | DELETE

record twse_request =
  tr_method :: http_method
  tr_url :: string
  tr_body :: "twse_order_request option"
  tr_api_key :: string
  tr_signature :: twse_signature
  tr_timestamp :: time
  tr_nonce :: string

datatype twse_reply =
    TwseBadRequest
  | TwseTransport string
  | TwseReadFailed string
  | TwseResponse int string

record twse_order_response =
  tres_order_id :: string
  tres_status :: string
  tres_fill_price :: f64
  tres_filled_qty :: int
  tres_reject_reason :: string
  tres_message :: string
  tres_timestamp :: string

definition empty_twse_response :: twse_order_response where
  "empty_twse_response = \<lparr>tres_order_id = [], tres_status = [], tres_fill_price = Fin 0, tres_filled_qty = 0,
     tres_reject_reason = [], tres_message = [], tres_timestamp = []\<rparr>"

record twse_trade_result =
  ttr_order_id :: string
  ttr_status :: string
  ttr_fill_price :: f64
  ttr_filled_qty :: int
  ttr_remain_qty :: int
  ttr_symbol :: string
  ttr_side :: string
  ttr_message :: string
  ttr_last_update :: string

definition empty_trade_result :: twse_trade_result where
  "empty_trade_result = \<lparr>ttr_order_id = [], ttr_status = [], ttr_fill_price = Fin 0, ttr_filled_qty = 0,
     ttr_remain_qty = 0, ttr_symbol = [], ttr_side = [], ttr_message = [], ttr_last_update = []\<rparr>"

text \<open>The body of a reply, once the transport and the status code are checked.\<close>

definition twse_reply_body :: "(string \<Rightarrow> string) \<Rightarrow> twse_reply \<Rightarrow> live_error + string" where
  "twse_reply_body redact r = (case r of
     TwseBadRequest \<Rightarrow> Inl BuildRequestFailed
   | TwseTransport e \<Rightarrow> Inl (TransportFailed e)
   | TwseReadFailed e \<Rightarrow> Inl (ReadBodyFailed e)
   | TwseResponse code body \<Rightarrow>
       if code \<ge> 400 then Inl (APIError code (redact (trim_space body))) else Inr body)"

section \<open>Operations\<close>

text \<open>The limit order a request is built from; a non-positive price would make it a market order.\<close>

definition twse_order_body :: "twse_adapter \<Rightarrow> order \<Rightarrow> twse_order_request" where
  "twse_order_body a ord =
     \<lparr>tor_symbol = o_symbol ord, tor_side = mapSide (o_side ord), tor_quantity = o_quantity ord,
      tor_price = o_price ord, tor_order_type = (if fle (o_price ord) (Fin 0) then ''M'' else ''L''),
      tor_time_in_force = ''ROD'', tor_account_id = ta_account_id a\<rparr>"

definition twse_result :: "(string \<Rightarrow> twse_order_response option) \<Rightarrow> string \<Rightarrow> live_error + broker_result" where
  "twse_result decode body =
     (case (if body = [] then Some empty_twse_response else decode body) of
        None \<Rightarrow> Inl (DecodeFailed body)
      | Some r \<Rightarrow> Inr \<lparr>br_order_id = tres_order_id r,
          br_status = (if trim_space (tres_status r) = [] then ''placed'' else tres_status r),
          br_fill_price = tres_fill_price r,
          br_reason = (if tres_reject_reason r = [] then tres_message r else tres_reject_reason r)\<rparr>)"

definition twse_submit ::
  "(twse_request \<Rightarrow> 'w \<Rightarrow> twse_reply \<times> 'w) \<Rightarrow> (string \<Rightarrow> twse_order_response option) \<Rightarrow> (string \<Rightarrow> string) \<Rightarrow>
   time \<Rightarrow> (duration option \<Rightarrow> time) \<Rightarrow> string \<Rightarrow> ('w \<times> twse_adapter) submit" where
  "twse_submit do_req decode redact now wake nonce ord s =
     (let (w, a) = s
      in case validateOrder ord of Some e \<Rightarrow> ((empty_result, Some e), s)
      | None \<Rightarrow> (case twse_validateConfig a of Some e \<Rightarrow> ((empty_result, Some e), s)
        | None \<Rightarrow>
          if (case ta_breaker a of None \<Rightarrow> False | Some st \<Rightarrow> \<not> CanPlaceOrder (o_side ord) st)
          then ((empty_result\<lparr>br_status := ''rejected'',
                   br_reason := ''circuit breaker blocked '' @ o_side ord @ '' order on '' @ o_symbol ord\<rparr>,
                 Some (CircuitBlocked (o_side ord) (o_symbol ord))), s)
          else if (case o_price ord of Fin _ \<Rightarrow> False | _ \<Rightarrow> True) then ((empty_result, Some MarshalFailed), s)
          else
            (let a' = snd (waitRateLimit now wake a);
                 (reply, w') = do_req
                   \<lparr>tr_method = POST, tr_url = ta_base_url a @ ''/orders'', tr_body = Some (twse_order_body a ord),
                    tr_api_key = ta_api_key a,
                    tr_signature = TwseHmac (ta_api_secret a) now nonce (OrderBody (twse_order_body a ord)),
                    tr_timestamp = now, tr_nonce = nonce\<rparr> w
             in case twse_reply_body redact reply of
                  Inl e \<Rightarrow> ((empty_result, Some e), (w', a'))
                | Inr body \<Rightarrow> (case twse_result decode body of
                      Inl e \<Rightarrow> ((empty_result, Some e), (w', a'))
                    | Inr res \<Rightarrow> ((res, None), (w', a'))))))"

text \<open>The request of \<open>QueryOrderStatus\<close> and \<open>CancelOrder\<close>, without a body.\<close>

definition twse_id_request :: "http_method \<Rightarrow> twse_adapter \<Rightarrow> string \<Rightarrow> time \<Rightarrow> string \<Rightarrow> twse_request" where
  "twse_id_request m a oid now nonce =
     \<lparr>tr_method = m, tr_url = ta_base_url a @ ''/orders/'' @ oid, tr_body = None, tr_api_key = ta_api_key a,
      tr_signature = TwseHmac (ta_api_secret a) now nonce (IdPayload oid), tr_timestamp = now, tr_nonce = nonce\<rparr>"

definition QueryOrderStatus ::
  "(twse_request \<Rightarrow> 'w \<Rightarrow> twse_reply \<times> 'w) \<Rightarrow> (string \<Rightarrow> twse_trade_result option) \<Rightarrow> (string \<Rightarrow> string) \<Rightarrow>
   time \<Rightarrow> (duration option \<Rightarrow> time) \<Rightarrow> string \<Rightarrow> string \<Rightarrow> 'w \<times> twse_adapter \<Rightarrow>
   (live_error + twse_trade_result) \<times> ('w \<times> twse_adapter)" where
  "QueryOrderStatus do_req decode redact now wake nonce oid s =
     (let (w, a) = s
      in case twse_validateConfig a of Some e \<Rightarrow> (Inl e, s)
      | None \<Rightarrow>
        if trim_space oid = [] then (Inl (ConfigRequired ''order_id''), s)
        else (let a' = snd (waitRateLimit now wake a);
                  (reply, w') = do_req (twse_id_request GET a oid now nonce) w
              in case twse_reply_body redact reply of
                   Inl e \<Rightarrow> (Inl e, (w', a'))
                 | Inr body \<Rightarrow>
                     (case (if body = [] then Some empty_trade_result else decode body) of
                        None \<Rightarrow> (Inl (DecodeFailed body), (w', a'))
                      | Some r \<Rightarrow> (Inr r, (w', a')))))"

definition CancelOrder ::
  "(twse_request \<Rightarrow> 'w \<Rightarrow> twse_reply \<times> 'w) \<Rightarrow> (string \<Rightarrow> string) \<Rightarrow>
   time \<Rightarrow> (duration option \<Rightarrow> time) \<Rightarrow> string \<Rightarrow> string \<Rightarrow> 'w \<times> twse_adapter \<Rightarrow>
   live_error option \<times> ('w \<times> twse_adapter)" where
  "CancelOrder do_req redact now wake nonce oid s =
     (let (w, a) = s
      in case twse_validateConfig a of Some e \<Rightarrow> (Some e, s)
      | None \<Rightarrow>
        if trim_space oid = [] then (Some (ConfigRequired ''order_id''), s)
        else (let a' = snd (waitRateLimit now wake a);
                  (reply, w') = do_req (twse_id_request DELETE a oid now nonce) w
              in case twse_reply_body redact reply of
                   Inl e \<Rightarrow> (Some e, (w', a'))
                 | Inr _ \<Rightarrow> (None, (w', a'))))"

section \<open>The adapter under a guarded broker\<close>

interpretation twse_broker: broker_contract "twse_submit do_req decode redact now wake nonce"
proof
  fix ord e s
  assume "validateOrder ord = Some e"
  then show "twse_submit do_req decode redact now wake nonce ord s = ((empty_result, Some e), s)"
    by (simp add: twse_submit_def split: prod.split)
next
  fix ord s result s'
  assume "twse_submit do_req decode redact now wake nonce ord s = ((result, None), s')"
  then show "trim_space (br_status result) \<noteq> []"
    by (auto simp: twse_submit_def Let_def twse_result_def
        split: prod.splits option.splits if_splits sum.splits)
qed

section \<open>The pace of back-to-back requests\<close>

text \<open>
  The adapter after \<open>n\<close> requests, each issued the moment the previous one was let through;
  \<open>clock i\<close> is the time the \<open>i\<close>-th request is let through.
\<close>

fun back_to_back :: "(nat \<Rightarrow> time) \<Rightarrow> nat \<Rightarrow> twse_adapter \<Rightarrow> twse_adapter" where
  "back_to_back clock 0 a = a"
| "back_to_back clock (Suc n) a =
     (let b = back_to_back clock n a in snd (waitRateLimit (ta_last b) (\<lambda>_. clock n) b))"

lemma fsub_int_1: "\<bar>i - 1\<bar> \<le> 2 ^ 53 \<Longrightarrow> fsub (Fin (of_int i)) (Fin 1) = Fin (of_int (i - 1))"
  using rnd_of_int [of "i - 1"] by (simp add: fsub_def)

text \<open>One request at the moment of the last one, at the default rate of two per second.\<close>

lemma waitRateLimit_now:
  assumes "ta_rps a = Fin 2" "ta_tokens a = Fin (of_int k)" "k \<le> 2" "\<bar>k - 1\<bar> \<le> 2 ^ 53" "\<bar>k\<bar> \<le> 2 ^ 53"
  shows "snd (waitRateLimit (ta_last a) wake a) =
           a\<lparr>ta_tokens := Fin (of_int (k - 1)), ta_last := wake (fst (waitRateLimit (ta_last a) wake a))\<rparr>"
  using assms fadd_int_0 [of k] fsub_int_1 [of k]
  by (simp add: waitRateLimit_def Let_def)

lemma back_to_back_tokens:
  assumes "ta_rps a = Fin 2" "ta_tokens a = Fin 2" "n \<le> 10000000"
  shows "ta_rps (back_to_back clock n a) = Fin 2 \<and> ta_tokens (back_to_back clock n a) = Fin (of_int (2 - int n))"
  using assms(3)
proof (induction n)
  case (Suc n)
  have IH: "ta_rps (back_to_back clock n a) = Fin 2" "ta_tokens (back_to_back clock n a) = Fin (of_int (2 - int n))"
    using Suc by simp_all
  show ?case using waitRateLimit_now [OF IH] Suc.prems IH(1) by (simp add: Let_def)
qed (use assms in simp)

lemma wait_value:
  assumes "1 \<le> m" "m \<le> 10000000"
  shows "f64_to_i64 (fmul (fdiv (Fin (of_int m)) (Fin 2)) (Fin 1000000000)) = m * 500000000"
proof -
  have h: "rnd (of_int m / 2 ^ 1) = Fin (of_int m / 2 ^ 1)" using assms by (intro rnd_dyadic) auto
  have p: "of_int m / (2::rat) * 1000000000 = of_int (m * 500000000)" by simp
  have "rnd (of_int m / 2 * 1000000000) = Fin (of_int (m * 500000000))"
    unfolding p using assms by (intro rnd_of_int) auto
  moreover have "\<lfloor>of_int m * (500000000 :: rat)\<rfloor> = m * 500000000"
    using floor_of_int [of "m * 500000000", where 'a = rat] by simp
  ultimately show ?thesis using h assms by (simp add: f64_to_i64_def i64_min_def i64_max_def)
qed

text \<open>
  Under a steady load the token bucket of the TWSE adapter does not keep its
  rate.  At the default two requests per second, from a full bucket, the time a request sleeps
  is not credited to the bucket: after \<open>n\<close> back-to-back requests the bucket holds
  \<open>2 - n\<close> tokens, and the next request sleeps \<open>(n - 1) / 2\<close> seconds and a millisecond, without
  bound as \<open>n\<close> grows, instead of half a second.
\<close>

theorem rate_limit_drifts:
  assumes "ta_rps a = Fin 2" "ta_tokens a = Fin 2" "2 \<le> n" "n \<le> 10000000"
  shows "ta_tokens (back_to_back clock n a) = Fin (of_int (2 - int n)) \<and>
         fst (waitRateLimit (ta_last (back_to_back clock n a)) wake (back_to_back clock n a)) =
           Some ((int n - 1) * 500 * millisecond + millisecond)"
proof (intro conjI)
  let ?b = "back_to_back clock n a"
  have b: "ta_rps ?b = Fin 2" "ta_tokens ?b = Fin (of_int (2 - int n))"
    using back_to_back_tokens [OF assms(1,2,4)] by simp_all
  show "ta_tokens ?b = Fin (of_int (2 - int n))" by (rule b(2))
  have tok: "fadd (Fin (of_int (2 - int n))) (Fin 0) = Fin (of_int (2 - int n))"
    using assms(4) by (intro fadd_int_0) auto
  have sub: "fsub (Fin 1) (Fin (of_int (2 - int n))) = Fin (of_int (int n - 1))"
  proof -
    have "rnd (of_int (int n - 1)) = Fin (of_int (int n - 1))" using assms(4) by (intro rnd_of_int) auto
    moreover have "(1::rat) - of_int (2 - int n) = of_int (int n - 1)" by simp
    ultimately show ?thesis by (simp add: fsub_def)
  qed
  have w: "f64_to_i64 (fmul (fdiv (Fin (of_int (int n - 1))) (Fin 2)) (Fin 1000000000)) = (int n - 1) * 500000000"
    using assms(3,4) by (intro wait_value) auto
  have id: "wrap64 ((int n - 1) * 500000000 + millisecond) = (int n - 1) * 500000000 + millisecond"
    using assms(3,4) by (intro wrap64_id) (auto simp: i64_min_def i64_max_def)
  show "fst (waitRateLimit (ta_last ?b) wake ?b) = Some ((int n - 1) * 500 * millisecond + millisecond)"
    unfolding waitRateLimit_def Let_def b time_sub_self duration_seconds_0
    using tok sub w id assms(3) by (simp del: of_int_diff)
qed

definition demo_twse :: twse_adapter where
  "demo_twse = NewTWSEBrokerAdapter \<lparr>tc_base_url = ''u'', tc_api_key = ''k'', tc_api_secret = ''s'',
     tc_account_id = ''a'', tc_timeout = 0, tc_rps = Fin 0\<rparr> None"

theorem rate_limit_drifts_witness:
  "fst (waitRateLimit (ta_last (back_to_back int 21 demo_twse)) (\<lambda>_. 0) (back_to_back int 21 demo_twse)) =
     Some (10 * second + millisecond)"
  using rate_limit_drifts [of demo_twse 21 int "\<lambda>_. 0"]
  by (simp add: demo_twse_def NewTWSEBrokerAdapter_def Let_def)

end
