(* ===== verification/Live_Fubon.thy ===== *)
theory Live_Fubon
  imports Live_Broker
begin

text \<open>
  The Fubon DMA adapter (\<open>internal/live/fubon_dma.go\<close>): a client of a Python subprocess that
  reads one JSON request per line and writes one JSON response per line.

  The subprocess is a parameter, a record of functions on its state: starting it, writing a
  request line and reading a response line.  The redaction of raw lines is not modelled (the
  error keeps the line's decoding failure only).
\<close>

section \<open>Messages and the subprocess\<close>

record dma_request =
  dq_cmd :: string
  dq_personal_id :: string
  dq_api_key :: string
  dq_symbol :: string
  dq_side :: string
  dq_quantity :: int
  dq_price :: "f64 option"
  dq_price_type :: string
  dq_time_in_force :: string
  dq_order_type :: string

definition dma_cmd :: "string \<Rightarrow> dma_request" where
  "dma_cmd c = \<lparr>dq_cmd = c, dq_personal_id = [], dq_api_key = [], dq_symbol = [], dq_side = [], dq_quantity = 0,
     dq_price = None, dq_price_type = [], dq_time_in_force = [], dq_order_type = []\<rparr>"

record dma_response =
  dr_status :: string
  dr_code :: string
  dr_message :: string
  dr_is_success :: bool
  dr_order_id :: string

text \<open>
  A line read from the subprocess: the text, or an error, which can be the end of the file.
\<close>

datatype read_result = Line string | AtEOF string | ReadError string

record 'p subprocess =
  sp_start :: "'p \<Rightarrow> string option \<times> 'p"
  sp_write :: "dma_request \<Rightarrow> 'p \<Rightarrow> string option \<times> 'p"
  sp_read :: "'p \<Rightarrow> read_result \<times> 'p"
  sp_kill :: "'p \<Rightarrow> 'p"

record dma_adapter =
  dma_personal_id :: string
  dma_api_key :: string
  dma_script :: string
  dma_python :: string
  dma_piped :: bool
  dma_connected :: bool

definition FubonDMAScriptPath :: string where
  "FubonDMAScriptPath = ''cmd/fubon-dma/wrapper.py''"

definition NewFubonDMAAdapter :: "string \<Rightarrow> string \<Rightarrow> string \<Rightarrow> string \<Rightarrow> dma_adapter" where
  "NewFubonDMAAdapter personalID apiKey scriptPath pythonPath =
     \<lparr>dma_personal_id = personalID, dma_api_key = apiKey,
      dma_script = (if scriptPath = [] then FubonDMAScriptPath else scriptPath),
      dma_python = (if pythonPath = [] then ''python3'' else pythonPath),
      dma_piped = False, dma_connected = False\<rparr>"

section \<open>One exchange\<close>

text \<open>\<open>json.Marshal\<close> of a request fails on a price that is not finite.\<close>

definition dma_marshal_ok :: "dma_request \<Rightarrow> bool" where
  "dma_marshal_ok req = (case dq_price req of Some (Fin _) \<Rightarrow> True | None \<Rightarrow> True | _ \<Rightarrow> False)"

definition sendRequest ::
  "'p subprocess \<Rightarrow> (string \<Rightarrow> dma_response option) \<Rightarrow> dma_adapter \<Rightarrow> dma_request \<Rightarrow> 'p \<Rightarrow> (live_error + dma_response) \<times> 'p" where
  "sendRequest sp decode a req p =
     (if \<not> dma_piped a then (Inl DMANotRunning, p)
      else if \<not> dma_marshal_ok req then (Inl MarshalFailed, p)
      else (case sp_write sp req p of
          (Some e, p') \<Rightarrow> (Inl (DMAIO e), p')
        | (None, p') \<Rightarrow>
            (case sp_read sp p' of
               (AtEOF part, p'') \<Rightarrow> (Inl (DMAIO ''EOF''), p'')
             | (ReadError e, p'') \<Rightarrow> (Inl (DMAIO e), p'')
             | (Line l, p'') \<Rightarrow>
                 (if trim_space l = [] then (Inl DMAEmptyResponse, p'')
                  else (case decode (trim_space l) of
                      None \<Rightarrow> (Inl (DecodeFailed (trim_space l)), p'')
                    | Some resp \<Rightarrow> (Inr resp, p''))))))"

section \<open>The operations\<close>

text \<open>
  \<open>Connect\<close>: start the process, read one initial line (the end of the file is tolerated), log
  in.  A failure after the start kills the process, but keeps its pipes.
\<close>

definition dma_connect ::
  "'p subprocess \<Rightarrow> (string \<Rightarrow> dma_response option) \<Rightarrow> dma_adapter \<times> 'p \<Rightarrow> live_error option \<times> (dma_adapter \<times> 'p)" where
  "dma_connect sp decode s =
     (let (a, p) = s
      in if dma_connected a then (None, s)
         else (case sp_start sp p of
             (Some e, p1) \<Rightarrow> (Some (DMAPipe e), (a, p1))
           | (None, p1) \<Rightarrow>
               (let a1 = a\<lparr>dma_piped := True\<rparr>
                in case sp_read sp p1 of
                     (ReadError e, p2) \<Rightarrow> (Some (DMAIO e), (a1, sp_kill sp p2))
                   | (_, p2) \<Rightarrow>
                       (case sendRequest sp decode a1
                               ((dma_cmd ''login'')\<lparr>dq_personal_id := dma_personal_id a, dq_api_key := dma_api_key a\<rparr>) p2 of
                          (Inl e, p3) \<Rightarrow> (Some (DMAWrapped ''login request'' e), (a1, sp_kill sp p3))
                        | (Inr resp, p3) \<Rightarrow>
                            (if dr_status resp \<noteq> ''ok'' \<or> \<not> dr_is_success resp
                             then (Some (DMALoginFailed (if dr_message resp = [] then dr_code resp else dr_message resp)),
                                   (a1, sp_kill sp p3))
                             else (None, (a1\<lparr>dma_connected := True\<rparr>, p3)))))))"

definition dma_order_request :: "order \<Rightarrow> dma_request" where
  "dma_order_request ord =
     (dma_cmd ''submit_order'')
       \<lparr>dq_symbol := o_symbol ord, dq_side := (if o_side ord = SideSell then ''SELL'' else ''BUY''),
        dq_quantity := o_quantity ord, dq_price_type := ''LIMIT'', dq_time_in_force := ''ROD'',
        dq_order_type := ''STOCK'',
        dq_price := (if flt (Fin 0) (o_price ord) then Some (o_price ord) else None)\<rparr>"

text \<open>What \<open>SubmitOrder\<close> makes of a response.\<close>

definition dma_result :: "dma_response \<Rightarrow> broker_result" where
  "dma_result resp =
     (if dr_status resp \<noteq> ''ok''
      then empty_result\<lparr>br_status := ''rejected'',
             br_reason := (if dr_message resp = [] then dr_code resp else dr_message resp)\<rparr>
      else \<lparr>br_order_id = dr_order_id resp, br_status = ''placed'', br_fill_price = Fin 0,
            br_reason = ''fubon dma order placed''\<rparr>)"

definition dma_submit ::
  "'p subprocess \<Rightarrow> (string \<Rightarrow> dma_response option) \<Rightarrow> (dma_adapter \<times> 'p) submit" where
  "dma_submit sp decode ord s =
     (let (a, p) = s
      in case validateOrder ord of Some e \<Rightarrow> ((empty_result, Some e), s)
      | None \<Rightarrow>
        if \<not> dma_connected a
        then ((empty_result\<lparr>br_status := ''rejected'', br_reason := ''fubon dma adapter not connected''\<rparr>, None), s)
        else (case sendRequest sp decode a (dma_order_request ord) p of
            (Inl e, p') \<Rightarrow> ((empty_result, Some (DMAWrapped ''submit order'' e)), (a, p'))
          | (Inr resp, p') \<Rightarrow> ((dma_result resp, None), (a, p'))))"

definition dma_ping ::
  "'p subprocess \<Rightarrow> (string \<Rightarrow> dma_response option) \<Rightarrow> dma_adapter \<times> 'p \<Rightarrow> live_error option \<times> (dma_adapter \<times> 'p)" where
  "dma_ping sp decode s =
     (let (a, p) = s
      in if \<not> dma_connected a then (Some DMANotConnected, s)
         else (case sendRequest sp decode a (dma_cmd ''ping'') p of
             (Inl e, p') \<Rightarrow> (Some (DMAWrapped ''ping'' e), (a, p'))
           | (Inr resp, p') \<Rightarrow>
               (if dr_status resp \<noteq> ''ok'' then Some (DMAPingFailed (dr_message resp)) else None, (a, p'))))"

definition dma_close ::
  "'p subprocess \<Rightarrow> (string \<Rightarrow> dma_response option) \<Rightarrow> dma_adapter \<times> 'p \<Rightarrow> dma_adapter \<times> 'p" where
  "dma_close sp decode s =
     (let (a, p) = s
      in if \<not> dma_connected a then s
         else (let p' = snd (sendRequest sp decode a (dma_cmd ''logout'') p)
               in (a\<lparr>dma_connected := False\<rparr>, sp_kill sp p')))"

interpretation dma_broker: broker_contract "dma_submit sp decode"
  by unfold_locales
    (auto simp: dma_submit_def dma_result_def split: prod.splits option.splits sum.splits if_splits)

section \<open>Two submissions at once\<close>

text \<open>
  \<open>SubmitOrder\<close> takes the read lock only to look at \<open>connected\<close> and releases it before
  \<open>sendRequest\<close>, so two submissions can both have written before either has read.  A thread
  is a number; a step is the write or the read of one thread; the subprocess answers the
  requests in the order they were written.  The record holds the responses not yet read and
  what each thread has read.
\<close>

datatype io_step = WriteLine nat | ReadLine nat

record dma_pipe =
  pending :: "dma_response list"
  received :: "(nat \<times> dma_response) list"

definition io_apply :: "(dma_request \<Rightarrow> dma_response) \<Rightarrow> (nat \<Rightarrow> dma_request) \<Rightarrow> io_step \<Rightarrow> dma_pipe \<Rightarrow> dma_pipe" where
  "io_apply answer reqs st c = (case st of
     WriteLine i \<Rightarrow> c\<lparr>pending := pending c @ [answer (reqs i)]\<rparr>
   | ReadLine i \<Rightarrow> (case pending c of [] \<Rightarrow> c
       | r # rest \<Rightarrow> c\<lparr>pending := rest, received := received c @ [(i, r)]\<rparr>))"

definition io_run :: "(dma_request \<Rightarrow> dma_response) \<Rightarrow> (nat \<Rightarrow> dma_request) \<Rightarrow> io_step list \<Rightarrow> dma_pipe \<Rightarrow> dma_pipe" where
  "io_run answer reqs steps c = foldl (\<lambda>c st. io_apply answer reqs st c) c steps"

text \<open>Schedules in which each thread's write is followed at once by its read.\<close>

fun exclusive :: "io_step list \<Rightarrow> bool" where
  "exclusive [] = True"
| "exclusive [_] = False"
| "exclusive (st # st' # rest) = (case (st, st') of (WriteLine i, ReadLine j) \<Rightarrow> i = j \<and> exclusive rest | _ \<Rightarrow> False)"

lemma exclusive_run:
  "exclusive steps \<Longrightarrow> pending c = [] \<Longrightarrow>
   pending (io_run answer reqs steps c) = [] \<and>
   (\<exists>more. received (io_run answer reqs steps c) = received c @ more \<and> (\<forall>(i, r) \<in> set more. r = answer (reqs i)))"
proof (induction steps arbitrary: c rule: exclusive.induct)
  case (3 st st' rest)
  then obtain i where st: "st = WriteLine i" "st' = ReadLine i" "exclusive rest"
    by (auto split: io_step.splits)
  let ?c = "c\<lparr>pending := [], received := received c @ [(i, answer (reqs i))]\<rparr>"
  have run: "io_run answer reqs (st # st' # rest) c = io_run answer reqs rest ?c"
    using st 3(3) by (simp add: io_run_def io_apply_def)
  obtain more where "pending (io_run answer reqs rest ?c) = []"
    "received (io_run answer reqs rest ?c) = received ?c @ more" "\<forall>(i, r) \<in> set more. r = answer (reqs i)"
    using 3(1) [OF refl st(1,2) st(3), of ?c] by auto
  then show ?case unfolding run by (intro conjI exI [of _ "(i, answer (reqs i)) # more"]) auto
qed (auto simp: io_run_def)

definition no_io :: dma_pipe where
  "no_io = \<lparr>pending = [], received = []\<rparr>"

definition crossed :: "io_step list" where
  "crossed = [WriteLine 0, WriteLine 1, ReadLine 1, ReadLine 0]"

text \<open>
  If the writes and reads of the submissions do not interleave, every one gets
  the answer to its own request.  But the locking of \<open>SubmitOrder\<close> admits the schedule in which
  two submissions both write before they read, and then each can receive the other's answer: an
  order the exchange refused is reported placed under the order id of the other one, and the
  order that was placed is reported rejected.
\<close>

theorem dma_concurrent_submissions_cross:
  "(exclusive steps \<longrightarrow> (\<forall>(i, r) \<in> set (received (io_run answer reqs steps no_io)). r = answer (reqs i))) \<and>
   received (io_run answer reqs crossed no_io) = [(1, answer (reqs 0)), (0, answer (reqs 1))] \<and>
   (dr_status (answer (reqs 0)) = ''ok'' \<and> dr_status (answer (reqs 1)) \<noteq> ''ok'' \<longrightarrow>
     map (\<lambda>(i, r). (i, br_status (dma_result r))) (received (io_run answer reqs crossed no_io))
       = [(1, ''placed''), (0, ''rejected'')])"
proof (intro conjI)
  show "exclusive steps \<longrightarrow> (\<forall>(i, r) \<in> set (received (io_run answer reqs steps no_io)). r = answer (reqs i))"
    using exclusive_run [of steps no_io answer reqs] by (auto simp: no_io_def)
  show cross: "received (io_run answer reqs crossed no_io) = [(1, answer (reqs 0)), (0, answer (reqs 1))]"
    by (simp add: io_run_def io_apply_def no_io_def crossed_def)
  show "dr_status (answer (reqs 0)) = ''ok'' \<and> dr_status (answer (reqs 1)) \<noteq> ''ok'' \<longrightarrow>
     map (\<lambda>(i, r). (i, br_status (dma_result r))) (received (io_run answer reqs crossed no_io))
       = [(1, ''placed''), (0, ''rejected'')]"
    unfolding cross by (simp add: dma_result_def)
qed

text \<open>A broker that accepts sell orders only, asked to sell and to buy.\<close>

definition demo_answer :: "dma_request \<Rightarrow> dma_response" where
  "demo_answer req = \<lparr>dr_status = (if dq_side req = ''SELL'' then ''ok'' else ''error''), dr_code = [], dr_message = [],
     dr_is_success = True, dr_order_id = dq_symbol req\<rparr>"

definition demo_orders :: "nat \<Rightarrow> dma_request" where
  "demo_orders i = dma_order_request \<lparr>o_symbol = ''2330'', o_side = (if i = 0 then SideSell else SideBuy),
     o_quantity = 1, o_price = Fin 1, o_reason = []\<rparr>"

theorem dma_concurrent_submissions_cross_witness:
  "map (\<lambda>(i, r). (i, br_status (dma_result r))) (received (io_run demo_answer demo_orders crossed no_io))
     = [(1, ''placed''), (0, ''rejected'')]"
  using dma_concurrent_submissions_cross [of "[]" demo_answer demo_orders]
  by (simp add: demo_answer_def demo_orders_def dma_order_request_def dma_cmd_def SideSell_def SideBuy_def
      dma_result_def empty_result_def)

end
