(* ===== verification/Live_BrokerMode.thy ===== *)
theory Live_BrokerMode
  imports Live_HTTP Live_TWSE Live_Fubon
begin

text \<open>
  The choice of a broker from the configuration: \<open>resolveBrokerMode\<close> of
  \<open>internal/live/orchestrator.go\<close>, on the broker part of \<open>OrchestratorConfig\<close>.

  The broker is described by the constructor calls that build it.  \<open>parse_url\<close> and \<open>ping\<close> are
  the Redis client's, as in \<open>Live_Nonce\<close>.  Lower-casing is exact for the comparisons with
  the ASCII names.
\<close>

record broker_config =
  BrokerMode :: string
  BrokerMaxRetries :: int
  BrokerAdapter :: string
  BrokerAPIBaseURL :: string
  BrokerAPIKey :: string
  BrokerAPISecret :: string
  BrokerHTTPTimeoutS :: int
  BrokerHTTPAttempts :: int
  BrokerHTTPRetryStatusCodes :: "int list"
  BrokerMaxClockSkewS :: int
  BrokerNonceTTLS :: int
  BrokerNonceStore :: string
  BrokerNonceStorePath :: string
  BrokerNonceRedisURL :: string
  BrokerNonceRedisKeyPrefix :: string
  BrokerSigner :: string
  BrokerKeyID :: string
  TWSEAPIURL :: string
  TWSEAPIKey :: string
  TWSEAPISecret :: string
  TWSEAccountID :: string
  cfg_personal_id :: string
  cfg_dma_api_key :: string
  cfg_dma_script :: string
  cfg_dma_python :: string

text \<open>The broker part of \<open>DefaultOrchestratorConfig\<close>.\<close>

definition default_broker_config :: broker_config where
  "default_broker_config =
     \<lparr>BrokerMode = ''dry-run'', BrokerMaxRetries = 1, BrokerAdapter = ''guarded'', BrokerAPIBaseURL = [],
      BrokerAPIKey = [], BrokerAPISecret = [], BrokerHTTPTimeoutS = 5, BrokerHTTPAttempts = 2,
      BrokerHTTPRetryStatusCodes = [408, 425, 429, 500, 502, 503, 504], BrokerMaxClockSkewS = 300,
      BrokerNonceTTLS = 300, BrokerNonceStore = ''memory'', BrokerNonceStorePath = [], BrokerNonceRedisURL = [],
      BrokerNonceRedisKeyPrefix = ''atlas:nonce:'', BrokerSigner = ''placeholder'', BrokerKeyID = [],
      TWSEAPIURL = [], TWSEAPIKey = [], TWSEAPISecret = [], TWSEAccountID = [], cfg_personal_id = [],
      cfg_dma_api_key = [], cfg_dma_script = ''cmd/fubon-dma/wrapper.py'', cfg_dma_python = ''python3''\<rparr>"

datatype adapter_choice =
    MockAdapter
  | HTTPAdapter http_adapter nonce_choice
  | TWSEAdapter twse_adapter
  | FubonAdapter dma_adapter

datatype broker_choice = DryRun | Guarded "adapter_choice option"

datatype audit_message =
    NoAudit
  | AuditText string
  | NonceStoreInvalid nonce_error
  | UnsupportedAdapter string
  | UnsupportedMode string

text \<open>The breaker handed to the TWSE adapter is a new one without files, in its initial state.\<close>

definition http_choice ::
  "(string \<Rightarrow> string option) \<Rightarrow> (string \<Rightarrow> string option) \<Rightarrow> broker_config \<Rightarrow> string \<times> broker_choice \<times> audit_message" where
  "http_choice parse_url ping cfg =
     (case BuildNonceReplayStoreWithOptions parse_url ping (BrokerNonceStore cfg)
             \<lparr>opt_file_path = BrokerNonceStorePath cfg, opt_redis_url = BrokerNonceRedisURL cfg,
              opt_redis_prefix = BrokerNonceRedisKeyPrefix cfg, opt_redis_client = False\<rparr> of
        Inl e \<Rightarrow> (''live-guarded'', Guarded None, NonceStoreInvalid e)
      | Inr ns \<Rightarrow>
          if trim_space (BrokerAPIBaseURL cfg) = []
          then (''live-guarded'', Guarded None,
                AuditText ''live+http adapter requested but ATLAS_BROKER_API_BASE_URL is empty; fallback to guarded'')
          else if trim_space (BrokerAPIKey cfg) = []
          then (''live-guarded'', Guarded None,
                AuditText ''live+http adapter requested but ATLAS_BROKER_API_KEY is empty; fallback to guarded'')
          else (''live-http'',
                Guarded (Some (HTTPAdapter (NewHTTPBrokerAdapter
                  \<lparr>hc_base_url = BrokerAPIBaseURL cfg, hc_api_key = BrokerAPIKey cfg,
                   hc_api_secret = BrokerAPISecret cfg, hc_key_id = BrokerKeyID cfg,
                   hc_timeout = wrap64 (BrokerHTTPTimeoutS cfg * second), hc_max_attempts = BrokerHTTPAttempts cfg,
                   hc_retry_codes = BrokerHTTPRetryStatusCodes cfg,
                   hc_max_clock_skew = wrap64 (BrokerMaxClockSkewS cfg * second),
                   hc_nonce_ttl = wrap64 (BrokerNonceTTLS cfg * second), hc_signer = BrokerSigner cfg\<rparr>) ns)),
                AuditText ''live mode uses http adapter with signature placeholder; verify credentials and endpoint before production use''))"

definition twse_choice :: "broker_config \<Rightarrow> string \<times> broker_choice \<times> audit_message" where
  "twse_choice cfg =
     (if trim_space (TWSEAPIURL cfg) = [] then (''live-guarded'', Guarded None,
              AuditText ''live+twse adapter requested but ATLAS_TWSE_API_URL is empty; fallback to guarded'')
      else if trim_space (TWSEAPIKey cfg) = [] then (''live-guarded'', Guarded None,
              AuditText ''live+twse adapter requested but ATLAS_TWSE_API_KEY is empty; fallback to guarded'')
      else if trim_space (TWSEAPISecret cfg) = [] then (''live-guarded'', Guarded None,
              AuditText ''live+twse adapter requested but ATLAS_TWSE_API_SECRET is empty; fallback to guarded'')
      else if trim_space (TWSEAccountID cfg) = [] then (''live-guarded'', Guarded None,
              AuditText ''live+twse adapter requested but ATLAS_TWSE_ACCOUNT_ID is empty; fallback to guarded'')
      else (''live-twse'',
            Guarded (Some (TWSEAdapter (NewTWSEBrokerAdapter
              \<lparr>tc_base_url = TWSEAPIURL cfg, tc_api_key = TWSEAPIKey cfg, tc_api_secret = TWSEAPISecret cfg,
               tc_account_id = TWSEAccountID cfg, tc_timeout = 0, tc_rps = Fin 0\<rparr> (Some CircuitNormal)))),
            AuditText ''live mode uses TWSE adapter with HMAC-SHA256 signing; verify credentials before production use''))"

definition fubon_choice :: "broker_config \<Rightarrow> string \<times> broker_choice \<times> audit_message" where
  "fubon_choice cfg =
     (let personalID = trim_space (cfg_personal_id cfg); apiKey = trim_space (cfg_dma_api_key cfg)
      in if personalID = [] then (''live-guarded'', Guarded None,
                AuditText ''live+fubon-dma adapter requested but FUBON_DMA_PERSONAL_ID is empty; fallback to guarded'')
         else if apiKey = [] then (''live-guarded'', Guarded None,
                AuditText ''live+fubon-dma adapter requested but FUBON_DMA_API_KEY is empty; fallback to guarded'')
         else (''live-fubon-dma'',
               Guarded (Some (FubonAdapter (NewFubonDMAAdapter personalID apiKey (cfg_dma_script cfg) (cfg_dma_python cfg)))),
               AuditText ''live mode uses fubon-dma adapter; DMA login will be attempted on orchestrator start''))"

definition requested_mode :: "broker_config \<Rightarrow> string" where
  "requested_mode cfg =
     (let r = trim_space (to_lower (BrokerMode cfg)) in if r = [] then ''dry-run'' else r)"

definition adapter_provider :: "broker_config \<Rightarrow> string" where
  "adapter_provider cfg =
     (let a = trim_space (to_lower (BrokerAdapter cfg)) in if a = [] then ''guarded'' else a)"

text \<open>Requested mode, effective mode, broker and audit message.\<close>

definition resolveBrokerMode ::
  "(string \<Rightarrow> string option) \<Rightarrow> (string \<Rightarrow> string option) \<Rightarrow> broker_config \<Rightarrow>
   string \<times> string \<times> broker_choice \<times> audit_message" where
  "resolveBrokerMode parse_url ping cfg =
     (let requested = requested_mode cfg; provider = adapter_provider cfg
      in if requested = ''dry-run'' \<or> requested = ''paper'' then (requested, ''dry-run'', DryRun, NoAudit)
         else if requested = ''live'' then
           (requested,
            if provider = ''guarded''
              then (''live-guarded'', Guarded None, AuditText ''live mode enabled with guarded adapter; orders are rejected until adapter is configured'')
            else if provider = ''mock''
              then (''live-mock'', Guarded (Some MockAdapter), AuditText ''live mode uses mock adapter; no real orders are sent'')
            else if provider = ''http'' then http_choice parse_url ping cfg
            else if provider = ''twse'' then twse_choice cfg
            else if provider = ''fubon-dma'' then fubon_choice cfg
            else (''live-guarded'', Guarded None, UnsupportedAdapter provider))
         else (requested, ''dry-run'', DryRun, UnsupportedMode requested))"

section \<open>Properties\<close>

text \<open>The brokers behind which an exchange stands.\<close>

fun sends_orders :: "broker_choice \<Rightarrow> bool" where
  "sends_orders (Guarded (Some (HTTPAdapter _ _))) = True"
| "sends_orders (Guarded (Some (TWSEAdapter _))) = True"
| "sends_orders (Guarded (Some (FubonAdapter _))) = True"
| "sends_orders _ = False"

definition resolved_broker :: "(string \<Rightarrow> string option) \<Rightarrow> (string \<Rightarrow> string option) \<Rightarrow> broker_config \<Rightarrow> broker_choice" where
  "resolved_broker parse_url ping cfg = fst (snd (snd (resolveBrokerMode parse_url ping cfg)))"

definition resolved_mode :: "(string \<Rightarrow> string option) \<Rightarrow> (string \<Rightarrow> string option) \<Rightarrow> broker_config \<Rightarrow> string" where
  "resolved_mode parse_url ping cfg = fst (snd (resolveBrokerMode parse_url ping cfg))"

definition blank :: "string \<Rightarrow> bool" where
  "blank s \<longleftrightarrow> trim_space s = []"

definition nonce_store_ok :: "(string \<Rightarrow> string option) \<Rightarrow> (string \<Rightarrow> string option) \<Rightarrow> broker_config \<Rightarrow> bool" where
  "nonce_store_ok parse_url ping cfg \<longleftrightarrow>
     (case BuildNonceReplayStoreWithOptions parse_url ping (BrokerNonceStore cfg)
             \<lparr>opt_file_path = BrokerNonceStorePath cfg, opt_redis_url = BrokerNonceRedisURL cfg,
              opt_redis_prefix = BrokerNonceRedisKeyPrefix cfg, opt_redis_client = False\<rparr> of
        Inl _ \<Rightarrow> False | Inr _ \<Rightarrow> True)"

text \<open>
  C17 (safety).  A broker that can reach an exchange is chosen exactly when the configuration asks for live mode and for one
  of three adapters whose settings are not blank, which are, per adapter: for http the base URL and the API key, with a nonce
  store that can be used (not the secret that signs the requests, which this choice does not look at); for twse the URL, the
  key, the secret and the account; for fubon-dma the personal identifier and the DMA key.  A broker that can reach an exchange
  is chosen exactly when the reported effective mode is live-http, live-twse or live-fubon-dma.
\<close>

theorem live_orders_need_credentials:
  "sends_orders (resolved_broker parse_url ping cfg) =
     (requested_mode cfg = ''live'' \<and>
      (adapter_provider cfg = ''http'' \<and> nonce_store_ok parse_url ping cfg \<and>
         \<not> blank (BrokerAPIBaseURL cfg) \<and> \<not> blank (BrokerAPIKey cfg) \<or>
       adapter_provider cfg = ''twse'' \<and> \<not> blank (TWSEAPIURL cfg) \<and> \<not> blank (TWSEAPIKey cfg) \<and>
         \<not> blank (TWSEAPISecret cfg) \<and> \<not> blank (TWSEAccountID cfg) \<or>
       adapter_provider cfg = ''fubon-dma'' \<and> \<not> blank (cfg_personal_id cfg) \<and> \<not> blank (cfg_dma_api_key cfg))) \<and>
   sends_orders (resolved_broker parse_url ping cfg) =
     (resolved_mode parse_url ping cfg \<in> {''live-http'', ''live-twse'', ''live-fubon-dma''})"
proof (cases "requested_mode cfg = ''live''")
  case False
  then show ?thesis by (simp add: resolved_broker_def resolved_mode_def resolveBrokerMode_def Let_def)
next
  case True
  consider "adapter_provider cfg = ''http''" | "adapter_provider cfg = ''twse''" | "adapter_provider cfg = ''fubon-dma''"
    | "adapter_provider cfg \<notin> {''http'', ''twse'', ''fubon-dma''}" by blast
  then show ?thesis
  proof cases
    case 1
    with True show ?thesis
      by (simp add: resolved_broker_def resolved_mode_def resolveBrokerMode_def http_choice_def
          nonce_store_ok_def blank_def split: sum.split)
  next
    case 2
    with True show ?thesis
      by (simp add: resolved_broker_def resolved_mode_def resolveBrokerMode_def twse_choice_def blank_def)
  next
    case 3
    with True show ?thesis
      by (simp add: resolved_broker_def resolved_mode_def resolveBrokerMode_def fubon_choice_def blank_def Let_def)
  next
    case 4
    with True show ?thesis
      by (simp add: resolved_broker_def resolved_mode_def resolveBrokerMode_def Let_def)
  qed
qed

text \<open>
  Without an adapter the guarded broker refuses every order with an error, and its
  own state does not move: a valid order is reported rejected, an invalid one gives an empty result.
\<close>

lemma guarded_without_adapter_refuses:
  "guarded_submit None ord s =
     (if validateOrder ord = None
      then ((empty_result\<lparr>br_status := ''rejected'', br_reason := ''live broker adapter not configured''\<rparr>,
             Some ErrAdapterNotConfigured), s)
      else ((empty_result, validateOrder ord), s))"
  by (simp add: guarded_submit_def split: option.split)

end
