(* ===== verification/Live_Risk.thy ===== *)
theory Live_Risk
  imports Live_Circuit
begin

text \<open>
  The pre-execution risk gate, \<open>internal/live/risk_gate.go\<close>, and the audit log of blocked
  orders, \<open>internal/live/risk_audit.go\<close>.

  \<open>currentDateString()\<close>, the local calendar date, is the argument \<open>date\<close> of the operations
  that call it.
\<close>

section \<open>The gate\<close>

record risk_gate =
  max_daily_loss_pct :: f64
  var_critical_threshold :: f64
  daily_loss :: f64
  var_value :: f64
  halt_trading :: bool
  gate_today :: string

definition NewRiskGate :: "f64 \<Rightarrow> f64 \<Rightarrow> string \<Rightarrow> risk_gate" where
  "NewRiskGate max_loss var_crit date =
     \<lparr>max_daily_loss_pct = max_loss, var_critical_threshold = var_crit, daily_loss = Fin 0,
      var_value = Fin 0, halt_trading = False, gate_today = date\<rparr>"

definition maybeResetDaily :: "string \<Rightarrow> risk_gate \<Rightarrow> risk_gate" where
  "maybeResetDaily date g =
     (if gate_today g \<noteq> date then g\<lparr>daily_loss := Fin 0, gate_today := date\<rparr> else g)"

definition Check :: "string \<Rightarrow> order \<Rightarrow> risk_gate \<Rightarrow> live_error option \<times> risk_gate" where
  "Check date ord g =
     (let g = maybeResetDaily date g
      in (if halt_trading g then Some (TradingHalted (o_symbol ord) (o_side ord) (o_quantity ord))
          else if flt (Fin 0) (max_daily_loss_pct g) \<and> flt (max_daily_loss_pct g) (daily_loss g)
            then Some (DailyLossExceeds (daily_loss g) (max_daily_loss_pct g) (o_symbol ord) (o_side ord) (o_quantity ord))
          else if flt (Fin 0) (var_critical_threshold g) \<and> flt (var_critical_threshold g) (var_value g)
            then Some (VaRExceeds (var_value g) (var_critical_threshold g) (o_symbol ord) (o_side ord) (o_quantity ord))
          else None, g))"

definition SetHaltTrading :: "bool \<Rightarrow> risk_gate \<Rightarrow> risk_gate" where
  "SetHaltTrading h g = g\<lparr>halt_trading := h\<rparr>"

definition SyncHaltFromCircuitState :: "circuit_state \<Rightarrow> risk_gate \<Rightarrow> risk_gate" where
  "SyncHaltFromCircuitState s g = g\<lparr>halt_trading := (s = CircuitHalted \<or> s = CircuitPaused)\<rparr>"

definition UpdateVaR :: "f64 \<Rightarrow> risk_gate \<Rightarrow> risk_gate" where
  "UpdateVaR v g = g\<lparr>var_value := v\<rparr>"

definition UpdateDailyLoss :: "string \<Rightarrow> f64 \<Rightarrow> risk_gate \<Rightarrow> risk_gate" where
  "UpdateDailyLoss date l g = (maybeResetDaily date g)\<lparr>daily_loss := l\<rparr>"

text \<open>\<open>None\<close> stands for a nil gate, breaker or provider; the breaker is read through its state.\<close>

definition SyncRiskGateFromCircuitBreaker ::
  "risk_gate option \<Rightarrow> circuit_state option \<Rightarrow> f64 option \<Rightarrow> risk_gate option" where
  "SyncRiskGateFromCircuitBreaker rg cb var_provider =
     (case (rg, cb) of
        (Some g, Some s) \<Rightarrow>
          (let g1 = SyncHaltFromCircuitState s g
           in Some (case var_provider of None \<Rightarrow> g1 | Some v \<Rightarrow> UpdateVaR v g1))
      | _ \<Rightarrow> rg)"

definition fill_pnl :: "string \<Rightarrow> f64 \<Rightarrow> f64 \<Rightarrow> f64 \<Rightarrow> f64" where
  "fill_pnl side order_price fill_price qty =
     (if side = SideSell then fmul (fsub fill_price order_price) qty
      else fmul (fsub order_price fill_price) qty)"

definition RecordFill :: "string \<Rightarrow> string \<Rightarrow> f64 \<Rightarrow> f64 \<Rightarrow> f64 \<Rightarrow> f64 \<Rightarrow> risk_gate \<Rightarrow> risk_gate" where
  "RecordFill date side order_price fill_price qty pv g =
     (if fle pv (Fin 0) \<or> feq qty (Fin 0) then g
      else if fle (Fin 0) (fill_pnl side order_price fill_price qty) then g
      else let loss = fdiv (fneg (fill_pnl side order_price fill_price qty)) pv;
               g1 = maybeResetDaily date g
           in if flt (daily_loss g1) loss then g1\<lparr>daily_loss := loss\<rparr> else g1)"

definition ResetDaily :: "string \<Rightarrow> risk_gate \<Rightarrow> risk_gate" where
  "ResetDaily date g = g\<lparr>daily_loss := Fin 0, gate_today := date\<rparr>"

record gate_status =
  gs_halt :: bool
  gs_daily_loss :: f64
  gs_max_daily_loss :: f64
  gs_var :: f64
  gs_var_threshold :: f64
  gs_date :: string

definition Status :: "risk_gate \<Rightarrow> gate_status" where
  "Status g = \<lparr>gs_halt = halt_trading g, gs_daily_loss = daily_loss g, gs_max_daily_loss = max_daily_loss_pct g,
               gs_var = var_value g, gs_var_threshold = var_critical_threshold g, gs_date = gate_today g\<rparr>"

definition halted :: "risk_gate \<Rightarrow> bool" where
  "halted g = halt_trading g"

section \<open>The audit log\<close>

record audit_entry =
  ae_order_id :: string
  ae_symbol :: string
  ae_side :: string
  ae_price :: f64
  ae_quantity :: int
  ae_attempts :: int
  ae_message :: live_error
  ae_timestamp :: time

definition riskGateBlockedCode :: string where
  "riskGateBlockedCode = ''risk_gate_blocked''"

definition audit_handle :: "live_event \<Rightarrow> audit_entry list \<Rightarrow> audit_entry list" where
  "audit_handle ev es =
     (if ev_type ev \<noteq> EventOrderError then es
      else case ev_payload ev of
        OrderErrorP p \<Rightarrow>
          (if oerr_code p \<noteq> riskGateBlockedCode then es
           else es @ [\<lparr>ae_order_id = oerr_order_id p, ae_symbol = oerr_symbol p, ae_side = oerr_side p,
                       ae_price = oerr_price p, ae_quantity = oerr_quantity p, ae_attempts = oerr_attempts p,
                       ae_message = oerr_message p, ae_timestamp = oerr_timestamp p\<rparr>])
      | _ \<Rightarrow> es)"

section \<open>Lemmas\<close>

lemma maybeResetDaily_frame [frame_simps]:
  "halt_trading (maybeResetDaily date g) = halt_trading g"
  "max_daily_loss_pct (maybeResetDaily date g) = max_daily_loss_pct g"
  "var_critical_threshold (maybeResetDaily date g) = var_critical_threshold g"
  "var_value (maybeResetDaily date g) = var_value g"
  "gate_today (maybeResetDaily date g) = date"
  by (simp_all add: maybeResetDaily_def)

lemma maybeResetDaily_same [simp]: "gate_today g = date \<Longrightarrow> maybeResetDaily date g = g"
  by (simp add: maybeResetDaily_def)

lemma maybeResetDaily_idem [simp]: "maybeResetDaily date (maybeResetDaily date g) = maybeResetDaily date g"
  by (simp add: frame_simps)

lemma Check_state [simp]: "snd (Check date ord g) = maybeResetDaily date g"
  by (simp add: Check_def Let_def)

lemma RecordFill_frame [frame_simps]:
  "halt_trading (RecordFill date s op fp q pv g) = halt_trading g"
  "max_daily_loss_pct (RecordFill date s op fp q pv g) = max_daily_loss_pct g"
  "var_critical_threshold (RecordFill date s op fp q pv g) = var_critical_threshold g"
  "var_value (RecordFill date s op fp q pv g) = var_value g"
  by (simp_all add: RecordFill_def Let_def frame_simps)

lemma Check_halted: "halt_trading g \<Longrightarrow> fst (Check date ord g) \<noteq> None"
  by (simp add: Check_def Let_def frame_simps)

text \<open>The accumulated loss is a non-negative number, never NaN, and only grows within a day.\<close>

definition gate_wf :: "risk_gate \<Rightarrow> bool" where
  "gate_wf g \<longleftrightarrow> fle (Fin 0) (daily_loss g)"

lemma gate_wf_reset [simp]: "gate_wf g \<Longrightarrow> gate_wf (maybeResetDaily date g)"
  by (simp add: gate_wf_def maybeResetDaily_def)

lemma RecordFill_wf: "gate_wf g \<Longrightarrow> gate_wf (RecordFill date s op fp q pv g)"
  using gate_wf_reset [of g date]
  by (auto simp: RecordFill_def Let_def gate_wf_def intro: fle_trans flt_iff_fle [THEN iffD1, THEN conjunct1])

text \<open>A fill at no worse than the order price changes nothing but the date.\<close>

lemma sub_mul_nonneg:
  "b \<le> a \<Longrightarrow> 0 \<le> q \<Longrightarrow> fle (Fin 0) (fmul (fsub (Fin a) (Fin b)) (Fin q)) \<or> fmul (fsub (Fin a) (Fin b)) (Fin q) = NaN"
  using fsub_nonneg [of b a]
  by (cases "fsub (Fin a) (Fin b)") (auto simp: rnd_nonneg inf_signed_def)

section \<open>Fills of one day\<close>

record fill =
  fl_side :: string
  fl_order_price :: f64
  fl_fill_price :: f64
  fl_qty :: f64
  fl_portfolio :: f64

definition record_fills :: "string \<Rightarrow> fill list \<Rightarrow> risk_gate \<Rightarrow> risk_gate" where
  "record_fills date fs g =
     foldl (\<lambda>g f. RecordFill date (fl_side f) (fl_order_price f) (fl_fill_price f) (fl_qty f) (fl_portfolio f) g) g fs"

text \<open>The loss fraction of one fill, if it is one that counts.\<close>

definition fill_loss :: "fill \<Rightarrow> f64 option" where
  "fill_loss f =
     (let pnl = fill_pnl (fl_side f) (fl_order_price f) (fl_fill_price f) (fl_qty f)
      in if fle (fl_portfolio f) (Fin 0) \<or> feq (fl_qty f) (Fin 0) \<or> fle (Fin 0) pnl then None
         else Some (fdiv (fneg pnl) (fl_portfolio f)))"

lemma RecordFill_same_day:
  assumes "gate_today g = date"
  shows "RecordFill date (fl_side f) (fl_order_price f) (fl_fill_price f) (fl_qty f) (fl_portfolio f) g =
     (case fill_loss f of None \<Rightarrow> g | Some l \<Rightarrow> if flt (daily_loss g) l then g\<lparr>daily_loss := l\<rparr> else g)"
  using assms by (simp add: RecordFill_def fill_loss_def Let_def)

lemma record_fills_max:
  assumes "gate_today g = date" "gate_wf g"
  shows "(daily_loss (record_fills date fs g) = daily_loss g \<or>
      (\<exists>f\<in>set fs. fill_loss f = Some (daily_loss (record_fills date fs g)))) \<and>
    fle (daily_loss g) (daily_loss (record_fills date fs g)) \<and>
    (\<forall>f\<in>set fs. \<forall>l. fill_loss f = Some l \<longrightarrow> l \<noteq> NaN \<longrightarrow> fle l (daily_loss (record_fills date fs g)))"
  using assms
proof (induction fs arbitrary: g)
  case Nil
  then show ?case by (cases "daily_loss g") (simp_all add: record_fills_def gate_wf_def)
next
  case (Cons f fs)
  let ?g = "RecordFill date (fl_side f) (fl_order_price f) (fl_fill_price f) (fl_qty f) (fl_portfolio f) g"
  have wf: "gate_wf ?g" by (rule RecordFill_wf [OF Cons.prems(2)])
  have day: "gate_today ?g = date"
    using Cons.prems(1) by (simp add: RecordFill_same_day split: option.split)
  have run: "record_fills date (f # fs) g = record_fills date fs ?g" by (simp add: record_fills_def)
  have notnan: "daily_loss g \<noteq> NaN" using Cons.prems(2) by (auto simp: gate_wf_def)
  have step: "fle (daily_loss g) (daily_loss ?g)"
    using notnan Cons.prems(1) by (auto simp: RecordFill_same_day flt_iff_fle fle_refl split: option.split)
  have counted: "fle l (daily_loss ?g)" if "fill_loss f = Some l" "l \<noteq> NaN" for l
    using that notnan Cons.prems(1) by (auto simp: RecordFill_same_day fle_refl intro: not_flt_fle)
  have from_f: "daily_loss ?g = daily_loss g \<or> fill_loss f = Some (daily_loss ?g)"
    using Cons.prems(1) by (simp add: RecordFill_same_day split: option.split)
  show ?case
    unfolding run using Cons.IH [OF day wf] step counted from_f by (auto intro: fle_trans)
qed

section \<open>Properties\<close>

text \<open>
  Over the fills of one day, starting from a well-formed gate, the daily loss is
  the largest of its starting value and the loss fractions of the single fills: it never falls,
  it bounds every fill's loss, and it is always one of these values, never their sum.
\<close>

theorem daily_loss_is_largest_fill:
  assumes "gate_today g = date" "gate_wf g"
  shows "(daily_loss (record_fills date fs g) = daily_loss g \<or>
      (\<exists>f\<in>set fs. fill_loss f = Some (daily_loss (record_fills date fs g)))) \<and>
    fle (daily_loss g) (daily_loss (record_fills date fs g)) \<and>
    (\<forall>f\<in>set fs. \<forall>l. fill_loss f = Some l \<longrightarrow> l \<noteq> NaN \<longrightarrow> fle l (daily_loss (record_fills date fs g)))"
  using assms by (rule record_fills_max)

text \<open>Ten fills that each lose a quarter of the portfolio: the gate sees a quarter.\<close>

definition quarter_loss :: fill where
  "quarter_loss = \<lparr>fl_side = SideSell, fl_order_price = Fin 100, fl_fill_price = Fin 75, fl_qty = Fin 1, fl_portfolio = Fin 100\<rparr>"

lemma quarter_loss_value: "fill_loss quarter_loss = Some (Fin (1 / 4))"
  using rnd_dyadic [of 1 2] rnd_of_int [of 25] rnd_of_int [of "- 25"]
  by (simp add: fill_loss_def quarter_loss_def fill_pnl_def fsub_def Let_def feq_def)

theorem daily_loss_is_largest_fill_witness:
  "daily_loss (record_fills ''d'' (replicate 10 quarter_loss) (NewRiskGate (Fin 1) (Fin 0) ''d'')) \<in> {Fin 0, Fin (1 / 4)}"
proof -
  have "gate_today (NewRiskGate (Fin 1) (Fin 0) ''d'') = ''d''" "gate_wf (NewRiskGate (Fin 1) (Fin 0) ''d'')"
    by (simp_all add: NewRiskGate_def gate_wf_def)
  from daily_loss_is_largest_fill [OF this, of "replicate 10 quarter_loss"] show ?thesis
    using quarter_loss_value by (auto simp: NewRiskGate_def)
qed

text \<open>
  After the gate is synchronised with the circuit breaker, it lets an order through
  exactly if the breaker is neither halted nor paused and the loss and VaR limits allow the
  order.  In the paused state, which the breaker itself opens to sell orders, the synchronised
  gate therefore refuses the sells as well.
\<close>

theorem gate_follows_breaker:
  "(fst (Check date ord (the (SyncRiskGateFromCircuitBreaker (Some g) (Some st) None))) = None) =
     (st \<noteq> CircuitHalted \<and> st \<noteq> CircuitPaused \<and> fst (Check date ord (SetHaltTrading False g)) = None) \<and>
   CanPlaceOrder SideSell CircuitPaused \<and>
   fst (Check date ord (the (SyncRiskGateFromCircuitBreaker (Some g) (Some CircuitPaused) var))) =
     Some (TradingHalted (o_symbol ord) (o_side ord) (o_quantity ord))"
  by (auto simp: SyncRiskGateFromCircuitBreaker_def SyncHaltFromCircuitState_def SetHaltTrading_def UpdateVaR_def
      Check_def Let_def maybeResetDaily_def split: option.split)

end
