(* ===== verification/Live_Orders.thy ===== *)
theory Live_Orders
  imports Live_Broker Live_Risk "HOL-Library.Multiset"
begin

text \<open>
  The order manager (\<open>internal/live/order_manager.go\<close>): the retry loop around a broker with the
  risk gate checked before every attempt, the events it publishes, the fill report to the gate,
  and the order book kept for the API.

  \<open>Run\<close> is a function of the broker, the gate and the environment of the call; it returns the
  error, the events published in order, the gate and the broker state.  Other goroutines may
  change the gate between two attempts: \<open>interfere i\<close> is what they do before attempt \<open>i\<close>.
\<close>

section \<open>The order book\<close>

record order_note =
  on_status :: string
  on_timestamp :: time
  on_fill_price :: f64
  on_reason :: string

record order_record =
  rec_order_id :: string
  rec_symbol :: string
  rec_side :: string
  rec_quantity :: int
  rec_price :: f64
  rec_status :: string
  rec_created_at :: time
  rec_updated_at :: time
  rec_broker_mode :: string
  rec_fill_price :: f64
  rec_reason :: string
  rec_events :: "order_note list"

record order_filter =
  of_status :: string
  of_symbol :: string
  of_side :: string
  of_date_from :: time
  of_date_to :: time
  of_page :: int
  of_page_size :: int

record order_manager =
  om_max_retries :: int
  om_retry_backoff :: duration
  om_orders :: "(string \<times> order_record) list"

definition NewOrderManager :: "int \<Rightarrow> duration \<Rightarrow> order_manager" where
  "NewOrderManager maxRetries retryBackoff =
     \<lparr>om_max_retries = (if maxRetries < 0 then 0 else maxRetries),
      om_retry_backoff = (if retryBackoff < 0 then 0 else retryBackoff), om_orders = []\<rparr>"

definition RecordOrder :: "order_record \<Rightarrow> order_manager \<Rightarrow> order_manager" where
  "RecordOrder r m = m\<lparr>om_orders := AList.update (rec_order_id r) r (om_orders m)\<rparr>"

definition GetOrder :: "string \<Rightarrow> order_manager \<Rightarrow> live_error + order_record" where
  "GetOrder oid m = (case map_of (om_orders m) oid of Some r \<Rightarrow> Inr r | None \<Rightarrow> Inl (OrderNotFound oid))"

definition order_matches :: "order_filter \<Rightarrow> order_record \<Rightarrow> bool" where
  "order_matches f r \<longleftrightarrow>
     (of_symbol f = [] \<or> equal_fold (rec_symbol r) (of_symbol f)) \<and>
     (of_side f = [] \<or> equal_fold (rec_side r) (of_side f)) \<and>
     (of_status f = [] \<or> equal_fold (rec_status r) (of_status f)) \<and>
     (of_date_from f = zero_time \<or> of_date_from f \<le> rec_created_at r) \<and>
     (of_date_to f = zero_time \<or> rec_created_at r \<le> of_date_to f)"

text \<open>
  \<open>iter\<close> is the order in which the range loop visits the records.  \<open>slices.SortFunc\<close> may leave
  records of the same time in any order; with \<open>iter\<close> arbitrary, a stable sort gives all of them.
\<close>

definition matching_orders :: "order_filter \<Rightarrow> order_record list \<Rightarrow> order_record list" where
  "matching_orders f iter = sort_key (\<lambda>r. - rec_created_at r) (filter (order_matches f) iter)"

text \<open>The page: Go's slice expression fails on a negative or crossed bound.\<close>

definition page_of :: "int \<Rightarrow> int \<Rightarrow> 'a list \<Rightarrow> live_error + 'a list" where
  "page_of page psize xs =
     (let page = (if page \<le> 0 then 1 else page); psize = (if psize \<le> 0 then 20 else psize);
          total = int (length xs);
          start = wrap64 ((page - 1) * psize)
      in if start \<ge> total then Inr []
         else let stop = min (wrap64 (start + psize)) total
              in if start < 0 \<or> stop < start then Inl SliceOutOfRange
                 else Inr (take (nat (stop - start)) (drop (nat start) xs)))"

definition GetOrders :: "order_filter \<Rightarrow> order_record list \<Rightarrow> live_error + (order_record list \<times> int)" where
  "GetOrders f iter =
     (let xs = matching_orders f iter
      in case page_of (of_page f) (of_page_size f) xs of Inl e \<Rightarrow> Inl e | Inr p \<Rightarrow> Inr (p, int (length xs)))"

section \<open>Running an order\<close>

text \<open>
  The environment of a run: the date and clock of each attempt, the goroutines that share the
  gate, the portfolio value the provider returns (\<open>None\<close> without a provider), whether there is
  a bus, and the mode string of the broker.
\<close>

record run_env =
  run_date :: "int \<Rightarrow> string"
  run_now :: "int \<Rightarrow> time"
  interfere :: "int \<Rightarrow> risk_gate \<Rightarrow> risk_gate"
  provider :: "f64 option"
  has_bus :: bool
  run_mode :: string

definition emit :: "run_env \<Rightarrow> live_event list \<Rightarrow> live_event list" where
  "emit env evs = (if has_bus env then evs else [])"

definition checkRiskGate ::
  "run_env \<Rightarrow> int \<Rightarrow> order \<Rightarrow> risk_gate option \<Rightarrow> live_error option \<times> live_event list \<times> risk_gate option" where
  "checkRiskGate env attempt ord gate =
     (case gate of
        None \<Rightarrow> (None, [], None)
      | Some g \<Rightarrow>
          (case Check (run_date env attempt) ord g of
             (None, g') \<Rightarrow> (None, [], Some g')
           | (Some e, g') \<Rightarrow>
               (Some (RiskGateBlocked (o_symbol ord) e),
                emit env [PublishOrderError (run_now env attempt) [] ord ''risk_gate_blocked'' e attempt ''blocked''],
                Some g')))"

definition recordFillToRiskGate :: "run_env \<Rightarrow> int \<Rightarrow> order \<Rightarrow> broker_result \<Rightarrow> risk_gate option \<Rightarrow> risk_gate option" where
  "recordFillToRiskGate env attempt ord result gate =
     (case (gate, provider env) of
        (Some g, Some pv) \<Rightarrow>
          Some (RecordFill (run_date env attempt) (o_side ord) (o_price ord) (br_fill_price result)
                 (f64_of_int (o_quantity ord)) pv g)
      | _ \<Rightarrow> gate)"

definition slippage_of :: "run_env \<Rightarrow> int \<Rightarrow> order \<Rightarrow> broker_result \<Rightarrow> slippage_payload" where
  "slippage_of env attempt ord result =
     (let gap = fabs (fsub (br_fill_price result) (o_price ord))
      in \<lparr>sl_order_id = br_order_id result, sl_symbol = o_symbol ord, sl_side = o_side ord,
          sl_quantity = o_quantity ord, sl_expected = o_price ord, sl_fill = br_fill_price result,
          sl_bps = (if flt (Fin 0) (o_price ord) then fmul (fdiv gap (o_price ord)) (Fin 10000) else Fin 0),
          sl_cost = fmul gap (f64_of_int (o_quantity ord)),
          sl_broker_mode = run_mode env, sl_timestamp = run_now env attempt\<rparr>)"

text \<open>What follows a submission the broker answered without an error.\<close>

definition settle ::
  "run_env \<Rightarrow> int \<Rightarrow> order \<Rightarrow> broker_result \<Rightarrow> risk_gate option \<Rightarrow> live_error option \<times> live_event list \<times> risk_gate option" where
  "settle env attempt ord result gate =
     (let now = run_now env attempt;
          status = (if br_status result = [] then ''placed'' else br_status result);
          eventOrder = (if status = ''rejected'' \<and> br_reason result \<noteq> [] then ord\<lparr>o_reason := br_reason result\<rparr> else ord);
          placed = emit env [PublishOrderEvent now eventOrder (br_order_id result) status (br_fill_price result)];
          (slip, gate') = (if status = ''filled''
                           then (emit env [PublishTradeSlippage now (slippage_of env attempt ord result)],
                                 recordFillToRiskGate env attempt ord result gate)
                           else ([], gate))
      in if status = ''rejected'' then
           (let reason = (if br_reason result = [] then ''broker rejected order'' else br_reason result)
            in (Some (BrokerRejected (o_symbol ord) reason),
                placed @ slip @ emit env [PublishOrderError now (br_order_id result) ord ''rejected'' (External reason) attempt status],
                gate'))
         else (None, placed @ slip, gate'))"

text \<open>
  The loop \<open>for attempt := 1; attempt <= attempts\<close> with \<open>k\<close> iterations left; at its end
  \<open>lastErr\<close> is nil only if the loop never ran (\<open>maxRetries + 1\<close> wrapped); with a bus reading its
  message is then a nil dereference, without one the nil is only formatted.
\<close>

definition exhausted :: "run_env \<Rightarrow> int \<Rightarrow> order \<Rightarrow> live_error option \<Rightarrow> live_error option \<times> live_event list" where
  "exhausted env attempts ord lastErr =
     (case lastErr of
        None \<Rightarrow> (Some (if has_bus env then NilDereference
                         else SubmitFailed (o_symbol ord) attempts (External ''%!w(<nil>)'')), [])
      | Some e \<Rightarrow> (Some (SubmitFailed (o_symbol ord) attempts e),
          emit env [PublishOrderError (run_now env attempts) [] ord ''retry_exhausted'' e attempts ''error'']))"

fun run_attempts ::
  "'s submit \<Rightarrow> run_env \<Rightarrow> int \<Rightarrow> order \<Rightarrow> nat \<Rightarrow> live_error option \<Rightarrow> risk_gate option \<Rightarrow> 's \<Rightarrow>
   live_error option \<times> live_event list \<times> risk_gate option \<times> 's" where
  "run_attempts submit env attempts ord 0 lastErr gate s =
     (let (err, evs) = exhausted env attempts ord lastErr in (err, evs, gate, s))"
| "run_attempts submit env attempts ord (Suc k) lastErr gate s =
     (let attempt = attempts - int k
      in case checkRiskGate env attempt ord (map_option (interfere env attempt) gate) of
           (Some e, evs, gate1) \<Rightarrow> (Some e, evs, gate1, s)
         | (None, _, gate1) \<Rightarrow>
             (case submit ord s of
                ((_, Some e), s') \<Rightarrow>
                  run_attempts submit env attempts ord k (Some (AttemptFailed attempt attempts e)) gate1 s'
              | ((result, None), s') \<Rightarrow>
                  (case settle env attempt ord result gate1 of (err, evs, gate2) \<Rightarrow> (err, evs, gate2, s'))))"

definition Run ::
  "'s submit \<Rightarrow> run_env \<Rightarrow> order_manager \<Rightarrow> order \<Rightarrow> risk_gate option \<Rightarrow> 's \<Rightarrow>
   live_error option \<times> live_event list \<times> risk_gate option \<times> 's" where
  "Run submit env m ord gate s =
     (let attempts = wrap64 (om_max_retries m + 1)
      in run_attempts submit env attempts ord (nat attempts) None gate s)"

section \<open>Counting submissions\<close>

text \<open>A broker that counts the submissions that reach it.\<close>

definition counted :: "'s submit \<Rightarrow> (nat \<times> 's) submit" where
  "counted submit ord s = (let (r, s') = submit ord (snd s) in (r, (Suc (fst s), s')))"

lemma counted_apply [simp]:
  "counted submit ord (n, s) = (fst (submit ord s), (Suc n, snd (submit ord s)))"
  by (simp add: counted_def split: prod.split)

definition submissions :: "live_error option \<times> live_event list \<times> risk_gate option \<times> (nat \<times> 's) \<Rightarrow> nat" where
  "submissions out = fst (snd (snd (snd out)))"

lemma checkRiskGate_halted:
  "halt_trading g \<Longrightarrow> \<exists>e evs gate'. checkRiskGate env i ord (Some g) = (Some e, evs, gate')"
  using Check_halted [of g "run_date env i" ord]
  by (auto simp: checkRiskGate_def split: prod.split option.split)

lemma submissions_bound:
  "submissions (run_attempts (counted submit) env a ord k le gate (n, s)) \<le> n + k"
proof (induction k arbitrary: le gate n s)
  case (Suc k)
  have "submissions (run_attempts (counted submit) env a ord k (Some e) g (Suc n, s')) \<le> Suc (n + k)" for e g s'
    using Suc [of "Some e" g "Suc n" s'] by simp
  then show ?case
    by (auto simp: Let_def submissions_def split: prod.split option.split)
qed (simp add: submissions_def exhausted_def split: option.split)

text \<open>Once the gate is halted for good, no attempt from then on reaches the broker.\<close>

lemma submissions_until_halt:
  assumes "\<And>i g. a - int k + int h < i \<Longrightarrow> halt_trading (interfere env i g)" "gate \<noteq> None"
  shows "submissions (run_attempts (counted submit) env a ord k le gate (n, s)) \<le> n + h"
  using assms
proof (induction k arbitrary: le gate n s h)
  case 0
  then show ?case by (simp add: submissions_def exhausted_def split: option.split)
next
  case (Suc k)
  obtain g where g: "gate = Some g" using Suc.prems(2) by blast
  show ?case
  proof (cases h)
    case 0
    then have "halt_trading (interfere env (a - int k) g)" using Suc.prems(1) by simp
    then obtain e evs gate' where "checkRiskGate env (a - int k) ord (Some (interfere env (a - int k) g)) = (Some e, evs, gate')"
      using checkRiskGate_halted by blast
    then show ?thesis using g by (simp add: Let_def submissions_def)
  next
    case (Suc h')
    have "submissions (run_attempts (counted submit) env a ord k (Some e) (Some g') (Suc n, s')) \<le> Suc n + h'" for e g' s'
      using Suc.prems(1) Suc by (intro Suc.IH) auto
    then show ?thesis using Suc g
      by (auto simp: Let_def submissions_def checkRiskGate_def split: prod.split option.split)
  qed
qed

section \<open>Events of a run\<close>

definition errors_in :: "live_event list \<Rightarrow> nat" where
  "errors_in evs = length (filter (\<lambda>ev. ev_type ev = EventOrderError) evs)"

text \<open>The entries the audit log of the gate takes from a list of events.\<close>

definition audited :: "live_event list \<Rightarrow> nat" where
  "audited evs = length (foldl (\<lambda>es ev. audit_handle ev es) [] evs)"

fun gate_block :: "live_error option \<Rightarrow> bool" where
  "gate_block (Some (RiskGateBlocked _ _)) = True"
| "gate_block _ = False"

definition reported :: "live_error option \<Rightarrow> live_event list \<Rightarrow> bool" where
  "reported err evs \<longleftrightarrow>
     evs \<noteq> [] \<and> errors_in evs = (if err = None then 0 else 1) \<and> audited evs = (if gate_block err then 1 else 0)"

lemma event_types [simp]:
  "ev_type (PublishOrderError now oid ord code msg n st) = EventOrderError"
  "ev_type (PublishTradeSlippage now p) = EventTradeSlippage"
  "ev_type (PublishOrderEvent now ord oid st fill) \<noteq> EventOrderError"
  "EventTradeSlippage \<noteq> EventOrderError"
  by (simp_all add: PublishOrderError_def PublishTradeSlippage_def PublishOrderEvent_def mk_event_def event_type_defs)

lemma audit_handle_events [simp]:
  "audit_handle (PublishOrderError now oid ord code msg n st) es =
     (if code = riskGateBlockedCode
      then es @ [\<lparr>ae_order_id = oid, ae_symbol = o_symbol ord, ae_side = o_side ord, ae_price = o_price ord,
                  ae_quantity = o_quantity ord, ae_attempts = n, ae_message = msg, ae_timestamp = now\<rparr>] else es)"
  "audit_handle (PublishTradeSlippage now p) es = es"
  "audit_handle (PublishOrderEvent now ord oid st fill) es = es"
  by (simp_all add: audit_handle_def) (simp add: PublishOrderError_def mk_event_def)

lemmas reported_simps = reported_def errors_in_def audited_def emit_def riskGateBlockedCode_def

lemma settle_reported:
  "has_bus env \<Longrightarrow> settle env i ord res gate = (err, evs, gate') \<Longrightarrow> reported err evs"
  by (auto simp: settle_def Let_def reported_simps split: if_splits)

lemma checkRiskGate_reported:
  "has_bus env \<Longrightarrow> checkRiskGate env i ord gate = (Some e, evs, gate') \<Longrightarrow> reported (Some e) evs"
  by (auto simp: checkRiskGate_def reported_simps split: option.splits prod.splits)

lemma run_attempts_reported:
  assumes "has_bus env" "le \<noteq> None \<or> 0 < k"
    and "run_attempts submit env a ord k le gate s = (err, evs, gate', s')"
  shows "reported err evs"
  using assms(2,3)
proof (induction k arbitrary: le gate s)
  case 0
  then show ?case using assms(1)
    by (auto simp: exhausted_def reported_simps split: option.splits)
next
  case (Suc k)
  obtain cerr cevs gate1 where c: "checkRiskGate env (a - int k) ord (map_option (interfere env (a - int k)) gate) = (cerr, cevs, gate1)"
    by (cases "checkRiskGate env (a - int k) ord (map_option (interfere env (a - int k)) gate)")
  obtain res e s1 where sub: "submit ord s = ((res, e), s1)" by (metis prod.exhaust)
  show ?case
  proof (cases cerr)
    case (Some x)
    then show ?thesis using Suc.prems(2) c checkRiskGate_reported [OF assms(1)] by (auto simp: Let_def)
  next
    case None
    show ?thesis
    proof (cases e)
      case None
      then show ?thesis using Suc.prems(2) c \<open>cerr = None\<close> sub settle_reported [OF assms(1)]
        by (auto simp: Let_def split: prod.splits)
    next
      case (Some x)
      then show ?thesis using Suc.prems(2) c \<open>cerr = None\<close> sub
        by (intro Suc.IH [of "Some (AttemptFailed (a - int k) a x)" gate1 s1]) (auto simp: Let_def)
    qed
  qed
qed

section \<open>Runs against a broker that keeps its contract\<close>

context broker_contract
begin

lemma invalid_run_untouched:
  "validateOrder ord = Some e \<Longrightarrow> snd (snd (snd (run_attempts submit env a ord k le gate s))) = s"
proof (induction k arbitrary: le gate)
  case (Suc k)
  then show ?case using invalid_refused [OF Suc.prems, of s]
    by (auto simp: Let_def split: prod.split option.split)
qed (simp split: prod.split)

end

section \<open>Pages\<close>

lemma page_of_exact:
  assumes "0 < ps" "int (Suc i) * ps \<le> i64_max"
  shows "page_of (int i + 1) ps xs = Inr (take (nat ps) (drop (i * nat ps) xs))"
proof -
  have nn: "0 \<le> int i * ps" and le: "int i * ps + ps \<le> i64_max"
    using assms by (simp_all add: distrib_right)
  have low: "i64_min \<le> int i * ps" using order.trans [OF _ nn, of i64_min] by (simp add: i64_min_def)
  have w1: "wrap64 (int i * ps) = int i * ps" using low le assms(1) by (intro wrap64_id) simp_all
  have w2: "wrap64 (int i * ps + ps) = int i * ps + ps" using low le assms(1) by (intro wrap64_id) simp_all
  have nat: "nat (int i * ps) = i * nat ps" using assms(1) by (simp add: nat_mult_distrib)
  show ?thesis
  proof (cases "int i * ps \<ge> int (length xs)")
    case True
    then have "length xs \<le> i * nat ps" using nat by linarith
    then show ?thesis using True assms(1) w1 by (simp add: page_of_def Let_def)
  next
    case False
    have "take (nat (min (int i * ps + ps) (int (length xs)) - int i * ps)) (drop (i * nat ps) xs) =
        take (nat ps) (drop (i * nat ps) xs)"
    proof (cases "int i * ps + ps \<le> int (length xs)")
      case True
      then show ?thesis by simp
    next
      case beyond: False
      have "length (drop (i * nat ps) xs) = nat (int (length xs) - int i * ps)"
        using False nat nn by simp
      then show ?thesis using beyond by (simp add: min_def)
    qed
    then show ?thesis using False assms(1) nn w1 w2 nat by (auto simp: page_of_def Let_def)
  qed
qed

lemma concat_pages: "concat (map (\<lambda>i. take p (drop (i * p) xs)) [0..<n]) = take (n * p) xs"
proof (induction n)
  case (Suc n)
  have "take (Suc n * p) xs = take (n * p) xs @ take p (drop (n * p) xs)"
    by (simp add: take_add [symmetric] add.commute)
  then show ?case using Suc by simp
qed simp

section \<open>Properties\<close>

definition default_env :: run_env where
  "default_env = \<lparr>run_date = \<lambda>_. ''2026-10-16'', run_now = \<lambda>i. i, interfere = \<lambda>_ g. g, provider = None,
     has_bus = True, run_mode = dryrun_mode\<rparr>"

definition demo_order :: order where
  "demo_order = \<lparr>o_symbol = ''2330'', o_side = SideBuy, o_quantity = 10, o_price = Fin 100, o_reason = []\<rparr>"

lemma trim_2330 [simp]: "trim_space ''2330'' = ''2330''"
  by (simp add: trim_space_def trim_by.simps lead_space_def ascii_space_def wide_spaces_def starts_with_def)

lemma demo_order_valid [simp]: "validateOrder demo_order = None"
  by (simp add: validateOrder_None demo_order_def)

text \<open>
  C3 (safety).  The risk gate is looked at again before every attempt: if the gate is halted,
  by whatever goroutine, from the attempt after the \<open>h\<close>-th on, at most \<open>h\<close> submissions of the
  order reach the broker, and in no case more than \<open>maxRetries + 1\<close>.
\<close>

theorem halt_stops_retries:
  assumes "\<And>i g. int h < i \<Longrightarrow> halt_trading (interfere env i g)"
  shows "submissions (Run (counted submit) env m ord (Some g) (0, s)) \<le> min h (nat (wrap64 (om_max_retries m + 1)))"
proof -
  let ?a = "wrap64 (om_max_retries m + 1)"
  have "submissions (run_attempts (counted submit) env ?a ord (nat ?a) None (Some g) (0, s)) \<le> 0 + h"
  proof (cases "0 \<le> ?a")
    case True
    then show ?thesis using assms by (intro submissions_until_halt) auto
  next
    case False
    then show ?thesis using submissions_bound [of submit env ?a ord "nat ?a" None "Some g" 0 s] by simp
  qed
  then show ?thesis
    using submissions_bound [of submit env ?a ord "nat ?a" None "Some g" 0 s] by (simp add: Run_def Let_def)
qed

definition failing_broker :: "unit submit" where
  "failing_broker ord s = ((empty_result, Some (TransportFailed ''down'')), s)"

theorem halt_stops_retries_witness:
  "submissions (Run (counted failing_broker) (default_env\<lparr>interfere := \<lambda>i. SetHaltTrading (i > 2)\<rparr>)
     (NewOrderManager 5 0) demo_order (Some (NewRiskGate (Fin 0) (Fin 0) ''2026-10-16'')) (0, ())) \<le> 2"
  using halt_stops_retries [of 2 "default_env\<lparr>interfere := \<lambda>i. SetHaltTrading (i > 2)\<rparr>" failing_broker
      "NewOrderManager 5 0" demo_order "NewRiskGate (Fin 0) (Fin 0) ''2026-10-16''" "()"]
  by (simp add: SetHaltTrading_def)

text \<open>
  C36 (error).  With a bus, every run of an order publishes something, and publishes exactly
  one order-error event if it returns an error (gate block, rejection or exhausted retries) and
  none if it succeeds; the audit log of the risk gate takes an entry from these events exactly
  if the gate blocked the order.
\<close>

theorem run_reports_once:
  assumes "has_bus env" "0 \<le> om_max_retries m" "om_max_retries m < i64_max"
  shows "reported (fst (Run submit env m ord gate s)) (fst (snd (Run submit env m ord gate s)))"
proof -
  have "wrap64 (om_max_retries m + 1) = om_max_retries m + 1"
    using assms(2,3) by (intro wrap64_id) (auto simp: i64_min_def)
  then show ?thesis
    using run_attempts_reported [OF assms(1), of None "nat (om_max_retries m + 1)" submit "om_max_retries m + 1" ord gate s] assms(2)
    by (cases "Run submit env m ord gate s") (auto simp: Run_def Let_def)
qed

theorem run_reports_once_witness:
  "reported (fst (Run failing_broker default_env (NewOrderManager 5 0) demo_order None ()))
     (fst (snd (Run failing_broker default_env (NewOrderManager 5 0) demo_order None ())))"
  by (rule run_reports_once) (simp_all add: default_env_def NewOrderManager_def i64_max_def)

text \<open>
  An order that fails the validation never changes what is behind a guarded
  live broker, whatever its adapter, gate, environment and number of retries.
\<close>

theorem invalid_order_never_reaches_adapter:
  assumes "validateOrder ord = Some e"
  shows "snd (snd (snd (Run (guarded_submit adapter) env m ord gate s))) = s"
  unfolding Run_def Let_def by (rule guarded_broker.invalid_run_untouched [OF assms])

theorem invalid_order_never_reaches_adapter_witness:
  "snd (snd (snd (Run (guarded_submit (Some (counted mock_submit))) default_env (NewOrderManager 5 0)
     (demo_order\<lparr>o_side := SideReduce\<rparr>) None (0, ())))) = (0, ())"
  by (rule invalid_order_never_reaches_adapter [of _ "UnsupportedSide SideReduce"])
    (simp add: validateOrder_def demo_order_def SideBuy_def SideSell_def SideReduce_def)

text \<open>
  A dry run of a valid order at a finite price that the gate lets through
  succeeds at the first attempt: it publishes the fill at the order price and a slippage of zero,
  in this order, and leaves the gate as the check left it.
\<close>

theorem dry_run_fills:
  assumes "validateOrder ord = None" "o_price ord = Fin p" "is_f64 (Fin p)"
    and "\<forall>g. gate = Some g \<longrightarrow> fst (Check (run_date env 1) ord (interfere env 1 g)) = None"
    and "has_bus env" "0 \<le> om_max_retries m" "om_max_retries m < i64_max" "o_quantity ord \<le> 2 ^ 53"
  shows "Run dryrun_submit env m ord gate s =
    (let oid = ''dryrun-'' @ o_symbol ord @ ''-'' @ show_int (o_quantity ord)
     in (None,
         [PublishOrderEvent (run_now env 1) ord oid ''filled'' (Fin p),
          PublishTradeSlippage (run_now env 1)
            \<lparr>sl_order_id = oid, sl_symbol = o_symbol ord, sl_side = o_side ord, sl_quantity = o_quantity ord,
             sl_expected = Fin p, sl_fill = Fin p, sl_bps = Fin 0, sl_cost = Fin 0,
             sl_broker_mode = run_mode env, sl_timestamp = run_now env 1\<rparr>],
         map_option (\<lambda>g. maybeResetDaily (run_date env 1) (interfere env 1 g)) gate, s))"
proof -
  let ?r = "\<lparr>br_order_id = ''dryrun-'' @ o_symbol ord @ ''-'' @ show_int (o_quantity ord), br_status = ''filled'',
             br_fill_price = o_price ord, br_reason = ''dry-run execution''\<rparr>"
  let ?g = "map_option (\<lambda>g. maybeResetDaily (run_date env 1) (interfere env 1 g)) gate"
  have a: "wrap64 (om_max_retries m + 1) = om_max_retries m + 1"
    using assms(6,7) by (intro wrap64_id) (auto simp: i64_min_def)
  have k: "nat (om_max_retries m + 1) = Suc (nat (om_max_retries m))" using assms(6) by simp
  have first: "om_max_retries m + 1 - int (nat (om_max_retries m)) = 1" using assms(6) by simp
  have chk: "checkRiskGate env 1 ord (map_option (interfere env 1) gate) = (None, [], ?g)"
  proof (cases gate)
    case (Some g)
    then have "fst (Check (run_date env 1) ord (interfere env 1 g)) = None" using assms(4) by blast
    moreover have "snd (Check (run_date env 1) ord (interfere env 1 g)) = maybeResetDaily (run_date env 1) (interfere env 1 g)"
      by simp
    ultimately have "Check (run_date env 1) ord (interfere env 1 g) = (None, maybeResetDaily (run_date env 1) (interfere env 1 g))"
      by (cases "Check (run_date env 1) ord (interfere env 1 g)") simp
    then show ?thesis using Some by (simp add: checkRiskGate_def)
  qed (simp add: checkRiskGate_def)
  have p: "0 < p" and q: "0 < o_quantity ord" using assms(1,2) by (auto simp: validateOrder_None)
  have qf: "f64_of_int (o_quantity ord) = Fin (of_int (o_quantity ord))"
    unfolding f64_of_int_def using assms(8) q by (intro rnd_of_int) auto
  have fill: "recordFillToRiskGate env 1 ord ?r gate' = gate'" for gate'
    using assms(2) qf by (cases gate'; cases "provider env")
      (simp_all add: recordFillToRiskGate_def RecordFill_def fill_pnl_def fsub_def)
  have slip: "slippage_of env 1 ord ?r =
      \<lparr>sl_order_id = ''dryrun-'' @ o_symbol ord @ ''-'' @ show_int (o_quantity ord), sl_symbol = o_symbol ord,
       sl_side = o_side ord, sl_quantity = o_quantity ord, sl_expected = Fin p, sl_fill = Fin p, sl_bps = Fin 0,
       sl_cost = Fin 0, sl_broker_mode = run_mode env, sl_timestamp = run_now env 1\<rparr>"
    using assms(2) p qf by (simp add: slippage_of_def Let_def fsub_def)
  have set: "settle env 1 ord ?r ?g =
      (None, [PublishOrderEvent (run_now env 1) ord (br_order_id ?r) ''filled'' (Fin p),
              PublishTradeSlippage (run_now env 1) (slippage_of env 1 ord ?r)], ?g)"
    using fill assms(2,5) by (simp add: settle_def Let_def emit_def)
  have sub: "dryrun_submit ord s = ((?r, None), s)" using assms(1) by (simp add: dryrun_submit_def)
  show ?thesis
    unfolding Run_def Let_def a k
    using chk sub set slip assms(6) by (simp add: first Let_def)
qed

theorem dry_run_fills_witness:
  "fst (Run dryrun_submit default_env (NewOrderManager 1 0) demo_order (Some (NewRiskGate (Fin 0) (Fin 0) ''2026-10-16'')) ()) = None"
  by (subst dry_run_fills [where p = 100])
    (simp_all add: default_env_def demo_order_def NewOrderManager_def i64_max_def Check_def
      NewRiskGate_def Let_def is_f64_def f64_simps, simp add: validateOrder_None)

text \<open>
  The pages of the order list partition it: while page times page size
  stays in range, the pages \<open>1 .. n\<close> of \<open>GetOrders\<close>, put one after the other, are the first
  \<open>n * pageSize\<close> matching orders, newest first, each exactly once; every page reports the same total.
\<close>

theorem order_pages_partition:
  assumes "0 < of_page_size f" "int n * of_page_size f \<le> i64_max"
  shows "concat (map (\<lambda>i. case GetOrders (f\<lparr>of_page := int i + 1\<rparr>) iter of Inr (p, _) \<Rightarrow> p | Inl _ \<Rightarrow> []) [0..<n])
      = take (n * nat (of_page_size f)) (matching_orders f iter) \<and>
    mset (matching_orders f iter) = mset (filter (order_matches f) iter) \<and>
    sorted (map (\<lambda>r. - rec_created_at r) (matching_orders f iter)) \<and>
    (\<forall>i < n. \<exists>p. GetOrders (f\<lparr>of_page := int i + 1\<rparr>) iter = Inr (p, int (length (matching_orders f iter))))"
proof -
  have same: "matching_orders (f\<lparr>of_page := i\<rparr>) iter = matching_orders f iter" for i
    by (simp add: matching_orders_def order_matches_def [abs_def])
  have page: "GetOrders (f\<lparr>of_page := int i + 1\<rparr>) iter =
      Inr (take (nat (of_page_size f)) (drop (i * nat (of_page_size f)) (matching_orders f iter)),
           int (length (matching_orders f iter)))" if "i < n" for i
  proof -
    have "int (Suc i) * of_page_size f \<le> int n * of_page_size f"
      using that assms(1) by (intro mult_right_mono) auto
    then have "int (Suc i) * of_page_size f \<le> i64_max" using assms(2) by (rule order_trans)
    then have "page_of (int i + 1) (of_page_size f) (matching_orders f iter) =
        Inr (take (nat (of_page_size f)) (drop (i * nat (of_page_size f)) (matching_orders f iter)))"
      by (rule page_of_exact [OF assms(1)])
    then show ?thesis by (simp add: GetOrders_def same Let_def)
  qed
  have "map (\<lambda>i. case GetOrders (f\<lparr>of_page := int i + 1\<rparr>) iter of Inr (p, _) \<Rightarrow> p | Inl _ \<Rightarrow> []) [0..<n] =
      map (\<lambda>i. take (nat (of_page_size f)) (drop (i * nat (of_page_size f)) (matching_orders f iter))) [0..<n]"
    using page by simp
  then show ?thesis using page by (simp only: concat_pages) (simp add: matching_orders_def)
qed

definition demo_filter :: order_filter where
  "demo_filter = \<lparr>of_status = [], of_symbol = [], of_side = [], of_date_from = zero_time, of_date_to = zero_time,
     of_page = 1, of_page_size = 2\<rparr>"

theorem order_pages_partition_witness:
  "concat (map (\<lambda>i. case GetOrders (demo_filter\<lparr>of_page := int i + 1\<rparr>) [] of Inr (p, _) \<Rightarrow> p | Inl _ \<Rightarrow> []) [0..<3])
      = take (3 * nat 2) (matching_orders demo_filter [])"
proof -
  have "0 < of_page_size demo_filter" "int 3 * of_page_size demo_filter \<le> i64_max"
    by (simp_all add: demo_filter_def i64_max_def)
  from order_pages_partition [OF this, of "[]", THEN conjunct1]
  show ?thesis unfolding demo_filter_def order_filter.simps .
qed

text \<open>
  The offset \<open>(page - 1) * pageSize\<close> is computed in 64 bits: for a page number
  that makes it wrap to a negative value the list handler panics on the slice bounds, for every
  order book, the empty one included.
\<close>

lemma order_page_overflow_panics:
  assumes "0 < of_page f" "0 < of_page_size f" "wrap64 ((of_page f - 1) * of_page_size f) < 0"
  shows "GetOrders f iter = Inl SliceOutOfRange"
  using assms by (simp add: GetOrders_def page_of_def Let_def)

end
