(* ===== verification/Live_Store.thy ===== *)
theory Live_Store
  imports Live_Types "HOL-Library.Multiset"
begin

text \<open>
  The live state store, \<open>internal/live/store/store.go\<close>: portfolio, positions, regime, event list
  and recommendations in memory, and the three files of the state directory.

  The positions are an association list with distinct keys.  \<open>UpdatePositionPrices\<close> and
  \<open>CalculateDayPnL\<close> add floats while ranging over the map, so the order of the visit is an
  argument: a permutation of the keys.  Recommendations are only stored and copied: their type
  is the parameter \<open>'r\<close>.

  A file of the state directory is a list of lines; a line decodes, is blank, or is not JSON.
  A line that is JSON of another shape is not modelled.
\<close>

section \<open>State\<close>

record portfolio_state =
  pf_cash :: f64
  pf_total_exposure :: f64
  pf_available_cash :: f64
  pf_day_pnl :: f64
  pf_unrealized_pnl :: f64
  pf_realized_pnl :: f64
  pf_last_updated :: time

record regime_state =
  rg_current :: string
  rg_confidence :: f64
  rg_changed_at :: time
  rg_determined_by :: string

record store_event =
  se_id :: string
  se_type :: string
  se_timestamp :: time
  se_payload :: string

record 'r state_store =
  st_portfolio :: portfolio_state
  st_positions :: "(string \<times> position) list"
  st_regime :: regime_state
  st_events :: "store_event list"
  st_recommendations :: "'r list"
  st_filtered :: "'r list"

definition RegimeRiskOn :: string where "RegimeRiskOn = ''RISK_ON''"
definition RegimeRiskOff :: string where "RegimeRiskOff = ''RISK_OFF''"
definition RegimeNeutral :: string where "RegimeNeutral = ''NEUTRAL''"

definition NewStateStore :: "time \<Rightarrow> 'r state_store" where
  "NewStateStore now =
     \<lparr>st_portfolio = \<lparr>pf_cash = Fin 3000000, pf_total_exposure = Fin 0, pf_available_cash = Fin 3000000,
        pf_day_pnl = Fin 0, pf_unrealized_pnl = Fin 0, pf_realized_pnl = Fin 0, pf_last_updated = now\<rparr>,
      st_positions = [],
      st_regime = \<lparr>rg_current = RegimeNeutral, rg_confidence = Fin (1 / 2), rg_changed_at = now,
        rg_determined_by = ''system''\<rparr>,
      st_events = [], st_recommendations = [], st_filtered = []\<rparr>"

section \<open>Operations in memory\<close>

definition UpdatePortfolio :: "time \<Rightarrow> portfolio_state \<Rightarrow> 'r state_store \<Rightarrow> 'r state_store" where
  "UpdatePortfolio now p s = s\<lparr>st_portfolio := p\<lparr>pf_last_updated := now\<rparr>\<rparr>"

definition GetPosition :: "string \<Rightarrow> 'r state_store \<Rightarrow> position option" where
  "GetPosition symbol s = map_of (st_positions s) symbol"

definition UpdatePosition :: "position \<Rightarrow> 'r state_store \<Rightarrow> 'r state_store" where
  "UpdatePosition p s = s\<lparr>st_positions := AList.update (p_symbol p) p (st_positions s)\<rparr>"

definition RemovePosition :: "string \<Rightarrow> 'r state_store \<Rightarrow> 'r state_store" where
  "RemovePosition symbol s = s\<lparr>st_positions := AList.delete symbol (st_positions s)\<rparr>"

definition UpdateRegime :: "time \<Rightarrow> string \<Rightarrow> f64 \<Rightarrow> string \<Rightarrow> 'r state_store \<Rightarrow> 'r state_store" where
  "UpdateRegime now regime confidence by s =
     s\<lparr>st_regime := \<lparr>rg_current = regime, rg_confidence = confidence, rg_changed_at = now, rg_determined_by = by\<rparr>\<rparr>"

definition RecordEvent :: "time \<Rightarrow> string \<Rightarrow> string \<Rightarrow> 'r state_store \<Rightarrow> 'r state_store" where
  "RecordEvent now ty payload s =
     s\<lparr>st_events := st_events s @ [\<lparr>se_id = ''evt-'' @ show_int now, se_type = ty, se_timestamp = now, se_payload = payload\<rparr>]\<rparr>"

text \<open>The new value of one held position, and of a held position without a quote.\<close>

definition priced :: "quote \<Rightarrow> position \<Rightarrow> position" where
  "priced q p =
     p\<lparr>current_price := q_last q, market_value := fmul (f64_of_int (p_quantity p)) (q_last q),
       unrealized_pnl := fmul (f64_of_int (p_quantity p)) (fsub (q_last q) (average_cost p))\<rparr>"

text \<open>The last quote of a symbol in the list wins.\<close>

definition quote_map :: "quote list \<Rightarrow> string \<Rightarrow> quote option" where
  "quote_map qs = map_of (rev (map (\<lambda>q. (q_symbol q, q)) qs))"

text \<open>
  The loop over the positions, on the keys in the order of the visit; the accumulators are the
  positions, the unrealized profit and the exposure.
\<close>

fun reprice ::
  "quote list \<Rightarrow> string list \<Rightarrow> (string \<times> position) list \<times> f64 \<times> f64 \<Rightarrow> (string \<times> position) list \<times> f64 \<times> f64" where
  "reprice qs [] acc = acc"
| "reprice qs (k # ks) (ps, pnl, exposure) =
     reprice qs ks
       (case (map_of ps k, quote_map qs k) of
          (Some p, Some q) \<Rightarrow>
            (AList.update k (priced q p) ps, fadd pnl (unrealized_pnl (priced q p)), fadd exposure (market_value (priced q p)))
        | _ \<Rightarrow> (ps, pnl, exposure))"

definition UpdatePositionPrices :: "time \<Rightarrow> string list \<Rightarrow> quote list \<Rightarrow> 'r state_store \<Rightarrow> 'r state_store" where
  "UpdatePositionPrices now visit qs s =
     (let (ps, pnl, exposure) = reprice qs visit (st_positions s, Fin 0, Fin 0)
      in s\<lparr>st_positions := ps,
           st_portfolio := (st_portfolio s)\<lparr>pf_unrealized_pnl := pnl, pf_total_exposure := exposure, pf_last_updated := now\<rparr>\<rparr>)"

definition CalculateDayPnL :: "string list \<Rightarrow> (string \<Rightarrow> f64 option) \<Rightarrow> 'r state_store \<Rightarrow> f64 \<times> 'r state_store" where
  "CalculateDayPnL visit opens s =
     (let pnl = foldl (\<lambda>acc k. case (map_of (st_positions s) k, opens k) of
            (Some p, Some dayOpen) \<Rightarrow> fadd acc (fmul (f64_of_int (p_quantity p)) (fsub (current_price p) dayOpen))
          | _ \<Rightarrow> acc) (Fin 0) visit
      in (pnl, s\<lparr>st_portfolio := (st_portfolio s)\<lparr>pf_day_pnl := pnl\<rparr>\<rparr>))"

definition store_ResetDayState :: "'r state_store \<Rightarrow> 'r state_store" where
  "store_ResetDayState s =
     s\<lparr>st_portfolio := (st_portfolio s)\<lparr>pf_day_pnl := Fin 0, pf_realized_pnl := Fin 0\<rparr>, st_events := []\<rparr>"

definition SetCurrentRegime :: "time \<Rightarrow> string \<Rightarrow> 'r state_store \<Rightarrow> 'r state_store" where
  "SetCurrentRegime now regime s =
     s\<lparr>st_regime := (st_regime s)\<lparr>rg_current := regime, rg_changed_at := now, rg_determined_by := ''context_agent''\<rparr>\<rparr>"

definition SetPendingRecommendations :: "'r list \<Rightarrow> 'r state_store \<Rightarrow> 'r state_store" where
  "SetPendingRecommendations rs s = s\<lparr>st_recommendations := rs\<rparr>"

definition SetFilteredRecommendations :: "'r list \<Rightarrow> 'r state_store \<Rightarrow> 'r state_store" where
  "SetFilteredRecommendations rs s = s\<lparr>st_filtered := rs\<rparr>"

text \<open>\<open>sortedPositionsLocked\<close>: by symbol, bytewise.\<close>

definition sortedPositions :: "(string \<times> position) list \<Rightarrow> position list" where
  "sortedPositions ps = sort_key p_symbol (map snd ps)"

record store_snapshot =
  sn_portfolio :: portfolio_state
  sn_positions :: "position list"
  sn_regime :: regime_state
  sn_events :: "store_event list"

definition GetState :: "'r state_store \<Rightarrow> store_snapshot" where
  "GetState s = \<lparr>sn_portfolio = st_portfolio s, sn_positions = sortedPositions (st_positions s),
     sn_regime = st_regime s, sn_events = st_events s\<rparr>"

section \<open>The files\<close>

datatype 'a json_line = Decodes 'a | BlankLine | NotJson

datatype 'a state_file = Missing | CannotRead | Content "'a json_line list"

text \<open>
  The error of a failed read keeps apart whether \<open>os.IsNotExist\<close> would be true of it: it is
  not, for the errors are wrapped and \<open>os.IsNotExist\<close> does not unwrap.
\<close>

datatype read_error = WrappedNotExist | WrappedOther | NoValidLine

definition os_IsNotExist :: "read_error \<Rightarrow> bool" where
  "os_IsNotExist e = False"

text \<open>The backward scan; an empty file leaves the zero value.\<close>

fun last_decodable :: "'a json_line list \<Rightarrow> 'a option" where
  "last_decodable [] = None"
| "last_decodable (l # ls) =
     (case last_decodable ls of Some v \<Rightarrow> Some v
      | None \<Rightarrow> (case l of Decodes v \<Rightarrow> Some v | _ \<Rightarrow> None))"

definition readLastJSONLLine :: "'a \<Rightarrow> 'a state_file \<Rightarrow> read_error + 'a" where
  "readLastJSONLLine zero f = (case f of
     Missing \<Rightarrow> Inl WrappedNotExist
   | CannotRead \<Rightarrow> Inl WrappedOther
   | Content ls \<Rightarrow> if ls = [] then Inr zero
       else (case last_decodable ls of Some v \<Rightarrow> Inr v | None \<Rightarrow> Inl NoValidLine))"

record state_dir =
  portfolio_file :: "portfolio_state state_file"
  positions_file :: "position list state_file"
  regime_file :: "regime_state state_file"

definition zero_portfolio :: portfolio_state where
  "zero_portfolio = \<lparr>pf_cash = Fin 0, pf_total_exposure = Fin 0, pf_available_cash = Fin 0, pf_day_pnl = Fin 0,
     pf_unrealized_pnl = Fin 0, pf_realized_pnl = Fin 0, pf_last_updated = zero_time\<rparr>"

definition zero_regime :: regime_state where
  "zero_regime = \<lparr>rg_current = [], rg_confidence = Fin 0, rg_changed_at = zero_time, rg_determined_by = []\<rparr>"

definition LoadLastPortfolioState :: "state_dir \<Rightarrow> read_error + portfolio_state" where
  "LoadLastPortfolioState d = readLastJSONLLine zero_portfolio (portfolio_file d)"

definition LoadLastPositions :: "state_dir \<Rightarrow> read_error + (string \<times> position) list" where
  "LoadLastPositions d = (case readLastJSONLLine [] (positions_file d) of
     Inl e \<Rightarrow> Inl e
   | Inr ps \<Rightarrow> Inr (foldl (\<lambda>m p. AList.update (p_symbol p) p m) [] ps))"

definition LoadLastRegime :: "state_dir \<Rightarrow> read_error + regime_state" where
  "LoadLastRegime d = readLastJSONLLine zero_regime (regime_file d)"

datatype store_error = LoadPortfolio read_error | LoadRegime read_error
  | CreateStateDir | MarshalState string | SaveState string

text \<open>A failing load leaves what it had already replaced.\<close>

definition Load :: "state_dir \<Rightarrow> 'r state_store \<Rightarrow> store_error option \<times> 'r state_store" where
  "Load d s =
     (case LoadLastPortfolioState d of
        Inl e \<Rightarrow> if os_IsNotExist e then (None, s) else (Some (LoadPortfolio e), s)
      | Inr p \<Rightarrow>
         (let s1 = s\<lparr>st_portfolio := p\<rparr>;
              s2 = (case LoadLastPositions d of Inr ps \<Rightarrow> s1\<lparr>st_positions := ps\<rparr> | Inl _ \<Rightarrow> s1)
          in case LoadLastRegime d of
               Inl e \<Rightarrow> if os_IsNotExist e then (None, s2) else (Some (LoadRegime e), s2)
             | Inr r \<Rightarrow> (None, s2\<lparr>st_regime := r\<rparr>)))"

text \<open>
  \<open>json.Marshal\<close> fails on a float that is not finite (and on a year beyond 9999, which the
  clock does not reach).  The failures of the file system are given for each write.
\<close>

definition marshals_f64 :: "f64 \<Rightarrow> bool" where
  "marshals_f64 v = (case v of Fin _ \<Rightarrow> True | _ \<Rightarrow> False)"

definition portfolio_marshals :: "portfolio_state \<Rightarrow> bool" where
  "portfolio_marshals p \<longleftrightarrow> marshals_f64 (pf_cash p) \<and> marshals_f64 (pf_total_exposure p) \<and> marshals_f64 (pf_available_cash p) \<and>
     marshals_f64 (pf_day_pnl p) \<and> marshals_f64 (pf_unrealized_pnl p) \<and> marshals_f64 (pf_realized_pnl p)"

definition position_marshals :: "position \<Rightarrow> bool" where
  "position_marshals p \<longleftrightarrow> marshals_f64 (average_cost p) \<and> marshals_f64 (current_price p) \<and> marshals_f64 (market_value p) \<and>
     marshals_f64 (unrealized_pnl p)"

record save_io =
  mkdir_ok :: bool
  write_portfolio_ok :: bool
  write_positions_ok :: bool
  write_regime_ok :: bool

definition Save :: "save_io \<Rightarrow> 'r state_store \<Rightarrow> state_dir \<Rightarrow> store_error option \<times> state_dir" where
  "Save io s d =
     (if \<not> mkdir_ok io then (Some CreateStateDir, d)
      else if \<not> portfolio_marshals (st_portfolio s) then (Some (MarshalState ''portfolio''), d)
      else if \<not> write_portfolio_ok io then (Some (SaveState ''portfolio''), d)
      else let d1 = d\<lparr>portfolio_file := Content [Decodes (st_portfolio s)]\<rparr>;
               ps = sortedPositions (st_positions s)
           in if \<not> list_all position_marshals ps then (Some (MarshalState ''positions''), d1)
              else if \<not> write_positions_ok io then (Some (SaveState ''positions''), d1)
              else let d2 = d1\<lparr>positions_file := Content [Decodes ps]\<rparr>
                   in if \<not> marshals_f64 (rg_confidence (st_regime s)) then (Some (MarshalState ''regime''), d2)
                      else if \<not> write_regime_ok io then (Some (SaveState ''regime''), d2)
                      else (None, d2\<lparr>regime_file := Content [Decodes (st_regime s)]\<rparr>))"

section \<open>Well-formed stores\<close>

text \<open>Every position is stored under its own symbol, once.\<close>

definition positions_wf :: "(string \<times> position) list \<Rightarrow> bool" where
  "positions_wf ps \<longleftrightarrow> distinct (map fst ps) \<and> (\<forall>kp \<in> set ps. p_symbol (snd kp) = fst kp)"

definition store_wf :: "'r state_store \<Rightarrow> bool" where
  "store_wf s \<longleftrightarrow> positions_wf (st_positions s)"

lemma priced_symbol [simp]: "p_symbol (priced q p) = p_symbol p"
  by (simp add: priced_def)

lemma positions_wf_lookup: "positions_wf ps \<Longrightarrow> map_of ps k = Some p \<Longrightarrow> p_symbol p = k"
  using map_of_SomeD by (fastforce simp: positions_wf_def)

lemma update_keyed:
  "(\<forall>kp \<in> set m. p_symbol (snd kp) = fst kp) \<Longrightarrow> (\<forall>kp \<in> set (AList.update (p_symbol v) v m). p_symbol (snd kp) = fst kp)"
  by (induction m) auto

lemma positions_wf_update: "positions_wf m \<Longrightarrow> p_symbol v = k \<Longrightarrow> positions_wf (AList.update k v m)"
  using update_keyed [of m v] by (auto simp: positions_wf_def distinct_keys_update)

lemma positions_wf_delete: "positions_wf m \<Longrightarrow> positions_wf (AList.delete k m)"
  by (auto simp: positions_wf_def AList.delete_eq distinct_keys_filter)

lemma reprice_wf: "positions_wf ps \<Longrightarrow> positions_wf (fst (reprice qs ks (ps, a, b)))"
proof (induction ks arbitrary: ps a b)
  case (Cons k ks)
  then show ?case
    by (auto split: option.split intro!: Cons.IH positions_wf_update dest: positions_wf_lookup)
qed simp

text \<open>The operations of the store on its contents, as one type.\<close>

datatype store_op =
    OpUpdatePortfolio time portfolio_state
  | OpUpdatePosition position
  | OpRemovePosition string
  | OpUpdateRegime time string f64 string
  | OpRecordEvent time string string
  | OpUpdatePrices time "string list" "quote list"
  | OpCalculateDayPnL "string list" "(string \<times> f64) list"
  | OpResetDay

fun store_apply :: "store_op \<Rightarrow> 'r state_store \<Rightarrow> 'r state_store" where
  "store_apply (OpUpdatePortfolio now p) s = UpdatePortfolio now p s"
| "store_apply (OpUpdatePosition p) s = UpdatePosition p s"
| "store_apply (OpRemovePosition k) s = RemovePosition k s"
| "store_apply (OpUpdateRegime now r c by) s = UpdateRegime now r c by s"
| "store_apply (OpRecordEvent now ty pl) s = RecordEvent now ty pl s"
| "store_apply (OpUpdatePrices now visit qs) s = UpdatePositionPrices now visit qs s"
| "store_apply (OpCalculateDayPnL visit opens) s = snd (CalculateDayPnL visit (map_of opens) s)"
| "store_apply OpResetDay s = store_ResetDayState s"

lemma store_apply_wf: "store_wf s \<Longrightarrow> store_wf (store_apply op s)"
proof (cases op)
  case (OpUpdatePrices now visit qs)
  assume "store_wf s"
  then show ?thesis using OpUpdatePrices reprice_wf [of "st_positions s" qs visit "Fin 0" "Fin 0"]
    by (cases "reprice qs visit (st_positions s, Fin 0, Fin 0)")
      (simp add: store_wf_def UpdatePositionPrices_def)
qed (auto simp: store_wf_def UpdatePortfolio_def UpdatePosition_def RemovePosition_def UpdateRegime_def RecordEvent_def
    CalculateDayPnL_def store_ResetDayState_def Let_def positions_wf_update positions_wf_delete)

lemma store_run_wf: "store_wf s \<Longrightarrow> store_wf (fold store_apply ops s)"
  by (induction ops arbitrary: s) (auto simp: store_apply_wf)

section \<open>Canonical order\<close>

lemma sortedPositions_mset [simp]: "mset (sortedPositions ps) = mset (map snd ps)"
  by (simp add: sortedPositions_def)

lemma positions_wf_symbols: "positions_wf ps \<Longrightarrow> map p_symbol (map snd ps) = map fst ps"
  by (auto simp: positions_wf_def)

lemma sortedPositions_unique:
  assumes "positions_wf ps" "mset ps = mset qs"
  shows "sortedPositions ps = sortedPositions qs"
proof -
  have "distinct (map p_symbol (map snd ps))"
    unfolding positions_wf_symbols [OF assms(1)] using assms(1) by (simp add: positions_wf_def)
  then have "inj_on p_symbol (set (map snd ps))" by (simp only: distinct_map)
  moreover have "mset (map snd ps) = mset (sortedPositions qs)"
    using assms(2) by (metis mset_map sortedPositions_mset)
  moreover have "sorted (map p_symbol (sortedPositions qs))" by (simp add: sortedPositions_def)
  ultimately show ?thesis
    unfolding sortedPositions_def [of ps] by (intro sort_key_inj_key_eq)
qed

section \<open>Loading what was saved\<close>

lemma load_fold:
  "map_of (foldl (\<lambda>m p. AList.update (p_symbol p) p m) m0 ps) k =
     (case map_of (rev (map (\<lambda>p. (p_symbol p, p)) ps)) k of Some p \<Rightarrow> Some p | None \<Rightarrow> map_of m0 k)"
  by (induction ps arbitrary: m0) (auto simp: map_add_def split: option.splits)

lemma load_sorted:
  assumes "positions_wf ps"
  shows "map_of (foldl (\<lambda>m p. AList.update (p_symbol p) p m) [] (sortedPositions ps)) = map_of ps"
proof
  fix k
  have d: "distinct (map p_symbol (sortedPositions ps))"
  proof -
    have "mset (map p_symbol (sortedPositions ps)) = mset (map fst ps)"
      using positions_wf_symbols [OF assms] by (metis mset_map sortedPositions_mset)
    then show ?thesis using assms mset_eq_imp_distinct_iff unfolding positions_wf_def by blast
  qed
  let ?L = "map (\<lambda>p. (p_symbol p, p)) (sortedPositions ps)"
  have "set ?L = (\<lambda>x. (p_symbol (snd x), snd x)) ` set ps"
    by (simp add: sortedPositions_def image_image)
  also have "\<dots> = (\<lambda>x. x) ` set ps"
    by (rule image_cong) (use assms in \<open>simp_all add: positions_wf_def\<close>)
  finally have s: "set (rev ?L) = set ps" by simp
  have "distinct (map fst (rev ?L))" using d by (simp add: rev_map [symmetric] comp_def)
  moreover have "distinct (map fst ps)" using assms by (simp add: positions_wf_def)
  ultimately have "map_of (rev ?L) = map_of ps" using s by (simp only: map_of_inject_set)
  then show "map_of (foldl (\<lambda>m p. AList.update (p_symbol p) p m) [] (sortedPositions ps)) k = map_of ps k"
    by (simp add: load_fold split: option.split)
qed

section \<open>Pricing one quote at a time\<close>

lemma quote_map_single: "quote_map [q] k = (if k = q_symbol q then Some q else None)"
  by (simp add: quote_map_def)

lemma reprice_other: "q_symbol q \<notin> set ks \<Longrightarrow> reprice [q] ks (ps, a, b) = (ps, a, b)"
  by (induction ks) (auto simp: quote_map_single split: option.split)

lemma reprice_single:
  "distinct ks \<Longrightarrow> q_symbol q \<in> set ks \<Longrightarrow>
   reprice [q] ks (ps, a, b) =
     (case map_of ps (q_symbol q) of
        Some p \<Rightarrow> (AList.update (q_symbol q) (priced q p) ps, fadd a (unrealized_pnl (priced q p)), fadd b (market_value (priced q p)))
      | None \<Rightarrow> (ps, a, b))"
proof (induction ks)
  case (Cons k ks)
  then show ?case
    by (cases "k = q_symbol q") (auto simp: quote_map_single reprice_other split: option.split)
qed simp

text \<open>The loop of the engine: the prices of a batch are written one quote after the other.\<close>

definition price_each :: "time \<Rightarrow> (string list \<times> quote) list \<Rightarrow> 'r state_store \<Rightarrow> 'r state_store" where
  "price_each now vqs s = foldl (\<lambda>s (visit, q). UpdatePositionPrices now visit [q] s) s vqs"

definition visits :: "'r state_store \<Rightarrow> string list \<Rightarrow> bool" where
  "visits s ks \<longleftrightarrow> distinct ks \<and> set ks = fst ` set (st_positions s)"

lemma reprice_keys: "fst ` set (fst (reprice qs ks (ps, a, b))) = fst ` set ps"
proof (induction ks arbitrary: ps a b)
  case (Cons k ks)
  have "k \<in> fst ` set ps" if "map_of ps k = Some p" for p
    using map_of_SomeD [OF that] by force
  then show ?case using Cons by (auto simp: dom_update split: option.split)
qed simp

lemma price_one_keys: "visits (UpdatePositionPrices now visit qs s) ks = visits s ks"
  using reprice_keys [of qs visit "st_positions s" "Fin 0" "Fin 0"]
  by (cases "reprice qs visit (st_positions s, Fin 0, Fin 0)") (simp add: visits_def UpdatePositionPrices_def)

lemma price_each_keys: "visits (price_each now vqs s) ks = visits s ks"
  by (induction vqs arbitrary: s) (auto simp: price_each_def price_one_keys split: prod.split)

lemma price_one_totals:
  assumes "visits s visit"
  shows "pf_unrealized_pnl (st_portfolio (UpdatePositionPrices now visit [q] s)) =
      (case GetPosition (q_symbol q) s of Some p \<Rightarrow> fadd (Fin 0) (unrealized_pnl (priced q p)) | None \<Rightarrow> Fin 0)"
    and "pf_total_exposure (st_portfolio (UpdatePositionPrices now visit [q] s)) =
      (case GetPosition (q_symbol q) s of Some p \<Rightarrow> fadd (Fin 0) (market_value (priced q p)) | None \<Rightarrow> Fin 0)"
proof -
  have "q_symbol q \<notin> set visit \<Longrightarrow> GetPosition (q_symbol q) s = None"
    using assms by (auto simp: visits_def GetPosition_def map_of_eq_None_iff)
  then show "pf_unrealized_pnl (st_portfolio (UpdatePositionPrices now visit [q] s)) =
      (case GetPosition (q_symbol q) s of Some p \<Rightarrow> fadd (Fin 0) (unrealized_pnl (priced q p)) | None \<Rightarrow> Fin 0)"
    "pf_total_exposure (st_portfolio (UpdatePositionPrices now visit [q] s)) =
      (case GetPosition (q_symbol q) s of Some p \<Rightarrow> fadd (Fin 0) (market_value (priced q p)) | None \<Rightarrow> Fin 0)"
    using assms
    by (cases "q_symbol q \<in> set visit";
        simp add: UpdatePositionPrices_def reprice_single reprice_other visits_def GetPosition_def split: option.split)+
qed

section \<open>Properties\<close>

text \<open>
  C27 (roundtrip).  A successful \<open>Save\<close> of a well-formed store followed by \<open>Load\<close> into any store
  succeeds and restores the portfolio, the position of every symbol and the regime; the event
  list and the recommendations are those of the loading store.
\<close>

theorem save_load_roundtrip:
  assumes "store_wf s" "Save io s d = (None, d')"
  shows "fst (Load d' t) = None \<and>
    st_portfolio (snd (Load d' t)) = st_portfolio s \<and>
    (\<forall>k. GetPosition k (snd (Load d' t)) = GetPosition k s) \<and>
    st_regime (snd (Load d' t)) = st_regime s \<and>
    st_events (snd (Load d' t)) = st_events t \<and> st_recommendations (snd (Load d' t)) = st_recommendations t"
proof -
  have "d' = d\<lparr>portfolio_file := Content [Decodes (st_portfolio s)],
      positions_file := Content [Decodes (sortedPositions (st_positions s))],
      regime_file := Content [Decodes (st_regime s)]\<rparr>"
    using assms(2) by (auto simp: Save_def Let_def split: if_splits)
  then show ?thesis
    using load_sorted [of "st_positions s"] assms(1)
    by (simp add: Load_def LoadLastPortfolioState_def LoadLastPositions_def LoadLastRegime_def
        readLastJSONLLine_def Let_def GetPosition_def store_wf_def)
qed

definition demo_position :: "string \<Rightarrow> position" where
  "demo_position k = \<lparr>p_symbol = k, p_quantity = 1000, average_cost = Fin 100, current_price = Fin 100,
     market_value = Fin 100000, unrealized_pnl = Fin 0, entry_date = 0\<rparr>"

definition demo_store :: "unit state_store" where
  "demo_store = UpdatePosition (demo_position ''B'') (UpdatePosition (demo_position ''A'') (NewStateStore 0))"

definition empty_dir :: state_dir where
  "empty_dir = \<lparr>portfolio_file = Missing, positions_file = Missing, regime_file = Missing\<rparr>"

lemma demo_store_wf: "store_wf demo_store"
  unfolding demo_store_def
  using store_apply_wf [of _ "OpUpdatePosition _"] by (simp add: store_wf_def NewStateStore_def positions_wf_def UpdatePosition_def demo_position_def)

theorem save_load_roundtrip_witness:
  "GetPosition ''A'' (snd (Load (snd (Save \<lparr>mkdir_ok = True, write_portfolio_ok = True, write_positions_ok = True,
     write_regime_ok = True\<rparr> demo_store empty_dir)) (NewStateStore 7))) = Some (demo_position ''A'')"
proof -
  obtain d' where d: "Save \<lparr>mkdir_ok = True, write_portfolio_ok = True, write_positions_ok = True,
     write_regime_ok = True\<rparr> demo_store empty_dir = (None, d')"
    by (simp add: Save_def demo_store_def NewStateStore_def UpdatePosition_def portfolio_marshals_def marshals_f64_def
        position_marshals_def sortedPositions_def demo_position_def Let_def list_all_iff)
  have "GetPosition ''A'' (snd (Load d' (NewStateStore 7))) = GetPosition ''A'' demo_store"
    using save_load_roundtrip [OF demo_store_wf d, of "NewStateStore 7"] by blast
  also have "\<dots> = Some (demo_position ''A'')"
    by (simp add: demo_store_def GetPosition_def UpdatePosition_def NewStateStore_def demo_position_def)
  finally show ?thesis unfolding d snd_conv .
qed

text \<open>
  The saved positions and the state snapshot do not depend on the order in which
  the position map is enumerated: from any two enumerations of a well-formed map the same
  list is produced, sorted by symbol, with every position exactly once.
\<close>

theorem positions_canonical:
  assumes "positions_wf ps" "mset ps = mset qs"
  shows "sortedPositions ps = sortedPositions qs \<and> sorted (map p_symbol (sortedPositions ps)) \<and>
    mset (sortedPositions ps) = mset (map snd ps)"
proof (intro conjI)
  show "sortedPositions ps = sortedPositions qs" by (rule sortedPositions_unique [OF assms])
  show "sorted (map p_symbol (sortedPositions ps))" by (simp add: sortedPositions_def)
  show "mset (sortedPositions ps) = mset (map snd ps)" by (rule sortedPositions_mset)
qed

theorem positions_canonical_witness:
  "sortedPositions [(''B'', demo_position ''B''), (''A'', demo_position ''A'')] =
   sortedPositions [(''A'', demo_position ''A''), (''B'', demo_position ''B'')]"
  using positions_canonical [of "[(''B'', demo_position ''B''), (''A'', demo_position ''A'')]"
      "[(''A'', demo_position ''A''), (''B'', demo_position ''B'')]"]
  by (simp add: positions_wf_def demo_position_def add_mset_commute)

text \<open>
  \<open>Load\<close> means to tolerate missing files, but it does not: the error that says
  a file is missing is wrapped, \<open>os.IsNotExist\<close> is false of it, and without a portfolio file \<open>Load\<close>
  fails and loads nothing, even when the positions file is there.
\<close>

lemma load_fails_on_missing_file:
  "portfolio_file d = Missing \<longrightarrow> Load d s = (Some (LoadPortfolio WrappedNotExist), s)"
  by (simp add: Load_def LoadLastPortfolioState_def readLastJSONLLine_def os_IsNotExist_def)

text \<open>
  After a batch of quotes is written one quote at a time, as the engine does, the
  portfolio's unrealized profit and exposure are those of the position of the last quote
  alone, and zero if the last quote is of a symbol that is not held, whatever the other positions
  have lost.
\<close>

theorem totals_forget_all_but_last:
  assumes "\<forall>(visit, q) \<in> set (vqs @ [(visit', q')]). visits s visit"
  shows "(case GetPosition (q_symbol q') (price_each now vqs s) of
       None \<Rightarrow> pf_unrealized_pnl (st_portfolio (price_each now (vqs @ [(visit', q')]) s)) = Fin 0 \<and>
               pf_total_exposure (st_portfolio (price_each now (vqs @ [(visit', q')]) s)) = Fin 0
     | Some p \<Rightarrow>
         pf_unrealized_pnl (st_portfolio (price_each now (vqs @ [(visit', q')]) s)) = fadd (Fin 0) (unrealized_pnl (priced q' p)) \<and>
         pf_total_exposure (st_portfolio (price_each now (vqs @ [(visit', q')]) s)) = fadd (Fin 0) (market_value (priced q' p)))"
proof -
  have v: "visits (price_each now vqs s) visit'" using assms by (auto simp: price_each_keys)
  have last: "price_each now (vqs @ [(visit', q')]) s = UpdatePositionPrices now visit' [q'] (price_each now vqs s)"
    by (simp add: price_each_def)
  show ?thesis unfolding last using price_one_totals [OF v] by (simp split: option.split)
qed

text \<open>Two positions fall by half; the last quote is of a symbol that is not held.\<close>

definition demo_quote :: "string \<Rightarrow> quote" where
  "demo_quote k = \<lparr>q_symbol = k, q_last = Fin 50, q_open = Fin 50, q_high = Fin 50, q_low = Fin 50, q_volume = 0,
     q_market = [], q_as_of = 0, q_tradable = True, q_source = [], q_complete = None, q_trading_day = None\<rparr>"

lemma demo_quote_symbol: "q_symbol (demo_quote k) = k"
  by (simp add: demo_quote_def)

theorem totals_forget_all_but_last_witness:
  "pf_unrealized_pnl (st_portfolio (price_each 0
     [([''A'', ''B''], demo_quote ''A''), ([''B'', ''A''], demo_quote ''B''), ([''A'', ''B''], demo_quote ''C'')] demo_store)) = Fin 0"
proof -
  let ?vqs = "[([''A'', ''B''], demo_quote ''A''), ([''B'', ''A''], demo_quote ''B'')]"
  have v: "visits demo_store [''A'', ''B'']" "visits demo_store [''B'', ''A'']"
    by (auto simp: visits_def demo_store_def UpdatePosition_def NewStateStore_def demo_position_def)
  then have "visits (price_each 0 ?vqs demo_store) [''A'', ''B'']" by (simp add: price_each_keys)
  then have G: "GetPosition (q_symbol (demo_quote ''C'')) (price_each 0 ?vqs demo_store) = None"
  proof -
    assume "visits (price_each 0 ?vqs demo_store) [''A'', ''B'']"
    then have "set [''A'', ''B''] = fst ` set (st_positions (price_each 0 ?vqs demo_store))"
      unfolding visits_def by blast
    then have "''C'' \<notin> fst ` set (st_positions (price_each 0 ?vqs demo_store))" 
      by (rule subst [where P = "\<lambda>S. ''C'' \<notin> S"]) simp
    then show ?thesis unfolding GetPosition_def demo_quote_symbol map_of_eq_None_iff .
  qed
  have A: "\<forall>(visit, q) \<in> set (?vqs @ [([''A'', ''B''], demo_quote ''C'')]). visits demo_store visit"
    using v by simp
  from totals_forget_all_but_last [OF A, of 0, unfolded G option.case, THEN conjunct1]
  show ?thesis unfolding append.simps .
qed

end
