(* ===== verification/Live_Agents.thy ===== *)
theory Live_Agents
  imports Live_Store
begin

text \<open>
  The agent runner of the live engine, \<open>internal/live/agent_runner.go\<close>: applying an execution
  input, inferring the regime, collecting recommendations, and the control filters.

  The plugin registry dispatches to pluggable code; it is the record \<open>plugins\<close> of its four
  functions (with the prompt resolution inside them), and everything here holds for any.
\<close>

definition LayerContext :: string where "LayerContext = ''context''"
definition LayerSector :: string where "LayerSector = ''sector''"
definition LayerStyle :: string where "LayerStyle = ''style''"
definition LayerSuperinvestor :: string where "LayerSuperinvestor = ''superinvestor''"
definition LayerControl :: string where "LayerControl = ''control''"

record agent_spec =
  ag_id :: string
  ag_layer :: string
  ag_enabled :: bool
  ag_universe :: "string list"

record 'r plugins =
  pl_score :: "agent_spec \<Rightarrow> (string \<times> quote) list \<Rightarrow> int"
  pl_screen :: "agent_spec \<Rightarrow> string \<Rightarrow> (string \<times> quote) list \<Rightarrow> live_error + bool"
  pl_recommend :: "agent_spec \<Rightarrow> quote \<Rightarrow> string \<Rightarrow> 'r option"
  pl_control :: "agent_spec \<Rightarrow> 'r list \<Rightarrow> string \<Rightarrow> 'r list"

record 'r execution_input =
  ei_regime :: string
  ei_raw :: "'r list"
  ei_final :: "'r list"
  ei_determined_by :: string

definition ApplyExecutionInput :: "time \<Rightarrow> 'r execution_input \<Rightarrow> 'r state_store \<Rightarrow> live_event list \<times> 'r state_store" where
  "ApplyExecutionInput now inp s =
     (let s1 = SetCurrentRegime now (ei_regime inp) s;
          s2 = (if ei_raw inp \<noteq> [] then SetPendingRecommendations (ei_raw inp) s1 else s1);
          s3 = (if ei_final inp \<noteq> [] then SetFilteredRecommendations (ei_final inp) s2 else s2)
      in ([mk_event now EventSystemStart
             (MapP [(''regime'', TextV (ei_regime inp)), (''raw_count'', IntV (int (length (ei_raw inp)))),
                    (''final_count'', IntV (int (length (ei_final inp)))), (''determined_by'', TextV (ei_determined_by inp)),
                    (''type'', TextV ''execution_input_applied'')]) 0], s3))"

text \<open>The quotes as a map; the last quote of a symbol wins.\<close>

definition quotes_by_symbol :: "quote list \<Rightarrow> (string \<times> quote) list" where
  "quotes_by_symbol qs = foldl (\<lambda>m q. AList.update (q_symbol q) q m) [] qs"

definition inferRegime :: "'r plugins \<Rightarrow> agent_spec list \<Rightarrow> (string \<times> quote) list \<Rightarrow> string" where
  "inferRegime pl agents quotes =
     (let score = foldl (\<lambda>acc a. if \<not> ag_enabled a \<or> ag_layer a \<noteq> LayerContext then acc
                                 else wrap64 (acc + pl_score pl a quotes)) 0 agents
      in if score > 0 then RegimeRiskOn else if score < 0 then RegimeRiskOff else RegimeNeutral)"

definition default_watchlist :: "string list" where
  "default_watchlist = [''0050.TW'', ''0056.TW'', ''2330.TW'', ''2317.TW'', ''2454.TW'']"

text \<open>\<open>get_quotes\<close> is the market data provider.\<close>

definition RunContextAgent ::
  "(string list \<Rightarrow> live_error + quote list) \<Rightarrow> ('r plugins \<times> agent_spec list) option \<Rightarrow> time \<Rightarrow> string list \<Rightarrow>
   'r state_store \<Rightarrow> live_error option \<times> live_event list \<times> 'r state_store" where
  "RunContextAgent get_quotes system now watchlist s =
     (case system of None \<Rightarrow> (Some (External ''system not initialized''), [], s)
      | Some (pl, agents) \<Rightarrow>
         (let wl = (if watchlist = [] then default_watchlist else watchlist)
          in case get_quotes wl of
               Inl e \<Rightarrow> (Some e, [], s)
             | Inr qs \<Rightarrow>
                 (let regime = inferRegime pl agents (quotes_by_symbol qs)
                  in (None, [mk_event now EventSystemStart (MapP [(''regime'', TextV regime), (''type'', TextV ''regime_inference'')]) 0],
                      SetCurrentRegime now regime s))))"

text \<open>What one agent recommends for one symbol.\<close>

definition recommend_for ::
  "'r plugins \<Rightarrow> (string \<times> quote) list \<Rightarrow> string \<Rightarrow> agent_spec \<Rightarrow> string \<Rightarrow> 'r option" where
  "recommend_for pl quotes regime a symbol =
     (case map_of quotes symbol of None \<Rightarrow> None
      | Some q \<Rightarrow> if \<not> q_tradable q then None
          else (case pl_screen pl a symbol quotes of
                  Inr True \<Rightarrow> pl_recommend pl a q regime
                | _ \<Rightarrow> None))"

definition recommends :: "agent_spec \<Rightarrow> bool" where
  "recommends a \<longleftrightarrow> ag_enabled a \<and>
     (ag_layer a = LayerSector \<or> ag_layer a = LayerStyle \<or> ag_layer a = LayerSuperinvestor)"

definition RunStyleAndSectorAgents ::
  "(string list \<Rightarrow> live_error + quote list) \<Rightarrow> ('r plugins \<times> agent_spec list) option \<Rightarrow> time \<Rightarrow> string list \<Rightarrow>
   'r state_store \<Rightarrow> live_error option \<times> live_event list \<times> 'r state_store" where
  "RunStyleAndSectorAgents get_quotes system now watchlist s =
     (case system of None \<Rightarrow> (Some (External ''system not initialized''), [], s)
      | Some (pl, agents) \<Rightarrow>
         if watchlist = [] then (None, [], s)
         else (case get_quotes watchlist of
            Inl e \<Rightarrow> (Some e, [], s)
          | Inr qs \<Rightarrow>
              (let quotes = quotes_by_symbol qs;
                   recs = concat (map (\<lambda>a.
                     if \<not> recommends a then []
                     else List.map_filter (recommend_for pl quotes (rg_current (st_regime s)) a)
                            (if ag_universe a = [] then watchlist else ag_universe a)) agents);
                   s' = (if recs \<noteq> [] then SetPendingRecommendations recs s else s)
               in (None, [mk_event now EventSystemStart (MapP [(''recommendation_count'', IntV (int (length recs))), (''type'', TextV ''agent_recommendations'')]) 0], s'))))"

definition ApplyRiskFilters ::
  "('r plugins \<times> agent_spec list) option \<Rightarrow> time \<Rightarrow> 'r state_store \<Rightarrow> live_error option \<times> live_event list \<times> 'r state_store" where
  "ApplyRiskFilters system now s =
     (case system of None \<Rightarrow> (Some (External ''system not initialized''), [], s)
      | Some (pl, agents) \<Rightarrow>
         if st_recommendations s = [] then (None, [], s)
         else (let recs = st_recommendations s;
                   filtered = foldl (\<lambda>rs a. if \<not> ag_enabled a \<or> ag_layer a \<noteq> LayerControl then rs
                                            else pl_control pl a rs (rg_current (st_regime s))) recs agents;
                   blocked = int (length recs) - int (length filtered)
               in (None,
                   (if blocked > 0
                    then [mk_event now EventRiskAlert
                            (MapP [(''blocked_count'', IntV blocked), (''passed_count'', IntV (int (length filtered))),
                                   (''type'', TextV ''risk_filter'')]) 0] else []),
                   SetFilteredRecommendations filtered s)))"

section \<open>Lemmas\<close>

text \<open>None of the operations touches the portfolio or the positions.\<close>

lemma agents_frame [frame_simps]:
  "st_portfolio (snd (ApplyExecutionInput now inp s)) = st_portfolio s"
  "st_positions (snd (ApplyExecutionInput now inp s)) = st_positions s"
  by (simp_all add: ApplyExecutionInput_def Let_def SetCurrentRegime_def SetPendingRecommendations_def
      SetFilteredRecommendations_def)

text \<open>Recommendations come only from agents of the three layers, for tradable quoted symbols that pass the screen.\<close>

lemma recommend_for_Some:
  "recommend_for pl quotes regime a symbol = Some r \<longleftrightarrow>
     (\<exists>q. map_of quotes symbol = Some q \<and> q_tradable q \<and> pl_screen pl a symbol quotes = Inr True \<and>
          pl_recommend pl a q regime = Some r)"
  by (auto simp: recommend_for_def split: option.splits sum.splits bool.splits)

lemma set_map_filter_iff: "r \<in> set (List.map_filter f xs) \<longleftrightarrow> (\<exists>x\<in>set xs. f x = Some r)"
  by (force simp: List.map_filter_def)

text \<open>
  Whenever collecting recommendations changes the pending list, every new entry
  comes from an enabled sector, style or superinvestor agent, for a symbol of that agent's
  universe (the watchlist if it has none) that has a tradable quote and passed the agent's screen.
\<close>

theorem recommendations_justified:
  assumes "RunStyleAndSectorAgents get_quotes (Some (pl, agents)) now watchlist s = (err, evs, s')"
    and "st_recommendations s' \<noteq> st_recommendations s" "r \<in> set (st_recommendations s')"
  shows "\<exists>a symbol q qs. a \<in> set agents \<and> recommends a \<and> get_quotes watchlist = Inr qs \<and>
     symbol \<in> set (if ag_universe a = [] then watchlist else ag_universe a) \<and>
     map_of (quotes_by_symbol qs) symbol = Some q \<and> q_tradable q \<and>
     pl_screen pl a symbol (quotes_by_symbol qs) = Inr True \<and>
     pl_recommend pl a q (rg_current (st_regime s)) = Some r"
proof -
  obtain qs where qs: "get_quotes watchlist = Inr qs" "watchlist \<noteq> []"
    using assms(1,2) by (auto simp: RunStyleAndSectorAgents_def split: if_splits sum.splits)
  let ?f = "\<lambda>a. if \<not> recommends a then []
     else List.map_filter (recommend_for pl (quotes_by_symbol qs) (rg_current (st_regime s)) a)
            (if ag_universe a = [] then watchlist else ag_universe a)"
  have "st_recommendations s' = concat (map ?f agents)"
    using assms(1,2) qs by (auto simp: RunStyleAndSectorAgents_def Let_def SetPendingRecommendations_def split: if_splits)
  then obtain a where "a \<in> set agents" "r \<in> set (?f a)" using assms(3) by auto
  then show ?thesis using qs(1) by (auto simp: set_map_filter_iff recommend_for_Some split: if_splits)
qed

text \<open>One style agent recommends the symbols it is shown.\<close>

definition demo_plugins :: "string plugins" where
  "demo_plugins = \<lparr>pl_score = \<lambda>_ _. 0, pl_screen = \<lambda>_ _ _. Inr True, pl_recommend = \<lambda>_ q _. Some (q_symbol q),
     pl_control = \<lambda>_ rs _. rs\<rparr>"

definition demo_agent :: agent_spec where
  "demo_agent = \<lparr>ag_id = ''a'', ag_layer = LayerStyle, ag_enabled = True, ag_universe = []\<rparr>"

theorem recommendations_justified_witness:
  "\<exists>a q. recommends a \<and> q_tradable q \<and> pl_recommend demo_plugins a q RegimeNeutral = Some ''2330''"
proof -
  obtain err evs s' where r: "RunStyleAndSectorAgents (\<lambda>_. Inr [demo_quote ''2330'']) (Some (demo_plugins, [demo_agent])) 0
     [''2330''] (NewStateStore 0) = (err, evs, s')" by (metis prod.exhaust)
  have recs: "st_recommendations s' = [''2330'']"
    using r by (auto simp: RunStyleAndSectorAgents_def Let_def recommends_def demo_agent_def demo_plugins_def
        recommend_for_def List.map_filter_def quotes_by_symbol_def demo_quote_def SetPendingRecommendations_def)
  have "st_recommendations s' \<noteq> st_recommendations (NewStateStore 0 :: string state_store)" "''2330'' \<in> set (st_recommendations s')"
    by (simp_all add: recs NewStateStore_def)
  from recommendations_justified [OF r this] show ?thesis by (auto simp: NewStateStore_def)
qed

end
