(* ===== verification/Live_Scheduler.thy ===== *)
theory Live_Scheduler
  imports Atlas_Prelude
begin

text \<open>
  The market-hours scheduler, \<open>internal/live/scheduler.go\<close>: the loop that opens and closes the
  trading day, and the goroutines it starts.

  The location of the clock is a fixed offset \<open>off\<close> from UTC (Taipei has no daylight saving
  time).  One iteration of \<open>marketTimeScheduler\<close> is \<open>sched_step\<close>: the callbacks it makes, in
  order, and the next state.  The intraday and quote goroutines call their callback once per
  tick of their ticker; a cycle is enabled exactly while the intraday ticker exists.
\<close>

section \<open>Opening and closing time\<close>

abbreviation one_day :: duration where "one_day \<equiv> 86400000000000"

definition is_digit :: "char \<Rightarrow> bool" where
  "is_digit c \<longleftrightarrow> 48 \<le> (of_char c :: nat) \<and> (of_char c :: nat) \<le> 57"

definition digit_value :: "char \<Rightarrow> int" where
  "digit_value c = int (of_char c :: nat) - 48"

text \<open>\<open>getnum\<close> of package \<open>time\<close>: one or two digits, exactly two if \<open>fixed\<close>.\<close>

fun getnum :: "bool \<Rightarrow> string \<Rightarrow> (int \<times> string) option" where
  "getnum fixed [] = None"
| "getnum fixed [c] = (if is_digit c \<and> \<not> fixed then Some (digit_value c, []) else None)"
| "getnum fixed (c # d # r) =
     (if \<not> is_digit c then None
      else if is_digit d then Some (digit_value c * 10 + digit_value d, r)
      else if fixed then None else Some (digit_value c, d # r))"

text \<open>\<open>time.Parse("15:04", s)\<close> with the error ignored: a bad string is midnight.\<close>

definition parse_hhmm :: "string \<Rightarrow> int \<times> int" where
  "parse_hhmm s = (case getnum False s of
     Some (h, c # r) \<Rightarrow>
       (if 24 \<le> h \<or> c \<noteq> CHR '':'' then (0, 0)
        else (case getnum True r of Some (m, []) \<Rightarrow> if m < 60 then (h, m) else (0, 0) | _ \<Rightarrow> (0, 0)))
   | _ \<Rightarrow> (0, 0))"

definition at_clock :: "duration \<Rightarrow> time \<Rightarrow> int \<times> int \<Rightarrow> time" where
  "at_clock off now hm = now - (now + off) mod one_day + fst hm * hour + snd hm * minute"

record sched_config =
  MarketOpenTime :: string
  MarketCloseTime :: string
  ForceIntradayCycles :: bool

definition todayOpen :: "duration \<Rightarrow> sched_config \<Rightarrow> time \<Rightarrow> time" where
  "todayOpen off cfg now = at_clock off now (parse_hhmm (MarketOpenTime cfg))"

definition todayClose :: "duration \<Rightarrow> sched_config \<Rightarrow> time \<Rightarrow> time" where
  "todayClose off cfg now = at_clock off now (parse_hhmm (MarketCloseTime cfg))"

definition inMarketHours :: "duration \<Rightarrow> sched_config \<Rightarrow> time \<Rightarrow> bool" where
  "inMarketHours off cfg now \<longleftrightarrow> now > todayOpen off cfg now \<and> now < todayClose off cfg now"

section \<open>The loop\<close>

datatype callback = CallOpen | CallClose

record scheduler =
  intradayTicker :: bool
  processors :: nat

definition NewScheduler :: scheduler where
  "NewScheduler = \<lparr>intradayTicker = False, processors = 0\<rparr>"

definition sched_open :: "duration \<Rightarrow> sched_config \<Rightarrow> time \<Rightarrow> scheduler \<Rightarrow> callback list \<times> scheduler" where
  "sched_open off cfg now s =
     (if (inMarketHours off cfg now \<or> ForceIntradayCycles cfg) \<and> \<not> intradayTicker s
      then ([CallOpen], s\<lparr>intradayTicker := True, processors := processors s + 1\<rparr>) else ([], s))"

definition sched_close :: "duration \<Rightarrow> sched_config \<Rightarrow> time \<Rightarrow> scheduler \<Rightarrow> callback list \<times> scheduler" where
  "sched_close off cfg now s =
     (if \<not> ForceIntradayCycles cfg \<and> now > todayClose off cfg now \<and> intradayTicker s
      then ([CallClose], s\<lparr>intradayTicker := False\<rparr>) else ([], s))"

definition sched_step :: "duration \<Rightarrow> sched_config \<Rightarrow> time \<Rightarrow> scheduler \<Rightarrow> callback list \<times> scheduler" where
  "sched_step off cfg now s =
     (let (c1, s1) = sched_open off cfg now s; (c2, s2) = sched_close off cfg now s1 in (c1 @ c2, s2))"

text \<open>The callbacks of a run, each with the time it was made at.\<close>

fun sched_run :: "duration \<Rightarrow> sched_config \<Rightarrow> time list \<Rightarrow> scheduler \<Rightarrow> (time \<times> callback) list \<times> scheduler" where
  "sched_run off cfg [] s = ([], s)"
| "sched_run off cfg (t # ts) s =
     (let (cs, s') = sched_step off cfg t s; (rest, s'') = sched_run off cfg ts s'
      in (map (Pair t) cs @ rest, s''))"

section \<open>Days\<close>

fun alternating :: "bool \<Rightarrow> callback list \<Rightarrow> bool" where
  "alternating opened [] = True"
| "alternating opened (CallOpen # cs) = (\<not> opened \<and> alternating True cs)"
| "alternating opened (CallClose # cs) = (opened \<and> alternating False cs)"

lemma sched_step_cases:
  assumes "\<not> ForceIntradayCycles cfg"
  shows "sched_step off cfg t s =
    (if intradayTicker s then
       (if t > todayClose off cfg t then ([CallClose], s\<lparr>intradayTicker := False\<rparr>) else ([], s))
     else if inMarketHours off cfg t then ([CallOpen], s\<lparr>intradayTicker := True, processors := processors s + 1\<rparr>)
     else ([], s))"
  using assms by (auto simp: sched_step_def sched_open_def sched_close_def inMarketHours_def)

lemma sched_run_Cons:
  "fst (sched_run off cfg (t # ts) s) =
     map (Pair t) (fst (sched_step off cfg t s)) @ fst (sched_run off cfg ts (snd (sched_step off cfg t s)))"
  "snd (sched_run off cfg (t # ts) s) = snd (sched_run off cfg ts (snd (sched_step off cfg t s)))"
  by (simp_all add: Let_def split: prod.split)

lemma run_alternates:
  assumes "\<not> ForceIntradayCycles cfg"
  shows "alternating (intradayTicker s) (map snd (fst (sched_run off cfg ts s)))"
proof (induction ts arbitrary: s)
  case (Cons t ts)
  show ?case using Cons [of "snd (sched_step off cfg t s)"]
    by (cases "intradayTicker s"; cases "t > todayClose off cfg t"; cases "inMarketHours off cfg t")
      (simp_all only: sched_run_Cons sched_step_cases [OF assms], simp_all)
qed simp

lemma run_in_hours:
  assumes "\<not> ForceIntradayCycles cfg"
  shows "(t, CallOpen) \<in> set (fst (sched_run off cfg ts s)) \<longrightarrow> inMarketHours off cfg t"
    and "(t, CallClose) \<in> set (fst (sched_run off cfg ts s)) \<longrightarrow> t > todayClose off cfg t"
proof (induction ts arbitrary: s)
  case (Cons u ts)
  {
    case 1
    then show ?case using Cons(1) [of "snd (sched_step off cfg u s)"]
      by (simp only: sched_run_Cons) (auto simp: sched_step_cases [OF assms] split: if_splits)
  next
    case 2
    then show ?case using Cons(2) [of "snd (sched_step off cfg u s)"]
      by (simp only: sched_run_Cons) (auto simp: sched_step_cases [OF assms] split: if_splits)
  }
qed simp_all

definition opens_in :: "(time \<times> callback) list \<Rightarrow> nat" where
  "opens_in cs = length (filter (\<lambda>c. snd c = CallOpen) cs)"

lemma sched_step_parts:
  "sched_step off cfg t s =
     (fst (sched_open off cfg t s) @ fst (sched_close off cfg t (snd (sched_open off cfg t s))),
      snd (sched_close off cfg t (snd (sched_open off cfg t s))))"
  by (simp add: sched_step_def split: prod.split)

lemma opens_in_append: "opens_in (a @ b) = opens_in a + opens_in b"
  by (simp add: opens_in_def)

lemma run_processors:
  "processors (snd (sched_run off cfg ts s)) = processors s + opens_in (fst (sched_run off cfg ts s))"
proof (induction ts arbitrary: s)
  case (Cons t ts)
  have o: "processors (snd (sched_open off cfg t s)) = processors s + opens_in (map (Pair t) (fst (sched_open off cfg t s)))" for s
    by (simp add: sched_open_def opens_in_def)
  have c: "processors (snd (sched_close off cfg t s)) = processors s + opens_in (map (Pair t) (fst (sched_close off cfg t s)))" for s
    by (simp add: sched_close_def opens_in_def)
  have "processors (snd (sched_step off cfg t s)) = processors s + opens_in (map (Pair t) (fst (sched_step off cfg t s)))"
    by (simp only: sched_step_parts fst_conv snd_conv map_append opens_in_append c o add.assoc)
  then show ?case
    unfolding sched_run_Cons opens_in_append Cons [of "snd (sched_step off cfg t s)"] by linarith
qed (simp add: opens_in_def)

text \<open>The market hours repeat every day, whatever the day.\<close>

lemma hours_every_day: "inMarketHours off cfg (now + int k * one_day) = inMarketHours off cfg now"
proof -
  have "(now + int k * one_day + off) mod one_day = ((now + off) + int k * one_day) mod one_day"
    by (rule arg_cong [where f = "\<lambda>x. x mod one_day"]) simp
  also have "\<dots> = (now + off) mod one_day" by (rule mod_mult_self1)
  finally have "(now + int k * one_day + off) mod one_day = (now + off) mod one_day" .
  then show ?thesis by (simp add: inMarketHours_def todayOpen_def todayClose_def at_clock_def)
qed

section \<open>Properties\<close>

text \<open>
  Without forced cycles, for every sequence of clock readings the scheduler calls
  the opening and closing handlers strictly in turn, beginning with an opening; every opening
  falls strictly inside the market hours of its day and every closing after them.  It keeps
  starting one intraday goroutine per opening and never ends one before the shutdown.
\<close>

theorem market_days_alternate:
  assumes "\<not> ForceIntradayCycles cfg"
  shows "alternating False (map snd (fst (sched_run off cfg ts NewScheduler))) \<and>
    (\<forall>t. (t, CallOpen) \<in> set (fst (sched_run off cfg ts NewScheduler)) \<longrightarrow> inMarketHours off cfg t) \<and>
    (\<forall>t. (t, CallClose) \<in> set (fst (sched_run off cfg ts NewScheduler)) \<longrightarrow> t > todayClose off cfg t) \<and>
    processors (snd (sched_run off cfg ts NewScheduler)) = opens_in (fst (sched_run off cfg ts NewScheduler))"
  using run_alternates [OF assms, of NewScheduler] run_in_hours [OF assms] run_processors [of off cfg ts NewScheduler]
  by (simp add: NewScheduler_def)

definition default_hours :: sched_config where
  "default_hours = \<lparr>MarketOpenTime = ''09:00'', MarketCloseTime = ''13:30'', ForceIntradayCycles = False\<rparr>"

lemma default_parse: "parse_hhmm ''09:00'' = (9, 0)" "parse_hhmm ''13:30'' = (13, 30)"
  by (simp_all add: parse_hhmm_def is_digit_def digit_value_def)

text \<open>Two days in UTC+8: before the market, in it twice, after it, and the same on the next day.\<close>

definition demo_clock :: "time list" where
  "demo_clock = [8 * hour, 9 * hour + 1, 10 * hour, 14 * hour, 33 * hour + 1, 38 * hour]"

lemma demo_run:
  "sched_run 0 default_hours demo_clock NewScheduler =
     ([(9 * hour + 1, CallOpen), (14 * hour, CallClose), (33 * hour + 1, CallOpen), (38 * hour, CallClose)],
      \<lparr>intradayTicker = False, processors = 2\<rparr>)"
  by (simp add: demo_clock_def sched_step_def sched_open_def sched_close_def inMarketHours_def todayOpen_def
      todayClose_def at_clock_def default_hours_def default_parse NewScheduler_def)

theorem market_days_alternate_witness:
  "alternating False [CallOpen, CallClose, CallOpen, CallClose] \<and> inMarketHours 0 default_hours (33 * hour + 1)"
  using market_days_alternate [of default_hours 0 demo_clock]
  by (simp add: demo_run) (simp add: default_hours_def)

text \<open>
  The market hours do not look at the calendar: a scheduler without an intraday
  ticker opens the market at a time of day inside the hours on every day, weekends and
  holidays included, and a process started (or restarted) inside the hours opens the market
  again at its first iteration.
\<close>

lemma opens_on_any_day:
  "inMarketHours off cfg now \<longrightarrow>
     (\<forall>k. fst (sched_step off cfg (now + int k * one_day) NewScheduler) = [CallOpen])"
proof (intro impI allI)
  fix k
  assume "inMarketHours off cfg now"
  then have h: "inMarketHours off cfg (now + int k * one_day)" by (simp only: hours_every_day)
  then have "\<not> now + int k * one_day > todayClose off cfg (now + int k * one_day)" by (simp add: inMarketHours_def)
  then show "fst (sched_step off cfg (now + int k * one_day) NewScheduler) = [CallOpen]"
    using h by (simp add: sched_step_parts sched_open_def sched_close_def NewScheduler_def)
qed

end
