(* ===== verification/Live_Engine.thy ===== *)
theory Live_Engine
  imports Live_BrokerMode Live_Orders Live_Agents Live_Scheduler
begin

text \<open>
  The execution manager (\<open>internal/live/execution.go\<close>) and the live orchestrator
  (\<open>internal/live/orchestrator.go\<close>): what the parts of the engine share, the handlers of the
  trading day, the risk triggers, the order path and the configuration setters.

  Pointers.  The orchestrator, the scheduler and the execution manager each hold a pointer to a
  circuit breaker, and after \<open>SetCircuitBreaker\<close> not to the same one: the breakers are a
  list, the pointers are indices into it.  A broker is named by the constructor calls that
  built it (\<open>broker_choice\<close>); \<open>submit_of\<close> gives its behaviour.

  Events are returned in the order they are handed to the bus.  The handler the orchestrator
  subscribes to market snapshots runs later on the bus goroutine and is an operation of its
  own, \<open>on_snapshot\<close>.  Log lines and metrics are not modelled.
\<close>

section \<open>The execution manager\<close>

record exec_manager =
  em_broker :: "broker_choice option"
  em_order_mgr :: "(broker_choice \<times> order_manager) option"
  em_retries :: int

definition NewExecutionManager :: "broker_choice option \<Rightarrow> int \<Rightarrow> exec_manager" where
  "NewExecutionManager broker retries = \<lparr>em_broker = broker, em_order_mgr = None, em_retries = retries\<rparr>"

text \<open>The order manager is built once, with the broker of that moment and without a risk gate.\<close>

definition ensure_order_mgr :: "exec_manager \<Rightarrow> exec_manager" where
  "ensure_order_mgr em =
     (case em_order_mgr em of
        Some _ \<Rightarrow> em
      | None \<Rightarrow>
          (let b = (case em_broker em of Some b \<Rightarrow> b | None \<Rightarrow> DryRun)
           in em\<lparr>em_broker := Some b,
                 em_order_mgr := Some (b, NewOrderManager (max (em_retries em) 0) (100 * millisecond))\<rparr>))"

text \<open>\<open>SimulateExecution\<close> fills the broker even when the order manager exists.\<close>

definition SimulateExecution :: "exec_manager \<Rightarrow> exec_manager" where
  "SimulateExecution em =
     ensure_order_mgr (case em_broker em of None \<Rightarrow> em\<lparr>em_broker := Some DryRun\<rparr> | Some _ \<Rightarrow> em)"

definition ExecuteOrder ::
  "(broker_choice \<Rightarrow> 's submit) \<Rightarrow> run_env \<Rightarrow> circuit_breaker option \<Rightarrow> order \<Rightarrow> exec_manager \<Rightarrow> 's \<Rightarrow>
   live_error option \<times> live_event list \<times> exec_manager \<times> 's" where
  "ExecuteOrder submit_of env cb ord em s =
     (case cb of
        None \<Rightarrow> (Some BreakerNotInitialized, [], em, s)
      | Some c \<Rightarrow>
          if \<not> cb_can_place (o_side ord) c
          then (Some (CircuitBlocks (o_side ord) (o_symbol ord) (cb_state c)), [], em, s)
          else
            (let em1 = ensure_order_mgr em
             in case em_order_mgr em1 of
                  None \<Rightarrow> (Some NilDereference, [], em1, s)
                | Some (b, m) \<Rightarrow>
                    (case Run (submit_of b) env m ord None s of
                       (err, evs, _, s') \<Rightarrow> (map_option ExecuteViaManager err, evs, em1, s'))))"

section \<open>The engine\<close>

record live_config =
  lc_broker :: broker_config
  lc_max_daily_loss :: f64
  lc_max_position_loss :: f64
  lc_var_threshold :: f64
  lc_stop_loss :: bool
  lc_take_profit :: bool

record 'r engine =
  store :: "'r state_store"
  breakers :: "circuit_breaker list"
  o_breaker :: nat
  s_breaker :: nat
  e_breaker :: nat
  gate :: risk_gate
  o_broker :: broker_choice
  o_order_mgr :: "broker_choice \<times> order_manager"
  exec_mgr :: exec_manager
  config :: live_config
  watchlist :: "string list"
  requested_broker_mode :: string
  effective_broker_mode :: string
  audit_msg :: audit_message
  is_running :: bool

definition new_order_mgr :: "broker_choice \<Rightarrow> live_config \<Rightarrow> broker_choice \<times> order_manager" where
  "new_order_mgr b cfg = (b, NewOrderManager (max (BrokerMaxRetries (lc_broker cfg)) 0) (100 * millisecond))"

definition NewOrchestrator ::
  "(string \<Rightarrow> string option) \<Rightarrow> (string \<Rightarrow> string option) \<Rightarrow> time \<Rightarrow> string \<Rightarrow> 'r state_store \<Rightarrow> live_config \<Rightarrow> 'r engine" where
  "NewOrchestrator parse_url ping now date s cfg =
     (let (requested, effective, broker, audit) = resolveBrokerMode parse_url ping (lc_broker cfg)
      in \<lparr>store = s, breakers = [NewCircuitBreaker now [] None], o_breaker = 0, s_breaker = 0, e_breaker = 0,
          gate = NewRiskGate (fdiv (lc_max_daily_loss cfg) (Fin 100)) (fdiv (lc_var_threshold cfg) (Fin 100)) date,
          o_broker = broker, o_order_mgr = new_order_mgr broker cfg,
          exec_mgr = NewExecutionManager (Some broker) (BrokerMaxRetries (lc_broker cfg)),
          config = cfg, watchlist = [], requested_broker_mode = requested, effective_broker_mode = effective,
          audit_msg = audit, is_running = False\<rparr>)"

text \<open>The breaker the orchestrator itself points to.\<close>

definition cb_of :: "'r engine \<Rightarrow> circuit_breaker" where
  "cb_of e = breakers e ! o_breaker e"

definition update_cb :: "(circuit_breaker \<Rightarrow> circuit_breaker) \<Rightarrow> 'r engine \<Rightarrow> 'r engine" where
  "update_cb f e = e\<lparr>breakers := (breakers e)[o_breaker e := f (cb_of e)]\<rparr>"

section \<open>Setters\<close>

definition SetCircuitBreaker :: "circuit_breaker \<Rightarrow> 'r engine \<Rightarrow> 'r engine" where
  "SetCircuitBreaker cb e =
     (let n = length (breakers e) in e\<lparr>breakers := breakers e @ [cb], o_breaker := n, s_breaker := n\<rparr>)"

fun broker_mode_name :: "broker_choice \<Rightarrow> string" where
  "broker_mode_name DryRun = dryrun_mode"
| "broker_mode_name (Guarded _) = guarded_mode"

definition SetBroker :: "broker_choice option \<Rightarrow> 'r engine \<Rightarrow> 'r engine" where
  "SetBroker broker e =
     (case broker of
        None \<Rightarrow> e\<lparr>o_broker := DryRun, o_order_mgr := new_order_mgr DryRun (config e),
                  requested_broker_mode := ''dry-run'', effective_broker_mode := ''dry-run'', audit_msg := NoAudit\<rparr>
      | Some b \<Rightarrow> e\<lparr>o_broker := b, o_order_mgr := new_order_mgr b (config e),
                     requested_broker_mode := broker_mode_name b, effective_broker_mode := broker_mode_name b,
                     audit_msg := NoAudit, exec_mgr := (exec_mgr e)\<lparr>em_broker := Some b\<rparr>\<rparr>)"

definition SetWatchlist :: "string list \<Rightarrow> 'r engine \<Rightarrow> 'r engine" where
  "SetWatchlist symbols e = e\<lparr>watchlist := symbols\<rparr>"

section \<open>Quotes and risk triggers\<close>

definition position_pnl_pct :: "f64 \<Rightarrow> position \<Rightarrow> f64" where
  "position_pnl_pct price p = fmul (fdiv (fsub price (average_cost p)) (average_cost p)) (Fin 100)"

definition checkRiskTriggers :: "io_env \<Rightarrow> time \<Rightarrow> string \<Rightarrow> f64 \<Rightarrow> 'r engine \<Rightarrow> live_event list \<times> 'r engine" where
  "checkRiskTriggers io now symbol price e =
     (case GetPosition symbol (store e) of
        None \<Rightarrow> ([], e)
      | Some p \<Rightarrow>
          (let pct = position_pnl_pct price p;
               stop = (lc_stop_loss (config e) \<and> flt pct (fneg (lc_max_position_loss (config e))));
               take = (lc_take_profit (config e) \<and> flt (fmul (lc_max_position_loss (config e)) (Fin 2)) pct)
           in ((if stop then [PublishRiskEvent now EventStopLossTriggered symbol p ''stop_loss'' price] else []) @
               (if take then [PublishRiskEvent now EventTakeProfitTriggered symbol p ''take_profit'' price] else []),
               if stop then update_cb (RecordStopLoss io now) e else e)))"

definition risk_enabled :: "'r engine \<Rightarrow> bool" where
  "risk_enabled e \<longleftrightarrow> lc_stop_loss (config e) \<or> lc_take_profit (config e)"

text \<open>
  The handler of market snapshots: it writes the price and checks the triggers a second time.
  \<open>visit\<close> is the order in which the position map is ranged over.
\<close>

definition on_snapshot :: "io_env \<Rightarrow> time \<Rightarrow> string list \<Rightarrow> quote \<Rightarrow> 'r engine \<Rightarrow> live_event list \<times> 'r engine" where
  "on_snapshot io now visit q e =
     (let e1 = e\<lparr>store := UpdatePositionPrices now visit [q] (store e)\<rparr>;
          evs1 = (case GetPosition (q_symbol q) (store e1) of
                    Some p \<Rightarrow> [PublishPositionUpdate now (q_symbol q) p ''updated''] | None \<Rightarrow> []);
          (evs2, e2) = (if risk_enabled e1 then checkRiskTriggers io now (q_symbol q) (q_last q) e1 else ([], e1))
      in (evs1 @ evs2, e2))"

definition process_quote :: "io_env \<Rightarrow> time \<Rightarrow> string list \<Rightarrow> quote \<Rightarrow> 'r engine \<Rightarrow> live_event list \<times> 'r engine" where
  "process_quote io now visit q e =
     (let e1 = e\<lparr>store := UpdatePositionPrices now visit [q] (store e)\<rparr>;
          (evs, e2) = (if risk_enabled e1 then checkRiskTriggers io now (q_symbol q) (q_last q) e1 else ([], e1))
      in (evs @ [PublishMarketSnapshot now q], e2))"

text \<open>The loop over the fetched quotes, each with the order of its visit.\<close>

fun process_quotes :: "io_env \<Rightarrow> time \<Rightarrow> (string list \<times> quote) list \<Rightarrow> 'r engine \<Rightarrow> live_event list \<times> 'r engine" where
  "process_quotes io now [] e = ([], e)"
| "process_quotes io now ((visit, q) # qs) e =
     (let (evs, e1) = process_quote io now visit q e; (rest, e2) = process_quotes io now qs e1 in (evs @ rest, e2))"

text \<open>\<open>fetched\<close> is what the market data provider answers.\<close>

definition fetchAndProcessQuotes ::
  "io_env \<Rightarrow> time \<Rightarrow> live_error + (string list \<times> quote) list \<Rightarrow> 'r engine \<Rightarrow> live_event list \<times> 'r engine" where
  "fetchAndProcessQuotes io now fetched e =
     (if watchlist e = [] then ([], e)
      else (case fetched of
          Inl err \<Rightarrow> ([mk_event now EventSystemError (MapP [(''error'', ErrorV err)]) 0], e)
        | Inr qs \<Rightarrow> process_quotes io now qs e))"

section \<open>The handlers of the trading day\<close>

text \<open>
  \<open>applyExecutionInput\<close>: \<open>None\<close> without a provider, otherwise what the provider produces.  Its
  errors are only logged by the callers.
\<close>

type_synonym 'r produced = "(live_error + 'r execution_input) option"

definition applyExecutionInput :: "time \<Rightarrow> 'r produced \<Rightarrow> 'r engine \<Rightarrow> live_event list \<times> 'r engine" where
  "applyExecutionInput now input e =
     (case input of
        Some (Inr inp) \<Rightarrow>
          (let (evs, s) = ApplyExecutionInput now inp (store e) in (evs, e\<lparr>store := s\<rparr>))
      | _ \<Rightarrow> ([], e))"

definition onMarketOpen :: "io_env \<Rightarrow> time \<Rightarrow> 'r produced \<Rightarrow> 'r engine \<Rightarrow> live_event list \<times> 'r engine" where
  "onMarketOpen io now input e =
     (let s = store_ResetDayState (store e);
          v = fadd (pf_cash (st_portfolio s)) (pf_unrealized_pnl (st_portfolio s));
          e1 = update_cb (ResetDayState io now v) (e\<lparr>store := s\<rparr>);
          ev = mk_event now EventMarketOpen
                 (MapP [(''positions_count'', IntV (int (length (st_positions s)))), (''cash'', FloatV (pf_cash (st_portfolio s)))]) 0;
          (evs, e2) = applyExecutionInput now input e1
      in (ev # evs, e2))"

definition no_position :: position where
  "no_position = \<lparr>p_symbol = [], p_quantity = 0, average_cost = Fin 0, current_price = Fin 0, market_value = Fin 0,
     unrealized_pnl = Fin 0, entry_date = zero_time\<rparr>"

definition onIntradayCycle ::
  "io_env \<Rightarrow> time \<Rightarrow> live_error + (string list \<times> quote) list \<Rightarrow> 'r produced \<Rightarrow> 'r engine \<Rightarrow> live_event list \<times> 'r engine" where
  "onIntradayCycle io now fetched input e =
     (let (evs1, e1) = fetchAndProcessQuotes io now fetched e;
          p = st_portfolio (store e1);
          e2 = update_cb (Evaluate io now (pf_cash p) (pf_unrealized_pnl p) (pf_day_pnl p)) e1;
          st = cb_state (cb_of e2);
          e3 = e2\<lparr>gate := the (SyncRiskGateFromCircuitBreaker (Some (gate e2)) (Some st) None)\<rparr>
      in if st = CircuitHalted then (evs1, e3)
         else
           (let pct = fmul (fdiv (pf_day_pnl p) (pf_cash p)) (Fin 100);
                alert = (if flt (Fin 0) (lc_max_daily_loss (config e3)) \<and> flt pct (fneg (lc_max_daily_loss (config e3)))
                         then [PublishRiskEvent now EventRiskAlert [] no_position ''max_daily_loss'' (Fin 0)] else []);
                (evs2, e4) = applyExecutionInput now input e3
            in (evs1 @ alert @ evs2, e4\<lparr>exec_mgr := SimulateExecution (exec_mgr e4)\<rparr>)))"

text \<open>The closing handler saves the store and publishes the totals; \<open>d\<close> is the state directory.\<close>

definition onMarketClose ::
  "io_env \<Rightarrow> save_io \<Rightarrow> time \<Rightarrow> live_error + (string list \<times> quote) list \<Rightarrow> 'r engine \<times> state_dir \<Rightarrow>
   live_event list \<times> ('r engine \<times> state_dir)" where
  "onMarketClose io sio now fetched ed =
     (let (evs, e1) = fetchAndProcessQuotes io now fetched (fst ed);
          p = st_portfolio (store e1);
          d1 = snd (Save sio (store e1) (snd ed));
          ev = mk_event now EventMarketClose
                 (MapP [(''day_pnl'', FloatV (pf_day_pnl p)), (''unrealized_pnl'', FloatV (pf_unrealized_pnl p)),
                        (''total_exposure'', FloatV (pf_total_exposure p))]) 0
      in (evs @ [ev], (e1, d1)))"

section \<open>Orders, start and stop\<close>

text \<open>\<open>executeOrder\<close> and \<open>ExecuteOrder\<close> of the orchestrator, whose execution manager is never nil.\<close>

definition executeOrder ::
  "(broker_choice \<Rightarrow> 's submit) \<Rightarrow> run_env \<Rightarrow> order \<Rightarrow> 'r engine \<Rightarrow> 's \<Rightarrow> live_error option \<times> live_event list \<times> 'r engine \<times> 's" where
  "executeOrder submit_of env ord e s =
     (case ExecuteOrder submit_of env (Some (breakers e ! e_breaker e)) ord (exec_mgr e) s of
        (err, evs, em, s') \<Rightarrow> (err, evs, e\<lparr>exec_mgr := em\<rparr>, s'))"

text \<open>
  The payload of the start event, and the text of the audit message.  The nonce store error
  formatted into one message is not rendered, nor are the escapes of \<open>%q\<close>.
\<close>

definition start_payload :: "string \<Rightarrow> 'r engine \<Rightarrow> live_payload" where
  "start_payload provider_name e =
     (let c = lc_broker (config e)
      in MapP
       [(''market_data_provider'', TextV provider_name),
        (''watchlist_count'', IntV (int (length (watchlist e)))),
        (''broker_mode_requested'', TextV (requested_broker_mode e)),
        (''broker_mode_effective'', TextV (effective_broker_mode e)),
        (''broker_adapter'', TextV (BrokerAdapter c)),
        (''broker_signer'', TextV (BrokerSigner c)),
        (''broker_key_id'', TextV (BrokerKeyID c)),
        (''broker_http_attempts'', IntV (BrokerHTTPAttempts c)),
        (''broker_http_timeout_sec'', IntV (BrokerHTTPTimeoutS c)),
        (''broker_http_retry_status_codes'', IntsV (BrokerHTTPRetryStatusCodes c)),
        (''broker_max_clock_skew_sec'', IntV (BrokerMaxClockSkewS c)),
        (''broker_nonce_ttl_sec'', IntV (BrokerNonceTTLS c)),
        (''broker_nonce_store'', TextV (BrokerNonceStore c)),
        (''broker_nonce_store_path'', TextV (BrokerNonceStorePath c)),
        (''broker_nonce_redis_key_prefix'', TextV (BrokerNonceRedisKeyPrefix c)),
        (''broker_max_retries'', IntV (BrokerMaxRetries c)),
        (''fubon_dma_adapter'', BoolV (BrokerAdapter c = ''fubon-dma''))])"

fun audit_text :: "audit_message \<Rightarrow> string" where
  "audit_text NoAudit = []"
| "audit_text (AuditText t) = t"
| "audit_text (NonceStoreInvalid _) = ''live+http adapter requested but nonce store config invalid; fallback to guarded''"
| "audit_text (UnsupportedAdapter a) = ''unsupported broker adapter '' @ [CHR 0x22] @ a @ [CHR 0x22] @ '' for live mode; fallback to guarded''"
| "audit_text (UnsupportedMode m) = ''unsupported broker mode '' @ [CHR 0x22] @ m @ [CHR 0x22] @ ''; fallback to dry-run''"

definition Start :: "time \<Rightarrow> string \<Rightarrow> 'r engine \<Rightarrow> live_error option \<times> live_event list \<times> 'r engine" where
  "Start now provider_name e =
     (if is_running e then (Some (External ''orchestrator already running''), [], e)
      else (None,
            mk_event now EventSystemStart (start_payload provider_name e) 0 #
              (if audit_text (audit_msg e) \<noteq> []
               then [mk_event now EventSystemError (MapP [(''error'', TextV (audit_text (audit_msg e)))]) 0] else []),
            e\<lparr>is_running := True\<rparr>))"

definition Stop :: "save_io \<Rightarrow> 'r engine \<times> state_dir \<Rightarrow> store_error option \<times> ('r engine \<times> state_dir)" where
  "Stop sio ed =
     (if \<not> is_running (fst ed) then (None, ed)
      else (let (err, d) = Save sio (store (fst ed)) (snd ed) in (err, ((fst ed)\<lparr>is_running := False\<rparr>, d))))"

section \<open>Lemmas on the order path\<close>

text \<open>The broker the next order is sent to.\<close>

definition executed_broker :: "exec_manager \<Rightarrow> broker_choice" where
  "executed_broker em = (case em_order_mgr em of Some (b, _) \<Rightarrow> b
     | None \<Rightarrow> (case em_broker em of Some b \<Rightarrow> b | None \<Rightarrow> DryRun))"

lemma ensure_order_mgr_broker:
  "\<exists>m. em_order_mgr (ensure_order_mgr em) = Some (executed_broker em, m)"
  by (auto simp: ensure_order_mgr_def executed_broker_def Let_def split: option.splits)

lemma ensure_order_mgr_some: "em_order_mgr em = Some x \<Longrightarrow> ensure_order_mgr em = em"
  by (simp add: ensure_order_mgr_def)

lemma ExecuteOrder_blocked:
  "\<not> cb_can_place (o_side ord) c \<Longrightarrow>
   ExecuteOrder submit_of env (Some c) ord em s = (Some (CircuitBlocks (o_side ord) (o_symbol ord) (cb_state c)), [], em, s)"
  by (simp add: ExecuteOrder_def)

text \<open>The visible part of an execution: everything but the manager.\<close>

definition order_outcome :: "live_error option \<times> live_event list \<times> 'm \<times> 's \<Rightarrow> live_error option \<times> live_event list \<times> 's" where
  "order_outcome r = (case r of (err, evs, _, s') \<Rightarrow> (err, evs, s'))"

lemma ExecuteOrder_outcome_same_mgr:
  "em_order_mgr em \<noteq> None \<Longrightarrow> em_order_mgr em' = em_order_mgr em \<Longrightarrow>
   order_outcome (ExecuteOrder submit_of env cb ord em' s) = order_outcome (ExecuteOrder submit_of env cb ord em s)"
  by (auto simp: ExecuteOrder_def order_outcome_def Let_def ensure_order_mgr_some split: option.splits prod.splits)

lemma executeOrder_outcome:
  "order_outcome (executeOrder submit_of env ord e s) =
     order_outcome (ExecuteOrder submit_of env (Some (breakers e ! e_breaker e)) ord (exec_mgr e) s)"
  by (simp add: executeOrder_def order_outcome_def split: prod.split)

section \<open>Steps of the engine\<close>

text \<open>
  What happens to an engine in production: the handlers of the day, quote polls, snapshot
  handlers, orders, and the setters but \<open>SetCircuitBreaker\<close>, which only tests call.  An order
  changes the engine at most by creating the order manager of the execution manager.
\<close>

inductive eng_step :: "'r engine \<Rightarrow> 'r engine \<Rightarrow> bool" where
  step_open: "eng_step e (snd (onMarketOpen io now input e))"
| step_cycle: "eng_step e (snd (onIntradayCycle io now fetched input e))"
| step_close: "eng_step e (fst (snd (onMarketClose io sio now fetched (e, d))))"
| step_poll: "eng_step e (snd (fetchAndProcessQuotes io now fetched e))"
| step_snapshot: "eng_step e (snd (on_snapshot io now visit q e))"
| step_order: "eng_step e (e\<lparr>exec_mgr := ensure_order_mgr (exec_mgr e)\<rparr>)"
| step_broker: "eng_step e (SetBroker b e)"
| step_watch: "eng_step e (SetWatchlist ws e)"
| step_start: "eng_step e (snd (snd (Start now name e)))"
| step_stop: "eng_step e (fst (snd (Stop sio (e, d))))"

lemma executeOrder_step:
  "executeOrder submit_of env ord e s = (err, evs, e', s') \<Longrightarrow> e' = e \<or> eng_step e e'"
  using step_order [of e] by (auto simp: executeOrder_def ExecuteOrder_def Let_def split: prod.splits option.splits if_splits)

section \<open>No halt\<close>

text \<open>No rule fires on a day profit of zero.\<close>

lemma day_pnl_pct_zero [simp]: "day_pnl_pct (Fin 0) ds = Fin 0"
  by (cases ds) (auto simp: day_pnl_pct_def)

lemma no_breach_at_zero: "\<not> daily_breach (Fin 0) r"
  by (cases "daily_loss_pct r") (auto simp: daily_breach_def)

lemma Evaluate_zero_state:
  assumes "cb_state cb \<noteq> CircuitHalted"
  shows "cb_state (Evaluate io now cash u (Fin 0) cb) \<noteq> CircuitHalted"
  using assms by (auto simp: Evaluate_def Let_def evaluate_rules_no_breach no_breach_at_zero frame_simps)

lemma stop_loss_rules_unhalted:
  "cb_state cb \<noteq> CircuitHalted \<Longrightarrow> cb_state (stop_loss_rules io now rs cb) \<noteq> CircuitHalted"
  by (induction rs) (auto simp: frame_simps)

lemma RecordStopLoss_state: "cb_state cb \<noteq> CircuitHalted \<Longrightarrow> cb_state (RecordStopLoss io now cb) \<noteq> CircuitHalted"
  by (simp add: RecordStopLoss_def Let_def stop_loss_rules_unhalted)

definition unhalted :: "'r engine \<Rightarrow> bool" where
  "unhalted e \<longleftrightarrow> o_breaker e < length (breakers e) \<and> pf_day_pnl (st_portfolio (store e)) = Fin 0 \<and>
     cb_state (cb_of e) \<noteq> CircuitHalted"

lemma update_cb_simps [simp]:
  "store (update_cb f e) = store e" "o_breaker (update_cb f e) = o_breaker e"
  "length (breakers (update_cb f e)) = length (breakers e)" "config (update_cb f e) = config e"
  "gate (update_cb f e) = gate e" "exec_mgr (update_cb f e) = exec_mgr e"
  "o_breaker e < length (breakers e) \<Longrightarrow> cb_of (update_cb f e) = f (cb_of e)"
  by (simp_all add: update_cb_def cb_of_def)

lemma cb_of_frame [simp]:
  "cb_of (e\<lparr>store := s\<rparr>) = cb_of e" "cb_of (e\<lparr>gate := g\<rparr>) = cb_of e" "cb_of (e\<lparr>exec_mgr := m\<rparr>) = cb_of e"
  by (simp_all add: cb_of_def)

lemma UpdatePositionPrices_day_pnl [simp]:
  "pf_day_pnl (st_portfolio (UpdatePositionPrices now visit qs s)) = pf_day_pnl (st_portfolio s)"
  by (simp add: UpdatePositionPrices_def split: prod.split)

lemma unhalted_prices: "unhalted e \<Longrightarrow> unhalted (e\<lparr>store := UpdatePositionPrices now visit qs (store e)\<rparr>)"
  by (simp add: unhalted_def)

lemma unhalted_triggers: "unhalted e \<Longrightarrow> unhalted (snd (checkRiskTriggers io now symbol price e))"
  by (auto simp: unhalted_def checkRiskTriggers_def Let_def RecordStopLoss_state split: option.split)

text \<open>The next engine of each operation, without its events.\<close>

lemma process_quote_snd:
  "snd (process_quote io now visit q e) =
     (let e1 = e\<lparr>store := UpdatePositionPrices now visit [q] (store e)\<rparr>
      in if risk_enabled e1 then snd (checkRiskTriggers io now (q_symbol q) (q_last q) e1) else e1)"
  by (simp add: process_quote_def Let_def split: prod.split)

lemma on_snapshot_snd: "snd (on_snapshot io now visit q e) = snd (process_quote io now visit q e)"
  by (simp add: on_snapshot_def process_quote_def Let_def split: prod.split)

lemma process_quotes_Cons_snd:
  "snd (process_quotes io now ((visit, q) # qs) e) = snd (process_quotes io now qs (snd (process_quote io now visit q e)))"
  by (simp add: Let_def split: prod.split)

lemma applyExecutionInput_snd:
  "snd (applyExecutionInput now input e) =
     (case input of Some (Inr inp) \<Rightarrow> e\<lparr>store := snd (ApplyExecutionInput now inp (store e))\<rparr> | _ \<Rightarrow> e)"
  by (auto simp: applyExecutionInput_def split: option.split sum.split prod.split)

definition evaluated :: "io_env \<Rightarrow> time \<Rightarrow> 'r engine \<Rightarrow> 'r engine" where
  "evaluated io now e =
     (let p = st_portfolio (store e);
          e2 = update_cb (Evaluate io now (pf_cash p) (pf_unrealized_pnl p) (pf_day_pnl p)) e
      in e2\<lparr>gate := SyncHaltFromCircuitState (cb_state (cb_of e2)) (gate e2)\<rparr>)"

lemma onIntradayCycle_snd:
  "snd (onIntradayCycle io now fetched input e) =
     (let e3 = evaluated io now (snd (fetchAndProcessQuotes io now fetched e))
      in if cb_state (cb_of e3) = CircuitHalted then e3
         else (let e4 = snd (applyExecutionInput now input e3) in e4\<lparr>exec_mgr := SimulateExecution (exec_mgr e4)\<rparr>))"
  by (simp add: onIntradayCycle_def evaluated_def Let_def SyncRiskGateFromCircuitBreaker_def split: prod.split)

definition opened :: "io_env \<Rightarrow> time \<Rightarrow> 'r engine \<Rightarrow> 'r engine" where
  "opened io now e =
     (let s = store_ResetDayState (store e)
      in update_cb (ResetDayState io now (fadd (pf_cash (st_portfolio s)) (pf_unrealized_pnl (st_portfolio s)))) (e\<lparr>store := s\<rparr>))"

lemma onMarketOpen_snd: "snd (onMarketOpen io now input e) = snd (applyExecutionInput now input (opened io now e))"
  by (simp add: onMarketOpen_def opened_def Let_def split: prod.split)

lemma onMarketClose_snd: "fst (snd (onMarketClose io sio now fetched (e, d))) = snd (fetchAndProcessQuotes io now fetched e)"
  by (simp add: onMarketClose_def Let_def split: prod.split)

lemma Stop_engine: "fst (snd (Stop sio (e, d))) = e\<lparr>is_running := is_running (fst (snd (Stop sio (e, d))))\<rparr>"
  by (simp add: Stop_def split: prod.split)

lemma unhalted_process_quote: "unhalted e \<Longrightarrow> unhalted (snd (process_quote io now visit q e))"
  by (simp add: process_quote_snd Let_def unhalted_prices unhalted_triggers)

lemma unhalted_process_quotes: "unhalted e \<Longrightarrow> unhalted (snd (process_quotes io now qs e))"
proof (induction qs arbitrary: e)
  case (Cons vq qs)
  then show ?case
    by (cases vq) (simp only: process_quotes_Cons_snd unhalted_process_quote)
qed simp

lemma unhalted_fetch: "unhalted e \<Longrightarrow> unhalted (snd (fetchAndProcessQuotes io now fetched e))"
  by (auto simp: fetchAndProcessQuotes_def unhalted_process_quotes split: sum.split)

lemma unhalted_input: "unhalted e \<Longrightarrow> unhalted (snd (applyExecutionInput now input e))"
  by (auto simp: applyExecutionInput_snd unhalted_def frame_simps split: option.split sum.split)

lemma unhalted_frame:
  "unhalted (e\<lparr>gate := g\<rparr>) = unhalted e" "unhalted (e\<lparr>exec_mgr := m\<rparr>) = unhalted e"
  by (simp_all add: unhalted_def)

lemma unhalted_evaluated: "unhalted e \<Longrightarrow> unhalted (evaluated io now e)"
  by (simp add: unhalted_def evaluated_def Let_def Evaluate_zero_state)

lemma unhalted_opened: "o_breaker e < length (breakers e) \<Longrightarrow> unhalted (opened io now e)"
  by (simp add: unhalted_def opened_def Let_def store_ResetDayState_def ResetDayState_def frame_simps)

lemma eng_step_unhalted: "eng_step e e' \<Longrightarrow> unhalted e \<Longrightarrow> unhalted e'"
proof (induction rule: eng_step.induct)
  case (step_open e io now input)
  then show ?case unfolding onMarketOpen_snd by (intro unhalted_input unhalted_opened) (simp add: unhalted_def)
next
  case (step_cycle e io now fetched input)
  then have "unhalted (evaluated io now (snd (fetchAndProcessQuotes io now fetched e)))"
    by (intro unhalted_evaluated unhalted_fetch)
  then show ?case unfolding onIntradayCycle_snd Let_def
    by (simp add: unhalted_frame unhalted_input)
next
  case (step_stop e sio d)
  then show ?case by (subst Stop_engine) (simp add: unhalted_def cb_of_def)
next
  case (step_broker e b)
  then show ?case by (simp add: SetBroker_def unhalted_def cb_of_def split: option.split)
next
  case (step_watch e ws)
  then show ?case by (simp add: SetWatchlist_def unhalted_def cb_of_def)
next
  case (step_start e now name)
  then show ?case by (simp add: Start_def unhalted_def cb_of_def)
qed (simp_all add: onMarketClose_snd on_snapshot_snd unhalted_fetch unhalted_process_quote unhalted_frame)

lemma eng_reach_unhalted: "eng_step\<^sup>*\<^sup>* e e' \<Longrightarrow> unhalted e \<Longrightarrow> unhalted e'"
  by (induction rule: rtranclp_induct) (auto dest: eng_step_unhalted)

lemma NewOrchestrator_unhalted: "pf_day_pnl (st_portfolio s) = Fin 0 \<Longrightarrow> unhalted (NewOrchestrator pu pg now date s cfg)"
  by (simp add: NewOrchestrator_def unhalted_def cb_of_def NewCircuitBreaker_def loadState_def Let_def split: prod.split)

section \<open>Counting stop losses\<close>

lemma stop_loss_rules_count: "consecutive_sl (stop_loss_rules io now rs cb) = consecutive_sl cb"
  by (induction rs) (auto simp: frame_simps)

lemma RecordStopLoss_count:
  "consecutive_sl (RecordStopLoss io now cb) = wrap64 (consecutive_sl cb + 1)"
  by (simp add: RecordStopLoss_def Let_def stop_loss_rules_count)

text \<open>A held position whose average cost puts the price beyond the stop.\<close>

definition stopped :: "f64 \<Rightarrow> string \<Rightarrow> 'r engine \<Rightarrow> bool" where
  "stopped price symbol e \<longleftrightarrow>
     (\<exists>p. GetPosition symbol (store e) = Some p \<and>
        flt (position_pnl_pct price p) (fneg (lc_max_position_loss (config e))))"

lemma UpdatePositionPrices_position:
  "visits s visit \<Longrightarrow>
   GetPosition (q_symbol q) (UpdatePositionPrices now visit [q] s) = map_option (priced q) (GetPosition (q_symbol q) s)"
proof (cases "q_symbol q \<in> set visit")
  case True
  assume "visits s visit"
  then show ?thesis using True
    by (auto simp: UpdatePositionPrices_def GetPosition_def reprice_single visits_def split: option.splits)
next
  case False
  assume "visits s visit"
  then have "map_of (st_positions s) (q_symbol q) = None"
    using False by (simp add: visits_def map_of_eq_None_iff)
  then show ?thesis using False by (simp add: UpdatePositionPrices_def GetPosition_def reprice_other)
qed

lemma process_quote_stop:
  assumes "lc_stop_loss (config e)" "o_breaker e < length (breakers e)" "visits (store e) visit"
    "stopped (q_last q) (q_symbol q) e"
  shows "consecutive_sl (cb_of (snd (process_quote io now visit q e))) = wrap64 (consecutive_sl (cb_of e) + 1) \<and>
    config (snd (process_quote io now visit q e)) = config e \<and>
    o_breaker (snd (process_quote io now visit q e)) = o_breaker e \<and>
    length (breakers (snd (process_quote io now visit q e))) = length (breakers e) \<and>
    (\<forall>v. visits (store (snd (process_quote io now visit q e))) v = visits (store e) v) \<and>
    stopped (q_last q) (q_symbol q) (snd (process_quote io now visit q e))"
proof -
  obtain p where p: "GetPosition (q_symbol q) (store e) = Some p"
    "flt (position_pnl_pct (q_last q) p) (fneg (lc_max_position_loss (config e)))"
    using assms(4) by (auto simp: stopped_def)
  have same: "position_pnl_pct (q_last q) (priced q p) = position_pnl_pct (q_last q) p"
    by (simp add: position_pnl_pct_def priced_def)
  have new: "snd (process_quote io now visit q e) =
      update_cb (RecordStopLoss io now) (e\<lparr>store := UpdatePositionPrices now visit [q] (store e)\<rparr>)"
    using assms(1) p same
    by (simp add: process_quote_snd Let_def risk_enabled_def checkRiskTriggers_def UpdatePositionPrices_position [OF assms(3)])
  show ?thesis
    unfolding new using assms(2) p same
    by (simp add: RecordStopLoss_count stopped_def UpdatePositionPrices_position [OF assms(3)] price_one_keys)
qed

section \<open>Properties\<close>

text \<open>
  In no reachable state of an engine created with a day profit of zero (the state of a
  new store) is its circuit breaker halted: nothing in the engine computes the day profit, so it
  stays zero and the daily-loss rule, the only way to the halted state, never fires, whatever
  the positions lose.
\<close>

theorem engine_never_halts:
  assumes "eng_step\<^sup>*\<^sup>* (NewOrchestrator pu pg now date s cfg) e" "pf_day_pnl (st_portfolio s) = Fin 0"
  shows "cb_state (cb_of e) \<noteq> CircuitHalted \<and> pf_day_pnl (st_portfolio (store e)) = Fin 0"
  using eng_reach_unhalted [OF assms(1) NewOrchestrator_unhalted [OF assms(2)]] by (simp add: unhalted_def)

definition demo_config :: live_config where
  "demo_config = \<lparr>lc_broker = default_broker_config, lc_max_daily_loss = Fin 2, lc_max_position_loss = Fin 5,
     lc_var_threshold = Fin 5, lc_stop_loss = True, lc_take_profit = False\<rparr>"

definition demo_engine :: "unit engine" where
  "demo_engine = NewOrchestrator (\<lambda>_. None) (\<lambda>_. None) 0 ''d'' demo_store demo_config"

lemma demo_store_day_pnl: "pf_day_pnl (st_portfolio demo_store) = Fin 0"
  by (simp add: demo_store_def NewStateStore_def UpdatePosition_def)

text \<open>The portfolio halves and a cycle runs: the breaker is not halted.\<close>

theorem engine_never_halts_witness:
  "cb_state (cb_of (snd (onIntradayCycle \<lparr>append_ok = True, persist_ok = True\<rparr> 5
     (Inr [([''A'', ''B''], demo_quote ''A''), ([''A'', ''B''], demo_quote ''B'')]) None
     (SetWatchlist [''A'', ''B''] demo_engine)))) \<noteq> CircuitHalted"
proof -
  have "eng_step\<^sup>*\<^sup>* demo_engine (SetWatchlist [''A'', ''B''] demo_engine)" using step_watch by blast
  then have "eng_step\<^sup>*\<^sup>* demo_engine (snd (onIntradayCycle \<lparr>append_ok = True, persist_ok = True\<rparr> 5
     (Inr [([''A'', ''B''], demo_quote ''A''), ([''A'', ''B''], demo_quote ''B'')]) None
     (SetWatchlist [''A'', ''B''] demo_engine)))"
    by (rule rtranclp.rtrancl_into_rtrancl) (rule step_cycle)
  then show ?thesis
    unfolding demo_engine_def using engine_never_halts [OF _ demo_store_day_pnl] by blast
qed

text \<open>
  After every intraday cycle the risk gate is halted exactly if the breaker of the
  orchestrator is halted or paused.
\<close>

lemma gate_mirrors_breaker:
  "halt_trading (gate (snd (onIntradayCycle io now fetched input e))) =
     (cb_state (cb_of (snd (onIntradayCycle io now fetched input e))) = CircuitHalted \<or>
      cb_state (cb_of (snd (onIntradayCycle io now fetched input e))) = CircuitPaused)"
proof -
  have ev: "halt_trading (gate (evaluated io now e')) =
      (cb_state (cb_of (evaluated io now e')) = CircuitHalted \<or> cb_state (cb_of (evaluated io now e')) = CircuitPaused)" for e' :: "'a engine"
    by (simp add: evaluated_def Let_def SyncHaltFromCircuitState_def)
  have inp: "gate (snd (applyExecutionInput now input e')) = gate e'" "cb_of (snd (applyExecutionInput now input e')) = cb_of e'" for e' :: "'a engine"
    by (auto simp: applyExecutionInput_snd split: option.split sum.split)
  show ?thesis using ev by (simp add: onIntradayCycle_snd Let_def inp)
qed

text \<open>
  C2 (safety).  An order reaches a broker only if the execution manager's breaker can place it:
  under a halted breaker nothing happens at all, and under any restricted state only sell
  orders get through.
\<close>

theorem restricted_orders_blocked:
  assumes "order_outcome (ExecuteOrder submit_of env (Some c) ord em s) = (err, evs, s')" "evs \<noteq> [] \<or> s' \<noteq> s"
  shows "cb_can_place (o_side ord) c \<and> cb_state c \<noteq> CircuitHalted \<and> (cb_state c \<noteq> CircuitNormal \<longrightarrow> o_side ord = SideSell)"
proof -
  have can: "cb_can_place (o_side ord) c"
  proof (rule ccontr)
    assume "\<not> cb_can_place (o_side ord) c"
    then show False using assms by (auto simp: ExecuteOrder_blocked order_outcome_def)
  qed
  then show ?thesis using live_cb.restricted_sells_only live_cb.halted_blocks by blast
qed

definition tick_broker :: "nat submit" where
  "tick_broker ord s = ((empty_result, Some (TransportFailed ''down'')), Suc s)"

theorem restricted_orders_blocked_witness:
  "cb_can_place SideBuy (NewCircuitBreaker 0 [] None)"
proof -
  let ?em = "NewExecutionManager (Some DryRun) 0"
  let ?c = "NewCircuitBreaker 0 [] None"
  obtain err evs em' s' where r: "ExecuteOrder (\<lambda>_. tick_broker) default_env (Some ?c) demo_order ?em 0 = (err, evs, em', s')"
    by (metis prod.exhaust)
  have can: "cb_can_place (o_side demo_order) ?c"
    by (simp add: cb_can_place_def NewCircuitBreaker_def loadState_def Let_def)
  have "s' = 1"
    using r can by (simp add: ExecuteOrder_def ensure_order_mgr_def NewExecutionManager_def Run_def Let_def
        NewOrderManager_def wrap64_def checkRiskGate_def tick_broker_def split: prod.splits)
  then show ?thesis
    using restricted_orders_blocked [of "\<lambda>_. tick_broker" default_env ?c demo_order ?em 0 err evs s'] r
    by (simp add: demo_order_def order_outcome_def)
qed

text \<open>
  The order path does not follow the engine's controls.  Its outcome (error, events and
  effect on the broker) does not depend on the risk gate; it does not change when another
  circuit breaker, halted or not, is set; \<open>SetBroker(nil)\<close> reports dry-run mode but leaves the
  order path on the broker it had; and once the order manager exists, so does every \<open>SetBroker\<close>.
\<close>

theorem order_path_is_pinned:
  assumes "e_breaker e < length (breakers e)"
  shows "order_outcome (executeOrder submit_of env ord (e\<lparr>gate := g\<rparr>) s) = order_outcome (executeOrder submit_of env ord e s) \<and>
    order_outcome (executeOrder submit_of env ord (SetCircuitBreaker cb e) s) = order_outcome (executeOrder submit_of env ord e s) \<and>
    cb_of (SetCircuitBreaker cb e) = cb \<and>
    order_outcome (executeOrder submit_of env ord (SetBroker None e) s) = order_outcome (executeOrder submit_of env ord e s) \<and>
    effective_broker_mode (SetBroker None e) = ''dry-run'' \<and>
    (em_order_mgr (exec_mgr e) \<noteq> None \<longrightarrow>
      order_outcome (executeOrder submit_of env ord (SetBroker (Some b) e) s) = order_outcome (executeOrder submit_of env ord e s))"
proof (intro conjI impI)
  show "order_outcome (executeOrder submit_of env ord (SetCircuitBreaker cb e) s) = order_outcome (executeOrder submit_of env ord e s)"
    using assms by (simp add: executeOrder_outcome SetCircuitBreaker_def Let_def nth_append)
  show "order_outcome (executeOrder submit_of env ord (SetBroker (Some b) e) s) = order_outcome (executeOrder submit_of env ord e s)"
    if "em_order_mgr (exec_mgr e) \<noteq> None"
  proof -
    have same: "breakers (SetBroker (Some b) e) = breakers e" "e_breaker (SetBroker (Some b) e) = e_breaker e"
      "em_order_mgr (exec_mgr (SetBroker (Some b) e)) = em_order_mgr (exec_mgr e)"
      by (simp_all add: SetBroker_def)
    show ?thesis unfolding executeOrder_outcome same(1,2)
      by (rule ExecuteOrder_outcome_same_mgr [OF that same(3)])
  qed
qed (simp_all add: executeOrder_outcome SetCircuitBreaker_def SetBroker_def cb_of_def Let_def)

theorem order_path_is_pinned_witness:
  "order_outcome (executeOrder (\<lambda>_. dryrun_submit) default_env demo_order
     (SetCircuitBreaker ((NewCircuitBreaker 0 [] None)\<lparr>cb_state := CircuitHalted\<rparr>) demo_engine) ()) =
   order_outcome (executeOrder (\<lambda>_. dryrun_submit) default_env demo_order demo_engine ())"
proof -
  have "e_breaker demo_engine < length (breakers demo_engine)"
    by (simp add: demo_engine_def NewOrchestrator_def split: prod.split)
  then show ?thesis by (rule order_path_is_pinned [THEN conjunct2, THEN conjunct1])
qed

text \<open>
  A halt does not survive a restart inside the market hours: at its first iteration
  the scheduler of the new process calls the opening handler, and the opening handler puts the
  breaker, which had restored the halted state from its file, back to normal.
\<close>

theorem restart_clears_halt:
  assumes "inMarketHours off scfg now" "o_breaker e < length (breakers e)"
  shows "fst (sched_step off scfg now NewScheduler) = [CallOpen] \<and>
    cb_state (cb_of (snd (onMarketOpen io now input e))) = CircuitNormal"
proof
  show "fst (sched_step off scfg now NewScheduler) = [CallOpen]"
    using assms(1) by (simp add: sched_step_parts sched_open_def sched_close_def NewScheduler_def inMarketHours_def)
  have "cb_of (snd (applyExecutionInput now input e')) = cb_of e'" for e' :: "'a engine"
    by (auto simp: applyExecutionInput_snd split: option.split sum.split)
  then show "cb_state (cb_of (snd (onMarketOpen io now input e))) = CircuitNormal"
    using assms(2) by (simp add: onMarketOpen_snd opened_def Let_def ResetDayState_def frame_simps)
qed

definition saved_halt :: cb_saved where
  "saved_halt = \<lparr>sv_state = CircuitHalted, sv_changed_at = 0, sv_consecutive_sl = 0, sv_cooldown_until = 0,
     sv_intraday_peak = Fin 0, sv_day_start = Fin 0\<rparr>"

theorem restart_clears_halt_witness:
  "cb_state (NewCircuitBreaker 1 [] (Some saved_halt)) = CircuitHalted \<and>
   cb_state (cb_of (snd (onMarketOpen \<lparr>append_ok = True, persist_ok = True\<rparr> (10 * hour) None
     (SetCircuitBreaker (NewCircuitBreaker 1 [] (Some saved_halt)) demo_engine)))) = CircuitNormal"
proof
  show "cb_state (NewCircuitBreaker 1 [] (Some saved_halt)) = CircuitHalted"
    by (simp add: NewCircuitBreaker_def loadState_def Let_def saved_halt_def)
  have "inMarketHours 0 default_hours (10 * hour)"
    by (simp add: inMarketHours_def todayOpen_def todayClose_def at_clock_def default_hours_def default_parse)
  then show "cb_state (cb_of (snd (onMarketOpen \<lparr>append_ok = True, persist_ok = True\<rparr> (10 * hour) None
     (SetCircuitBreaker (NewCircuitBreaker 1 [] (Some saved_halt)) demo_engine)))) = CircuitNormal"
    using restart_clears_halt [of 0 default_hours "10 * hour"
        "SetCircuitBreaker (NewCircuitBreaker 1 [] (Some saved_halt)) demo_engine" "\<lparr>append_ok = True, persist_ok = True\<rparr>" None]
    by (simp add: SetCircuitBreaker_def Let_def)
qed

text \<open>
  One quote that puts a held position beyond its stop counts as two stop losses: the
  loop over the fetched quotes records one, and the handler of the snapshot it publishes
  records another.
\<close>

theorem stop_loss_counted_twice:
  assumes "lc_stop_loss (config e)" "o_breaker e < length (breakers e)"
    and "visits (store e) visit" "visits (store e) visit'" "stopped (q_last q) (q_symbol q) e"
    and "0 \<le> consecutive_sl (cb_of e)" "consecutive_sl (cb_of e) + 2 \<le> i64_max"
  shows "consecutive_sl (cb_of (snd (on_snapshot io' now' visit' q (snd (process_quote io now visit q e))))) =
    consecutive_sl (cb_of e) + 2"
proof -
  let ?e1 = "snd (process_quote io now visit q e)"
  have one: "consecutive_sl (cb_of ?e1) = wrap64 (consecutive_sl (cb_of e) + 1)" "config ?e1 = config e"
    "o_breaker ?e1 < length (breakers ?e1)" "visits (store ?e1) visit'" "stopped (q_last q) (q_symbol q) ?e1"
    using process_quote_stop [OF assms(1,2,3,5), of io now] assms(2,4) by auto
  have w: "wrap64 (consecutive_sl (cb_of e) + 1) = consecutive_sl (cb_of e) + 1"
    "wrap64 (consecutive_sl (cb_of e) + 2) = consecutive_sl (cb_of e) + 2"
    using assms(6,7) by (intro wrap64_id; simp add: i64_min_def)+
  show ?thesis
    using process_quote_stop [of ?e1 visit' q io' now'] one w assms(1)
    by (simp add: on_snapshot_snd add.assoc)
qed

theorem stop_loss_counted_twice_witness:
  "consecutive_sl (cb_of (snd (on_snapshot \<lparr>append_ok = True, persist_ok = True\<rparr> 1 [''B'', ''A''] (demo_quote ''A'')
     (snd (process_quote \<lparr>append_ok = True, persist_ok = True\<rparr> 0 [''A'', ''B''] (demo_quote ''A'') demo_engine))))) = 2"
proof -
  have v: "visits (store demo_engine) [''A'', ''B'']" "visits (store demo_engine) [''B'', ''A'']"
    by (auto simp: visits_def demo_engine_def NewOrchestrator_def demo_store_def UpdatePosition_def NewStateStore_def
        demo_position_def split: prod.split)
  have d: "rnd (- (1 / 2)) = Fin (- (1 / 2))" "rnd (- 50) = Fin (- 50)"
    using rnd_dyadic [of "- 1" 1] rnd_of_int [of "- 50"] by simp_all
  have st: "stopped (q_last (demo_quote ''A'')) (q_symbol (demo_quote ''A'')) demo_engine"
    by (simp add: stopped_def demo_engine_def NewOrchestrator_def demo_store_def UpdatePosition_def NewStateStore_def
        demo_position_def GetPosition_def demo_quote_def position_pnl_pct_def demo_config_def fsub_def d split: prod.split)
  have e: "lc_stop_loss (config demo_engine)" "o_breaker demo_engine < length (breakers demo_engine)"
    "consecutive_sl (cb_of demo_engine) = 0"
    by (simp_all add: demo_engine_def NewOrchestrator_def demo_config_def cb_of_def NewCircuitBreaker_def loadState_def
        Let_def split: prod.split)
  show ?thesis
    using stop_loss_counted_twice [OF e(1,2) v st, of "\<lparr>append_ok = True, persist_ok = True\<rparr>" 1
        "\<lparr>append_ok = True, persist_ok = True\<rparr>" 0] e(3)
    by (simp add: i64_max_def)
qed

section \<open>The Fubon adapter under the engine\<close>

lemma resolved_fubon:
  assumes "resolved_broker parse_url ping cfg = Guarded (Some (FubonAdapter a))"
  shows "\<not> dma_connected a"
proof -
  have "fst (snd (twse_choice cfg)) \<noteq> Guarded (Some (FubonAdapter a))"
    "fst (snd (http_choice parse_url ping cfg)) \<noteq> Guarded (Some (FubonAdapter a))"
    by (auto simp: twse_choice_def http_choice_def split: sum.split)
  moreover have "fst (snd (fubon_choice cfg)) = Guarded (Some (FubonAdapter a)) \<Longrightarrow> \<not> dma_connected a"
    by (auto simp: fubon_choice_def Let_def NewFubonDMAAdapter_def split: if_splits)
  ultimately show ?thesis
    using assms by (auto simp: resolved_broker_def resolveBrokerMode_def Let_def split: if_splits)
qed

lemma dma_rejects_unconnected:
  assumes "\<not> dma_connected a" "validateOrder ord = None"
  shows "guarded_submit (Some (dma_submit sp decode)) ord (a, p) =
    ((empty_result\<lparr>br_status := ''rejected'', br_reason := ''fubon dma adapter not connected''\<rparr>, None), (a, p))"
  using assms by (simp add: guarded_submit_def dma_submit_def)

lemma run_rejected:
  assumes "submit ord s = ((empty_result\<lparr>br_status := ''rejected'', br_reason := r\<rparr>, None), s)" "r \<noteq> []"
    "0 \<le> om_max_retries m" "om_max_retries m < i64_max"
  shows "\<exists>evs. Run submit env m ord None s = (Some (BrokerRejected (o_symbol ord) r), evs, None, s)"
proof -
  have "wrap64 (om_max_retries m + 1) = om_max_retries m + 1"
    using assms(3,4) by (simp add: wrap64_id i64_min_def)
  then obtain k where k: "nat (wrap64 (om_max_retries m + 1)) = Suc k"
    using assms(3) by (metis Suc_nat_eq_nat_zadd1 add.commute)
  show ?thesis
    unfolding Run_def Let_def k
    by (simp add: checkRiskGate_def assms(1,2) settle_def empty_result_def Let_def)
qed


text \<open>
  An engine configured for the Fubon DMA adapter never sends an order: nothing on its order
  path connects the adapter, so every valid order is reported as rejected for want of a
  connection and the subprocess is not touched, in spite of the announced login on start.
\<close>

theorem fubon_orders_never_leave:
  assumes "resolved_broker parse_url ping (lc_broker cfg) = Guarded (Some (FubonAdapter a))"
    and "submit_of (Guarded (Some (FubonAdapter a))) = guarded_submit (Some (dma_submit sp decode))"
    and "validateOrder ord = None" "BrokerMaxRetries (lc_broker cfg) < i64_max"
  shows "\<exists>evs e'. executeOrder submit_of env ord (NewOrchestrator parse_url ping now date st cfg) (a, p) =
    (Some (ExecuteViaManager (BrokerRejected (o_symbol ord) ''fubon dma adapter not connected'')), evs, e', (a, p))"
proof -
  let ?e = "NewOrchestrator parse_url ping now date st cfg"
  let ?b = "Guarded (Some (FubonAdapter a))"
  let ?m = "NewOrderManager (max (BrokerMaxRetries (lc_broker cfg)) 0) (100 * millisecond)"
  obtain req eff aud where r: "resolveBrokerMode parse_url ping (lc_broker cfg) = (req, eff, ?b, aud)"
    using assms(1) by (metis resolved_broker_def prod.collapse)
  have mgr: "em_order_mgr (ensure_order_mgr (exec_mgr ?e)) = Some (?b, ?m)"
    by (simp add: NewOrchestrator_def r NewExecutionManager_def ensure_order_mgr_def Let_def)
  have cb: "cb_can_place (o_side ord) (breakers ?e ! e_breaker ?e)"
    by (simp add: NewOrchestrator_def r cb_can_place_def NewCircuitBreaker_def loadState_def)
  obtain evs where "Run (submit_of ?b) env ?m ord None (a, p) =
      (Some (BrokerRejected (o_symbol ord) ''fubon dma adapter not connected''), evs, None, (a, p))"
    using run_rejected [of "submit_of ?b" ord "(a, p)" "''fubon dma adapter not connected''" ?m env]
      dma_rejects_unconnected [OF resolved_fubon [OF assms(1)] assms(3), of sp decode p] assms(2,4)
    by (force simp: NewOrderManager_def i64_max_def)
  then show ?thesis using cb mgr by (simp add: executeOrder_def ExecuteOrder_def Let_def)
qed

text \<open>The default configuration with the Fubon adapter and its credentials.\<close>

definition fubon_config :: broker_config where
  "fubon_config = default_broker_config\<lparr>BrokerMode := ''live'', BrokerAdapter := ''fubon-dma'',
     cfg_personal_id := ''A1'', cfg_dma_api_key := ''k''\<rparr>"

lemma fubon_config_resolves:
  "resolved_broker parse_url ping fubon_config =
     Guarded (Some (FubonAdapter (NewFubonDMAAdapter ''A1'' ''k'' ''cmd/fubon-dma/wrapper.py'' ''python3'')))"
  by (simp add: fubon_config_def default_broker_config_def resolved_broker_def resolveBrokerMode_def requested_mode_def
      adapter_provider_def fubon_choice_def lower_char_def trim_space_def trim_by.simps lead_space_def ascii_space_def wide_spaces_def starts_with_def Let_def)

text \<open>A subprocess that counts what is written to it.\<close>

definition counting_process :: "nat subprocess" where
  "counting_process = \<lparr>sp_start = \<lambda>n. (None, n), sp_write = \<lambda>_ n. (None, Suc n),
     sp_read = \<lambda>n. (AtEOF [], n), sp_kill = \<lambda>n. n\<rparr>"

theorem fubon_orders_never_leave_witness:
  "\<exists>evs e'. executeOrder (\<lambda>_. guarded_submit (Some (dma_submit counting_process (\<lambda>_. None)))) default_env demo_order
     (NewOrchestrator (\<lambda>_. None) (\<lambda>_. None) 0 ''d'' demo_store (demo_config\<lparr>lc_broker := fubon_config\<rparr>))
     (NewFubonDMAAdapter ''A1'' ''k'' ''cmd/fubon-dma/wrapper.py'' ''python3'', 0) =
   (Some (ExecuteViaManager (BrokerRejected ''2330'' ''fubon dma adapter not connected'')), evs, e',
    (NewFubonDMAAdapter ''A1'' ''k'' ''cmd/fubon-dma/wrapper.py'' ''python3'', 0))"
proof -
  let ?cfg = "demo_config\<lparr>lc_broker := fubon_config\<rparr>"
  let ?s = "guarded_submit (Some (dma_submit counting_process (\<lambda>_. None)))"
  have b: "resolved_broker (\<lambda>_. None) (\<lambda>_. None) (lc_broker ?cfg) =
      Guarded (Some (FubonAdapter (NewFubonDMAAdapter ''A1'' ''k'' ''cmd/fubon-dma/wrapper.py'' ''python3'')))"
    using fubon_config_resolves by simp
  have r: "BrokerMaxRetries (lc_broker ?cfg) < i64_max"
    by (simp add: fubon_config_def default_broker_config_def i64_max_def)
  have o: "o_symbol demo_order = ''2330''" by (simp add: demo_order_def)
  show ?thesis
    using fubon_orders_never_leave [OF b _ demo_order_valid r, of "\<lambda>_. ?s" counting_process "\<lambda>_. None"
      default_env 0 "''d''" demo_store 0] o by simp
qed

end
