(* ===== verification/Task_Store.thy ===== *)
theory Task_Store
  imports Float64
begin

text \<open>
  The records of the task service (\<open>internal/domain/task_execution.go\<close>) and its in-memory store
  (\<open>internal/taskexec/memory_store.go\<close>).

  The Go maps are association lists without duplicate keys.  A list operation that ranges over
  a map takes the values in the order of the visit, \<open>iter\<close>; \<open>sort.Slice\<close> may leave records of
  the same time in any order, and with \<open>iter\<close> arbitrary a stable sort gives all of them.  A JSON
  byte slice is a string.  The part of the interface \<open>Store\<close> that the manager relies on is the
  locale \<open>task_store\<close>.
\<close>

section \<open>Records\<close>

definition TaskStatusQueued :: string where "TaskStatusQueued = ''queued''"
definition TaskStatusRunning :: string where "TaskStatusRunning = ''running''"
definition TaskStatusSucceeded :: string where "TaskStatusSucceeded = ''succeeded''"
definition TaskStatusFailed :: string where "TaskStatusFailed = ''failed''"
definition TaskStatusCancelRequested :: string where "TaskStatusCancelRequested = ''cancel_requested''"
definition TaskStatusCancelled :: string where "TaskStatusCancelled = ''cancelled''"

lemmas task_status_defs =
  TaskStatusQueued_def TaskStatusRunning_def TaskStatusSucceeded_def TaskStatusFailed_def
  TaskStatusCancelRequested_def TaskStatusCancelled_def

definition TaskEventStatus :: string where "TaskEventStatus = ''status''"
definition TaskEventProgress :: string where "TaskEventProgress = ''progress''"
definition TaskEventStderr :: string where "TaskEventStderr = ''stderr''"
definition TaskEventSummary :: string where "TaskEventSummary = ''summary''"
definition TaskEventDone :: string where "TaskEventDone = ''done''"

record task_execution =
  te_id :: string
  te_task_type :: string
  te_command_name :: string
  te_command_args :: "string list"
  te_request_payload :: string
  te_status :: string
  te_actor :: string
  te_actor_source :: string
  te_idempotency_key :: string
  te_retry_of :: string
  te_parent_execution :: string
  te_experiment :: string
  te_result_path :: string
  te_version_before :: "int option"
  te_version_after :: "int option"
  te_requires_confirmation :: bool
  te_confirmed_at :: "time option"
  te_cancel_requested_at :: "time option"
  te_submitted_at :: time
  te_started_at :: "time option"
  te_finished_at :: "time option"
  te_exit_code :: "int option"
  te_error_message :: string
  te_summary :: string
  te_created_at :: time
  te_updated_at :: time

record task_event =
  tev_execution :: string
  tev_sequence :: int
  tev_type :: string
  tev_stream :: string
  tev_level :: string
  tev_message :: string
  tev_payload :: string
  tev_created_at :: time

record lineage_record =
  lr_experiment :: string
  lr_execution :: string
  lr_parent :: string
  lr_root :: string
  lr_depth :: int
  lr_target_agent :: string
  lr_target_skill :: string
  lr_mutation_type :: string
  lr_brief_path :: string
  lr_candidate_path :: string
  lr_result_path :: string
  lr_status :: string
  lr_git_commit :: string
  lr_params :: string
  lr_result :: string
  lr_baseline_value :: "f64 option"
  lr_candidate_value :: "f64 option"
  lr_improvement :: "f64 option"
  lr_recorded_at :: time
  lr_judged_at :: "time option"

record baseline_record =
  bh_id :: string
  bh_execution :: string
  bh_experiment :: string
  bh_version_before :: int
  bh_version_after :: int
  bh_promoted_by :: string
  bh_promoted_at :: time
  bh_baseline_path :: string
  bh_diff_summary :: string
  bh_diff_patch :: string
  bh_metadata :: string

record metric_point =
  mp_id :: string
  mp_execution :: string
  mp_experiment :: string
  mp_series_key :: string
  mp_metric_name :: string
  mp_metric_scope :: string
  mp_value :: f64
  mp_baseline_value :: "f64 option"
  mp_delta_value :: "f64 option"
  mp_sampled_at :: time
  mp_tags :: string

text \<open>The store ignores the other fields of the two filters.\<close>

record execution_filter =
  xf_task_type :: string
  xf_status :: string
  xf_actor :: string
  xf_limit :: int

record metric_filter =
  mf_experiment :: string
  mf_series_key :: string
  mf_metric_name :: string
  mf_start :: time
  mf_end :: time
  mf_limit :: int

datatype task_error =
    ExecutionNotFound string
  | LineageNotFound string
  | NoRunner string
  | NotRunning string
  | GetOriginal task_error
  | RunnerFailed string

section \<open>The in-memory store\<close>

record mem_store =
  ms_executions :: "(string \<times> task_execution) list"
  ms_events :: "(string \<times> task_event list) list"
  ms_lineage :: "(string \<times> lineage_record) list"
  ms_baseline :: "baseline_record list"
  ms_metrics :: "metric_point list"

definition NewInMemoryStore :: mem_store where
  "NewInMemoryStore = \<lparr>ms_executions = [], ms_events = [], ms_lineage = [], ms_baseline = [], ms_metrics = []\<rparr>"

definition CreateExecution :: "task_execution \<Rightarrow> mem_store \<Rightarrow> mem_store" where
  "CreateExecution e s = s\<lparr>ms_executions := AList.update (te_id e) e (ms_executions s)\<rparr>"

definition UpdateExecution :: "task_execution \<Rightarrow> mem_store \<Rightarrow> mem_store" where
  "UpdateExecution e s = s\<lparr>ms_executions := AList.update (te_id e) e (ms_executions s)\<rparr>"

definition GetExecution :: "string \<Rightarrow> mem_store \<Rightarrow> task_error + task_execution" where
  "GetExecution i s = (case map_of (ms_executions s) i of Some e \<Rightarrow> Inr e | None \<Rightarrow> Inl (ExecutionNotFound i))"

definition execution_matches :: "execution_filter \<Rightarrow> task_execution \<Rightarrow> bool" where
  "execution_matches f e \<longleftrightarrow>
     (xf_task_type f = [] \<or> te_task_type e = xf_task_type f) \<and>
     (xf_status f = [] \<or> te_status e = xf_status f) \<and> (xf_actor f = [] \<or> te_actor e = xf_actor f)"

text \<open>A positive limit cuts the list off.\<close>

definition limited :: "int \<Rightarrow> 'a list \<Rightarrow> 'a list" where
  "limited n xs = (if 0 < n \<and> n < int (length xs) then take (nat n) xs else xs)"

definition ListExecutions :: "execution_filter \<Rightarrow> task_execution list \<Rightarrow> task_execution list" where
  "ListExecutions f iter =
     limited (xf_limit f) (sort_key (\<lambda>e. - te_submitted_at e) (filter (execution_matches f) iter))"

definition events_of :: "mem_store \<Rightarrow> string \<Rightarrow> task_event list" where
  "events_of s i = (case map_of (ms_events s) i of Some es \<Rightarrow> es | None \<Rightarrow> [])"

definition AppendEvent :: "task_event \<Rightarrow> mem_store \<Rightarrow> mem_store" where
  "AppendEvent ev s =
     s\<lparr>ms_events := AList.update (tev_execution ev) (events_of s (tev_execution ev) @ [ev]) (ms_events s)\<rparr>"

definition ListEventsAfter :: "string \<Rightarrow> int \<Rightarrow> mem_store \<Rightarrow> task_event list" where
  "ListEventsAfter i after s = filter (\<lambda>ev. after < tev_sequence ev) (events_of s i)"

definition UpsertLineage :: "lineage_record \<Rightarrow> mem_store \<Rightarrow> mem_store" where
  "UpsertLineage r s = s\<lparr>ms_lineage := AList.update (lr_experiment r) r (ms_lineage s)\<rparr>"

definition GetLineage :: "string \<Rightarrow> mem_store \<Rightarrow> task_error + lineage_record" where
  "GetLineage i s = (case map_of (ms_lineage s) i of Some r \<Rightarrow> Inr r | None \<Rightarrow> Inl (LineageNotFound i))"

definition GetLineageChildren :: "string \<Rightarrow> lineage_record list \<Rightarrow> lineage_record list" where
  "GetLineageChildren parent iter = filter (\<lambda>r. lr_parent r = parent) iter"

definition InsertBaselineHistory :: "baseline_record \<Rightarrow> mem_store \<Rightarrow> mem_store" where
  "InsertBaselineHistory r s = s\<lparr>ms_baseline := ms_baseline s @ [r]\<rparr>"

text \<open>The last \<open>limit\<close> records.\<close>

definition ListBaselineHistory :: "int \<Rightarrow> mem_store \<Rightarrow> baseline_record list" where
  "ListBaselineHistory limit s =
     (if limit \<le> 0 \<or> int (length (ms_baseline s)) < limit then ms_baseline s
      else drop (length (ms_baseline s) - nat limit) (ms_baseline s))"

definition InsertMetricPoints :: "metric_point list \<Rightarrow> mem_store \<Rightarrow> mem_store" where
  "InsertMetricPoints ps s = s\<lparr>ms_metrics := ms_metrics s @ ps\<rparr>"

definition metric_matches :: "metric_filter \<Rightarrow> metric_point \<Rightarrow> bool" where
  "metric_matches f p \<longleftrightarrow>
     (mf_experiment f = [] \<or> mp_experiment p = mf_experiment f) \<and>
     (mf_series_key f = [] \<or> mp_series_key p = mf_series_key f) \<and>
     (mf_metric_name f = [] \<or> mp_metric_name p = mf_metric_name f) \<and>
     (mf_start f = zero_time \<or> mf_start f \<le> mp_sampled_at p) \<and>
     (mf_end f = zero_time \<or> mp_sampled_at p \<le> mf_end f)"

text \<open>\<open>iter\<close> is the list of metric points, up to the order of points of the same time.\<close>

definition QueryMetricTrends :: "metric_filter \<Rightarrow> metric_point list \<Rightarrow> metric_point list" where
  "QueryMetricTrends f iter =
     limited (mf_limit f) (sort_key (\<lambda>p. - mp_sampled_at p) (filter (metric_matches f) iter))"

section \<open>The interface of the manager\<close>

text \<open>
  What the manager relies on: an execution is read back as it was last written, the events of
  an execution are kept in the order of their arrival, and neither disturbs the other.
\<close>

locale task_store =
  fixes create :: "task_execution \<Rightarrow> 's \<Rightarrow> 's"
    and update :: "task_execution \<Rightarrow> 's \<Rightarrow> 's"
    and get :: "string \<Rightarrow> 's \<Rightarrow> task_error + task_execution"
    and append :: "task_event \<Rightarrow> 's \<Rightarrow> 's"
    and events_after :: "string \<Rightarrow> int \<Rightarrow> 's \<Rightarrow> task_event list"
  assumes get_create: "get i (create e s) = (if i = te_id e then Inr e else get i s)"
    and get_update: "get i (update e s) = (if i = te_id e then Inr e else get i s)"
    and get_append: "get i (append ev s) = get i s"
    and events_create: "events_after i n (create e s) = events_after i n s"
    and events_update: "events_after i n (update e s) = events_after i n s"
    and events_append: "events_after i n (append ev s) =
      events_after i n s @ (if tev_execution ev = i \<and> n < tev_sequence ev then [ev] else [])"
begin

text \<open>A store whose events of \<open>i\<close> carry the numbers 1 to \<open>n\<close> in this order.\<close>

definition numbered :: "string \<Rightarrow> nat \<Rightarrow> 's \<Rightarrow> bool" where
  "numbered i n s \<longleftrightarrow> map tev_sequence (events_after i 0 s) = map int [1..<Suc n]"

lemma numbered_append:
  assumes "numbered i n s" "tev_execution ev = i" "tev_sequence ev = int n + 1"
  shows "numbered i (Suc n) (append ev s)"
  using assms by (simp add: numbered_def events_append)

lemma numbered_other:
  "tev_execution ev \<noteq> i \<Longrightarrow> numbered i n (append ev s) = numbered i n s"
  by (simp add: numbered_def events_append)

lemma numbered_writes:
  "numbered i n (create e s) = numbered i n s" "numbered i n (update e s) = numbered i n s"
  by (simp_all add: numbered_def events_create events_update)

end

lemma events_of_append:
  "events_of (AppendEvent ev s) i = events_of s i @ (if tev_execution ev = i then [ev] else [])"
  by (simp add: AppendEvent_def events_of_def update_conv)

interpretation mem: task_store CreateExecution UpdateExecution GetExecution AppendEvent ListEventsAfter
  by unfold_locales
    (auto simp: CreateExecution_def UpdateExecution_def GetExecution_def ListEventsAfter_def events_of_append
      AppendEvent_def events_of_def update_conv)

section \<open>Queries\<close>

lemma limited_prefix: "\<exists>ys. xs = limited n xs @ ys"
  by (metis append_take_drop_id append_Nil2 limited_def)

lemma limited_length: "0 < n \<Longrightarrow> int (length (limited n xs)) \<le> n"
  by (simp add: limited_def)

lemma ListExecutions_sorted: "sorted (map (\<lambda>e. - te_submitted_at e) (ListExecutions f iter))"
proof -
  obtain ys where "sort_key (\<lambda>e. - te_submitted_at e) (filter (execution_matches f) iter) = ListExecutions f iter @ ys"
    using limited_prefix ListExecutions_def by metis
  then show ?thesis by (metis sorted_sort_key map_append sorted_append)
qed

end
