(* ===== verification/Task_Manager.thy ===== *)
theory Task_Manager
  imports Task_Store
begin

text \<open>
  The task manager (\<open>internal/taskexec/manager.go\<close>) over the in-memory store.

  \<open>Submit\<close> and \<open>Retry\<close> start a goroutine per execution; \<open>Cancel\<close> may run at any time between its
  actions.  The atomic actions are functions on the state of the system and \<open>tm_step\<close> is their
  interleaving.  A goroutine is a record \<open>run_thread\<close>: where it stands, and the copy of the
  execution it works on.  An active run is a heap object that a running \<open>Cancel\<close> still holds after it
  has left the map; it is named by the execution id, which is fresh (16 random bytes).  The
  runner emits events and returns at some point, whatever it does otherwise.

  \<open>Emit\<close> is one action: only the goroutine of the run calls it.  A subscriber's channel has 100
  places; \<open>Subscribe\<close> fills it with the stored events before anybody can read it, so it blocks
  forever (\<open>None\<close>) when there are more.
\<close>

section \<open>State\<close>

record submit_request =
  sr_task_type :: string
  sr_actor :: string
  sr_actor_source :: string
  sr_payload :: "(string \<times> string) list"
  sr_confirmed :: bool
  sr_idempotency_key :: string

record active_run =
  ar_execution :: task_execution
  ar_cancelled :: bool
  ar_seq :: int

record subscription =
  sub_execution :: string
  sub_chan :: "task_event list"
  sub_closed :: bool

datatype run_pc =
    AtStart
  | AtAnnounce
  | InRunner
  | AtDecide "string option"
  | AtReport bool "string option"
  | AtStore
  | AtExit
  | Gone

record run_thread =
  th_pc :: run_pc
  th_exec :: task_execution
  th_req :: submit_request

record task_system =
  ts_store :: mem_store
  ts_runners :: "(string \<times> string) list"
  ts_active :: "string list"
  ts_runs :: "(string \<times> active_run) list"
  ts_threads :: "(string \<times> run_thread) list"
  ts_cancels :: "string list"
  ts_subs :: "subscription list"

definition NewManager :: "mem_store \<Rightarrow> task_system" where
  "NewManager st = \<lparr>ts_store = st, ts_runners = [], ts_active = [], ts_runs = [], ts_threads = [],
     ts_cancels = [], ts_subs = []\<rparr>"

definition RegisterRunner :: "string \<Rightarrow> string \<Rightarrow> task_system \<Rightarrow> task_system" where
  "RegisterRunner taskType name t = t\<lparr>ts_runners := AList.update taskType name (ts_runners t)\<rparr>"

section \<open>Events\<close>

definition deliver :: "task_event \<Rightarrow> subscription \<Rightarrow> subscription" where
  "deliver ev sub =
     (if sub_execution sub = tev_execution ev \<and> \<not> sub_closed sub \<and> length (sub_chan sub) < 100
      then sub\<lparr>sub_chan := sub_chan sub @ [ev]\<rparr> else sub)"

definition seq_of :: "string \<Rightarrow> task_system \<Rightarrow> int" where
  "seq_of i t = (case map_of (ts_runs t) i of Some r \<Rightarrow> ar_seq r | None \<Rightarrow> 0)"

definition Emit :: "time \<Rightarrow> string \<Rightarrow> task_event \<Rightarrow> task_system \<Rightarrow> task_system" where
  "Emit now i event t =
     (case map_of (ts_runs t) i of
        None \<Rightarrow> t
      | Some r \<Rightarrow>
          (let n = ar_seq r + 1;
               ev = event\<lparr>tev_sequence := n, tev_execution := i, tev_created_at := now\<rparr>
           in t\<lparr>ts_runs := AList.update i (r\<lparr>ar_seq := n\<rparr>) (ts_runs t),
                ts_store := AppendEvent ev (ts_store t),
                ts_subs := map (deliver ev) (ts_subs t)\<rparr>))"

definition system_event :: "string \<Rightarrow> string \<Rightarrow> string \<Rightarrow> string \<Rightarrow> task_event" where
  "system_event ty level msg payload =
     \<lparr>tev_execution = [], tev_sequence = 0, tev_type = ty, tev_stream = ''system'', tev_level = level,
      tev_message = msg, tev_payload = payload, tev_created_at = zero_time\<rparr>"

section \<open>Submitting\<close>

text \<open>
  \<open>marshal\<close> is the JSON encoding of a payload, \<open>None\<close> when it fails; \<open>i\<close> is the generated id.
\<close>

definition blank_execution :: "string \<Rightarrow> time \<Rightarrow> task_execution" where
  "blank_execution i now =
     \<lparr>te_id = i, te_task_type = [], te_command_name = [], te_command_args = [], te_request_payload = [],
      te_status = TaskStatusQueued, te_actor = [], te_actor_source = [], te_idempotency_key = [],
      te_retry_of = [], te_parent_execution = [], te_experiment = [], te_result_path = [],
      te_version_before = None, te_version_after = None, te_requires_confirmation = False,
      te_confirmed_at = None, te_cancel_requested_at = None, te_submitted_at = now, te_started_at = None,
      te_finished_at = None, te_exit_code = None, te_error_message = [], te_summary = [],
      te_created_at = now, te_updated_at = now\<rparr>"

definition startRun :: "task_execution \<Rightarrow> submit_request \<Rightarrow> task_system \<Rightarrow> task_system" where
  "startRun e req t =
     t\<lparr>ts_runs := AList.update (te_id e) \<lparr>ar_execution = e, ar_cancelled = False, ar_seq = 0\<rparr> (ts_runs t),
       ts_active := te_id e # ts_active t,
       ts_threads := AList.update (te_id e) \<lparr>th_pc = AtStart, th_exec = e, th_req = req\<rparr> (ts_threads t)\<rparr>"

definition Submit ::
  "((string \<times> string) list \<Rightarrow> string option) \<Rightarrow> string \<Rightarrow> time \<Rightarrow> submit_request \<Rightarrow> task_system \<Rightarrow>
   (task_error + task_execution) \<times> task_system" where
  "Submit marshal i now req t =
     (case map_of (ts_runners t) (sr_task_type req) of
        None \<Rightarrow> (Inl (NoRunner (sr_task_type req)), t)
      | Some name \<Rightarrow>
          (let e = (blank_execution i now)
                 \<lparr>te_task_type := sr_task_type req, te_command_name := name, te_actor := sr_actor req,
                  te_actor_source := sr_actor_source req, te_idempotency_key := sr_idempotency_key req,
                  te_request_payload :=
                    (if sr_payload req \<noteq> [] then case marshal (sr_payload req) of Some b \<Rightarrow> b | None \<Rightarrow> [] else [])\<rparr>
           in (Inr e, startRun e req (t\<lparr>ts_store := CreateExecution e (ts_store t)\<rparr>))))"

definition retry_execution :: "string \<Rightarrow> time \<Rightarrow> string \<Rightarrow> string \<Rightarrow> task_execution \<Rightarrow> task_execution" where
  "retry_execution i now orig actor original =
     (blank_execution i now)
       \<lparr>te_task_type := te_task_type original, te_command_name := te_command_name original,
        te_command_args := te_command_args original, te_request_payload := te_request_payload original,
        te_actor := actor, te_actor_source := ''web_ui'', te_retry_of := orig,
        te_requires_confirmation := te_requires_confirmation original\<rparr>"

text \<open>The record is stored before the runner is looked up, and the payload of the request is empty.\<close>

definition Retry :: "string \<Rightarrow> time \<Rightarrow> string \<Rightarrow> string \<Rightarrow> task_system \<Rightarrow> (task_error + task_execution) \<times> task_system" where
  "Retry i now orig actor t =
     (case GetExecution orig (ts_store t) of
        Inl err \<Rightarrow> (Inl (GetOriginal err), t)
      | Inr original \<Rightarrow>
          (let e = retry_execution i now orig actor original;
               t1 = t\<lparr>ts_store := CreateExecution e (ts_store t)\<rparr>
           in case map_of (ts_runners t1) (te_task_type original) of
                None \<Rightarrow> (Inl (NoRunner (te_task_type original)), t1)
              | Some _ \<Rightarrow>
                  (Inr e, startRun e \<lparr>sr_task_type = te_task_type original, sr_actor = actor, sr_actor_source = ''web_ui'',
                                      sr_payload = [], sr_confirmed = True, sr_idempotency_key = []\<rparr> t1)))"

section \<open>The goroutine of a run\<close>

definition put_thread :: "string \<Rightarrow> run_thread \<Rightarrow> task_system \<Rightarrow> task_system" where
  "put_thread i th t = t\<lparr>ts_threads := AList.update i th (ts_threads t)\<rparr>"

definition store_exec :: "task_execution \<Rightarrow> task_system \<Rightarrow> task_system" where
  "store_exec e t = t\<lparr>ts_store := UpdateExecution e (ts_store t)\<rparr>"

definition run_begin :: "time \<Rightarrow> string \<Rightarrow> run_thread \<Rightarrow> task_system \<Rightarrow> task_system" where
  "run_begin now i th t =
     (let e = (th_exec th)\<lparr>te_status := TaskStatusRunning, te_started_at := Some now\<rparr>
      in put_thread i (th\<lparr>th_pc := AtAnnounce, th_exec := e\<rparr>) (store_exec e t))"

definition run_announce :: "time \<Rightarrow> string \<Rightarrow> run_thread \<Rightarrow> task_system \<Rightarrow> task_system" where
  "run_announce now i th t =
     put_thread i (th\<lparr>th_pc := InRunner\<rparr>)
       (Emit now i (system_event TaskEventStatus [] ''running'' ''{\"status\":\"running\"}'') t)"

text \<open>The runner returns; the finish time is taken.\<close>

definition run_return :: "time \<Rightarrow> string option \<Rightarrow> string \<Rightarrow> run_thread \<Rightarrow> task_system \<Rightarrow> task_system" where
  "run_return now err i th t =
     put_thread i (th\<lparr>th_pc := AtDecide err, th_exec := (th_exec th)\<lparr>te_finished_at := Some now\<rparr>\<rparr>) t"

definition user_cancelled :: "string \<Rightarrow> mem_store \<Rightarrow> bool" where
  "user_cancelled i s = (case GetExecution i s of Inr e \<Rightarrow> te_status e = TaskStatusCancelRequested | Inl _ \<Rightarrow> False)"

definition run_decide :: "string option \<Rightarrow> string \<Rightarrow> run_thread \<Rightarrow> task_system \<Rightarrow> task_system" where
  "run_decide err i th t = put_thread i (th\<lparr>th_pc := AtReport (user_cancelled i (ts_store t)) err\<rparr>) t"

definition run_report :: "time \<Rightarrow> bool \<Rightarrow> string option \<Rightarrow> string \<Rightarrow> run_thread \<Rightarrow> task_system \<Rightarrow> task_system" where
  "run_report now cancelled err i th t =
     (if cancelled then
        put_thread i (th\<lparr>th_pc := AtStore, th_exec := (th_exec th)\<lparr>te_status := TaskStatusCancelRequested\<rparr>\<rparr>)
          (Emit now i (system_event TaskEventDone [] ''canceled by user'' ''{\"status\":\"cancel_requested\"}'') t)
      else case err of
        Some msg \<Rightarrow>
          put_thread i (th\<lparr>th_pc := AtStore, th_exec := (th_exec th)\<lparr>te_status := TaskStatusFailed, te_error_message := msg\<rparr>\<rparr>)
            (Emit now i (system_event TaskEventDone ''error'' msg ''{\"status\":\"failed\"}'') t)
      | None \<Rightarrow>
          put_thread i (th\<lparr>th_pc := AtStore, th_exec := (th_exec th)\<lparr>te_status := TaskStatusSucceeded\<rparr>\<rparr>)
            (Emit now i (system_event TaskEventDone [] ''succeeded'' ''{\"status\":\"succeeded\"}'') t))"

definition run_store :: "string \<Rightarrow> run_thread \<Rightarrow> task_system \<Rightarrow> task_system" where
  "run_store i th t = put_thread i (th\<lparr>th_pc := AtExit\<rparr>) (store_exec (th_exec th) t)"

definition run_exit :: "string \<Rightarrow> run_thread \<Rightarrow> task_system \<Rightarrow> task_system" where
  "run_exit i th t =
     put_thread i (th\<lparr>th_pc := Gone\<rparr>)
       (t\<lparr>ts_active := filter (\<lambda>j. j \<noteq> i) (ts_active t),
          ts_runs := AList.map_entry i (\<lambda>r. r\<lparr>ar_cancelled := True\<rparr>) (ts_runs t)\<rparr>)"

section \<open>Cancelling\<close>

text \<open>
  \<open>Cancel\<close> looks the run up, and later writes its own, older copy of the execution and cancels
  the context.
\<close>

definition cancel_lookup :: "string \<Rightarrow> task_system \<Rightarrow> task_error option \<times> task_system" where
  "cancel_lookup i t =
     (if i \<in> set (ts_active t) then (None, t\<lparr>ts_cancels := i # ts_cancels t\<rparr>) else (Some (NotRunning i), t))"

definition cancel_write :: "time \<Rightarrow> string \<Rightarrow> task_system \<Rightarrow> task_system" where
  "cancel_write now i t =
     (case map_of (ts_runs t) i of
        None \<Rightarrow> t
      | Some r \<Rightarrow>
          (let e = (ar_execution r)\<lparr>te_cancel_requested_at := Some now, te_status := TaskStatusCancelRequested\<rparr>
           in t\<lparr>ts_runs := AList.update i (r\<lparr>ar_execution := e, ar_cancelled := True\<rparr>) (ts_runs t),
                ts_store := UpdateExecution e (ts_store t), ts_cancels := remove1 i (ts_cancels t)\<rparr>))"

section \<open>Reading and subscribing\<close>

definition Get :: "string \<Rightarrow> task_system \<Rightarrow> task_error + task_execution" where
  "Get i t = GetExecution i (ts_store t)"

definition ListEvents :: "string \<Rightarrow> task_system \<Rightarrow> task_event list" where
  "ListEvents i t = ListEventsAfter i 0 (ts_store t)"

text \<open>The replay, and later the entry into the list of subscribers; \<open>None\<close> is blocking forever.\<close>

definition subscribe_replay :: "string \<Rightarrow> task_system \<Rightarrow> task_event list option" where
  "subscribe_replay i t =
     (let evs = ListEventsAfter i 0 (ts_store t) in if length evs \<le> 100 then Some evs else None)"

definition subscribe_add :: "string \<Rightarrow> task_event list \<Rightarrow> task_system \<Rightarrow> task_system" where
  "subscribe_add i evs t = t\<lparr>ts_subs := ts_subs t @ [\<lparr>sub_execution = i, sub_chan = evs, sub_closed = False\<rparr>]\<rparr>"

text \<open>\<open>n\<close> is the place of the subscription; a second call panics in \<open>close\<close> and is not modelled.\<close>

definition unsubscribe_run :: "nat \<Rightarrow> task_system \<Rightarrow> task_system" where
  "unsubscribe_run n t = t\<lparr>ts_subs := take n (ts_subs t) @ drop (Suc n) (ts_subs t)\<rparr>"

definition read_event :: "nat \<Rightarrow> task_system \<Rightarrow> task_system" where
  "read_event n t =
     (if n < length (ts_subs t)
      then t\<lparr>ts_subs := (ts_subs t)[n := (ts_subs t ! n)\<lparr>sub_chan := tl (sub_chan (ts_subs t ! n))\<rparr>]\<rparr> else t)"

section \<open>Interleaving\<close>

text \<open>The goroutine of run \<open>i\<close>: every action moves its program counter on.\<close>

inductive run_step :: "string \<Rightarrow> task_system \<Rightarrow> task_system \<Rightarrow> bool" where
  rs_begin: "map_of (ts_threads t) i = Some th \<Longrightarrow> th_pc th = AtStart \<Longrightarrow> run_step i t (run_begin now i th t)"
| rs_announce: "map_of (ts_threads t) i = Some th \<Longrightarrow> th_pc th = AtAnnounce \<Longrightarrow> run_step i t (run_announce now i th t)"
| rs_return: "map_of (ts_threads t) i = Some th \<Longrightarrow> th_pc th = InRunner \<Longrightarrow> run_step i t (run_return now err i th t)"
| rs_decide: "map_of (ts_threads t) i = Some th \<Longrightarrow> th_pc th = AtDecide err \<Longrightarrow> run_step i t (run_decide err i th t)"
| rs_report: "map_of (ts_threads t) i = Some th \<Longrightarrow> th_pc th = AtReport c err \<Longrightarrow> run_step i t (run_report now c err i th t)"
| rs_finish: "map_of (ts_threads t) i = Some th \<Longrightarrow> th_pc th = AtStore \<Longrightarrow> run_step i t (run_store i th t)"
| rs_leave: "map_of (ts_threads t) i = Some th \<Longrightarrow> th_pc th = AtExit \<Longrightarrow> run_step i t (run_exit i th t)"

text \<open>An id is fresh when neither a run nor a stored execution has it.\<close>

definition fresh_id :: "string \<Rightarrow> task_system \<Rightarrow> bool" where
  "fresh_id i t \<longleftrightarrow> map_of (ts_runs t) i = None \<and> map_of (ts_threads t) i = None \<and>
     (case GetExecution i (ts_store t) of Inl _ \<Rightarrow> True | Inr _ \<Rightarrow> False)"

text \<open>Everything that happens: the other calls of the service, and the work of the runners.\<close>

inductive tm_step :: "task_system \<Rightarrow> task_system \<Rightarrow> bool" where
  step_run: "run_step i t t' \<Longrightarrow> tm_step t t'"
| step_emit: "map_of (ts_threads t) i = Some th \<Longrightarrow> th_pc th = InRunner \<Longrightarrow> tm_step t (Emit now i ev t)"
| step_lineage: "tm_step t (t\<lparr>ts_store := UpsertLineage l (ts_store t)\<rparr>)"
| step_baseline: "tm_step t (t\<lparr>ts_store := InsertBaselineHistory b (ts_store t)\<rparr>)"
| step_metrics: "tm_step t (t\<lparr>ts_store := InsertMetricPoints ps (ts_store t)\<rparr>)"
| step_register: "tm_step t (RegisterRunner ty name t)"
| step_submit: "fresh_id i t \<Longrightarrow> tm_step t (snd (Submit marshal i now req t))"
| step_retry: "fresh_id i t \<Longrightarrow> tm_step t (snd (Retry i now orig actor t))"
| step_cancel: "tm_step t (snd (cancel_lookup i t))"
| step_cancel_write: "i \<in> set (ts_cancels t) \<Longrightarrow> tm_step t (cancel_write now i t)"
| step_subscribe: "length evs \<le> 100 \<Longrightarrow> tm_step t (subscribe_add i evs t)"
| step_unsubscribe: "tm_step t (unsubscribe_run n t)"
| step_read: "tm_step t (read_event n t)"
| step_query: "tm_step t t"

section \<open>Frames\<close>

lemma put_thread_frame [simp]:
  "ts_store (put_thread i th t) = ts_store t" "ts_runners (put_thread i th t) = ts_runners t"
  "ts_active (put_thread i th t) = ts_active t" "ts_runs (put_thread i th t) = ts_runs t"
  "ts_cancels (put_thread i th t) = ts_cancels t" "ts_subs (put_thread i th t) = ts_subs t"
  "map_of (ts_threads (put_thread i th t)) j = (if j = i then Some th else map_of (ts_threads t) j)"
  by (simp_all add: put_thread_def)

lemma store_exec_frame [simp]:
  "ts_store (store_exec e t) = UpdateExecution e (ts_store t)" "ts_runners (store_exec e t) = ts_runners t"
  "ts_active (store_exec e t) = ts_active t" "ts_runs (store_exec e t) = ts_runs t"
  "ts_cancels (store_exec e t) = ts_cancels t" "ts_threads (store_exec e t) = ts_threads t"
  by (simp_all add: store_exec_def)

lemma Emit_frame [simp]:
  "ts_runners (Emit now i ev t) = ts_runners t" "ts_active (Emit now i ev t) = ts_active t"
  "ts_cancels (Emit now i ev t) = ts_cancels t" "ts_threads (Emit now i ev t) = ts_threads t"
  "GetExecution j (ts_store (Emit now i ev t)) = GetExecution j (ts_store t)"
  by (simp_all add: Emit_def Let_def mem.get_append split: option.split)

lemma Emit_runs [simp]:
  "map_of (ts_runs (Emit now i ev t)) j =
     (if j = i then map_option (\<lambda>r. r\<lparr>ar_seq := ar_seq r + 1\<rparr>) (map_of (ts_runs t) i) else map_of (ts_runs t) j)"
  by (auto simp: Emit_def Let_def split: option.split)

lemma startRun_frame [simp]:
  "ts_store (startRun e req t) = ts_store t" "ts_cancels (startRun e req t) = ts_cancels t"
  "set (ts_active (startRun e req t)) = insert (te_id e) (set (ts_active t))"
  "map_of (ts_runs (startRun e req t)) j =
     (if j = te_id e then Some \<lparr>ar_execution = e, ar_cancelled = False, ar_seq = 0\<rparr> else map_of (ts_runs t) j)"
  "map_of (ts_threads (startRun e req t)) j =
     (if j = te_id e then Some \<lparr>th_pc = AtStart, th_exec = e, th_req = req\<rparr> else map_of (ts_threads t) j)"
  by (simp_all add: startRun_def)

lemma run_exit_frame [simp]:
  "ts_store (run_exit i th t) = ts_store t" "ts_cancels (run_exit i th t) = ts_cancels t"
  "set (ts_active (run_exit i th t)) = set (ts_active t) - {i}"
  "map_of (ts_threads (run_exit i th t)) j = (if j = i then Some (th\<lparr>th_pc := Gone\<rparr>) else map_of (ts_threads t) j)"
  "map_of (ts_runs (run_exit i th t)) j =
     (if j = i then map_option (\<lambda>r. r\<lparr>ar_cancelled := True\<rparr>) (map_of (ts_runs t) i) else map_of (ts_runs t) j)"
  by (auto simp: run_exit_def map_of_map_entry split: option.split)

definition cancelled_copy :: "time \<Rightarrow> active_run \<Rightarrow> task_execution" where
  "cancelled_copy now r =
     (ar_execution r)\<lparr>te_cancel_requested_at := Some now, te_status := TaskStatusCancelRequested\<rparr>"

lemma cancelled_copy_fields [simp]:
  "te_id (cancelled_copy now r) = te_id (ar_execution r)" "te_status (cancelled_copy now r) = TaskStatusCancelRequested"
  "te_cancel_requested_at (cancelled_copy now r) = Some now"
  by (simp_all add: cancelled_copy_def)

lemma cancel_write_frame:
  assumes "map_of (ts_runs t) i = Some r"
  shows "ts_store (cancel_write now i t) = UpdateExecution (cancelled_copy now r) (ts_store t)"
    "ts_active (cancel_write now i t) = ts_active t" "ts_threads (cancel_write now i t) = ts_threads t"
    "ts_cancels (cancel_write now i t) = remove1 i (ts_cancels t)"
    "map_of (ts_runs (cancel_write now i t)) j =
       (if j = i then Some (r\<lparr>ar_execution := cancelled_copy now r, ar_cancelled := True\<rparr>) else map_of (ts_runs t) j)"
  using assms by (simp_all add: cancel_write_def Let_def cancelled_copy_def)

lemma cancel_write_none: "map_of (ts_runs t) i = None \<Longrightarrow> cancel_write now i t = t"
  by (simp add: cancel_write_def)

lemma blank_execution_fields [simp]:
  "te_id (blank_execution i now) = i" "te_status (blank_execution i now) = TaskStatusQueued"
  by (simp_all add: blank_execution_def)

lemma store_other [simp]:
  "GetExecution j (UpsertLineage l s) = GetExecution j s" "GetExecution j (InsertBaselineHistory b s) = GetExecution j s"
  "GetExecution j (InsertMetricPoints ps s) = GetExecution j s"
  "ListEventsAfter j n (UpsertLineage l s) = ListEventsAfter j n s"
  "ListEventsAfter j n (InsertBaselineHistory b s) = ListEventsAfter j n s"
  "ListEventsAfter j n (InsertMetricPoints ps s) = ListEventsAfter j n s"
  by (simp_all add: GetExecution_def UpsertLineage_def InsertBaselineHistory_def InsertMetricPoints_def
      ListEventsAfter_def events_of_def)

section \<open>Invariants\<close>

definition final_statuses :: "string set" where
  "final_statuses = {TaskStatusSucceeded, TaskStatusFailed, TaskStatusCancelRequested}"

definition used_statuses :: "string set" where
  "used_statuses = {TaskStatusQueued, TaskStatusRunning} \<union> final_statuses"

text \<open>Records carry their id, and statuses fit the place of the goroutine.\<close>

definition typed :: "task_system \<Rightarrow> bool" where
  "typed t \<longleftrightarrow>
     (\<forall>i e. GetExecution i (ts_store t) = Inr e \<longrightarrow> te_id e = i \<and> te_status e \<in> used_statuses) \<and>
     (\<forall>i r. map_of (ts_runs t) i = Some r \<longrightarrow>
        te_id (ar_execution r) = i \<and> te_status (ar_execution r) \<in> used_statuses) \<and>
     (\<forall>i th. map_of (ts_threads t) i = Some th \<longrightarrow>
        te_id (th_exec th) = i \<and> te_status (th_exec th) \<in> used_statuses \<and>
        (th_pc th \<in> {AtStore, AtExit, Gone} \<longrightarrow> te_status (th_exec th) \<in> final_statuses))"

text \<open>A run is active until its goroutine is gone, and then its stored status is final.\<close>

definition stored_final :: "string \<Rightarrow> mem_store \<Rightarrow> bool" where
  "stored_final i s = (case GetExecution i s of Inr e \<Rightarrow> te_status e \<in> final_statuses | Inl _ \<Rightarrow> False)"

definition run_ok :: "string \<Rightarrow> task_system \<Rightarrow> bool" where
  "run_ok i t \<longleftrightarrow>
     (case map_of (ts_threads t) i of
        None \<Rightarrow> i \<notin> set (ts_active t) \<and> map_of (ts_runs t) i = None \<and> i \<notin> set (ts_cancels t)
      | Some th \<Rightarrow> (i \<in> set (ts_active t)) = (th_pc th \<noteq> Gone) \<and> map_of (ts_runs t) i \<noteq> None \<and>
          (th_pc th \<in> {AtExit, Gone} \<longrightarrow> stored_final i (ts_store t)))"

definition lifecycle :: "task_system \<Rightarrow> bool" where
  "lifecycle t \<longleftrightarrow> (\<forall>i. run_ok i t)"

definition numbered_run :: "string \<Rightarrow> task_system \<Rightarrow> bool" where
  "numbered_run i t \<longleftrightarrow> (\<exists>n. seq_of i t = int n \<and> mem.numbered i n (ts_store t))"

lemma status_sets [simp]:
  "TaskStatusQueued \<in> used_statuses" "TaskStatusRunning \<in> used_statuses" "TaskStatusSucceeded \<in> used_statuses"
  "TaskStatusFailed \<in> used_statuses" "TaskStatusCancelRequested \<in> used_statuses"
  "TaskStatusSucceeded \<in> final_statuses" "TaskStatusFailed \<in> final_statuses" "TaskStatusCancelRequested \<in> final_statuses"
  "TaskStatusRunning \<notin> final_statuses" "TaskStatusQueued \<notin> final_statuses" "TaskStatusCancelled \<notin> used_statuses"
  by (simp_all add: used_statuses_def final_statuses_def task_status_defs)

lemma final_used: "s \<in> final_statuses \<Longrightarrow> s \<in> used_statuses"
  by (simp add: used_statuses_def)

lemmas run_defs = run_begin_def run_announce_def run_return_def run_decide_def run_report_def run_store_def

lemma typed_init: "typed (NewManager NewInMemoryStore)"
  by (simp add: typed_def NewManager_def NewInMemoryStore_def GetExecution_def)

lemma typed_thread:
  "typed t \<Longrightarrow> map_of (ts_threads t) i = Some th \<Longrightarrow> te_id (th_exec th) = i \<and> te_status (th_exec th) \<in> used_statuses \<and>
     (th_pc th \<in> {AtStore, AtExit, Gone} \<longrightarrow> te_status (th_exec th) \<in> final_statuses)"
  by (simp add: typed_def)

lemma typed_put_thread:
  "typed t \<Longrightarrow> te_id (th_exec th) = i \<Longrightarrow> te_status (th_exec th) \<in> used_statuses \<Longrightarrow>
     (th_pc th \<in> {AtStore, AtExit, Gone} \<Longrightarrow> te_status (th_exec th) \<in> final_statuses) \<Longrightarrow> typed (put_thread i th t)"
  by (simp add: typed_def)

lemma typed_store_exec: "typed t \<Longrightarrow> te_status e \<in> used_statuses \<Longrightarrow> typed (store_exec e t)"
  by (simp add: typed_def mem.get_update)

lemma typed_Emit: "typed t \<Longrightarrow> typed (Emit now i ev t)"
  unfolding typed_def by auto

lemma typed_exit: "typed t \<Longrightarrow> map_of (ts_threads t) i = Some th \<Longrightarrow> th_pc th = AtExit \<Longrightarrow> typed (run_exit i th t)"
  unfolding typed_def by auto

lemma typed_run_step: "run_step i t t' \<Longrightarrow> typed t \<Longrightarrow> typed t'"
  by (induction rule: run_step.induct; frule (1) typed_thread)
    (auto simp: run_defs Let_def final_used split: option.split
      intro!: typed_put_thread typed_store_exec typed_Emit typed_exit)

lemma typed_create:
  "typed t \<Longrightarrow> te_status e \<in> used_statuses \<Longrightarrow> typed (t\<lparr>ts_store := CreateExecution e (ts_store t)\<rparr>)"
  by (simp add: typed_def mem.get_create)

lemma typed_startRun: "typed t \<Longrightarrow> te_status e \<in> used_statuses \<Longrightarrow> typed (startRun e req t)"
  by (simp add: typed_def)

lemma retry_fields [simp]:
  "te_id (retry_execution i now orig actor e) = i" "te_status (retry_execution i now orig actor e) = TaskStatusQueued"
  by (simp_all add: retry_execution_def)

lemma typed_Submit: "typed t \<Longrightarrow> typed (snd (Submit marshal i now req t))"
  by (auto simp: Submit_def Let_def split: option.split intro!: typed_startRun typed_create)

lemma typed_Retry: "typed t \<Longrightarrow> typed (snd (Retry i now orig actor t))"
  by (auto simp: Retry_def Let_def split: option.split sum.split intro!: typed_startRun typed_create)

lemma typed_cancel_write: "typed t \<Longrightarrow> typed (cancel_write now i t)"
  by (cases "map_of (ts_runs t) i") (auto simp: cancel_write_none typed_def cancel_write_frame mem.get_update)

text \<open>The steps that touch no execution, no run and no goroutine.\<close>

definition same_runs :: "task_system \<Rightarrow> task_system \<Rightarrow> bool" where
  "same_runs t t' \<longleftrightarrow> ts_runs t' = ts_runs t \<and> ts_threads t' = ts_threads t \<and> ts_active t' = ts_active t \<and>
     (\<forall>i. GetExecution i (ts_store t') = GetExecution i (ts_store t)) \<and>
     (\<forall>i n. ListEventsAfter i n (ts_store t') = ListEventsAfter i n (ts_store t))"

lemma same_runs_steps:
  "same_runs t (t\<lparr>ts_store := UpsertLineage l (ts_store t)\<rparr>)" "same_runs t (t\<lparr>ts_store := InsertBaselineHistory b (ts_store t)\<rparr>)"
  "same_runs t (t\<lparr>ts_store := InsertMetricPoints ps (ts_store t)\<rparr>)" "same_runs t (RegisterRunner ty name t)"
  "same_runs t (snd (cancel_lookup i t))" "same_runs t (subscribe_add i evs t)" "same_runs t (unsubscribe_run n t)"
  "same_runs t (read_event n t)"
  by (simp_all add: same_runs_def RegisterRunner_def cancel_lookup_def subscribe_add_def unsubscribe_run_def read_event_def)

lemma typed_same_runs: "same_runs t t' \<Longrightarrow> typed t \<Longrightarrow> typed t'"
  by (simp add: typed_def same_runs_def)

lemma typed_step: "tm_step t t' \<Longrightarrow> typed t \<Longrightarrow> typed t'"
  by (induction rule: tm_step.induct)
    (blast intro: typed_run_step typed_Emit typed_Submit typed_Retry typed_cancel_write typed_same_runs same_runs_steps)+

section \<open>The life cycle\<close>

lemma stored_final_simps [simp]:
  "stored_final i (UpdateExecution e s) = (if i = te_id e then te_status e \<in> final_statuses else stored_final i s)"
  "stored_final i (CreateExecution e s) = (if i = te_id e then te_status e \<in> final_statuses else stored_final i s)"
  "stored_final i (ts_store (Emit now j ev t)) = stored_final i (ts_store t)"
  by (simp_all add: stored_final_def mem.get_update mem.get_create)

lemma lifecycle_init: "lifecycle (NewManager NewInMemoryStore)"
  by (simp add: lifecycle_def run_ok_def NewManager_def)

lemma run_ok_Emit: "run_ok j (Emit now i ev t) = run_ok j t"
  by (auto simp: run_ok_def split: option.split)

lemma run_ok_run_step: "run_step i t t' \<Longrightarrow> typed t \<Longrightarrow> run_ok j t \<Longrightarrow> run_ok j t'"
  by (induction rule: run_step.induct; frule (1) typed_thread; cases "i = j")
    (auto simp: run_defs Let_def run_ok_def split: option.splits)

lemma run_ok_Submit: "fresh_id i t \<Longrightarrow> run_ok j t \<Longrightarrow> run_ok j (snd (Submit marshal i now req t))"
  by (auto simp: Submit_def Let_def run_ok_def fresh_id_def split: option.splits sum.splits)

lemma run_ok_Retry: "fresh_id i t \<Longrightarrow> run_ok j t \<Longrightarrow> run_ok j (snd (Retry i now orig actor t))"
  by (auto simp: Retry_def Let_def run_ok_def fresh_id_def split: option.splits sum.splits)

lemma run_ok_cancel_write: "typed t \<Longrightarrow> run_ok j t \<Longrightarrow> run_ok j (cancel_write now i t)"
  by (cases "map_of (ts_runs t) i")
    (auto simp: cancel_write_none run_ok_def cancel_write_frame typed_def split: option.splits)

lemma run_ok_same_runs: "same_runs t t' \<Longrightarrow> ts_cancels t' = ts_cancels t \<Longrightarrow> run_ok j t' = run_ok j t"
  by (simp add: run_ok_def same_runs_def stored_final_def split: option.split)

lemma run_ok_cancel_lookup: "run_ok j t \<Longrightarrow> run_ok j (snd (cancel_lookup i t))"
  by (auto simp: run_ok_def cancel_lookup_def split: option.splits)

lemma same_cancels [simp]:
  "ts_cancels (RegisterRunner ty name t) = ts_cancels t" "ts_cancels (subscribe_add i evs t) = ts_cancels t"
  "ts_cancels (unsubscribe_run n t) = ts_cancels t" "ts_cancels (read_event n t) = ts_cancels t"
  by (simp_all add: RegisterRunner_def subscribe_add_def unsubscribe_run_def read_event_def)

lemma run_ok_step: "tm_step t t' \<Longrightarrow> typed t \<Longrightarrow> run_ok j t \<Longrightarrow> run_ok j t'"
  by (induction rule: tm_step.induct)
    (simp_all add: run_ok_run_step run_ok_Emit run_ok_Submit run_ok_Retry run_ok_cancel_write run_ok_cancel_lookup
      run_ok_same_runs[OF same_runs_steps(1)] run_ok_same_runs[OF same_runs_steps(2)] run_ok_same_runs[OF same_runs_steps(3)]
      run_ok_same_runs[OF same_runs_steps(4)] run_ok_same_runs[OF same_runs_steps(6)] run_ok_same_runs[OF same_runs_steps(7)]
      run_ok_same_runs[OF same_runs_steps(8)])

section \<open>The numbering of events\<close>

lemma seq_of_simps [simp]:
  "seq_of i (put_thread j th t) = seq_of i t" "seq_of i (store_exec e t) = seq_of i t"
  "seq_of i (t\<lparr>ts_store := s\<rparr>) = seq_of i t" "seq_of i (run_exit j th t) = seq_of i t"
  "seq_of i (startRun e req t) = (if i = te_id e then 0 else seq_of i t)"
  by (auto simp: seq_of_def split: option.split)

lemma seq_of_cancel_write [simp]: "seq_of i (cancel_write now j t) = seq_of i t"
  by (cases "map_of (ts_runs t) j") (auto simp: cancel_write_none cancel_write_frame seq_of_def)

lemma numbered_init: "numbered_run i (NewManager NewInMemoryStore)"
  by (simp add: numbered_run_def seq_of_def NewManager_def mem.numbered_def ListEventsAfter_def events_of_def
      NewInMemoryStore_def)

lemma Emit_some:
  assumes "map_of (ts_runs t) i = Some r"
  shows "ts_store (Emit now i ev t) =
      AppendEvent (ev\<lparr>tev_sequence := ar_seq r + 1, tev_execution := i, tev_created_at := now\<rparr>) (ts_store t)"
    "seq_of j (Emit now i ev t) = (if j = i then ar_seq r + 1 else seq_of j t)"
  using assms by (simp_all add: Emit_def Let_def seq_of_def update_conv)

lemma Emit_none: "map_of (ts_runs t) i = None \<Longrightarrow> Emit now i ev t = t"
  by (simp add: Emit_def)

lemma numbered_Emit: "numbered_run j t \<Longrightarrow> numbered_run j (Emit now i ev t)"
proof (cases "map_of (ts_runs t) i")
  case (Some r)
  assume "numbered_run j t"
  then obtain n where n: "seq_of j t = int n" "mem.numbered j n (ts_store t)" by (auto simp: numbered_run_def)
  show ?thesis
  proof (cases "j = i")
    case True
    then have "ar_seq r = int n" using n(1) Some by (simp add: seq_of_def)
    with True Some n(2) show ?thesis unfolding numbered_run_def
      by (intro exI[of _ "Suc n"]) (auto simp: Emit_some intro!: mem.numbered_append)
  next
    case False
    with Some n show ?thesis by (auto simp: numbered_run_def Emit_some mem.numbered_other)
  qed
qed (simp add: Emit_none)

lemma numbered_run_writes [simp]:
  "numbered_run i (put_thread j th t) = numbered_run i t" "numbered_run i (store_exec e t) = numbered_run i t"
  "numbered_run i (run_exit j th t) = numbered_run i t"
  "numbered_run i (t\<lparr>ts_store := CreateExecution e (ts_store t)\<rparr>) = numbered_run i t"
  "numbered_run i (cancel_write now j t) = numbered_run i t"
  by (cases "map_of (ts_runs t) j";
      simp add: numbered_run_def mem.numbered_writes cancel_write_none cancel_write_frame)+

lemma numbered_run_step: "run_step i t t' \<Longrightarrow> numbered_run j t \<Longrightarrow> numbered_run j t'"
  by (induction rule: run_step.induct) (auto simp: run_defs Let_def numbered_Emit split: option.split)

lemma numbered_startRun:
  "numbered_run j t \<Longrightarrow> fresh_id (te_id e) t' \<Longrightarrow> ts_runs t' = ts_runs t \<Longrightarrow> numbered_run j (startRun e req t)"
  by (auto simp: numbered_run_def fresh_id_def seq_of_def)

lemma numbered_Submit: "fresh_id i t \<Longrightarrow> numbered_run j t \<Longrightarrow> numbered_run j (snd (Submit marshal i now req t))"
  by (auto simp: Submit_def Let_def split: option.split intro!: numbered_startRun[where t' = t])

lemma numbered_Retry: "fresh_id i t \<Longrightarrow> numbered_run j t \<Longrightarrow> numbered_run j (snd (Retry i now orig actor t))"
  by (auto simp: Retry_def Let_def split: option.split sum.split intro!: numbered_startRun[where t' = t])

lemma numbered_same_runs: "same_runs t t' \<Longrightarrow> numbered_run j t \<Longrightarrow> numbered_run j t'"
  by (simp add: numbered_run_def same_runs_def seq_of_def mem.numbered_def)

lemma numbered_step: "tm_step t t' \<Longrightarrow> numbered_run j t \<Longrightarrow> numbered_run j t'"
  by (induction rule: tm_step.induct)
    (simp_all add: numbered_run_step numbered_Emit numbered_Submit numbered_Retry
      same_runs_steps[THEN numbered_same_runs])

section \<open>Reachable states\<close>

lemma reach_inv:
  assumes "tm_step\<^sup>*\<^sup>* (NewManager NewInMemoryStore) t"
  shows "typed t" "run_ok i t" "numbered_run i t"
proof -
  from assms have "typed t \<and> (\<forall>i. run_ok i t) \<and> (\<forall>i. numbered_run i t)"
    by (induction rule: rtranclp_induct)
      (use lifecycle_init in \<open>auto simp: lifecycle_def typed_init numbered_init intro: typed_step run_ok_step numbered_step\<close>)
  then show "typed t" "run_ok i t" "numbered_run i t" by auto
qed

lemma typed_steps: "tm_step\<^sup>*\<^sup>* t t' \<Longrightarrow> typed t \<Longrightarrow> typed t'"
  by (induction rule: rtranclp_induct) (auto intro: typed_step)

text \<open>A step leaves the record of an execution alone that nobody works on.\<close>

definition at_rest :: "string \<Rightarrow> task_execution \<Rightarrow> task_system \<Rightarrow> bool" where
  "at_rest i e t \<longleftrightarrow> (\<exists>th. map_of (ts_threads t) i = Some th \<and> th_pc th = Gone) \<and> i \<notin> set (ts_cancels t) \<and>
     i \<notin> set (ts_active t) \<and> GetExecution i (ts_store t) = Inr e"

lemma at_rest_run_step: "run_step j t t' \<Longrightarrow> typed t \<Longrightarrow> at_rest i e t \<Longrightarrow> at_rest i e t'"
  by (induction rule: run_step.induct; frule (1) typed_thread; cases "i = j")
    (auto simp: run_defs Let_def at_rest_def mem.get_update split: option.splits)

lemma at_rest_same_runs: "same_runs t t' \<Longrightarrow> ts_cancels t' = ts_cancels t \<Longrightarrow> at_rest i e t' = at_rest i e t"
  by (simp add: at_rest_def same_runs_def)

lemma at_rest_cancel_write: "typed t \<Longrightarrow> j \<in> set (ts_cancels t) \<Longrightarrow> at_rest i e t \<Longrightarrow> at_rest i e (cancel_write now j t)"
  by (cases "map_of (ts_runs t) j")
    (auto simp: cancel_write_none at_rest_def cancel_write_frame typed_def mem.get_update)

lemma at_rest_others:
  "at_rest i e t \<Longrightarrow> at_rest i e (Emit now j ev t)"
  "at_rest i e t \<Longrightarrow> fresh_id j t \<Longrightarrow> at_rest i e (snd (Submit marshal j now req t))"
  "at_rest i e t \<Longrightarrow> fresh_id j t \<Longrightarrow> at_rest i e (snd (Retry j now orig actor t))"
  "at_rest i e t \<Longrightarrow> at_rest i e (snd (cancel_lookup j t))"
  by (auto simp: at_rest_def Submit_def Retry_def fresh_id_def Let_def mem.get_create cancel_lookup_def
      split: option.splits sum.splits)

lemma at_rest_step: "tm_step t t' \<Longrightarrow> typed t \<Longrightarrow> at_rest i e t \<Longrightarrow> at_rest i e t'"
  by (induction rule: tm_step.induct)
    (simp_all add: at_rest_run_step at_rest_cancel_write at_rest_others at_rest_same_runs[OF same_runs_steps(1)]
      at_rest_same_runs[OF same_runs_steps(2)] at_rest_same_runs[OF same_runs_steps(3)]
      at_rest_same_runs[OF same_runs_steps(4)] at_rest_same_runs[OF same_runs_steps(6)]
      at_rest_same_runs[OF same_runs_steps(7)] at_rest_same_runs[OF same_runs_steps(8)])

lemma at_rest_steps: "tm_step\<^sup>*\<^sup>* t t' \<Longrightarrow> typed t \<Longrightarrow> at_rest i e t \<Longrightarrow> at_rest i e t'"
  by (induction rule: rtranclp_induct) (auto intro: at_rest_step typed_steps)

section \<open>Cancelling a running execution\<close>

text \<open>The cancellation is recorded and the goroutine will see it, or has seen it.\<close>

definition cancel_kept :: "string \<Rightarrow> task_system \<Rightarrow> bool" where
  "cancel_kept i t \<longleftrightarrow>
     (\<exists>e. GetExecution i (ts_store t) = Inr e \<and> te_status e = TaskStatusCancelRequested) \<and>
     (\<exists>th. map_of (ts_threads t) i = Some th \<and>
        (case th_pc th of AtStart \<Rightarrow> False | AtReport c err \<Rightarrow> c
         | AtStore \<Rightarrow> te_status (th_exec th) = TaskStatusCancelRequested | _ \<Rightarrow> True))"

lemma cancel_kept_run_step: "run_step j t t' \<Longrightarrow> typed t \<Longrightarrow> cancel_kept i t \<Longrightarrow> cancel_kept i t'"
  by (induction rule: run_step.induct; frule (1) typed_thread; cases "i = j")
    (auto simp: run_defs Let_def cancel_kept_def mem.get_update user_cancelled_def split: option.splits)

lemma cancel_kept_same_runs: "same_runs t t' \<Longrightarrow> cancel_kept i t \<Longrightarrow> cancel_kept i t'"
  by (simp add: cancel_kept_def same_runs_def)

lemma cancel_kept_cancel_write: "typed t \<Longrightarrow> cancel_kept i t \<Longrightarrow> cancel_kept i (cancel_write now j t)"
  by (cases "map_of (ts_runs t) j")
    (auto simp: cancel_write_none cancel_kept_def cancel_write_frame typed_def mem.get_update)

lemma cancel_kept_others:
  "cancel_kept i t \<Longrightarrow> cancel_kept i (Emit now j ev t)"
  "cancel_kept i t \<Longrightarrow> fresh_id j t \<Longrightarrow> cancel_kept i (snd (Submit marshal j now req t))"
  "cancel_kept i t \<Longrightarrow> fresh_id j t \<Longrightarrow> cancel_kept i (snd (Retry j now orig actor t))"
  by (auto simp: cancel_kept_def Submit_def Retry_def fresh_id_def Let_def mem.get_create split: option.splits sum.splits)

lemma cancel_kept_step: "tm_step t t' \<Longrightarrow> typed t \<Longrightarrow> cancel_kept i t \<Longrightarrow> cancel_kept i t'"
  by (induction rule: tm_step.induct)
    (simp_all add: cancel_kept_run_step cancel_kept_cancel_write cancel_kept_others same_runs_steps[THEN cancel_kept_same_runs])

lemma cancel_kept_steps: "tm_step\<^sup>*\<^sup>* t t' \<Longrightarrow> typed t \<Longrightarrow> cancel_kept i t \<Longrightarrow> cancel_kept i t'"
  by (induction rule: rtranclp_induct) (auto intro: cancel_kept_step typed_steps)

end
