(* ===== verification/Task_Lifecycle.thy ===== *)
theory Task_Lifecycle
  imports Task_Manager
begin

text \<open>
  What the users of the task manager can rely on: the life cycle of an execution, the numbering of its
  events, and when a cancellation is seen.

  \<open>advance\<close> lets the goroutine of one run take its next action; it is one of the schedules that
  \<open>tm_step\<close> allows, and the concrete runs below are built with it.
\<close>

section \<open>A run on its own\<close>

definition advance :: "time \<Rightarrow> string option \<Rightarrow> string \<Rightarrow> task_system \<Rightarrow> task_system" where
  "advance now err i t =
     (case map_of (ts_threads t) i of
        None \<Rightarrow> t
      | Some th \<Rightarrow>
          (case th_pc th of
             AtStart \<Rightarrow> run_begin now i th t
           | AtAnnounce \<Rightarrow> run_announce now i th t
           | InRunner \<Rightarrow> run_return now err i th t
           | AtDecide er \<Rightarrow> run_decide er i th t
           | AtReport c er \<Rightarrow> run_report now c er i th t
           | AtStore \<Rightarrow> run_store i th t
           | AtExit \<Rightarrow> run_exit i th t
           | Gone \<Rightarrow> t))"

lemma advance_run_step:
  "map_of (ts_threads t) i = Some th \<Longrightarrow> th_pc th \<noteq> Gone \<Longrightarrow> run_step i t (advance now err i t)"
  by (auto simp: advance_def split: run_pc.split intro: run_step.intros)

lemma advance_step: "tm_step t (advance now err i t)"
proof (cases "\<exists>th. map_of (ts_threads t) i = Some th \<and> th_pc th \<noteq> Gone")
  case True
  then show ?thesis by (blast intro: advance_run_step step_run)
next
  case False
  then have "advance now err i t = t" by (auto simp: advance_def split: option.split)
  then show ?thesis by (simp add: step_query)
qed

lemma advance_steps: "tm_step\<^sup>*\<^sup>* t ((advance now err i ^^ n) t)"
  by (induction n) (auto intro: advance_step rtranclp.rtrancl_into_rtrancl)

section \<open>The goroutine moves on\<close>

fun rank :: "run_pc \<Rightarrow> nat" where
  "rank AtStart = 7"
| "rank AtAnnounce = 6"
| "rank InRunner = 5"
| "rank (AtDecide err) = 4"
| "rank (AtReport c err) = 3"
| "rank AtStore = 2"
| "rank AtExit = 1"
| "rank Gone = 0"

lemma rank_0 [simp]: "rank p = 0 \<longleftrightarrow> p = Gone"
  by (cases p) auto

definition at_rank :: "string \<Rightarrow> nat \<Rightarrow> task_system \<Rightarrow> bool" where
  "at_rank i n t \<longleftrightarrow> (\<exists>th. map_of (ts_threads t) i = Some th \<and> rank (th_pc th) \<le> n)"

lemma at_rank_run_step: "run_step j t t' \<Longrightarrow> at_rank i n t \<Longrightarrow> at_rank i n t'"
  by (induction rule: run_step.induct; cases "i = j")
    (auto simp: run_defs Let_def at_rank_def split: option.splits)

lemma at_rank_same_runs: "same_runs t t' \<Longrightarrow> at_rank i n t' = at_rank i n t"
  by (simp add: at_rank_def same_runs_def)

lemma at_rank_others:
  "at_rank i n t \<Longrightarrow> at_rank i n (Emit now j ev t)"
  "at_rank i n t \<Longrightarrow> fresh_id j t \<Longrightarrow> at_rank i n (snd (Submit marshal j now req t))"
  "at_rank i n t \<Longrightarrow> fresh_id j t \<Longrightarrow> at_rank i n (snd (Retry j now orig actor t))"
  by (auto simp: at_rank_def Submit_def Retry_def fresh_id_def Let_def split: option.splits sum.splits)

lemma at_rank_cancel_write: "at_rank i n (cancel_write now j t) = at_rank i n t"
  by (cases "map_of (ts_runs t) j") (auto simp: cancel_write_none at_rank_def cancel_write_frame)

lemma at_rank_step: "tm_step t t' \<Longrightarrow> at_rank i n t \<Longrightarrow> at_rank i n t'"
  by (induction rule: tm_step.induct)
    (simp_all add: at_rank_run_step at_rank_cancel_write at_rank_others same_runs_steps[THEN at_rank_same_runs])

lemma run_step_down: "run_step i t t' \<Longrightarrow> at_rank i (Suc n) t \<Longrightarrow> at_rank i n t'"
  by (induction rule: run_step.induct)
    (auto simp: run_defs Let_def at_rank_def split: option.splits)

text \<open>
  An infinite run of the service in which the goroutine of \<open>i\<close> is not starved: as long as it is there
  it takes a next action at some time (the runner of \<open>i\<close> returns).
\<close>

definition fair_run :: "string \<Rightarrow> (nat \<Rightarrow> task_system) \<Rightarrow> bool" where
  "fair_run i \<sigma> \<longleftrightarrow> (\<forall>n. tm_step (\<sigma> n) (\<sigma> (Suc n))) \<and>
     (\<forall>n th. map_of (ts_threads (\<sigma> n)) i = Some th \<and> th_pc th \<noteq> Gone \<longrightarrow> (\<exists>m\<ge>n. run_step i (\<sigma> m) (\<sigma> (Suc m))))"

lemma fair_reach: "fair_run i \<sigma> \<Longrightarrow> n \<le> m \<Longrightarrow> tm_step\<^sup>*\<^sup>* (\<sigma> n) (\<sigma> m)"
  by (induction m) (auto simp: fair_run_def le_Suc_eq intro: rtranclp.rtrancl_into_rtrancl)

lemma at_rank_later: "fair_run i \<sigma> \<Longrightarrow> n \<le> m \<Longrightarrow> at_rank i k (\<sigma> n) \<Longrightarrow> at_rank i k (\<sigma> m)"
  by (induction m) (auto simp: fair_run_def le_Suc_eq intro: at_rank_step)

lemma reaches_rank_0:
  assumes "fair_run i \<sigma>"
  shows "at_rank i k (\<sigma> n) \<Longrightarrow> \<exists>m\<ge>n. at_rank i 0 (\<sigma> m)"
proof (induction k arbitrary: n)
  case (Suc k)
  then obtain th where th: "map_of (ts_threads (\<sigma> n)) i = Some th" by (auto simp: at_rank_def)
  show ?case
  proof (cases "th_pc th = Gone")
    case True
    with th show ?thesis by (auto simp: at_rank_def)
  next
    case False
    with th assms obtain m where m: "m \<ge> n" "run_step i (\<sigma> m) (\<sigma> (Suc m))" by (auto simp: fair_run_def)
    have "at_rank i k (\<sigma> (Suc m))" using run_step_down m at_rank_later[OF assms m(1) Suc.prems] by blast
    from Suc.IH[OF this] m(1) show ?thesis by (meson Suc_leD le_trans)
  qed
qed auto

lemma advance_fair: "fair_run i (\<lambda>n. (advance now err i ^^ n) t)"
  unfolding fair_run_def by (auto simp: advance_step intro: advance_run_step)

section \<open>The copies of a run\<close>

text \<open>
  The goroutine never sees the time of a cancellation, and the copy that \<open>Cancel\<close> writes never gets
  the outcome of the goroutine.
\<close>

definition copies_apart :: "string \<Rightarrow> task_system \<Rightarrow> bool" where
  "copies_apart i t \<longleftrightarrow>
     (\<forall>th. map_of (ts_threads t) i = Some th \<longrightarrow> te_cancel_requested_at (th_exec th) = None) \<and>
     (\<forall>r. map_of (ts_runs t) i = Some r \<longrightarrow>
        te_started_at (ar_execution r) = None \<and> te_finished_at (ar_execution r) = None \<and> te_error_message (ar_execution r) = [])"

lemma copies_run_step: "run_step j t t' \<Longrightarrow> copies_apart i t \<Longrightarrow> copies_apart i t'"
  by (induction rule: run_step.induct; cases "i = j")
    (auto simp: run_defs Let_def copies_apart_def split: option.splits)

lemma copies_same_runs: "same_runs t t' \<Longrightarrow> copies_apart i t' = copies_apart i t"
  by (simp add: copies_apart_def same_runs_def)

lemma copies_others:
  "copies_apart i t \<Longrightarrow> copies_apart i (Emit now j ev t)"
  "copies_apart i t \<Longrightarrow> copies_apart i (snd (Submit marshal j now req t))"
  "copies_apart i t \<Longrightarrow> copies_apart i (snd (Retry j now orig actor t))"
  by (auto simp: copies_apart_def Submit_def Retry_def Let_def blank_execution_def retry_execution_def split: option.splits sum.splits)

lemma copies_cancel_write: "copies_apart i t \<Longrightarrow> copies_apart i (cancel_write now j t)"
  by (cases "map_of (ts_runs t) j")
    (auto simp: cancel_write_none copies_apart_def cancel_write_frame cancelled_copy_def)

lemma copies_step: "tm_step t t' \<Longrightarrow> copies_apart i t \<Longrightarrow> copies_apart i t'"
  by (induction rule: tm_step.induct)
    (simp_all add: copies_run_step copies_cancel_write copies_others same_runs_steps[THEN copies_same_runs])

lemma copies_init: "copies_apart i (NewManager NewInMemoryStore)"
  by (simp add: copies_apart_def NewManager_def)

lemma copies_reach: "tm_step\<^sup>*\<^sup>* (NewManager NewInMemoryStore) t \<Longrightarrow> copies_apart i t"
  by (induction rule: rtranclp_induct) (auto intro: copies_step copies_init)

lemma copies_thread:
  "copies_apart i t \<Longrightarrow> map_of (ts_threads t) i = Some th \<Longrightarrow> te_cancel_requested_at (th_exec th) = None"
  by (simp add: copies_apart_def)

section \<open>A whole run\<close>

lemma advance_cancels: "ts_cancels (advance now err i t) = ts_cancels t"
  by (simp add: advance_def run_defs Let_def split: option.split run_pc.split)

lemma advance_down:
  assumes "at_rank i (Suc n) t"
  shows "at_rank i n (advance now err i t)"
proof -
  obtain th where th: "map_of (ts_threads t) i = Some th" using assms by (auto simp: at_rank_def)
  show ?thesis
  proof (cases "th_pc th = Gone")
    case True
    with th show ?thesis by (simp add: advance_def at_rank_def)
  qed (use run_step_down[OF advance_run_step[OF th] assms] in blast)
qed

lemma advance_to_end:
  assumes "map_of (ts_threads t) i = Some th"
  shows "map_option th_pc (map_of (ts_threads ((advance now err i ^^ 7) t)) i) = Some Gone"
    "ts_cancels ((advance now err i ^^ 7) t) = ts_cancels t"
proof -
  have "rank (th_pc th) \<le> 7" by (cases "th_pc th") auto
  with assms have start: "at_rank i 7 t" by (auto simp: at_rank_def)
  have "n \<le> 7 \<Longrightarrow> at_rank i (7 - n) ((advance now err i ^^ n) t)" for n
  proof (induction n)
    case (Suc n)
    then have "7 - n = Suc (7 - Suc n)" by simp
    with Suc show ?case by (simp add: advance_down)
  qed (use start in simp)
  from this[of 7] show "map_option th_pc (map_of (ts_threads ((advance now err i ^^ 7) t)) i) = Some Gone"
    by (auto simp: at_rank_def)
  have "ts_cancels ((advance now err i ^^ n) t) = ts_cancels t" for n by (induction n) (simp_all add: advance_cancels)
  then show "ts_cancels ((advance now err i ^^ 7) t) = ts_cancels t" .
qed

section \<open>A concrete service\<close>

definition demo_request :: submit_request where
  "demo_request = \<lparr>sr_task_type = ''backtest'', sr_actor = ''ops'', sr_actor_source = ''web_ui'', sr_payload = [],
     sr_confirmed = True, sr_idempotency_key = []\<rparr>"

definition demo_ready :: task_system where
  "demo_ready = RegisterRunner ''backtest'' ''atlas backtest'' (NewManager NewInMemoryStore)"

definition demo_start :: task_system where
  "demo_start = snd (Submit (\<lambda>p. None) ''e1'' 5 demo_request demo_ready)"

definition demo :: "nat \<Rightarrow> task_system" where
  "demo n = (advance 9 None ''e1'' ^^ n) demo_start"

lemma demo_start_reach: "tm_step\<^sup>*\<^sup>* (NewManager NewInMemoryStore) demo_start"
proof -
  have "tm_step (NewManager NewInMemoryStore) demo_ready" unfolding demo_ready_def by (rule step_register)
  moreover have "fresh_id ''e1'' demo_ready" by code_simp
  then have "tm_step demo_ready demo_start" unfolding demo_start_def by (rule step_submit)
  ultimately show ?thesis by auto
qed

lemma demo_reach: "tm_step\<^sup>*\<^sup>* (NewManager NewInMemoryStore) (demo n)"
  unfolding demo_def using demo_start_reach advance_steps by (rule rtranclp_trans)

lemma demo_thread: "\<exists>th. map_of (ts_threads demo_start) ''e1'' = Some th \<and> th_pc th = AtStart"
proof -
  have "map_option th_pc (map_of (ts_threads demo_start) ''e1'') = Some AtStart" by code_simp
  then show ?thesis by auto
qed

lemma lookup_reach: "tm_step\<^sup>*\<^sup>* s t \<Longrightarrow> tm_step\<^sup>*\<^sup>* s (snd (cancel_lookup i t))"
  by (rule rtranclp.rtrancl_into_rtrancl) (auto intro: step_cancel)

lemma write_reach: "tm_step\<^sup>*\<^sup>* s t \<Longrightarrow> i \<in> set (ts_cancels t) \<Longrightarrow> tm_step\<^sup>*\<^sup>* s (cancel_write now i t)"
  by (rule rtranclp.rtrancl_into_rtrancl) (auto intro: step_cancel_write)

lemma advance_reach: "tm_step\<^sup>*\<^sup>* s t \<Longrightarrow> tm_step\<^sup>*\<^sup>* s ((advance now err i ^^ n) t)"
  using advance_steps by (rule rtranclp_trans[rotated])

section \<open>Executions\<close>

text \<open>
  C37 (type). Every execution stored by the service is kept under its own id and has one of the five
  statuses queued, running, succeeded, failed and cancel_requested; the declared status cancelled is never used.
\<close>

theorem stored_statuses:
  assumes "tm_step\<^sup>*\<^sup>* (NewManager NewInMemoryStore) t" "GetExecution i (ts_store t) = Inr e"
  shows "te_id e = i \<and>
    te_status e \<in> {TaskStatusQueued, TaskStatusRunning, TaskStatusSucceeded, TaskStatusFailed, TaskStatusCancelRequested} \<and>
    te_status e \<noteq> TaskStatusCancelled"
proof -
  have "te_id e = i \<and> te_status e \<in> used_statuses" using reach_inv(1)[OF assms(1)] assms(2) by (simp add: typed_def)
  then show ?thesis by (auto simp: used_statuses_def final_statuses_def task_status_defs)
qed

lemma stored_statuses_witness:
  "\<exists>e. GetExecution ''e1'' (ts_store (demo 2)) = Inr e \<and> te_id e = ''e1'' \<and> te_status e \<noteq> TaskStatusCancelled"
proof -
  have "\<not> isl (GetExecution ''e1'' (ts_store (demo 2)))" by code_simp
  then obtain e where e: "GetExecution ''e1'' (ts_store (demo 2)) = Inr e" by (cases "GetExecution ''e1'' (ts_store (demo 2))") auto
  from stored_statuses[OF demo_reach e] e show ?thesis by blast
qed

text \<open>
  The events kept of an execution are numbered 1, 2, 3, ... in the order in which they were
  emitted, whatever the interleaving of the service and its runners.
\<close>

theorem events_in_order:
  assumes "tm_step\<^sup>*\<^sup>* (NewManager NewInMemoryStore) t"
  shows "map tev_sequence (ListEvents i t) = map int [1..<Suc (length (ListEvents i t))]"
proof -
  obtain n where "map tev_sequence (ListEvents i t) = map int [1..<Suc n]"
    using reach_inv(3)[OF assms, of i] by (auto simp: numbered_run_def mem.numbered_def ListEvents_def)
  then show ?thesis by (metis length_map length_upt diff_Suc_1)
qed

lemma events_in_order_witness:
  "map tev_sequence (ListEvents ''e1'' (Emit 9 ''e1'' (system_event TaskEventProgress [] ''half'' []) (demo 2))) = [1, 2]"
proof -
  let ?t = "Emit 9 ''e1'' (system_event TaskEventProgress [] ''half'' []) (demo 2)"
  have "map_option th_pc (map_of (ts_threads (demo 2)) ''e1'') = Some InRunner" by code_simp
  then have "tm_step (demo 2) ?t" by (auto intro: step_emit)
  then have "tm_step\<^sup>*\<^sup>* (NewManager NewInMemoryStore) ?t" using demo_reach by (rule rtranclp.rtrancl_into_rtrancl[rotated])
  moreover have "length (ListEvents ''e1'' ?t) = 2" by code_simp
  ultimately show ?thesis using events_in_order[of ?t "''e1''"] by (simp add: upt_rec)
qed

text \<open>
  C28 (safety). Once the goroutine of an execution is gone and no \<open>Cancel\<close> of it is under way, the stored record has a final
  status and nothing that the service does later changes it.
\<close>

theorem final_status_stable:
  assumes "tm_step\<^sup>*\<^sup>* (NewManager NewInMemoryStore) t" "tm_step\<^sup>*\<^sup>* t t'"
    and "map_of (ts_threads t) i = Some th" "th_pc th = Gone" "i \<notin> set (ts_cancels t)"
  shows "\<exists>e. Get i t = Inr e \<and> te_status e \<in> final_statuses \<and> Get i t' = Inr e"
proof -
  have ok: "run_ok i t" by (rule reach_inv[OF assms(1)])
  with assms(3,4) obtain e where e: "GetExecution i (ts_store t) = Inr e" "te_status e \<in> final_statuses"
    by (auto simp: run_ok_def stored_final_def split: sum.splits)
  have "at_rest i e t" using e ok assms(3-5) by (auto simp: at_rest_def run_ok_def)
  with at_rest_steps[OF assms(2) reach_inv(1)[OF assms(1)]] e show ?thesis by (auto simp: at_rest_def Get_def)
qed

text \<open>
  C30 (safety). A cancellation that is stored while the runner works is kept: whatever happens later, the
  stored status stays cancel_requested.
\<close>

theorem cancel_not_lost:
  assumes "tm_step\<^sup>*\<^sup>* (NewManager NewInMemoryStore) t" "map_of (ts_threads t) i = Some th" "th_pc th = InRunner"
    and "i \<in> set (ts_cancels t)" "tm_step\<^sup>*\<^sup>* (cancel_write now i t) t'"
  shows "\<exists>e. Get i t' = Inr e \<and> te_status e = TaskStatusCancelRequested"
proof -
  have ty: "typed t" and "run_ok i t" by (rule reach_inv[OF assms(1)])+
  with assms(2) obtain r where r: "map_of (ts_runs t) i = Some r" by (auto simp: run_ok_def)
  have "cancel_kept i (cancel_write now i t)"
    using ty r assms(2,3) by (auto simp: cancel_kept_def cancel_write_frame mem.get_update typed_def)
  from cancel_kept_steps[OF assms(5) typed_cancel_write[OF ty] this] show ?thesis by (simp add: cancel_kept_def Get_def)
qed

text \<open>
  C29 (liveness). On an infinite run of the service on which the goroutine of an execution is not starved (its
  runner returns), the execution is at some time no longer active, and from then on its stored status is final.
\<close>

theorem run_ends:
  assumes "tm_step\<^sup>*\<^sup>* (NewManager NewInMemoryStore) (\<sigma> 0)" "fair_run i \<sigma>" "i \<in> set (ts_active (\<sigma> n))"
  shows "\<exists>m\<ge>n. \<forall>k\<ge>m. i \<notin> set (ts_active (\<sigma> k)) \<and> (\<exists>e. Get i (\<sigma> k) = Inr e \<and> te_status e \<in> final_statuses)"
proof -
  have ok: "run_ok i (\<sigma> k)" for k
    using reach_inv(2) rtranclp_trans[OF assms(1) fair_reach[OF assms(2)]] by blast
  obtain th where "map_of (ts_threads (\<sigma> n)) i = Some th"
    using ok[of n] assms(3) by (auto simp: run_ok_def split: option.splits)
  then have "at_rank i (rank (th_pc th)) (\<sigma> n)" by (auto simp: at_rank_def)
  from reaches_rank_0[OF assms(2) this] obtain m where m: "m \<ge> n" "at_rank i 0 (\<sigma> m)" by blast
  have "i \<notin> set (ts_active (\<sigma> k)) \<and> (\<exists>e. Get i (\<sigma> k) = Inr e \<and> te_status e \<in> final_statuses)" if "k \<ge> m" for k
    using ok[of k] at_rank_later[OF assms(2) that m(2)]
    by (auto simp: at_rank_def run_ok_def stored_final_def Get_def split: sum.splits)
  with m(1) show ?thesis by blast
qed

lemma final_status_stable_witness:
  "\<exists>e. Get ''e1'' (demo 7) = Inr e \<and> te_status e \<in> final_statuses \<and> Get ''e1'' (demo 8) = Inr e"
proof -
  have "map_option th_pc (map_of (ts_threads (demo 7)) ''e1'') = Some Gone"
    using demo_thread advance_to_end(1) unfolding demo_def by blast
  then obtain th where th: "map_of (ts_threads (demo 7)) ''e1'' = Some th" "th_pc th = Gone" by auto
  have "''e1'' \<notin> set (ts_cancels demo_start)" by code_simp
  then have "''e1'' \<notin> set (ts_cancels (demo 7))"
    using demo_thread advance_to_end(2) unfolding demo_def by metis
  moreover have "tm_step (demo 7) (demo 8)" using advance_step[of "demo 7"] by (simp add: demo_def eval_nat_numeral)
  ultimately show ?thesis using final_status_stable[OF demo_reach _ th] by blast
qed

lemma cancel_not_lost_witness:
  "\<exists>e. Get ''e1'' ((advance 9 None ''e1'' ^^ 5) (cancel_write 8 ''e1'' (snd (cancel_lookup ''e1'' (demo 2))))) = Inr e \<and>
     te_status e = TaskStatusCancelRequested"
proof -
  let ?t = "snd (cancel_lookup ''e1'' (demo 2))"
  have "map_option th_pc (map_of (ts_threads ?t) ''e1'') = Some InRunner" by code_simp
  then obtain th where th: "map_of (ts_threads ?t) ''e1'' = Some th" "th_pc th = InRunner" by auto
  have "''e1'' \<in> set (ts_cancels ?t)" by code_simp
  from cancel_not_lost[OF lookup_reach[OF demo_reach] th this advance_steps] show ?thesis .
qed

lemma run_ends_witness:
  "\<exists>m\<ge>0. \<forall>k\<ge>m. ''e1'' \<notin> set (ts_active (demo k)) \<and> (\<exists>e. Get ''e1'' (demo k) = Inr e \<and> te_status e \<in> final_statuses)"
proof -
  have "''e1'' \<in> set (ts_active (demo 0))" by code_simp
  moreover have "fair_run ''e1'' demo" unfolding demo_def[abs_def] by (rule advance_fair)
  ultimately show ?thesis using run_ends[of demo, OF demo_reach] by blast
qed

text \<open>
  A cancellation that is stored before the goroutine has begun is lost: running on, the goroutine ends
  the execution as failed or succeeded, without a trace of the cancellation.
\<close>

theorem early_cancel_lost:
  assumes "tm_step\<^sup>*\<^sup>* (NewManager NewInMemoryStore) t" "map_of (ts_threads t) i = Some th" "th_pc th = AtStart"
    and "i \<in> set (ts_cancels t)"
  shows "\<exists>e. Get i ((advance now err i ^^ 7) (cancel_write c i t)) = Inr e \<and> te_cancel_requested_at e = None \<and>
    te_status e = (if err = None then TaskStatusSucceeded else TaskStatusFailed)"
proof -
  have "run_ok i t" by (rule reach_inv[OF assms(1)])
  with assms(2) obtain r where r: "map_of (ts_runs t) i = Some r" by (auto simp: run_ok_def)
  have clean: "te_id (th_exec th) = i" "te_cancel_requested_at (th_exec th) = None"
    using copies_reach[OF assms(1)] typed_thread[OF reach_inv(1)[OF assms(1)] assms(2)] assms(2) by (auto simp: copies_apart_def)
  let ?t = "cancel_write c i t"
  have "map_of (ts_threads ?t) i = Some th" using assms(2) r by (simp add: cancel_write_frame)
  then show ?thesis
    using assms(3) clean
    by (simp add: eval_nat_numeral advance_def run_defs Let_def mem.get_update user_cancelled_def Get_def task_status_defs
        split: option.split)
qed

text \<open>
  A \<open>Cancel\<close> that found the run active but writes after the goroutine is gone erases the outcome: the
  stored record says cancel_requested again, without start, finish or error, and no goroutine is left to correct it.
\<close>

theorem late_cancel_erases:
  assumes "tm_step\<^sup>*\<^sup>* (NewManager NewInMemoryStore) t" "map_of (ts_threads t) i = Some th" "th_pc th = Gone"
    and "i \<in> set (ts_cancels t)"
  shows "\<exists>e. Get i (cancel_write now i t) = Inr e \<and> te_status e = TaskStatusCancelRequested \<and> te_started_at e = None \<and>
    te_finished_at e = None \<and> te_error_message e = [] \<and> i \<notin> set (ts_active (cancel_write now i t))"
proof -
  have ok: "run_ok i t" by (rule reach_inv[OF assms(1)])
  with assms(2) obtain r where r: "map_of (ts_runs t) i = Some r" by (auto simp: run_ok_def)
  have "te_id (ar_execution r) = i" using reach_inv(1)[OF assms(1)] r by (simp add: typed_def)
  moreover have "i \<notin> set (ts_active t)" using ok assms(2,3) by (simp add: run_ok_def)
  ultimately show ?thesis
    using copies_reach[OF assms(1), of i] r
    by (simp add: copies_apart_def cancel_write_frame Get_def mem.get_update cancelled_copy_def)
qed

lemma early_cancel_lost_witness:
  "\<exists>e. Get ''e1'' ((advance 9 None ''e1'' ^^ 7) (cancel_write 8 ''e1'' (snd (cancel_lookup ''e1'' (demo 0))))) = Inr e \<and>
     te_cancel_requested_at e = None \<and> te_status e = TaskStatusSucceeded"
proof -
  let ?t = "snd (cancel_lookup ''e1'' (demo 0))"
  have "map_option th_pc (map_of (ts_threads ?t) ''e1'') = Some AtStart" by code_simp
  then obtain th where th: "map_of (ts_threads ?t) ''e1'' = Some th" "th_pc th = AtStart" by auto
  have "''e1'' \<in> set (ts_cancels ?t)" by code_simp
  from early_cancel_lost[OF lookup_reach[OF demo_reach] th this, of 9 None 8] show ?thesis by simp
qed

lemma late_cancel_erases_witness:
  "\<exists>e. Get ''e1'' (cancel_write 12 ''e1'' ((advance 9 None ''e1'' ^^ 7) (snd (cancel_lookup ''e1'' (demo 0))))) = Inr e \<and>
     te_status e = TaskStatusCancelRequested \<and> te_finished_at e = None"
proof -
  let ?s = "snd (cancel_lookup ''e1'' (demo 0))"
  let ?t = "(advance 9 None ''e1'' ^^ 7) ?s"
  have "map_option th_pc (map_of (ts_threads ?s) ''e1'') = Some AtStart" by code_simp
  then obtain th0 where s: "map_of (ts_threads ?s) ''e1'' = Some th0" "th_pc th0 = AtStart" by auto
  have "map_option th_pc (map_of (ts_threads ?t) ''e1'') = Some Gone" by (rule advance_to_end(1)[OF s(1)])
  then obtain th where th: "map_of (ts_threads ?t) ''e1'' = Some th" "th_pc th = Gone" by auto
  have "''e1'' \<in> set (ts_cancels ?s)" by code_simp
  then have "''e1'' \<in> set (ts_cancels ?t)" using advance_to_end(2)[OF s(1)] by simp
  from late_cancel_erases[OF advance_reach[OF lookup_reach[OF demo_reach]] th this, of 12] show ?thesis by blast
qed

section \<open>Retrying and subscribing\<close>

text \<open>A retry keeps the payload in the record, but its runner gets an empty one.\<close>

lemma Retry_drops_payload:
  assumes "Retry i now orig actor t = (Inr e, t')"
  shows "\<exists>original th. GetExecution orig (ts_store t) = Inr original \<and> te_request_payload e = te_request_payload original \<and>
    map_of (ts_threads t') i = Some th \<and> sr_payload (th_req th) = []"
  using assms by (auto simp: Retry_def Let_def retry_execution_def blank_execution_def split: sum.splits option.splits)

text \<open>A retry without a runner fails and leaves a queued record behind that no goroutine will ever work on.\<close>

lemma Retry_orphan:
  assumes "GetExecution orig (ts_store t) = Inr original" "map_of (ts_runners t) (te_task_type original) = None"
  shows "fst (Retry i now orig actor t) = Inl (NoRunner (te_task_type original))"
    "\<exists>e. GetExecution i (ts_store (snd (Retry i now orig actor t))) = Inr e \<and> te_status e = TaskStatusQueued"
    "ts_threads (snd (Retry i now orig actor t)) = ts_threads t"
  using assms by (simp_all add: Retry_def Let_def mem.get_create)

text \<open>\<open>Subscribe\<close> never returns for an execution with more than 100 stored events.\<close>

lemma subscribe_blocks: "100 < length (ListEvents i t) \<Longrightarrow> subscribe_replay i t = None"
  by (simp add: subscribe_replay_def ListEvents_def Let_def)

text \<open>An event emitted between the replay and the entry into the list never reaches the subscriber.\<close>

lemma subscribe_gap:
  assumes "subscribe_replay i t = Some evs" "map_of (ts_runs t) i \<noteq> None"
  shows "sub_chan (ts_subs (subscribe_add i evs (Emit now i ev t)) ! length (ts_subs t)) = ListEvents i t"
  using assms by (auto simp: subscribe_replay_def subscribe_add_def Emit_def Let_def ListEvents_def nth_append split: if_splits)

end
