(* ===== verification/Gateway_Breaker.thy ===== *)
theory Gateway_Breaker
  imports Atlas_Prelude
begin

text \<open>
  The circuit breaker of a data channel and the manager of all breakers
  (\<open>internal/apigateway/circuitbreaker.go\<close>).

  \<open>Call\<close> holds the lock before and after it runs its argument, not during it: \<open>admit\<close> and \<open>settle\<close>
  are the two critical sections, and \<open>Call\<close> composes them around the outcome of the argument.  An error is its text with
  the sentinels that \<open>errors.Is\<close> finds in it.
\<close>

section \<open>Errors\<close>

datatype sentinel = ErrNoData | ErrEmptyQuote | ErrQuotaExhausted | ErrFugleQuotaExhausted | ErrIPBanned | OtherSentinel

record fetch_error =
  fe_text :: string
  fe_wraps :: "sentinel list"

datatype gateway_error =
    CircuitOpen string
  | HalfOpenLimit string
  | UnknownChannel string
  | NotRegistered string
  | FetchFailed fetch_error

definition wraps :: "sentinel \<Rightarrow> gateway_error \<Rightarrow> bool" where
  "wraps s err = (case err of FetchFailed e \<Rightarrow> s \<in> set (fe_wraps e) | _ \<Rightarrow> False)"

definition isExpectedNonFailureErr :: "gateway_error \<Rightarrow> bool" where
  "isExpectedNonFailureErr err \<longleftrightarrow> wraps ErrNoData err \<or> wraps ErrEmptyQuote err"

section \<open>The breaker\<close>

definition CircuitBreakerFailureThreshold :: int where
  "CircuitBreakerFailureThreshold = 3"

definition CircuitBreakerRecoveryTimeout :: duration where
  "CircuitBreakerRecoveryTimeout = 300 * second"

definition CircuitBreakerHalfOpenMaxCalls :: int where
  "CircuitBreakerHalfOpenMaxCalls = 2"

datatype breaker_state = StateClosed | StateOpen | StateHalfOpen

record channel_breaker =
  gb_state :: breaker_state
  gb_failures :: int
  gb_last_failure :: time
  gb_half_open_calls :: int
  gb_channel :: string
  gb_max_failures :: int
  gb_manual_override :: bool

definition NewChannelBreaker :: "string \<Rightarrow> int list \<Rightarrow> channel_breaker" where
  "NewChannelBreaker channel maxFailures =
     \<lparr>gb_state = StateClosed, gb_failures = 0, gb_last_failure = zero_time, gb_half_open_calls = 0, gb_channel = channel,
      gb_max_failures = (case maxFailures of m # _ \<Rightarrow> if 0 < m then m else CircuitBreakerFailureThreshold
                         | [] \<Rightarrow> CircuitBreakerFailureThreshold),
      gb_manual_override = False\<rparr>"

definition admit :: "time \<Rightarrow> channel_breaker \<Rightarrow> gateway_error option \<times> channel_breaker" where
  "admit now cb =
     (if gb_state cb = StateOpen \<and> time_sub now (gb_last_failure cb) < CircuitBreakerRecoveryTimeout
      then (Some (CircuitOpen (gb_channel cb)), cb)
      else
        (let cb1 = (if gb_state cb = StateOpen then cb\<lparr>gb_state := StateHalfOpen, gb_half_open_calls := 0\<rparr> else cb)
         in if gb_state cb1 = StateHalfOpen \<and> CircuitBreakerHalfOpenMaxCalls \<le> gb_half_open_calls cb1
            then (Some (HalfOpenLimit (gb_channel cb1)), cb1)
            else (None, if gb_state cb1 = StateHalfOpen then cb1\<lparr>gb_half_open_calls := gb_half_open_calls cb1 + 1\<rparr> else cb1)))"

definition settle_call :: "time \<Rightarrow> gateway_error option \<Rightarrow> channel_breaker \<Rightarrow> channel_breaker" where
  "settle_call now outcome cb =
     (case outcome of
        Some err \<Rightarrow>
          (if isExpectedNonFailureErr err then cb
           else (let cb1 = cb\<lparr>gb_failures := gb_failures cb + 1, gb_last_failure := now\<rparr>
                 in if gb_max_failures cb1 \<le> gb_failures cb1 then cb1\<lparr>gb_state := StateOpen\<rparr> else cb1))
      | None \<Rightarrow>
          (let cb1 = cb\<lparr>gb_failures := 0\<rparr>
           in if gb_manual_override cb1 then cb1 else cb1\<lparr>gb_state := StateClosed, gb_half_open_calls := 0\<rparr>))"

definition Call :: "time \<Rightarrow> time \<Rightarrow> gateway_error option \<Rightarrow> channel_breaker \<Rightarrow> gateway_error option \<times> channel_breaker" where
  "Call before after outcome cb =
     (case admit before cb of
        (Some err, cb1) \<Rightarrow> (Some err, cb1)
      | (None, cb1) \<Rightarrow> (outcome, settle_call after outcome cb1))"

definition IsOpen :: "channel_breaker \<Rightarrow> bool" where
  "IsOpen cb \<longleftrightarrow> gb_state cb = StateOpen"

definition ForceOpen :: "time \<Rightarrow> channel_breaker \<Rightarrow> channel_breaker" where
  "ForceOpen now cb = cb\<lparr>gb_state := StateOpen, gb_last_failure := now, gb_failures := gb_max_failures cb\<rparr>"

definition SetManualOverride :: "bool \<Rightarrow> channel_breaker \<Rightarrow> channel_breaker" where
  "SetManualOverride enabled cb = cb\<lparr>gb_manual_override := enabled\<rparr>"

definition ResetBreaker :: "channel_breaker \<Rightarrow> channel_breaker" where
  "ResetBreaker cb = cb\<lparr>gb_state := StateClosed, gb_failures := 0, gb_half_open_calls := 0, gb_manual_override := False\<rparr>"

section \<open>The manager\<close>

type_synonym breaker_manager = "(string \<times> channel_breaker) list"

definition NewCircuitBreakerManagerWithThresholds ::
  "(string \<times> int) list \<Rightarrow> int \<Rightarrow> string list \<Rightarrow> breaker_manager" where
  "NewCircuitBreakerManagerWithThresholds thresholds dflt ids =
     fold (\<lambda>i. AList.update i (NewChannelBreaker i [case map_of thresholds i of Some t \<Rightarrow> t | None \<Rightarrow> dflt])) ids []"

definition NewCircuitBreakerManager :: "string list \<Rightarrow> breaker_manager" where
  "NewCircuitBreakerManager ids = NewCircuitBreakerManagerWithThresholds [] CircuitBreakerFailureThreshold ids"

definition get_breaker :: "string \<Rightarrow> breaker_manager \<Rightarrow> gateway_error + channel_breaker" where
  "get_breaker i m = (case map_of m i of Some cb \<Rightarrow> Inr cb | None \<Rightarrow> Inl (UnknownChannel i))"

definition force_open_channel :: "time \<Rightarrow> string \<Rightarrow> breaker_manager \<Rightarrow> gateway_error option \<times> breaker_manager" where
  "force_open_channel now i m =
     (case map_of m i of
        Some cb \<Rightarrow> (None, AList.update i (ForceOpen now cb) m)
      | None \<Rightarrow> (Some (UnknownChannel i), m))"

fun stateString :: "breaker_state \<Rightarrow> string" where
  "stateString StateClosed = ''closed''"
| "stateString StateOpen = ''open''"
| "stateString StateHalfOpen = ''half-open''"

record breaker_status =
  bs_channel :: string
  bs_state :: string
  bs_failures :: int
  bs_last_error :: time

definition breaker_statuses :: "breaker_manager \<Rightarrow> (string \<times> breaker_status) list" where
  "breaker_statuses m =
     map (\<lambda>(i, cb). (i, \<lparr>bs_channel = i, bs_state = stateString (gb_state cb), bs_failures = gb_failures cb,
                        bs_last_error = gb_last_failure cb\<rparr>)) m"

section \<open>Runs of a breaker\<close>

text \<open>
  The calls on a breaker as its users interleave them: a call that was let through settles at some later time, and
  \<open>bk_inflight\<close> counts the calls that have not settled yet.
\<close>

record breaker_run =
  bk_breaker :: channel_breaker
  bk_inflight :: nat

datatype breaker_event = Refused time | Admitted time | Settled time "gateway_error option"

inductive breaker_step :: "breaker_run \<Rightarrow> breaker_event \<Rightarrow> breaker_run \<Rightarrow> bool" where
  refused: "admit now (bk_breaker s) = (Some err, cb) \<Longrightarrow> breaker_step s (Refused now) (s\<lparr>bk_breaker := cb\<rparr>)"
| admitted: "admit now (bk_breaker s) = (None, cb) \<Longrightarrow>
    breaker_step s (Admitted now) (s\<lparr>bk_breaker := cb, bk_inflight := Suc (bk_inflight s)\<rparr>)"
| settled: "bk_inflight s = Suc n \<Longrightarrow>
    breaker_step s (Settled now outcome) (s\<lparr>bk_breaker := settle_call now outcome (bk_breaker s), bk_inflight := n\<rparr>)"

inductive breaker_trace :: "breaker_run \<Rightarrow> breaker_event list \<Rightarrow> breaker_run \<Rightarrow> bool" where
  trace_nil: "breaker_trace s [] s"
| trace_snoc: "breaker_trace s es s' \<Longrightarrow> breaker_step s' e s'' \<Longrightarrow> breaker_trace s (es @ [e]) s''"

inductive_cases breaker_stepE: "breaker_step s e s'"

definition fresh_run :: "string \<Rightarrow> int list \<Rightarrow> breaker_run" where
  "fresh_run channel maxFailures = \<lparr>bk_breaker = NewChannelBreaker channel maxFailures, bk_inflight = 0\<rparr>"

text \<open>The real failures since the last success.\<close>

definition count_event :: "breaker_event \<Rightarrow> int \<Rightarrow> int" where
  "count_event e n =
     (case e of Settled t None \<Rightarrow> 0 | Settled t (Some err) \<Rightarrow> if isExpectedNonFailureErr err then n else n + 1 | _ \<Rightarrow> n)"

definition failure_streak :: "breaker_event list \<Rightarrow> int" where
  "failure_streak es = fold count_event es 0"

lemma failure_streak_snoc [simp]: "failure_streak (es @ [e]) = count_event e (failure_streak es)"
  by (simp add: failure_streak_def)

lemma failure_streak_nil [simp]: "failure_streak [] = 0"
  by (simp add: failure_streak_def)

section \<open>What a call does\<close>

lemma admit_keeps:
  assumes "admit now cb = (r, cb')"
  shows "gb_failures cb' = gb_failures cb" "gb_max_failures cb' = gb_max_failures cb" "gb_channel cb' = gb_channel cb"
    "gb_manual_override cb' = gb_manual_override cb" "gb_last_failure cb' = gb_last_failure cb"
    "gb_state cb' = StateClosed \<longleftrightarrow> gb_state cb = StateClosed"
  using assms by (auto simp: admit_def Let_def split: if_splits)

lemma admitted_not_open: "admit now cb = (None, cb') \<Longrightarrow> gb_state cb' \<noteq> StateOpen"
  by (auto simp: admit_def Let_def split: if_splits)

lemma refused_open: "admit now cb = (Some err, cb') \<Longrightarrow> gb_state cb' = StateOpen \<Longrightarrow> gb_state cb = StateOpen \<and> cb' = cb"
  by (auto simp: admit_def Let_def split: if_splits)

lemma closed_admits: "gb_state cb = StateClosed \<Longrightarrow> admit now cb = (None, cb)"
  by (simp add: admit_def)

lemma settle_keeps [simp]:
  "gb_max_failures (settle_call now outcome cb) = gb_max_failures cb"
  "gb_manual_override (settle_call now outcome cb) = gb_manual_override cb"
  "gb_channel (settle_call now outcome cb) = gb_channel cb"
  by (auto simp: settle_call_def Let_def split: option.split)

text \<open>
  What \<open>Gateway.Fetch\<close> relies on: the answer is that of the argument unless the breaker was not closed, and a breaker is
  open after a call only if it refused the call or the argument failed.
\<close>

locale channel_guard =
  fixes call :: "time \<Rightarrow> time \<Rightarrow> gateway_error option \<Rightarrow> 'b \<Rightarrow> gateway_error option \<times> 'b"
    and admits :: "time \<Rightarrow> 'b \<Rightarrow> bool"
    and opened :: "'b \<Rightarrow> bool"
  assumes admitted_outcome: "admits b cb \<Longrightarrow> fst (call b a outcome cb) = outcome"
    and refused_fails: "\<not> admits b cb \<Longrightarrow> fst (call b a outcome cb) \<noteq> None"
    and refused_same: "\<not> admits b cb \<Longrightarrow> opened (snd (call b a outcome cb)) \<Longrightarrow> opened cb"
    and success_closes: "admits b cb \<Longrightarrow> \<not> opened (snd (call b a None cb))"
begin

lemma open_after:
  "opened (snd (call b a outcome cb)) \<Longrightarrow> admits b cb \<and> outcome \<noteq> None \<or> \<not> admits b cb \<and> opened cb"
  using refused_same[of b cb a outcome] success_closes[of b cb a] by (cases outcome; cases "admits b cb") auto

lemma no_error: "fst (call b a outcome cb) = None \<Longrightarrow> admits b cb \<and> outcome = None"
  using admitted_outcome refused_fails by metis

end

definition admits :: "time \<Rightarrow> channel_breaker \<Rightarrow> bool" where
  "admits now cb \<longleftrightarrow> fst (admit now cb) = None"

interpretation guard: channel_guard Call admits IsOpen
proof
  show "fst (Call b a outcome cb) = outcome" if "admits b cb" for a b outcome cb
    using that by (cases "admit b cb") (auto simp: Call_def admits_def)
  show "fst (Call b a outcome cb) \<noteq> None" if "\<not> admits b cb" for a b outcome cb
    using that by (cases "admit b cb") (auto simp: Call_def admits_def)
  show "IsOpen cb" if "\<not> admits b cb" "IsOpen (snd (Call b a outcome cb))" for a b outcome cb
    using that by (cases "admit b cb") (auto simp: Call_def admits_def IsOpen_def dest: refused_open)
  show "\<not> IsOpen (snd (Call b a None cb))" if "admits b cb" for a b cb
    using that by (cases "admit b cb")
      (auto simp: Call_def admits_def IsOpen_def settle_call_def Let_def dest: admitted_not_open)
qed

section \<open>When the breaker opens\<close>

definition counts_failures :: "breaker_event list \<Rightarrow> breaker_run \<Rightarrow> bool" where
  "counts_failures es s \<longleftrightarrow>
     gb_failures (bk_breaker s) = failure_streak es \<and> 0 < gb_max_failures (bk_breaker s) \<and> \<not> gb_manual_override (bk_breaker s) \<and>
     (gb_state (bk_breaker s) = StateClosed \<longleftrightarrow> failure_streak es < gb_max_failures (bk_breaker s))"

lemma counts_failures_step: "breaker_step s e s' \<Longrightarrow> counts_failures es s \<Longrightarrow> counts_failures (es @ [e]) s'"
proof (induction rule: breaker_step.induct)
  case (settled s n now outcome)
  then show ?case
    by (cases outcome) (auto simp: counts_failures_def count_event_def settle_call_def Let_def)
qed (auto simp: counts_failures_def count_event_def dest: admit_keeps)

text \<open>
  C38 (refinement). However its calls interleave, the breaker of a channel counts the real failures since the last success
  (empty answers of the upstream count neither way), and it is closed exactly while they are fewer than its threshold.
\<close>

theorem breaker_counts_failures:
  assumes "breaker_trace (fresh_run channel maxFailures) es s"
  shows "gb_failures (bk_breaker s) = failure_streak es \<and>
    (gb_state (bk_breaker s) = StateClosed \<longleftrightarrow> failure_streak es < gb_max_failures (bk_breaker s)) \<and>
    gb_max_failures (bk_breaker s) = gb_max_failures (NewChannelBreaker channel maxFailures)"
proof -
  define s0 where "s0 = fresh_run channel maxFailures"
  have "counts_failures [] s0"
    by (simp add: counts_failures_def s0_def fresh_run_def NewChannelBreaker_def CircuitBreakerFailureThreshold_def split: list.split)
  have "counts_failures es s \<and> gb_max_failures (bk_breaker s) = gb_max_failures (bk_breaker s0)"
    using assms[folded s0_def] \<open>counts_failures [] s0\<close>
  proof (induction rule: breaker_trace.induct)
    case (trace_snoc s es s' e s'')
    have "gb_max_failures (bk_breaker s'') = gb_max_failures (bk_breaker s')"
      using trace_snoc(2) by (cases rule: breaker_step.cases) (auto dest: admit_keeps(2))
    with trace_snoc counts_failures_step show ?case by auto
  qed simp
  then show ?thesis by (simp add: counts_failures_def s0_def fresh_run_def)
qed

section \<open>The half-open state\<close>

definition wedged :: "channel_breaker \<Rightarrow> bool" where
  "wedged cb \<longleftrightarrow> gb_state cb = StateHalfOpen \<and> CircuitBreakerHalfOpenMaxCalls \<le> gb_half_open_calls cb"

lemma wedged_refuses: "wedged cb \<Longrightarrow> admit now cb = (Some (HalfOpenLimit (gb_channel cb)), cb)"
  by (simp add: wedged_def admit_def)

lemma wedged_trace: "breaker_trace s es s' \<Longrightarrow> wedged (bk_breaker s) \<Longrightarrow> bk_inflight s = 0 \<Longrightarrow> s' = s"
proof (induction rule: breaker_trace.induct)
  case (trace_snoc s es s' e s'')
  then have "s' = s" by blast
  with trace_snoc show ?case by (auto elim!: breaker_stepE simp: wedged_refuses)
qed simp

text \<open>
  When the upstream answers the two probes of a half-open breaker with nothing usable (the errors that are
  expected and not counted), the breaker refuses every later call, at any time and in any interleaving, until an operator intervenes:
  the probe slots are used up, and no timeout applies to the half-open state.
\<close>

theorem empty_probes_wedge_breaker:
  assumes "gb_state cb = StateOpen" "CircuitBreakerRecoveryTimeout \<le> time_sub t1 (gb_last_failure cb)"
    and "isExpectedNonFailureErr e1" "isExpectedNonFailureErr e2"
    and "cb' = snd (Call t2 u2 (Some e2) (snd (Call t1 u1 (Some e1) cb)))"
    and "breaker_trace \<lparr>bk_breaker = cb', bk_inflight = 0\<rparr> es s"
  shows "bk_breaker s = cb' \<and> Call t u outcome (bk_breaker s) = (Some (HalfOpenLimit (gb_channel cb)), cb')"
proof -
  have "wedged cb' \<and> gb_channel cb' = gb_channel cb"
    using assms(1-5) by (simp add: Call_def admit_def settle_call_def wedged_def CircuitBreakerHalfOpenMaxCalls_def)
  with wedged_trace[OF assms(6)] show ?thesis by (simp add: Call_def wedged_refuses)
qed

section \<open>Concrete runs\<close>

definition demo_failure :: gateway_error where
  "demo_failure = FetchFailed \<lparr>fe_text = ''status 503'', fe_wraps = []\<rparr>"

definition demo_empty :: gateway_error where
  "demo_empty = FetchFailed \<lparr>fe_text = ''empty quote'', fe_wraps = [ErrEmptyQuote]\<rparr>"

lemma call_trace:
  assumes "breaker_trace s es s'" "gb_state (bk_breaker s') = StateClosed"
  shows "breaker_trace s ((es @ [Admitted b]) @ [Settled a out])
    (s'\<lparr>bk_breaker := settle_call a out (bk_breaker s'), bk_inflight := bk_inflight s'\<rparr>)"
proof -
  let ?s = "s'\<lparr>bk_breaker := bk_breaker s', bk_inflight := Suc (bk_inflight s')\<rparr>"
  have "breaker_trace s (es @ [Admitted b]) ?s"
    by (rule trace_snoc[OF assms(1)]) (rule admitted, simp add: closed_admits assms(2))
  moreover have "breaker_step ?s (Settled a out) (?s\<lparr>bk_breaker := settle_call a out (bk_breaker ?s), bk_inflight := bk_inflight s'\<rparr>)"
    by (rule settled) simp
  ultimately show ?thesis using trace_snoc by fastforce
qed

lemma breaker_counts_failures_witness:
  "gb_state (settle_call 6 (Some demo_failure) (settle_call 4 (Some demo_empty) (settle_call 2 (Some demo_failure)
     (NewChannelBreaker ''bdi'' [2])))) \<noteq> StateClosed"
proof -
  let ?s = "fresh_run ''bdi'' [2]"
  let ?cb = "NewChannelBreaker ''bdi'' [2]"
  have "breaker_trace ?s ([Admitted 1] @ [Settled 2 (Some demo_failure)])
      (?s\<lparr>bk_breaker := settle_call 2 (Some demo_failure) ?cb, bk_inflight := 0\<rparr>)"
    using call_trace[OF trace_nil, of ?s 1 2 "Some demo_failure"] by (simp add: fresh_run_def NewChannelBreaker_def)
  from call_trace[OF this, of 3 4 "Some demo_empty"]
  have "breaker_trace ?s ([Admitted 1, Settled 2 (Some demo_failure), Admitted 3, Settled 4 (Some demo_empty)])
      (?s\<lparr>bk_breaker := settle_call 4 (Some demo_empty) (settle_call 2 (Some demo_failure) ?cb), bk_inflight := 0\<rparr>)"
    by (simp add: settle_call_def NewChannelBreaker_def demo_failure_def isExpectedNonFailureErr_def wraps_def)
  from call_trace[OF this, of 5 6 "Some demo_failure"]
  have "breaker_trace ?s ([Admitted 1, Settled 2 (Some demo_failure), Admitted 3, Settled 4 (Some demo_empty), Admitted 5,
        Settled 6 (Some demo_failure)])
      (?s\<lparr>bk_breaker := settle_call 6 (Some demo_failure) (settle_call 4 (Some demo_empty) (settle_call 2 (Some demo_failure) ?cb)),
         bk_inflight := 0\<rparr>)"
    by (simp add: settle_call_def NewChannelBreaker_def demo_failure_def demo_empty_def isExpectedNonFailureErr_def wraps_def)
  from breaker_counts_failures[OF this] show ?thesis
    by (simp add: failure_streak_def count_event_def demo_failure_def demo_empty_def isExpectedNonFailureErr_def wraps_def
        NewChannelBreaker_def)
qed

lemma empty_probes_wedge_breaker_witness:
  "\<exists>cb. gb_state cb = StateHalfOpen \<and> Call (900 * second) (901 * second) None cb = (Some (HalfOpenLimit ''bdi''), cb)"
proof -
  define cb where "cb = (NewChannelBreaker ''bdi'' [])\<lparr>gb_state := StateOpen, gb_failures := 3, gb_last_failure := 0\<rparr>"
  define cb' where "cb' = snd (Call (400 * second) (401 * second) (Some demo_empty) (snd (Call (300 * second) (301 * second) (Some demo_empty) cb)))"
  have "Call (900 * second) (901 * second) None (bk_breaker \<lparr>bk_breaker = cb', bk_inflight = 0\<rparr>) = (Some (HalfOpenLimit (gb_channel cb)), cb')"
    using empty_probes_wedge_breaker[OF _ _ _ _ cb'_def trace_nil]
    by (simp add: cb_def NewChannelBreaker_def CircuitBreakerRecoveryTimeout_def time_sub_def i64_min_def i64_max_def demo_empty_def
        isExpectedNonFailureErr_def wraps_def)
  moreover have "gb_state cb' = StateHalfOpen" unfolding cb'_def cb_def by code_simp
  ultimately show ?thesis by (auto simp: cb_def NewChannelBreaker_def)
qed

section \<open>Forced opening\<close>

text \<open>
  A call that was in flight when an operator (or the crisis rule) forced the breaker open closes it again when it succeeds,
  unless the manual override is set.
\<close>

lemma inflight_success_closes_forced:
  "\<not> gb_manual_override cb \<Longrightarrow> gb_state (settle_call u None (ForceOpen now cb)) = StateClosed"
  by (simp add: settle_call_def ForceOpen_def)

text \<open>With the override a success never closes the breaker.\<close>

lemma override_keeps_open:
  "gb_state (settle_call u None (SetManualOverride True cb)) = gb_state cb"
  by (simp add: settle_call_def SetManualOverride_def)

lemma NewCircuitBreakerManager_get:
  "map_of (NewCircuitBreakerManagerWithThresholds th d ids) i =
     (if i \<in> set ids then Some (NewChannelBreaker i [case map_of th i of Some t \<Rightarrow> t | None \<Rightarrow> d]) else None)"
proof -
  have "map_of (fold (\<lambda>i. AList.update i (f i)) ids m) i = (if i \<in> set ids then Some (f i) else map_of m i)"
    for f :: "string \<Rightarrow> channel_breaker" and m
    by (induction ids arbitrary: m) auto
  then show ?thesis by (simp add: NewCircuitBreakerManagerWithThresholds_def)
qed

end
