(* ===== verification/Tw_Calendar.thy ===== *)
theory Tw_Calendar
  imports Atlas_Prelude
begin

text \<open>
  The Taiwan trading calendar (\<open>internal/taiwanholidays/taiwan_holidays.go\<close>).

  A calendar date is its number of days since January 1, 1970; a \<open>time.Time\<close> in a zone is the
  instant with the offset of the zone in seconds.  The Gregorian calendar of package \<open>time\<close> is
  written out first, with the round trip between dates and day numbers.  The Chinese names of the holidays are constructors.
  The log line for years without tables is left out.
\<close>

section \<open>The Gregorian calendar\<close>

definition leap_year :: "int \<Rightarrow> bool" where
  "leap_year y \<longleftrightarrow> y mod 4 = 0 \<and> y mod 100 \<noteq> 0 \<or> y mod 400 = 0"

definition leap_days :: "int \<Rightarrow> int" where
  "leap_days y = y div 4 - y div 100 + y div 400"

definition year_start :: "int \<Rightarrow> int" where
  "year_start y = 365 * (y - 1970) + leap_days (y - 1) - 477"

definition month_lengths :: "int \<Rightarrow> int list" where
  "month_lengths y = [31, if leap_year y then 29 else 28, 31, 30, 31, 30, 31, 31, 30, 31, 30, 31]"

definition year_of :: "int \<Rightarrow> int" where
  "year_of n = (let y = 1970 + (400 * n) div 146097
                in if n < year_start y then y - 1 else if year_start (y + 1) \<le> n then y + 1 else y)"

fun month_day :: "int \<Rightarrow> int list \<Rightarrow> int \<Rightarrow> int \<times> int" where
  "month_day m (l # ls) k = (if k < l then (m, k + 1) else month_day (m + 1) ls (k - l))"
| "month_day m [] k = (m, k + 1)"

text \<open>\<open>time.Date\<close> for a month between 1 and 12, and \<open>Date\<close> of a time.\<close>

definition day_number :: "int \<Rightarrow> int \<Rightarrow> int \<Rightarrow> int" where
  "day_number y m d = year_start y + sum_list (take (nat (m - 1)) (month_lengths y)) + d - 1"

definition civil :: "int \<Rightarrow> int \<times> int \<times> int" where
  "civil n = (year_of n, month_day 1 (month_lengths (year_of n)) (n - year_start (year_of n)))"

abbreviation day :: duration where "day \<equiv> 86400000000000"

definition local_day :: "int \<Rightarrow> time \<Rightarrow> int" where
  "local_day z t = (t + z * second) div day"

text \<open>Sunday is 0.\<close>

definition weekday :: "int \<Rightarrow> int" where
  "weekday n = (n + 4) mod 7"

section \<open>The tables\<close>

datatype holiday_name =
    NewYearsDay | PeaceDay | LabourDay | NationalDay
  | SpringClosure | SpringFestival | TombSweepingDay | DragonBoatDay | MidAutumnDay | AdjustedLeave

record holiday =
  hol_name :: holiday_name
  hol_date :: int

definition fixedHolidays :: "(holiday_name \<times> int \<times> int) list" where
  "fixedHolidays = [(NewYearsDay, 1, 1), (PeaceDay, 2, 28), (LabourDay, 5, 1), (NationalDay, 10, 10)]"

definition springFestivalClosures :: "(int \<times> (int \<times> int) list) list" where
  "springFestivalClosures =
    [(2023, [(1, 18), (1, 19), (1, 20), (1, 21), (1, 22), (1, 23), (1, 24), (1, 25), (1, 26), (1, 27)]),
     (2024, [(2, 6), (2, 7), (2, 8), (2, 9), (2, 10), (2, 11), (2, 12), (2, 13), (2, 14)]),
     (2025, [(1, 23), (1, 24), (1, 27), (1, 28), (1, 29), (1, 30), (1, 31)]),
     (2026, [(2, 12), (2, 13), (2, 16), (2, 17), (2, 18), (2, 19), (2, 20)])]"

definition adjustedHolidays :: "(int \<times> (int \<times> int) list) list" where
  "adjustedHolidays =
    [(2023, [(2, 27), (4, 3), (10, 9)]),
     (2025, [(4, 3), (5, 30), (9, 29), (10, 24), (12, 25)]),
     (2026, [(2, 27), (4, 3), (4, 6), (9, 28), (10, 9), (10, 26), (12, 25)])]"

definition lunarNewYearDates :: "(int \<times> int \<times> int) list" where
  "lunarNewYearDates =
    [(2021, 2, 12), (2022, 2, 1), (2023, 1, 22), (2024, 2, 10), (2025, 1, 29), (2026, 2, 17), (2027, 2, 6),
     (2028, 1, 26), (2029, 2, 13), (2030, 2, 3), (2031, 1, 23), (2032, 2, 11), (2033, 1, 31), (2034, 2, 19),
     (2035, 2, 8), (2036, 1, 28), (2037, 2, 15), (2038, 2, 4), (2039, 1, 24), (2040, 2, 12)]"

definition tombSweepingDates :: "(int \<times> int \<times> int) list" where
  "tombSweepingDates =
    [(2021, 4, 4), (2022, 4, 5), (2023, 4, 5), (2024, 4, 4), (2025, 4, 4), (2026, 4, 5), (2027, 4, 5),
     (2028, 4, 4), (2029, 4, 4), (2030, 4, 5), (2031, 4, 5), (2032, 4, 4), (2033, 4, 4), (2034, 4, 5),
     (2035, 4, 5), (2036, 4, 4), (2037, 4, 4), (2038, 4, 5), (2039, 4, 5), (2040, 4, 4)]"

definition lunarDragonBoatDates :: "(int \<times> int \<times> int) list" where
  "lunarDragonBoatDates =
    [(2021, 6, 14), (2022, 6, 3), (2023, 6, 22), (2024, 6, 10), (2025, 5, 31), (2026, 6, 19), (2027, 6, 9),
     (2028, 5, 28), (2029, 6, 16), (2030, 6, 5), (2031, 6, 24), (2032, 6, 12), (2033, 6, 1), (2034, 6, 20),
     (2035, 6, 10), (2036, 5, 30), (2037, 6, 18), (2038, 6, 7), (2039, 5, 27), (2040, 6, 14)]"

definition lunarMidAutumnDates :: "(int \<times> int \<times> int) list" where
  "lunarMidAutumnDates =
    [(2021, 9, 21), (2022, 9, 10), (2023, 9, 29), (2024, 9, 17), (2025, 10, 6), (2026, 9, 25), (2027, 9, 15),
     (2028, 10, 3), (2029, 9, 22), (2030, 9, 12), (2031, 10, 1), (2032, 9, 19), (2033, 9, 8), (2034, 9, 27),
     (2035, 9, 16), (2036, 10, 4), (2037, 9, 24), (2038, 9, 13), (2039, 10, 2), (2040, 9, 20)]"

section \<open>Holidays\<close>

definition CoverageYears :: "int \<times> int" where
  "CoverageYears = (2021, 2040)"

definition VerifiedLunarYear :: "int \<Rightarrow> bool" where
  "VerifiedLunarYear y \<longleftrightarrow>
     map_of lunarNewYearDates y \<noteq> None \<and> map_of tombSweepingDates y \<noteq> None \<and>
     map_of lunarDragonBoatDates y \<noteq> None \<and> map_of lunarMidAutumnDates y \<noteq> None"

text \<open>A date of a table.  The four exported lookups return it with \<open>ok\<close>.\<close>

definition table_date :: "(int \<times> int \<times> int) list \<Rightarrow> int \<Rightarrow> int option" where
  "table_date t y = map_option (\<lambda>(m, d). day_number y m d) (map_of t y)"

definition LunarNewYear :: "int \<Rightarrow> int option" where "LunarNewYear = table_date lunarNewYearDates"
definition TombSweeping :: "int \<Rightarrow> int option" where "TombSweeping = table_date tombSweepingDates"
definition LunarDragonBoat :: "int \<Rightarrow> int option" where "LunarDragonBoat = table_date lunarDragonBoatDates"
definition LunarMidAutumn :: "int \<Rightarrow> int option" where "LunarMidAutumn = table_date lunarMidAutumnDates"

definition moving_holiday :: "holiday_name \<Rightarrow> int option \<Rightarrow> holiday list" where
  "moving_holiday h d = (case d of Some n \<Rightarrow> [\<lparr>hol_name = h, hol_date = n\<rparr>] | None \<Rightarrow> [])"

definition dated :: "holiday_name \<Rightarrow> int \<Rightarrow> (int \<times> int) list \<Rightarrow> holiday list" where
  "dated h y ds = map (\<lambda>(m, d). \<lparr>hol_name = h, hol_date = day_number y m d\<rparr>) ds"

definition lunarDatesInYear :: "int \<Rightarrow> holiday list" where
  "lunarDatesInYear y =
     (case map_of springFestivalClosures y of
        Some ds \<Rightarrow> dated SpringClosure y ds
      | None \<Rightarrow> moving_holiday SpringFestival (LunarNewYear y)) @
     moving_holiday TombSweepingDay (TombSweeping y) @
     moving_holiday DragonBoatDay (LunarDragonBoat y) @
     moving_holiday MidAutumnDay (LunarMidAutumn y)"

definition HolidaysInYear :: "int \<Rightarrow> holiday list" where
  "HolidaysInYear y =
     sort_key hol_date
       (map (\<lambda>(h, m, d). \<lparr>hol_name = h, hol_date = day_number y m d\<rparr>) fixedHolidays @
        lunarDatesInYear y @
        (case map_of adjustedHolidays y of Some ds \<Rightarrow> dated AdjustedLeave y ds | None \<Rightarrow> []))"

text \<open>\<open>twLocation\<close> is eight hours east of Greenwich.  The date is taken there.\<close>

definition twLocation :: int where
  "twLocation = 28800"

definition IsHoliday :: "time \<Rightarrow> bool" where
  "IsHoliday t =
     (let n = local_day twLocation t
      in list_ex (\<lambda>h. civil (hol_date h) = civil n) (HolidaysInYear (fst (civil n))))"

text \<open>The weekday is the one in the zone \<open>z\<close> of the argument.\<close>

definition IsTradingDay :: "int \<Rightarrow> time \<Rightarrow> bool" where
  "IsTradingDay z t =
     (if weekday (local_day z t) = 6 \<or> weekday (local_day z t) = 0 then False else \<not> IsHoliday t)"

section \<open>Facts of the Gregorian calendar\<close>

lemma int_div_bounds: "0 < k \<Longrightarrow> k * (a div k) \<le> a \<and> a < k * (a div k) + k" for a k :: int
  by (metis add_left_mono add_less_cancel_left mult_div_mod_eq pos_mod_bound pos_mod_sign add.right_neutral)

lemma leap_days_bounds: "97 * y - 699 \<le> 400 * leap_days y \<and> 400 * leap_days y \<le> 97 * y + 396"
proof -
  have "4 * (y div 4) \<le> y" "y \<le> 4 * (y div 4) + 3" "100 * (y div 100) \<le> y" "y \<le> 100 * (y div 100) + 99"
    "400 * (y div 400) \<le> y" "y \<le> 400 * (y div 400) + 399" by presburger+
  then show ?thesis by (simp add: leap_days_def)
qed

lemma sum_of_steps:
  "a = a' + x \<Longrightarrow> b = b' + y \<Longrightarrow> c = c' + z \<Longrightarrow> (a - b + c) - (a' - b' + c') = x - y + z" for x y z :: int
  by simp

lemma leap_days_step: "leap_days y = leap_days (y - 1) + (if leap_year y then 1 else 0)"
proof -
  have step: "y div k = (y - 1) div k + (if y mod k = 0 then 1 else 0)" if "1 < k" for k :: int
  proof (cases "y mod k = 0")
    case True
    then obtain q where q: "y = k * q" by auto
    have "(y - 1) div k = q - 1"
      by (rule int_div_pos_eq[of _ _ _ "k - 1"]) (use that in \<open>simp_all add: q right_diff_distrib\<close>)
    with True q that show ?thesis by simp
  next
    case False
    then have "0 \<le> y mod k - 1" "y mod k - 1 < k"
      using pos_mod_sign[of k y] pos_mod_bound[of k y] that by linarith+
    moreover have "y - 1 = k * (y div k) + (y mod k - 1)" by (metis add_diff_eq mult_div_mod_eq)
    ultimately have "(y - 1) div k = y div k" using int_div_pos_eq by blast
    with False show ?thesis by simp
  qed
  have "(y::int) mod 400 mod 100 = y mod 100" "y mod 100 mod 4 = y mod 4" by (rule mod_mod_cancel; simp)+
  then have "y mod 400 = 0 \<longrightarrow> y mod 100 = 0" "y mod 100 = 0 \<longrightarrow> y mod 4 = 0" by auto
  moreover have "leap_days y - leap_days (y - 1) =
      (if y mod 4 = 0 then 1 else 0) - (if y mod 100 = 0 then 1 else 0) + (if y mod 400 = 0 then 1 else 0)"
    unfolding leap_days_def by (rule sum_of_steps) (rule step, simp)+
  ultimately show ?thesis by (cases "y mod 4 = 0"; cases "y mod 100 = 0"; cases "y mod 400 = 0"; simp add: leap_year_def)
qed

lemma year_start_Suc: "year_start (y + 1) = year_start y + (if leap_year y then 366 else 365)"
  using leap_days_step[of y] by (simp add: year_start_def)

lemma year_start_mono: "x \<le> y \<Longrightarrow> year_start x \<le> year_start y"
proof (induction "nat (y - x)" arbitrary: y)
  case (Suc n)
  have "year_start x \<le> year_start (y - 1)" using Suc by (intro Suc(1)) auto
  with year_start_Suc[of "y - 1"] show ?case by (simp split: if_splits)
qed simp

lemma year_start_less: "x < y \<Longrightarrow> year_start x + 365 \<le> year_start y"
  using year_start_mono[of "x + 1" y] year_start_Suc[of x] by (auto split: if_splits)

lemma year_of_bounds: "year_start (year_of n) \<le> n \<and> n < year_start (year_of n + 1)"
proof -
  define y where "y = 1970 + (400 * n) div 146097"
  have q: "146097 * (y - 1970) \<le> 400 * n" "400 * n < 146097 * (y - 1970) + 146097"
    using int_div_bounds[of 146097 "400 * n"] unfolding y_def by (simp_all only: add_diff_cancel_left')
  have "year_start (y - 1) \<le> n" "n < year_start (y + 2)"
    using q leap_days_bounds[of "y - 2"] leap_days_bounds[of "1 + y"] by (simp_all add: year_start_def)
  then show ?thesis by (auto simp: year_of_def Let_def y_def[symmetric] add.commute)
qed

lemma year_of_unique: "year_start y \<le> n \<Longrightarrow> n < year_start (y + 1) \<Longrightarrow> year_of n = y"
  using year_of_bounds[of n] year_start_mono[of "year_of n + 1" y] year_start_mono[of "y + 1" "year_of n"] by linarith

lemma month_day_bounds:
  assumes "0 \<le> k" "k < sum_list ls" "list_all (\<lambda>l. 0 < l) ls"
  shows "\<exists>i < length ls. month_day m ls k = (m + int i, k - sum_list (take i ls) + 1) \<and>
    sum_list (take i ls) \<le> k \<and> k < sum_list (take (Suc i) ls)"
  using assms
proof (induction ls arbitrary: m k)
  case (Cons l ls)
  show ?case
  proof (cases "k < l")
    case False
    with Cons.prems obtain i where i: "i < length ls" "month_day (m + 1) ls (k - l) = (m + 1 + int i, k - l - sum_list (take i ls) + 1)"
      "sum_list (take i ls) \<le> k - l" "k - l < sum_list (take (Suc i) ls)"
      using Cons.IH[of "k - l" "m + 1"] by auto
    with False show ?thesis by (intro exI[of _ "Suc i"]) simp
  qed (use Cons.prems in \<open>auto intro: exI[of _ 0]\<close>)
qed simp

lemma month_day_of:
  "i < length ls \<Longrightarrow> list_all (\<lambda>l. 0 < l) ls \<Longrightarrow> 0 \<le> d \<Longrightarrow> d < ls ! i \<Longrightarrow> month_day m ls (sum_list (take i ls) + d) = (m + int i, d + 1)"
proof (induction ls arbitrary: m i)
  case (Cons l ls)
  show ?case
  proof (cases i)
    case (Suc j)
    have "0 \<le> sum_list (take j ls)"
      using Cons.prems(2) by (intro sum_list_nonneg) (auto simp: list_all_iff dest!: in_set_takeD)
    with Suc Cons.prems Cons.IH[of j "m + 1"] show ?thesis by auto
  qed (use Cons.prems in auto)
qed simp

lemma month_lengths_pos: "list_all (\<lambda>l. 0 < l) (month_lengths y)"
  by (simp add: month_lengths_def)

lemma year_length: "sum_list (month_lengths y) = year_start (y + 1) - year_start y"
  by (simp add: year_start_Suc month_lengths_def)

lemma civil_day_number:
  assumes "1 \<le> m" "m \<le> 12" "1 \<le> d" "d \<le> month_lengths y ! nat (m - 1)"
  shows "civil (day_number y m d) = (y, m, d)"
proof -
  let ?ls = "month_lengths y" and ?i = "nat (m - 1)"
  have i: "?i < length ?ls" using assms(1,2) by (simp add: month_lengths_def)
  have "sum_list (take ?i ?ls) + ?ls ! ?i \<le> sum_list ?ls"
  proof -
    have "?ls = take ?i ?ls @ ?ls ! ?i # drop (Suc ?i) ?ls" using i by (simp add: id_take_nth_drop)
    moreover have "0 \<le> sum_list (drop (Suc ?i) ?ls)"
      using month_lengths_pos[of y] by (intro sum_list_nonneg) (fastforce simp: list_all_iff dest: in_set_dropD)
    ultimately show ?thesis by (metis add.assoc le_add_same_cancel1 sum_list.Cons sum_list_append)
  qed
  moreover have "0 \<le> sum_list (take ?i ?ls)"
    using month_lengths_pos[of y] by (intro sum_list_nonneg) (fastforce simp: list_all_iff dest: in_set_takeD)
  ultimately have "year_of (day_number y m d) = y"
    using assms(3,4) year_length[of y] by (intro year_of_unique) (auto simp: day_number_def)
  moreover have "month_day 1 ?ls (sum_list (take ?i ?ls) + (d - 1)) = (m, d)"
    using month_day_of[OF i month_lengths_pos, of "d - 1" 1] assms by simp
  ultimately show ?thesis by (simp add: civil_def day_number_def algebra_simps)
qed

lemma day_number_civil: "(\<lambda>(y, m, d). day_number y m d) (civil n) = n"
proof -
  let ?y = "year_of n"
  have "0 \<le> n - year_start ?y" "n - year_start ?y < sum_list (month_lengths ?y)"
    using year_of_bounds[of n] year_length[of ?y] by auto
  from month_day_bounds[OF this month_lengths_pos, of 1] show ?thesis
    by (auto simp: civil_def day_number_def)
qed

lemma civil_eq [simp]: "civil a = civil b \<longleftrightarrow> a = b"
  using day_number_civil by metis

lemma year_of_le: "a \<le> b \<Longrightarrow> year_of a \<le> year_of b"
  using year_of_bounds[of a] year_of_bounds[of b] year_start_mono[of "year_of b + 1" "year_of a"] by linarith

lemma year_of_near: "a \<le> b \<Longrightarrow> b < a + 365 \<Longrightarrow> year_of b \<le> year_of a + 1"
  using year_of_bounds[of a] year_of_bounds[of b] year_start_less[of "year_of a + 1" "year_of b"] by linarith

lemma fst_civil [simp]: "fst (civil n) = year_of n"
  by (simp add: civil_def)

lemma IsHoliday_iff: "IsHoliday t \<longleftrightarrow> local_day twLocation t \<in> hol_date ` set (HolidaysInYear (year_of (local_day twLocation t)))"
  by (auto simp: IsHoliday_def Let_def list_ex_iff image_iff intro: sym)

section \<open>The walk to the previous trading day\<close>

lemma moving_holiday_length: "length (moving_holiday h d) \<le> 1"
  by (simp add: moving_holiday_def split: option.split)

lemma year_tables_length:
  "(case map_of springFestivalClosures y of None \<Rightarrow> 1 | Some ds \<Rightarrow> length ds) +
   (case map_of adjustedHolidays y of None \<Rightarrow> 0 | Some ds \<Rightarrow> length ds) \<le> (14::nat)"
  by (simp add: springFestivalClosures_def adjustedHolidays_def)

lemma HolidaysInYear_length: "length (HolidaysInYear y) \<le> 21"
  using year_tables_length[of y] moving_holiday_length[of SpringFestival "LunarNewYear y"]
    moving_holiday_length[of TombSweepingDay "TombSweeping y"] moving_holiday_length[of DragonBoatDay "LunarDragonBoat y"]
    moving_holiday_length[of MidAutumnDay "LunarMidAutumn y"]
  by (simp add: HolidaysInYear_def lunarDatesInYear_def fixedHolidays_def dated_def split: option.splits)

definition working :: "int \<Rightarrow> nat \<Rightarrow> bool" where
  "working d n \<longleftrightarrow> weekday (d - int n) \<noteq> 6 \<and> weekday (d - int n) \<noteq> 0"

lemma working_mod: "working d n = working (d mod 7) n"
  unfolding working_def weekday_def by (metis diff_add_eq mod_diff_left_eq mod_add_left_eq)

lemma working_week: "length (filter (working d) [0..<7]) = 5"
proof -
  have "\<forall>r \<in> {0, 1, 2, 3, 4, 5, 6}. length (filter (working r) [0..<7]) = 5" by code_simp
  moreover have "d mod 7 \<in> {0, 1, 2, 3, 4, 5, 6}" using pos_mod_sign[of 7 d] pos_mod_bound[of 7 d] by auto
  ultimately show ?thesis using working_mod[of d] by (metis filter_cong)
qed

lemma weekday_week: "weekday (n - 7 * m) = weekday n"
proof -
  have "n - 7 * m + 4 = (n + 4) + 7 * (- m)" by simp
  then show ?thesis unfolding weekday_def by (simp only: mod_mult_self2)
qed

lemma working_weeks: "length (filter (working d) [0..<7 * k]) = 5 * k"
proof (induction k)
  case (Suc k)
  have "[0..<7 * Suc k] = [0..<7 * k] @ map (\<lambda>i. i + 7 * k) [0..<7]"
    using upt_add_eq_append[of 0 "7 * k" 7] by (simp add: map_add_upt add.commute)
  moreover have "working d (i + 7 * k) = working d i" for i
    using weekday_week[of "d - int i" "int k"] by (simp add: working_def algebra_simps)
  ultimately show ?case using Suc working_week[of d] by (simp add: filter_map comp_def)
qed simp

lemma weekdays_in_nine_weeks: "card {n \<in> {0..<63}. weekday (d - int n) \<noteq> 6 \<and> weekday (d - int n) \<noteq> 0} = 45"
proof -
  have "{n \<in> {0..<63}. weekday (d - int n) \<noteq> 6 \<and> weekday (d - int n) \<noteq> 0} = set (filter (working d) [0..<7 * 9])"
    by (auto simp: working_def)
  then show ?thesis by (simp only: distinct_card[OF distinct_filter[OF distinct_upt]] working_weeks)
qed

lemma local_day_back [simp]: "local_day z (t - int n * day) = local_day z t - int n"
proof -
  have "t - int n * day + z * second = (t + z * second) + (- int n) * day" by simp
  then show ?thesis unfolding local_day_def by (simp only: div_mult_self1)
qed

lemma trading_day_exists: "\<exists>n < 63. IsTradingDay z (t - int n * day)"
proof (rule ccontr)
  assume no: "\<not> ?thesis"
  define d where "d = local_day z t"
  define e where "e = local_day twLocation t"
  define A where "A = {n \<in> {0..<63}. weekday (d - int n) \<noteq> 6 \<and> weekday (d - int n) \<noteq> 0}"
  let ?H = "\<lambda>y. hol_date ` set (HolidaysInYear y)"
  have "e - int n \<in> ?H (year_of e - 1) \<union> ?H (year_of e)" if "n \<in> A" for n
  proof -
    have "n < 63" using that by (simp add: A_def)
    have "IsHoliday (t - int n * day)"
      using no that by (auto simp: A_def IsTradingDay_def d_def)
    then have "e - int n \<in> ?H (year_of (e - int n))" by (simp add: IsHoliday_iff e_def)
    moreover have "year_of (e - int n) = year_of e \<or> year_of (e - int n) = year_of e - 1"
      using year_of_le[of "e - int n" e] year_of_near[of "e - int n" e] \<open>n < 63\<close> by auto
    ultimately show ?thesis by auto
  qed
  then have "(\<lambda>n. e - int n) ` A \<subseteq> ?H (year_of e - 1) \<union> ?H (year_of e)" by auto
  then have "card ((\<lambda>n. e - int n) ` A) \<le> card (?H (year_of e - 1) \<union> ?H (year_of e))"
    by (intro card_mono) auto
  also have "\<dots> \<le> card (?H (year_of e - 1)) + card (?H (year_of e))" by (rule card_Un_le)
  also have "\<dots> \<le> 42"
    using card_image_le[of "set (HolidaysInYear (year_of e - 1))" hol_date] card_length[of "HolidaysInYear (year_of e - 1)"]
      card_image_le[of "set (HolidaysInYear (year_of e))" hol_date] card_length[of "HolidaysInYear (year_of e)"]
      HolidaysInYear_length[of "year_of e"] HolidaysInYear_length[of "year_of e - 1"] by simp
  finally show False
    using weekdays_in_nine_weeks[of d, folded A_def] by (simp add: card_image inj_on_def)
qed

definition days_to_trading :: "int \<Rightarrow> time \<Rightarrow> nat" where
  "days_to_trading z t = (LEAST n. IsTradingDay z (t - int n * day))"

lemma days_to_trading_step: "\<not> IsTradingDay z t \<Longrightarrow> days_to_trading z t = Suc (days_to_trading z (t - day))"
proof -
  assume no: "\<not> IsTradingDay z t"
  obtain n where n: "IsTradingDay z (t - int n * day)" using trading_day_exists by blast
  have "(LEAST n. IsTradingDay z (t - int n * day)) = Suc (LEAST n. IsTradingDay z (t - int (Suc n) * day))"
    by (rule Least_Suc[where P = "\<lambda>n. IsTradingDay z (t - int n * day)", OF n]) (use no in simp)
  then show ?thesis by (simp add: days_to_trading_def algebra_simps)
qed

function trading_day_before :: "int \<Rightarrow> time \<Rightarrow> time" where
  "trading_day_before z t = (if IsTradingDay z t then t else trading_day_before z (t - day))"
  by pat_completeness auto
termination
  by (relation "measure (\<lambda>(z, t). days_to_trading z t)") (auto simp: days_to_trading_step)

declare trading_day_before.simps [simp del]

definition PreviousTradingDay :: "int \<Rightarrow> time \<Rightarrow> int \<Rightarrow> time" where
  "PreviousTradingDay z now daysBack = trading_day_before z (now - daysBack * day)"

lemma trading_day_before_value: "trading_day_before z t = t - int (days_to_trading z t) * day"
proof (induction z t rule: trading_day_before.induct)
  case (1 z t)
  show ?case
  proof (cases "IsTradingDay z t")
    case True
    then have "days_to_trading z t = 0" by (simp add: days_to_trading_def)
    with True show ?thesis by (simp add: trading_day_before.simps)
  next
    case False
    with 1 have "trading_day_before z t = t - day - int (days_to_trading z (t - day)) * day"
      by (simp add: trading_day_before.simps[of z t])
    with days_to_trading_step[OF False] show ?thesis by (simp add: algebra_simps)
  qed
qed

lemma days_to_trading_bound: "days_to_trading z t < 63"
  using trading_day_exists[of z t] unfolding days_to_trading_def by (meson Least_le le_less_trans)

lemma days_to_trading_holds: "IsTradingDay z (t - int (days_to_trading z t) * day)"
  using trading_day_exists[of z t] unfolding days_to_trading_def by (meson LeastI)

lemma trading_day_before_id: "IsTradingDay z t \<Longrightarrow> trading_day_before z t = t"
  by (simp add: trading_day_before.simps)

section \<open>Trading days of the verified years\<close>

text \<open>An instant of a date in Taiwan, by its nanoseconds since midnight.\<close>

definition tw_instant :: "int \<Rightarrow> int \<Rightarrow> time" where
  "tw_instant n ns = n * day - twLocation * second + ns"

lemma local_day_tw: "0 \<le> ns \<Longrightarrow> ns < day \<Longrightarrow> local_day twLocation (tw_instant n ns) = n"
proof -
  assume "0 \<le> ns" "ns < day"
  moreover have "tw_instant n ns + twLocation * second = day * n + ns" by (simp add: tw_instant_def)
  ultimately show ?thesis unfolding local_day_def using int_div_pos_eq by blast
qed

text \<open>A time of day does not matter when the zone is the one of Taiwan.\<close>

lemma trading_day_of_date:
  "0 \<le> ns \<Longrightarrow> ns < day \<Longrightarrow>
     IsTradingDay twLocation (tw_instant n ns) \<longleftrightarrow>
       weekday n \<noteq> 6 \<and> weekday n \<noteq> 0 \<and> n \<notin> hol_date ` set (HolidaysInYear (year_of n))"
  by (simp add: IsTradingDay_def IsHoliday_iff local_day_tw)

lemma table_evaluation:
  "set (HolidaysInYear y) = (\<lambda>(h, m, d). \<lparr>hol_name = h, hol_date = day_number y m d\<rparr>) ` set fixedHolidays \<union>
     set (lunarDatesInYear y) \<union> set (case map_of adjustedHolidays y of Some ds \<Rightarrow> dated AdjustedLeave y ds | None \<Rightarrow> [])"
  by (auto simp: HolidaysInYear_def)

lemmas calendar_tables =
  table_evaluation fixedHolidays_def lunarDatesInYear_def dated_def moving_holiday_def table_date_def LunarNewYear_def
  TombSweeping_def LunarDragonBoat_def LunarMidAutumn_def springFestivalClosures_def adjustedHolidays_def
  tombSweepingDates_def lunarDragonBoatDates_def lunarMidAutumnDates_def day_number_def year_start_def leap_days_def
  month_lengths_def leap_year_def

lemma year_2026: "20454 \<le> n \<Longrightarrow> n < 20819 \<Longrightarrow> year_of n = 2026"
  by (rule year_of_unique) (simp_all add: year_start_def leap_days_def)

lemma holidays_2026:
  "hol_date ` set (HolidaysInYear 2026) =
     {20511, 20546, 20549, 20724, 20735, 20752, 20812, 20496, 20497, 20500, 20501, 20502, 20503, 20504, 20548, 20623,
      20721, 20454, 20512, 20574, 20736}"
  by (simp add: calendar_tables)

lemma previous_walk:
  "\<exists>n < 63. PreviousTradingDay z now daysBack = now - daysBack * day - int n * day \<and>
    IsTradingDay z (now - daysBack * day - int n * day) \<and> (\<forall>k < n. \<not> IsTradingDay z (now - daysBack * day - int k * day))"
proof -
  let ?start = "now - daysBack * day"
  have "\<not> IsTradingDay z (?start - int k * day)" if "k < days_to_trading z ?start" for k
    using that not_less_Least unfolding days_to_trading_def by blast
  then show ?thesis
    using days_to_trading_bound days_to_trading_holds
    by (intro exI[of _ "days_to_trading z ?start"]) (simp add: PreviousTradingDay_def trading_day_before_value)
qed

text \<open>
  C40 (termination). \<open>PreviousTradingDay\<close> always returns, for every instant, zone and year, also those without
  tables: it returns a trading day, skips none, and goes back by less than 63 days beyond the days asked for.
\<close>

theorem previous_trading_day:
  "\<exists>n < 63. PreviousTradingDay z now daysBack = now - daysBack * day - int n * day \<and>
    IsTradingDay z (now - daysBack * day - int n * day) \<and> (\<forall>k < n. \<not> IsTradingDay z (now - daysBack * day - int k * day))"
  by (rule previous_walk)

lemma previous_trading_day_witness:
  "PreviousTradingDay twLocation (tw_instant 20507 0) 1 = tw_instant 20495 0"
proof -
  have start: "tw_instant 20507 0 - 1 * day = tw_instant 20506 0" by (simp add: tw_instant_def)
  have shift: "tw_instant 20506 0 - int k * day = tw_instant (20506 - int k) 0" for k
    by (simp add: tw_instant_def algebra_simps)
  have closed: "\<not> IsTradingDay twLocation (tw_instant (20506 - int k) 0)" if "k < 11" for k
  proof -
    have "k = 0 \<or> k = 1 \<or> k = 2 \<or> k = 3 \<or> k = 4 \<or> k = 5 \<or> k = 6 \<or> k = 7 \<or> k = 8 \<or> k = 9 \<or> k = 10"
      using that by presburger
    then show ?thesis by (elim disjE) (simp_all add: trading_day_of_date weekday_def year_2026 holidays_2026)
  qed
  have opens: "IsTradingDay twLocation (tw_instant (20506 - int 11) 0)"
    by (simp add: trading_day_of_date weekday_def year_2026 holidays_2026)
  obtain n where n: "PreviousTradingDay twLocation (tw_instant 20507 0) 1 = tw_instant (20506 - int n) 0"
    "IsTradingDay twLocation (tw_instant (20506 - int n) 0)"
    "\<forall>k < n. \<not> IsTradingDay twLocation (tw_instant (20506 - int k) 0)"
    using previous_trading_day[of twLocation "tw_instant 20507 0" 1] unfolding start shift by blast
  have "n = 11" using n(2,3) closed opens by (metis linorder_neqE_nat)
  with n(1) show ?thesis by simp
qed

text \<open>
  In another zone the weekday and the holiday can be those of two different dates: late on Friday, August 28, 2026, UTC,
  it is already Saturday in Taiwan, and the code answers that this is a trading day.
\<close>

lemma trading_day_mixes_zones:
  "IsTradingDay 0 (1787936400 * second) \<and> \<not> IsTradingDay twLocation (1787936400 * second)"
proof
  have "\<not> IsHoliday (1787936400 * second)"
    by (simp add: IsHoliday_iff local_day_def twLocation_def year_2026 holidays_2026)
  then show "IsTradingDay 0 (1787936400 * second)" by (simp add: IsTradingDay_def local_day_def weekday_def)
  show "\<not> IsTradingDay twLocation (1787936400 * second)"
    by (simp add: IsTradingDay_def local_day_def weekday_def twLocation_def)
qed

end
