(* ===== verification/Gateway_Contract.thy ===== *)
theory Gateway_Contract
  imports Float64 Tw_Calendar
begin

text \<open>
  The contract of a data channel and the table of all contracts
  (\<open>internal/apigateway/channel_contract.go\<close>, the list of channels from \<open>gateway.go\<close>).

  The Chinese texts that the table shows to operators are constructors of \<open>operator_note\<close>.  The zone
  \<open>Asia/Taipei\<close> is the constant offset of eight hours that it has had since 1980.
\<close>

section \<open>Contracts\<close>

datatype operator_note = NoNote | FinmindQuota | TdccSharedQuota | OddlotRemoved | OddlotProxy | EtfRemoved | EtfReplacement

record retirement =
  rt_retired_at :: string
  rt_reason :: operator_note
  rt_replacement :: operator_note

record channel_contract =
  cc_channel :: string
  cc_source_priority :: "string list"
  cc_expected_refresh :: duration
  cc_freshness_window :: duration
  cc_success_criteria :: string
  cc_health_source :: string
  cc_degraded_on_empty :: bool
  cc_aliases :: "string list"
  cc_grace_failures :: int
  cc_market_session :: string
  cc_publish_calendar :: string
  cc_retirement :: "retirement option"
  cc_known_limit :: operator_note

definition IsRetired :: "channel_contract \<Rightarrow> bool" where
  "IsRetired c \<longleftrightarrow> cc_retirement c \<noteq> None"

definition MarketSessionTW :: string where "MarketSessionTW = ''tw''"
definition PublishCalendarDaily :: string where "PublishCalendarDaily = []"
definition PublishCalendarTWTradingDay :: string where "PublishCalendarTWTradingDay = ''tw_trading_day''"
definition SuccessCriteriaDataPresent :: string where "SuccessCriteriaDataPresent = ''data_present''"
definition SuccessCriteriaValueNonzero :: string where "SuccessCriteriaValueNonzero = ''value_nonzero''"
definition SuccessCriteriaFileExists :: string where "SuccessCriteriaFileExists = ''file_exists''"
definition HealthSourceLivePing :: string where "HealthSourceLivePing = ''live_ping''"
definition HealthSourceFileState :: string where "HealthSourceFileState = ''file_state''"
definition HealthSourceDataFreshness :: string where "HealthSourceDataFreshness = ''data_freshness''"

lemmas contract_words =
  MarketSessionTW_def PublishCalendarDaily_def PublishCalendarTWTradingDay_def SuccessCriteriaDataPresent_def
  SuccessCriteriaValueNonzero_def SuccessCriteriaFileExists_def HealthSourceLivePing_def HealthSourceFileState_def
  HealthSourceDataFreshness_def

definition StaleDataThreshold :: duration where "StaleDataThreshold = 48 * hour"
definition DefaultExpectedRefresh :: duration where "DefaultExpectedRefresh = 24 * hour"
definition DefaultGraceFailures :: int where "DefaultGraceFailures = 2"

definition DefaultChannelContract :: "string \<Rightarrow> channel_contract" where
  "DefaultChannelContract i =
     \<lparr>cc_channel = i, cc_source_priority = [], cc_expected_refresh = DefaultExpectedRefresh,
      cc_freshness_window = StaleDataThreshold, cc_success_criteria = SuccessCriteriaDataPresent,
      cc_health_source = HealthSourceLivePing, cc_degraded_on_empty = False, cc_aliases = [], cc_grace_failures = 0,
      cc_market_session = [], cc_publish_calendar = PublishCalendarDaily, cc_retirement = None, cc_known_limit = NoNote\<rparr>"

definition EffectiveGraceFailures :: "channel_contract \<Rightarrow> int" where
  "EffectiveGraceFailures c = (if 0 < cc_grace_failures c then cc_grace_failures c else DefaultGraceFailures)"

definition EffectiveFreshnessWindow :: "channel_contract \<Rightarrow> duration" where
  "EffectiveFreshnessWindow c = (if 0 < cc_freshness_window c then cc_freshness_window c else StaleDataThreshold)"

definition ValidatesData :: "channel_contract \<Rightarrow> bool" where
  "ValidatesData c \<longleftrightarrow> cc_health_source c \<noteq> HealthSourceLivePing \<or> cc_success_criteria c \<noteq> SuccessCriteriaDataPresent"

section \<open>Clocks and calendars\<close>

definition taipeiLoc :: int where
  "taipeiLoc = 28800"

definition time_of_day :: "int \<Rightarrow> time \<Rightarrow> duration" where
  "time_of_day z t = (t + z * second) mod day"

definition twSessionStartMinute :: int where "twSessionStartMinute = 9 * 60"
definition twSessionEndMinute :: int where "twSessionEndMinute = 13 * 60 + 45"

definition twMarketSessionActive :: "time \<Rightarrow> bool" where
  "twMarketSessionActive now =
     (if \<not> IsTradingDay taipeiLoc now then False
      else let m = time_of_day taipeiLoc now div minute
           in twSessionStartMinute \<le> m \<and> m \<le> twSessionEndMinute)"

definition twPublishCutoffHour :: int where
  "twPublishCutoffHour = 18"

text \<open>Midnight in Taipei of the date of an instant.\<close>

definition taipei_midnight :: "time \<Rightarrow> time" where
  "taipei_midnight t = local_day taipeiLoc t * day - taipeiLoc * second"

definition ExpectedChannelDataDate :: "time \<Rightarrow> time" where
  "ExpectedChannelDataDate now =
     (let today = taipei_midnight now
      in if IsTradingDay taipeiLoc today \<and> twPublishCutoffHour \<le> time_of_day taipeiLoc now div hour
         then today else PreviousTradingDay taipeiLoc today 1)"

definition twTradingDayOverageSeconds :: "time \<Rightarrow> time \<Rightarrow> f64" where
  "twTradingDayOverageSeconds dataAt now =
     (let expected = ExpectedChannelDataDate now; dataDate = taipei_midnight dataAt
      in if \<not> dataDate < expected then Fin 0
         else let overage = duration_seconds (time_sub now (expected + twPublishCutoffHour * hour))
              in if flt overage (Fin 0) then Fin 0 else overage)"

definition StalenessOverageSeconds :: "channel_contract \<Rightarrow> f64 \<Rightarrow> time \<Rightarrow> time \<Rightarrow> f64" where
  "StalenessOverageSeconds c staleSec dataAt now =
     (if cc_publish_calendar c = PublishCalendarTWTradingDay \<and> dataAt \<noteq> zero_time
      then twTradingDayOverageSeconds dataAt now
      else let overage = fsub staleSec (duration_seconds (EffectiveFreshnessWindow c))
           in if flt (Fin 0) overage then overage else Fin 0)"

section \<open>Health against the contract\<close>

record health_status =
  hs_status :: string
  hs_last_error :: string
  hs_updated_at :: "time option"
  hs_check_type :: string

record data_state =
  ds_present :: bool
  ds_non_zero :: bool
  ds_recorded_at :: time
  ds_detail :: string

definition dataStateSatisfies :: "channel_contract \<Rightarrow> data_state \<Rightarrow> bool" where
  "dataStateSatisfies c ds =
     (if cc_success_criteria c = SuccessCriteriaValueNonzero then ds_present ds \<and> ds_non_zero ds else ds_present ds)"

definition degradedHealth :: "time \<Rightarrow> health_status \<Rightarrow> string \<Rightarrow> health_status" where
  "degradedHealth now base reason =
     base\<lparr>hs_status := ''degraded'', hs_last_error := reason,
          hs_updated_at := (case hs_updated_at base of None \<Rightarrow> Some now | t \<Rightarrow> t)\<rparr>"

text \<open>\<open>state\<close> is what the provider answers: nothing when it does not implement \<open>DataStateProvider\<close>.\<close>

definition EvaluateContractHealth ::
  "time \<Rightarrow> channel_contract \<Rightarrow> (string + data_state) option \<Rightarrow> health_status \<Rightarrow> health_status" where
  "EvaluateContractHealth now c state base =
     (if hs_status base \<noteq> ''ok'' then base
      else if \<not> ValidatesData c then base
      else case state of
        None \<Rightarrow> base
      | Some (Inl err) \<Rightarrow> degradedHealth now base (cc_channel c @ '' data state unreadable: '' @ err)
      | Some (Inr ds) \<Rightarrow>
          (if dataStateSatisfies c ds then base
           else if cc_degraded_on_empty c then degradedHealth now base (cc_channel c @ '' data missing or empty: '' @ ds_detail ds)
           else base))"

section \<open>The registry\<close>

type_synonym contract_registry = "(string \<times> channel_contract) list"

definition Register :: "channel_contract \<Rightarrow> contract_registry \<Rightarrow> contract_registry" where
  "Register c r = AList.update (cc_channel c) c r"

text \<open>The visiting order of the map is that of the list; \<open>Validate\<close> below excludes that it matters.\<close>

definition ResolveAlias :: "string \<Rightarrow> contract_registry \<Rightarrow> string option" where
  "ResolveAlias name r = map_option fst (find (\<lambda>(i, c). name \<in> set (cc_aliases c)) r)"

definition Lookup :: "string \<Rightarrow> contract_registry \<Rightarrow> channel_contract option" where
  "Lookup i r =
     (case map_of r i of
        Some c \<Rightarrow> Some c
      | None \<Rightarrow> (case ResolveAlias i r of Some canonical \<Rightarrow> map_of r canonical | None \<Rightarrow> None))"

definition Contract :: "string \<Rightarrow> contract_registry \<Rightarrow> channel_contract" where
  "Contract i r = (case Lookup i r of Some c \<Rightarrow> c | None \<Rightarrow> DefaultChannelContract i)"

definition live :: "string \<Rightarrow> string list \<Rightarrow> duration \<Rightarrow> string list \<Rightarrow> contract_registry \<Rightarrow> contract_registry" where
  "live i priority refresh aliases r =
     Register ((DefaultChannelContract i)
       \<lparr>cc_source_priority := priority, cc_expected_refresh := refresh, cc_aliases := aliases\<rparr>) r"

definition amend :: "string \<Rightarrow> (channel_contract \<Rightarrow> channel_contract) \<Rightarrow> contract_registry \<Rightarrow> contract_registry" where
  "amend i f r = Register (f (Contract i r)) r"

definition declared :: "string \<Rightarrow> (channel_contract \<Rightarrow> channel_contract) \<Rightarrow> contract_registry \<Rightarrow> contract_registry" where
  "declared i f r = Register (f (DefaultChannelContract i)) r"

definition tw_session_channels :: "string list" where
  "tw_session_channels =
    [''taiex_index'', ''twse_capital_flow'', ''twse_margin'', ''day_trading'', ''market_volume'', ''tw_vol'',
     ''twse_sector_index'', ''fubon'', ''fugle'']"

text \<open>\<open>buildChannelContractRegistry\<close>, in the order of the code, in two parts around the loop over the market-session channels.\<close>

definition live_contracts :: "(contract_registry \<Rightarrow> contract_registry) list" where
  "live_contracts =
    [live ''us_yahoo'' [''Yahoo''] (24 * hour) [],
     live ''twse_capital_flow'' [''TWSE'', ''FinMind''] (24 * hour) [],
     live ''fugle'' [''Fugle''] (1 * hour) [],
     live ''fubon'' [''Fubon''] (1 * hour) [],
     live ''finmind'' [''FinMind''] (24 * hour) [],
     amend ''finmind'' (\<lambda>c. c\<lparr>cc_known_limit := FinmindQuota\<rparr>),
     live ''frankfurter_fx'' [''Frankfurter''] (24 * hour) [],
     live ''geopolitical'' [''GDELT'', ''RSS''] (6 * hour) [],
     live ''twse_margin'' [''TWSE'', ''FinMind''] (24 * hour) [],
     live ''export_statistics'' [''MOF''] (24 * hour) [],
     live ''tsmc_revenue'' [''FinMind''] (24 * hour) [],
     live ''geopolitical_taiwan'' [''RSS''] (6 * hour) [],
     live ''janus_regime'' [''Compute''] (6 * hour) [],
     live ''tej'' [''TEJ''] (24 * hour) [],
     live ''exchange_rate'' [''Frankfurter''] (24 * hour) [],
     live ''sox_index'' [''SOX''] (24 * hour) [],
     live ''us_cpi'' [''BLS''] (24 * hour) [],
     live ''dram_spot_price'' [''DRAM''] (24 * hour) [],
     live ''twse_sector_index'' [''TWSE''] (24 * hour) [],
     live ''day_trading'' [''TWSE''] (24 * hour) [],
     live ''market_volume'' [''TWSE''] (24 * hour) [],
     live ''bdi'' [''BDI''] (24 * hour) [],
     live ''taifex_daily'' [''TAIFEX''] (24 * hour) [],
     live ''taifex_institutional'' [''TAIFEX''] (24 * hour) [],
     live ''twse_oddlot'' [''TWSE'', ''FinMind''] (24 * hour) [''twse-oddlot''],
     amend ''twse_oddlot'' (\<lambda>c. c\<lparr>cc_degraded_on_empty := True,
        cc_retirement := Some \<lparr>rt_retired_at = ''2026-09-29'', rt_reason = OddlotRemoved, rt_replacement = OddlotProxy\<rparr>\<rparr>),
     live ''twse_insider'' [''TWSE''] (24 * hour) [],
     live ''us_spx'' [''Yahoo''] (24 * hour) [],
     live ''us_ndx'' [''Yahoo''] (24 * hour) [],
     live ''us_dji'' [''Yahoo''] (24 * hour) [],
     live ''taiex_index'' [''Yahoo'', ''TWSE''] (24 * hour) [],
     live ''tw_vol'' [''Yahoo'', ''TWSE''] (24 * hour) [],
     live ''us_nvda'' [''Yahoo''] (24 * hour) [],
     live ''us_aapl'' [''Yahoo''] (24 * hour) [],
     live ''us_msft'' [''Yahoo''] (24 * hour) [],
     live ''tsm_adr'' [''Yahoo''] (24 * hour) [],
     declared ''symbol_industry'' (\<lambda>c. c\<lparr>cc_source_priority := [''TWSE'', ''TPEx''], cc_expected_refresh := 24 * hour,
        cc_health_source := HealthSourceFileState, cc_success_criteria := SuccessCriteriaValueNonzero, cc_degraded_on_empty := True\<rparr>),
     live ''twse_etf'' [''TWSE''] (24 * hour) [''twse-etf''],
     amend ''twse_etf'' (\<lambda>c. c\<lparr>
        cc_retirement := Some \<lparr>rt_retired_at = ''2026-08-17'', rt_reason = EtfRemoved, rt_replacement = EtfReplacement\<rparr>\<rparr>)]"

definition file_contracts :: "(contract_registry \<Rightarrow> contract_registry) list" where
  "file_contracts =
    [declared ''twse_replay'' (\<lambda>c. c\<lparr>cc_source_priority := [''TWSE'', ''FinMind''], cc_expected_refresh := 24 * hour,
        cc_freshness_window := 72 * hour, cc_health_source := HealthSourceDataFreshness, cc_degraded_on_empty := True\<rparr>),
     declared ''sector_data'' (\<lambda>c. c\<lparr>cc_source_priority := [''TWSE''], cc_expected_refresh := 24 * hour, cc_freshness_window := 72 * hour,
        cc_health_source := HealthSourceFileState, cc_success_criteria := SuccessCriteriaFileExists, cc_degraded_on_empty := True\<rparr>),
     declared ''tdcc_equity_dispersion'' (\<lambda>c. c\<lparr>cc_source_priority := [''TDCC''], cc_health_source := HealthSourceFileState,
        cc_success_criteria := SuccessCriteriaFileExists, cc_known_limit := TdccSharedQuota, cc_freshness_window := 192 * hour\<rparr>),
     declared ''twse_sbl'' (\<lambda>c. c\<lparr>cc_source_priority := [''TWSE'', ''TPEx'', ''FinMind''], cc_health_source := HealthSourceFileState,
        cc_success_criteria := SuccessCriteriaFileExists, cc_publish_calendar := PublishCalendarTWTradingDay\<rparr>),
     declared ''government_flow'' (\<lambda>c. c\<lparr>cc_source_priority := [''Operator'', ''TWSE''], cc_health_source := HealthSourceFileState,
        cc_success_criteria := SuccessCriteriaValueNonzero, cc_degraded_on_empty := True\<rparr>),
     declared ''government_broker'' (\<lambda>c. c\<lparr>cc_source_priority := [''TWSE''], cc_health_source := HealthSourceFileState,
        cc_success_criteria := SuccessCriteriaValueNonzero, cc_degraded_on_empty := True,
        cc_publish_calendar := PublishCalendarTWTradingDay\<rparr>)]"

definition buildChannelContractRegistry :: contract_registry where
  "buildChannelContractRegistry =
     (let r1 = fold (\<lambda>f. f) live_contracts [];
          r2 = fold (\<lambda>i. amend i (\<lambda>c. c\<lparr>cc_market_session := MarketSessionTW\<rparr>)) tw_session_channels r1
      in fold (\<lambda>f. f) file_contracts r2)"

text \<open>\<open>channelIDs\<close> of \<open>gateway.go\<close>.\<close>

definition channelIDs :: "string list" where
  "channelIDs =
    [''us_yahoo'', ''twse_replay'', ''twse_capital_flow'', ''fugle'', ''fubon'', ''finmind'',
     ''frankfurter_fx'', ''geopolitical'', ''twse_margin'', ''export_statistics'', ''tsmc_revenue'',
     ''geopolitical_taiwan'', ''janus_regime'', ''tej'', ''exchange_rate'', ''sox_index'',
     ''dram_spot_price'', ''twse_sector_index'', ''sector_data'', ''day_trading'', ''market_volume'',
     ''bdi'', ''taifex_daily'', ''taifex_institutional'', ''tdcc_equity_dispersion'', ''twse_oddlot'',
     ''twse_sbl'', ''government_flow'', ''government_broker'', ''twse_etf'', ''twse_insider'',
     ''symbol_industry'', ''us_spx'', ''us_ndx'', ''us_dji'', ''taiex_index'', ''tw_vol'', ''us_nvda'',
     ''us_aapl'', ''us_msft'', ''tsm_adr'', ''us_cpi'']"

section \<open>Validation\<close>

text \<open>A violation is its channel and the name of its check; the details are texts.  \<open>iter\<close> is the map in its visiting order.\<close>

definition coverage_violations :: "contract_registry \<Rightarrow> (string \<times> string) list" where
  "coverage_violations r = map (\<lambda>i. (i, ''missing_contract'')) (filter (\<lambda>i. map_of r i = None) channelIDs)"

definition contract_checks :: "string \<Rightarrow> channel_contract \<Rightarrow> (bool \<times> string) list" where
  "contract_checks i c =
     [(i \<notin> set channelIDs, ''unknown_channel''),
      (cc_channel c \<noteq> i, ''channel_id_mismatch''),
      (cc_grace_failures c < 0, ''invalid_grace_failures''),
      (cc_expected_refresh c \<le> 0, ''invalid_refresh''),
      (cc_freshness_window c < 0, ''invalid_window''),
      (0 < cc_freshness_window c \<and> 0 < cc_expected_refresh c \<and> cc_freshness_window c < cc_expected_refresh c, ''window_below_refresh''),
      (case cc_retirement c of Some t \<Rightarrow> rt_retired_at t = [] | None \<Rightarrow> False, ''invalid_retirement''),
      (case cc_retirement c of Some t \<Rightarrow> rt_reason t = NoNote | None \<Rightarrow> False, ''invalid_retirement''),
      (cc_success_criteria c \<notin> {SuccessCriteriaDataPresent, SuccessCriteriaValueNonzero, SuccessCriteriaFileExists}, ''invalid_criteria''),
      (cc_health_source c \<notin> {HealthSourceLivePing, HealthSourceFileState, HealthSourceDataFreshness}, ''invalid_health_source''),
      (cc_health_source c = HealthSourceLivePing \<and>
         cc_success_criteria c \<in> {SuccessCriteriaFileExists, SuccessCriteriaValueNonzero}, ''incompatible_criteria''),
      (cc_health_source c = HealthSourceFileState \<and> cc_success_criteria c = SuccessCriteriaDataPresent, ''weak_criteria''),
      (cc_success_criteria c = SuccessCriteriaValueNonzero \<and> \<not> cc_degraded_on_empty c, ''missing_degraded_flag'')]"

definition contract_violations :: "string \<Rightarrow> channel_contract \<Rightarrow> (string \<times> string) list" where
  "contract_violations i c = map (\<lambda>(b, check). (i, check)) (filter fst (contract_checks i c))"

fun alias_violations ::
  "string \<Rightarrow> string list \<Rightarrow> string list \<Rightarrow> (string \<times> string) list \<Rightarrow> (string \<times> string) list \<times> (string \<times> string) list" where
  "alias_violations i seen [] owners = ([], owners)"
| "alias_violations i seen (a # as) owners =
     (if a = [] then (let (vs, owners') = alias_violations i seen as owners in ((i, ''alias_conflict'') # vs, owners'))
      else
        (let now = (if a = i then [(i, ''alias_conflict'')] else []) @ (if a \<in> set channelIDs then [(i, ''alias_conflict'')] else []) @
                   (if a \<in> set seen then [(i, ''alias_conflict'')] else []) @
                   (case map_of owners a of Some owner \<Rightarrow> if owner \<noteq> i then [(i, ''alias_conflict'')] else [] | None \<Rightarrow> []);
             (vs, owners') = alias_violations i (a # seen) as (AList.update a i owners)
         in (now @ vs, owners')))"

fun registry_violations :: "contract_registry \<Rightarrow> (string \<times> string) list \<Rightarrow> (string \<times> string) list" where
  "registry_violations [] owners = []"
| "registry_violations ((i, c) # r) owners =
     (let (vs, owners') = alias_violations i [] (cc_aliases c) owners
      in contract_violations i c @ vs @ registry_violations r owners')"

definition Validate :: "contract_registry \<Rightarrow> contract_registry \<Rightarrow> (string \<times> string) list" where
  "Validate r iter = coverage_violations r @ registry_violations iter []"

end
