(* ===== verification/Gateway_Health.thy ===== *)
theory Gateway_Health
  imports Gateway_Contract
begin

text \<open>
  The health record of a data channel, the store of all records
  (\<open>internal/apigateway/channel_health.go\<close>) and the verdict derived from a record
  (\<open>channel_status.go\<close>).

  A time stamp text is empty, unparsable, or the instant it denotes, whole seconds as RFC 3339 is written here.
  The JSON files are \<open>health_file\<close>s: a file may be missing, empty, unreadable or not parse, and a write may
  fail (the flags of \<open>disk_outcome\<close>).  The optional database is its table of rows; \<open>db_ok\<close> is the outcome of
  the statement.  A key may carry no record (JSON \<open>null\<close>).
\<close>

section \<open>Records\<close>

datatype stamp = NoStamp | BadStamp string | At time

definition stamp_of :: "time \<Rightarrow> stamp" where
  "stamp_of t = At (t div second * second)"

definition parse_stamp :: "stamp \<Rightarrow> time option" where
  "parse_stamp s = (case s of At t \<Rightarrow> Some t | _ \<Rightarrow> None)"

record health_record =
  hr_status :: string
  hr_failures :: int
  hr_provenance :: string
  hr_last_fetch :: stamp
  hr_last_data :: stamp
  hr_last_error :: string
  hr_last_success :: stamp
  hr_rate_remaining :: int
  hr_latency :: int
  hr_records :: int
  hr_symbols :: int
  hr_errors :: "string list"

definition empty_record :: health_record where
  "empty_record = \<lparr>hr_status = [], hr_failures = 0, hr_provenance = [], hr_last_fetch = NoStamp, hr_last_data = NoStamp,
     hr_last_error = [], hr_last_success = NoStamp, hr_rate_remaining = 0, hr_latency = 0, hr_records = 0, hr_symbols = 0,
     hr_errors = []\<rparr>"

definition StatusOK :: string where "StatusOK = ''ok''"
definition StatusWarn :: string where "StatusWarn = ''warn''"
definition StatusError :: string where "StatusError = ''error''"
definition StatusDegraded :: string where "StatusDegraded = ''degraded''"
definition StatusInactive :: string where "StatusInactive = ''inactive''"
definition StatusRetired :: string where "StatusRetired = ''retired''"
definition StatusStale :: string where "StatusStale = ''stale''"
definition StatusUnknown :: string where "StatusUnknown = ''unknown''"
definition ProvenanceDerived :: string where "ProvenanceDerived = ''derived''"

lemmas status_words =
  StatusOK_def StatusWarn_def StatusError_def StatusDegraded_def StatusInactive_def StatusRetired_def StatusStale_def
  StatusUnknown_def ProvenanceDerived_def

datatype record_option =
    WithRateLimitRemaining int
  | WithLatencyMs int
  | WithLastDataAt time
  | WithRecordsFetched int
  | WithSymbolsProcessed int

fun apply_option :: "record_option \<Rightarrow> health_record \<Rightarrow> health_record" where
  "apply_option (WithRateLimitRemaining n) r = r\<lparr>hr_rate_remaining := n\<rparr>"
| "apply_option (WithLatencyMs n) r = r\<lparr>hr_latency := n\<rparr>"
| "apply_option (WithLastDataAt t) r = r\<lparr>hr_last_data := stamp_of t\<rparr>"
| "apply_option (WithRecordsFetched n) r = r\<lparr>hr_records := n\<rparr>"
| "apply_option (WithSymbolsProcessed n) r = r\<lparr>hr_symbols := n\<rparr>"

section \<open>The store\<close>

datatype 'a health_file = NoFile | EmptyFile | UnreadableFile | BrokenFile | Saved 'a

record fetch_entry =
  fl_channel :: string
  fl_status :: string
  fl_latency :: int
  fl_timestamp :: stamp
  fl_error :: string

record health_row =
  db_status :: string
  db_last_fetch :: time
  db_last_error :: "string option"
  db_last_success :: "time option"
  db_failures :: int

type_synonym health_map = "(string \<times> health_record option) list"

record health_store =
  st_data :: health_map
  st_log :: "fetch_entry list"
  st_file :: "health_map health_file"
  st_log_file :: "fetch_entry list health_file"
  st_db :: "(string \<times> health_row) list option"
  st_stale_threshold :: duration

definition fetchLogCap :: nat where
  "fetchLogCap = 50"

definition DefaultStaleThreshold :: duration where
  "DefaultStaleThreshold = hour"

definition NewChannelHealthStore ::
  "health_map health_file \<Rightarrow> fetch_entry list health_file \<Rightarrow> (string \<times> health_row) list option \<Rightarrow> health_store" where
  "NewChannelHealthStore f lf db =
     \<lparr>st_data = [], st_log = [], st_file = f, st_log_file = lf, st_db = db, st_stale_threshold = DefaultStaleThreshold\<rparr>"

definition last_n :: "nat \<Rightarrow> 'a list \<Rightarrow> 'a list" where
  "last_n n xs = drop (length xs - n) xs"

text \<open>The janitor of \<open>load\<close> tags the records of unregistered channels.\<close>

definition tag_derived :: "string \<times> health_record option \<Rightarrow> string \<times> health_record option" where
  "tag_derived e =
     (case e of (i, Some r) \<Rightarrow> (i, Some (if hr_provenance r = [] \<and> i \<notin> set channelIDs then r\<lparr>hr_provenance := ProvenanceDerived\<rparr> else r))
              | (i, None) \<Rightarrow> (i, None))"

definition loadFetchLog :: "health_store \<Rightarrow> health_store" where
  "loadFetchLog s =
     (case st_log_file s of
        Saved es \<Rightarrow> s\<lparr>st_log := last_n fetchLogCap es\<rparr>
      | NoFile \<Rightarrow> s\<lparr>st_log := []\<rparr>
      | EmptyFile \<Rightarrow> s\<lparr>st_log := []\<rparr>
      | _ \<Rightarrow> s)"

definition load_health :: "health_store \<Rightarrow> health_store" where
  "load_health s =
     (case st_file s of
        NoFile \<Rightarrow> s\<lparr>st_log := []\<rparr>
      | Saved m \<Rightarrow> loadFetchLog (s\<lparr>st_data := map tag_derived m\<rparr>)
      | _ \<Rightarrow> s)"

record disk_outcome =
  do_health :: bool
  do_log :: bool

definition save_health :: "disk_outcome \<Rightarrow> health_store \<Rightarrow> bool \<times> health_store" where
  "save_health d s =
     (if \<not> do_health d then (False, s)
      else
        (let s1 = s\<lparr>st_file := Saved (st_data s)\<rparr>
         in if \<not> do_log d then (False, s1) else (True, s1\<lparr>st_log_file := Saved (st_log s1)\<rparr>)))"

definition appendFetchLog :: "fetch_entry \<Rightarrow> health_store \<Rightarrow> health_store" where
  "appendFetchLog e s = s\<lparr>st_log := last_n fetchLogCap (st_log s @ [e])\<rparr>"

text \<open>The newest \<open>limit\<close> entries, the newest first.\<close>

definition RecentFetches :: "int \<Rightarrow> health_store \<Rightarrow> fetch_entry list \<times> health_store" where
  "RecentFetches limit s =
     (if limit \<le> 0 then ([], s)
      else let s1 = load_health s in (take (nat (min limit (int fetchLogCap))) (rev (st_log s1)), s1))"

text \<open>The upsert keeps the old \<open>last_success_at\<close> when the new one is null.\<close>

definition recordToDB ::
  "bool \<Rightarrow> time \<Rightarrow> string \<Rightarrow> string \<Rightarrow> string \<Rightarrow> time \<Rightarrow> time option \<Rightarrow> int \<Rightarrow> health_store \<Rightarrow> health_store" where
  "recordToDB db_ok now i status err lastFetch lastSuccess failures s =
     (case st_db s of
        None \<Rightarrow> s
      | Some rows \<Rightarrow>
          (if \<not> db_ok then s
           else s\<lparr>st_db := Some (AList.update i
                  \<lparr>db_status = status, db_last_fetch = (if lastFetch = zero_time then now else lastFetch),
                   db_last_error = (if err = [] then None else Some err),
                   db_last_success = (case lastSuccess of Some t \<Rightarrow> Some t
                                      | None \<Rightarrow> (case map_of rows i of Some row \<Rightarrow> db_last_success row | None \<Rightarrow> None)),
                   db_failures = failures\<rparr> rows)\<rparr>))"

section \<open>Recording an attempt\<close>

definition contract_of :: "string \<Rightarrow> channel_contract" where
  "contract_of i = Contract i buildChannelContractRegistry"

definition outcome_status :: "time \<Rightarrow> string \<Rightarrow> int \<Rightarrow> string" where
  "outcome_status now i failures =
     (let st = (if EffectiveGraceFailures (contract_of i) \<le> failures then ''error'' else ''warn'')
      in if st = ''error'' \<and> cc_market_session (contract_of i) = MarketSessionTW \<and> \<not> twMarketSessionActive now then ''warn'' else st)"

definition update_record :: "time \<Rightarrow> string \<Rightarrow> string \<Rightarrow> string \<Rightarrow> bool \<Rightarrow> health_record \<Rightarrow> health_record" where
  "update_record now i status err advance r0 =
     (let r1 = r0\<lparr>hr_last_fetch := stamp_of now\<rparr>;
          r = (if i \<notin> set channelIDs then r1\<lparr>hr_provenance := ProvenanceDerived\<rparr> else r1)
      in if status = ''ok'' then
           (let r2 = r\<lparr>hr_failures := 0, hr_status := ''ok'', hr_last_error := [], hr_errors := []\<rparr>
            in if advance then r2\<lparr>hr_last_success := hr_last_fetch r2\<rparr> else r2)
         else if status = ''error'' then
           (let n = hr_failures r + 1;
                r2 = r\<lparr>hr_failures := n, hr_status := outcome_status now i n, hr_last_error := err\<rparr>
            in if err \<noteq> [] then r2\<lparr>hr_errors := [err]\<rparr> else r2)
         else
           (let r2 = r\<lparr>hr_status := status, hr_last_error := err\<rparr>
            in if err \<noteq> [] then r2\<lparr>hr_errors := [err]\<rparr> else r2))"

record record_env =
  re_now :: time
  re_disk :: disk_outcome
  re_db_ok :: bool

definition recordInternal ::
  "record_env \<Rightarrow> string \<Rightarrow> string \<Rightarrow> string \<Rightarrow> bool \<Rightarrow> record_option list \<Rightarrow> health_store \<Rightarrow> bool \<times> health_store" where
  "recordInternal env i status err advance opts s =
     (let s1 = load_health s;
          r0 = (case map_of (st_data s1) i of Some (Some r) \<Rightarrow> r | _ \<Rightarrow> empty_record);
          r = fold apply_option opts (update_record (re_now env) i status err advance r0);
          s2 = appendFetchLog \<lparr>fl_channel = i, fl_status = status, fl_latency = hr_latency r, fl_timestamp = hr_last_fetch r, fl_error = err\<rparr>
                 (s1\<lparr>st_data := AList.update i (Some r) (st_data s1)\<rparr>);
          s3 = recordToDB (re_db_ok env) (re_now env) i status err (re_now env) (if advance then Some (re_now env) else None) (hr_failures r) s2
      in save_health (re_disk env) s3)"

definition Record :: "record_env \<Rightarrow> string \<Rightarrow> string \<Rightarrow> string \<Rightarrow> record_option list \<Rightarrow> health_store \<Rightarrow> bool \<times> health_store" where
  "Record env i status err opts s = recordInternal env i status err (status = ''ok'') opts s"

definition RecordWaiting :: "record_env \<Rightarrow> string \<Rightarrow> record_option list \<Rightarrow> health_store \<Rightarrow> bool \<times> health_store" where
  "RecordWaiting env i opts s = recordInternal env i ''ok'' [] False opts s"

section \<open>Verdicts\<close>

text \<open>The newest of the two data stamps; never the fetch stamp.\<close>

definition newer_stamp :: "stamp \<Rightarrow> time option \<Rightarrow> time option" where
  "newer_stamp candidate newest =
     (case parse_stamp candidate of
        None \<Rightarrow> newest
      | Some t \<Rightarrow> (case newest of None \<Rightarrow> Some t | Some n \<Rightarrow> if n = zero_time \<or> n < t then Some t else Some n))"

definition degradedDataAgeAt :: "health_record \<Rightarrow> time \<Rightarrow> (duration \<times> time) option" where
  "degradedDataAgeAt r now =
     (case newer_stamp (hr_last_success r) (newer_stamp (hr_last_data r) None) of
        None \<Rightarrow> None
      | Some t \<Rightarrow> if t = zero_time then None else Some (time_sub now t, t))"

definition overdue :: "channel_contract \<Rightarrow> time \<Rightarrow> time \<Rightarrow> bool" where
  "overdue c dataAt now \<longleftrightarrow> flt (Fin 0) (StalenessOverageSeconds c (duration_seconds (time_sub now dataAt)) dataAt now)"

definition DeriveChannelStatus :: "health_record option \<Rightarrow> channel_contract \<Rightarrow> time \<Rightarrow> string" where
  "DeriveChannelStatus rec c now =
     (if IsRetired c then StatusRetired
      else case rec of
        None \<Rightarrow> StatusUnknown
      | Some r \<Rightarrow>
          (if hr_status r = StatusDegraded then
             (case degradedDataAgeAt r now of
                Some (age, dataAt) \<Rightarrow> if overdue c dataAt now then StatusError else StatusDegraded
              | None \<Rightarrow> StatusDegraded)
           else if hr_status r \<noteq> StatusOK then hr_status r
           else if hr_provenance r = ProvenanceDerived then hr_status r
           else case parse_stamp (hr_last_fetch r) of
             None \<Rightarrow> StatusOK
           | Some t \<Rightarrow> if overdue c t now then StatusStale else StatusOK))"

definition DeriveChannelStatusForID :: "health_record option \<Rightarrow> string \<Rightarrow> time \<Rightarrow> string" where
  "DeriveChannelStatusForID rec i now = DeriveChannelStatus rec (contract_of i) now"

record sync_values =
  sv_channel :: string
  sv_status :: string
  sv_last_fetch :: time
  sv_last_success :: "time option"
  sv_failures :: int

definition ChannelHealthSyncValuesFor :: "string \<Rightarrow> health_record option \<Rightarrow> time \<Rightarrow> sync_values" where
  "ChannelHealthSyncValuesFor i rec now =
     (let st = DeriveChannelStatusForID rec i now
      in case rec of
        None \<Rightarrow> \<lparr>sv_channel = i, sv_status = st, sv_last_fetch = now, sv_last_success = None, sv_failures = 0\<rparr>
      | Some r \<Rightarrow> \<lparr>sv_channel = i, sv_status = st,
          sv_last_fetch = (case parse_stamp (hr_last_fetch r) of Some t \<Rightarrow> t | None \<Rightarrow> now),
          sv_last_success = parse_stamp (hr_last_success r), sv_failures = hr_failures r\<rparr>)"

section \<open>Reading the store\<close>

definition getFromDB :: "string \<Rightarrow> health_store \<Rightarrow> health_record option" where
  "getFromDB i s =
     (case st_db s of
        None \<Rightarrow> None
      | Some rows \<Rightarrow> map_option (\<lambda>row. empty_record
          \<lparr>hr_status := db_status row, hr_last_fetch := stamp_of (db_last_fetch row),
           hr_last_success := (case db_last_success row of Some t \<Rightarrow> stamp_of t | None \<Rightarrow> NoStamp),
           hr_last_error := (case db_last_error row of Some err \<Rightarrow> err | None \<Rightarrow> [])\<rparr>) (map_of rows i))"

definition get_health :: "string \<Rightarrow> health_store \<Rightarrow> health_record option \<times> health_store" where
  "get_health i s =
     (let s1 = load_health s
      in (case map_of (st_data s1) i of Some (Some r) \<Rightarrow> Some r | _ \<Rightarrow> getFromDB i s1, s1))"

definition all_health :: "health_store \<Rightarrow> (string \<times> health_record) list \<times> health_store" where
  "all_health s =
     (let s1 = load_health s in (concat (map (\<lambda>(i, r). case r of Some x \<Rightarrow> [(i, x)] | None \<Rightarrow> []) (st_data s1)), s1))"

record channel_alert =
  al_channel :: string
  al_status :: string
  al_error :: string
  al_fetch_at :: stamp

definition alert_due :: "duration \<Rightarrow> time \<Rightarrow> health_record \<Rightarrow> bool" where
  "alert_due threshold now r \<longleftrightarrow>
     hr_status r \<noteq> ''ok'' \<and> hr_status r \<noteq> ''inactive'' \<and>
     \<not> (0 < threshold \<and> (case parse_stamp (hr_last_fetch r) of Some t \<Rightarrow> threshold < time_sub now t | None \<Rightarrow> False))"

text \<open>A key without a record is a nil dereference: \<open>None\<close>.\<close>

fun alerts_of :: "duration \<Rightarrow> time \<Rightarrow> health_map \<Rightarrow> channel_alert list option" where
  "alerts_of threshold now [] = Some []"
| "alerts_of threshold now ((i, None) # m) = None"
| "alerts_of threshold now ((i, Some r) # m) =
     map_option (\<lambda>as. (if alert_due threshold now r
                      then [\<lparr>al_channel = i, al_status = hr_status r, al_error = hr_last_error r, al_fetch_at = hr_last_fetch r\<rparr>]
                      else []) @ as) (alerts_of threshold now m)"

definition Alerts :: "time \<Rightarrow> health_store \<Rightarrow> channel_alert list option \<times> health_store" where
  "Alerts now s =
     (let s1 = load_health s in (alerts_of (st_stale_threshold s1) now (st_data s1), s1))"

definition WithStaleThreshold :: "duration \<Rightarrow> health_store \<Rightarrow> health_store" where
  "WithStaleThreshold d s = s\<lparr>st_stale_threshold := d\<rparr>"

section \<open>The publication calendar\<close>

text \<open>A trading date, and the instant at which its data must have been published: 18:00 in Taipei.\<close>

definition trading_date :: "int \<Rightarrow> bool" where
  "trading_date n \<longleftrightarrow> weekday n \<noteq> 6 \<and> weekday n \<noteq> 0 \<and> n \<notin> hol_date ` set (HolidaysInYear (year_of n))"

definition publish_deadline :: "int \<Rightarrow> time" where
  "publish_deadline n = n * day - taipeiLoc * second + 18 * hour"

lemma local_day_split: fixes z t shows "t = local_day z t * day + time_of_day z t - z * second" "0 \<le> time_of_day z t" "time_of_day z t < day"
  by (simp_all add: local_day_def time_of_day_def)

lemma midnight_instant: "n * day - taipeiLoc * second = tw_instant n 0"
  by (simp add: tw_instant_def taipeiLoc_def twLocation_def)

lemma trading_midnight: "IsTradingDay taipeiLoc (tw_instant n 0) = trading_date n"
  using trading_day_of_date[of 0 n] by (simp add: trading_date_def taipeiLoc_def twLocation_def)

lemma expected_date:
  "\<exists>n. ExpectedChannelDataDate now = tw_instant n 0 \<and> trading_date n \<and> publish_deadline n \<le> now \<and>
     (\<forall>m > n. trading_date m \<longrightarrow> now < publish_deadline m)"
proof -
  define n0 where "n0 = local_day taipeiLoc now"
  define tod where "tod = time_of_day taipeiLoc now"
  have now: "now = n0 * day + tod - taipeiLoc * second" "0 \<le> tod" "tod < day"
    using local_day_split[where t = now and z = taipeiLoc] by (simp_all add: n0_def tod_def)
  have later: "now < publish_deadline m" if "n0 < m" for m
  proof -
    have "(n0 + 1) * day \<le> m * day" using that by (intro mult_right_mono) auto
    with now show ?thesis by (simp add: publish_deadline_def)
  qed
  have earlier: "publish_deadline m \<le> now" if "m < n0" for m
  proof -
    have "(m + 1) * day \<le> n0 * day" using that by (intro mult_right_mono) auto
    with now show ?thesis by (simp add: publish_deadline_def)
  qed
  have hour: "18 \<le> tod div hour \<longleftrightarrow> 18 * hour \<le> tod"
    using int_div_bounds[of hour tod] by (auto simp: pos_imp_zdiv_nonneg_iff intro: zdiv_mono1[of "18 * hour" tod hour, simplified])
  have today: "taipei_midnight now = tw_instant n0 0" by (simp add: taipei_midnight_def midnight_instant n0_def)
  show ?thesis
  proof (cases "trading_date n0 \<and> 18 * hour \<le> tod")
    case True
    then have "ExpectedChannelDataDate now = tw_instant n0 0"
      by (simp add: ExpectedChannelDataDate_def today trading_midnight twPublishCutoffHour_def hour tod_def[symmetric])
    moreover have "publish_deadline n0 \<le> now" using True now by (simp add: publish_deadline_def)
    ultimately show ?thesis using True later by blast
  next
    case False
    then have "ExpectedChannelDataDate now = PreviousTradingDay taipeiLoc (tw_instant n0 0) 1"
      by (auto simp: ExpectedChannelDataDate_def today trading_midnight twPublishCutoffHour_def hour tod_def[symmetric])
    moreover have shift: "tw_instant n0 0 - 1 * day - int k * day = tw_instant (n0 - 1 - int k) 0" for k
      by (simp add: tw_instant_def algebra_simps)
    ultimately obtain k where k: "ExpectedChannelDataDate now = tw_instant (n0 - 1 - int k) 0" "trading_date (n0 - 1 - int k)"
      "\<forall>j < k. \<not> trading_date (n0 - 1 - int j)"
      using previous_walk[of taipeiLoc "tw_instant n0 0" 1] by (auto simp only: shift trading_midnight)
    have "now < publish_deadline m" if m: "n0 - 1 - int k < m" "trading_date m" for m
    proof -
      have "n0 \<le> m"
      proof (rule ccontr)
        assume "\<not> n0 \<le> m"
        then have "nat (n0 - 1 - m) < k" "m = n0 - 1 - int (nat (n0 - 1 - m))" using m(1) by auto
        with k(3) m(2) show False by metis
      qed
      moreover have "now < publish_deadline n0" if "m = n0"
        using False m(2) that now by (auto simp: publish_deadline_def)
      ultimately show ?thesis using later[of m] by (cases "m = n0") auto
    qed
    with k earlier[of "n0 - 1 - int k"] show ?thesis by (intro exI[of _ "n0 - 1 - int k"]) auto
  qed
qed

section \<open>Freshness\<close>

lemma overage_pos: "0 < d \<Longrightarrow> d \<le> 2 ^ 63 \<Longrightarrow> \<exists>x. duration_seconds d = Fin x \<and> 0 < x"
proof -
  assume d: "0 < d" "d \<le> 2 ^ 63"
  have "0 * second < d" using d(1) by simp
  with duration_seconds_gt[OF _ _ d(2), of 0] obtain x where x: "duration_seconds d = Fin x" "of_int 0 + 1 / 2 ^ 30 \<le> x" by auto
  have "(0::rat) < of_int 0 + 1 / 2 ^ 30" by simp
  with x show ?thesis by (meson less_le_trans)
qed

lemma instant_order: "tw_instant a 0 < tw_instant b 0 \<longleftrightarrow> a < b"
  by (simp add: tw_instant_def)

text \<open>A channel of the trading calendar is overdue when a trading day later than its data has passed its deadline.\<close>

lemma calendar_overage:
  assumes "time_of_day taipeiLoc now \<noteq> 18 * hour"
  shows "flt (Fin 0) (twTradingDayOverageSeconds dataAt now) \<longleftrightarrow>
    (\<exists>n > local_day taipeiLoc dataAt. trading_date n \<and> publish_deadline n < now)"
proof -
  obtain n where n: "ExpectedChannelDataDate now = tw_instant n 0" "trading_date n" "publish_deadline n \<le> now"
    "\<forall>m > n. trading_date m \<longrightarrow> now < publish_deadline m"
    using expected_date by blast
  have strict: "publish_deadline n \<noteq> now"
  proof
    assume "publish_deadline n = now"
    then have "time_of_day taipeiLoc now = (18 * hour + n * day) mod day"
      by (simp add: time_of_day_def publish_deadline_def add.commute flip: \<open>publish_deadline n = now\<close>)
    then have "time_of_day taipeiLoc now = 18 * hour" by (simp only: mod_mult_self1) simp
    with assms show False by contradiction
  qed
  have dead: "tw_instant n 0 + twPublishCutoffHour * hour = publish_deadline n"
    by (simp add: publish_deadline_def midnight_instant twPublishCutoffHour_def)
  have "0 < time_sub now (publish_deadline n)" "time_sub now (publish_deadline n) \<le> 2 ^ 63"
    using n(3) strict by (auto simp: time_sub_def i64_max_def i64_min_def)
  then have pos: "flt (Fin 0) (duration_seconds (time_sub now (publish_deadline n)))" using overage_pos by fastforce
  then have "\<not> flt (duration_seconds (time_sub now (publish_deadline n))) (Fin 0)" using flt_trans flt_irrefl by blast
  with pos have "flt (Fin 0) (twTradingDayOverageSeconds dataAt now) \<longleftrightarrow> local_day taipeiLoc dataAt < n"
    by (simp add: twTradingDayOverageSeconds_def n(1) taipei_midnight_def midnight_instant instant_order dead)
  also have "\<dots> \<longleftrightarrow> (\<exists>n > local_day taipeiLoc dataAt. trading_date n \<and> publish_deadline n < now)"
  proof
    assume "local_day taipeiLoc dataAt < n"
    then show "\<exists>n > local_day taipeiLoc dataAt. trading_date n \<and> publish_deadline n < now"
      using n(2,3) strict by (intro exI[of _ n]) auto
  next
    assume "\<exists>m > local_day taipeiLoc dataAt. trading_date m \<and> publish_deadline m < now"
    then obtain m where m: "local_day taipeiLoc dataAt < m" "trading_date m" "publish_deadline m < now" by blast
    with n(4) have "\<not> n < m" by fastforce
    with m show "local_day taipeiLoc dataAt < n" by simp
  qed
  finally show ?thesis .
qed

text \<open>
  C39 (equivalence). The verdict on a record with status ok that is not derived, of a channel that is not retired, whose last
  fetch is a valid time other than the zero time, at a distance from now that fits a duration, and with an effective freshness
  window that is a whole number of seconds between 0 and 2^22; the time of day in Taipei must not be exactly 18:00.  For a
  channel of the Taiwan trading calendar the record is stale exactly when a trading day later than the date of the last fetch
  has passed its publication deadline of 18:00 in Taipei, however many weekends and holidays lie between; for any other
  channel exactly when the last fetch is older than the window; otherwise it is ok.
\<close>

theorem freshness_verdict:
  assumes "hr_status r = StatusOK" "hr_provenance r \<noteq> ProvenanceDerived" "hr_last_fetch r = At f" "\<not> IsRetired c"
    and "f \<noteq> zero_time" "i64_min \<le> now - f" "now - f \<le> i64_max" "time_of_day taipeiLoc now \<noteq> 18 * hour"
    and "EffectiveFreshnessWindow c = w * second" "0 \<le> w" "w \<le> 2 ^ 22"
  shows "DeriveChannelStatus (Some r) c now =
    (if (if cc_publish_calendar c = PublishCalendarTWTradingDay
         then \<exists>n > local_day taipeiLoc f. trading_date n \<and> publish_deadline n < now
         else w * second < now - f)
     then StatusStale else StatusOK)"
proof -
  have "overdue c f now \<longleftrightarrow>
     (if cc_publish_calendar c = PublishCalendarTWTradingDay
      then \<exists>n > local_day taipeiLoc f. trading_date n \<and> publish_deadline n < now else w * second < now - f)"
    using calendar_overage[OF assms(8), of f] seconds_exceed[OF assms(10,11,6,7)] assms(5,6,7,9)
    by (simp add: overdue_def StalenessOverageSeconds_def time_sub_exact)
  with assms(1-4) show ?thesis by (simp add: DeriveChannelStatus_def parse_stamp_def status_words)
qed

section \<open>Damping\<close>

text \<open>The attempts recorded by the store, all files in order.\<close>

record attempt =
  at_now :: time
  at_channel :: string
  at_status :: string
  at_error :: string
  at_advance :: bool
  at_options :: "record_option list"

definition record_attempt :: "attempt \<Rightarrow> health_store \<Rightarrow> health_store" where
  "record_attempt a s =
     snd (recordInternal \<lparr>re_now = at_now a, re_disk = \<lparr>do_health = True, do_log = True\<rparr>, re_db_ok = True\<rparr>
            (at_channel a) (at_status a) (at_error a) (at_advance a) (at_options a) s)"

text \<open>The error attempts of a channel since its last ok.\<close>

definition streak_step :: "string \<Rightarrow> attempt \<Rightarrow> int \<Rightarrow> int" where
  "streak_step i a n =
     (if at_channel a \<noteq> i then n else if at_status a = ''ok'' then 0 else if at_status a = ''error'' then n + 1 else n)"

definition error_streak :: "string \<Rightarrow> attempt list \<Rightarrow> int" where
  "error_streak i as = fold (streak_step i) as 0"

definition stored_record :: "string \<Rightarrow> health_store \<Rightarrow> health_record option" where
  "stored_record i s = (case map_of (st_data (load_health s)) i of Some (Some r) \<Rightarrow> Some r | _ \<Rightarrow> None)"

definition streak_of :: "health_record option \<Rightarrow> int" where
  "streak_of r = (case r of Some x \<Rightarrow> hr_failures x | None \<Rightarrow> 0)"

lemma options_keep [simp]:
  "hr_status (fold apply_option opts r) = hr_status r" "hr_failures (fold apply_option opts r) = hr_failures r"
proof -
  have step: "hr_status (apply_option p x) = hr_status x \<and> hr_failures (apply_option p x) = hr_failures x" for p x
    by (cases p) simp_all
  have "hr_status (fold apply_option opts r) = hr_status r \<and> hr_failures (fold apply_option opts r) = hr_failures r"
    by (induction opts arbitrary: r) (auto simp: step)
  then show "hr_status (fold apply_option opts r) = hr_status r" "hr_failures (fold apply_option opts r) = hr_failures r" by auto
qed

lemma loadFetchLog_data [simp]: "st_data (loadFetchLog s) = st_data s"
  by (simp add: loadFetchLog_def split: health_file.split)

lemma tag_derived_lookup: "map_of (map tag_derived m) i = map_option (\<lambda>r. snd (tag_derived (i, r))) (map_of m i)"
  by (induction m) (auto simp: tag_derived_def split: option.split prod.split)

definition view :: "health_record option \<Rightarrow> (string \<times> int) option" where
  "view r = map_option (\<lambda>x. (hr_status x, hr_failures x)) r"

lemma recordToDB_frame [simp]:
  "st_data (recordToDB ok now i status err lf ls n s) = st_data s" "st_log (recordToDB ok now i status err lf ls n s) = st_log s"
  by (simp_all add: recordToDB_def split: option.split)

lemma appendFetchLog_data [simp]: "st_data (appendFetchLog e s) = st_data s"
  by (simp add: appendFetchLog_def)

lemma load_saved: "st_file s = Saved m \<Longrightarrow> st_data (load_health s) = map tag_derived m"
  by (simp add: load_health_def)

definition attempted_record :: "attempt \<Rightarrow> health_store \<Rightarrow> health_record" where
  "attempted_record a s =
     fold apply_option (at_options a)
       (update_record (at_now a) (at_channel a) (at_status a) (at_error a) (at_advance a)
         (case stored_record (at_channel a) s of Some r \<Rightarrow> r | None \<Rightarrow> empty_record))"

lemma record_attempt_file:
  "st_file (record_attempt a s) =
     Saved (AList.update (at_channel a) (Some (attempted_record a s)) (st_data (load_health s)))"
proof -
  have "(case map_of (st_data (load_health s)) i of Some (Some r) \<Rightarrow> r | _ \<Rightarrow> empty_record) =
      (case stored_record i s of Some r \<Rightarrow> r | None \<Rightarrow> empty_record)" for i
    by (simp add: stored_record_def split: option.split)
  then show ?thesis
    by (simp add: record_attempt_def recordInternal_def save_health_def attempted_record_def Let_def)
qed

lemma view_tagged: "view (case map_option (\<lambda>r. snd (tag_derived (i, r))) x of Some (Some r) \<Rightarrow> Some r | _ \<Rightarrow> None) =
    view (case x of Some (Some r) \<Rightarrow> Some r | _ \<Rightarrow> None)"
  by (simp add: view_def tag_derived_def split: option.split)

lemma view_record_attempt:
  "view (stored_record i (record_attempt a s)) =
     (if at_channel a = i then Some (hr_status (attempted_record a s), hr_failures (attempted_record a s))
      else view (stored_record i s))"
  unfolding stored_record_def load_saved[OF record_attempt_file] tag_derived_lookup view_tagged
  by (auto simp: view_def)

lemma attempted_values:
  "hr_failures (attempted_record a s) = streak_step (at_channel a) a (streak_of (stored_record (at_channel a) s))"
  "hr_status (attempted_record a s) =
     (if at_status a = ''error'' then outcome_status (at_now a) (at_channel a) (hr_failures (attempted_record a s)) else at_status a)"
  by (auto simp: attempted_record_def update_record_def streak_step_def streak_of_def empty_record_def Let_def split: option.split)

lemma streak_of_view: "streak_of r = (case view r of Some (st, n) \<Rightarrow> n | None \<Rightarrow> 0)"
  by (simp add: streak_of_def view_def split: option.split)

lemma error_streak_snoc: "error_streak i (as @ [a]) = streak_step i a (error_streak i as)"
  by (simp add: error_streak_def)

lemma streak_run: "stored_record i s = None \<Longrightarrow> streak_of (stored_record i (fold record_attempt as s)) = error_streak i as"
proof (induction as rule: rev_induct)
  case (snoc a as)
  then show ?case
    by (cases "at_channel a = i")
      (auto simp: streak_of_view view_record_attempt error_streak_snoc attempted_values streak_step_def)
qed (simp add: error_streak_def streak_of_def)

text \<open>C8 (invariant). An error of a channel is damped.  Start from a store without a record of the channel, record any sequence of
  attempts for any channels one after the other, the last one for this channel, with files and a database that can be written.  If the
  channel then has a record, its counter is the number of error attempts of the channel since its last ok attempt, and it says error
  exactly when the last attempt was an error, the counter has reached the number of failures in the contract (GraceFailures, or its default)
  and, for a channel of the Taiwan market session, the last attempt was inside the session.\<close>
theorem errors_are_damped:
  assumes "stored_record i s0 = None" "at_channel a = i" "stored_record i (fold record_attempt (as @ [a]) s0) = Some r"
  shows "hr_failures r = error_streak i (as @ [a]) \<and>
    (hr_status r = ''error'' \<longleftrightarrow>
       at_status a = ''error'' \<and> EffectiveGraceFailures (contract_of i) \<le> error_streak i (as @ [a]) \<and>
       (cc_market_session (contract_of i) = MarketSessionTW \<longrightarrow> twMarketSessionActive (at_now a)))"
proof -
  let ?s = "fold record_attempt as s0"
  have n: "hr_failures (attempted_record a ?s) = error_streak i (as @ [a])"
    using streak_run[OF assms(1), of as] assms(2) by (simp add: attempted_values error_streak_snoc)
  have "view (Some r) = Some (hr_status (attempted_record a ?s), hr_failures (attempted_record a ?s))"
    using assms(2,3) view_record_attempt[of i a ?s] by simp
  then have r: "hr_status r = hr_status (attempted_record a ?s)" "hr_failures r = error_streak i (as @ [a])"
    using n by (auto simp: view_def)
  show ?thesis unfolding r(1) attempted_values(2) n
    using assms(2) r(2) by (auto simp: outcome_status_def Let_def)
qed

section \<open>Concrete records\<close>

text \<open>No contract of the table sets its own tolerance: two failures are tolerated everywhere.\<close>

definition default_grace :: "contract_registry \<Rightarrow> bool" where
  "default_grace r \<longleftrightarrow> (\<forall>i c. map_of r i = Some c \<longrightarrow> cc_grace_failures c = 0)"

lemma default_grace_Contract: "default_grace r \<Longrightarrow> cc_grace_failures (Contract i r) = 0"
  by (auto simp: default_grace_def Contract_def Lookup_def DefaultChannelContract_def split: option.split)

lemma default_grace_Register: "default_grace r \<Longrightarrow> cc_grace_failures c = 0 \<Longrightarrow> default_grace (Register c r)"
  by (auto simp: default_grace_def Register_def)

lemma default_grace_rows:
  "default_grace r \<Longrightarrow> default_grace (live i p h as r)"
  "default_grace r \<Longrightarrow> (\<And>c. cc_grace_failures (f c) = cc_grace_failures c) \<Longrightarrow> default_grace (amend i f r)"
  "default_grace r \<Longrightarrow> (\<And>c. cc_grace_failures (f c) = cc_grace_failures c) \<Longrightarrow> default_grace (declared i f r)"
  by (simp_all add: live_def amend_def declared_def default_grace_Register default_grace_Contract DefaultChannelContract_def)

lemma default_grace_sessions:
  "default_grace r \<Longrightarrow> default_grace (fold (\<lambda>i. amend i (\<lambda>c. c\<lparr>cc_market_session := w\<rparr>)) is r)"
  by (induction "is" arbitrary: r) (simp_all add: default_grace_rows)

lemma default_grace_nil: "default_grace []"
  by (simp add: default_grace_def)

lemma contract_grace: "EffectiveGraceFailures (contract_of i) = 2"
proof -
  have "default_grace buildChannelContractRegistry"
    unfolding buildChannelContractRegistry_def Let_def live_contracts_def file_contracts_def
    by (simp only: fold_simps) (intro default_grace_rows default_grace_sessions default_grace_nil; simp)
  then show ?thesis
    by (simp add: contract_of_def EffectiveGraceFailures_def default_grace_Contract DefaultGraceFailures_def)
qed

definition demo_attempt :: "time \<Rightarrow> attempt" where
  "demo_attempt t = \<lparr>at_now = t, at_channel = ''us_yahoo'', at_status = ''error'', at_error = ''status 503'', at_advance = False, at_options = []\<rparr>"

lemma errors_are_damped_witness:
  "\<exists>r. stored_record ''us_yahoo'' (record_attempt (demo_attempt 0) (NewChannelHealthStore NoFile NoFile None)) = Some r \<and>
     hr_failures r = 1 \<and> hr_status r \<noteq> ''error''"
proof -
  let ?s0 = "NewChannelHealthStore NoFile NoFile None"
  have none: "stored_record ''us_yahoo'' ?s0 = None"
    by (simp add: stored_record_def load_health_def NewChannelHealthStore_def)
  have "view (stored_record ''us_yahoo'' (record_attempt (demo_attempt 0) ?s0)) \<noteq> None"
    by (simp add: view_record_attempt demo_attempt_def)
  then obtain r where r: "stored_record ''us_yahoo'' (record_attempt (demo_attempt 0) ?s0) = Some r" by (auto simp: view_def)
  then have run: "stored_record ''us_yahoo'' (fold record_attempt ([] @ [demo_attempt 0]) ?s0) = Some r" by simp
  have "at_channel (demo_attempt 0) = ''us_yahoo''" by (simp add: demo_attempt_def)
  from errors_are_damped[OF none this run] r show ?thesis
    by (simp add: error_streak_def streak_step_def demo_attempt_def contract_grace)
qed

text \<open>Fetched on Friday, August 28, 2026, at 16:00 in Taipei, read on Sunday at noon.\<close>

definition demo_record :: health_record where
  "demo_record = empty_record\<lparr>hr_status := StatusOK, hr_last_fetch := At (tw_instant 20693 (16 * hour))\<rparr>"

lemma freshness_verdict_witness:
  "DeriveChannelStatus (Some demo_record) ((DefaultChannelContract ''twse_sbl'')\<lparr>cc_publish_calendar := PublishCalendarTWTradingDay\<rparr>)
     (tw_instant 20695 (12 * hour)) = StatusOK"
proof -
  let ?c = "(DefaultChannelContract ''twse_sbl'')\<lparr>cc_publish_calendar := PublishCalendarTWTradingDay\<rparr>"
  let ?now = "tw_instant 20695 (12 * hour)"
  have no: "\<not> (20693 < n \<and> trading_date n \<and> publish_deadline n < ?now)" for n
  proof
    assume n: "20693 < n \<and> trading_date n \<and> publish_deadline n < ?now"
    then have "n < 20695" by (simp add: publish_deadline_def tw_instant_def taipeiLoc_def twLocation_def)
    with n have "n = 20694" by simp
    with n show False by (simp add: trading_date_def weekday_def)
  qed
  have "local_day taipeiLoc (tw_instant 20693 (16 * hour)) = 20693"
    using local_day_tw[of "16 * hour" 20693] by (simp add: taipeiLoc_def twLocation_def)
  then show ?thesis
    using freshness_verdict[of demo_record "tw_instant 20693 (16 * hour)" ?c ?now 172800] no
    by (simp add: demo_record_def empty_record_def status_words IsRetired_def DefaultChannelContract_def zero_time_def i64_min_def
        i64_max_def time_of_day_def EffectiveFreshnessWindow_def StaleDataThreshold_def tw_instant_def taipeiLoc_def twLocation_def)
qed

text \<open>A key without a record crashes \<open>Alerts\<close>; the other readers skip it.\<close>

lemma alerts_panic: "(i, None) \<in> set m \<Longrightarrow> alerts_of threshold now m = None"
  by (induction threshold now m rule: alerts_of.induct) auto

text \<open>The first failure is a warning in the record, but an error in the row of the database.\<close>

lemma database_row_is_not_damped:
  assumes "st_db s = Some rows" "at_status a = ''error''" "stored_record (at_channel a) s = None"
  shows "hr_status (attempted_record a s) = ''warn'' \<and>
    (\<exists>row. map_option (\<lambda>rs. map_of rs (at_channel a)) (st_db (record_attempt a s)) = Some (Some row) \<and> db_status row = ''error'')"
proof -
  have "st_db (load_health s) = Some rows"
    using assms(1) by (simp add: load_health_def loadFetchLog_def split: health_file.split)
  then show ?thesis using assms(2,3)
    by (simp add: attempted_values streak_step_def streak_of_def outcome_status_def contract_grace Let_def record_attempt_def
        recordInternal_def save_health_def appendFetchLog_def recordToDB_def)
qed

end
