(* ===== verification/Gateway.thy ===== *)
theory Gateway
  imports Gateway_Breaker Gateway_Health
begin

text \<open>
  The cache of fetch results, the registry of providers and the gateway
  (\<open>internal/apigateway/cache_registry.go\<close>, \<open>gateway.go\<close>, \<open>provider.go\<close>, \<open>health.go\<close>).

  A provider is outside the gateway: what it answers to a fetch, and what it says about its persisted data, are part of
  the environment of the call, with the clock readings and the outcomes of the health store.  The cache holds
  pointers; the fallback marks the cached result in place.  The fetches of one channel are taken one after the
  other here.
\<close>

section \<open>Results and the cache\<close>

record fetch_meta =
  fm_channel :: string
  fm_latency :: int
  fm_rate_remaining :: int
  fm_timestamp :: time
  fm_cached :: bool
  fm_stale :: bool
  fm_fallback :: bool
  fm_last_error :: string

record fetch_result =
  fr_data :: string
  fr_meta :: fetch_meta
  fr_cached :: bool
  fr_stale :: bool
  fr_fallback :: bool
  fr_last_error :: string

record cache_entry =
  ce_result :: fetch_result
  ce_cached_at :: time

record cache_layer =
  ca_entries :: "(string \<times> cache_entry) list"
  ca_ttl :: duration
  ca_channel_ttl :: "(string \<times> duration) list"

definition NewCacheLayer :: cache_layer where
  "NewCacheLayer = \<lparr>ca_entries = [], ca_ttl = 5 * minute, ca_channel_ttl = []\<rparr>"

definition SetChannelTTL :: "string \<Rightarrow> duration \<Rightarrow> cache_layer \<Rightarrow> cache_layer" where
  "SetChannelTTL i ttl c =
     (if ttl \<le> 0 then c\<lparr>ca_channel_ttl := AList.delete i (ca_channel_ttl c)\<rparr>
      else c\<lparr>ca_channel_ttl := AList.update i ttl (ca_channel_ttl c)\<rparr>)"

definition ttlFor :: "string \<Rightarrow> cache_layer \<Rightarrow> duration" where
  "ttlFor i c = (case map_of (ca_channel_ttl c) i of Some ttl \<Rightarrow> if 0 < ttl then ttl else ca_ttl c | None \<Rightarrow> ca_ttl c)"

definition cache_get :: "time \<Rightarrow> string \<Rightarrow> cache_layer \<Rightarrow> fetch_result option" where
  "cache_get now i c =
     (case map_of (ca_entries c) i of
        None \<Rightarrow> None
      | Some e \<Rightarrow> if ttlFor i c < time_sub now (ce_cached_at e) then None else Some (ce_result e))"

definition cache_set :: "time \<Rightarrow> string \<Rightarrow> fetch_result \<Rightarrow> cache_layer \<Rightarrow> cache_layer" where
  "cache_set now i r c = c\<lparr>ca_entries := AList.update i \<lparr>ce_result = r, ce_cached_at = now\<rparr> (ca_entries c)\<rparr>"

definition Invalidate :: "string \<Rightarrow> cache_layer \<Rightarrow> cache_layer" where
  "Invalidate i c = c\<lparr>ca_entries := AList.delete i (ca_entries c)\<rparr>"

definition InvalidateAll :: "cache_layer \<Rightarrow> cache_layer" where
  "InvalidateAll c = c\<lparr>ca_entries := []\<rparr>"

section \<open>The gateway\<close>

record gateway =
  gw_providers :: "string list"
  gw_breakers :: breaker_manager
  gw_health :: health_store
  gw_cache :: cache_layer

definition channel_thresholds :: "(string \<times> int) list" where
  "channel_thresholds =
     [(''twse_capital_flow'', 5), (''twse_margin'', 5), (''twse_replay'', 5), (''twse_oddlot'', 5), (''twse_etf'', 5),
      (''export_statistics'', 5), (''tsmc_revenue'', 5)]"

definition usCPIChannelCacheTTL :: duration where
  "usCPIChannelCacheTTL = cc_expected_refresh (contract_of ''us_cpi'')"

definition NewGateway :: "health_store \<Rightarrow> gateway" where
  "NewGateway h =
     \<lparr>gw_providers = [],
      gw_breakers = NewCircuitBreakerManagerWithThresholds channel_thresholds CircuitBreakerFailureThreshold channelIDs,
      gw_health = h,
      gw_cache = (if 0 < usCPIChannelCacheTTL then SetChannelTTL ''us_cpi'' usCPIChannelCacheTTL NewCacheLayer else NewCacheLayer)\<rparr>"

definition RegisterProvider :: "string \<Rightarrow> gateway \<Rightarrow> gateway" where
  "RegisterProvider i g = g\<lparr>gw_providers := List.insert i (gw_providers g)\<rparr>"

definition HasChannel :: "string \<Rightarrow> gateway \<Rightarrow> bool" where
  "HasChannel i g \<longleftrightarrow> i \<in> set (gw_providers g)"

definition ForceOpenChannel :: "time \<Rightarrow> string \<Rightarrow> gateway \<Rightarrow> gateway_error option \<times> gateway" where
  "ForceOpenChannel now i g =
     (case force_open_channel now i (gw_breakers g) of (err, m) \<Rightarrow> (err, g\<lparr>gw_breakers := m\<rparr>))"

section \<open>Fetching\<close>

fun error_text :: "gateway_error \<Rightarrow> string" where
  "error_text (CircuitOpen c) = ''circuit breaker open for channel '' @ c"
| "error_text (HalfOpenLimit c) = ''circuit breaker half-open limit reached for '' @ c"
| "error_text (UnknownChannel c) = ''unknown channel: '' @ c"
| "error_text (NotRegistered c) = ''channel not registered: '' @ c"
| "error_text (FetchFailed e) = fe_text e"

text \<open>The fixed text of an empty or retired payload, and the full-width colon, in UTF-8.\<close>

definition stale_payload_text :: string where
  "stale_payload_text =
     [CHR 0xE4, CHR 0xB8, CHR 0x8A, CHR 0xE6, CHR 0xB8, CHR 0xB8, CHR 0xE5, CHR 0x9B, CHR 0x9E, CHR 0xE5,
     CHR 0x82, CHR 0xB3, CHR 0xE7, CHR 0xA9, CHR 0xBA] @ ''/'' @ [CHR 0xE5, CHR 0x81, CHR 0x9C, CHR 0xE7,
     CHR 0x94, CHR 0xA8, CHR 0xE8, CHR 0xB3, CHR 0x87, CHR 0xE6, CHR 0x96, CHR 0x99, CHR 0xEF, CHR 0xBC,
     CHR 0x88] @ ''stale payload'' @ [CHR 0xEF, CHR 0xBC, CHR 0x89]"

definition wide_colon :: string where
  "wide_colon = [CHR 0xEF, CHR 0xBC, CHR 0x9A]"

definition FetchOutcomeStatus :: "fetch_result \<Rightarrow> channel_contract \<Rightarrow> string \<times> string" where
  "FetchOutcomeStatus r c =
     (if \<not> fr_stale r then (StatusOK, [])
      else if \<not> cc_degraded_on_empty c then (StatusOK, [])
      else (StatusDegraded, cc_channel c @ '': '' @ stale_payload_text @
              (if fm_last_error (fr_meta r) \<noteq> [] then wide_colon @ fm_last_error (fr_meta r) else [])))"

record fetch_env =
  fx_admit :: time
  fx_lookup :: time
  fx_store :: time
  fx_settle :: time
  fx_fallback :: time
  fx_answer :: "fetch_error + fetch_result"
  fx_state :: "(string + data_state) option"
  fx_record :: record_env

definition record_health :: "record_env \<Rightarrow> string \<Rightarrow> string \<Rightarrow> string \<Rightarrow> record_option list \<Rightarrow> gateway \<Rightarrow> gateway" where
  "record_health env i status err opts g = g\<lparr>gw_health := snd (Record env i status err opts (gw_health g))\<rparr>"

definition fetch_provider ::
  "fetch_env \<Rightarrow> string \<Rightarrow> gateway \<Rightarrow> (gateway_error + fetch_result) \<times> gateway" where
  "fetch_provider env i g =
     (if i \<notin> set (gw_providers g) then (Inl (NotRegistered i), g)
      else case fx_answer env of
        Inl err \<Rightarrow> (Inl (FetchFailed err), g)
      | Inr res \<Rightarrow>
          (let g1 = g\<lparr>gw_cache := cache_set (fx_store env) i res (gw_cache g)\<rparr>;
               c = contract_of i;
               (status, err) = FetchOutcomeStatus res c;
               ev = EvaluateContractHealth (fx_store env) c (fx_state env)
                      \<lparr>hs_status = ''ok'', hs_last_error = [], hs_updated_at = None, hs_check_type = []\<rparr>;
               (status', err') = (if status = StatusOK \<and> hs_status ev \<noteq> ''ok'' then (hs_status ev, hs_last_error ev) else (status, err))
           in (Inr res, record_health (fx_record env) i status' err' [WithLatencyMs (fm_latency (fr_meta res))] g1)))"

text \<open>The argument of \<open>Call\<close>: its error, or the result it leaves behind.\<close>

definition fetch_body ::
  "fetch_env \<Rightarrow> string \<Rightarrow> gateway \<Rightarrow> (gateway_error + fetch_result) \<times> gateway" where
  "fetch_body env i g =
     (case cache_get (fx_lookup env) i (gw_cache g) of
        Some cached \<Rightarrow> if \<not> fr_stale cached then (Inr cached, g) else fetch_provider env i g
      | None \<Rightarrow> fetch_provider env i g)"

definition mark_fallback :: "string \<Rightarrow> fetch_result \<Rightarrow> fetch_result" where
  "mark_fallback err r =
     r\<lparr>fr_stale := True, fr_fallback := True, fr_last_error := err,
       fr_meta := (fr_meta r)\<lparr>fm_stale := True, fm_fallback := True, fm_last_error := err\<rparr>\<rparr>"

text \<open>The cached result is marked where it is.\<close>

definition mark_cached :: "string \<Rightarrow> string \<Rightarrow> cache_layer \<Rightarrow> cache_layer" where
  "mark_cached i err c =
     c\<lparr>ca_entries := AList.map_entry i (\<lambda>e. e\<lparr>ce_result := mark_fallback err (ce_result e)\<rparr>) (ca_entries c)\<rparr>"

definition report_failure :: "fetch_env \<Rightarrow> string \<Rightarrow> gateway_error \<Rightarrow> gateway \<Rightarrow> gateway" where
  "report_failure env i err g =
     (if wraps ErrNoData err then g\<lparr>gw_health := snd (RecordWaiting (fx_record env) i [] (gw_health g))\<rparr>
      else if wraps ErrQuotaExhausted err \<or> wraps ErrFugleQuotaExhausted err \<or> wraps ErrIPBanned err
        then record_health (fx_record env) i ''warn'' (error_text err) [] g
      else if wraps ErrEmptyQuote err then record_health (fx_record env) i ''warn'' (error_text err) [] g
      else record_health (fx_record env) i ''error'' (error_text err) [] g)"

definition fail_fetch ::
  "fetch_env \<Rightarrow> string \<Rightarrow> gateway_error \<Rightarrow> channel_breaker \<Rightarrow> gateway \<Rightarrow> (gateway_error + fetch_result) \<times> gateway" where
  "fail_fetch env i err cb g =
     (case (if IsOpen cb then cache_get (fx_fallback env) i (gw_cache g) else None) of
        Some res \<Rightarrow>
          (Inr (mark_fallback (error_text err) res),
           record_health (fx_record env) i ''warn'' (error_text err) [] (g\<lparr>gw_cache := mark_cached i (error_text err) (gw_cache g)\<rparr>))
      | None \<Rightarrow> (Inl err, report_failure env i err g))"

definition set_breaker :: "string \<Rightarrow> channel_breaker \<Rightarrow> gateway \<Rightarrow> gateway" where
  "set_breaker i cb g = g\<lparr>gw_breakers := AList.update i cb (gw_breakers g)\<rparr>"

text \<open>A refused call does not run its argument; the outcome in its place is not looked at.\<close>

definition Fetch :: "fetch_env \<Rightarrow> string \<Rightarrow> gateway \<Rightarrow> (gateway_error + fetch_result) \<times> gateway" where
  "Fetch env i g =
     (case get_breaker i (gw_breakers g) of
        Inl err \<Rightarrow> (Inl err, g)
      | Inr cb \<Rightarrow>
          (let (res, g1) = (if admits (fx_admit env) cb then fetch_body env i g else (Inl (UnknownChannel i), g));
               (callErr, cb') = Call (fx_admit env) (fx_settle env) (case res of Inl err \<Rightarrow> Some err | Inr _ \<Rightarrow> None) cb;
               g2 = set_breaker i cb' g1
           in case callErr of
                Some err \<Rightarrow> fail_fetch env i err cb' g2
              | None \<Rightarrow> (res, g2)))"

section \<open>Summaries\<close>

definition channel_summary :: "time \<Rightarrow> string \<Rightarrow> health_record option \<Rightarrow> string" where
  "channel_summary now i rec =
     (case rec of None \<Rightarrow> ''unknown'' | Some r \<Rightarrow> DeriveChannelStatus (Some r) (contract_of i) now)"

definition StatusSummary :: "time \<Rightarrow> health_store \<Rightarrow> (string \<times> string) list" where
  "StatusSummary now h = map (\<lambda>i. (i, channel_summary now i (fst (get_health i h)))) channelIDs"

definition Summary :: "time \<Rightarrow> gateway \<Rightarrow> (string \<times> string) list" where
  "Summary now g = StatusSummary now (gw_health g)"

section \<open>Frames\<close>

lemma record_health_frame [simp]:
  "gw_cache (record_health env i st err opts g) = gw_cache g" "gw_breakers (record_health env i st err opts g) = gw_breakers g"
  "gw_providers (record_health env i st err opts g) = gw_providers g"
  by (simp_all add: record_health_def)

lemma report_failure_frame [simp]:
  "gw_cache (report_failure env i err g) = gw_cache g" "gw_breakers (report_failure env i err g) = gw_breakers g"
  by (simp_all add: report_failure_def)

lemma set_breaker_frame [simp]:
  "gw_cache (set_breaker i cb g) = gw_cache g"
  "map_of (gw_breakers (set_breaker i cb g)) j = (if j = i then Some cb else map_of (gw_breakers g) j)"
  by (simp_all add: set_breaker_def)

lemma fetch_provider_breakers [simp]: "gw_breakers (snd (fetch_provider env i g)) = gw_breakers g"
  by (simp add: fetch_provider_def Let_def split: sum.split prod.split)

lemma fetch_body_breakers [simp]: "gw_breakers (snd (fetch_body env i g)) = gw_breakers g"
  by (simp add: fetch_body_def split: option.split)

text \<open>A failing body leaves the gateway as it is, and it fails only when the cache had nothing fresh.\<close>

lemma fetch_body_fails:
  assumes "fst (fetch_body env i g) = Inl err"
  shows "snd (fetch_body env i g) = g \<and>
    (\<forall>r. cache_get (fx_lookup env) i (gw_cache g) = Some r \<longrightarrow> fr_stale r)"
  using assms by (auto simp: fetch_body_def fetch_provider_def Let_def split: option.splits sum.splits if_splits prod.splits)

section \<open>The fallback\<close>

text \<open>Fetches one after the other, on a clock that does not go back.\<close>

definition clocks_in_order :: "time \<Rightarrow> fetch_env \<Rightarrow> bool" where
  "clocks_in_order t env \<longleftrightarrow> t \<le> fx_admit env \<and> fx_admit env \<le> fx_lookup env \<and> fx_lookup env \<le> fx_store env \<and>
     fx_store env \<le> fx_settle env \<and> fx_settle env \<le> fx_fallback env"

inductive fetch_run :: "gateway \<Rightarrow> time \<Rightarrow> bool" where
  run_new: "fetch_run (fold RegisterProvider is (NewGateway h)) t"
| run_fetch: "fetch_run g t \<Longrightarrow> clocks_in_order t env \<Longrightarrow> fetch_run (snd (Fetch env i g)) (fx_fallback env)"

text \<open>What an open breaker means for the cache: the entry of its channel has expired or is marked.\<close>

definition spent :: "time \<Rightarrow> string \<Rightarrow> cache_layer \<Rightarrow> bool" where
  "spent t i c \<longleftrightarrow> (\<forall>e. map_of (ca_entries c) i = Some e \<longrightarrow> fr_stale (ce_result e) \<or> ttlFor i c < time_sub t (ce_cached_at e))"

definition open_spent :: "string \<Rightarrow> time \<Rightarrow> gateway \<Rightarrow> bool" where
  "open_spent i t g \<longleftrightarrow> (\<forall>cb. map_of (gw_breakers g) i = Some cb \<longrightarrow> IsOpen cb \<longrightarrow> spent t i (gw_cache g))"

lemma spent_later: "spent t i c \<Longrightarrow> t \<le> t' \<Longrightarrow> spent t' i c"
  unfolding spent_def using time_sub_mono by (meson less_le_trans)

lemma spent_get: "spent t i c \<Longrightarrow> cache_get t i c = Some r \<Longrightarrow> fr_stale r"
  by (auto simp: spent_def cache_get_def split: option.splits if_splits)

lemma not_fresh_spent: "(\<forall>r. cache_get t i c = Some r \<longrightarrow> fr_stale r) \<Longrightarrow> spent t i c"
  by (auto simp: spent_def cache_get_def split: option.splits if_splits)

lemma ttlFor_frame [simp]:
  "ttlFor i (mark_cached j err c) = ttlFor i c" "ttlFor i (cache_set now j r c) = ttlFor i c"
  by (simp_all add: ttlFor_def mark_cached_def cache_set_def split: option.split)

lemma spent_marked: "spent t i c \<Longrightarrow> spent t i (mark_cached j err c)"
  by (auto simp: spent_def) (auto simp: mark_cached_def map_of_map_entry mark_fallback_def split: if_splits option.splits)

lemma spent_other: "j \<noteq> i \<Longrightarrow> spent t i (cache_set now j r c) = spent t i c"
  by (simp add: spent_def) (simp add: cache_set_def)

lemma fetch_body_other: "j \<noteq> i \<Longrightarrow> spent t i (gw_cache g) \<Longrightarrow> spent t i (gw_cache (snd (fetch_body env j g)))"
  by (auto simp: fetch_body_def fetch_provider_def Let_def spent_other split: option.split sum.split prod.split)

lemma fail_fetch_frame:
  "gw_breakers (snd (fail_fetch env i err cb g)) = gw_breakers g"
  "spent t j (gw_cache g) \<Longrightarrow> spent t j (gw_cache (snd (fail_fetch env i err cb g)))"
  by (auto simp: fail_fetch_def spent_marked split: option.split)

lemma set_breaker_breakers: "gw_breakers (set_breaker i cb g) = AList.update i cb (gw_breakers g)"
  by (simp add: set_breaker_def)

text \<open>The call of a fetch: when it leaves the breaker open, the cache has nothing fresh.\<close>

lemma open_call_spent:
  assumes "open_spent i t g" "map_of (gw_breakers g) i = Some cb" "clocks_in_order t env"
    and "(res, g1) = (if admits (fx_admit env) cb then fetch_body env i g else (Inl (UnknownChannel i), g))"
    and "IsOpen (snd (Call (fx_admit env) (fx_settle env) (case res of Inl err \<Rightarrow> Some err | Inr _ \<Rightarrow> None) cb))"
  shows "g1 = g \<and> spent (fx_fallback env) i (gw_cache g)"
proof -
  from guard.open_after[OF assms(5)]
  consider (failed) err where "admits (fx_admit env) cb" "res = Inl err" | (refused) "\<not> admits (fx_admit env) cb" "IsOpen cb"
    by (cases res) auto
  then show ?thesis
  proof cases
    case failed
    with assms(4) have "fst (fetch_body env i g) = Inl err" "g1 = snd (fetch_body env i g)" by (auto simp: prod_eq_iff)
    with fetch_body_fails have "g1 = g" "spent (fx_lookup env) i (gw_cache g)" by (auto intro: not_fresh_spent)
    with assms(3) show ?thesis by (auto simp: clocks_in_order_def intro: spent_later)
  next
    case refused
    with assms(1,2) have "spent t i (gw_cache g)" by (simp add: open_spent_def)
    with refused assms(3,4) show ?thesis by (auto simp: clocks_in_order_def intro: spent_later)
  qed
qed

lemma Fetch_unknown: "map_of (gw_breakers g) i = None \<Longrightarrow> Fetch env i g = (Inl (UnknownChannel i), g)"
  by (simp add: Fetch_def get_breaker_def)

lemma Fetch_open_spent:
  assumes "open_spent i t g" "open_spent j t g" "clocks_in_order t env"
  shows "open_spent j (fx_fallback env) (snd (Fetch env i g))"
proof (cases "map_of (gw_breakers g) i")
  case None
  with assms(2,3) show ?thesis by (auto simp: Fetch_unknown open_spent_def clocks_in_order_def intro: spent_later)
next
  case (Some cb)
  obtain res g1 where body: "(res, g1) = (if admits (fx_admit env) cb then fetch_body env i g else (Inl (UnknownChannel i), g))"
    by (metis surj_pair)
  obtain callErr cb' where call:
    "Call (fx_admit env) (fx_settle env) (case res of Inl err \<Rightarrow> Some err | Inr _ \<Rightarrow> None) cb = (callErr, cb')" by fastforce
  have g1: "gw_breakers g1 = gw_breakers g" using body by (auto split: if_splits simp: prod_eq_iff)
  have F: "snd (Fetch env i g) =
      (case callErr of Some err \<Rightarrow> snd (fail_fetch env i err cb' (set_breaker i cb' g1)) | None \<Rightarrow> set_breaker i cb' g1)"
    using Some call by (simp add: Fetch_def get_breaker_def body[symmetric] split: option.split)
  have late: "spent t j c \<Longrightarrow> spent (fx_fallback env) j c" for c
    using assms(3) by (auto simp: clocks_in_order_def intro: spent_later)
  have "spent (fx_fallback env) j (gw_cache (snd (Fetch env i g)))"
    if open': "map_of (gw_breakers (snd (Fetch env i g))) j = Some b" "IsOpen b" for b
  proof (cases "j = i")
    case True
    have "b = cb'" using open'(1) True by (auto simp: F fail_fetch_frame set_breaker_breakers split: option.splits)
    then have "g1 = g \<and> spent (fx_fallback env) i (gw_cache g)"
      using open_call_spent[OF assms(1) Some assms(3) body] open'(2) call by simp
    then show ?thesis using True by (auto simp: F fail_fetch_frame split: option.split)
  next
    case False
    then have "map_of (gw_breakers g) j = Some b"
      using open'(1) g1 by (auto simp: F fail_fetch_frame set_breaker_breakers split: option.splits)
    with assms(2) open'(2) have "spent t j (gw_cache g)" by (auto simp: open_spent_def)
    then have "spent t j (gw_cache g1)" using body fetch_body_other[OF False[symmetric]] by (auto split: if_splits simp: prod_eq_iff)
    then show ?thesis by (auto simp: F fail_fetch_frame split: option.split intro: late)
  qed
  then show ?thesis by (auto simp: open_spent_def)
qed

lemma new_gateway_closed: "map_of (gw_breakers (NewGateway h)) i = Some cb \<Longrightarrow> gb_state cb = StateClosed"
  by (auto simp: NewGateway_def NewCircuitBreakerManager_get NewChannelBreaker_def split: if_splits)

lemma registered_breakers: "gw_breakers (fold RegisterProvider is g) = gw_breakers g"
  by (induction "is" arbitrary: g) (simp_all add: RegisterProvider_def)

lemma fetch_run_open_spent: "fetch_run g t \<Longrightarrow> open_spent i t g"
proof (induction arbitrary: i rule: fetch_run.induct)
  case (run_new "is" h t)
  then show ?case by (auto simp: open_spent_def registered_breakers IsOpen_def dest: new_gateway_closed)
qed (rule Fetch_open_spent)

text \<open>
  The fallback for an open breaker never serves a payload that was good when it was cached: as long as nobody
  forces a breaker open, a fetch that leaves its breaker open and still returns a result returns one that was
  cached with its stale mark already set by the provider (or by an earlier fallback).  A fresh entry is served before the provider is
  asked, so the breaker opens only after it has expired, and an expired entry is not served.
\<close>

theorem fallback_serves_no_good_payload:
  assumes "fetch_run g t" "clocks_in_order t env" "Fetch env i g = (Inr res, g')"
    and "map_of (gw_breakers g') i = Some cb" "IsOpen cb"
  shows "\<exists>e. map_of (ca_entries (gw_cache g)) i = Some e \<and> fr_stale (ce_result e) \<and> fr_fallback res"
proof -
  obtain cb0 where cb0: "map_of (gw_breakers g) i = Some cb0" using assms(3) Fetch_unknown by fastforce
  obtain r g1 where body: "(r, g1) = (if admits (fx_admit env) cb0 then fetch_body env i g else (Inl (UnknownChannel i), g))"
    by (metis surj_pair)
  obtain callErr cb' where call:
    "Call (fx_admit env) (fx_settle env) (case r of Inl err \<Rightarrow> Some err | Inr _ \<Rightarrow> None) cb0 = (callErr, cb')" by fastforce
  have F: "Fetch env i g =
      (case callErr of Some err \<Rightarrow> fail_fetch env i err cb' (set_breaker i cb' g1) | None \<Rightarrow> (r, set_breaker i cb' g1))"
    using cb0 call by (simp add: Fetch_def get_breaker_def body[symmetric] split: option.split)
  have "gw_breakers g' = AList.update i cb' (gw_breakers g1)"
    using F assms(3) fail_fetch_frame(1)[of env i _ cb' "set_breaker i cb' g1"]
    by (cases callErr) (auto simp: set_breaker_breakers dest: arg_cong[where f = "\<lambda>p. gw_breakers (snd p)"])
  then have "cb = cb'" using assms(4) by simp
  with call assms(5) open_call_spent[OF fetch_run_open_spent[OF assms(1)] cb0 assms(2) body]
  have g1: "g1 = g" "spent (fx_fallback env) i (gw_cache g)" by auto
  have "callErr \<noteq> None"
  proof
    assume "callErr = None"
    then have "fst (Call (fx_admit env) (fx_settle env) (case r of Inl err \<Rightarrow> Some err | Inr _ \<Rightarrow> None) cb0) = None" using call by simp
    from guard.no_error[OF this] guard.success_closes[of "fx_admit env" cb0 "fx_settle env"] show False
      using call \<open>cb = cb'\<close> assms(5) by auto
  qed
  then obtain err where err: "callErr = Some err" by blast
  from F assms(3) err g1(1) have "cache_get (fx_fallback env) i (gw_cache g) \<noteq> None \<and> fr_fallback res"
    by (auto simp: fail_fetch_def mark_fallback_def split: option.splits if_splits)
  then obtain c where c: "cache_get (fx_fallback env) i (gw_cache g) = Some c" "fr_fallback res" by auto
  then show ?thesis using spent_get[OF g1(2) c(1)] by (auto simp: cache_get_def split: option.splits if_splits)
qed

section \<open>Fetches on a closed breaker\<close>

lemma Fetch_closed:
  assumes "map_of (gw_breakers g) i = Some cb" "gb_state cb = StateClosed" "fetch_body env i g = (res, g1)"
  shows "Fetch env i g =
    (case res of
       Inl err \<Rightarrow> fail_fetch env i err (settle_call (fx_settle env) (Some err) cb) (set_breaker i (settle_call (fx_settle env) (Some err) cb) g1)
     | Inr _ \<Rightarrow> (res, set_breaker i (settle_call (fx_settle env) None cb) g1))"
  using assms by (simp add: Fetch_def get_breaker_def admits_def Call_def closed_admits split: sum.split)

text \<open>A fresh entry answers without the provider being asked.\<close>

lemma Fetch_cached:
  assumes "map_of (gw_breakers g) i = Some cb" "gb_state cb = StateClosed"
    and "cache_get (fx_lookup env) i (gw_cache g) = Some r" "\<not> fr_stale r"
  shows "fst (Fetch env i g) = Inr r \<and> gw_cache (snd (Fetch env i g)) = gw_cache g \<and> gw_health (snd (Fetch env i g)) = gw_health g"
  by (simp add: Fetch_closed[OF assms(1,2), of env "Inr r" g] fetch_body_def assms set_breaker_def)

lemma Fetch_answered:
  assumes "map_of (gw_breakers g) i = Some cb" "gb_state cb = StateClosed" "i \<in> set (gw_providers g)"
    and "map_of (ca_entries (gw_cache g)) i = None" "fx_answer env = Inr r"
  shows "gw_breakers (snd (Fetch env i g)) = AList.update i (settle_call (fx_settle env) None cb) (gw_breakers g) \<and>
    gw_cache (snd (Fetch env i g)) = cache_set (fx_store env) i r (gw_cache g) \<and> gw_providers (snd (Fetch env i g)) = gw_providers g"
proof -
  have none: "cache_get (fx_lookup env) i (gw_cache g) = None" by (simp add: cache_get_def assms(4))
  have "fst (fetch_body env i g) = Inr r" "gw_cache (snd (fetch_body env i g)) = cache_set (fx_store env) i r (gw_cache g)"
    "gw_providers (snd (fetch_body env i g)) = gw_providers g"
    by (simp_all add: fetch_body_def none fetch_provider_def assms(3,5) Let_def split: prod.split)
  moreover from this(1) have "fetch_body env i g = (Inr r, snd (fetch_body env i g))" by (simp add: prod_eq_iff)
  ultimately show ?thesis using Fetch_closed[OF assms(1,2)] by (simp add: set_breaker_def)
qed

lemma Fetch_failed:
  assumes "map_of (gw_breakers g) i = Some cb" "gb_state cb = StateClosed" "i \<in> set (gw_providers g)"
    and "\<forall>r. cache_get (fx_lookup env) i (gw_cache g) = Some r \<longrightarrow> fr_stale r" "fx_answer env = Inl e"
    and "cb' = settle_call (fx_settle env) (Some (FetchFailed e)) cb"
  shows "Fetch env i g = fail_fetch env i (FetchFailed e) cb' (set_breaker i cb' g)"
proof -
  have "fetch_body env i g = (Inl (FetchFailed e), g)"
    using assms(3-5) by (cases "cache_get (fx_lookup env) i (gw_cache g)") (auto simp: fetch_body_def fetch_provider_def)
  then show ?thesis by (simp add: Fetch_closed[OF assms(1,2)] assms(6))
qed

lemma fail_fetch_closed: "\<not> IsOpen cb \<Longrightarrow> fail_fetch env i err cb g = (Inl err, report_failure env i err g)"
  by (simp add: fail_fetch_def)

lemma report_failure_providers [simp]: "gw_providers (report_failure env i err g) = gw_providers g"
  by (simp add: report_failure_def)

text \<open>The Baltic Dry Index, one empty payload and three failures within the five minutes of the cache.\<close>

definition demo_result :: fetch_result where
  "demo_result =
     \<lparr>fr_data = [], fr_meta = \<lparr>fm_channel = ''bdi'', fm_latency = 12, fm_rate_remaining = 0, fm_timestamp = 0, fm_cached = False,
       fm_stale = True, fm_fallback = False, fm_last_error = []\<rparr>, fr_cached = False, fr_stale = True, fr_fallback = False, fr_last_error = []\<rparr>"

definition demo_fetch :: "time \<Rightarrow> (fetch_error + fetch_result) \<Rightarrow> fetch_env" where
  "demo_fetch t answer =
     \<lparr>fx_admit = t, fx_lookup = t, fx_store = t, fx_settle = t, fx_fallback = t, fx_answer = answer, fx_state = None,
      fx_record = \<lparr>re_now = t, re_disk = \<lparr>do_health = True, do_log = True\<rparr>, re_db_ok = True\<rparr>\<rparr>"

definition demo_status :: fetch_error where
  "demo_status = \<lparr>fe_text = ''status 503'', fe_wraps = []\<rparr>"

definition demo_gateway :: gateway where
  "demo_gateway = snd (Fetch (demo_fetch 0 (Inr demo_result)) ''bdi'' (RegisterProvider ''bdi'' (NewGateway (NewChannelHealthStore NoFile NoFile None))))"

definition failing_bdi :: "int \<Rightarrow> gateway \<Rightarrow> bool" where
  "failing_bdi n g \<longleftrightarrow>
     map_of (gw_breakers g) ''bdi'' = Some ((NewChannelBreaker ''bdi'' [3])\<lparr>gb_failures := n, gb_last_failure := (if n = 0 then zero_time else n)\<rparr>) \<and>
     gw_providers g = [''bdi''] \<and> map_of (ca_entries (gw_cache g)) ''bdi'' = Some \<lparr>ce_result = demo_result, ce_cached_at = 0\<rparr> \<and>
     ttlFor ''bdi'' (gw_cache g) = 5 * minute"

lemma demo_fetch_in_order: "clocks_in_order t (demo_fetch t a)"
  by (simp add: clocks_in_order_def demo_fetch_def)

lemma demo_gateway_start: "failing_bdi 0 demo_gateway"
proof -
  let ?g = "RegisterProvider ''bdi'' (NewGateway (NewChannelHealthStore NoFile NoFile None))"
  let ?e = "demo_fetch 0 (Inr demo_result)"
  have cache: "map_of (ca_entries (gw_cache ?g)) ''bdi'' = None" "ttlFor ''bdi'' (gw_cache ?g) = 5 * minute"
    by (simp_all add: RegisterProvider_def NewGateway_def NewCacheLayer_def SetChannelTTL_def ttlFor_def)
  have breaker: "map_of (gw_breakers ?g) ''bdi'' = Some (NewChannelBreaker ''bdi'' [3])"
    by (simp add: RegisterProvider_def NewGateway_def NewCircuitBreakerManager_get channelIDs_def channel_thresholds_def
        CircuitBreakerFailureThreshold_def)
  have "gw_providers ?g = [''bdi'']" by (simp add: RegisterProvider_def NewGateway_def)
  moreover have "gb_state (NewChannelBreaker ''bdi'' [3]) = StateClosed" by (simp add: NewChannelBreaker_def)
  moreover have "fx_answer ?e = Inr demo_result" by (simp add: demo_fetch_def)
  ultimately show ?thesis
    using Fetch_answered[OF breaker _ _ cache(1), of ?e demo_result] cache(2)
    by (simp add: failing_bdi_def demo_gateway_def)
       (simp add: cache_set_def demo_fetch_def settle_call_def NewChannelBreaker_def)
qed

lemma demo_stale: "failing_bdi n g \<Longrightarrow> cache_get t ''bdi'' (gw_cache g) = Some r \<Longrightarrow> fr_stale r"
  by (auto simp: failing_bdi_def cache_get_def demo_result_def split: if_splits)

lemma demo_failure_step:
  assumes "failing_bdi n g" "0 \<le> n" "n < 2"
  shows "failing_bdi (n + 1) (snd (Fetch (demo_fetch (n + 1) (Inl demo_status)) ''bdi'' g))"
proof -
  let ?cb = "(NewChannelBreaker ''bdi'' [3])\<lparr>gb_failures := n, gb_last_failure := (if n = 0 then zero_time else n)\<rparr>"
  let ?cb' = "(NewChannelBreaker ''bdi'' [3])\<lparr>gb_failures := n + 1, gb_last_failure := n + 1\<rparr>"
  let ?e = "demo_fetch (n + 1) (Inl demo_status)"
  have cb': "?cb' = settle_call (fx_settle ?e) (Some (FetchFailed demo_status)) ?cb"
    using assms by (simp add: settle_call_def demo_fetch_def demo_status_def isExpectedNonFailureErr_def wraps_def NewChannelBreaker_def)
  have "Fetch ?e ''bdi'' g = fail_fetch ?e ''bdi'' (FetchFailed demo_status) ?cb' (set_breaker ''bdi'' ?cb' g)"
    by (rule Fetch_failed[OF _ _ _ _ _ cb']) (use assms demo_stale[OF assms(1)] in \<open>auto simp: failing_bdi_def demo_fetch_def NewChannelBreaker_def\<close>)
  then show ?thesis
    using assms by (simp add: fail_fetch_closed IsOpen_def NewChannelBreaker_def failing_bdi_def) (simp add: set_breaker_def)
qed

lemma fallback_serves_no_good_payload_witness:
  "\<exists>g e res. fst (Fetch (demo_fetch 3 (Inl demo_status)) ''bdi'' g) = Inr res \<and> gw_providers g = [''bdi''] \<and>
     map_of (ca_entries (gw_cache g)) ''bdi'' = Some e \<and> fr_stale (ce_result e) \<and> fr_fallback res"
proof -
  let ?e = "\<lambda>n. demo_fetch n (Inl demo_status)"
  define g1 where "g1 = snd (Fetch (?e 1) ''bdi'' demo_gateway)"
  define g2 where "g2 = snd (Fetch (?e 2) ''bdi'' g1)"
  have g2: "failing_bdi 2 g2"
    using demo_failure_step[OF demo_failure_step[OF demo_gateway_start]] by (simp add: g1_def g2_def)
  have order: "clocks_in_order s (demo_fetch t a)" if "s \<le> t" for s t a
    using that by (simp add: clocks_in_order_def demo_fetch_def)
  have step: "fetch_run g s \<Longrightarrow> s \<le> t \<Longrightarrow> fetch_run (snd (Fetch (demo_fetch t a) ''bdi'' g)) t" for g s t a
    using run_fetch[of g s "demo_fetch t a" "''bdi''"] order[of s t a] by (simp add: demo_fetch_def)
  have "fetch_run demo_gateway 0"
    unfolding demo_gateway_def
    using run_new[of "[''bdi'']" "NewChannelHealthStore NoFile NoFile None" 0] by (intro step[of _ 0 0]) simp_all
  then have run: "fetch_run g2 2" unfolding g2_def g1_def using step[OF step, of _ 0 1 2] by simp
  let ?cb = "(NewChannelBreaker ''bdi'' [3])\<lparr>gb_failures := 2, gb_last_failure := 2\<rparr>"
  let ?cb' = "(NewChannelBreaker ''bdi'' [3])\<lparr>gb_state := StateOpen, gb_failures := 3, gb_last_failure := 3\<rparr>"
  have cb': "?cb' = settle_call (fx_settle (?e 3)) (Some (FetchFailed demo_status)) ?cb"
    by (simp add: settle_call_def demo_fetch_def demo_status_def isExpectedNonFailureErr_def wraps_def NewChannelBreaker_def)
  have F: "Fetch (?e 3) ''bdi'' g2 = fail_fetch (?e 3) ''bdi'' (FetchFailed demo_status) ?cb' (set_breaker ''bdi'' ?cb' g2)"
    by (rule Fetch_failed[OF _ _ _ _ _ cb']) (use g2 demo_stale[OF g2] in \<open>auto simp: failing_bdi_def demo_fetch_def NewChannelBreaker_def\<close>)
  have "cache_get 3 ''bdi'' (gw_cache g2) = Some demo_result"
    using g2 by (simp add: failing_bdi_def cache_get_def time_sub_def i64_min_def i64_max_def )
  then obtain res where res: "fst (Fetch (?e 3) ''bdi'' g2) = Inr res"
    unfolding F by (simp add: fail_fetch_def IsOpen_def) (simp add: demo_fetch_def)
  have breakers: "map_of (gw_breakers (snd (Fetch (?e 3) ''bdi'' g2))) ''bdi'' = Some ?cb'"
    unfolding F by (simp add: fail_fetch_frame)
  have "Fetch (?e 3) ''bdi'' g2 = (Inr res, snd (Fetch (?e 3) ''bdi'' g2))" using res by (simp add: prod_eq_iff)
  from fallback_serves_no_good_payload[OF run order this breakers]
  show ?thesis using res g2 by (force simp: IsOpen_def failing_bdi_def)
qed

end
