(* ===== verification/Risk_PreTrade.thy ===== *)
theory Risk_PreTrade
  imports Float64 "HOL-Library.Sublist"
begin

text \<open>
  Risk decisions and the gate before a trade (\<open>internal/risk/decision.go\<close>, \<open>pre_trade.go\<close>).

  The message of a rule is a constructor of \<open>rule_message\<close> with the values that the text is formatted from.  The maturity
  tracker of the domain is its current phase, the time of a decision is left out.
\<close>

section \<open>Decisions\<close>

datatype risk_phase = PhasePreTrade | PhaseInTrade | PhasePostTrade

datatype verdict = VerdictAllow | VerdictReduce | VerdictBlock | VerdictHalt | VerdictAlertOnly

text \<open>\<open>LevelAllow\<close> to \<open>LevelHalt\<close>.\<close>

fun Level :: "verdict \<Rightarrow> nat" where
  "Level VerdictAllow = 0"
| "Level VerdictAlertOnly = 1"
| "Level VerdictReduce = 2"
| "Level VerdictBlock = 3"
| "Level VerdictHalt = 4"

datatype action_type = NoAction | ActionSell | ActionReduce | ActionFreeze | ActionLiquidate | ActionNotify

datatype rule_message =
    NoMessage
  | PositionWouldBe string string f64 f64 int
  | SectorWouldBe string f64 f64
  | VarWarming
  | VarIs f64 f64
  | CashWouldBe f64 f64
  | PositionCount bool int int int
  | Sentiment f64
  | StopLossAt string f64 f64
  | TakeProfitAt string f64 f64
  | TrailingStopAt string f64 f64
  | Volatility f64 f64
  | DailyLoss f64 f64
  | Drawdown f64
  | DrawdownExceeds f64 f64
  | RollingSharpe f64 f64
  | LossDays int int
  | Insufficient string
  | GateSuspended
  | ModeChanged string string
  | DefensiveCap

record rule_result =
  rr_name :: string
  rr_passed :: bool
  rr_current :: f64
  rr_threshold :: f64
  rr_severity :: string
  rr_message :: rule_message

record risk_action =
  ra_type :: action_type
  ra_target :: f64
  ra_symbols :: "string list"
  ra_description :: rule_message

record risk_decision =
  rd_phase :: risk_phase
  rd_verdict :: verdict
  rd_reason :: rule_message
  rd_action :: risk_action
  rd_details :: "rule_result list"
  rd_mode :: string
  rd_symbol :: string

definition no_action :: risk_action where
  "no_action = \<lparr>ra_type = NoAction, ra_target = Fin 0, ra_symbols = [], ra_description = NoMessage\<rparr>"

definition new_decision :: "risk_phase \<Rightarrow> verdict \<Rightarrow> string \<Rightarrow> string \<Rightarrow> risk_decision" where
  "new_decision ph v mode symbol =
     \<lparr>rd_phase = ph, rd_verdict = v, rd_reason = NoMessage, rd_action = no_action, rd_details = [], rd_mode = mode, rd_symbol = symbol\<rparr>"

definition passing :: "string \<Rightarrow> rule_message \<Rightarrow> rule_result" where
  "passing name msg =
     \<lparr>rr_name = name, rr_passed = True, rr_current = Fin 0, rr_threshold = Fin 0, rr_severity = ''INFO'', rr_message = msg\<rparr>"

record order_intent =
  oi_symbol :: string
  oi_side :: string
  oi_notional :: f64
  oi_agent :: string
  oi_sector :: string
  oi_conviction :: int

record portfolio_state =
  pf_total :: f64
  pf_cash :: f64
  pf_sectors :: "(string \<times> f64) list"
  pf_positions :: "(string \<times> f64) list"
  pf_var :: f64

definition amount :: "string \<Rightarrow> (string \<times> f64) list \<Rightarrow> f64" where
  "amount k m = (case map_of m k of Some v \<Rightarrow> v | None \<Rightarrow> Fin 0)"

section \<open>The rules before a trade\<close>

text \<open>The phases of the maturity tracker.\<close>

datatype maturity = MaturityBurnIn | MaturityCalibrating | MaturityFullAuto

record pre_trade_gate =
  pg_max_position :: f64
  pg_max_sector :: f64
  pg_var_limit :: f64
  pg_min_cash :: f64
  pg_max_open :: int
  pg_maturity :: "maturity option"
  pg_rsi :: f64

definition SetRSITwScore :: "f64 \<Rightarrow> pre_trade_gate \<Rightarrow> pre_trade_gate" where
  "SetRSITwScore score g = g\<lparr>pg_rsi := score\<rparr>"

definition verdictSeverity :: "f64 \<Rightarrow> f64 \<Rightarrow> string" where
  "verdictSeverity current threshold =
     (let ratio = fdiv current threshold
      in if flt (Fin 2) ratio then ''CRITICAL'' else if flt (Fin (3 / 2)) ratio then ''WARNING'' else ''INFO'')"

definition position_limit :: "pre_trade_gate \<Rightarrow> int \<Rightarrow> f64" where
  "position_limit g conviction =
     (if 50 < conviction then
        (let bonus = fmul (fdiv (f64_of_int (conviction - 50)) (Fin 100)) (f64_const (7 / 100));
             limit = fadd (pg_max_position g) bonus
         in if flt (f64_const (22 / 100)) limit then f64_const (22 / 100) else limit)
      else pg_max_position g)"

definition ruleMaxPosition :: "pre_trade_gate \<Rightarrow> order_intent \<Rightarrow> portfolio_state \<Rightarrow> rule_result" where
  "ruleMaxPosition g ord pf =
     (let pct = fdiv (fadd (amount (oi_symbol ord) (pf_positions pf)) (oi_notional ord)) (pf_total pf);
          limit = position_limit g (oi_conviction ord)
      in \<lparr>rr_name = ''max_position_pct'', rr_passed = fle pct limit, rr_current = pct, rr_threshold = limit,
          rr_severity = verdictSeverity pct limit,
          rr_message = PositionWouldBe (oi_side ord) (oi_symbol ord) pct limit (oi_conviction ord)\<rparr>)"

definition ruleSectorExposure :: "pre_trade_gate \<Rightarrow> order_intent \<Rightarrow> portfolio_state \<Rightarrow> rule_result" where
  "ruleSectorExposure g ord pf =
     (if oi_sector ord = [] then passing ''sector_exposure'' NoMessage
      else
        (let pct = fdiv (fadd (amount (oi_sector ord) (pf_sectors pf)) (oi_notional ord)) (pf_total pf)
         in \<lparr>rr_name = ''sector_exposure'', rr_passed = fle pct (pg_max_sector g), rr_current = pct, rr_threshold = pg_max_sector g,
             rr_severity = verdictSeverity pct (pg_max_sector g), rr_message = SectorWouldBe (oi_sector ord) pct (pg_max_sector g)\<rparr>))"

definition ruleVaRLimit :: "pre_trade_gate \<Rightarrow> portfolio_state \<Rightarrow> rule_result" where
  "ruleVaRLimit g pf =
     (if pg_maturity g = Some MaturityBurnIn \<or> pg_maturity g = Some MaturityCalibrating
      then (passing ''var_limit'' VarWarming)\<lparr>rr_threshold := pg_var_limit g\<rparr>
      else
        (let pct = fdiv (fabs (pf_var pf)) (pf_total pf)
         in \<lparr>rr_name = ''var_limit'', rr_passed = fle pct (pg_var_limit g), rr_current = pct, rr_threshold = pg_var_limit g,
             rr_severity = verdictSeverity pct (pg_var_limit g), rr_message = VarIs pct (pg_var_limit g)\<rparr>))"

definition ruleCashBuffer :: "pre_trade_gate \<Rightarrow> order_intent \<Rightarrow> portfolio_state \<Rightarrow> rule_result" where
  "ruleCashBuffer g ord pf =
     (let pct = fdiv (fsub (pf_cash pf) (oi_notional ord)) (pf_total pf)
      in \<lparr>rr_name = ''cash_buffer'', rr_passed = fle (pg_min_cash g) pct, rr_current = pct, rr_threshold = pg_min_cash g,
          rr_severity = verdictSeverity (fsub (pg_min_cash g) pct) (pg_min_cash g), rr_message = CashWouldBe pct (pg_min_cash g)\<rparr>)"

definition ruleMaxOpenPositions :: "pre_trade_gate \<Rightarrow> order_intent \<Rightarrow> portfolio_state \<Rightarrow> rule_result" where
  "ruleMaxOpenPositions g ord pf =
     (let current = int (length (filter (\<lambda>(i, v). flt (Fin 0) v) (pf_positions pf)));
          opens = (equal_fold (oi_side ord) ''buy'' \<and> fle (amount (oi_symbol ord) (pf_positions pf)) (Fin 0));
          projected = (if opens then current + 1 else current);
          passed = (projected \<le> pg_max_open g)
      in \<lparr>rr_name = ''max_open_positions'', rr_passed = passed, rr_current = f64_of_int projected, rr_threshold = f64_of_int (pg_max_open g),
          rr_severity = (if passed then ''INFO'' else ''WARNING''), rr_message = PositionCount passed projected (pg_max_open g) current\<rparr>)"

definition sentiment_severity :: "f64 \<Rightarrow> string" where
  "sentiment_severity score =
     (if fle (f64_const (7 / 10)) score then ''CRITICAL''
      else if fle (Fin (1 / 2)) score then ''REDUCE''
      else if fle score (fneg (f64_const (7 / 10))) then ''CRITICAL''
      else if fle score (Fin (- 1 / 2)) then ''REDUCE''
      else ''INFO'')"

definition ruleRetailSentiment :: "pre_trade_gate \<Rightarrow> rule_result" where
  "ruleRetailSentiment g =
     \<lparr>rr_name = ''retail_sentiment'', rr_passed = flt (Fin (- 1 / 2)) (pg_rsi g) \<and> flt (pg_rsi g) (Fin (1 / 2)),
      rr_current = pg_rsi g, rr_threshold = Fin (1 / 2), rr_severity = sentiment_severity (pg_rsi g), rr_message = Sentiment (pg_rsi g)\<rparr>"

text \<open>One rule of \<open>Check\<close>: its result is kept, and a failure escalates to a block unless a stricter verdict stands.\<close>

definition block_on :: "rule_result \<Rightarrow> risk_decision \<Rightarrow> risk_decision" where
  "block_on r d =
     (let d1 = d\<lparr>rd_details := rd_details d @ [r]\<rparr>
      in if \<not> rr_passed r \<and> Level (rd_verdict d) < Level VerdictBlock then d1\<lparr>rd_verdict := VerdictBlock, rd_reason := rr_message r\<rparr> else d1)"

definition sentiment_on :: "rule_result \<Rightarrow> risk_decision \<Rightarrow> risk_decision" where
  "sentiment_on r d =
     (let d1 = d\<lparr>rd_details := rd_details d @ [r]\<rparr>
      in if rr_passed r then d1
         else if rr_severity r = ''REDUCE'' \<and> Level (rd_verdict d) < Level VerdictReduce
           then d1\<lparr>rd_verdict := VerdictReduce, rd_reason := rr_message r\<rparr>
         else if Level (rd_verdict d) < Level VerdictBlock then d1\<lparr>rd_verdict := VerdictBlock, rd_reason := rr_message r\<rparr>
         else d1)"

text \<open>\<open>Check\<close>; the error of a portfolio without value is \<open>None\<close>.\<close>

definition PreTradeCheck :: "pre_trade_gate \<Rightarrow> order_intent \<Rightarrow> portfolio_state \<Rightarrow> string \<Rightarrow> risk_decision option" where
  "PreTradeCheck g ord pf mode =
     (if fle (pf_total pf) (Fin 0) then None
      else
        (let d = sentiment_on (ruleRetailSentiment g)
                   (fold block_on [ruleMaxPosition g ord pf, ruleSectorExposure g ord pf, ruleVaRLimit g pf, ruleCashBuffer g ord pf,
                                   ruleMaxOpenPositions g ord pf] (new_decision PhasePreTrade VerdictAllow mode (oi_symbol ord)))
         in Some (if rd_verdict d = VerdictBlock
                  then d\<lparr>rd_action := no_action\<lparr>ra_type := ActionFreeze, ra_description := rd_reason d\<rparr>\<rparr> else d)))"

text \<open>The reason contains the words \<open>position\<close> and \<open>would be\<close>.\<close>

fun position_reason :: "rule_message \<Rightarrow> bool" where
  "position_reason (PositionWouldBe _ _ _ _ _) = True"
| "position_reason (SectorWouldBe sector _ _) = sublist ''position'' sector"
| "position_reason _ = False"

section \<open>What the gate decides\<close>

definition gate_rules :: "pre_trade_gate \<Rightarrow> order_intent \<Rightarrow> portfolio_state \<Rightarrow> rule_result list" where
  "gate_rules g ord pf =
     [ruleMaxPosition g ord pf, ruleSectorExposure g ord pf, ruleVaRLimit g pf, ruleCashBuffer g ord pf, ruleMaxOpenPositions g ord pf]"

lemma fold_block_on:
  assumes "rd_verdict d = VerdictAllow"
  shows "rd_verdict (fold block_on rs d) = (if list_all rr_passed rs then VerdictAllow else VerdictBlock) \<and>
    rd_reason (fold block_on rs d) = (case find (\<lambda>r. \<not> rr_passed r) rs of Some r \<Rightarrow> rr_message r | None \<Rightarrow> rd_reason d) \<and>
    rd_details (fold block_on rs d) = rd_details d @ rs \<and> rd_mode (fold block_on rs d) = rd_mode d \<and>
    rd_action (fold block_on rs d) = rd_action d \<and> rd_phase (fold block_on rs d) = rd_phase d"
proof -
  have blocked: "rd_verdict (fold block_on rs d) = VerdictBlock \<and> rd_reason (fold block_on rs d) = rd_reason d \<and>
      rd_details (fold block_on rs d) = rd_details d @ rs \<and> rd_mode (fold block_on rs d) = rd_mode d \<and>
      rd_action (fold block_on rs d) = rd_action d \<and> rd_phase (fold block_on rs d) = rd_phase d"
    if "rd_verdict d = VerdictBlock" for rs d
    using that by (induction rs arbitrary: d) (simp_all add: block_on_def Let_def)
  show ?thesis
    using assms by (induction rs arbitrary: d) (auto simp: block_on_def Let_def blocked split: option.split)
qed

definition extreme_sentiment :: "f64 \<Rightarrow> bool" where
  "extreme_sentiment score \<longleftrightarrow> score = NaN \<or> fle (f64_const (7 / 10)) score \<or> fle score (fneg (f64_const (7 / 10)))"

lemma seven_tenths: "fle (Fin (1 / 2)) (f64_const (7 / 10))" "fle (f64_const (7 / 10)) (Fin 1)"
proof -
  have "is_f64 (Fin (1 / 2))" using rnd_dyadic[of 1 1] by (simp add: is_f64_def)
  then show "fle (Fin (1 / 2)) (f64_const (7 / 10))" unfolding f64_const_def by (rule rnd_ge) simp
  show "fle (f64_const (7 / 10)) (Fin 1)" unfolding f64_const_def by (rule rnd_le) simp_all
qed

lemma sentiment_cases:
  "rr_passed (ruleRetailSentiment g) \<Longrightarrow> \<not> extreme_sentiment (pg_rsi g)"
  "\<not> rr_passed (ruleRetailSentiment g) \<Longrightarrow> rr_severity (ruleRetailSentiment g) = ''REDUCE'' \<longleftrightarrow> \<not> extreme_sentiment (pg_rsi g)"
proof -
  obtain c where c: "f64_const (7 / 10) = Fin c" "1 / 2 \<le> c" using seven_tenths fle_between by blast
  show "rr_passed (ruleRetailSentiment g) \<Longrightarrow> \<not> extreme_sentiment (pg_rsi g)"
    using c by (cases "pg_rsi g") (auto simp: ruleRetailSentiment_def extreme_sentiment_def)
  show "\<not> rr_passed (ruleRetailSentiment g) \<Longrightarrow> rr_severity (ruleRetailSentiment g) = ''REDUCE'' \<longleftrightarrow> \<not> extreme_sentiment (pg_rsi g)"
    using c by (cases "pg_rsi g") (auto simp: ruleRetailSentiment_def extreme_sentiment_def sentiment_severity_def)
qed

lemma PreTradeCheck_verdict:
  assumes "PreTradeCheck g ord pf mode = Some d"
  shows "rd_verdict d = (if \<not> list_all rr_passed (gate_rules g ord pf) \<or> extreme_sentiment (pg_rsi g) then VerdictBlock
      else if rr_passed (ruleRetailSentiment g) then VerdictAllow else VerdictReduce) \<and>
    rd_details d = gate_rules g ord pf @ [ruleRetailSentiment g] \<and>
    (\<not> list_all rr_passed (gate_rules g ord pf) \<longrightarrow>
       (\<exists>r. find (\<lambda>r. \<not> rr_passed r) (gate_rules g ord pf) = Some r \<and> rd_reason d = rr_message r)) \<and>
    ra_target (rd_action d) = Fin 0 \<and> rd_mode d = mode"
proof -
  define d0 where "d0 = new_decision PhasePreTrade VerdictAllow mode (oi_symbol ord)"
  define d1 where "d1 = fold block_on (gate_rules g ord pf) d0"
  have "rd_verdict d0 = VerdictAllow" by (simp add: d0_def new_decision_def)
  note d1 = fold_block_on[OF this, of "gate_rules g ord pf", folded d1_def]
  have d0: "rd_details d0 = []" "rd_mode d0 = mode" "rd_action d0 = no_action" by (simp_all add: d0_def new_decision_def)
  have d: "d = (let d2 = sentiment_on (ruleRetailSentiment g) d1 in if rd_verdict d2 = VerdictBlock
      then d2\<lparr>rd_action := no_action\<lparr>ra_type := ActionFreeze, ra_description := rd_reason d2\<rparr>\<rparr> else d2)"
    using assms by (simp add: PreTradeCheck_def d1_def d0_def gate_rules_def Let_def split: if_splits)
  have failed: "\<exists>r. find (\<lambda>r. \<not> rr_passed r) rs = Some r" if "\<not> list_all rr_passed rs" for rs
    using that by (induction rs) auto
  show ?thesis
    using d1 d0 sentiment_cases[of g] failed[of "gate_rules g ord pf"] unfolding d Let_def
    by (auto simp: sentiment_on_def no_action_def)
qed

text \<open>
  The gate before a trade blocks an order exactly when one of its five limits fails (position, sector, value at risk,
  cash, number of positions) or the retail sentiment is extreme or not a number; it asks for a reduction when only the
  sentiment is high, and allows the order otherwise.  The reason of a block by a limit is the message of the first limit
  that fails, and the results of all six rules are reported.
\<close>

theorem pre_trade_verdict:
  assumes "PreTradeCheck g ord pf mode = Some d"
  shows "(rd_verdict d = VerdictBlock \<longleftrightarrow> (\<exists>r \<in> set (gate_rules g ord pf). \<not> rr_passed r) \<or> extreme_sentiment (pg_rsi g)) \<and>
    (rd_verdict d = VerdictAllow \<longleftrightarrow> (\<forall>r \<in> set (gate_rules g ord pf @ [ruleRetailSentiment g]). rr_passed r)) \<and>
    (\<forall>r. find (\<lambda>r. \<not> rr_passed r) (gate_rules g ord pf) = Some r \<longrightarrow> rd_reason d = rr_message r) \<and>
    rd_details d = gate_rules g ord pf @ [ruleRetailSentiment g]"
proof -
  have failed: "\<not> list_all rr_passed rs" if "find (\<lambda>r. \<not> rr_passed r) rs = Some r" for rs r
    using that by (induction rs) (auto split: if_splits)
  show ?thesis
    using PreTradeCheck_verdict[OF assms] sentiment_cases(1)[of g] failed[of "gate_rules g ord pf"]
    by (auto simp: list_all_iff split: if_splits)
qed

definition demo_gate :: pre_trade_gate where
  "demo_gate = \<lparr>pg_max_position = Fin (1 / 4), pg_max_sector = Fin (1 / 2), pg_var_limit = Fin (1 / 2), pg_min_cash = Fin 0,
     pg_max_open = 10, pg_maturity = None, pg_rsi = Fin 0\<rparr>"

definition demo_intent :: "f64 \<Rightarrow> order_intent" where
  "demo_intent n = \<lparr>oi_symbol = ''2330'', oi_side = ''buy'', oi_notional = n, oi_agent = [], oi_sector = [], oi_conviction = 50\<rparr>"

definition demo_portfolio :: portfolio_state where
  "demo_portfolio = \<lparr>pf_total = Fin 1024, pf_cash = Fin 1024, pf_sectors = [], pf_positions = [], pf_var = Fin 0\<rparr>"

lemma pre_trade_verdict_witness:
  "\<exists>d. PreTradeCheck demo_gate (demo_intent (Fin 512)) demo_portfolio ''NORMAL'' = Some d \<and> rd_verdict d = VerdictBlock"
proof -
  have "\<not> fle (pf_total demo_portfolio) (Fin 0)" by (simp add: demo_portfolio_def)
  then obtain d where d: "PreTradeCheck demo_gate (demo_intent (Fin 512)) demo_portfolio ''NORMAL'' = Some d"
    by (simp add: PreTradeCheck_def Let_def)
  have "rnd 512 = Fin 512" "rnd (1 / 2) = Fin (1 / 2)" using rnd_of_int[of 512] rnd_dyadic[of 1 1] by simp_all
  then have "\<not> rr_passed (ruleMaxPosition demo_gate (demo_intent (Fin 512)) demo_portfolio)"
    by (simp add: ruleMaxPosition_def demo_gate_def demo_intent_def demo_portfolio_def amount_def position_limit_def Let_def)
  with pre_trade_verdict[OF d] d show ?thesis by (auto simp: gate_rules_def)
qed

text \<open>A position limit above 22 percent is lowered to that for the orders of more than 50 percent conviction.\<close>

lemma conviction_lowers_limit:
  assumes "pg_max_position g = Fin m" "is_f64 (Fin m)" "flt (f64_const (22 / 100)) (Fin m)" "50 < conviction" "conviction \<le> 2 ^ 53"
  shows "position_limit g conviction = f64_const (22 / 100) \<and> flt (position_limit g conviction) (position_limit g 50)"
proof -
  have "is_f64 (Fin (1 / 16))" using rnd_dyadic[of 1 4] by (simp add: is_f64_def)
  then obtain q where q: "f64_const (7 / 100) = Fin q" "0 < q"
    using fle_between[OF rnd_ge[of "1 / 16" "7 / 100"] rnd_le[of 1 "7 / 100"]] by (auto simp: f64_const_def)
  have c: "f64_of_int (conviction - 50) = Fin (of_int (conviction - 50))" using assms(4,5) by (intro f64_int) auto
  have pos: "0 \<le> (of_int (conviction - 50) :: rat) / 100" using assms(4) by simp
  have "fle (Fin 0) (fdiv (f64_of_int (conviction - 50)) (Fin 100))" using rnd_nonneg[OF pos] by (simp only: c fdiv.simps) simp
  then have "fle (Fin 0) (fmul (fdiv (f64_of_int (conviction - 50)) (Fin 100)) (f64_const (7 / 100)))"
    using q by (cases "fdiv (f64_of_int (conviction - 50)) (Fin 100)") (auto intro: rnd_nonneg simp: inf_signed_def)
  then have "fle (Fin m) (fadd (Fin m) (fmul (fdiv (f64_of_int (conviction - 50)) (Fin 100)) (f64_const (7 / 100))))"
    using assms(2) by (cases "fmul (fdiv (f64_of_int (conviction - 50)) (Fin 100)) (f64_const (7 / 100))") (auto intro: rnd_ge)
  with assms(1,3,4) show ?thesis using flt_fle_trans by (auto simp: position_limit_def Let_def)
qed

end
