(* ===== verification/Risk_Gate.thy ===== *)
theory Risk_Gate
  imports Risk_PreTrade
begin

text \<open>
  The gates during and after a trade and the gate around all three, with its mode
  (\<open>internal/risk/in_trade.go\<close>, \<open>post_trade.go\<close>, \<open>gate.go\<close>).

  A decision goes to the subscribers and becomes the last decision: the operations return the decisions they publish.
  The commentary of the language model (\<open>EnrichDecision\<close>) is left out.
\<close>

section \<open>During the trade\<close>

record in_trade_gate =
  ig_stop_loss :: f64
  ig_take_profit :: f64
  ig_trailing_mult :: f64
  ig_vol_mult :: f64
  ig_breaker_loss :: f64

record in_trade_position =
  ip_symbol :: string
  ip_entry :: f64
  ip_current :: f64
  ip_quantity :: int
  ip_pnl_pct :: f64
  ip_atr :: f64
  ip_highest :: f64

definition severityForDiff :: "f64 \<Rightarrow> f64 \<Rightarrow> string" where
  "severityForDiff current threshold =
     (if fle threshold current then ''INFO''
      else
        (let diff = fabs (fsub current threshold); base = fabs threshold
         in if feq base (Fin 0) then ''WARNING''
            else (let ratio = fdiv diff base
                  in if fle (Fin 1) ratio then ''CRITICAL'' else if fle (Fin (1 / 2)) ratio then ''WARNING'' else ''INFO'')))"

definition checkStopLoss :: "in_trade_gate \<Rightarrow> in_trade_position \<Rightarrow> rule_result" where
  "checkStopLoss g pos =
     \<lparr>rr_name = ''stop_loss'', rr_passed = fle (ig_stop_loss g) (ip_pnl_pct pos), rr_current = ip_pnl_pct pos, rr_threshold = ig_stop_loss g,
      rr_severity = severityForDiff (ip_pnl_pct pos) (ig_stop_loss g), rr_message = StopLossAt (ip_symbol pos) (ip_pnl_pct pos) (ig_stop_loss g)\<rparr>"

definition checkTakeProfit :: "in_trade_gate \<Rightarrow> in_trade_position \<Rightarrow> rule_result" where
  "checkTakeProfit g pos =
     \<lparr>rr_name = ''take_profit'', rr_passed = fle (ip_pnl_pct pos) (ig_take_profit g), rr_current = ip_pnl_pct pos,
      rr_threshold = ig_take_profit g, rr_severity = ''INFO'', rr_message = TakeProfitAt (ip_symbol pos) (ip_pnl_pct pos) (ig_take_profit g)\<rparr>"

definition checkTrailingStop :: "in_trade_gate \<Rightarrow> in_trade_position \<Rightarrow> rule_result" where
  "checkTrailingStop g pos =
     (if fle (ip_highest pos) (Fin 0) \<or> fle (ip_atr pos) (Fin 0) \<or> fle (ip_entry pos) (Fin 0)
      then passing ''trailing_stop'' (Insufficient ''insufficient data for trailing stop'')
      else if fle (ip_current pos) (Fin 0) then passing ''trailing_stop'' (Insufficient ''no current price'')
      else if flt (fdiv (fsub (ip_highest pos) (ip_entry pos)) (ip_entry pos)) (f64_const (5 / 100))
        then passing ''trailing_stop'' (Insufficient ''insufficient runup for trailing stop'')
      else
        (let level = fsub (Fin 1) (fdiv (fmul (ip_atr pos) (ig_trailing_mult g)) (ip_entry pos));
             ratio = fdiv (ip_current pos) (ip_highest pos)
         in \<lparr>rr_name = ''trailing_stop'', rr_passed = fle level ratio, rr_current = ratio, rr_threshold = level, rr_severity = ''WARNING'',
             rr_message = TrailingStopAt (ip_symbol pos) ratio level\<rparr>))"

definition checkVolatilitySpike :: "in_trade_gate \<Rightarrow> f64 \<Rightarrow> f64 \<Rightarrow> rule_result" where
  "checkVolatilitySpike g histVol currentVol =
     (if fle histVol (Fin 0) \<or> fle (ig_vol_mult g) (Fin 0)
      then passing ''volatility_spike'' (Insufficient ''insufficient volatility data'')
      else
        (let ratio = fdiv currentVol histVol
         in \<lparr>rr_name = ''volatility_spike'', rr_passed = fle ratio (ig_vol_mult g), rr_current = ratio, rr_threshold = ig_vol_mult g,
             rr_severity = severityForDiff ratio (ig_vol_mult g), rr_message = Volatility ratio (ig_vol_mult g)\<rparr>))"

definition checkCircuitBreaker :: "in_trade_gate \<Rightarrow> f64 \<Rightarrow> rule_result" where
  "checkCircuitBreaker g loss =
     \<lparr>rr_name = ''circuit_breaker'', rr_passed = fle (ig_breaker_loss g) loss, rr_current = loss, rr_threshold = ig_breaker_loss g,
      rr_severity = ''CRITICAL'', rr_message = DailyLoss loss (ig_breaker_loss g)\<rparr>"

definition act :: "action_type \<Rightarrow> f64 \<Rightarrow> string list \<Rightarrow> rule_message \<Rightarrow> risk_action" where
  "act ty target symbols msg = \<lparr>ra_type = ty, ra_target = target, ra_symbols = symbols, ra_description = msg\<rparr>"

text \<open>A failed rule raises the verdict to \<open>v\<close> with the given action unless it is at that level already.\<close>

definition raise_on :: "verdict \<Rightarrow> risk_action \<Rightarrow> rule_result \<Rightarrow> risk_decision \<Rightarrow> risk_decision" where
  "raise_on v a r d =
     (let d1 = d\<lparr>rd_details := rd_details d @ [r]\<rparr>
      in if \<not> rr_passed r \<and> Level (rd_verdict d) < Level v
         then d1\<lparr>rd_verdict := v, rd_reason := rr_message r, rd_action := a\<rparr> else d1)"

definition check_position :: "in_trade_gate \<Rightarrow> in_trade_position \<Rightarrow> risk_decision \<Rightarrow> risk_decision" where
  "check_position g pos d =
     (let stop = checkStopLoss g pos; profit = checkTakeProfit g pos; trail = checkTrailingStop g pos
      in raise_on VerdictBlock (act ActionSell (Fin 0) [ip_symbol pos] (rr_message trail)) trail
           (raise_on VerdictReduce (act ActionReduce (Fin (1 / 2)) [ip_symbol pos] (rr_message profit)) profit
             (raise_on VerdictBlock (act ActionSell (Fin 0) [ip_symbol pos] (rr_message stop)) stop d)))"

definition check_spike :: "rule_result \<Rightarrow> risk_decision \<Rightarrow> risk_decision" where
  "check_spike r d =
     (let d1 = d\<lparr>rd_details := rd_details d @ [r]\<rparr>
      in if \<not> rr_passed r \<and> Level (rd_verdict d) < Level VerdictReduce
         then d1\<lparr>rd_verdict := VerdictReduce,
                 rd_action := (if ra_type (rd_action d) = ActionSell then (rd_action d)\<lparr>ra_target := Fin (1 / 2)\<rparr>
                               else act ActionReduce (Fin (1 / 2)) [] (rr_message r))\<rparr>
         else d1)"

definition InTradeEvaluate :: "in_trade_gate \<Rightarrow> in_trade_position list \<Rightarrow> f64 \<Rightarrow> f64 \<Rightarrow> f64 \<Rightarrow> string \<Rightarrow> risk_decision" where
  "InTradeEvaluate g positions histVol currentVol loss mode =
     (let d1 = fold (check_position g) positions (new_decision PhaseInTrade VerdictAllow mode []);
          d2 = check_spike (checkVolatilitySpike g histVol currentVol) d1;
          r = checkCircuitBreaker g loss;
          d3 = d2\<lparr>rd_details := rd_details d2 @ [r]\<rparr>
      in if rr_passed r then d3
         else d3\<lparr>rd_verdict := VerdictHalt, rd_reason := rr_message r, rd_action := act ActionFreeze (Fin 0) [] (rr_message r)\<rparr>)"

section \<open>After the trade\<close>

definition ModeNormal :: string where "ModeNormal = ''NORMAL''"
definition ModeCautious :: string where "ModeCautious = ''CAUTIOUS''"
definition ModeDefensive :: string where "ModeDefensive = ''DEFENSIVE''"
definition ModeSuspended :: string where "ModeSuspended = ''SUSPENDED''"

lemmas mode_words = ModeNormal_def ModeCautious_def ModeDefensive_def ModeSuspended_def

record post_trade_gate =
  tg_halt :: f64
  tg_defensive :: f64
  tg_min_sharpe :: f64
  tg_loss_days :: int

record post_trade_input =
  ti_drawdown :: f64
  ti_sharpe :: f64
  ti_losses :: int

definition checkDrawdown :: "post_trade_gate \<Rightarrow> f64 \<Rightarrow> rule_result" where
  "checkDrawdown g drawdown =
     (if fle (tg_halt g) drawdown then
        \<lparr>rr_name = ''max_drawdown_halt'', rr_passed = False, rr_current = drawdown, rr_threshold = tg_halt g, rr_severity = ''CRITICAL'',
         rr_message = DrawdownExceeds drawdown (tg_halt g)\<rparr>
      else if fle (tg_defensive g) drawdown then
        \<lparr>rr_name = ''max_drawdown_defensive'', rr_passed = False, rr_current = drawdown, rr_threshold = tg_defensive g,
         rr_severity = ''WARNING'', rr_message = DrawdownExceeds drawdown (tg_defensive g)\<rparr>
      else
        \<lparr>rr_name = ''max_drawdown'', rr_passed = True, rr_current = drawdown, rr_threshold = tg_defensive g, rr_severity = ''INFO'',
         rr_message = Drawdown drawdown\<rparr>)"

definition checkRollingSharpe :: "post_trade_gate \<Rightarrow> f64 \<Rightarrow> rule_result" where
  "checkRollingSharpe g sharpe =
     (let passed = fle (tg_min_sharpe g) sharpe
      in \<lparr>rr_name = ''rolling_sharpe'', rr_passed = passed, rr_current = sharpe, rr_threshold = tg_min_sharpe g,
          rr_severity = (if passed then ''INFO'' else ''WARNING''), rr_message = RollingSharpe sharpe (tg_min_sharpe g)\<rparr>)"

definition checkConsecutiveLosses :: "post_trade_gate \<Rightarrow> int \<Rightarrow> rule_result" where
  "checkConsecutiveLosses g losses =
     (let passed = losses < tg_loss_days g
      in \<lparr>rr_name = ''consecutive_losses'', rr_passed = passed, rr_current = f64_of_int losses, rr_threshold = f64_of_int (tg_loss_days g),
          rr_severity = (if passed then ''INFO'' else ''WARNING''), rr_message = LossDays losses (tg_loss_days g)\<rparr>)"

definition drawdown_on :: "rule_result \<Rightarrow> risk_decision \<Rightarrow> risk_decision" where
  "drawdown_on r d =
     (let d1 = d\<lparr>rd_details := rd_details d @ [r]\<rparr>
      in if \<not> rr_passed r \<and> rr_severity r = ''CRITICAL'' then
           d1\<lparr>rd_verdict := VerdictHalt, rd_reason := rr_message r, rd_mode := ModeSuspended,
              rd_action := act ActionFreeze (Fin 0) [] (rr_message r)\<rparr>
         else if \<not> rr_passed r then
           d1\<lparr>rd_verdict := (if Level (rd_verdict d) < Level VerdictAlertOnly then VerdictAlertOnly else rd_verdict d),
              rd_mode := ModeDefensive, rd_reason := rr_message r, rd_action := act ActionReduce (Fin (1 / 2)) [] (rr_message r)\<rparr>
         else d1)"

definition sharpe_on :: "rule_result \<Rightarrow> risk_decision \<Rightarrow> risk_decision" where
  "sharpe_on r d =
     (let d1 = d\<lparr>rd_details := rd_details d @ [r]\<rparr>
      in if \<not> rr_passed r \<and> Level (rd_verdict d) < Level VerdictAlertOnly
         then d1\<lparr>rd_verdict := VerdictAlertOnly, rd_mode := ModeCautious, rd_reason := rr_message r,
                 rd_action := act ActionReduce (f64_const (8 / 10)) [] (rr_message r)\<rparr> else d1)"

definition losses_on :: "rule_result \<Rightarrow> risk_decision \<Rightarrow> risk_decision" where
  "losses_on r d =
     (let d1 = d\<lparr>rd_details := rd_details d @ [r]\<rparr>
      in if \<not> rr_passed r \<and> Level (rd_verdict d) < Level VerdictAlertOnly
         then d1\<lparr>rd_verdict := VerdictAlertOnly, rd_mode := ModeCautious, rd_reason := rr_message r\<rparr> else d1)"

definition PostTradeEvaluate :: "post_trade_gate \<Rightarrow> post_trade_input \<Rightarrow> string \<Rightarrow> risk_decision" where
  "PostTradeEvaluate g inp mode =
     losses_on (checkConsecutiveLosses g (ti_losses inp))
       (sharpe_on (checkRollingSharpe g (ti_sharpe inp))
         (drawdown_on (checkDrawdown g (ti_drawdown inp)) (new_decision PhasePostTrade VerdictAlertOnly mode [])))"

text \<open>\<open>CheckModeTransition\<close>, the mode and whether there is a reason; no other code of the package calls it.\<close>

definition CheckModeTransition :: "post_trade_input \<Rightarrow> string \<Rightarrow> string" where
  "CheckModeTransition inp mode =
     (if fle (f64_const (20 / 100)) (fabs (ti_drawdown inp)) then ModeSuspended
      else if fle (f64_const (10 / 100)) (fabs (ti_drawdown inp)) then ModeDefensive
      else if flt (ti_sharpe inp) (Fin 0) \<and> mode \<noteq> ModeDefensive then ModeCautious
      else if 5 \<le> ti_losses inp then ModeCautious
      else mode)"

section \<open>The gate and its mode\<close>

record risk_gate_unified =
  ug_mode :: string
  ug_pre :: "pre_trade_gate option"
  ug_in :: "in_trade_gate option"
  ug_post :: "post_trade_gate option"
  ug_last :: "risk_decision option"

definition NewUnifiedGate :: "pre_trade_gate option \<Rightarrow> in_trade_gate option \<Rightarrow> post_trade_gate option \<Rightarrow> risk_gate_unified" where
  "NewUnifiedGate pre inn post = \<lparr>ug_mode = ModeNormal, ug_pre = pre, ug_in = inn, ug_post = post, ug_last = None\<rparr>"

definition publish_decision :: "risk_decision \<Rightarrow> risk_gate_unified \<Rightarrow> risk_decision list \<times> risk_gate_unified" where
  "publish_decision d g = ([d], g\<lparr>ug_last := Some d\<rparr>)"

definition RecordDecision :: "risk_decision \<Rightarrow> risk_gate_unified \<Rightarrow> risk_gate_unified" where
  "RecordDecision d g = g\<lparr>ug_last := Some d\<rparr>"

definition SetMode :: "string \<Rightarrow> risk_gate_unified \<Rightarrow> risk_decision list \<times> risk_gate_unified" where
  "SetMode mode g =
     (if ug_mode g = mode then ([], g)
      else publish_decision
             ((new_decision PhasePostTrade VerdictAlertOnly mode [])
                \<lparr>rd_reason := ModeChanged (ug_mode g) mode, rd_action := act ActionNotify (Fin 0) [] (ModeChanged (ug_mode g) mode)\<rparr>)
             (g\<lparr>ug_mode := mode\<rparr>))"

definition suspended_decision :: "order_intent \<Rightarrow> risk_decision" where
  "suspended_decision ord =
     (new_decision PhasePreTrade VerdictBlock ModeSuspended (oi_symbol ord))
       \<lparr>rd_reason := GateSuspended, rd_action := act ActionFreeze (Fin 0) [] GateSuspended\<rparr>"

text \<open>\<open>None\<close> is an error: a gate that is not there, or a portfolio without value.\<close>

definition gate_pre_trade ::
  "order_intent \<Rightarrow> portfolio_state \<Rightarrow> risk_gate_unified \<Rightarrow> risk_decision option \<times> risk_decision list \<times> risk_gate_unified" where
  "gate_pre_trade ord pf g =
     (case ug_pre g of
        None \<Rightarrow> (None, [], g)
      | Some pre \<Rightarrow>
          (if ug_mode g = ModeSuspended
           then (Some (suspended_decision ord), publish_decision (suspended_decision ord) g)
           else case PreTradeCheck pre ord pf (ug_mode g) of
             None \<Rightarrow> (None, [], g)
           | Some d \<Rightarrow>
               (let d1 = (if ug_mode g = ModeDefensive \<and> flt (Fin (1 / 2)) (ra_target (rd_action d))
                          then d\<lparr>rd_action := (rd_action d)\<lparr>ra_target := Fin (1 / 2)\<rparr>,
                                 rd_details := rd_details d @ [\<lparr>rr_name = ''defensive_mode_cap'', rr_passed = False, rr_current = Fin 0,
                                   rr_threshold = Fin 0, rr_severity = ''WARNING'', rr_message = DefensiveCap\<rparr>]\<rparr>
                          else d)
                in (Some d1, publish_decision d1 g))))"

definition gate_in_trade ::
  "in_trade_position list \<Rightarrow> f64 \<Rightarrow> f64 \<Rightarrow> f64 \<Rightarrow> risk_gate_unified \<Rightarrow> risk_decision option \<times> risk_decision list \<times> risk_gate_unified" where
  "gate_in_trade positions histVol currentVol loss g =
     (case ug_in g of
        None \<Rightarrow> (None, [], g)
      | Some inn \<Rightarrow>
          (let d = InTradeEvaluate inn positions histVol currentVol loss (ug_mode g);
               (ds, g1) = (if rd_verdict d = VerdictHalt then SetMode ModeSuspended g else ([], g));
               (es, g2) = publish_decision d g1
           in (Some d, ds @ es, g2)))"

definition gate_post_trade ::
  "post_trade_input \<Rightarrow> risk_gate_unified \<Rightarrow> risk_decision option \<times> risk_decision list \<times> risk_gate_unified" where
  "gate_post_trade inp g =
     (case ug_post g of
        None \<Rightarrow> (None, [], g)
      | Some post \<Rightarrow>
          (let d = PostTradeEvaluate post inp (ug_mode g);
               (ds, g1) = (if rd_mode d \<noteq> ug_mode g then SetMode (rd_mode d) g else ([], g));
               (es, g2) = publish_decision d g1
           in (Some d, ds @ es, g2)))"

definition SetPreTradeRSITwScore :: "f64 \<Rightarrow> risk_gate_unified \<Rightarrow> risk_gate_unified option" where
  "SetPreTradeRSITwScore score g = map_option (\<lambda>pre. g\<lparr>ug_pre := Some (SetRSITwScore score pre)\<rparr>) (ug_pre g)"

section \<open>Verdicts during the trade\<close>

definition stopped_out :: "in_trade_gate \<Rightarrow> in_trade_position \<Rightarrow> bool" where
  "stopped_out g pos \<longleftrightarrow> \<not> rr_passed (checkStopLoss g pos) \<or> \<not> rr_passed (checkTrailingStop g pos)"

definition in_profit :: "in_trade_gate \<Rightarrow> in_trade_position \<Rightarrow> bool" where
  "in_profit g pos \<longleftrightarrow> \<not> rr_passed (checkTakeProfit g pos)"

definition volatility_jumped :: "in_trade_gate \<Rightarrow> f64 \<Rightarrow> f64 \<Rightarrow> bool" where
  "volatility_jumped g histVol currentVol \<longleftrightarrow> \<not> rr_passed (checkVolatilitySpike g histVol currentVol)"

lemma check_position_verdict:
  "rd_verdict d \<in> {VerdictAllow, VerdictReduce, VerdictBlock} \<Longrightarrow> rd_verdict (check_position g pos d) =
     (if stopped_out g pos \<or> rd_verdict d = VerdictBlock then VerdictBlock
      else if in_profit g pos \<or> rd_verdict d = VerdictReduce then VerdictReduce else VerdictAllow)"
  by (auto simp: check_position_def raise_on_def Let_def stopped_out_def in_profit_def)

lemma fold_check_position:
  "rd_verdict d \<in> {VerdictAllow, VerdictReduce, VerdictBlock} \<Longrightarrow> rd_verdict (fold (check_position g) ps d) =
     (if (\<exists>pos \<in> set ps. stopped_out g pos) \<or> rd_verdict d = VerdictBlock then VerdictBlock
      else if (\<exists>pos \<in> set ps. in_profit g pos) \<or> rd_verdict d = VerdictReduce then VerdictReduce else VerdictAllow)"
  by (induction ps arbitrary: d) (auto simp: check_position_verdict)

lemma check_position_mode [simp]: "rd_mode (check_position g pos d) = rd_mode d"
  by (simp add: check_position_def raise_on_def Let_def)

lemma fold_check_position_mode [simp]: "rd_mode (fold (check_position g) ps d) = rd_mode d"
  by (induction ps arbitrary: d) simp_all

text \<open>
  During the session the gate halts trading exactly when the daily loss passes the breaker; otherwise it asks for a
  sale when some position is through its stop or its trailing stop, for a reduction when some position
  reached its profit target or the volatility jumped, and allows to go on in all other cases.
\<close>

theorem in_trade_verdict:
  "rd_verdict (InTradeEvaluate g ps histVol currentVol loss mode) =
     (if \<not> rr_passed (checkCircuitBreaker g loss) then VerdictHalt
      else if \<exists>pos \<in> set ps. stopped_out g pos then VerdictBlock
      else if (\<exists>pos \<in> set ps. in_profit g pos) \<or> volatility_jumped g histVol currentVol then VerdictReduce
      else VerdictAllow)"
  by (simp add: InTradeEvaluate_def Let_def check_spike_def fold_check_position new_decision_def volatility_jumped_def)

text \<open>The action of a block names the position that raised the verdict first; another position through its stop is in the details only.\<close>

lemma one_sale_per_check:
  "stopped_out g pos \<Longrightarrow> rr_passed (checkCircuitBreaker g loss) \<Longrightarrow>
   ra_symbols (rd_action (InTradeEvaluate g (pos # ps) histVol currentVol loss mode)) = [ip_symbol pos]"
proof -
  assume a: "stopped_out g pos" "rr_passed (checkCircuitBreaker g loss)"
  define d where "d = check_position g pos (new_decision PhaseInTrade VerdictAllow mode [])"
  have d: "rd_verdict d = VerdictBlock" "ra_symbols (rd_action d) = [ip_symbol pos]"
    using a(1) by (auto simp: d_def check_position_def raise_on_def new_decision_def stopped_out_def act_def Let_def)
  have keep: "rd_verdict d = VerdictBlock \<Longrightarrow> rd_verdict (check_position g q d) = VerdictBlock \<and> rd_action (check_position g q d) = rd_action d"
    for d q by (simp add: check_position_def raise_on_def Let_def)
  have "rd_verdict (fold (check_position g) ps d) = VerdictBlock \<and> rd_action (fold (check_position g) ps d) = rd_action d"
    using d(1) by (induction ps arbitrary: d) (simp_all add: keep)
  with d a(2) show ?thesis by (simp add: InTradeEvaluate_def Let_def check_spike_def d_def)
qed

section \<open>Runs of the gate\<close>

datatype gate_event =
    PreTrade order_intent portfolio_state
  | InTrade "in_trade_position list" f64 f64 f64
  | PostTrade post_trade_input
  | Recorded risk_decision
  | SetByHand string

fun gate_step :: "gate_event \<Rightarrow> risk_gate_unified \<Rightarrow> risk_gate_unified" where
  "gate_step (PreTrade ord pf) g = snd (snd (gate_pre_trade ord pf g))"
| "gate_step (InTrade ps h c l) g = snd (snd (gate_in_trade ps h c l g))"
| "gate_step (PostTrade inp) g = snd (snd (gate_post_trade inp g))"
| "gate_step (Recorded d) g = RecordDecision d g"
| "gate_step (SetByHand m) g = snd (SetMode m g)"

definition gate_run :: "gate_event list \<Rightarrow> risk_gate_unified \<Rightarrow> risk_gate_unified" where
  "gate_run es g = fold gate_step es g"

text \<open>The mode after the trade: a function of the drawdown and the mode before.\<close>

definition drawdown_mode :: "post_trade_gate \<Rightarrow> f64 \<Rightarrow> string \<Rightarrow> string" where
  "drawdown_mode g drawdown mode =
     (if fle (tg_halt g) drawdown then ModeSuspended else if fle (tg_defensive g) drawdown then ModeDefensive else mode)"

lemma PostTradeEvaluate_mode: "rd_mode (PostTradeEvaluate g inp mode) = drawdown_mode g (ti_drawdown inp) mode"
proof -
  have "Level VerdictAlertOnly \<le> Level (rd_verdict (drawdown_on r (new_decision PhasePostTrade VerdictAlertOnly mode [])))" for r
    by (simp add: drawdown_on_def new_decision_def Let_def)
  then show ?thesis
    by (simp add: PostTradeEvaluate_def losses_on_def sharpe_on_def Let_def not_less)
       (simp add: drawdown_on_def checkDrawdown_def drawdown_mode_def new_decision_def)
qed

lemma SetMode_mode [simp]: "ug_mode (snd (SetMode m g)) = m"
  by (simp add: SetMode_def publish_decision_def)

lemma SetMode_gates [simp]:
  "ug_pre (snd (SetMode m g)) = ug_pre g" "ug_in (snd (SetMode m g)) = ug_in g" "ug_post (snd (SetMode m g)) = ug_post g"
  by (simp_all add: SetMode_def publish_decision_def)

lemma gate_step_gates [simp]:
  "ug_pre (gate_step e g) = ug_pre g" "ug_in (gate_step e g) = ug_in g" "ug_post (gate_step e g) = ug_post g"
  by (cases e; simp add: gate_pre_trade_def gate_in_trade_def gate_post_trade_def RecordDecision_def publish_decision_def Let_def
      split: option.split prod.split; auto dest: arg_cong[where f = snd] simp: prod_eq_iff)+

lemma gate_step_mode:
  "ug_mode (gate_step e g) =
     (case e of
        InTrade ps h c l \<Rightarrow>
          (case ug_in g of Some inn \<Rightarrow> if rr_passed (checkCircuitBreaker inn l) then ug_mode g else ModeSuspended | None \<Rightarrow> ug_mode g)
      | PostTrade inp \<Rightarrow> (case ug_post g of Some post \<Rightarrow> drawdown_mode post (ti_drawdown inp) (ug_mode g) | None \<Rightarrow> ug_mode g)
      | SetByHand m \<Rightarrow> m
      | _ \<Rightarrow> ug_mode g)"
proof (cases e)
  case (InTrade ps h c l)
  have "rd_verdict (InTradeEvaluate inn ps h c l m) = VerdictHalt \<longleftrightarrow> \<not> rr_passed (checkCircuitBreaker inn l)" for inn m
    by (simp add: InTradeEvaluate_def Let_def check_spike_def fold_check_position new_decision_def volatility_jumped_def)
  then show ?thesis using InTrade
    by (auto simp: gate_in_trade_def publish_decision_def Let_def case_prod_beta split: option.split)
next
  case (PostTrade inp)
  then show ?thesis
    by (auto simp: gate_post_trade_def publish_decision_def PostTradeEvaluate_mode Let_def case_prod_beta split: option.split)
qed (auto simp: gate_pre_trade_def publish_decision_def RecordDecision_def Let_def split: option.split)

declare gate_step.simps [simp del]

lemma gate_run_simps [simp]: "gate_run [] g = g" "gate_run (e # es) g = gate_run es (gate_step e g)"
  by (simp_all add: gate_run_def)

lemma gate_run_append [simp]: "gate_run (es @ fs) g = gate_run fs (gate_run es g)"
  by (simp add: gate_run_def)

lemma gate_run_gates [simp]:
  "ug_pre (gate_run es g) = ug_pre g" "ug_in (gate_run es g) = ug_in g" "ug_post (gate_run es g) = ug_post g"
  by (induction es arbitrary: g) simp_all

lemma modes_distinct [simp]:
  "ModeNormal \<noteq> ModeCautious" "ModeNormal \<noteq> ModeDefensive" "ModeNormal \<noteq> ModeSuspended" "ModeCautious \<noteq> ModeNormal"
  "ModeCautious \<noteq> ModeDefensive" "ModeCautious \<noteq> ModeSuspended" "ModeDefensive \<noteq> ModeNormal" "ModeDefensive \<noteq> ModeCautious"
  "ModeDefensive \<noteq> ModeSuspended" "ModeSuspended \<noteq> ModeNormal" "ModeSuspended \<noteq> ModeCautious" "ModeSuspended \<noteq> ModeDefensive"
  by (simp_all add: mode_words)

lemma gate_step_moves:
  "(\<And>m. e \<noteq> SetByHand m) \<Longrightarrow>
     ug_mode (gate_step e g) = ug_mode g \<or> ug_mode (gate_step e g) = ModeDefensive \<or> ug_mode (gate_step e g) = ModeSuspended"
  by (auto simp: gate_step_mode drawdown_mode_def split: gate_event.split option.split)

lemma gate_run_moves:
  "(\<And>m. SetByHand m \<notin> set es) \<Longrightarrow>
     ug_mode (gate_run es g) = ug_mode g \<or> ug_mode (gate_run es g) = ModeDefensive \<or> ug_mode (gate_run es g) = ModeSuspended"
proof (induction es arbitrary: g)
  case (Cons e es)
  have "\<And>m. e \<noteq> SetByHand m" "\<And>m. SetByHand m \<notin> set es" using Cons.prems by auto
  then show ?case using Cons.IH[of "gate_step e g"] gate_step_moves[of e g] by auto
qed simp

text \<open>
  The checks move the mode of the gate one way only: from a new gate they never reach \<open>CAUTIOUS\<close> (neither the
  rolling Sharpe ratio nor a row of losing days has an effect, although the code has a branch for each), and once the gate has left
  \<open>NORMAL\<close> no sequence of checks, however good its values, brings it back.
\<close>

lemma checks_never_relax:
  assumes "\<And>m. SetByHand m \<notin> set es" "\<And>m. SetByHand m \<notin> set fs"
  shows "ug_mode (gate_run es (NewUnifiedGate pre inn post)) \<noteq> ModeCautious"
    "ug_mode g \<noteq> ModeNormal \<Longrightarrow> ug_mode (gate_run fs g) \<noteq> ModeNormal"
  using gate_run_moves[OF assms(1), of "NewUnifiedGate pre inn post"] gate_run_moves[OF assms(2), of g]
  by (auto simp: NewUnifiedGate_def)

section \<open>What the subscribers are told\<close>

definition gate_publishes :: "gate_event \<Rightarrow> risk_gate_unified \<Rightarrow> risk_decision list" where
  "gate_publishes e g =
     (case e of
        PreTrade ord pf \<Rightarrow> fst (snd (gate_pre_trade ord pf g))
      | InTrade ps h c l \<Rightarrow> fst (snd (gate_in_trade ps h c l g))
      | PostTrade inp \<Rightarrow> fst (snd (gate_post_trade inp g))
      | Recorded d \<Rightarrow> []
      | SetByHand m \<Rightarrow> fst (SetMode m g))"

fun gate_log :: "gate_event list \<Rightarrow> risk_gate_unified \<Rightarrow> risk_decision list" where
  "gate_log [] g = []"
| "gate_log (e # es) g = gate_publishes e g @ gate_log es (gate_step e g)"

text \<open>The changes of the mode that the published decisions announce.\<close>

fun mode_change :: "rule_message \<Rightarrow> (string \<times> string) option" where
  "mode_change (ModeChanged a b) = Some (a, b)"
| "mode_change _ = None"

definition mode_changes :: "risk_decision list \<Rightarrow> (string \<times> string) list" where
  "mode_changes ds = List.map_filter (\<lambda>d. mode_change (rd_reason d)) ds"

fun mode_chain :: "string \<Rightarrow> (string \<times> string) list \<Rightarrow> string \<Rightarrow> bool" where
  "mode_chain m [] m' \<longleftrightarrow> m = m'"
| "mode_chain m ((a, b) # cs) m' \<longleftrightarrow> a = m \<and> b \<noteq> a \<and> mode_chain b cs m'"

lemma mode_changes_simps [simp]:
  "mode_changes [] = []" "mode_changes (ds @ es) = mode_changes ds @ mode_changes es"
  "mode_change (rd_reason d) = None \<Longrightarrow> mode_changes [d] = []"
  "mode_change (rd_reason d) = Some c \<Longrightarrow> mode_changes [d] = [c]"
  by (simp_all add: mode_changes_def List.map_filter_def)

lemma chain_append: "mode_chain m cs m1 \<Longrightarrow> mode_chain m1 ds m2 \<Longrightarrow> mode_chain m (cs @ ds) m2"
  by (induction m cs m1 rule: mode_chain.induct) auto

text \<open>The decisions of the checks themselves announce no change.\<close>

lemma pre_trade_silent: "PreTradeCheck pre ord pf m = Some d \<Longrightarrow> mode_change (rd_reason d) = None"
proof -
  assume run: "PreTradeCheck pre ord pf m = Some d"
  have block: "mode_change (rd_reason (block_on r d)) = None" if "mode_change (rr_message r) = None" "mode_change (rd_reason d) = None" for r d
    using that by (simp add: block_on_def Let_def)
  have sentiment: "mode_change (rd_reason (sentiment_on (ruleRetailSentiment pre) d)) = None" if "mode_change (rd_reason d) = None" for d
    using that by (simp add: sentiment_on_def ruleRetailSentiment_def Let_def)
  have "mode_change (rr_message (ruleMaxPosition pre ord pf)) = None" "mode_change (rr_message (ruleSectorExposure pre ord pf)) = None"
    "mode_change (rr_message (ruleVaRLimit pre pf)) = None" "mode_change (rr_message (ruleCashBuffer pre ord pf)) = None"
    "mode_change (rr_message (ruleMaxOpenPositions pre ord pf)) = None"
    by (simp_all add: ruleMaxPosition_def ruleSectorExposure_def ruleVaRLimit_def ruleCashBuffer_def ruleMaxOpenPositions_def passing_def Let_def)
  then have "mode_change (rd_reason (sentiment_on (ruleRetailSentiment pre) (fold block_on [ruleMaxPosition pre ord pf,
      ruleSectorExposure pre ord pf, ruleVaRLimit pre pf, ruleCashBuffer pre ord pf, ruleMaxOpenPositions pre ord pf]
      (new_decision PhasePreTrade VerdictAllow m (oi_symbol ord))))) = None"
    by (intro sentiment) (simp add: block new_decision_def)
  with run show ?thesis by (auto simp: PreTradeCheck_def Let_def split: if_splits)
qed

lemma in_trade_silent: "mode_change (rd_reason (InTradeEvaluate inn ps h c l m)) = None"
proof -
  have "mode_change (rd_reason (raise_on v a r d)) = None" if "mode_change (rr_message r) = None" "mode_change (rd_reason d) = None" for v a r d
    using that by (simp add: raise_on_def Let_def)
  moreover have "mode_change (rr_message (checkStopLoss inn pos)) = None" "mode_change (rr_message (checkTakeProfit inn pos)) = None"
    "mode_change (rr_message (checkTrailingStop inn pos)) = None" for pos
    by (simp_all add: checkStopLoss_def checkTakeProfit_def checkTrailingStop_def passing_def Let_def)
  ultimately have "mode_change (rd_reason (fold (check_position inn) ps d)) = None" if "mode_change (rd_reason d) = None" for d
    using that by (induction ps arbitrary: d) (simp_all add: check_position_def Let_def)
  from this [of "new_decision PhaseInTrade VerdictAllow m []"] show ?thesis
    by (simp add: InTradeEvaluate_def Let_def check_spike_def checkCircuitBreaker_def) (simp add: new_decision_def)
qed

lemma post_trade_silent: "mode_change (rd_reason (PostTradeEvaluate post inp m)) = None"
  by (simp add: PostTradeEvaluate_def losses_on_def sharpe_on_def drawdown_on_def checkConsecutiveLosses_def checkRollingSharpe_def
      checkDrawdown_def new_decision_def Let_def)

lemma set_mode_announces: "mode_chain (ug_mode g) (mode_changes (fst (SetMode m g))) m"
  by (simp add: SetMode_def publish_decision_def)

lemma step_announces: "mode_chain (ug_mode g) (mode_changes (gate_publishes e g)) (ug_mode (gate_step e g))"
proof (cases e)
  case (PreTrade ord pf)
  have "mode_changes (fst (snd (gate_pre_trade ord pf g))) = []"
    using pre_trade_silent [of _ ord pf "ug_mode g"]
    by (auto simp: gate_pre_trade_def publish_decision_def suspended_decision_def Let_def split: option.split)
  with PreTrade show ?thesis by (simp add: gate_publishes_def gate_step_mode)
next
  case (InTrade ps h c l)
  show ?thesis
  proof (cases "ug_in g")
    case (Some inn)
    with InTrade in_trade_silent [of inn ps h c l "ug_mode g"] set_mode_announces [of g ModeSuspended] show ?thesis
      by (auto simp: gate_publishes_def gate_step.simps gate_in_trade_def publish_decision_def Let_def case_prod_beta)
  qed (simp add: InTrade gate_publishes_def gate_step.simps gate_in_trade_def)
next
  case (PostTrade inp)
  show ?thesis
  proof (cases "ug_post g")
    case (Some post)
    with PostTrade post_trade_silent [of post inp "ug_mode g"] set_mode_announces [of g "rd_mode (PostTradeEvaluate post inp (ug_mode g))"]
    show ?thesis
      by (auto simp: gate_publishes_def gate_step.simps gate_post_trade_def publish_decision_def Let_def case_prod_beta)
  qed (simp add: PostTrade gate_publishes_def gate_step.simps gate_post_trade_def)
next
  case (Recorded d)
  then show ?thesis by (simp add: gate_publishes_def gate_step_mode)
next
  case (SetByHand m)
  then show ?thesis using set_mode_announces [of g m] by (simp add: gate_publishes_def gate_step_mode)
qed

text \<open>
  C32 (invariant). Every change of the mode is announced to the subscribers, and nothing else is announced as one: over any sequence
  of checks, recorded decisions and settings by hand, the published announcements, in their order, lead from the mode at the start to the
  mode at the end. The first names the mode at the start as the old one, each further one names as the old mode the new mode of the one
  before, and no announcement names the same mode twice.
\<close>

theorem mode_changes_are_announced:
  "mode_chain (ug_mode g) (mode_changes (gate_log es g)) (ug_mode (gate_run es g))"
proof (induction es arbitrary: g)
  case (Cons e es)
  show ?case using chain_append [OF step_announces Cons.IH] by simp
qed simp

section \<open>A halt\<close>

text \<open>What ends a suspension: a setting by hand, and a check after the trade that finds a drawdown in the defensive range.\<close>

definition lifts :: "risk_gate_unified \<Rightarrow> gate_event \<Rightarrow> bool" where
  "lifts g e \<longleftrightarrow> (\<exists>m. e = SetByHand m \<and> m \<noteq> ModeSuspended) \<or> (\<exists>inp post. e = PostTrade inp \<and> ug_post g = Some post \<and>
     \<not> fle (tg_halt post) (ti_drawdown inp) \<and> fle (tg_defensive post) (ti_drawdown inp))"

lemma suspended_step: "ug_mode g = ModeSuspended \<Longrightarrow> \<not> lifts g e \<Longrightarrow> ug_mode (gate_step e g) = ModeSuspended"
  by (auto simp: gate_step_mode lifts_def drawdown_mode_def split: gate_event.split option.split)

lemma suspended_run:
  "ug_mode g = ModeSuspended \<Longrightarrow> \<forall>e \<in> set es. \<not> lifts g e \<Longrightarrow> ug_mode (gate_run es g) = ModeSuspended"
proof (induction es arbitrary: g)
  case (Cons e es)
  then have "ug_mode (gate_step e g) = ModeSuspended" by (simp add: suspended_step)
  moreover have "\<forall>f \<in> set es. \<not> lifts (gate_step e g) f" using Cons(3) by (simp add: lifts_def)
  ultimately show ?case using Cons(1) by simp
qed simp

lemma defensive_check_lifts:
  "ug_mode g = ModeSuspended \<Longrightarrow> lifts g (PostTrade inp) \<Longrightarrow> ug_mode (gate_step (PostTrade inp) g) = ModeDefensive"
  by (auto simp: lifts_def gate_step_mode drawdown_mode_def)

text \<open>
  C31 (safety). On a gate with a check before the trade and a check in the trade: once a check in the trade has found a daily loss beyond the
  breaker, every order that is asked for is blocked with the verdict of a suspended gate, through any sequence of further checks, recorded
  decisions and settings by hand, as long as nobody sets another mode by hand and no check after the trade finds a drawdown between the
  defensive limit and the limit of the halt (about such a check nothing is claimed here).
\<close>

theorem halt_blocks_orders:
  assumes "ug_in g = Some inn" "ug_pre g = Some pre" "\<not> rr_passed (checkCircuitBreaker inn loss)"
    and "\<forall>e \<in> set es. \<not> lifts g e" "g' = gate_run (InTrade ps histVol currentVol loss # es) g"
  shows "ug_mode g' = ModeSuspended \<and> fst (gate_pre_trade ord pf g') = Some (suspended_decision ord)"
proof -
  let ?g = "gate_step (InTrade ps histVol currentVol loss) g"
  have "ug_mode ?g = ModeSuspended" using assms(1,3) by (simp add: gate_step_mode)
  moreover have "\<forall>e \<in> set es. \<not> lifts ?g e" using assms(4) by (simp add: lifts_def)
  ultimately have "ug_mode g' = ModeSuspended" using suspended_run[of ?g es] assms(5) by simp
  moreover have "ug_pre g' = Some pre" using assms(2,5) by simp
  ultimately show ?thesis by (auto simp: gate_pre_trade_def)
qed

definition demo_in_gate :: in_trade_gate where
  "demo_in_gate = \<lparr>ig_stop_loss = Fin (- 1 / 8), ig_take_profit = Fin (1 / 4), ig_trailing_mult = Fin 2, ig_vol_mult = Fin 2,
     ig_breaker_loss = Fin (- 1 / 16)\<rparr>"

lemma halt_blocks_orders_witness:
  "\<exists>d. fst (gate_pre_trade (demo_intent (Fin 1)) demo_portfolio
     (gate_run [InTrade [] (Fin 0) (Fin 0) (Fin (- 1 / 8)), InTrade [] (Fin 0) (Fin 0) (Fin 0)]
        (NewUnifiedGate (Some demo_gate) (Some demo_in_gate) None))) = Some d \<and> rd_verdict d = VerdictBlock"
proof -
  let ?g = "NewUnifiedGate (Some demo_gate) (Some demo_in_gate) None"
  have "fst (gate_pre_trade (demo_intent (Fin 1)) demo_portfolio
      (gate_run [InTrade [] (Fin 0) (Fin 0) (Fin (- 1 / 8)), InTrade [] (Fin 0) (Fin 0) (Fin 0)] ?g)) =
    Some (suspended_decision (demo_intent (Fin 1)))"
    using halt_blocks_orders[of ?g demo_in_gate demo_gate "Fin (- 1 / 8)" "[InTrade [] (Fin 0) (Fin 0) (Fin 0)]" _ "[]" "Fin 0" "Fin 0"]
    by (simp add: NewUnifiedGate_def lifts_def checkCircuitBreaker_def demo_in_gate_def del: gate_run_simps(2))
  then show ?thesis by (simp add: suspended_decision_def new_decision_def)
qed

section \<open>The defensive mode\<close>

text \<open>
  The cap of the defensive mode never applies: a decision before a trade has no target share.  Orders are decided as in the
  normal mode.
\<close>

lemma block_on_mode: "block_on r (d\<lparr>rd_mode := m\<rparr>) = (block_on r d)\<lparr>rd_mode := m\<rparr>"
  by (simp add: block_on_def Let_def)

lemma sentiment_on_mode: "sentiment_on r (d\<lparr>rd_mode := m\<rparr>) = (sentiment_on r d)\<lparr>rd_mode := m\<rparr>"
  by (simp add: sentiment_on_def Let_def)

lemma new_decision_mode: "new_decision ph v m y = (new_decision ph v [] y)\<lparr>rd_mode := m\<rparr>"
  by (simp add: new_decision_def)

lemma PreTradeCheck_mode: "PreTradeCheck pre ord pf m = map_option (\<lambda>d. d\<lparr>rd_mode := m\<rparr>) (PreTradeCheck pre ord pf [])"
  unfolding PreTradeCheck_def Let_def new_decision_mode[of _ _ m]
  by (simp add: block_on_mode sentiment_on_mode)

definition ruling :: "risk_decision \<Rightarrow> verdict \<times> rule_message \<times> risk_action \<times> rule_result list" where
  "ruling d = (rd_verdict d, rd_reason d, rd_action d, rd_details d)"

lemma defensive_mode_is_normal:
  "map_option ruling (fst (gate_pre_trade ord pf (g\<lparr>ug_mode := ModeDefensive\<rparr>))) =
    map_option ruling (fst (gate_pre_trade ord pf (g\<lparr>ug_mode := ModeNormal\<rparr>)))"
proof (cases "ug_pre g")
  case (Some pre)
  have "ra_target (rd_action d) = Fin 0" if "PreTradeCheck pre ord pf [] = Some d" for d
    using PreTradeCheck_verdict[OF that] by blast
  then show ?thesis
    using Some PreTradeCheck_mode[of pre ord pf ModeDefensive] PreTradeCheck_mode[of pre ord pf ModeNormal]
    by (cases "PreTradeCheck pre ord pf []") (simp_all add: gate_pre_trade_def ruling_def Let_def)
qed (simp add: gate_pre_trade_def)

end
