(* ===== verification/Macro_Assess.thy ===== *)
theory Macro_Assess
  imports Live_Types "HOL-Library.Sublist"
begin

text \<open>
  The macro assessment before a session: the snapshot read from the quotes (\<open>orchestrator/system.go\<close>,
  \<open>system_narrative.go\<close>), the risk level (\<open>narrative/macro_assessment.go\<close>) and the structural trends that may
  override it (\<open>narrative/structural_trend.go\<close>).  Texts (details, rationales, evidence) and time stamps are left out.
\<close>

section \<open>The snapshot\<close>

record macro_point =
  mp_value :: f64
  mp_change :: f64

record macro_snapshot =
  md_us10y :: macro_point
  md_dxy :: macro_point
  md_vix :: macro_point
  md_usd_twd :: macro_point
  md_oil :: macro_point
  md_gold :: macro_point
  md_jpy :: macro_point

definition no_point :: macro_point where
  "no_point = \<lparr>mp_value = Fin 0, mp_change = Fin 0\<rparr>"

definition IsUsablePrice :: "f64 \<Rightarrow> bool" where
  "IsUsablePrice p \<longleftrightarrow> flt (Fin 0) p \<and> p \<noteq> NaN \<and> p \<noteq> PInf \<and> p \<noteq> NInf"

definition quoteChangePct :: "quote \<Rightarrow> f64 option" where
  "quoteChangePct q =
     (if IsUsablePrice (q_open q) then Some (fmul (fdiv (fsub (q_last q) (q_open q)) (q_open q)) (Fin 100)) else None)"

definition snapshot_quote :: "quote \<Rightarrow> macro_snapshot \<Rightarrow> macro_snapshot" where
  "snapshot_quote q d =
     (case quoteChangePct q of
        None \<Rightarrow> d
      | Some pct \<Rightarrow>
          (let p = \<lparr>mp_value = q_last q, mp_change = pct\<rparr>; s = q_symbol q in
           if s \<in> {''US10Y'', ''^TNX''} then d\<lparr>md_us10y := p\<rparr>
           else if s \<in> {''DXY'', ''^DXY''} then d\<lparr>md_dxy := p\<rparr>
           else if s \<in> {''VIX'', ''^VIX''} then d\<lparr>md_vix := p\<rparr>
           else if s \<in> {''USD/TWD'', ''USDTWD=X''} then d\<lparr>md_usd_twd := p\<rparr>
           else if s \<in> {''OIL'', ''CL=F''} then d\<lparr>md_oil := p\<rparr>
           else if s \<in> {''GOLD'', ''GC=F''} then d\<lparr>md_gold := p\<rparr>
           else if s \<in> {''JPY=X'', ''USDJPY=X''} then d\<lparr>md_jpy := p\<rparr>
           else d))"

definition QuotesToMacroDataSnapshot :: "quote list \<Rightarrow> macro_snapshot" where
  "QuotesToMacroDataSnapshot quotes =
     fold snapshot_quote quotes
       \<lparr>md_us10y = no_point, md_dxy = no_point, md_vix = no_point, md_usd_twd = no_point, md_oil = no_point,
        md_gold = no_point, md_jpy = no_point\<rparr>"

section \<open>Risk factors and the risk level\<close>

record macro_config =
  mc_carry :: f64
  mc_vix :: f64
  mc_us10y :: f64
  mc_oil :: f64
  mc_gold :: f64
  mc_twd :: f64
  mc_base :: f64
  mc_max :: f64

record risk_factor =
  rf_type :: string
  rf_severity :: f64

text \<open>\<open>MacroRiskLevel\<close> is a Go integer with four named values.\<close>

type_synonym macro_level = int

definition MacroRiskGreen :: macro_level where "MacroRiskGreen = 0"
definition MacroRiskYellow :: macro_level where "MacroRiskYellow = 1"
definition MacroRiskOrange :: macro_level where "MacroRiskOrange = 2"
definition MacroRiskRed :: macro_level where "MacroRiskRed = 3"

lemmas macro_levels = MacroRiskGreen_def MacroRiskYellow_def MacroRiskOrange_def MacroRiskRed_def

definition at_most_one :: "f64 \<Rightarrow> f64" where
  "at_most_one v = (if flt (Fin 1) v then Fin 1 else v)"

definition factor_if :: "bool \<Rightarrow> string \<Rightarrow> f64 \<Rightarrow> risk_factor list" where
  "factor_if c t severity = (if c then [\<lparr>rf_type = t, rf_severity = severity\<rparr>] else [])"

definition evaluateRiskFactors :: "macro_config \<Rightarrow> macro_snapshot \<Rightarrow> risk_factor list" where
  "evaluateRiskFactors cfg d =
     (let jpy = mp_value (md_jpy d); vix = mp_value (md_vix d); us10y = mp_value (md_us10y d);
          gold = mp_change (md_gold d)
      in factor_if (flt (Fin 0) jpy \<and> flt jpy (mc_carry cfg)) ''carry_trade''
           (at_most_one (fsub (Fin 1) (fdiv jpy (mc_carry cfg))))
       @ factor_if (flt (mc_vix cfg) vix) ''market_stress'' (at_most_one (fdiv (fsub vix (mc_vix cfg)) (Fin 20)))
       @ factor_if (flt (mc_us10y cfg) us10y) ''rates'' (at_most_one (fdiv (fsub us10y (mc_us10y cfg)) (Fin 2)))
       @ factor_if (flt (mc_gold cfg) gold \<and> flt (fsub (mc_vix cfg) (Fin 5)) vix) ''geopolitical'' (f64_const (8 / 10))
       @ factor_if (flt (mc_oil cfg) (mp_change (md_oil d)) \<and> flt gold (fsub (mc_gold cfg) (Fin 3))) ''energy_crisis'' (f64_const (7 / 10))
       @ factor_if (flt (mc_twd cfg) (mp_change (md_usd_twd d))) ''taiwan_stress'' (f64_const (6 / 10)))"

definition scan_severity :: "risk_factor \<Rightarrow> int \<times> f64 \<Rightarrow> int \<times> f64" where
  "scan_severity f = (\<lambda>(high, peak).
     (if flt (f64_const (7 / 10)) (rf_severity f) then high + 1 else high,
      if flt peak (rf_severity f) then rf_severity f else peak))"

definition determineRiskLevel :: "risk_factor list \<Rightarrow> macro_level" where
  "determineRiskLevel fs =
     (if fs = [] then MacroRiskGreen
      else (let (high, peak) = fold scan_severity fs (0, Fin 0) in
        if high \<ge> 2 \<or> flt (f64_const (9 / 10)) peak then MacroRiskRed
        else if high = 1 \<or> length fs \<ge> 2 then MacroRiskOrange
        else if length fs = 1 then MacroRiskYellow
        else MacroRiskGreen))"

definition weighted_severity :: "risk_factor \<Rightarrow> f64" where
  "weighted_severity f =
     (if rf_type f = ''carry_trade'' then fmul (rf_severity f) (Fin (3 / 2))
      else if rf_type f = ''geopolitical'' then fmul (rf_severity f) (f64_const (13 / 10))
      else if rf_type f = ''taiwan_stress'' then fmul (rf_severity f) (f64_const (12 / 10))
      else rf_severity f)"

definition calculateOutflowProbability :: "macro_config \<Rightarrow> risk_factor list \<Rightarrow> f64" where
  "calculateOutflowProbability cfg fs =
     (if fs = [] then fdiv (mc_base cfg) (Fin (7 / 2))
      else (let sum = fold (\<lambda>f acc. fadd acc (weighted_severity f)) fs (Fin 0);
                prob = fmul (fdiv sum (f64_of_int (int (length fs)))) (Fin 100)
            in if flt (mc_max cfg) prob then mc_max cfg else prob))"

definition has_factor :: "risk_factor list \<Rightarrow> string \<Rightarrow> bool" where
  "has_factor fs t \<longleftrightarrow> list_ex (\<lambda>f. rf_type f = t) fs"

definition determinePrimaryFlow :: "risk_factor list \<Rightarrow> string" where
  "determinePrimaryFlow fs =
     (if has_factor fs ''energy_crisis'' then ''sector_rotation''
      else if has_factor fs ''geopolitical'' then ''risk_off''
      else if has_factor fs ''carry_trade'' then ''carry_trade_unwind''
      else if has_factor fs ''market_stress'' then ''risk_off''
      else ''mixed'')"

definition determineSectorRotation :: "risk_factor list \<Rightarrow> string list \<times> string list" where
  "determineSectorRotation fs =
     (if has_factor fs ''energy_crisis'' then
        ([''energy'', ''oil_services'', ''alternative_energy'', ''shipping''], [''high_valuation_tech'', ''rate_sensitive''])
      else if has_factor fs ''geopolitical'' then
        ([''gold'', ''defensive_financials'', ''high_dividend'', ''utilities''], [''ai_supply_chain'', ''small_cap'', ''emerging_market''])
      else if has_factor fs ''carry_trade'' then
        ([''cash'', ''short_term_bonds'', ''jpy''], [''all_equities'', ''tech'', ''financials''])
      else if has_factor fs ''market_stress'' then
        ([''gold'', ''defensive_financials'', ''high_dividend'', ''utilities''], [''ai_supply_chain'', ''small_cap'', ''emerging_market''])
      else ([''diversified''], [''concentrated'']))"

definition calculateConfidence :: "risk_factor list \<Rightarrow> f64" where
  "calculateConfidence fs =
     (if fs = [] then f64_const (9 / 10)
      else (let penalty = fmul (f64_of_int (int (length fs) - 1)) (f64_const (5 / 100));
                penalty = (if flt (f64_const (2 / 10)) penalty then f64_const (2 / 10) else penalty)
            in fsub (f64_const (85 / 100)) penalty))"

record macro_assessment =
  ma_level :: macro_level
  ma_outflow :: f64
  ma_flow :: string
  ma_favored :: "string list"
  ma_avoided :: "string list"
  ma_override :: bool
  ma_confidence :: f64
  ma_crisis :: bool

text \<open>\<open>MacroRiskAssessmentEngine.Assess\<close>; no code sets the field \<open>StructuralOverride\<close> of the assessment.\<close>

definition AssessMacro :: "macro_config \<Rightarrow> macro_snapshot \<Rightarrow> macro_assessment" where
  "AssessMacro cfg d =
     (let fs = evaluateRiskFactors cfg d; crisis = fle (Fin 35) (mp_value (md_vix d));
          (favored, avoided) = determineSectorRotation fs
      in \<lparr>ma_level = (if crisis then MacroRiskRed else determineRiskLevel fs),
          ma_outflow = calculateOutflowProbability cfg fs, ma_flow = determinePrimaryFlow fs,
          ma_favored = favored, ma_avoided = avoided, ma_override = False,
          ma_confidence = calculateConfidence fs, ma_crisis = crisis\<rparr>)"

section \<open>Structural trends\<close>

record structural_trend =
  tr_name :: string
  tr_theme :: string
  tr_strength :: f64
  tr_confidence :: f64
  tr_hit_rate :: f64

record sector_snapshot =
  sd_ai_growth :: f64
  sd_cowos :: f64
  sd_capex :: f64
  sd_semi_index :: f64

record structural_assessment =
  sa_trends :: "structural_trend list"
  sa_dominant :: "structural_trend option"
  sa_score :: f64
  sa_override :: bool

definition detectTrends :: "sector_snapshot \<Rightarrow> structural_trend list" where
  "detectTrends d =
     (if flt (Fin 50) (sd_ai_growth d) \<and> flt (Fin 85) (sd_cowos d)
      then [\<lparr>tr_name = ''AI Capex Surge'', tr_theme = ''AI_capex_surge'',
             tr_strength = fmin (Fin 1) (fdiv (sd_ai_growth d) (Fin 100)),
             tr_confidence = fmin (Fin 1) (fdiv (sd_cowos d) (Fin 100)), tr_hit_rate = f64_const (81 / 100)\<rparr>] else [])
   @ (if flt (Fin 0) (sd_semi_index d) \<and> flt (Fin 30) (sd_ai_growth d)
      then [\<lparr>tr_name = ''Semiconductor Upcycle'', tr_theme = ''semiconductor_upcycle'',
             tr_strength = fmin (Fin 1) (fdiv (sd_ai_growth d) (Fin 80)),
             tr_confidence = f64_const (80 / 100), tr_hit_rate = f64_const (72 / 100)\<rparr>] else [])
   @ (if flt (Fin 40) (sd_capex d)
      then [\<lparr>tr_name = ''Cloud Infrastructure Expansion'', tr_theme = ''cloud_expansion'',
             tr_strength = fmin (Fin 1) (fdiv (sd_capex d) (Fin 100)),
             tr_confidence = Fin (3 / 4), tr_hit_rate = f64_const (68 / 100)\<rparr>] else [])"

definition trend_score :: "structural_trend \<Rightarrow> f64" where
  "trend_score t = fmul (fmul (tr_strength t) (tr_confidence t)) (tr_hit_rate t)"

definition better_trend :: "structural_trend \<Rightarrow> f64 \<times> structural_trend option \<Rightarrow> f64 \<times> structural_trend option" where
  "better_trend t = (\<lambda>(peak, best). if flt peak (trend_score t) then (trend_score t, Some t) else (peak, best))"

definition findDominantTrend :: "structural_trend list \<Rightarrow> structural_trend option" where
  "findDominantTrend ts = (if ts = [] then None else snd (fold better_trend ts (Fin 0, None)))"

definition calculateOverrideScore :: "structural_trend option \<Rightarrow> f64" where
  "calculateOverrideScore dominant =
     (case dominant of
        None \<Rightarrow> Fin 0
      | Some t \<Rightarrow>
          (let score = trend_score t;
               score = (if flt (f64_const (8 / 10)) (tr_confidence t) \<and> flt (Fin (3 / 4)) (tr_hit_rate t)
                 then fmul score (f64_const (12 / 10)) else score)
           in if flt (Fin 1) score then Fin 1 else score))"

definition overrideThreshold :: f64 where
  "overrideThreshold = f64_const (65 / 100)"

definition AssessTrends :: "sector_snapshot \<Rightarrow> structural_assessment" where
  "AssessTrends d =
     (let ts = detectTrends d; dominant = findDominantTrend ts; score = calculateOverrideScore dominant
      in \<lparr>sa_trends = ts, sa_dominant = dominant, sa_score = score, sa_override = fle overrideThreshold score\<rparr>)"

section \<open>The level depends on the severities only\<close>

definition severe_factor :: "risk_factor \<Rightarrow> bool" where
  "severe_factor f \<longleftrightarrow> flt (f64_const (7 / 10)) (rf_severity f)"

definition extreme_factor :: "risk_factor \<Rightarrow> bool" where
  "extreme_factor f \<longleftrightarrow> flt (f64_const (9 / 10)) (rf_severity f)"

lemma flt_total: "flt a x \<Longrightarrow> \<not> flt b x \<Longrightarrow> b \<noteq> NaN \<Longrightarrow> flt a b"
  by (cases a; cases x; cases b) auto

lemma scan_severity_result:
  assumes "peak \<noteq> NaN"
  shows "fst (fold scan_severity fs (n, peak)) = n + int (length (filter severe_factor fs))
     \<and> (flt (f64_const (9 / 10)) (snd (fold scan_severity fs (n, peak))) \<longleftrightarrow> flt (f64_const (9 / 10)) peak \<or> list_ex extreme_factor fs)"
  using assms
proof (induction fs arbitrary: n peak)
  case (Cons f fs)
  let ?peak = "if flt peak (rf_severity f) then rf_severity f else peak"
  have "?peak \<noteq> NaN" using Cons.prems by (auto intro: flt_special)
  moreover have "flt (f64_const (9 / 10)) ?peak \<longleftrightarrow> flt (f64_const (9 / 10)) peak \<or> extreme_factor f"
    using Cons.prems by (auto simp: extreme_factor_def intro: flt_trans dest: flt_total)
  ultimately show ?case using Cons.IH[of ?peak] by (auto simp: scan_severity_def severe_factor_def)
qed simp

lemma level_cases:
  "determineRiskLevel fs =
     (if length (filter severe_factor fs) \<ge> 2 \<or> list_ex extreme_factor fs then MacroRiskRed
      else if length (filter severe_factor fs) = 1 \<or> length fs \<ge> 2 then MacroRiskOrange
      else if fs \<noteq> [] then MacroRiskYellow else MacroRiskGreen)"
proof -
  obtain n peak where s: "fold scan_severity fs (0, Fin 0) = (n, peak)" by fastforce
  have n: "n = int (length (filter severe_factor fs))" and t: "flt (f64_const (9 / 10)) peak \<longleftrightarrow> list_ex extreme_factor fs"
    using scan_severity_result[of "Fin 0" fs 0] rnd_nonneg[of "9 / 10"] fle_not_flt[of "Fin 0" "f64_const (9 / 10)"]
    by (auto simp: s f64_const_def)
  have "length fs = 1 \<longleftrightarrow> fs \<noteq> [] \<and> \<not> length fs \<ge> 2" by (cases fs) (auto simp: Suc_le_eq)
  then show ?thesis by (auto simp: determineRiskLevel_def s n t Let_def)
qed

text \<open>One list of factors is covered by another when its factors occur in it, in order and no less severe.\<close>

definition less_severe :: "risk_factor \<Rightarrow> risk_factor \<Rightarrow> bool" where
  "less_severe f g \<longleftrightarrow> fle (rf_severity f) (rf_severity g)"

lemma less_severe_grades: "less_severe f g \<Longrightarrow> (severe_factor f \<longrightarrow> severe_factor g) \<and> (extreme_factor f \<longrightarrow> extreme_factor g)"
  by (auto simp: less_severe_def severe_factor_def extreme_factor_def intro: flt_fle_trans)

lemma covered_grades:
  "list_emb less_severe fs gs \<Longrightarrow>
     length (filter severe_factor fs) \<le> length (filter severe_factor gs) \<and> (list_ex extreme_factor fs \<longrightarrow> list_ex extreme_factor gs) \<and> length fs \<le> length gs"
  by (induction rule: list_emb.induct) (auto dest: less_severe_grades)

lemma covered_level: "list_emb less_severe fs gs \<Longrightarrow> determineRiskLevel fs \<le> determineRiskLevel gs"
  using covered_grades[of fs gs] by (auto simp: level_cases macro_levels)

lemma level_range: "MacroRiskGreen \<le> determineRiskLevel fs \<and> determineRiskLevel fs \<le> MacroRiskRed"
  by (simp add: level_cases macro_levels)


section \<open>A higher volatility index never lowers the level\<close>

text \<open>The severity of market stress grows with the index.\<close>

lemma fsub_mono: "fle a b \<Longrightarrow> flt c a \<Longrightarrow> fle (fsub a c) (fsub b c)"
  by (cases a; cases b; cases c) (auto simp: fsub_def rnd_mono)

lemma fdiv_mono: "fle a b \<Longrightarrow> 0 < q \<Longrightarrow> fle (fdiv a (Fin q)) (fdiv b (Fin q))"
  by (cases a; cases b) (auto simp: rnd_mono divide_right_mono)

lemma at_most_one_mono: "fle a b \<Longrightarrow> fle (at_most_one a) (at_most_one b)"
  by (cases a; cases b) (auto simp: at_most_one_def)

lemma not_NaN_of_flt: "flt a b \<Longrightarrow> a \<noteq> NaN \<and> b \<noteq> NaN"
  by (cases a; cases b) auto

lemma covered_factor:
  assumes "c \<longrightarrow> c'" "c \<longrightarrow> fle v v'"
  shows "list_emb less_severe (factor_if c t v) (factor_if c' t v')"
  using assms by (auto simp: factor_if_def less_severe_def intro: list_emb_Cons2)

definition with_vix :: "f64 \<Rightarrow> macro_snapshot \<Rightarrow> macro_snapshot" where
  "with_vix v d = d\<lparr>md_vix := (md_vix d)\<lparr>mp_value := v\<rparr>\<rparr>"

lemma with_vix_sel [simp]:
  "mp_value (md_vix (with_vix v d)) = v" "md_us10y (with_vix v d) = md_us10y d" "md_oil (with_vix v d) = md_oil d"
  "md_gold (with_vix v d) = md_gold d" "md_jpy (with_vix v d) = md_jpy d" "md_usd_twd (with_vix v d) = md_usd_twd d"
  by (simp_all add: with_vix_def)

lemma kept_factor: "(c \<Longrightarrow> v \<noteq> NaN) \<Longrightarrow> list_emb less_severe (factor_if c t v) (factor_if c t v)"
  by (rule covered_factor) (auto intro: fle_refl)

lemma at_most_one_NaN [simp]: "at_most_one v = NaN \<longleftrightarrow> v = NaN"
  by (cases v) (simp_all add: at_most_one_def)

lemma fsub_not_NaN: "flt c a \<Longrightarrow> fsub a c \<noteq> NaN"
  by (cases a; cases c) (auto simp: fsub_def)

lemma fdiv_not_NaN: "a \<noteq> NaN \<Longrightarrow> 0 < q \<Longrightarrow> fdiv a (Fin q) \<noteq> NaN"
  by (cases a) auto

lemma share_not_NaN: "flt (Fin 0) a \<Longrightarrow> flt a b \<Longrightarrow> fsub (Fin 1) (fdiv a b) \<noteq> NaN"
proof -
  assume ab: "flt (Fin 0) a" "flt a b"
  then have "fdiv a b \<noteq> NaN" by (cases a; cases b) auto
  then show ?thesis by (cases "fdiv a b") (auto simp: fsub_def)
qed

lemma vix_covers_factors:
  assumes "fle (mp_value (md_vix d)) v"
  shows "list_emb less_severe (evaluateRiskFactors cfg d) (evaluateRiskFactors cfg (with_vix v d))"
proof -
  let ?u = "mp_value (md_vix d)"
  have up: "flt a ?u \<Longrightarrow> flt a v" for a using assms by (blast intro: flt_fle_trans)
  have stress: "fle (at_most_one (fdiv (fsub ?u (mc_vix cfg)) (Fin 20))) (at_most_one (fdiv (fsub v (mc_vix cfg)) (Fin 20)))"
    if "flt (mc_vix cfg) ?u"
    using that assms by (intro at_most_one_mono fdiv_mono fsub_mono) simp_all
  show ?thesis
    unfolding evaluateRiskFactors_def Let_def with_vix_sel
    by (intro list_emb_append_mono kept_factor covered_factor)
       (auto simp: f64_const_def fle_refl fdiv_not_NaN fsub_not_NaN share_not_NaN intro: up stress)
qed

text \<open>
  A higher volatility index never lowers the level of the macro assessment: every risk factor that the old
  reading raised is raised by the new one, no less severely, and the crisis override holds for every reading above one
  that has it.
\<close>

lemma higher_vix_never_lowers_level:
  assumes "fle (mp_value (md_vix d)) v"
  shows "ma_level (AssessMacro cfg d) \<le> ma_level (AssessMacro cfg (with_vix v d))"
proof -
  have "fle (Fin 35) v" if "fle (Fin 35) (mp_value (md_vix d))" using that assms by (rule fle_trans)
  then show ?thesis
    using covered_level[OF vix_covers_factors[OF assms]] level_range[of "evaluateRiskFactors cfg d"]
    by (auto simp: AssessMacro_def Let_def case_prod_beta)
qed

section \<open>Which trend can override\<close>

lemma fmul_mono: "fle a b \<Longrightarrow> 0 < q \<Longrightarrow> fle (fmul a (Fin q)) (fmul b (Fin q))"
  by (cases a; cases b) (auto simp: rnd_mono mult_right_mono inf_signed_def)

lemma best_in_list:
  "snd (fold better_trend ts (s, b)) = Some t \<Longrightarrow> t \<in> set ts \<or> b = Some t"
  by (induction ts arbitrary: s b) (fastforce simp: better_trend_def split: if_splits)+

lemma dominant_in_list: "findDominantTrend ts = Some t \<Longrightarrow> t \<in> set ts"
  using best_in_list[of ts "Fin 0" None t] by (simp add: findDominantTrend_def split: if_splits)

lemma trend_constants:
  "f64_const (4 / 5) = Fin (7205759403792794 / 2 ^ 53)"
  "f64_const (18 / 25) = Fin (6485183463413514 / 2 ^ 53)"
  "f64_const (17 / 25) = Fin (6124895493223875 / 2 ^ 53)"
  "f64_const (81 / 100) = Fin (7295831396340204 / 2 ^ 53)"
  "f64_const (13 / 20) = Fin (5854679515581645 / 2 ^ 53)"
  "f64_const (6 / 5) = Fin (5404319552844595 / 2 ^ 52)"
  unfolding f64_const_def
  subgoal using rnd_nearest[of "4 / 5" 53 7205759403792794] by simp
  subgoal using rnd_nearest[of "18 / 25" 53 6485183463413514] by simp
  subgoal using rnd_nearest[of "17 / 25" 53 6124895493223875] by simp
  subgoal using rnd_nearest[of "81 / 100" 53 7295831396340204] by simp
  subgoal using rnd_nearest[of "13 / 20" 53 5854679515581645] by simp
  subgoal using rnd_nearest[of "6 / 5" 52 5404319552844595] by simp
  done

lemma semiconductor_score:
  "fmul (fmul (Fin 1) (Fin (7205759403792794 / 2 ^ 53))) (Fin (6485183463413514 / 2 ^ 53)) = Fin (5188146770730811 / 2 ^ 53)"
  using rnd_dyadic[of 7205759403792794 53] rnd_nearest[of "7205759403792794 / 2 ^ 53 * (6485183463413514 / 2 ^ 53)" 53 5188146770730811] by simp

lemma cloud_score: "fmul (fmul (Fin 1) (Fin (3 / 4))) (Fin (6124895493223875 / 2 ^ 53)) = Fin (4593671619917906 / 2 ^ 53)"
  using rnd_dyadic[of 3 2] rnd_nearest[of "3 / 4 * (6124895493223875 / 2 ^ 53)" 53 4593671619917906] by simp

lemma weak_trend_cannot_override:
  assumes "fle (tr_strength t) (Fin 1)" "tr_confidence t = Fin c" "tr_hit_rate t = Fin h" "0 < c" "0 < h"
    and "\<not> flt (f64_const (8 / 10)) (Fin c)" "fmul (fmul (Fin 1) (Fin c)) (Fin h) = Fin w" "flt (Fin w) overrideThreshold"
  shows "\<not> fle overrideThreshold (calculateOverrideScore (Some t))"
proof -
  have "fle (trend_score t) (Fin w)"
    using fmul_mono[OF fmul_mono[OF assms(1) assms(4)] assms(5)] assms(2,3,7) by (simp add: trend_score_def)
  then have "flt (trend_score t) overrideThreshold" using assms(8) by (rule fle_flt_trans)
  then have lt: "\<not> fle overrideThreshold (trend_score t)" using fle_not_flt by blast
  have "\<not> fle overrideThreshold (Fin 1) \<or> \<not> flt (Fin 1) (trend_score t)"
    using lt by (auto simp: flt_iff_fle intro: fle_trans)
  with lt assms(2,6) show ?thesis by (auto simp: calculateOverrideScore_def Let_def)
qed

lemma strength_at_most_one: "v \<noteq> NaN \<Longrightarrow> fle (fmin (Fin 1) v) (Fin 1)"
  using fmin_le[of "Fin 1" v] by (auto simp: fmin_def)

lemma semiconductor_cannot_override:
  "v \<noteq> NaN \<Longrightarrow> \<not> fle overrideThreshold (calculateOverrideScore (Some
     \<lparr>tr_name = n, tr_theme = th, tr_strength = fmin (Fin 1) v, tr_confidence = f64_const (4 / 5), tr_hit_rate = f64_const (18 / 25)\<rparr>))"
  using trend_constants semiconductor_score
  by (intro weak_trend_cannot_override[where c = "7205759403792794 / 2 ^ 53" and h = "6485183463413514 / 2 ^ 53" and w = "5188146770730811 / 2 ^ 53"])
     (simp_all add: strength_at_most_one overrideThreshold_def)

lemma cloud_cannot_override:
  "v \<noteq> NaN \<Longrightarrow> \<not> fle overrideThreshold (calculateOverrideScore (Some
     \<lparr>tr_name = n, tr_theme = th, tr_strength = fmin (Fin 1) v, tr_confidence = Fin (3 / 4), tr_hit_rate = f64_const (17 / 25)\<rparr>))"
  using trend_constants cloud_score
  by (intro weak_trend_cannot_override[where c = "3 / 4" and h = "6124895493223875 / 2 ^ 53" and w = "4593671619917906 / 2 ^ 53"])
     (simp_all add: strength_at_most_one overrideThreshold_def)

text \<open>
  A structural trend overrides the macro risk only when the revenue of the AI supply chain grows by more
  than fifty percent and the packaging lines are used to more than 85 percent: the two other trends cannot reach the
  threshold, however strong they are, and without a dominant trend nothing is overridden.
\<close>

theorem only_the_ai_trend_overrides:
  assumes "sa_override (AssessTrends d)"
  shows "\<exists>t. sa_dominant (AssessTrends d) = Some t \<and> tr_theme t = ''AI_capex_surge''
    \<and> flt (Fin 50) (sd_ai_growth d) \<and> flt (Fin 85) (sd_cowos d)"
proof (cases "findDominantTrend (detectTrends d)")
  case None
  then show ?thesis using assms
    by (simp add: AssessTrends_def Let_def calculateOverrideScore_def overrideThreshold_def trend_constants)
next
  case (Some t)
  then have over: "fle overrideThreshold (calculateOverrideScore (Some t))" and t: "t \<in> set (detectTrends d)"
    using assms dominant_in_list by (auto simp: AssessTrends_def Let_def)
  show ?thesis
  proof (cases "tr_theme t = ''AI_capex_surge''")
    case True
    then show ?thesis using t Some by (auto simp: detectTrends_def AssessTrends_def Let_def split: if_splits)
  next
    case False
    then have "\<not> fle overrideThreshold (calculateOverrideScore (Some t))"
      using t semiconductor_cannot_override cloud_cannot_override
      by (auto simp: detectTrends_def fdiv_not_NaN not_NaN_of_flt split: if_splits)
    with over show ?thesis by contradiction
  qed
qed

section \<open>Examples\<close>

definition demo_macro_config :: macro_config where
  "demo_macro_config = \<lparr>mc_carry = Fin 145, mc_vix = Fin 30, mc_us10y = Fin (9 / 2), mc_oil = Fin 10, mc_gold = Fin 5,
     mc_twd = Fin 2, mc_base = Fin 35, mc_max = Fin 80\<rparr>"

definition demo_quiet :: macro_snapshot where
  "demo_quiet = \<lparr>md_us10y = no_point, md_dxy = no_point, md_vix = \<lparr>mp_value = Fin 20, mp_change = Fin 0\<rparr>,
     md_usd_twd = no_point, md_oil = no_point, md_gold = no_point, md_jpy = no_point\<rparr>"

definition demo_sectors :: "f64 \<Rightarrow> f64 \<Rightarrow> f64 \<Rightarrow> sector_snapshot" where
  "demo_sectors growth cowos index = \<lparr>sd_ai_growth = growth, sd_cowos = cowos, sd_capex = Fin 0, sd_semi_index = index\<rparr>"

lemmas trend_eval = AssessTrends_def detectTrends_def findDominantTrend_def better_trend_def trend_score_def
  calculateOverrideScore_def overrideThreshold_def Let_def fmin_def trend_constants

lemma full_score: "rnd (7295831396340204 / 2 ^ 53) = Fin (7295831396340204 / 2 ^ 53)"
    "rnd (7295831396340204 / 2 ^ 53 * (5404319552844595 / 2 ^ 52)) = Fin (8754997675608244 / 2 ^ 53)"
  subgoal using rnd_dyadic[of 7295831396340204 53] by simp
  subgoal using rnd_nearest[of "7295831396340204 / 2 ^ 53 * (5404319552844595 / 2 ^ 52)" 53 8754997675608244] by simp
  done

lemma only_the_ai_trend_overrides_witness:
  "sa_dominant (AssessTrends (demo_sectors (Fin 100) (Fin 100) (Fin 0))) \<noteq> None"
proof -
  have "sa_override (AssessTrends (demo_sectors (Fin 100) (Fin 100) (Fin 0)))"
    using full_score by (simp add: trend_eval demo_sectors_def)
  from only_the_ai_trend_overrides[OF this] show ?thesis by auto
qed

text \<open>
  The dominant trend is chosen before the bonus for confidence is applied.  So a second, weaker trend takes an override
  away: with a revenue growth of 78.125 and a use of the lines of 87.5 percent the trend overrides, and no longer does once
  the semiconductor index is quoted.
\<close>

lemma second_trend_scores:
  "rnd (175 / 256 * (7295831396340204 / 2 ^ 53)) = Fin (4987384743591936 / 2 ^ 53)"
  "rnd (4987384743591936 / 2 ^ 53 * (5404319552844595 / 2 ^ 52)) = Fin (5984861692310323 / 2 ^ 53)"
  "rnd (125 / 128 * (7205759403792794 / 2 ^ 53)) = Fin (7036874417766400 / 2 ^ 53)"
  "rnd (7036874417766400 / 2 ^ 53 * (6485183463413514 / 2 ^ 53)) = Fin (5066549580791808 / 2 ^ 53)"
  subgoal using rnd_nearest[of "175 / 256 * (7295831396340204 / 2 ^ 53)" 53 4987384743591936] by simp
  subgoal using rnd_nearest[of "4987384743591936 / 2 ^ 53 * (5404319552844595 / 2 ^ 52)" 53 5984861692310323] by simp
  subgoal using rnd_nearest[of "125 / 128 * (7205759403792794 / 2 ^ 53)" 53 7036874417766400] by simp
  subgoal using rnd_nearest[of "7036874417766400 / 2 ^ 53 * (6485183463413514 / 2 ^ 53)" 53 5066549580791808] by simp
  done

lemma second_trend_takes_the_override_away:
  "sa_override (AssessTrends (demo_sectors (Fin (625 / 8)) (Fin (175 / 2)) (Fin 0)))"
  "\<not> sa_override (AssessTrends (demo_sectors (Fin (625 / 8)) (Fin (175 / 2)) (Fin 5000)))"
  using second_trend_scores rnd_dyadic[of 25 5] rnd_dyadic[of 7 3] rnd_dyadic[of 175 8] rnd_dyadic[of 125 7]
  by (simp_all add: trend_eval demo_sectors_def)

text \<open>A first weak risk factor lowers the outflow probability that is reported: from ten percent without any to 6.25.\<close>

lemma weak_factor_lowers_outflow:
  "ma_outflow (AssessMacro demo_macro_config demo_quiet) = Fin 10"
  "ma_outflow (AssessMacro demo_macro_config (with_vix (Fin (125 / 4)) demo_quiet)) = Fin (25 / 4)"
  using rnd_dyadic[of 1 4] rnd_dyadic[of 5 2] rnd_dyadic[of 25 2] rnd_of_int[of 10] rnd_of_int[of 1]
  by (simp_all add: AssessMacro_def evaluateRiskFactors_def factor_if_def demo_quiet_def demo_macro_config_def no_point_def with_vix_def
      calculateOutflowProbability_def weighted_severity_def at_most_one_def fsub_def Let_def case_prod_beta f64_simps f64_of_int_def)

end
