(* ===== verification/Risk_Drawdown.thy ===== *)
theory Risk_Drawdown
  imports Macro_Assess "HOL-Library.AList"
begin

text \<open>
  The drawdown decision (\<open>risk/macro_aware_drawdown.go\<close>) with the assessments that may escalate it
  (\<open>risk/industry_risk.go\<close>, \<open>risk/portfolio_risk.go\<close>).  A nil pointer that the code dereferences is the result \<open>None\<close>.
  The texts of rules and rationales and the time stamps are left out.
\<close>

section \<open>Actions and levels\<close>

datatype drawdown_action = DrawdownNone | DrawdownLight | DrawdownModerate | DrawdownSevere | DrawdownEmergency

fun action_number :: "drawdown_action \<Rightarrow> nat" where
  "action_number DrawdownNone = 0"
| "action_number DrawdownLight = 1"
| "action_number DrawdownModerate = 2"
| "action_number DrawdownSevere = 3"
| "action_number DrawdownEmergency = 4"

text \<open>Actions are compared by their numbers.\<close>

instantiation drawdown_action :: linorder
begin

definition less_eq_drawdown_action :: "drawdown_action \<Rightarrow> drawdown_action \<Rightarrow> bool" where
  "less_eq_drawdown_action a b \<longleftrightarrow> action_number a \<le> action_number b"

definition less_drawdown_action :: "drawdown_action \<Rightarrow> drawdown_action \<Rightarrow> bool" where
  "less_drawdown_action a b \<longleftrightarrow> action_number a < action_number b"

instance
proof
  fix a b :: drawdown_action
  show "a = b" if "a \<le> b" "b \<le> a"
    using that by (cases a; cases b) (simp_all add: less_eq_drawdown_action_def)
qed (auto simp: less_eq_drawdown_action_def less_drawdown_action_def)

end

lemmas action_order = less_eq_drawdown_action_def less_drawdown_action_def

fun action_name :: "drawdown_action \<Rightarrow> string" where
  "action_name DrawdownNone = ''none''"
| "action_name DrawdownLight = ''light''"
| "action_name DrawdownModerate = ''moderate''"
| "action_name DrawdownSevere = ''severe''"
| "action_name DrawdownEmergency = ''emergency''"

record drawdown_level =
  dl_percentage :: f64
  dl_exposure :: f64

record drawdown_config =
  dc_levels :: "(string \<times> drawdown_level) list"
  dc_orange :: f64
  dc_red :: f64
  dc_risk_off :: "(string \<times> f64) list"
  dc_carry :: "(string \<times> f64) list"
  dc_rotation :: "(string \<times> f64) list"

record drawdown_engine =
  de_levels :: "drawdown_action \<rightharpoonup> drawdown_level"
  de_cfg :: drawdown_config

definition NewDefaultDrawdownLevels :: "(string \<times> drawdown_level) list \<Rightarrow> drawdown_action \<rightharpoonup> drawdown_level" where
  "NewDefaultDrawdownLevels cfg a = map_of cfg (action_name a)"

definition NewMacroAwareDrawdownEngine :: "drawdown_config \<Rightarrow> drawdown_engine" where
  "NewMacroAwareDrawdownEngine cfg = \<lparr>de_levels = NewDefaultDrawdownLevels (dc_levels cfg), de_cfg = cfg\<rparr>"

text \<open>A level that is missing from the map reads as the zero value.\<close>

definition level_of :: "drawdown_engine \<Rightarrow> drawdown_action \<Rightarrow> drawdown_level" where
  "level_of e a = (case de_levels e a of Some l \<Rightarrow> l | None \<Rightarrow> \<lparr>dl_percentage = Fin 0, dl_exposure = Fin 0\<rparr>)"

section \<open>The decision\<close>

record drawdown_decision =
  dd_action :: drawdown_action
  dd_percentage :: f64
  dd_exposure :: f64
  dd_override :: bool

definition canWithstandMacroRisk :: "drawdown_engine \<Rightarrow> macro_level \<Rightarrow> structural_assessment option \<Rightarrow> bool" where
  "canWithstandMacroRisk e l structural =
     (if l \<le> MacroRiskYellow then True
      else (case structural of
        None \<Rightarrow> False
      | Some s \<Rightarrow>
          (if sa_dominant s = None then False
           else if l = MacroRiskOrange then fle (dc_orange (de_cfg e)) (sa_score s)
           else if l = MacroRiskRed then fle (dc_red (de_cfg e)) (sa_score s)
           else False)))"

definition determineAction :: "macro_level \<Rightarrow> bool \<Rightarrow> drawdown_action" where
  "determineAction l canWithstand =
     (if l = MacroRiskGreen then DrawdownNone
      else if l = MacroRiskYellow then DrawdownLight
      else if l = MacroRiskOrange then (if canWithstand then DrawdownLight else DrawdownModerate)
      else if l = MacroRiskRed then (if canWithstand then DrawdownModerate else DrawdownSevere)
      else DrawdownLight)"

text \<open>\<open>Evaluate\<close>: \<open>canWithstand\<close> holds for low levels without a structural assessment, which is dereferenced next.\<close>

definition EvaluateDrawdown ::
    "drawdown_engine \<Rightarrow> macro_assessment \<Rightarrow> structural_assessment option \<Rightarrow> drawdown_decision option" where
  "EvaluateDrawdown e macro structural =
     (let can = canWithstandMacroRisk e (ma_level macro) structural;
          action = determineAction (ma_level macro) can;
          l = level_of e action;
          decide = (\<lambda>override. \<lparr>dd_action = action, dd_percentage = dl_percentage l, dd_exposure = dl_exposure l, dd_override = override\<rparr>)
      in if can then (case structural of None \<Rightarrow> None | Some s \<Rightarrow> Some (decide (sa_override s))) else Some (decide False))"

definition GetPositionSizeAdjustment :: "drawdown_decision \<Rightarrow> f64" where
  "GetPositionSizeAdjustment d = dd_exposure d"

definition ShouldHaltTrading :: "drawdown_decision \<Rightarrow> bool" where
  "ShouldHaltTrading d \<longleftrightarrow> DrawdownSevere \<le> dd_action d"

definition GetSectorConstraints :: "drawdown_engine \<Rightarrow> macro_assessment \<Rightarrow> (string \<times> f64) list" where
  "GetSectorConstraints e macro =
     (if ma_flow macro = ''risk_off'' then dc_risk_off (de_cfg e)
      else if ma_flow macro = ''carry_trade_unwind'' then dc_carry (de_cfg e)
      else if ma_flow macro = ''sector_rotation'' then dc_rotation (de_cfg e)
      else [])"

definition CalculatePortfolioAdjustment :: "f64 \<Rightarrow> drawdown_decision \<Rightarrow> f64 \<times> f64" where
  "CalculatePortfolioAdjustment current d = (dd_exposure d, fsub (dd_exposure d) current)"

section \<open>Escalation\<close>

record industry_position =
  ip_id :: string
  ip_cycle :: string
  ip_score :: f64

record industry_assessment =
  ia_count :: int
  ia_recession :: int
  ia_expansion :: int
  ia_cycle_score :: f64

definition getWeight :: "(string \<times> f64) list \<Rightarrow> string \<Rightarrow> f64" where
  "getWeight weights i = (case map_of weights i of Some w \<Rightarrow> w | None \<Rightarrow> Fin 1)"

text \<open>
  \<open>CycleTrackerRiskProvider.Assess\<close>: the positions come in the order the map is visited; \<open>None\<close> is the missing
  tracker.  The list of the five riskiest industries is left out, nothing reads it.
\<close>

definition AssessIndustry :: "(string \<times> f64) list \<Rightarrow> industry_position list option \<Rightarrow> industry_assessment option" where
  "AssessIndustry weights tracker =
     (case tracker of
        None \<Rightarrow> None
      | Some positions \<Rightarrow>
          (let counted = filter (\<lambda>p. \<not> fle (getWeight weights (ip_id p)) (Fin 0)) positions;
               score = fold (\<lambda>p acc. fadd acc (fmul (ip_score p) (getWeight weights (ip_id p)))) counted (Fin 0);
               sum = fold (\<lambda>p acc. fadd acc (getWeight weights (ip_id p))) counted (Fin 0)
           in Some \<lparr>ia_count = int (length positions),
                ia_recession = int (length (filter (\<lambda>p. ip_cycle p = ''recession'') counted)),
                ia_expansion = int (length (filter (\<lambda>p. ip_cycle p = ''expansion'') counted)),
                ia_cycle_score = (if flt (Fin 0) sum then fdiv score sum else Fin 0)\<rparr>))"

record portfolio_assessment =
  pa_concentration :: f64
  pa_sectors :: "(string \<times> f64) list"
  pa_factors :: "(string \<times> f64) list"
  pa_score :: f64

record breakdown_step =
  bs_source :: string
  bs_action :: string
  bs_confidence :: f64

record breakdown =
  bd_steps :: "breakdown_step list"
  bd_action :: drawdown_action
  bd_percentage :: f64
  bd_exposure :: f64

fun escalateAction :: "drawdown_action \<Rightarrow> drawdown_action" where
  "escalateAction DrawdownNone = DrawdownLight"
| "escalateAction DrawdownLight = DrawdownModerate"
| "escalateAction DrawdownModerate = DrawdownSevere"
| "escalateAction DrawdownSevere = DrawdownEmergency"
| "escalateAction _ = DrawdownEmergency"

definition escalate_decision :: "drawdown_engine \<Rightarrow> drawdown_decision \<Rightarrow> drawdown_decision" where
  "escalate_decision e d =
     (let action = escalateAction (dd_action d); l = level_of e action
      in d\<lparr>dd_action := action, dd_percentage := dl_percentage l, dd_exposure := dl_exposure l\<rparr>)"

definition recessionRatio :: "industry_assessment \<Rightarrow> f64" where
  "recessionRatio a = fdiv (f64_of_int (ia_recession a)) (f64_of_int (ia_count a))"

definition buildIndustryCycleStep :: "f64 \<Rightarrow> breakdown_step" where
  "buildIndustryCycleStep ratio =
     \<lparr>bs_source = ''industry_cycle'', bs_action = (if fle (Fin (1 / 4)) ratio then ''escalate'' else ''no_change''),
      bs_confidence = fsub (Fin 1) ratio\<rparr>"

definition buildPortfolioRiskStep :: "portfolio_assessment \<Rightarrow> breakdown_step" where
  "buildPortfolioRiskStep a =
     \<lparr>bs_source = ''portfolio_risk'', bs_action = (if fle (f64_const (8 / 10)) (pa_score a) then ''escalate'' else ''no_change''),
      bs_confidence = (if fle (f64_const (8 / 10)) (pa_score a) \<or> fle (Fin (1 / 2)) (pa_score a) then pa_score a
        else fsub (Fin 1) (pa_score a))\<rparr>"

definition macro_step :: "drawdown_decision \<Rightarrow> breakdown_step" where
  "macro_step d = \<lparr>bs_source = ''macro'', bs_action = action_name (dd_action d), bs_confidence = Fin 1\<rparr>"

text \<open>The step of the structural override prints the name of the dominant trend.\<close>

definition structural_step :: "drawdown_decision \<Rightarrow> structural_assessment option \<Rightarrow> breakdown_step option" where
  "structural_step d structural =
     (case structural of
        Some s \<Rightarrow>
          (if dd_override d
           then (case sa_dominant s of
              None \<Rightarrow> None
            | Some t \<Rightarrow> Some \<lparr>bs_source = ''structural'', bs_action = ''override_applied'', bs_confidence = sa_score s\<rparr>)
           else Some \<lparr>bs_source = ''structural'', bs_action = ''none'', bs_confidence = Fin 0\<rparr>)
      | None \<Rightarrow> Some \<lparr>bs_source = ''structural'', bs_action = ''none'', bs_confidence = Fin 0\<rparr>)"

definition industry_stage ::
    "drawdown_engine \<Rightarrow> industry_assessment option \<Rightarrow> drawdown_decision \<Rightarrow> drawdown_decision \<times> breakdown_step list" where
  "industry_stage e industry d =
     (case industry of
        Some a \<Rightarrow>
          (if ia_count a > 0
           then (if fle (Fin (1 / 4)) (recessionRatio a) then escalate_decision e d else d, [buildIndustryCycleStep (recessionRatio a)])
           else (d, []))
      | None \<Rightarrow> (d, []))"

definition breakdown_of :: "breakdown_step list \<Rightarrow> drawdown_decision \<Rightarrow> breakdown" where
  "breakdown_of steps d = \<lparr>bd_steps = steps, bd_action = dd_action d, bd_percentage = dd_percentage d, bd_exposure = dd_exposure d\<rparr>"

definition EvaluateWithIndustry ::
    "drawdown_engine \<Rightarrow> macro_assessment \<Rightarrow> structural_assessment option \<Rightarrow> industry_assessment option \<Rightarrow>
     (drawdown_decision \<times> breakdown) option" where
  "EvaluateWithIndustry e macro structural industry =
     (case EvaluateDrawdown e macro structural of
        None \<Rightarrow> None
      | Some d \<Rightarrow>
          (case structural_step d structural of
             None \<Rightarrow> None
           | Some step \<Rightarrow>
               (let (d', steps) = industry_stage e industry d
                in Some (d', breakdown_of (macro_step d # step # steps) d'))))"

text \<open>The provider of the portfolio assessment may be missing, and may answer nothing.\<close>

definition EvaluateWithPortfolio ::
    "drawdown_engine \<Rightarrow> macro_assessment \<Rightarrow> structural_assessment option \<Rightarrow> industry_assessment option \<Rightarrow>
     portfolio_assessment option option \<Rightarrow> (drawdown_decision \<times> breakdown) option" where
  "EvaluateWithPortfolio e macro structural industry provider =
     (case EvaluateWithIndustry e macro structural industry of
        None \<Rightarrow> None
      | Some (d, b) \<Rightarrow>
          (case provider of
             Some (Some a) \<Rightarrow>
               (let d' = (if fle (f64_const (8 / 10)) (pa_score a) then escalate_decision e d else d)
                in Some (d', breakdown_of (bd_steps b @ [buildPortfolioRiskStep a]) d'))
           | _ \<Rightarrow> Some (d, b)))"

section \<open>The decision grows with the level\<close>

lemma determineAction_mono:
  assumes "MacroRiskGreen \<le> l" "l \<le> l'" "l' \<le> MacroRiskRed"
  shows "determineAction l (canWithstandMacroRisk e l s) \<le> determineAction l' (canWithstandMacroRisk e l' s)"
proof -
  have "l \<in> {0, 1, 2, 3}" "l' \<in> {0, 1, 2, 3}" using assms by (auto simp: macro_levels)
  with assms(2) show ?thesis by (auto simp: determineAction_def action_order macro_levels)
qed

lemma determineAction_at_most_severe: "determineAction l c \<le> DrawdownSevere"
  by (simp add: determineAction_def action_order)

lemma evaluate_action:
  "EvaluateDrawdown e macro s = Some d \<Longrightarrow> dd_action d = determineAction (ma_level macro) (canWithstandMacroRisk e (ma_level macro) s)
     \<and> dd_exposure d = dl_exposure (level_of e (dd_action d))"
  by (auto simp: EvaluateDrawdown_def Let_def split: if_splits option.splits)

text \<open>
  Without a structural assessment the evaluation dereferences nil at the two low levels, where \<open>canWithstandMacroRisk\<close>
  answers before it looks at the assessment, and nowhere else.
\<close>

lemma evaluate_without_trends: "EvaluateDrawdown e macro None = None \<longleftrightarrow> ma_level macro \<le> MacroRiskYellow"
  by (simp add: EvaluateDrawdown_def canWithstandMacroRisk_def Let_def)

lemma evaluate_total: "EvaluateDrawdown e macro (Some s) \<noteq> None"
  by (simp add: EvaluateDrawdown_def Let_def)

text \<open>A level that the configuration does not name closes the book: its ceiling is zero.\<close>

lemma missing_level_closes_book:
  "map_of (dc_levels cfg) (action_name (dd_action d)) = None \<Longrightarrow> EvaluateDrawdown (NewMacroAwareDrawdownEngine cfg) macro s = Some d \<Longrightarrow>
   GetPositionSizeAdjustment d = Fin 0"
  by (auto dest!: evaluate_action simp: level_of_def NewMacroAwareDrawdownEngine_def NewDefaultDrawdownLevels_def GetPositionSizeAdjustment_def)

section \<open>The breakdown explains the action\<close>

definition escalations :: "breakdown_step list \<Rightarrow> nat" where
  "escalations steps = length (filter (\<lambda>s. bs_action s = ''escalate'') steps)"

lemma escalations_append [simp]: "escalations (xs @ ys) = escalations xs + escalations ys"
  by (simp add: escalations_def)

definition from_table :: "drawdown_engine \<Rightarrow> drawdown_decision \<Rightarrow> bool" where
  "from_table e d \<longleftrightarrow> dd_percentage d = dl_percentage (level_of e (dd_action d)) \<and> dd_exposure d = dl_exposure (level_of e (dd_action d))"

lemma escalate_decision_facts [simp]:
  "dd_action (escalate_decision e d) = escalateAction (dd_action d)" "from_table e (escalate_decision e d)"
  by (simp_all add: escalate_decision_def from_table_def Let_def)

lemma evaluate_from_table: "EvaluateDrawdown e macro s = Some d \<Longrightarrow> from_table e d"
  by (auto simp: EvaluateDrawdown_def from_table_def Let_def split: if_splits option.splits)

lemma industry_stage_facts:
  assumes "industry_stage e industry d = (d', steps)" "from_table e d"
  shows "dd_action d' = (escalateAction ^^ escalations steps) (dd_action d) \<and> from_table e d'"
  using assms by (auto simp: industry_stage_def buildIndustryCycleStep_def escalations_def split: option.splits if_splits)

lemma first_steps_do_not_escalate:
  "structural_step d s = Some st \<Longrightarrow> escalations [macro_step d, st] = 0"
proof -
  assume "structural_step d s = Some st"
  then have "bs_action st \<noteq> ''escalate''" by (auto simp: structural_step_def split: option.splits if_splits)
  moreover have "action_name a \<noteq> ''escalate''" for a by (cases a) simp_all
  ultimately show ?thesis by (simp add: escalations_def macro_step_def)
qed

lemma with_industry_cases:
  assumes "EvaluateWithIndustry e macro s industry = Some (d, b)"
  shows "\<exists>d0 st steps. EvaluateDrawdown e macro s = Some d0 \<and> structural_step d0 s = Some st \<and> industry_stage e industry d0 = (d, steps)
    \<and> b = breakdown_of (macro_step d0 # st # steps) d"
  using assms by (auto simp: EvaluateWithIndustry_def split: option.splits prod.splits)

lemma with_industry_explained:
  assumes "EvaluateWithIndustry e macro s industry = Some (d, b)"
  shows "\<exists>d0. EvaluateDrawdown e macro s = Some d0 \<and> bs_action (hd (bd_steps b)) = action_name (dd_action d0) \<and> bd_steps b \<noteq> []
    \<and> dd_action d = (escalateAction ^^ escalations (bd_steps b)) (dd_action d0) \<and> from_table e d
    \<and> bd_action b = dd_action d \<and> bd_exposure b = dd_exposure d"
proof -
  obtain d0 st steps where d0: "EvaluateDrawdown e macro s = Some d0" and st: "structural_step d0 s = Some st"
    and stage: "industry_stage e industry d0 = (d, steps)" and b: "b = breakdown_of (macro_step d0 # st # steps) d"
    using with_industry_cases[OF assms] by auto
  have "escalations (bd_steps b) = escalations steps"
    using first_steps_do_not_escalate[OF st] escalations_append[of "[macro_step d0, st]" steps] by (simp add: b breakdown_of_def)
  with industry_stage_facts[OF stage evaluate_from_table[OF d0]] d0 show ?thesis by (simp add: b breakdown_of_def macro_step_def)
qed

lemma escalations_step: "escalations [buildPortfolioRiskStep a] = (if fle (f64_const (8 / 10)) (pa_score a) then 1 else 0)"
  by (simp add: escalations_def buildPortfolioRiskStep_def)

lemma with_portfolio_cases:
  assumes "EvaluateWithPortfolio e macro s industry provider = Some (d, b)" "EvaluateWithIndustry e macro s industry = Some (d1, b1)"
  shows "(d = d1 \<and> b = b1) \<or> (\<exists>a. d = (if fle (f64_const (8 / 10)) (pa_score a) then escalate_decision e d1 else d1)
    \<and> b = breakdown_of (bd_steps b1 @ [buildPortfolioRiskStep a]) d)"
  using assms by (auto simp: EvaluateWithPortfolio_def Let_def split: option.splits)

text \<open>
  The breakdown that is returned with a decision explains it: its first step names the action of the plain
  evaluation, which is never an emergency, every step that says \<open>escalate\<close> raises the action by one grade, and the
  percentage and the ceiling are those of the table for the final action.
\<close>

theorem breakdown_explains_action:
  assumes "EvaluateWithPortfolio e macro s industry provider = Some (d, b)"
  shows "\<exists>d0. EvaluateDrawdown e macro s = Some d0 \<and> dd_action d0 \<le> DrawdownSevere
    \<and> bs_action (hd (bd_steps b)) = action_name (dd_action d0)
    \<and> dd_action d = (escalateAction ^^ escalations (bd_steps b)) (dd_action d0)
    \<and> dd_exposure d = dl_exposure (level_of e (dd_action d)) \<and> bd_action b = dd_action d \<and> bd_exposure b = dd_exposure d"
proof -
  obtain d1 b1 where one: "EvaluateWithIndustry e macro s industry = Some (d1, b1)"
    using assms by (auto simp: EvaluateWithPortfolio_def split: option.splits)
  obtain d0 where d0: "EvaluateDrawdown e macro s = Some d0" "bs_action (hd (bd_steps b1)) = action_name (dd_action d0)"
      "bd_steps b1 \<noteq> []" "dd_action d1 = (escalateAction ^^ escalations (bd_steps b1)) (dd_action d0)" "from_table e d1"
      "bd_action b1 = dd_action d1" "bd_exposure b1 = dd_exposure d1"
    using with_industry_explained[OF one] by auto
  have grade: "dd_action d0 \<le> DrawdownSevere" using evaluate_action[OF d0(1)] determineAction_at_most_severe by simp
  from with_portfolio_cases[OF assms one] show ?thesis
  proof
    assume "d = d1 \<and> b = b1"
    with d0 grade show ?thesis by (auto simp: from_table_def)
  next
    assume "\<exists>a. d = (if fle (f64_const (8 / 10)) (pa_score a) then escalate_decision e d1 else d1)
      \<and> b = breakdown_of (bd_steps b1 @ [buildPortfolioRiskStep a]) d"
    then obtain a where d: "d = (if fle (f64_const (8 / 10)) (pa_score a) then escalate_decision e d1 else d1)"
      and b: "b = breakdown_of (bd_steps b1 @ [buildPortfolioRiskStep a]) d" by blast
    have "from_table e d" using d d0(5) by simp
    moreover have "dd_action d = (escalateAction ^^ escalations (bd_steps b)) (dd_action d0)"
      using d0(4) by (simp add: d b breakdown_of_def escalations_step)
    moreover have "hd (bd_steps b) = hd (bd_steps b1)" using d0(3) by (simp add: b breakdown_of_def)
    moreover have "bd_action b = dd_action d" "bd_exposure b = dd_exposure d" by (simp_all add: b breakdown_of_def)
    ultimately show ?thesis using d0(1,2) grade by (intro exI[of _ d0]) (simp add: from_table_def)
  qed
qed

definition demo_levels :: "(string \<times> drawdown_level) list" where
  "demo_levels =
     [(''none'', \<lparr>dl_percentage = Fin 0, dl_exposure = Fin 1\<rparr>), (''light'', \<lparr>dl_percentage = Fin (1 / 8), dl_exposure = Fin (7 / 8)\<rparr>),
      (''moderate'', \<lparr>dl_percentage = Fin (3 / 8), dl_exposure = Fin (5 / 8)\<rparr>),
      (''severe'', \<lparr>dl_percentage = Fin (3 / 4), dl_exposure = Fin (1 / 4)\<rparr>),
      (''emergency'', \<lparr>dl_percentage = Fin (7 / 8), dl_exposure = Fin (1 / 8)\<rparr>)]"

definition demo_drawdown_config :: drawdown_config where
  "demo_drawdown_config = \<lparr>dc_levels = demo_levels, dc_orange = Fin (1 / 2), dc_red = Fin (3 / 4),
     dc_risk_off = [], dc_carry = [], dc_rotation = []\<rparr>"

definition demo_macro :: "macro_level \<Rightarrow> macro_assessment" where
  "demo_macro l = \<lparr>ma_level = l, ma_outflow = Fin 10, ma_flow = ''mixed'', ma_favored = [], ma_avoided = [], ma_override = False,
     ma_confidence = Fin 1, ma_crisis = False\<rparr>"

text \<open>A red level without a trend, thirty percent of the industries in recession, and no portfolio assessment: an emergency.\<close>

definition demo_outcome :: "(drawdown_decision \<times> breakdown) option" where
  "demo_outcome = EvaluateWithPortfolio (NewMacroAwareDrawdownEngine demo_drawdown_config) (demo_macro MacroRiskRed) None
     (Some \<lparr>ia_count = 4, ia_recession = 2, ia_expansion = 0, ia_cycle_score = Fin 0\<rparr>) None"

lemma demo_emergency: "map_option (\<lambda>(d, b). (dd_action d, dd_exposure d)) demo_outcome = Some (DrawdownEmergency, Fin (1 / 8))"
  using rnd_dyadic[of 1 1]
  by (simp add: demo_outcome_def EvaluateWithPortfolio_def EvaluateWithIndustry_def EvaluateDrawdown_def canWithstandMacroRisk_def
      determineAction_def macro_levels demo_macro_def structural_step_def industry_stage_def recessionRatio_def f64_int escalate_decision_def
      level_of_def NewMacroAwareDrawdownEngine_def NewDefaultDrawdownLevels_def demo_drawdown_config_def demo_levels_def Let_def)

lemma breakdown_explains_action_witness:
  "\<exists>d b. \<exists>d0 :: drawdown_decision. demo_outcome = Some (d, b) \<and> dd_action d0 \<le> DrawdownSevere \<and>
     DrawdownEmergency = (escalateAction ^^ escalations (bd_steps b)) (dd_action d0)"
proof -
  obtain d b where o: "demo_outcome = Some (d, b)" "dd_action d = DrawdownEmergency" using demo_emergency by (cases demo_outcome) auto
  from breakdown_explains_action[OF o(1)[unfolded demo_outcome_def]] obtain d0 :: drawdown_decision
    where "dd_action d0 \<le> DrawdownSevere" "dd_action d = (escalateAction ^^ escalations (bd_steps b)) (dd_action d0)"
    by blast
  with o show ?thesis by (intro exI[of _ d] exI[of _ b] exI[of _ d0]) simp
qed

section \<open>The ceiling falls with the volatility index\<close>

lemma assessed_level_range: "MacroRiskGreen \<le> ma_level (AssessMacro cfg m) \<and> ma_level (AssessMacro cfg m) \<le> MacroRiskRed"
  using level_range[of "evaluateRiskFactors cfg m"] by (simp add: AssessMacro_def Let_def case_prod_beta macro_levels)

definition falling_levels :: "drawdown_engine \<Rightarrow> bool" where
  "falling_levels e \<longleftrightarrow> sorted_wrt (\<lambda>a b. fle (dl_exposure (level_of e b)) (dl_exposure (level_of e a)))
     [DrawdownNone, DrawdownLight, DrawdownModerate, DrawdownSevere, DrawdownEmergency]"

lemma falling_levels_le:
  "falling_levels e \<Longrightarrow> a < b \<Longrightarrow> fle (dl_exposure (level_of e b)) (dl_exposure (level_of e a))"
  by (cases a; cases b) (simp_all add: falling_levels_def action_order)

text \<open>
  C22 (bounds). With a table of levels whose ceilings fall, a higher volatility index never raises the exposure ceiling: all other
  readings and the structural trends being equal, the ceiling of the new decision is the old one or a lower one.
\<close>

theorem higher_vix_never_raises_ceiling:
  assumes "falling_levels e" "fle (mp_value (md_vix m)) v"
    and "EvaluateDrawdown e (AssessMacro cfg m) s = Some d" "EvaluateDrawdown e (AssessMacro cfg (with_vix v m)) s = Some d'"
  shows "GetPositionSizeAdjustment d' = GetPositionSizeAdjustment d \<or> fle (GetPositionSizeAdjustment d') (GetPositionSizeAdjustment d)"
proof -
  have "dd_action d \<le> dd_action d'"
    using evaluate_action[OF assms(3)] evaluate_action[OF assms(4)] higher_vix_never_lowers_level[OF assms(2), of cfg]
      assessed_level_range[of cfg m] assessed_level_range[of cfg "with_vix v m"] by (simp add: determineAction_mono)
  then consider "dd_action d' = dd_action d" | "dd_action d < dd_action d'" by force
  then show ?thesis
  proof cases
    case 1
    then show ?thesis using evaluate_action[OF assms(3)] evaluate_action[OF assms(4)] by (simp add: GetPositionSizeAdjustment_def)
  next
    case 2
    from falling_levels_le[OF assms(1) this] show ?thesis
      using evaluate_action[OF assms(3)] evaluate_action[OF assms(4)] by (simp add: GetPositionSizeAdjustment_def)
  qed
qed

definition quiet_trends :: structural_assessment where
  "quiet_trends = AssessTrends (demo_sectors (Fin 10) (Fin 50) (Fin 0))"

lemma higher_vix_never_raises_ceiling_witness:
  "\<exists>d d'. EvaluateDrawdown (NewMacroAwareDrawdownEngine demo_drawdown_config) (AssessMacro demo_macro_config demo_quiet) (Some quiet_trends) = Some d
     \<and> EvaluateDrawdown (NewMacroAwareDrawdownEngine demo_drawdown_config) (AssessMacro demo_macro_config (with_vix (Fin 40) demo_quiet)) (Some quiet_trends) = Some d'
     \<and> (GetPositionSizeAdjustment d' = GetPositionSizeAdjustment d \<or> fle (GetPositionSizeAdjustment d') (GetPositionSizeAdjustment d))"
proof -
  let ?e = "NewMacroAwareDrawdownEngine demo_drawdown_config" and ?s = "Some quiet_trends"
  obtain d d' where d: "EvaluateDrawdown ?e (AssessMacro demo_macro_config demo_quiet) ?s = Some d"
    "EvaluateDrawdown ?e (AssessMacro demo_macro_config (with_vix (Fin 40) demo_quiet)) ?s = Some d'"
    using evaluate_total by (metis option.exhaust)
  have "falling_levels ?e"
    by (simp add: falling_levels_def level_of_def NewMacroAwareDrawdownEngine_def NewDefaultDrawdownLevels_def demo_drawdown_config_def demo_levels_def)
  moreover have "fle (mp_value (md_vix demo_quiet)) (Fin 40)" by (simp add: demo_quiet_def)
  ultimately show ?thesis using higher_vix_never_raises_ceiling[OF _ _ d] d by blast
qed

end
