(* ===== verification/Strategy_Evolver.thy ===== *)
theory Strategy_Evolver
  imports Risk_Drawdown
begin

text \<open>
  The strategy state that follows the drawdown decision (\<open>orchestrator/strategy_evolver.go\<close>): five states, a cooldown between
  moves, and moves that are exempt from it.  The reasons are texts and left out; that a reason is built from the structural
  assessment, which may be nil, is kept as the result \<open>None\<close>.
\<close>

section \<open>States\<close>

datatype strategy_state = StrategyNormal | StrategyCautious | StrategyDefensive | StrategyHedged | StrategySuspended

fun state_number :: "strategy_state \<Rightarrow> int" where
  "state_number StrategyNormal = 0"
| "state_number StrategyCautious = 1"
| "state_number StrategyDefensive = 2"
| "state_number StrategyHedged = 3"
| "state_number StrategySuspended = 4"

record strategy_evolution =
  ev_from :: strategy_state
  ev_to :: strategy_state
  ev_at :: time

record strategy_evolver =
  se_history :: "strategy_evolution list"
  se_current :: strategy_state
  se_last :: time
  se_cooldown :: duration

text \<open>\<open>GetCooldownDuration\<close> multiplies the hours of the configuration, wrapping around.\<close>

definition NewStrategyEvolver :: "int \<Rightarrow> strategy_evolver" where
  "NewStrategyEvolver hours =
     \<lparr>se_history = [], se_current = StrategyNormal, se_last = zero_time, se_cooldown = wrap64 (hours * hour)\<rparr>"

definition ResetEvolver :: "strategy_evolver \<Rightarrow> strategy_evolver" where
  "ResetEvolver e = e\<lparr>se_history := [], se_current := StrategyNormal, se_last := zero_time\<rparr>"

definition state_for_level :: "macro_level \<Rightarrow> strategy_state" where
  "state_for_level l =
     (if l = MacroRiskGreen then StrategyNormal
      else if l = MacroRiskYellow then StrategyCautious
      else if l = MacroRiskOrange then StrategyDefensive
      else if l = MacroRiskRed then StrategyDefensive
      else StrategyNormal)"

definition determineState ::
    "macro_assessment \<Rightarrow> structural_assessment option \<Rightarrow> drawdown_decision \<Rightarrow> strategy_state option" where
  "determineState macro structural drawdown =
     (if DrawdownSevere \<le> dd_action drawdown then Some StrategySuspended
      else if MacroRiskOrange \<le> ma_level macro then
        (case structural of
           None \<Rightarrow> None
         | Some s \<Rightarrow> Some (if sa_override s then StrategyHedged else state_for_level (ma_level macro)))
      else Some (state_for_level (ma_level macro)))"

definition isEmergencyEscalation :: "strategy_state \<Rightarrow> drawdown_decision \<Rightarrow> strategy_evolver \<Rightarrow> bool" where
  "isEmergencyEscalation new drawdown e \<longleftrightarrow>
     new = StrategySuspended \<or> DrawdownSevere \<le> dd_action drawdown \<or> 2 \<le> \<bar>state_number new - state_number (se_current e)\<bar>"

text \<open>The three readings of the clock: for the cooldown, for the record, and for the start of the next cooldown.\<close>

record clock =
  ck_check :: time
  ck_record :: time
  ck_start :: time

definition EvaluateStrategy ::
    "clock \<Rightarrow> macro_assessment \<Rightarrow> structural_assessment option \<Rightarrow> drawdown_decision option \<Rightarrow> strategy_evolver \<Rightarrow>
     (strategy_evolution option \<times> strategy_evolver) option" where
  "EvaluateStrategy ck macro structural drawdown e =
     (case drawdown of
        None \<Rightarrow> None
      | Some dd \<Rightarrow>
          (case determineState macro structural dd of
             None \<Rightarrow> None
           | Some new \<Rightarrow>
               (if new = se_current e then Some (None, e)
                else if time_sub (ck_check ck) (se_last e) < se_cooldown e \<and> \<not> isEmergencyEscalation new dd e then Some (None, e)
                else (case structural of
                  None \<Rightarrow> None
                | Some s \<Rightarrow>
                    (let ev = \<lparr>ev_from = se_current e, ev_to = new, ev_at = ck_record ck\<rparr>
                     in Some (Some ev, e\<lparr>se_history := se_history e @ [ev], se_current := new, se_last := ck_start ck\<rparr>))))))"

section \<open>The parameters of a state\<close>

record strategy_config =
  st_position :: f64
  st_sector :: f64
  st_cash :: f64
  st_hedge :: f64
  st_new :: bool
  st_concentration :: bool

definition percent :: "int \<Rightarrow> f64" where
  "percent n = f64_const (of_int n / 100)"

definition GetStrategyConfig :: "strategy_evolver \<Rightarrow> strategy_config" where
  "GetStrategyConfig e =
     (case se_current e of
        StrategyNormal \<Rightarrow> \<lparr>st_position = percent 15, st_sector = percent 30, st_cash = percent 5, st_hedge = Fin 0, st_new = True, st_concentration = True\<rparr>
      | StrategyCautious \<Rightarrow> \<lparr>st_position = percent 12, st_sector = percent 25, st_cash = percent 10, st_hedge = percent 10, st_new = True, st_concentration = False\<rparr>
      | StrategyDefensive \<Rightarrow> \<lparr>st_position = percent 8, st_sector = percent 20, st_cash = percent 20, st_hedge = percent 20, st_new = False, st_concentration = False\<rparr>
      | StrategyHedged \<Rightarrow> \<lparr>st_position = percent 10, st_sector = percent 25, st_cash = percent 15, st_hedge = percent 30, st_new = True, st_concentration = False\<rparr>
      | StrategySuspended \<Rightarrow> \<lparr>st_position = Fin 0, st_sector = Fin 0, st_cash = Fin 1, st_hedge = Fin 0, st_new = False, st_concentration = False\<rparr>)"

definition ShouldEnterPosition :: "strategy_evolver \<Rightarrow> bool" where
  "ShouldEnterPosition e \<longleftrightarrow> st_new (GetStrategyConfig e)"

definition GetPositionSizeLimit :: "strategy_evolver \<Rightarrow> f64" where
  "GetPositionSizeLimit e = st_position (GetStrategyConfig e)"

section \<open>Runs\<close>

text \<open>The evaluations after the sessions of a run, one after the other; \<open>None\<close> when one of them panics.\<close>

type_synonym strategy_input = "clock \<times> macro_assessment \<times> structural_assessment option \<times> drawdown_decision option"

fun evolve_all :: "strategy_input list \<Rightarrow> strategy_evolver \<Rightarrow> strategy_evolver option" where
  "evolve_all [] e = Some e"
| "evolve_all ((ck, macro, structural, drawdown) # is) e =
     (case EvaluateStrategy ck macro structural drawdown e of None \<Rightarrow> None | Some (_, e') \<Rightarrow> evolve_all is e')"

lemma evaluate_cases:
  assumes "EvaluateStrategy ck macro structural drawdown e = Some (r, e')"
  obtains (stay) "r = None" "e' = e"
  | (move) new dd where "drawdown = Some dd" "determineState macro structural dd = Some new" "new \<noteq> se_current e"
      "time_sub (ck_check ck) (se_last e) \<ge> se_cooldown e \<or> isEmergencyEscalation new dd e"
      "r = Some \<lparr>ev_from = se_current e, ev_to = new, ev_at = ck_record ck\<rparr>"
      "e' = e\<lparr>se_history := se_history e @ [\<lparr>ev_from = se_current e, ev_to = new, ev_at = ck_record ck\<rparr>], se_current := new, se_last := ck_start ck\<rparr>"
proof (cases drawdown)
  case (Some dd)
  show thesis
  proof (cases "determineState macro structural dd")
    case state: (Some new)
    show thesis
    proof (cases "new = se_current e \<or> time_sub (ck_check ck) (se_last e) < se_cooldown e \<and> \<not> isEmergencyEscalation new dd e")
      case True
      with assms Some state have "r = None" "e' = e" by (auto simp: EvaluateStrategy_def split: if_splits)
      then show thesis by (rule stay)
    next
      case False
      with assms Some state obtain s where "structural = Some s" by (cases structural) (auto simp: EvaluateStrategy_def)
      with assms Some state False show thesis by (intro move[of dd new]) (auto simp: EvaluateStrategy_def Let_def not_less)
    qed
  qed (use assms Some in \<open>simp add: EvaluateStrategy_def\<close>)
qed (use assms in \<open>simp add: EvaluateStrategy_def\<close>)

text \<open>An emergency is a state: with a severe drawdown the new state is the suspension.\<close>

lemma emergency_cases:
  "determineState macro structural dd = Some new \<Longrightarrow>
   isEmergencyEscalation new dd e \<longleftrightarrow> new = StrategySuspended \<or> 2 \<le> \<bar>state_number new - state_number (se_current e)\<bar>"
  by (auto simp: determineState_def isEmergencyEscalation_def split: if_splits option.splits)

text \<open>What a history must look like: linked moves that end in the current state, and moves within the cooldown are emergencies.\<close>

definition urgent :: "strategy_evolution \<Rightarrow> bool" where
  "urgent ev \<longleftrightarrow> ev_to ev = StrategySuspended \<or> 2 \<le> \<bar>state_number (ev_to ev) - state_number (ev_from ev)\<bar>"

fun linked :: "strategy_state \<Rightarrow> strategy_evolution list \<Rightarrow> strategy_state \<Rightarrow> bool" where
  "linked s [] t \<longleftrightarrow> s = t"
| "linked s (ev # evs) t \<longleftrightarrow> ev_from ev = s \<and> ev_to ev \<noteq> s \<and> linked (ev_to ev) evs t"

fun spaced :: "duration \<Rightarrow> strategy_evolution list \<Rightarrow> bool" where
  "spaced c (ev # ev' # evs) \<longleftrightarrow> (ev_at ev + c \<le> ev_at ev' \<or> urgent ev') \<and> spaced c (ev' # evs)"
| "spaced c _ \<longleftrightarrow> True"

lemma linked_snoc: "linked s (evs @ [ev]) t \<longleftrightarrow> linked s evs (ev_from ev) \<and> ev_to ev \<noteq> ev_from ev \<and> ev_to ev = t"
  by (induction evs arbitrary: s) auto

lemma spaced_snoc:
  "spaced c (evs @ [ev]) \<longleftrightarrow> spaced c evs \<and> (evs \<noteq> [] \<longrightarrow> ev_at (List.last evs) + c \<le> ev_at ev \<or> urgent ev)"
  by (induction c evs rule: spaced.induct) auto

text \<open>The clock does not run backwards during an evaluation.\<close>

definition ticking :: "clock \<Rightarrow> bool" where
  "ticking ck \<longleftrightarrow> ck_check ck \<le> ck_record ck \<and> ck_record ck \<le> ck_start ck"

definition evolver_ok :: "strategy_evolver \<Rightarrow> bool" where
  "evolver_ok e \<longleftrightarrow> linked StrategyNormal (se_history e) (se_current e) \<and> spaced (se_cooldown e) (se_history e) \<and>
     (se_history e \<noteq> [] \<longrightarrow> ev_at (List.last (se_history e)) \<le> se_last e) \<and> 0 \<le> se_cooldown e"

lemma cooldown_over: "0 \<le> c \<Longrightarrow> c \<le> time_sub a b \<Longrightarrow> b + c \<le> a"
  by (auto simp: time_sub_def i64_min_def)

lemma evaluate_keeps_ok:
  assumes "evolver_ok e" "EvaluateStrategy ck macro structural drawdown e = Some (r, e')" "ticking ck"
  shows "evolver_ok e' \<and> se_cooldown e' = se_cooldown e"
  using assms(2)
proof (cases rule: evaluate_cases)
  case (move new dd)
  let ?ev = "\<lparr>ev_from = se_current e, ev_to = new, ev_at = ck_record ck\<rparr>"
  have "ev_at (List.last (se_history e)) + se_cooldown e \<le> ck_record ck \<or> urgent ?ev" if "se_history e \<noteq> []"
  proof (cases "urgent ?ev")
    case False
    then have "\<not> isEmergencyEscalation new dd e" using emergency_cases[OF move(2)] by (simp add: urgent_def)
    with move(4) assms(1) have "se_last e + se_cooldown e \<le> ck_check ck" by (intro cooldown_over) (simp_all add: evolver_ok_def)
    with assms(1,3) that show ?thesis by (simp add: evolver_ok_def ticking_def)
  qed simp
  then show ?thesis using assms(1,3) move by (auto simp: evolver_ok_def linked_snoc spaced_snoc urgent_def ticking_def)
qed (use assms(1) in simp)

lemma run_keeps_ok:
  assumes "evolver_ok e" "evolve_all is e = Some e'" "list_all (\<lambda>i. ticking (fst i)) is"
  shows "evolver_ok e' \<and> se_cooldown e' = se_cooldown e"
  using assms
proof (induction "is" arbitrary: e)
  case (Cons i "is")
  obtain ck macro structural drawdown where i: "i = (ck, macro, structural, drawdown)" by (cases i) auto
  then obtain r e1 where step: "EvaluateStrategy ck macro structural drawdown e = Some (r, e1)" "evolve_all is e1 = Some e'"
    using Cons.prems(2) by (auto split: option.splits)
  from evaluate_keeps_ok[OF Cons.prems(1) step(1)] Cons.prems(3) i have "evolver_ok e1" "se_cooldown e1 = se_cooldown e" by auto
  with Cons.IH[OF _ step(2)] Cons.prems(3) show ?case by simp
qed simp

text \<open>
  C23 (invariant). After any evaluations that return, the history of the strategy is a chain of moves from the normal state
  to the current one, and a move that comes less than the cooldown after its predecessor goes to the suspension or across at least
  two states.
\<close>

theorem strategy_history_is_spaced:
  assumes "evolve_all is (NewStrategyEvolver hours) = Some e" "0 \<le> wrap64 (hours * hour)" "list_all (\<lambda>i. ticking (fst i)) is"
  shows "linked StrategyNormal (se_history e) (se_current e) \<and> spaced (wrap64 (hours * hour)) (se_history e)"
proof -
  have "evolver_ok (NewStrategyEvolver hours)" using assms(2) by (simp add: evolver_ok_def NewStrategyEvolver_def)
  from run_keeps_ok[OF this assms(1,3)] show ?thesis by (auto simp: evolver_ok_def NewStrategyEvolver_def)
qed

text \<open>A severe drawdown suspends the strategy at once, whatever the cooldown and the structural trend.\<close>

lemma severe_suspends:
  assumes "DrawdownSevere \<le> dd_action dd"
  shows "map_option (\<lambda>(r, e'). se_current e') (EvaluateStrategy ck macro (Some s) (Some dd) e) = Some StrategySuspended"
  using assms by (auto simp: EvaluateStrategy_def determineState_def isEmergencyEscalation_def Let_def)

text \<open>
  The suspension ends as fast as it comes: the distance between the states counts in both directions, so that a return from the
  suspension to the normal, the cautious or the defensive state ignores the cooldown too.
\<close>

lemma suspension_ends_at_once:
  assumes "se_current e = StrategySuspended" "dd_action dd < DrawdownSevere" "\<not> sa_override s"
  shows "map_option (\<lambda>(r, e'). se_current e') (EvaluateStrategy ck macro (Some s) (Some dd) e) = Some (state_for_level (ma_level macro))"
proof -
  have "state_for_level l \<noteq> StrategySuspended" "2 \<le> \<bar>state_number (state_for_level l) - 4\<bar>" for l
    by (simp_all add: state_for_level_def)
  then show ?thesis using assms by (simp add: EvaluateStrategy_def determineState_def isEmergencyEscalation_def Let_def not_le[symmetric])
qed

section \<open>Example\<close>

definition demo_decision :: "drawdown_action \<Rightarrow> drawdown_decision" where
  "demo_decision a = \<lparr>dd_action = a, dd_percentage = Fin 0, dd_exposure = Fin 1, dd_override = False\<rparr>"

definition no_trends :: structural_assessment where
  "no_trends = \<lparr>sa_trends = [], sa_dominant = None, sa_score = Fin 0, sa_override = False\<rparr>"

definition demo_clock :: "time \<Rightarrow> clock" where
  "demo_clock t = \<lparr>ck_check = t, ck_record = t, ck_start = t\<rparr>"

definition demo_flapping :: "strategy_input list" where
  "demo_flapping =
     [(demo_clock 0, demo_macro MacroRiskRed, Some no_trends, Some (demo_decision DrawdownSevere)),
      (demo_clock 1, demo_macro MacroRiskGreen, Some no_trends, Some (demo_decision DrawdownNone)),
      (demo_clock 2, demo_macro MacroRiskYellow, Some no_trends, Some (demo_decision DrawdownLight)),
      (demo_clock 3, demo_macro MacroRiskOrange, Some no_trends, Some (demo_decision DrawdownModerate))]"

definition demo_flapped :: strategy_evolver where
  "demo_flapped = \<lparr>se_history = [\<lparr>ev_from = StrategyNormal, ev_to = StrategySuspended, ev_at = 0\<rparr>,
     \<lparr>ev_from = StrategySuspended, ev_to = StrategyNormal, ev_at = 1\<rparr>,
     \<lparr>ev_from = StrategyNormal, ev_to = StrategyDefensive, ev_at = 3\<rparr>], se_current = StrategyDefensive, se_last = 3, se_cooldown = 24 * hour\<rparr>"

text \<open>In three nanoseconds the strategy is suspended, resumed and defensive; only the move to the cautious state waits.\<close>

lemma demo_flapping_run: "evolve_all demo_flapping (NewStrategyEvolver 24) = Some demo_flapped"
  by (simp add: demo_flapping_def demo_flapped_def NewStrategyEvolver_def EvaluateStrategy_def determineState_def isEmergencyEscalation_def
      state_for_level_def demo_clock_def demo_macro_def demo_decision_def no_trends_def macro_levels action_order time_sub_def
      zero_time_def i64_max_def i64_min_def wrap64_def Let_def)

lemma strategy_history_is_spaced_witness: "linked StrategyNormal (se_history demo_flapped) StrategyDefensive \<and> spaced (24 * hour) (se_history demo_flapped)"
proof -
  have w: "wrap64 (24 * hour) = 24 * hour" by (simp add: wrap64_def)
  have "list_all (\<lambda>i. ticking (fst i)) demo_flapping" by (simp add: demo_flapping_def ticking_def demo_clock_def)
  with strategy_history_is_spaced[OF demo_flapping_run] w have
    "linked StrategyNormal (se_history demo_flapped) (se_current demo_flapped) \<and> spaced (24 * hour) (se_history demo_flapped)" by simp
  then show ?thesis by (simp add: demo_flapped_def)
qed

end
