(* ===== verification/Sim_Types.thy ===== *)
theory Sim_Types
  imports Live_Types Tw_Calendar "HOL-Library.Product_Lexorder"
begin

text \<open>
  The data of the simulation engine (\<open>internal/domain/sim.go\<close>, \<open>types.go\<close>, \<open>trade.go\<close>,
  \<open>recommendation/recommendation.go\<close>).

  A recommendation has the fields that the simulation reads; its reasoning texts, supporting events and scores pass through
  unread.  A map from symbols to quotes is an association list with distinct keys in its visiting order.
  The trading day of a run is an instant with the offset of its zone in seconds.
\<close>

section \<open>Recommendations and constraints\<close>

record recommendation =
  rc_agent :: string
  rc_symbol :: string
  rc_side :: string
  rc_conviction :: int
  rc_target :: f64
  rc_stop :: f64
  rc_reason :: string

record constraints =
  sc_starting_cash :: f64
  sc_max_weight :: f64
  sc_max_open :: int
  sc_min_volume :: int
  sc_min_conviction :: int
  sc_require_cro :: bool
  sc_cost_bps :: f64
  sc_discount_bps :: f64
  sc_discount_threshold :: f64
  sc_slippage_bps :: f64
  sc_reserve :: f64
  sc_stop_loss :: f64
  sc_take_profit :: f64
  sc_max_holding :: int

definition SellLogicEnabled :: "constraints \<Rightarrow> bool" where
  "SellLogicEnabled c = True"

section \<open>The state of a run of days\<close>

record locked_cash =
  lc_unlock :: time
  lc_amount :: f64

record sim_state =
  ss_cash :: f64
  ss_positions :: "position list"
  ss_realized :: f64
  ss_starting_cash :: f64
  ss_equity :: "f64 list"
  ss_returns :: "f64 list"
  ss_previous :: "(string \<times> f64) list"
  ss_max_equity :: f64
  ss_drawdown :: f64
  ss_locked :: "locked_cash list"
  ss_last_session :: string
  ss_session_base :: f64

definition NewSimulationState :: "f64 \<Rightarrow> sim_state" where
  "NewSimulationState startingCash =
     \<lparr>ss_cash = startingCash, ss_positions = [], ss_realized = Fin 0, ss_starting_cash = startingCash, ss_equity = [],
      ss_returns = [], ss_previous = [], ss_max_equity = startingCash, ss_drawdown = Fin 0, ss_locked = [],
      ss_last_session = [], ss_session_base = Fin 0\<rparr>"

definition PortfolioValue :: "sim_state \<Rightarrow> f64" where
  "PortfolioValue s = fold (\<lambda>p value. fadd value (market_value p)) (ss_positions s) (ss_cash s)"

definition AvailableCash :: "time \<Rightarrow> sim_state \<Rightarrow> f64" where
  "AvailableCash d s =
     fold (\<lambda>lc available. if d < lc_unlock lc then fsub available (lc_amount lc) else available) (ss_locked s) (ss_cash s)"

text \<open>The layout \<open>2006-01-02\<close>.\<close>

definition show_pad :: "nat \<Rightarrow> int \<Rightarrow> string" where
  "show_pad w n = (let s = show_nat (nat n) in replicate (w - length s) (CHR ''0'') @ s)"

definition format_date :: "int \<Rightarrow> time \<Rightarrow> string" where
  "format_date z t = (case civil (local_day z t) of (y, m, d) \<Rightarrow> show_pad 4 y @ ''-'' @ show_pad 2 m @ ''-'' @ show_pad 2 d)"

definition SessionDateKey :: "int \<Rightarrow> time \<Rightarrow> string" where
  "SessionDateKey z d = (if d = zero_time then [] else format_date z d)"

lemma SessionDateKey_empty: "SessionDateKey z d = [] \<longleftrightarrow> d = zero_time"
  by (simp add: SessionDateKey_def format_date_def split: prod.split)

section \<open>Results\<close>

record trade_record =
  tr_symbol :: string
  tr_side :: string
  tr_quantity :: int
  tr_price :: f64
  tr_amount :: f64
  tr_reason :: string

record day_result =
  dr_regime :: string
  dr_orders :: "order list"
  dr_trades :: "trade_record list"
  dr_positions :: "position list"
  dr_cash :: f64
  dr_value :: f64
  dr_daily_pnl :: f64
  dr_events :: "string list"
  dr_rerun :: bool
  dr_return :: f64
  dr_return_recorded :: bool

section \<open>Quotes by symbol\<close>

type_synonym quote_map = "(string \<times> quote) list"

definition quotes_by_symbol :: "quote list \<Rightarrow> quote_map" where
  "quotes_by_symbol qs = fold (\<lambda>q. AList.update (q_symbol q) q) qs []"

text \<open>The shares of a symbol in a list of positions.\<close>

definition held :: "string \<Rightarrow> position list \<Rightarrow> int" where
  "held y ps = sum_list (map p_quantity (filter (\<lambda>p. p_symbol p = y) ps))"

definition traded :: "string \<Rightarrow> string \<Rightarrow> order list \<Rightarrow> int" where
  "traded side y os = sum_list (map o_quantity (filter (\<lambda>ord. o_symbol ord = y \<and> o_side ord = side) os))"

lemma held_simps [simp]:
  "held y [] = 0" "held y (p # ps) = (if p_symbol p = y then p_quantity p else 0) + held y ps" "held y (ps @ qs) = held y ps + held y qs"
  by (simp_all add: held_def)

lemma traded_simps [simp]:
  "traded side y [] = 0"
  "traded side y (ord # os) = (if o_symbol ord = y \<and> o_side ord = side then o_quantity ord else 0) + traded side y os"
  "traded side y (os @ ps) = traded side y os + traded side y ps"
  by (simp_all add: traded_def)

end
