(* ===== verification/Sim_Costs.thy ===== *)
theory Sim_Costs
  imports Sim_Types
begin

text \<open>
  Slippage, market impact and commission of a simulated trade (\<open>internal/sim/slippage_model.go\<close>).

  A slippage model has no tiers or the three of the market; the code indexes the slice with 0, 1 and 2.  A fallback event is the
  text that the code appends.
\<close>

section \<open>Slippage by liquidity\<close>

record slippage_model =
  sm_tiers :: "(f64 \<times> f64 \<times> f64) option"
  sm_sorted :: "int list"
  sm_boundaries :: "int \<times> int"
  sm_precomputed :: int

definition DefaultSlippageModel :: slippage_model where
  "DefaultSlippageModel = \<lparr>sm_tiers = Some (Fin 5, Fin 15, Fin 50), sm_sorted = [], sm_boundaries = (0, 0), sm_precomputed = 0\<rparr>"

definition positive_volumes :: "quote_map \<Rightarrow> int list" where
  "positive_volumes quotes = filter (\<lambda>v. 0 < v) (map (\<lambda>(i, q). q_volume q) quotes)"

definition Precompute :: "quote_map \<Rightarrow> slippage_model \<Rightarrow> slippage_model" where
  "Precompute quotes sm =
     (let vs = positive_volumes quotes; n = int (length vs)
      in if vs = [] then sm\<lparr>sm_sorted := [], sm_precomputed := 0\<rparr>
         else sm\<lparr>sm_sorted := sort vs, sm_precomputed := int (length quotes),
                 sm_boundaries := (f64_to_i64 (fmul (f64_of_int n) (f64_const (20 / 100))),
                                   f64_to_i64 (fmul (f64_of_int n) (f64_const (80 / 100))))\<rparr>)"

definition count_below :: "int \<Rightarrow> int list \<Rightarrow> int" where
  "count_below v vs = int (length (filter (\<lambda>w. w < v) vs))"

definition volumePercentilePrecomputed :: "int \<Rightarrow> slippage_model \<Rightarrow> f64 \<times> string list" where
  "volumePercentilePrecomputed v sm =
     (if v \<le> 0 \<or> sm_sorted sm = [] then (Fin 0, [''slippage: invalid volume or empty precomputed data, using 0 percentile''])
      else (fdiv (f64_of_int (count_below v (sm_sorted sm))) (f64_of_int (int (length (sm_sorted sm)))), []))"

definition calculateVolumePercentile :: "int \<Rightarrow> quote_map \<Rightarrow> f64 \<times> string list" where
  "calculateVolumePercentile v quotes =
     (if v \<le> 0 then (Fin 0, [''slippage: invalid volume, using 0 percentile''])
      else
        (let vs = positive_volumes quotes
         in if vs = [] then (Fin (1 / 2), [''slippage: no positive volumes in market, using 0.5 percentile''])
            else (fdiv (f64_of_int (count_below v (sort vs))) (f64_of_int (int (length vs))), [])))"

definition CalculateSlippageBPS :: "slippage_model \<Rightarrow> string \<Rightarrow> quote_map \<Rightarrow> f64 \<times> string list" where
  "CalculateSlippageBPS sm y quotes =
     (case sm_tiers sm of
        None \<Rightarrow> (Fin 15, [''slippage: nil model, using 15 BPS default''])
      | Some (liquid, mid, illiquid) \<Rightarrow>
          (case map_of quotes y of
             None \<Rightarrow> (illiquid, [''slippage: missing quote for symbol, using conservative tier''])
           | Some q \<Rightarrow>
               (if q_volume q \<le> 0 then (illiquid, [''slippage: zero/negative volume for symbol, using conservative tier''])
                else
                  (let (percentile, events) =
                         (if sm_precomputed sm = int (length quotes) \<and> 0 < sm_precomputed sm
                          then volumePercentilePrecomputed (q_volume q) sm else calculateVolumePercentile (q_volume q) quotes)
                   in (if fle (f64_const (80 / 100)) percentile then liquid
                       else if fle (f64_const (20 / 100)) percentile then mid else illiquid, events)))))"

definition AdjustPriceForSlippage :: "f64 \<Rightarrow> f64 \<Rightarrow> string \<Rightarrow> f64" where
  "AdjustPriceForSlippage price bps side =
     (if side = SideBuy then fmul price (fadd (Fin 1) (fdiv bps (Fin 10000)))
      else fmul price (fsub (Fin 1) (fdiv bps (Fin 10000))))"

section \<open>Market impact\<close>

record impact_model =
  im_temporary :: f64
  im_permanent :: f64
  im_default_adv :: int

record impact_result =
  ir_temporary :: f64
  ir_permanent :: f64
  ir_total :: f64
  ir_adv_ratio :: f64

definition DefaultMarketImpactModel :: impact_model where
  "DefaultMarketImpactModel = \<lparr>im_temporary = Fin (1 / 2), im_permanent = f64_const (1 / 10), im_default_adv = 1000000\<rparr>"

definition no_impact :: impact_result where
  "no_impact = \<lparr>ir_temporary = Fin 0, ir_permanent = Fin 0, ir_total = Fin 0, ir_adv_ratio = Fin 0\<rparr>"

definition Estimate :: "impact_model option \<Rightarrow> f64 \<Rightarrow> int \<Rightarrow> f64 \<Rightarrow> f64 \<Rightarrow> impact_result" where
  "Estimate model notional adv0 price0 vol0 =
     (case model of
        None \<Rightarrow> no_impact
      | Some m \<Rightarrow>
          (let adv = (if adv0 \<le> 0 then im_default_adv m else adv0);
               price = (if fle price0 (Fin 0) then Fin 100 else price0);
               vol = (if fle vol0 (Fin 0) then f64_const (2 / 100) else vol0);
               shares0 = fdiv notional price;
               shares = (if fle shares0 (Fin 0) then Fin 1 else shares0);
               ratio = fdiv shares (f64_of_int adv);
               root = fsqrt ratio;
               temp = fmul (fmul (fmul (im_temporary m) vol) (Fin 10000)) root;
               perm = fmul (fmul (fmul (im_permanent m) vol) (Fin 10000)) root
           in \<lparr>ir_temporary = temp, ir_permanent = perm, ir_total = fadd temp perm, ir_adv_ratio = ratio\<rparr>))"

section \<open>All-in costs\<close>

record cost_breakdown =
  cb_slippage_bps :: f64
  cb_impact_bps :: f64
  cb_commission_bps :: f64
  cb_total_bps :: f64
  cb_total_pct :: f64
  cb_total_cost :: f64

definition DefaultCommissionBPS :: f64 where
  "DefaultCommissionBPS = Fin (1425 / 100)"

definition DiscountedCommissionBPS :: f64 where
  "DiscountedCommissionBPS = Fin (85 / 10)"

definition IsEligibleForDiscountedCommission :: "f64 \<Rightarrow> f64 \<Rightarrow> bool" where
  "IsEligibleForDiscountedCommission notional threshold = fle threshold notional"

definition CalculateCosts :: "f64 \<Rightarrow> f64 \<Rightarrow> impact_result \<Rightarrow> f64 \<Rightarrow> cost_breakdown" where
  "CalculateCosts notional slippage impact commission0 =
     (let commission = (if fle commission0 (Fin 0) then DefaultCommissionBPS else commission0);
          total = fadd (fadd slippage (ir_total impact)) commission
      in \<lparr>cb_slippage_bps = slippage, cb_impact_bps = ir_total impact, cb_commission_bps = commission, cb_total_bps = total,
          cb_total_pct = fdiv total (Fin 100), cb_total_cost = fdiv (fmul notional total) (Fin 10000)\<rparr>)"

section \<open>The cache of volumes\<close>

text \<open>A cache that was computed on the quotes of the day gives the same slippage as none.\<close>

lemma count_below_sort: "count_below v (sort vs) = count_below v vs"
  by (simp add: count_below_def filter_sort)

lemma precompute_agrees:
  assumes "map_of quotes y = Some q" "0 < q_volume q"
  shows "CalculateSlippageBPS (Precompute quotes sm) y quotes = CalculateSlippageBPS (sm\<lparr>sm_precomputed := 0\<rparr>) y quotes"
proof -
  have "q_volume q \<in> set (positive_volumes quotes)"
    using assms by (auto simp: positive_volumes_def image_iff dest!: map_of_SomeD) force
  then have "positive_volumes quotes \<noteq> []" "quotes \<noteq> []" using assms(1) by auto
  moreover from this have "sort (positive_volumes quotes) \<noteq> []" by (metis length_0_conv length_sort)
  ultimately show ?thesis using assms
    by (simp add: CalculateSlippageBPS_def Precompute_def Let_def volumePercentilePrecomputed_def calculateVolumePercentile_def
        count_below_sort split: option.split)
qed

text \<open>The cache is recognised by the number of quotes alone: another day with as many quotes is priced with the old volumes.\<close>

definition demo_quote :: "string \<Rightarrow> int \<Rightarrow> quote" where
  "demo_quote y v = \<lparr>q_symbol = y, q_last = Fin 100, q_open = Fin 100, q_high = Fin 100, q_low = Fin 100, q_volume = v, q_market = [],
     q_as_of = 0, q_tradable = True, q_source = [], q_complete = None, q_trading_day = None\<rparr>"

lemma tier_bounds: "fle (f64_const (4 / 5)) (Fin 1)" "\<not> fle (f64_const (4 / 5)) (Fin 0)" "\<not> fle (f64_const (1 / 5)) (Fin 0)"
proof -
  have d: "is_f64 (Fin (1 / 8))" using rnd_dyadic[of 1 3] by (simp add: is_f64_def)
  show "fle (f64_const (4 / 5)) (Fin 1)" unfolding f64_const_def by (rule rnd_le) simp_all
  have "fle (Fin (1 / 8)) (f64_const q)" if "1 / 8 \<le> q" for q unfolding f64_const_def by (rule rnd_ge[OF d that])
  then have "\<not> fle (f64_const q) (Fin 0)" if "1 / 8 \<le> q" for q using that fle_trans[of "Fin (1 / 8)" "f64_const q" "Fin 0"] by auto
  then show "\<not> fle (f64_const (4 / 5)) (Fin 0)" "\<not> fle (f64_const (1 / 5)) (Fin 0)" by simp_all
qed

lemma stale_volume_cache:
  "\<exists>yesterday today y.
     fst (CalculateSlippageBPS (Precompute yesterday DefaultSlippageModel) y today) = Fin 5 \<and>
     fst (CalculateSlippageBPS DefaultSlippageModel y today) = Fin 50"
proof -
  let ?yesterday = "[(''2330'', demo_quote ''2330'' 10), (''2317'', demo_quote ''2317'' 20)]"
  let ?today = "[(''2330'', demo_quote ''2330'' 1000), (''2317'', demo_quote ''2317'' 2000)]"
  have "fst (CalculateSlippageBPS (Precompute ?yesterday DefaultSlippageModel) ''2330'' ?today) = Fin 5"
    by (simp add: CalculateSlippageBPS_def Precompute_def positive_volumes_def demo_quote_def DefaultSlippageModel_def
        volumePercentilePrecomputed_def count_below_def f64_int tier_bounds)
  moreover have "fst (CalculateSlippageBPS DefaultSlippageModel ''2330'' ?today) = Fin 50"
    by (simp add: CalculateSlippageBPS_def positive_volumes_def demo_quote_def DefaultSlippageModel_def
        calculateVolumePercentile_def count_below_def f64_int tier_bounds)
  ultimately show ?thesis by blast
qed

end
