(* ===== verification/Sim_Tax.thy ===== *)
theory Sim_Tax
  imports Sim_Costs Risk_PreTrade
begin

text \<open>
  Taxes of a simulated portfolio, round-trip costs and lot sizes (\<open>internal/tax/taiwan_tax.go\<close>, \<open>tax_aware_sizing.go\<close>, the tax data
  of \<open>internal/domain/types.go\<close>).
\<close>

section \<open>Taxes\<close>

record tax_config =
  tx_dividend :: f64
  tx_transaction :: f64
  tx_surcharge :: f64
  tx_include_nhi :: bool

record tax_snapshot =
  tn_symbol :: string
  tn_dividend_rate :: f64
  tn_transaction_rate :: f64
  tn_dividend :: f64
  tn_transaction :: f64
  tn_total :: f64
  tn_after_tax :: f64

definition DefaultTaiwanTaxConfig :: tax_config where
  "DefaultTaiwanTaxConfig =
     \<lparr>tx_dividend = f64_const (28 / 100), tx_transaction = f64_const (3 / 1000), tx_surcharge = f64_const (211 / 10000), tx_include_nhi = True\<rparr>"

definition NHISurchargeRate :: f64 where
  "NHISurchargeRate = f64_const (211 / 10000)"

definition effectiveDividendTaxRate :: "tax_config \<Rightarrow> f64" where
  "effectiveDividendTaxRate c =
     (if tx_include_nhi c then tx_dividend c
      else
        (let surcharge = (if feq (tx_surcharge c) (Fin 0) then NHISurchargeRate else tx_surcharge c);
             rate = fsub (tx_dividend c) surcharge
         in if flt rate (Fin 0) then Fin 0 else rate))"

definition CalculateDividendTax :: "tax_config \<Rightarrow> f64 \<Rightarrow> f64" where
  "CalculateDividendTax c dividend = (if fle dividend (Fin 0) then Fin 0 else fmul dividend (effectiveDividendTaxRate c))"

definition CalculateTransactionTax :: "tax_config \<Rightarrow> f64 \<Rightarrow> f64" where
  "CalculateTransactionTax c notional = (if fle notional (Fin 0) then Fin 0 else fmul notional (tx_transaction c))"

text \<open>The computation that both variants share.\<close>

definition taxed_position :: "tax_config \<Rightarrow> position \<Rightarrow> f64 \<Rightarrow> f64 \<Rightarrow> tax_snapshot" where
  "taxed_position c pos sellPrice dividend =
     (let divTax = CalculateDividendTax c dividend;
          txnTax = CalculateTransactionTax c (fmul (f64_of_int (p_quantity pos)) sellPrice);
          total = fadd divTax txnTax;
          unrealized = fmul (f64_of_int (p_quantity pos)) (fsub sellPrice (average_cost pos))
      in \<lparr>tn_symbol = p_symbol pos, tn_dividend_rate = effectiveDividendTaxRate c, tn_transaction_rate = tx_transaction c,
          tn_dividend = divTax, tn_transaction = txnTax, tn_total = total, tn_after_tax = fsub unrealized total\<rparr>)"

definition CalculatePositionTax :: "tax_config \<Rightarrow> position \<Rightarrow> f64 \<Rightarrow> f64 \<Rightarrow> tax_snapshot" where
  "CalculatePositionTax c pos sellPrice dividend =
     (if p_quantity pos \<le> 0 \<or> fle sellPrice (Fin 0)
      then \<lparr>tn_symbol = p_symbol pos, tn_dividend_rate = effectiveDividendTaxRate c, tn_transaction_rate = tx_transaction c,
            tn_dividend = Fin 0, tn_transaction = Fin 0, tn_total = Fin 0, tn_after_tax = Fin 0\<rparr>
      else taxed_position c pos sellPrice dividend)"

datatype tax_error = QuantityMustBePositive int | SellPriceMustBePositive f64

definition CalculatePositionTaxStrict :: "tax_config \<Rightarrow> position \<Rightarrow> f64 \<Rightarrow> f64 \<Rightarrow> tax_error + tax_snapshot" where
  "CalculatePositionTaxStrict c pos sellPrice dividend =
     (if p_quantity pos \<le> 0 then Inl (QuantityMustBePositive (p_quantity pos))
      else if fle sellPrice (Fin 0) then Inl (SellPriceMustBePositive sellPrice)
      else Inr (taxed_position c pos sellPrice dividend))"

definition sell_price :: "(string \<times> f64) list \<Rightarrow> position \<Rightarrow> f64" where
  "sell_price prices pos =
     (let p = amount (p_symbol pos) prices in if fle p (Fin 0) then current_price pos else p)"

definition CalculatePortfolioTax ::
  "tax_config \<Rightarrow> position list \<Rightarrow> (string \<times> f64) list \<Rightarrow> (string \<times> f64) list \<Rightarrow> tax_snapshot list" where
  "CalculatePortfolioTax c ps prices dividends =
     map (\<lambda>pos. CalculatePositionTax c pos (sell_price prices pos) (amount (p_symbol pos) dividends)) ps"

fun CalculatePortfolioTaxStrict ::
  "tax_config \<Rightarrow> position list \<Rightarrow> (string \<times> f64) list \<Rightarrow> (string \<times> f64) list \<Rightarrow> tax_error + tax_snapshot list" where
  "CalculatePortfolioTaxStrict c [] prices dividends = Inr []"
| "CalculatePortfolioTaxStrict c (pos # ps) prices dividends =
     (case CalculatePositionTaxStrict c pos (sell_price prices pos) (amount (p_symbol pos) dividends) of
        Inl e \<Rightarrow> Inl e
      | Inr snap \<Rightarrow> map_sum (\<lambda>e. e) (\<lambda>snaps. snap # snaps) (CalculatePortfolioTaxStrict c ps prices dividends))"

section \<open>Round trips and lots\<close>

record cost_model =
  cm_trading :: f64
  cm_tax :: f64

definition RoundTripCost :: "cost_model \<Rightarrow> f64 \<Rightarrow> f64" where
  "RoundTripCost cm turnover = (if fle turnover (Fin 0) then Fin 0 else fmul turnover (fadd (cm_trading cm) (cm_tax cm)))"

definition NetReturn :: "cost_model \<Rightarrow> f64 \<Rightarrow> f64 \<Rightarrow> f64" where
  "NetReturn cm raw turnover = fsub raw (RoundTripCost cm turnover)"

definition ApplyToSeries :: "cost_model \<Rightarrow> f64 list \<Rightarrow> f64 list \<Rightarrow> f64 list" where
  "ApplyToSeries cm raws turnovers = map (\<lambda>(raw, turnover). NetReturn cm raw turnover) (zip raws turnovers)"

definition TaiwanLotSize :: int where
  "TaiwanLotSize = 1000"

text \<open>\<open>TaxAwareSizer.SizePosition\<close>; the quotient of Go truncates towards zero.\<close>

definition SizePosition :: "tax_config \<Rightarrow> f64 \<Rightarrow> f64 \<Rightarrow> int" where
  "SizePosition c capital price =
     (if fle price (Fin 0) \<or> fle capital (Fin 0) then 0
      else
        (let effective = fdiv capital (fadd (Fin 1) (tx_transaction c));
             shares = f64_to_i64 (fdiv effective price);
             lots = wrap64 (sgn shares * (\<bar>shares\<bar> div TaiwanLotSize) * TaiwanLotSize)
         in if lots < 0 then 0 else lots))"

section \<open>Strict and tolerant taxation\<close>

definition taxable :: "(string \<times> f64) list \<Rightarrow> position \<Rightarrow> bool" where
  "taxable prices pos \<longleftrightarrow> 0 < p_quantity pos \<and> \<not> fle (sell_price prices pos) (Fin 0)"

definition tax_refusal :: "(string \<times> f64) list \<Rightarrow> position \<Rightarrow> tax_error" where
  "tax_refusal prices pos =
     (if p_quantity pos \<le> 0 then QuantityMustBePositive (p_quantity pos) else SellPriceMustBePositive (sell_price prices pos))"

lemma position_tax_strict:
  "CalculatePositionTaxStrict c pos (sell_price prices pos) d =
     (if taxable prices pos then Inr (CalculatePositionTax c pos (sell_price prices pos) d) else Inl (tax_refusal prices pos))"
  by (auto simp: CalculatePositionTaxStrict_def CalculatePositionTax_def taxable_def tax_refusal_def)

text \<open>
  The strict taxation of a portfolio is the tolerant one when every position has shares and a price, and otherwise the
  error of the first position that has not; the tolerant one taxes such a position with zero.
\<close>

theorem strict_tax_agrees:
  "CalculatePortfolioTaxStrict c ps prices dividends =
     (case find (\<lambda>pos. \<not> taxable prices pos) ps of
        None \<Rightarrow> Inr (CalculatePortfolioTax c ps prices dividends)
      | Some pos \<Rightarrow> Inl (tax_refusal prices pos))"
  by (induction ps) (auto simp: position_tax_strict CalculatePortfolioTax_def split: option.split)

lemma untaxable_position:
  "\<not> taxable prices pos \<Longrightarrow> tn_total (CalculatePositionTax c pos (sell_price prices pos) d) = Fin 0"
  by (auto simp: CalculatePositionTax_def taxable_def)

text \<open>A size is a number of whole lots.\<close>

lemma wrap64_shrink: "i64_min \<le> x \<Longrightarrow> x \<le> i64_max \<Longrightarrow> wrap64 (sgn x * (\<bar>x\<bar> div 1000) * 1000) = sgn x * (\<bar>x\<bar> div 1000) * 1000"
proof (rule wrap64_id)
  assume b: "i64_min \<le> x" "x \<le> i64_max"
  have q: "0 \<le> \<bar>x\<bar> div 1000 * 1000" "\<bar>x\<bar> div 1000 * 1000 \<le> \<bar>x\<bar>"
    using minus_mod_eq_div_mult[of "\<bar>x\<bar>" 1000] pos_mod_sign[of 1000 "\<bar>x\<bar>"] by (simp_all add: pos_imp_zdiv_nonneg_iff)
  have e: "sgn x * (\<bar>x\<bar> div 1000) * 1000 = sgn x * (\<bar>x\<bar> div 1000 * 1000)" by (simp only: mult.assoc)
  show "i64_min \<le> sgn x * (\<bar>x\<bar> div 1000) * 1000" "sgn x * (\<bar>x\<bar> div 1000) * 1000 \<le> i64_max"
    unfolding e using b q unfolding i64_min_def i64_max_def by (auto simp: sgn_if)
qed

lemma f64_to_i64_range: "i64_min \<le> f64_to_i64 v \<and> f64_to_i64 v \<le> i64_max"
  by (simp add: f64_to_i64_def Let_def i64_min_def i64_max_def split: f64.split)

lemma size_is_whole_lots: "TaiwanLotSize dvd SizePosition c capital price \<and> 0 \<le> SizePosition c capital price"
  by (simp add: SizePosition_def Let_def TaiwanLotSize_def wrap64_shrink f64_to_i64_range)

lemma series_length: "length (ApplyToSeries cm raws turnovers) = min (length raws) (length turnovers)"
  by (simp add: ApplyToSeries_def)

end
