(* ===== verification/Sim_Rules.thy ===== *)
theory Sim_Rules
  imports Sim_Types
begin

text \<open>
  The feedback rules that adjust recommendations (\<open>internal/reflexivity/concrete_rules.go\<close>) and the dynamic threshold
  (\<open>internal/sim/dynamic_threshold.go\<close>).

  A rule is a constructor with its fields; the streaks of \<open>ReversalDetectionRule\<close> change with every application.  Quotes come
  in the visiting order of the map, on which the sum of \<open>MarketPolicyRule\<close> depends.
\<close>

section \<open>Rules\<close>

datatype reflex_rule =
    PriceToFundamentalsRule
  | PnLBehaviorRule
  | NarrativeFlowsRule int
  | MarketPolicyRule f64
  | ReversalDetectionRule "(string \<times> int) list"

definition NewReversalDetectionRule :: reflex_rule where
  "NewReversalDetectionRule = ReversalDetectionRule []"

definition scaled :: "rat \<Rightarrow> int \<Rightarrow> int" where
  "scaled q n = f64_to_i64 (fmul (f64_of_int n) (f64_const q))"

definition damp :: "rat \<Rightarrow> recommendation \<Rightarrow> recommendation" where
  "damp q rec = rec\<lparr>rc_conviction := max (scaled q (rc_conviction rec)) 0\<rparr>"

definition boost :: "recommendation \<Rightarrow> recommendation" where
  "boost rec = rec\<lparr>rc_conviction := min (scaled (105 / 100) (rc_conviction rec)) 100\<rparr>"

definition day_move :: "quote \<Rightarrow> f64" where
  "day_move q = fdiv (fsub (q_last q) (q_open q)) (q_open q)"

definition opened :: "quote_map \<Rightarrow> quote list" where
  "opened quotes = filter (\<lambda>q. \<not> feq (q_open q) (Fin 0)) (map snd quotes)"

definition crashed :: "quote_map \<Rightarrow> bool" where
  "crashed quotes = list_ex (\<lambda>q. fle (day_move q) (f64_const (- 15 / 100))) (opened quotes)"

definition buys :: "recommendation list \<Rightarrow> recommendation list" where
  "buys recs = filter (\<lambda>rec. rc_side rec = SideBuy) recs"

definition coverage :: "string \<Rightarrow> recommendation list \<Rightarrow> int" where
  "coverage y recs = int (length (filter (\<lambda>rec. rc_symbol rec = y) (buys recs)))"

definition average_move :: "quote_map \<Rightarrow> f64" where
  "average_move quotes =
     fdiv (fold (\<lambda>q total. fadd total (day_move q)) (opened quotes) (Fin 0)) (f64_of_int (int (length (opened quotes))))"

definition count_streak :: "recommendation \<Rightarrow> (string \<times> int) list \<Rightarrow> (string \<times> int) list" where
  "count_streak rec m =
     AList.update (rc_symbol rec) (wrap64 ((case map_of m (rc_symbol rec) of Some n \<Rightarrow> n | None \<Rightarrow> 0) + 1)) m"

definition next_streaks :: "recommendation list \<Rightarrow> (string \<times> int) list \<Rightarrow> (string \<times> int) list" where
  "next_streaks recs m =
     filter (\<lambda>(y, n). y \<in> set (map rc_symbol (buys recs))) (fold count_streak (buys recs) m)"

definition extreme :: "(string \<times> int) list \<Rightarrow> string \<Rightarrow> bool" where
  "extreme m y = (case map_of m y of Some n \<Rightarrow> 5 \<le> n | None \<Rightarrow> False)"

fun ApplyRule :: "reflex_rule \<Rightarrow> recommendation list \<Rightarrow> sim_state \<Rightarrow> quote_map \<Rightarrow> recommendation list \<times> reflex_rule" where
  "ApplyRule PriceToFundamentalsRule recs s quotes =
     (if \<not> crashed quotes then recs else map (damp (95 / 100)) recs, PriceToFundamentalsRule)"
| "ApplyRule PnLBehaviorRule recs s quotes =
     (if fle (ss_drawdown s) (f64_const (10 / 100)) then recs else map (damp (90 / 100)) recs, PnLBehaviorRule)"
| "ApplyRule (NarrativeFlowsRule t) recs s quotes =
     (let threshold = (if t = 0 then 3 else t)
      in (map (\<lambda>rec. if 0 < coverage (rc_symbol rec) recs \<and> threshold \<le> coverage (rc_symbol rec) recs
                     then damp (90 / 100) rec else rec) recs,
          NarrativeFlowsRule t))"
| "ApplyRule (MarketPolicyRule t) recs s quotes =
     (let threshold = (if feq t (Fin 0) then f64_const (3 / 100) else t)
      in (if opened quotes = [] \<or> flt (fneg threshold) (average_move quotes) then recs else map boost recs, MarketPolicyRule t))"
| "ApplyRule (ReversalDetectionRule m) recs s quotes =
     (let m' = next_streaks recs m
      in (map (\<lambda>rec. if extreme m' (rc_symbol rec) then damp (85 / 100) rec else rec) recs, ReversalDetectionRule m'))"

text \<open>The loop of \<open>RunDay\<close>; \<open>visit k\<close> is the order in which the rule number \<open>k\<close> visits the map of quotes.\<close>

fun apply_rules ::
  "(nat \<Rightarrow> quote_map \<Rightarrow> quote_map) \<Rightarrow> reflex_rule list \<Rightarrow> recommendation list \<Rightarrow> sim_state \<Rightarrow> quote_map \<Rightarrow> recommendation list \<times> reflex_rule list" where
  "apply_rules visit [] recs s quotes = (recs, [])"
| "apply_rules visit (r # rs) recs s quotes =
     (let (recs1, r') = ApplyRule r recs s (visit 0 quotes);
          (recs2, rs') = apply_rules (\<lambda>k. visit (Suc k)) rs recs1 s quotes
      in (recs2, r' # rs'))"

section \<open>The dynamic threshold\<close>

datatype regime_type = RegimeBull | RegimeBear | RegimeNeutralType | RegimeHighVol | RegimeOtherType string

record threshold_engine =
  te_base :: f64
  te_min :: f64
  te_max :: f64
  te_multipliers :: "(regime_type \<times> f64) list"
  te_regime :: regime_type
  te_vix :: f64
  te_updates :: int
  te_appetite :: int

definition NewDynamicThresholdEngine :: threshold_engine where
  "NewDynamicThresholdEngine =
     \<lparr>te_base = f64_const (70 / 100), te_min = f64_const (40 / 100), te_max = f64_const (85 / 100),
      te_multipliers = [(RegimeBull, f64_const (- 5 / 100)), (RegimeBear, f64_const (10 / 100)), (RegimeNeutralType, Fin 0),
                        (RegimeHighVol, f64_const (15 / 100))],
      te_regime = RegimeNeutralType, te_vix = Fin 20, te_updates = 0, te_appetite = 2\<rparr>"

definition getAppetiteAdjustment :: "threshold_engine \<Rightarrow> f64" where
  "getAppetiteAdjustment e =
     (if te_appetite e = 1 then f64_const (10 / 100) else if te_appetite e = 3 then f64_const (- 5 / 100) else Fin 0)"

definition GetRegimeMultiplier :: "regime_type \<Rightarrow> threshold_engine \<Rightarrow> f64" where
  "GetRegimeMultiplier r e = (case map_of (te_multipliers e) r of Some v \<Rightarrow> v | None \<Rightarrow> Fin 0)"

definition calculateThreshold :: "f64 \<Rightarrow> regime_type \<Rightarrow> threshold_engine \<Rightarrow> f64" where
  "calculateThreshold vix regime e =
     (let t0 = fadd (fadd (fadd (te_base e) (fdiv (fsub vix (Fin 20)) (Fin 100))) (GetRegimeMultiplier regime e)) (getAppetiteAdjustment e);
          t1 = (if flt t0 (te_min e) then te_min e else t0)
      in if flt (te_max e) t1 then te_max e else t1)"

definition GetThreshold :: "f64 \<Rightarrow> regime_type \<Rightarrow> threshold_engine \<Rightarrow> f64 \<times> threshold_engine" where
  "GetThreshold vix regime e =
     (let e1 = e\<lparr>te_vix := vix, te_regime := regime, te_updates := te_updates e + 1\<rparr> in (calculateThreshold vix regime e1, e1))"

definition GetCurrentThreshold :: "threshold_engine \<Rightarrow> f64" where
  "GetCurrentThreshold e = calculateThreshold (te_vix e) (te_regime e) e"

definition DetectRegime :: "f64 \<Rightarrow> f64 \<Rightarrow> regime_type" where
  "DetectRegime vix trend =
     (if flt (Fin 30) vix then RegimeHighVol
      else if flt (Fin 25) vix \<and> flt trend (Fin 0) then RegimeBear
      else if flt vix (Fin 15) \<and> flt (Fin 0) trend then RegimeBull
      else RegimeNeutralType)"

definition SetBaseThreshold :: "f64 \<Rightarrow> threshold_engine \<Rightarrow> threshold_engine" where
  "SetBaseThreshold t e = e\<lparr>te_base := t\<rparr>"

definition SetRiskAppetite :: "int \<Rightarrow> threshold_engine \<Rightarrow> threshold_engine" where
  "SetRiskAppetite a e = e\<lparr>te_appetite := a\<rparr>"

definition RegimeFromDomain :: "string \<Rightarrow> regime_type" where
  "RegimeFromDomain r = (if r = ''RISK_ON'' then RegimeBull else if r = ''RISK_OFF'' then RegimeBear else RegimeNeutralType)"

section \<open>Rules change convictions only\<close>

text \<open>A recommendation apart from its conviction.\<close>

definition content :: "recommendation \<Rightarrow> recommendation" where
  "content rec = rec\<lparr>rc_conviction := 0\<rparr>"

definition conviction_ok :: "recommendation \<Rightarrow> bool" where
  "conviction_ok rec \<longleftrightarrow> 0 \<le> rc_conviction rec \<and> rc_conviction rec \<le> 100"

lemma content_damp [simp]: "content (damp q rec) = content rec"
  by (simp add: content_def damp_def)

lemma content_boost [simp]: "content (boost rec) = content rec"
  by (simp add: content_def boost_def)

lemma content_fields [simp]:
  "rc_symbol (content rec) = rc_symbol rec" "rc_side (content rec) = rc_side rec" "rc_agent (content rec) = rc_agent rec"
  "rc_target (content rec) = rc_target rec" "rc_stop (content rec) = rc_stop rec" "rc_reason (content rec) = rc_reason rec"
  by (simp_all add: content_def)

lemma ApplyRule_content: "map content (fst (ApplyRule r recs s quotes)) = map content recs"
  by (cases r) (simp_all add: Let_def)

lemma f64_to_i64_between:
  assumes "fle (Fin 0) v" "fle v (Fin (of_int n))" "n \<le> i64_max"
  shows "0 \<le> f64_to_i64 v \<and> f64_to_i64 v \<le> n"
proof -
  obtain r where r: "v = Fin r" "0 \<le> r" "r \<le> of_int n" using fle_between[OF assms(1,2)] by blast
  then have "\<lfloor>r\<rfloor> \<le> n" "0 \<le> \<lfloor>r\<rfloor>" by (simp_all add: floor_le_iff)
  with r assms(3) show ?thesis by (simp add: f64_to_i64_def Let_def i64_min_def)
qed

lemma small_is_f64: "\<bar>n\<bar> \<le> 2 ^ 53 \<Longrightarrow> is_f64 (Fin (of_int n))"
  using f64_int[of n] is_f64_of_int[of n] by simp

lemma f64_const_between:
  assumes "is_f64 (Fin a)" "is_f64 (Fin b)" "a \<le> q" "q \<le> b"
  shows "\<exists>c. f64_const q = Fin c \<and> a \<le> c \<and> c \<le> b"
  unfolding f64_const_def using rnd_ge[OF assms(1,3)] rnd_le[OF assms(2,4)] by (rule fle_between)

lemma scaled_bounds:
  assumes "0 \<le> n" "n \<le> 2 ^ 20" "0 \<le> q" "q \<le> of_int b" "b = 1 \<or> b = 2"
  shows "0 \<le> scaled q n \<and> scaled q n \<le> n * b"
proof -
  have n: "f64_of_int n = Fin (of_int n)" using assms by (intro f64_int) simp
  have b: "is_f64 (Fin (of_int b))" using assms(5) by (intro small_is_f64) auto
  have "is_f64 (Fin 0)" using small_is_f64[of 0] by simp
  from f64_const_between[OF this b assms(3,4)] obtain c where c: "f64_const q = Fin c" "0 \<le> c" "c \<le> of_int b" by blast
  have small: "n * b \<le> 2 ^ 21" "0 \<le> n * b" using assms by auto
  then have up: "is_f64 (Fin (of_int (n * b)))" by (intro small_is_f64) simp
  have "of_int n * c \<le> of_int (n * b)" using c assms(1) by (simp add: mult_left_mono)
  with c n show ?thesis
    unfolding scaled_def using rnd_nonneg[of "of_int n * c"] rnd_le[OF up] assms(1) small
    by (intro f64_to_i64_between) (simp_all add: i64_max_def)
qed

lemma damp_ok:
  assumes "conviction_ok rec" "0 \<le> q" "q \<le> 1"
  shows "conviction_ok (damp q rec) \<and> rc_conviction (damp q rec) \<le> rc_conviction rec"
  using scaled_bounds[of "rc_conviction rec" q 1] assms by (simp add: conviction_ok_def damp_def)

lemma boost_ok: "conviction_ok rec \<Longrightarrow> conviction_ok (boost rec)"
  using scaled_bounds[of "rc_conviction rec" "105 / 100" 2] by (simp add: conviction_ok_def boost_def)

lemma ApplyRule_ok: "list_all conviction_ok recs \<Longrightarrow> list_all conviction_ok (fst (ApplyRule r recs s quotes))"
  by (cases r) (auto simp: Let_def list_all_iff damp_ok boost_ok)

text \<open>
  The feedback rules change nothing but convictions: whatever rules are attached and in whatever order they visit the
  quotes, the recommendations keep their number, order, symbols, sides, prices and reasons, and convictions from 0 to 100 stay
  there.
\<close>

theorem rules_change_convictions_only:
  assumes "list_all conviction_ok recs"
  shows "map content (fst (apply_rules visit rs recs s quotes)) = map content recs \<and>
    list_all conviction_ok (fst (apply_rules visit rs recs s quotes))"
  using assms
proof (induction rs arbitrary: visit recs)
  case (Cons r rs)
  obtain recs1 r' where r: "ApplyRule r recs s (visit 0 quotes) = (recs1, r')" by fastforce
  obtain recs2 rs' where rs: "apply_rules (\<lambda>k. visit (Suc k)) rs recs1 s quotes = (recs2, rs')" by fastforce
  have "list_all conviction_ok recs1" "map content recs1 = map content recs"
    using ApplyRule_ok[OF Cons.prems, of r s "visit 0 quotes"] ApplyRule_content[of r recs s "visit 0 quotes"] r by simp_all
  with Cons.IH[of recs1 "\<lambda>k. visit (Suc k)"] r rs show ?case by simp
qed simp

lemma rules_change_convictions_only_witness:
  "map content (fst (apply_rules (\<lambda>k qs. qs) [PnLBehaviorRule, NarrativeFlowsRule 1]
     [\<lparr>rc_agent = ''a'', rc_symbol = ''2330'', rc_side = SideBuy, rc_conviction = 80, rc_target = Fin 0, rc_stop = Fin 0, rc_reason = []\<rparr>]
     (NewSimulationState (Fin 100)) [])) =
   [\<lparr>rc_agent = ''a'', rc_symbol = ''2330'', rc_side = SideBuy, rc_conviction = 0, rc_target = Fin 0, rc_stop = Fin 0, rc_reason = []\<rparr>]"
  using rules_change_convictions_only[of "[\<lparr>rc_agent = ''a'', rc_symbol = ''2330'', rc_side = SideBuy, rc_conviction = 80, rc_target = Fin 0,
      rc_stop = Fin 0, rc_reason = []\<rparr>]" "\<lambda>k qs. qs" "[PnLBehaviorRule, NarrativeFlowsRule 1]" "NewSimulationState (Fin 100)" "[]"]
  by (simp add: conviction_ok_def content_def del: apply_rules.simps)

lemma map_of_filter_keys: "map_of (filter (\<lambda>(k, v). P k) m) k = (if P k then map_of m k else None)"
  by (induction m) auto

text \<open>
  The streaks count recommendations and not days: five agents that recommend one symbol on one day make it an extreme.
\<close>

lemma streaks_count_recommendations:
  assumes "\<And>rec. rec \<in> set recs \<Longrightarrow> rc_symbol rec = y \<and> rc_side rec = SideBuy" "length recs = 5"
  shows "extreme (next_streaks recs []) y"
proof -
  have b: "buys recs = recs" using assms(1) by (simp add: buys_def)
  have fold: "map_of (fold count_streak rs m) y = Some (n + int (length rs))"
    if "\<And>rec. rec \<in> set rs \<Longrightarrow> rc_symbol rec = y" "map_of m y = Some n" "0 \<le> n" "n + int (length rs) \<le> 10" for rs m n
    using that
  proof (induction rs arbitrary: m n)
    case (Cons rec rs)
    have "wrap64 (n + 1) = n + 1" using Cons.prems by (intro wrap64_id) (simp_all add: i64_min_def i64_max_def)
    then have "map_of (count_streak rec m) y = Some (n + 1)" using Cons.prems by (simp add: count_streak_def)
    then show ?case using Cons.IH[of "count_streak rec m" "n + 1"] Cons.prems by simp
  qed simp
  obtain rec rs where r: "recs = rec # rs" "length rs = 4" using assms(2) by (cases recs) auto
  have "wrap64 1 = 1" by (intro wrap64_id) (simp_all add: i64_min_def i64_max_def)
  then have "map_of (fold count_streak recs []) y = Some 5"
    using fold[of rs "count_streak rec []" 1] assms(1) r by (simp add: count_streak_def)
  moreover have "y \<in> set (map rc_symbol recs)" using assms(1) r by auto
  ultimately show ?thesis
    by (simp add: extreme_def next_streaks_def b map_of_filter_keys)
qed

text \<open>A fall of one symbol dampens every recommendation, that of the fallen symbol included.\<close>

lemma crash_dampens_all: "crashed quotes \<Longrightarrow> fst (ApplyRule PriceToFundamentalsRule recs s quotes) = map (damp (95 / 100)) recs"
  by simp

section \<open>The threshold stays in its range\<close>

lemma threshold_in_range:
  assumes "fle (te_min e) (te_max e)" "calculateThreshold vix regime e \<noteq> NaN"
  shows "fle (te_min e) (calculateThreshold vix regime e) \<and> fle (calculateThreshold vix regime e) (te_max e)"
proof -
  define t0 where "t0 = fadd (fadd (fadd (te_base e) (fdiv (fsub vix (Fin 20)) (Fin 100))) (GetRegimeMultiplier regime e)) (getAppetiteAdjustment e)"
  have n: "te_min e \<noteq> NaN" "te_max e \<noteq> NaN" using assms(1) by auto
  have t: "calculateThreshold vix regime e = (let t1 = if flt t0 (te_min e) then te_min e else t0 in if flt (te_max e) t1 then te_max e else t1)"
    by (simp add: calculateThreshold_def t0_def Let_def)
  then have "t0 \<noteq> NaN" using assms(2) by (auto simp: Let_def split: if_splits)
  with n show ?thesis using assms(1) not_flt_fle[of t0 "te_min e"] not_flt_fle[of "te_max e" t0]
    unfolding t Let_def by (auto simp: fle_refl not_flt_fle)
qed

end
