(* ===== verification/Sim_Engine.thy ===== *)
theory Sim_Engine
  imports Sim_Tax Sim_Rules
begin

text \<open>
  The simulation engine (\<open>internal/sim/engine.go\<close>): one trading day turns recommendations into sales and purchases of a
  portfolio, and a run is a sequence of days.

  A day is the steps of \<open>RunDay\<close> in their order: rules, marking to market, sales, trimming, holding limit, purchases, metrics.
  A loop over positions or recommendations is a fold or a structural recursion with the loop's variables as its state; the fallback
  events of a step are part of its result.  The portfolio optimizer and the value-at-risk calculator are arguments, as is the
  sizing factor of a neutral regime, a parameter of the configuration.  Trace and decision sinks only receive copies and are left out.
\<close>

section \<open>The engine\<close>

record sim_engine =
  en_constraints :: constraints
  en_reserve :: "f64 option"
  en_floor_adjustment :: "int option"
  en_cap :: "f64 option"
  en_optimizer :: "(recommendation list \<Rightarrow> quote_map \<Rightarrow> f64 \<Rightarrow> order list option) option"
  en_slippage :: "slippage_model option"
  en_impact :: "impact_model option"
  en_tax :: "tax_config option"
  en_dividends :: "(string \<times> f64) list"
  en_gate :: "pre_trade_gate option"
  en_var :: "(f64 \<Rightarrow> (string \<times> f64) list \<Rightarrow> f64) option"
  en_neutral_factor :: f64

definition NewEngine :: "f64 \<Rightarrow> constraints \<Rightarrow> sim_engine" where
  "NewEngine factor c =
     \<lparr>en_constraints = c, en_reserve = None, en_floor_adjustment = None, en_cap = None, en_optimizer = None, en_slippage = None,
      en_impact = None, en_tax = Some DefaultTaiwanTaxConfig, en_dividends = [], en_gate = None, en_var = None, en_neutral_factor = factor\<rparr>"

definition WithReserveCashFraction :: "f64 \<Rightarrow> sim_engine \<Rightarrow> sim_engine" where
  "WithReserveCashFraction f e = e\<lparr>en_reserve := (if flt f (Fin 0) then None else Some f)\<rparr>"

definition WithOptimizer :: "(recommendation list \<Rightarrow> quote_map \<Rightarrow> f64 \<Rightarrow> order list option) option \<Rightarrow> sim_engine \<Rightarrow> sim_engine" where
  "WithOptimizer optimizer e = e\<lparr>en_optimizer := optimizer\<rparr>"

definition WithSlippageModel :: "slippage_model option \<Rightarrow> sim_engine \<Rightarrow> sim_engine" where
  "WithSlippageModel sm e = e\<lparr>en_slippage := sm\<rparr>"

definition WithMarketImpactModel :: "impact_model option \<Rightarrow> sim_engine \<Rightarrow> sim_engine" where
  "WithMarketImpactModel m e = e\<lparr>en_impact := m\<rparr>"

definition WithTaxCalculator :: "tax_config option \<Rightarrow> sim_engine \<Rightarrow> sim_engine" where
  "WithTaxCalculator c e = e\<lparr>en_tax := c\<rparr>"

definition WithDividends :: "(string \<times> f64) list \<Rightarrow> sim_engine \<Rightarrow> sim_engine" where
  "WithDividends dividends e = e\<lparr>en_dividends := dividends\<rparr>"

definition WithPreTradeGate :: "pre_trade_gate option \<Rightarrow> sim_engine \<Rightarrow> sim_engine" where
  "WithPreTradeGate g e = e\<lparr>en_gate := g\<rparr>"

definition WithRiskCalculator :: "(f64 \<Rightarrow> (string \<times> f64) list \<Rightarrow> f64) option \<Rightarrow> sim_engine \<Rightarrow> sim_engine" where
  "WithRiskCalculator var e = e\<lparr>en_var := var\<rparr>"

text \<open>The rules are kept beside the engine, because their streaks change from day to day.\<close>

definition WithReflexivityRules :: "reflex_rule list \<Rightarrow> reflex_rule list \<Rightarrow> reflex_rule list" where
  "WithReflexivityRules added rules = rules @ added"

definition effectiveReserveCashFraction :: "sim_engine \<Rightarrow> f64" where
  "effectiveReserveCashFraction e = (case en_reserve e of Some f \<Rightarrow> f | None \<Rightarrow> sc_reserve (en_constraints e))"

definition WithConvictionFloorAdjustment :: "int \<Rightarrow> sim_engine \<Rightarrow> sim_engine" where
  "WithConvictionFloorAdjustment delta e = e\<lparr>en_floor_adjustment := (if delta \<le> 0 then None else Some delta)\<rparr>"

definition effectiveConvictionFloor :: "sim_engine \<Rightarrow> int" where
  "effectiveConvictionFloor e =
     (case en_floor_adjustment e of
        Some delta \<Rightarrow> wrap64 (sc_min_conviction (en_constraints e) + delta)
      | None \<Rightarrow> sc_min_conviction (en_constraints e))"

definition WithExposureCap :: "f64 \<Rightarrow> sim_engine \<Rightarrow> sim_engine" where
  "WithExposureCap pct e = e\<lparr>en_cap := Some (fmin (fmax pct (Fin 0)) (Fin 1))\<rparr>"

definition exposure :: "sim_state \<Rightarrow> f64" where
  "exposure s = fold (\<lambda>p value. fadd value (market_value p)) (ss_positions s) (Fin 0)"

definition exposureBudget :: "sim_engine \<Rightarrow> sim_state \<Rightarrow> f64" where
  "exposureBudget e s =
     (case en_cap e of
        None \<Rightarrow> f64_max
      | Some c \<Rightarrow>
          (if fle (Fin 1) c then f64_max
           else (let budget = fsub (fmul c (PortfolioValue s)) (exposure s) in if flt budget (Fin 0) then Fin 0 else budget)))"

section \<open>The gate before the purchases\<close>

definition position_values :: "position list \<Rightarrow> (string \<times> f64) list" where
  "position_values ps = fold (\<lambda>p. AList.update (p_symbol p) (market_value p)) ps []"

definition buildPortfolioState :: "sim_engine \<Rightarrow> f64 \<Rightarrow> position list \<Rightarrow> portfolio_state" where
  "buildPortfolioState e cash ps =
     (let sum = fold (\<lambda>p value. fadd value (market_value p)) ps cash;
          worth = (if fle sum (Fin 0) then Fin 3000000 else sum);
          values = position_values ps
      in \<lparr>pf_total = worth, pf_cash = cash, pf_sectors = [], pf_positions = values,
          pf_var = (case en_var e of Some var \<Rightarrow> var worth values | None \<Rightarrow> Fin 0)\<rparr>)"

definition buildOrderIntent :: "recommendation \<Rightarrow> f64 \<Rightarrow> order_intent" where
  "buildOrderIntent rec worth =
     \<lparr>oi_symbol = rc_symbol rec, oi_side = (if rc_side rec = [] then ''buy'' else rc_side rec),
      oi_notional = (if flt (Fin 0) (rc_target rec)
        then fmul (fmul (fdiv (f64_of_int (rc_conviction rec)) (Fin 100)) worth) (f64_const (1 / 10))
        else fmul worth (f64_const (5 / 100))),
      oi_agent = rc_agent rec, oi_sector = [], oi_conviction = rc_conviction rec\<rparr>"

definition applyOrderToState :: "portfolio_state \<Rightarrow> order_intent \<Rightarrow> portfolio_state" where
  "applyOrderToState pf ord =
     pf\<lparr>pf_cash := fsub (pf_cash pf) (oi_notional ord),
        pf_positions := AList.update (oi_symbol ord) (fadd (amount (oi_symbol ord) (pf_positions pf)) (oi_notional ord)) (pf_positions pf)\<rparr>"

definition stopped :: "risk_decision \<Rightarrow> bool" where
  "stopped d \<longleftrightarrow> rd_verdict d = VerdictBlock \<or> rd_verdict d = VerdictHalt"

text \<open>The order with the notional that the position limit still allows, when that is more than a hundredth of the portfolio.\<close>

definition auto_size :: "pre_trade_gate \<Rightarrow> portfolio_state \<Rightarrow> order_intent \<Rightarrow> order_intent option" where
  "auto_size g pf ord =
     (let current = fdiv (amount (oi_symbol ord) (pf_positions pf)) (pf_total pf)
      in if flt current (pg_max_position g)
         then (let notional = fmul (fsub (pg_max_position g) current) (pf_total pf)
               in if flt (fmul (pf_total pf) (f64_const (1 / 100))) notional then Some (ord\<lparr>oi_notional := notional\<rparr>) else None)
         else None)"

definition gate_rec :: "pre_trade_gate \<Rightarrow> recommendation \<Rightarrow> portfolio_state \<Rightarrow> bool \<times> portfolio_state" where
  "gate_rec g rec pf =
     (let ord = buildOrderIntent rec (pf_total pf)
      in case PreTradeCheck g ord pf ''NORMAL'' of
           None \<Rightarrow> (True, pf)
         | Some d \<Rightarrow>
             (if \<not> stopped d then (True, applyOrderToState pf ord)
              else case (if position_reason (rd_reason d) then auto_size g pf ord else None) of
                     None \<Rightarrow> (False, pf)
                   | Some ord' \<Rightarrow>
                       (case PreTradeCheck g ord' pf ''NORMAL'' of
                          Some d' \<Rightarrow> if stopped d' then (False, pf) else (True, applyOrderToState pf ord')
                        | None \<Rightarrow> (False, pf))))"

fun gate_recs :: "pre_trade_gate \<Rightarrow> recommendation list \<Rightarrow> portfolio_state \<Rightarrow> recommendation list" where
  "gate_recs g [] pf = []"
| "gate_recs g (rec # recs) pf =
     (let (passed, pf') = gate_rec g rec pf in if passed then rec # gate_recs g recs pf' else gate_recs g recs pf')"

definition filterByPreTradeGate :: "sim_engine \<Rightarrow> pre_trade_gate \<Rightarrow> f64 \<Rightarrow> position list \<Rightarrow> recommendation list \<Rightarrow> recommendation list" where
  "filterByPreTradeGate e g cash ps recs = gate_recs g recs (buildPortfolioState e cash ps)"

section \<open>Prices and cash\<close>

definition applyBPS :: "f64 \<Rightarrow> f64 \<Rightarrow> f64" where
  "applyBPS price bps = fmul price (fadd (Fin 1) (fdiv bps (Fin 10000)))"

definition getSlippageBPS :: "sim_engine \<Rightarrow> string \<Rightarrow> quote_map \<Rightarrow> f64 \<times> string list" where
  "getSlippageBPS e y quotes =
     (case en_slippage e of Some sm \<Rightarrow> CalculateSlippageBPS sm y quotes | None \<Rightarrow> (sc_slippage_bps (en_constraints e), []))"

definition getImpactBPS :: "sim_engine \<Rightarrow> f64 \<Rightarrow> quote \<Rightarrow> f64" where
  "getImpactBPS e notional q =
     (case en_impact e of
        None \<Rightarrow> Fin 0
      | Some m \<Rightarrow>
          ir_total (Estimate (Some m) notional (if q_volume q \<le> 0 then im_default_adv m else q_volume q) (q_last q) (f64_const (20 / 100))))"

definition transactionCostBPS :: "sim_engine \<Rightarrow> f64 \<Rightarrow> f64" where
  "transactionCostBPS e notional =
     (if IsEligibleForDiscountedCommission notional (sc_discount_threshold (en_constraints e))
      then sc_discount_bps (en_constraints e) else sc_cost_bps (en_constraints e))"

text \<open>\<open>AddDate(0, 0, 2)\<close> in a zone of fixed offset.\<close>

definition creditCashWithTPlus2Lock :: "f64 \<Rightarrow> time \<Rightarrow> sim_state \<Rightarrow> sim_state" where
  "creditCashWithTPlus2Lock amt d s =
     s\<lparr>ss_cash := fadd (ss_cash s) amt, ss_locked := ss_locked s @ [\<lparr>lc_unlock = d + 48 * hour, lc_amount = amt\<rparr>]\<rparr>"

section \<open>Sales\<close>

definition mark_position :: "quote_map \<Rightarrow> position \<Rightarrow> position" where
  "mark_position quotes pos =
     (case map_of quotes (p_symbol pos) of
        None \<Rightarrow> pos
      | Some q \<Rightarrow>
          pos\<lparr>current_price := q_last q, market_value := fmul (f64_of_int (p_quantity pos)) (q_last q),
              unrealized_pnl := fmul (f64_of_int (p_quantity pos)) (fsub (q_last q) (average_cost pos))\<rparr>)"

definition shouldSellPosition :: "sim_engine \<Rightarrow> position \<Rightarrow> quote \<Rightarrow> recommendation list \<Rightarrow> string option" where
  "shouldSellPosition e pos q recs =
     (let rec = find (\<lambda>r. rc_symbol r = p_symbol pos) recs; c = en_constraints e
      in if (case rec of Some r \<Rightarrow> flt (Fin 0) (rc_stop r) \<and> fle (q_last q) (rc_stop r) | None \<Rightarrow> False) then Some ''stop_loss_price''
         else if (case rec of Some r \<Rightarrow> flt (Fin 0) (rc_target r) \<and> fle (rc_target r) (q_last q) | None \<Rightarrow> False) then Some ''target_price''
         else if flt (Fin 0) (sc_stop_loss c) \<and> fle (q_last q) (fmul (average_cost pos) (fsub (Fin 1) (sc_stop_loss c))) then Some ''stop_loss''
         else if flt (Fin 0) (sc_take_profit c) \<and> fle (fmul (average_cost pos) (fadd (Fin 1) (sc_take_profit c))) (q_last q)
           then Some ''take_profit''
         else if \<exists>r \<in> set recs. rc_symbol r = p_symbol pos \<and> rc_side r = SideSell then Some ''conviction_reversal''
         else None)"

record sell_detail =
  sd_symbol :: string
  sd_quantity :: int
  sd_avg_cost :: f64
  sd_price :: f64
  sd_reason :: string

definition sell_order :: "sell_detail \<Rightarrow> order" where
  "sell_order sd =
     \<lparr>o_symbol = sd_symbol sd, o_side = SideSell, o_quantity = sd_quantity sd, o_price = sd_price sd, o_reason = sd_reason sd\<rparr>"

text \<open>The quote of a position that can be traded.\<close>

definition tradable_quote :: "quote_map \<Rightarrow> position \<Rightarrow> quote option" where
  "tradable_quote quotes pos =
     (case map_of quotes (p_symbol pos) of Some q \<Rightarrow> if q_tradable q then Some q else None | None \<Rightarrow> None)"

definition sell_price_bps :: "sim_engine \<Rightarrow> f64 \<Rightarrow> f64 \<Rightarrow> quote \<Rightarrow> f64" where
  "sell_price_bps e slippage notional q =
     applyBPS (q_last q) (fneg (fadd (fadd slippage (transactionCostBPS e notional)) (getImpactBPS e notional q)))"

fun sell_loop ::
  "sim_engine \<Rightarrow> quote_map \<Rightarrow> recommendation list \<Rightarrow> time \<Rightarrow> position list \<Rightarrow> sim_state \<Rightarrow> position list \<times> sell_detail list \<times> string list \<times> sim_state" where
  "sell_loop e quotes recs d [] s = ([], [], [], s)"
| "sell_loop e quotes recs d (pos # ps) s =
     (case tradable_quote quotes pos of
        None \<Rightarrow> (let (kept, sold, events, s') = sell_loop e quotes recs d ps s in (pos # kept, sold, events, s'))
      | Some q \<Rightarrow>
          (case shouldSellPosition e pos q recs of
             None \<Rightarrow> (let (kept, sold, events, s') = sell_loop e quotes recs d ps s in (pos # kept, sold, events, s'))
           | Some why \<Rightarrow>
               (let (slip, evs) = getSlippageBPS e (p_symbol pos) quotes;
                    price = sell_price_bps e slip (fmul (f64_of_int (p_quantity pos)) (q_last q)) q;
                    s1 = creditCashWithTPlus2Lock (fmul (f64_of_int (p_quantity pos)) price) d s;
                    (kept, sold, events, s') = sell_loop e quotes recs d ps s1
                in (kept,
                    \<lparr>sd_symbol = p_symbol pos, sd_quantity = p_quantity pos, sd_avg_cost = average_cost pos, sd_price = price, sd_reason = why\<rparr> # sold,
                    evs @ events, s'))))"

definition executeSells ::
  "sim_engine \<Rightarrow> quote_map \<Rightarrow> recommendation list \<Rightarrow> time \<Rightarrow> sim_state \<Rightarrow> (order list \<times> sell_detail list) \<times> string list \<times> sim_state" where
  "executeSells e quotes recs d s =
     (let (kept, sold, events, s') = sell_loop e quotes recs d (ss_positions s) s
      in ((map sell_order sold, sold), events, s'\<lparr>ss_positions := kept\<rparr>))"

definition sell_trade :: "sell_detail \<Rightarrow> trade_record" where
  "sell_trade sd =
     \<lparr>tr_symbol = sd_symbol sd, tr_side = SideSell, tr_quantity = sd_quantity sd, tr_price = sd_price sd,
      tr_amount = fmul (f64_of_int (sd_quantity sd)) (sd_price sd), tr_reason = sd_reason sd\<rparr>"

definition realize :: "int \<Rightarrow> f64 \<Rightarrow> f64 \<Rightarrow> sim_state \<Rightarrow> sim_state" where
  "realize quantity price cost s = s\<lparr>ss_realized := fadd (ss_realized s) (fmul (f64_of_int quantity) (fsub price cost))\<rparr>"

text \<open>Step 2 of \<open>RunDay\<close>.\<close>

definition sell_step ::
  "sim_engine \<Rightarrow> quote_map \<Rightarrow> recommendation list \<Rightarrow> time \<Rightarrow> sim_state \<Rightarrow> (order list \<times> trade_record list) \<times> string list \<times> sim_state" where
  "sell_step e quotes recs d s =
     (if \<not> SellLogicEnabled (en_constraints e) then (([], []), [], s)
      else
        (let ((orders, sold), events, s1) = executeSells e quotes recs d s
         in ((orders, map sell_trade sold), events,
             fold (\<lambda>sd. realize (sd_quantity sd) (sd_price sd) (sd_avg_cost sd)) sold s1)))"

section \<open>Trimming and the holding limit\<close>

text \<open>The verbs \<open>%.1f\<close> and \<open>%.0f\<close>.\<close>

definition fmt_fixed :: "nat \<Rightarrow> f64 \<Rightarrow> string" where
  "fmt_fixed k v = (case v of NaN \<Rightarrow> ''NaN'' | PInf \<Rightarrow> ''+Inf'' | NInf \<Rightarrow> ''-Inf''
   | Fin r \<Rightarrow>
       (let n = rhe (\<bar>r\<bar> * 10 ^ k)
        in (if r < 0 then ''-'' else []) @ show_int (n div 10 ^ k) @ (if k = 0 then [] else ''.'' @ show_pad k (n mod 10 ^ k))))"

definition rebalance_reason :: "f64 \<Rightarrow> f64 \<Rightarrow> string" where
  "rebalance_reason pct limit =
     ''rebalance: '' @ fmt_fixed 1 (fmul pct (Fin 100)) @ ''% > '' @ fmt_fixed 0 (fmul limit (Fin 100)) @ ''%''"

text \<open>A forced sale: what a position gives up, at which price, and why (order and trade record).\<close>

definition forced_order :: "position \<Rightarrow> int \<Rightarrow> f64 \<Rightarrow> string \<Rightarrow> order" where
  "forced_order pos n price why = \<lparr>o_symbol = p_symbol pos, o_side = SideSell, o_quantity = n, o_price = price, o_reason = why\<rparr>"

definition forced_trade :: "position \<Rightarrow> int \<Rightarrow> f64 \<Rightarrow> string \<Rightarrow> trade_record" where
  "forced_trade pos n price why =
     \<lparr>tr_symbol = p_symbol pos, tr_side = SideSell, tr_quantity = n, tr_price = price, tr_amount = fmul (f64_of_int n) price, tr_reason = why\<rparr>"

text \<open>How many shares a position above the limit gives up.\<close>

definition trim_quantity :: "f64 \<Rightarrow> f64 \<Rightarrow> quote_map \<Rightarrow> position \<Rightarrow> (quote \<times> int) option" where
  "trim_quantity worth limit quotes pos =
     (if p_quantity pos \<le> 0 then None
      else case tradable_quote quotes pos of
        None \<Rightarrow> None
      | Some q \<Rightarrow>
          (if flt limit (fdiv (market_value pos) worth)
           then (let n = f64_to_i64 (fdiv (fsub (market_value pos) (fmul worth limit)) (q_last q))
                 in if 0 < n \<and> n < p_quantity pos then Some (q, n) else None)
           else None))"

fun trim_loop ::
  "sim_engine \<Rightarrow> quote_map \<Rightarrow> time \<Rightarrow> f64 \<Rightarrow> f64 \<Rightarrow> position list \<Rightarrow> sim_state \<Rightarrow>
   position list \<times> (order \<times> trade_record) list \<times> string list \<times> sim_state" where
  "trim_loop e quotes d worth limit [] s = ([], [], [], s)"
| "trim_loop e quotes d worth limit (pos # ps) s =
     (case trim_quantity worth limit quotes pos of
        None \<Rightarrow> (let (kept, sold, events, s') = trim_loop e quotes d worth limit ps s in (pos # kept, sold, events, s'))
      | Some (q, n) \<Rightarrow>
          (let (slip, evs) = getSlippageBPS e (p_symbol pos) quotes;
               price = sell_price_bps e slip (fmul (f64_of_int n) (q_last q)) q;
               s1 = realize n price (average_cost pos) (creditCashWithTPlus2Lock (fmul (f64_of_int n) price) d s);
               pos1 = pos\<lparr>p_quantity := p_quantity pos - n, market_value := fmul (f64_of_int (p_quantity pos - n)) price\<rparr>;
               (kept, sold, events, s') = trim_loop e quotes d worth limit ps s1
           in (pos1 # kept,
               (forced_order pos n price (rebalance_reason (fdiv (market_value pos) worth) limit), forced_trade pos n price ''rebalance_trim'') # sold,
               evs @ events, s')))"

text \<open>Step 2.5 of \<open>RunDay\<close>.\<close>

definition trim_step ::
  "sim_engine \<Rightarrow> quote_map \<Rightarrow> time \<Rightarrow> sim_state \<Rightarrow> (order \<times> trade_record) list \<times> string list \<times> sim_state" where
  "trim_step e quotes d s =
     (case en_gate e of
        None \<Rightarrow> ([], [], s)
      | Some g \<Rightarrow>
          (if flt (Fin 0) (pg_max_position g)
           then (let (kept, sold, events, s') = trim_loop e quotes d (PortfolioValue s) (pg_max_position g) (ss_positions s) s
                 in (sold, events, s'\<lparr>ss_positions := kept\<rparr>))
           else ([], [], s)))"

definition overdue_quote :: "sim_engine \<Rightarrow> quote_map \<Rightarrow> time \<Rightarrow> position \<Rightarrow> quote option" where
  "overdue_quote e quotes d pos =
     (if p_quantity pos \<le> 0 \<or> entry_date pos = zero_time then None
      else if whole_days (time_sub d (entry_date pos)) \<le> sc_max_holding (en_constraints e) then None
      else tradable_quote quotes pos)"

fun holding_loop ::
  "sim_engine \<Rightarrow> quote_map \<Rightarrow> time \<Rightarrow> position list \<Rightarrow> sim_state \<Rightarrow> position list \<times> (order \<times> trade_record) list \<times> string list \<times> sim_state" where
  "holding_loop e quotes d [] s = ([], [], [], s)"
| "holding_loop e quotes d (pos # ps) s =
     (case overdue_quote e quotes d pos of
        None \<Rightarrow> (let (kept, sold, events, s') = holding_loop e quotes d ps s in (pos # kept, sold, events, s'))
      | Some q \<Rightarrow>
          (let (slip, evs) = getSlippageBPS e (p_symbol pos) quotes;
               n = p_quantity pos;
               price = applyBPS (q_last q) (fneg (fadd slip (transactionCostBPS e (fmul (f64_of_int n) (q_last q)))));
               s1 = realize n price (average_cost pos) (creditCashWithTPlus2Lock (fmul (f64_of_int n) price) d s);
               (kept, sold, events, s') = holding_loop e quotes d ps s1
           in (kept, (forced_order pos n price ''max_holding_days'', forced_trade pos n price ''max_holding_days'') # sold, evs @ events, s')))"

definition holding_step ::
  "sim_engine \<Rightarrow> quote_map \<Rightarrow> time \<Rightarrow> sim_state \<Rightarrow> (order \<times> trade_record) list \<times> string list \<times> sim_state" where
  "holding_step e quotes d s =
     (if 0 < sc_max_holding (en_constraints e)
      then (let (kept, sold, events, s') = holding_loop e quotes d (ss_positions s) s in (sold, events, s'\<lparr>ss_positions := kept\<rparr>))
      else ([], [], s))"

end
