(* ===== verification/Sim_Day.thy ===== *)
theory Sim_Day
  imports Sim_Engine
begin

text \<open>
  The purchases of a simulated day, the day as a whole and runs of days (\<open>internal/sim/engine.go\<close>), the Sharpe ratio of
  \<open>internal/domain/shared/sharpe.go\<close> and the state file (\<open>internal/sim/state_persistence.go\<close>).

  \<open>sort.Slice\<close> may arrange recommendations that compare equal in any order; the model sorts stably, and
  \<open>Sim_Run\<close> shows that the arrangement does not matter.
\<close>

section \<open>Purchases\<close>

definition RegimeNeutral :: string where "RegimeNeutral = ''NEUTRAL''"

definition max_per_position :: "sim_engine \<Rightarrow> string \<Rightarrow> f64 \<Rightarrow> f64" where
  "max_per_position e regime cash =
     (let deployable = fmul cash (fsub (Fin 1) (effectiveReserveCashFraction e));
          weight = sc_max_weight (en_constraints e)
      in fmul deployable (if regime = RegimeNeutral then fmul weight (en_neutral_factor e) else weight))"

definition add_shares :: "position \<Rightarrow> position \<Rightarrow> position" where
  "add_shares new pos =
     (let n = wrap64 (p_quantity pos + p_quantity new);
          cost = fadd (fmul (average_cost pos) (f64_of_int (p_quantity pos))) (fmul (average_cost new) (f64_of_int (p_quantity new)));
          avg = fdiv cost (f64_of_int n)
      in pos\<lparr>p_quantity := n, average_cost := avg, current_price := current_price new,
             market_value := fmul (f64_of_int n) (current_price new),
             unrealized_pnl := fmul (f64_of_int n) (fsub (current_price new) avg)\<rparr>)"

fun appendOrUpdatePosition :: "position list \<Rightarrow> position \<Rightarrow> time \<Rightarrow> position list" where
  "appendOrUpdatePosition [] new d = [new\<lparr>entry_date := d\<rparr>]"
| "appendOrUpdatePosition (pos # ps) new d =
     (if p_symbol pos = p_symbol new then add_shares new pos # ps else pos # appendOrUpdatePosition ps new d)"

text \<open>A quote that admits purchases.\<close>

definition buyable_quote :: "sim_engine \<Rightarrow> quote_map \<Rightarrow> string \<Rightarrow> quote option" where
  "buyable_quote e quotes y =
     (case map_of quotes y of
        Some q \<Rightarrow> if q_tradable q \<and> sc_min_volume (en_constraints e) \<le> q_volume q then Some q else None
      | None \<Rightarrow> None)"

definition buy_price :: "sim_engine \<Rightarrow> f64 \<Rightarrow> f64 \<Rightarrow> quote \<Rightarrow> f64" where
  "buy_price e slippage notional q =
     applyBPS (q_last q) (fadd (fadd slippage (transactionCostBPS e notional)) (getImpactBPS e notional q))"

definition lots_of_100 :: "f64 \<Rightarrow> f64 \<Rightarrow> int" where
  "lots_of_100 notional price = f64_to_i64 (fmul (ffloor (fdiv (fdiv notional price) (Fin 100))) (Fin 100))"

definition order_cost :: "order \<Rightarrow> f64" where
  "order_cost ord = fmul (f64_of_int (o_quantity ord)) (o_price ord)"

definition buy_order :: "string \<Rightarrow> int \<Rightarrow> f64 \<Rightarrow> string \<Rightarrow> order" where
  "buy_order y n price why = \<lparr>o_symbol = y, o_side = SideBuy, o_quantity = n, o_price = price, o_reason = why\<rparr>"

definition bought_position :: "order \<Rightarrow> quote \<Rightarrow> position" where
  "bought_position ord q =
     \<lparr>p_symbol = o_symbol ord, p_quantity = o_quantity ord, average_cost = o_price ord, current_price = q_last q,
      market_value = fmul (f64_of_int (o_quantity ord)) (q_last q), unrealized_pnl = Fin 0, entry_date = zero_time\<rparr>"

text \<open>The size of a purchase: everything the limits allow, or the optimizer's quantity cut to them; \<open>None\<close> skips it.\<close>

definition legacy_size :: "f64 \<Rightarrow> f64 \<Rightarrow> int option" where
  "legacy_size notional price = (let n = lots_of_100 notional price in if n \<le> 0 then None else Some n)"

definition optimizer_size :: "int \<Rightarrow> f64 \<Rightarrow> f64 \<Rightarrow> int option" where
  "optimizer_size n limit price =
     (if n \<le> 0 then None
      else if flt limit (fmul (f64_of_int n) price) then legacy_size limit price
      else Some n)"

text \<open>
  One candidate of a buying loop, once its quote is found: the events of its price and the order, unless it costs more than the
  cash left.
\<close>

definition legacy_candidate :: "sim_engine \<Rightarrow> quote_map \<Rightarrow> f64 \<Rightarrow> recommendation \<Rightarrow> f64 \<Rightarrow> f64 \<Rightarrow> string list \<times> (order \<times> quote) option" where
  "legacy_candidate e quotes maxPer rec cash budget =
     (if rc_side rec \<noteq> SideBuy \<or> rc_conviction rec < effectiveConvictionFloor e then ([], None)
      else case buyable_quote e quotes (rc_symbol rec) of
        None \<Rightarrow> ([], None)
      | Some q \<Rightarrow>
          (let (slip, events) = getSlippageBPS e (rc_symbol rec) quotes;
               notional = fmin maxPer budget;
               price = buy_price e slip notional q
           in (events,
               case legacy_size notional price of
                 None \<Rightarrow> None
               | Some n \<Rightarrow>
                   (let ord = buy_order (rc_symbol rec) n price (rc_reason rec)
                    in if flt cash (order_cost ord) then None else Some (ord, q)))))"

definition optimizer_candidate ::
  "sim_engine \<Rightarrow> quote_map \<Rightarrow> f64 \<Rightarrow> recommendation list \<Rightarrow> order \<Rightarrow> f64 \<Rightarrow> f64 \<Rightarrow> string list \<times> (order \<times> quote) option" where
  "optimizer_candidate e quotes maxPer recs wish cash budget =
     (if o_side wish \<noteq> SideBuy \<or> \<not> (\<exists>rec \<in> set recs. rc_symbol rec = o_symbol wish \<and> effectiveConvictionFloor e \<le> rc_conviction rec)
      then ([], None)
      else case buyable_quote e quotes (o_symbol wish) of
        None \<Rightarrow> ([], None)
      | Some q \<Rightarrow>
          (let (slip, events) = getSlippageBPS e (o_symbol wish) quotes;
               price = buy_price e slip (fmul (f64_of_int (o_quantity wish)) (q_last q)) q
           in (events,
               case optimizer_size (o_quantity wish) (fmin maxPer budget) price of
                 None \<Rightarrow> None
               | Some n \<Rightarrow>
                   (let ord = buy_order (o_symbol wish) n price (o_reason wish)
                    in if flt cash (order_cost ord) then None else Some (ord, q)))))"

text \<open>The loop that both buying paths share; \<open>candidate\<close> is one of the above.\<close>

fun buy_loop ::
  "('c \<Rightarrow> f64 \<Rightarrow> f64 \<Rightarrow> string list \<times> (order \<times> quote) option) \<Rightarrow> int \<Rightarrow> time \<Rightarrow> 'c list \<Rightarrow> f64 \<Rightarrow> f64 \<Rightarrow> position list \<Rightarrow>
   order list \<times> string list \<times> position list" where
  "buy_loop candidate maxOpen d [] cash budget ps = ([], [], ps)"
| "buy_loop candidate maxOpen d (c # cs) cash budget ps =
     (if maxOpen \<le> int (length ps) then ([], [], ps)
      else case candidate c cash budget of
        (evs, None) \<Rightarrow> (let (orders, events, ps') = buy_loop candidate maxOpen d cs cash budget ps in (orders, evs @ events, ps'))
      | (evs, Some (ord, q)) \<Rightarrow>
          (let (orders, events, ps') =
                 buy_loop candidate maxOpen d cs (fsub cash (order_cost ord)) (fsub budget (order_cost ord))
                   (appendOrUpdatePosition ps (bought_position ord q) d)
           in (ord # orders, evs @ events, ps')))"

definition rec_key :: "recommendation \<Rightarrow> int \<times> string \<times> string \<times> string" where
  "rec_key rec = (- rc_conviction rec, rc_symbol rec, rc_agent rec, rc_reason rec)"

definition executeLegacyBuys ::
  "sim_engine \<Rightarrow> f64 \<Rightarrow> position list \<Rightarrow> quote_map \<Rightarrow> recommendation list \<Rightarrow> string \<Rightarrow> time \<Rightarrow> f64 \<Rightarrow> order list \<times> string list \<times> position list" where
  "executeLegacyBuys e cash ps quotes recs regime d budget =
     buy_loop (legacy_candidate e quotes (max_per_position e regime cash)) (sc_max_open (en_constraints e)) d (sort_key rec_key recs)
       cash budget ps"

definition executeOptimizerBuys ::
  "sim_engine \<Rightarrow> (recommendation list \<Rightarrow> quote_map \<Rightarrow> f64 \<Rightarrow> order list option) \<Rightarrow> f64 \<Rightarrow> position list \<Rightarrow> quote_map \<Rightarrow> recommendation list \<Rightarrow>
   string \<Rightarrow> time \<Rightarrow> f64 \<Rightarrow> order list \<times> string list \<times> position list" where
  "executeOptimizerBuys e optimizer cash ps quotes recs regime d budget =
     (case optimizer recs quotes cash of
        None \<Rightarrow>
          (let (orders, events, ps') = executeLegacyBuys e cash ps quotes recs regime d budget
           in (orders, ''optimizer: fallback to legacy buys'' # events, ps'))
      | Some wishes \<Rightarrow>
          buy_loop (optimizer_candidate e quotes (max_per_position e regime cash) recs) (sc_max_open (en_constraints e)) d wishes
            cash budget ps)"

definition executeBuys ::
  "sim_engine \<Rightarrow> f64 \<Rightarrow> position list \<Rightarrow> quote_map \<Rightarrow> recommendation list \<Rightarrow> string \<Rightarrow> time \<Rightarrow> f64 \<Rightarrow> order list \<times> string list \<times> position list" where
  "executeBuys e cash ps quotes recs regime d budget =
     (let recs' = (case en_gate e of Some g \<Rightarrow> filterByPreTradeGate e g cash ps recs | None \<Rightarrow> recs)
      in case en_optimizer e of
           Some optimizer \<Rightarrow> executeOptimizerBuys e optimizer cash ps quotes recs' regime d budget
         | None \<Rightarrow> executeLegacyBuys e cash ps quotes recs' regime d budget)"

definition totalCost :: "order list \<Rightarrow> f64" where
  "totalCost orders = fold (\<lambda>ord sum. if o_side ord = SideBuy then fadd sum (order_cost ord) else sum) orders (Fin 0)"

definition buy_trade :: "order \<Rightarrow> trade_record" where
  "buy_trade ord =
     \<lparr>tr_symbol = o_symbol ord, tr_side = SideBuy, tr_quantity = o_quantity ord, tr_price = o_price ord, tr_amount = order_cost ord,
      tr_reason = o_reason ord\<rparr>"

text \<open>Step 3 of \<open>RunDay\<close>.\<close>

definition buy_step ::
  "sim_engine \<Rightarrow> quote_map \<Rightarrow> recommendation list \<Rightarrow> string \<Rightarrow> time \<Rightarrow> sim_state \<Rightarrow> order list \<times> string list \<times> sim_state" where
  "buy_step e quotes recs regime d s =
     (let (orders, events, ps) = executeBuys e (AvailableCash d s) (ss_positions s) quotes recs regime d (exposureBudget e s)
      in (orders, events, s\<lparr>ss_positions := ps, ss_cash := fsub (ss_cash s) (totalCost orders)\<rparr>))"

section \<open>Metrics\<close>

definition set_last :: "'a \<Rightarrow> 'a list \<Rightarrow> 'a list" where
  "set_last x xs = butlast xs @ [x]"

text \<open>
  Step 4 of \<open>RunDay\<close>.  The series of a session that was recorded already, and of a new session: the return, whether there is one
  to record, and the new state.
\<close>

definition rerun_session :: "f64 \<Rightarrow> sim_state \<Rightarrow> (f64 \<times> bool) \<times> sim_state" where
  "rerun_session value s =
     (let s0 = s\<lparr>ss_equity := set_last value (ss_equity s)\<rparr>; base = ss_session_base s
      in if ss_returns s \<noteq> [] \<and> flt (Fin 0) base
         then (let r = fdiv (fsub value base) base in ((r, True), s0\<lparr>ss_returns := set_last r (ss_returns s)\<rparr>))
         else ((Fin 0, False), s0))"

definition new_session :: "string \<Rightarrow> f64 \<Rightarrow> f64 \<Rightarrow> sim_state \<Rightarrow> (f64 \<times> bool) \<times> sim_state" where
  "new_session key value prev s =
     (let s0 = s\<lparr>ss_equity := ss_equity s @ [value]\<rparr>;
          (r, s1) = (if flt (Fin 0) prev
                     then (let r = fdiv (fsub value prev) prev in ((r, True), s0\<lparr>ss_returns := ss_returns s @ [r]\<rparr>))
                     else ((Fin 0, False), s0))
      in (r, if key \<noteq> [] then s1\<lparr>ss_session_base := prev, ss_last_session := key\<rparr> else s1))"

text \<open>The last portfolio value, the peak and the drawdown.\<close>

definition track_peak :: "f64 \<Rightarrow> sim_state \<Rightarrow> sim_state" where
  "track_peak value s =
     (let peak = (if flt (ss_max_equity s) value then value else ss_max_equity s);
          dd = fdiv (fsub peak value) peak
      in s\<lparr>ss_previous := AList.update ''_portfolio_'' value (ss_previous s), ss_max_equity := peak,
           ss_drawdown := (if flt (Fin 0) peak \<and> flt (ss_drawdown s) dd then dd else ss_drawdown s)\<rparr>)"

definition is_rerun :: "string \<Rightarrow> sim_state \<Rightarrow> bool" where
  "is_rerun key s \<longleftrightarrow> key \<noteq> [] \<and> ss_last_session s = key"

definition record_session :: "string \<Rightarrow> sim_state \<Rightarrow> (bool \<times> f64 \<times> bool) \<times> sim_state" where
  "record_session key s =
     (let value = PortfolioValue s; prev = amount ''_portfolio_'' (ss_previous s);
          (r, s1) = (if is_rerun key s then rerun_session value s else new_session key value prev s)
      in ((is_rerun key s, r), track_peak value s1))"

section \<open>A day\<close>

definition mark_to_market :: "quote_map \<Rightarrow> sim_state \<Rightarrow> sim_state" where
  "mark_to_market quotes s = s\<lparr>ss_positions := map (mark_position quotes) (ss_positions s)\<rparr>"

text \<open>The trading steps of a day: sales, trimming, holding limit, purchases.\<close>

definition trade_day ::
  "sim_engine \<Rightarrow> quote_map \<Rightarrow> recommendation list \<Rightarrow> string \<Rightarrow> time \<Rightarrow> sim_state \<Rightarrow> (order list \<times> trade_record list) \<times> string list \<times> sim_state" where
  "trade_day e quotes recs regime d s0 =
     (let ((orders1, trades1), events1, s1) = sell_step e quotes recs d (mark_to_market quotes s0);
          (trims, events2, s2) = trim_step e quotes d s1;
          (forced, events3, s3) = holding_step e quotes d s2;
          (bought, events4, s4) = buy_step e quotes recs regime d s3
      in ((orders1 @ map fst trims @ map fst forced @ bought, trades1 @ map snd trims @ map snd forced @ map buy_trade bought),
          events1 @ events2 @ events3 @ events4, s4))"

text \<open>The day is an instant \<open>d\<close> in a zone of offset \<open>z\<close>; the rules come back with their new streaks.\<close>

definition RunDay ::
  "sim_engine \<Rightarrow> (nat \<Rightarrow> quote_map \<Rightarrow> quote_map) \<Rightarrow> reflex_rule list \<Rightarrow> int \<Rightarrow> time \<Rightarrow> string \<Rightarrow> quote list \<Rightarrow> recommendation list \<Rightarrow> sim_state \<Rightarrow>
   day_result \<times> reflex_rule list \<times> sim_state" where
  "RunDay e visit rules z d regime qs recs0 s =
     (let quotes = quotes_by_symbol qs;
          (recs, rules') = apply_rules visit rules recs0 s quotes;
          ((orders, trades), events, s1) = trade_day e quotes recs regime d s;
          prev = amount ''_portfolio_'' (ss_previous s1);
          value = PortfolioValue s1;
          ((rerun, ret, recorded), s2) = record_session (SessionDateKey z d) s1
      in (\<lparr>dr_regime = regime, dr_orders = orders, dr_trades = trades, dr_positions = ss_positions s2, dr_cash = ss_cash s2, dr_value = value,
           dr_daily_pnl = (if feq prev (Fin 0) then fsub value (sc_starting_cash (en_constraints e)) else fsub value prev),
           dr_events = events, dr_rerun = rerun, dr_return = ret, dr_return_recorded = recorded\<rparr>, rules', s2))"

section \<open>Runs\<close>

record sim_result =
  sr_day :: day_result
  sr_taxes :: "tax_snapshot list"
  sr_before_tax :: f64
  sr_after_tax :: f64
  sr_tax_paid :: f64

definition deriveSimDay :: "quote list \<Rightarrow> time" where
  "deriveSimDay qs = (case find (\<lambda>q. q_as_of q \<noteq> zero_time) qs of Some q \<Rightarrow> q_as_of q | None \<Rightarrow> zero_time)"

definition computeTaxAdjustedResults :: "sim_engine \<Rightarrow> tax_config \<Rightarrow> sim_state \<Rightarrow> day_result \<Rightarrow> sim_result" where
  "computeTaxAdjustedResults e c s dres =
     (let prices = fold (\<lambda>pos. AList.update (p_symbol pos) (current_price pos)) (ss_positions s) [];
          snaps = CalculatePortfolioTax c (ss_positions s) prices (en_dividends e);
          tax = fold (\<lambda>snap sum. fadd sum (tn_total snap)) snaps (Fin 0);
          before = fsub (dr_value dres) (sc_starting_cash (en_constraints e))
      in \<lparr>sr_day = dres, sr_taxes = snaps, sr_before_tax = before, sr_after_tax = fsub before tax, sr_tax_paid = tax\<rparr>)"

text \<open>The result is that of the day with the taxes; \<open>z\<close> is the zone of the first dated quote.\<close>

definition RunWithState ::
  "sim_engine \<Rightarrow> (nat \<Rightarrow> quote_map \<Rightarrow> quote_map) \<Rightarrow> reflex_rule list \<Rightarrow> int \<Rightarrow> string \<Rightarrow> quote list \<Rightarrow> recommendation list \<Rightarrow> sim_state \<Rightarrow>
   sim_result \<times> reflex_rule list \<times> sim_state" where
  "RunWithState e visit rules z regime qs recs s =
     (let (dres, rules', s') = RunDay e visit rules z (deriveSimDay qs) regime qs recs s
      in (case en_tax e of
            Some c \<Rightarrow> computeTaxAdjustedResults e c s' dres
          | None \<Rightarrow> \<lparr>sr_day = dres\<lparr>dr_events := dr_events dres @ [''tax: nil calculator, skipping'']\<rparr>, sr_taxes = [], sr_before_tax = Fin 0,
                     sr_after_tax = Fin 0, sr_tax_paid = Fin 0\<rparr>, rules', s'))"

definition Run ::
  "sim_engine \<Rightarrow> (nat \<Rightarrow> quote_map \<Rightarrow> quote_map) \<Rightarrow> reflex_rule list \<Rightarrow> int \<Rightarrow> string \<Rightarrow> quote list \<Rightarrow> recommendation list \<Rightarrow>
   sim_result \<times> reflex_rule list \<times> sim_state" where
  "Run e visit rules z regime qs recs = RunWithState e visit rules z regime qs recs (NewSimulationState (sc_starting_cash (en_constraints e)))"

datatype frequency = FrequencyPerOutcome | FrequencyPerDay | FrequencyTWSE | FrequencyOther string

record sharpe_config =
  sh_frequency :: frequency
  sh_risk_free :: f64
  sh_min_samples :: int
  sh_guard :: f64

definition MeanSampleVariance :: "f64 list \<Rightarrow> f64 \<times> f64" where
  "MeanSampleVariance values =
     (if values = [] then (Fin 0, Fin 0)
      else
        (let n = int (length values); mean = fdiv (fold (\<lambda>v sum. fadd sum v) values (Fin 0)) (f64_of_int n)
         in if n < 2 then (mean, Fin 0)
            else (mean, fsqrt (fdiv (fold (\<lambda>v sq. fadd sq (fmul (fsub v mean) (fsub v mean))) values (Fin 0)) (f64_of_int (n - 1))))))"

definition ComputeSharpe :: "f64 list \<Rightarrow> sharpe_config \<Rightarrow> f64" where
  "ComputeSharpe returns cfg =
     (if int (length returns) < sh_min_samples cfg then Fin 0
      else
        (let (mean, dev) = MeanSampleVariance returns
         in if flt (Fin 0) (sh_guard cfg) \<and> \<not> feq mean (Fin 0) \<and> flt (fabs (fdiv dev mean)) (sh_guard cfg) then Fin 0
            else if feq dev (Fin 0) then Fin 0
            else
              (let sharpe = fdiv (fsub mean (sh_risk_free cfg)) dev
               in case sh_frequency cfg of
                    FrequencyPerDay \<Rightarrow> fmul sharpe (fsqrt (Fin 252))
                  | FrequencyTWSE \<Rightarrow> fmul sharpe (fsqrt (Fin 243))
                  | _ \<Rightarrow> sharpe)))"

definition calculateSharpe :: "f64 list \<Rightarrow> f64" where
  "calculateSharpe returns =
     ComputeSharpe returns \<lparr>sh_frequency = FrequencyPerDay, sh_risk_free = Fin 0, sh_min_samples = 60, sh_guard = Fin 0\<rparr>"

record sim_report =
  sp_return :: f64
  sp_sharpe :: f64
  sp_drawdown :: f64
  sp_equity :: "f64 list"
  sp_trades :: int
  sp_start :: time
  sp_end :: time
  sp_events :: "string list"

text \<open>A date of a run in several days: an instant, the offset of its zone and the visiting orders of that day.\<close>

type_synonym run_date = "time \<times> int \<times> (nat \<Rightarrow> quote_map \<Rightarrow> quote_map)"

fun run_dates ::
  "sim_engine \<Rightarrow> string \<Rightarrow> (string \<times> quote list) list \<Rightarrow> (string \<times> recommendation list) list \<Rightarrow> run_date list \<Rightarrow> reflex_rule list \<Rightarrow> sim_state \<Rightarrow>
   day_result list \<times> sim_state" where
  "run_dates e regime quotesBy recsBy [] rules s = ([], s)"
| "run_dates e regime quotesBy recsBy ((d, z, visit) # dates) rules s =
     (let key = format_date z d;
          qs = (case map_of quotesBy key of Some qs \<Rightarrow> qs | None \<Rightarrow> []);
          recs = (case map_of recsBy key of Some recs \<Rightarrow> recs | None \<Rightarrow> []);
          (dres, rules', s1) = RunDay e visit rules z d regime qs recs s;
          (days, s2) = run_dates e regime quotesBy recsBy dates rules' s1
      in (dres # days, s2))"

definition RunMultiDay ::
  "sim_engine \<Rightarrow> string \<Rightarrow> (string \<times> quote list) list \<Rightarrow> (string \<times> recommendation list) list \<Rightarrow> run_date list \<Rightarrow> reflex_rule list \<Rightarrow> sim_report" where
  "RunMultiDay e regime quotesBy recsBy dates rules =
     (let (days, s) = run_dates e regime quotesBy recsBy dates rules (NewSimulationState (sc_starting_cash (en_constraints e)));
          equity = ss_equity s
      in \<lparr>sp_return = (if equity \<noteq> [] \<and> flt (Fin 0) (hd equity) then fdiv (fsub (last equity) (hd equity)) (hd equity) else Fin 0),
          sp_sharpe = (if 1 < length (ss_returns s) then calculateSharpe (ss_returns s) else Fin 0),
          sp_drawdown = ss_drawdown s, sp_equity = equity,
          sp_trades = sum_list (map (\<lambda>dres. int (length (dr_orders dres))) days),
          sp_start = (case dates of [] \<Rightarrow> zero_time | (d, _) # _ \<Rightarrow> d),
          sp_end = (if dates = [] then zero_time else fst (last dates)),
          sp_events = concat (map dr_events days)\<rparr>)"

end
