(* ===== verification/Sim_Run.thy ===== *)
theory Sim_Run
  imports Sim_Day
begin

text \<open>
  The steps of a simulated day and what they leave alone, and that a run conserves shares.
\<close>

named_theorems day_simps

section \<open>The steps of a day\<close>

lemma RunDay_orders:
  "dr_orders (fst (RunDay e visit rules z d regime qs recs s)) =
   fst (fst (trade_day e (quotes_by_symbol qs) (fst (apply_rules visit rules recs s (quotes_by_symbol qs))) regime d s))"
  by (simp add: RunDay_def Let_def case_prod_beta)

lemma RunDay_state:
  "snd (snd (RunDay e visit rules z d regime qs recs s)) =
   snd (record_session (SessionDateKey z d)
     (snd (snd (trade_day e (quotes_by_symbol qs) (fst (apply_rules visit rules recs s (quotes_by_symbol qs))) regime d s))))"
  by (simp add: RunDay_def Let_def case_prod_beta)

lemma creditCash_frame [day_simps]:
  "ss_positions (creditCashWithTPlus2Lock a d s) = ss_positions s" "ss_equity (creditCashWithTPlus2Lock a d s) = ss_equity s"
  "ss_returns (creditCashWithTPlus2Lock a d s) = ss_returns s" "ss_previous (creditCashWithTPlus2Lock a d s) = ss_previous s"
  "ss_last_session (creditCashWithTPlus2Lock a d s) = ss_last_session s" "ss_drawdown (creditCashWithTPlus2Lock a d s) = ss_drawdown s"
  "ss_max_equity (creditCashWithTPlus2Lock a d s) = ss_max_equity s"
  by (simp_all add: creditCashWithTPlus2Lock_def)

lemma realize_frame [day_simps]:
  "ss_positions (realize n p c s) = ss_positions s" "ss_equity (realize n p c s) = ss_equity s"
  "ss_returns (realize n p c s) = ss_returns s" "ss_previous (realize n p c s) = ss_previous s"
  "ss_last_session (realize n p c s) = ss_last_session s" "ss_drawdown (realize n p c s) = ss_drawdown s"
  "ss_max_equity (realize n p c s) = ss_max_equity s"
  by (simp_all add: realize_def)

text \<open>The fields of the state that only the metrics write.\<close>

definition history :: "sim_state \<Rightarrow> f64 list \<times> f64 list \<times> string \<times> f64 \<times> f64 \<times> (string \<times> f64) list" where
  "history s = (ss_equity s, ss_returns s, ss_last_session s, ss_drawdown s, ss_max_equity s, ss_previous s)"

lemma history_credit [day_simps]: "history (creditCashWithTPlus2Lock a d s) = history s"
  by (simp add: history_def day_simps)

lemma history_realize [day_simps]: "history (realize n p c s) = history s"
  by (simp add: history_def day_simps)

lemma history_positions [day_simps]: "history (s\<lparr>ss_positions := ps\<rparr>) = history s" "history (s\<lparr>ss_cash := c\<rparr>) = history s"
  by (simp_all add: history_def)

lemma sides_distinct [simp]: "SideBuy \<noteq> SideSell" "SideSell \<noteq> SideBuy"
  by (simp_all add: SideBuy_def SideSell_def)

lemma traded_other_side: "list_all (\<lambda>ord. o_side ord = a) os \<Longrightarrow> a \<noteq> b \<Longrightarrow> traded b y os = 0"
  by (induction os) auto

text \<open>What a selling step does: the positions \<open>ps\<close> become \<open>kept\<close> and the orders are sales of the difference.\<close>

definition sheds :: "position list \<Rightarrow> order list \<Rightarrow> position list \<Rightarrow> bool" where
  "sheds ps os kept \<longleftrightarrow> list_all (\<lambda>ord. o_side ord = SideSell) os \<and> (\<forall>y. held y kept + traded SideSell y os = held y ps)"

lemma sheds_intros [day_simps]:
  "sheds ps [] ps" "sheds ps os kept \<Longrightarrow> sheds (pos # ps) os (pos # kept)"
  "sheds ps os kept \<Longrightarrow> o_side ord = SideSell \<Longrightarrow> o_symbol ord = p_symbol pos \<Longrightarrow> o_quantity ord = p_quantity pos \<Longrightarrow>
   sheds (pos # ps) (ord # os) kept"
  "sheds ps os kept \<Longrightarrow> o_side ord = SideSell \<Longrightarrow> o_symbol ord = p_symbol pos \<Longrightarrow> p_symbol pos' = p_symbol pos \<Longrightarrow>
   p_quantity pos' = p_quantity pos - o_quantity ord \<Longrightarrow> sheds (pos # ps) (ord # os) (pos' # kept)"
  by (auto simp: sheds_def algebra_simps)

lemma sheds_append: "sheds ps os qs \<Longrightarrow> sheds qs os' rs \<Longrightarrow> sheds ps (os @ os') rs"
  by (simp add: sheds_def) (metis add.assoc add.commute)

lemma sell_loop_props:
  "sell_loop e quotes recs d ps s = (kept, sold, events, s') \<Longrightarrow> sheds ps (map sell_order sold) kept \<and> history s' = history s"
  by (induction e quotes recs d ps s arbitrary: kept sold events s' rule: sell_loop.induct)
    (auto simp: Let_def sell_order_def day_simps split: option.splits prod.splits)

lemma trim_loop_props:
  "trim_loop e quotes d w limit ps s = (kept, sold, events, s') \<Longrightarrow> sheds ps (map fst sold) kept \<and> history s' = history s"
  by (induction e quotes d w limit ps s arbitrary: kept sold events s' rule: trim_loop.induct)
    (auto simp: Let_def forced_order_def day_simps split: option.splits prod.splits)

lemma holding_loop_props:
  "holding_loop e quotes d ps s = (kept, sold, events, s') \<Longrightarrow> sheds ps (map fst sold) kept \<and> history s' = history s"
  by (induction e quotes d ps s arbitrary: kept sold events s' rule: holding_loop.induct)
    (auto simp: Let_def forced_order_def day_simps split: option.splits prod.splits)

lemma history_fold_realize [day_simps]:
  "history (fold (\<lambda>sd. realize (n sd) (p sd) (c sd)) sds s) = history s"
  "ss_positions (fold (\<lambda>sd. realize (n sd) (p sd) (c sd)) sds s) = ss_positions s"
  by (induction sds arbitrary: s) (simp_all add: day_simps)

lemma sell_step_props:
  "sell_step e quotes recs d s = ((orders, trades), events, s') \<Longrightarrow>
   sheds (ss_positions s) orders (ss_positions s') \<and> history s' = history s"
  by (auto simp: sell_step_def SellLogicEnabled_def executeSells_def Let_def day_simps split: prod.splits dest!: sell_loop_props)

lemma trim_step_props:
  "trim_step e quotes d s = (sold, events, s') \<Longrightarrow> sheds (ss_positions s) (map fst sold) (ss_positions s') \<and> history s' = history s"
  by (auto simp: trim_step_def Let_def day_simps split: prod.splits option.splits if_splits dest!: trim_loop_props)

lemma holding_step_props:
  "holding_step e quotes d s = (sold, events, s') \<Longrightarrow> sheds (ss_positions s) (map fst sold) (ss_positions s') \<and> history s' = history s"
  by (auto simp: holding_step_def Let_def day_simps split: prod.splits if_splits dest!: holding_loop_props)

section \<open>Purchases add shares\<close>

lemma wrap64_dvd: "2 ^ 64 dvd wrap64 x - x"
proof -
  have "wrap64 x - x = - (2 ^ 64 * ((x + 2 ^ 63) div 2 ^ 64))"
    by (simp add: wrap64_def minus_mult_div_eq_mod[symmetric] del: One_nat_def)
  then show ?thesis by simp
qed

lemma held_append:
  "2 ^ 64 dvd held y (appendOrUpdatePosition ps new d) - (held y ps + (if p_symbol new = y then p_quantity new else 0))"
proof (induction ps)
  case (Cons pos ps)
  show ?case
    using Cons wrap64_dvd[of "p_quantity pos + p_quantity new"]
    by (auto simp: add_shares_def Let_def algebra_simps)
qed simp

lemma bought_position_simps [simp]:
  "p_symbol (bought_position ord q) = o_symbol ord" "p_quantity (bought_position ord q) = o_quantity ord"
  by (simp_all add: bought_position_def)

text \<open>A candidate function that buys only.\<close>

definition buys_only :: "('c \<Rightarrow> f64 \<Rightarrow> f64 \<Rightarrow> string list \<times> (order \<times> quote) option) \<Rightarrow> bool" where
  "buys_only candidate \<longleftrightarrow> (\<forall>c cash budget evs ord q. candidate c cash budget = (evs, Some (ord, q)) \<longrightarrow> o_side ord = SideBuy)"

definition adds :: "position list \<Rightarrow> order list \<Rightarrow> position list \<Rightarrow> bool" where
  "adds ps os ps' \<longleftrightarrow> list_all (\<lambda>ord. o_side ord = SideBuy) os \<and> (\<forall>y. 2 ^ 64 dvd held y ps' - (held y ps + traded SideBuy y os))"

lemma buy_loop_adds:
  "buys_only candidate \<Longrightarrow> buy_loop candidate maxOpen d cs cash budget ps = (orders, events, ps') \<Longrightarrow> adds ps orders ps'"
proof (induction candidate maxOpen d cs cash budget ps arbitrary: orders events ps' rule: buy_loop.induct)
  case (2 candidate maxOpen d c cs cash budget ps)
  show ?case
  proof (cases "maxOpen \<le> int (length ps)")
    case False
    obtain evs pick where c: "candidate c cash budget = (evs, pick)" by fastforce
    show ?thesis
    proof (cases pick)
      case None
      with 2 False c show ?thesis by (auto simp: Let_def split: prod.splits)
    next
      case (Some oq)
      obtain ord q where oq: "oq = (ord, q)" by fastforce
      define qs where "qs = appendOrUpdatePosition ps (bought_position ord q) d"
      obtain os es where r: "buy_loop candidate maxOpen d cs (fsub cash (order_cost ord)) (fsub budget (order_cost ord)) qs = (os, es, ps')"
        and o: "orders = ord # os" using 2(4) False c Some oq by (auto simp: qs_def Let_def split: prod.splits)
      have a: "adds qs os ps'" using 2(2)[OF False c[symmetric] _ _ 2(3)] Some oq r by (simp add: qs_def)
      have side: "o_side ord = SideBuy" using 2(3) c Some oq unfolding buys_only_def by blast
      have "2 ^ 64 dvd held y qs - (held y ps + (if o_symbol ord = y then o_quantity ord else 0))" for y
        using held_append[of y ps "bought_position ord q" d] by (auto simp: qs_def split: if_splits)
      then have "2 ^ 64 dvd held y ps' - (held y ps + traded SideBuy y orders)" for y
        using dvd_add[of "2 ^ 64" "held y qs - (held y ps + (if o_symbol ord = y then o_quantity ord else 0))"
            "held y ps' - (held y qs + traded SideBuy y os)"] a o side
        by (auto simp: adds_def algebra_simps split: if_splits)
      with a o side show ?thesis by (simp add: adds_def)
    qed
  qed (use 2 in \<open>simp add: adds_def\<close>)
qed (simp add: adds_def)

lemma legacy_candidate_order:
  assumes "legacy_candidate e quotes maxPer rec cash budget = (evs, Some (ord, q))"
  shows "o_side ord = SideBuy \<and> o_symbol ord = rc_symbol rec \<and> o_reason ord = rc_reason rec \<and> rc_side rec = SideBuy \<and>
    effectiveConvictionFloor e \<le> rc_conviction rec \<and> buyable_quote e quotes (o_symbol ord) = Some q \<and>
    0 < o_quantity ord \<and> o_quantity ord = lots_of_100 (fmin maxPer budget) (o_price ord) \<and> \<not> flt cash (order_cost ord)"
  using assms
  by (auto simp: legacy_candidate_def legacy_size_def buy_order_def Let_def split: if_splits option.splits prod.splits)

lemma optimizer_candidate_order:
  assumes "optimizer_candidate e quotes maxPer recs wish cash budget = (evs, Some (ord, q))"
  shows "o_side ord = SideBuy \<and> o_symbol ord = o_symbol wish \<and> o_reason ord = o_reason wish \<and> o_side wish = SideBuy \<and>
    (\<exists>rec \<in> set recs. rc_symbol rec = o_symbol ord \<and> effectiveConvictionFloor e \<le> rc_conviction rec) \<and>
    buyable_quote e quotes (o_symbol ord) = Some q \<and> 0 < o_quantity ord \<and>
    (o_quantity ord = o_quantity wish \<and> \<not> flt (fmin maxPer budget) (order_cost ord) \<or>
     o_quantity ord = lots_of_100 (fmin maxPer budget) (o_price ord)) \<and> \<not> flt cash (order_cost ord)"
  using assms
  by (auto simp: optimizer_candidate_def optimizer_size_def legacy_size_def buy_order_def order_cost_def Let_def
      split: if_splits option.splits prod.splits)

lemma buys_only_candidates [intro]:
  "buys_only (legacy_candidate e quotes maxPer)" "buys_only (optimizer_candidate e quotes maxPer recs)"
  by (auto simp: buys_only_def dest: legacy_candidate_order optimizer_candidate_order)

text \<open>The recommendations that reach the buying loop.\<close>

definition gated :: "sim_engine \<Rightarrow> f64 \<Rightarrow> position list \<Rightarrow> recommendation list \<Rightarrow> recommendation list" where
  "gated e cash ps recs = (case en_gate e of Some g \<Rightarrow> filterByPreTradeGate e g cash ps recs | None \<Rightarrow> recs)"

lemma gated_subset: "set (gated e cash ps recs) \<subseteq> set recs"
proof -
  have "set (gate_recs g recs pf) \<subseteq> set recs" for g pf
  proof (induction recs arbitrary: pf)
    case (Cons rec recs)
    obtain passed pf' where "gate_rec g rec pf = (passed, pf')" by fastforce
    with Cons.IH[of pf'] show ?case by auto
  qed simp
  then show ?thesis by (simp add: gated_def filterByPreTradeGate_def split: option.split)
qed

text \<open>Either path is the shared loop over its own candidates.\<close>

lemma executeBuys_cases:
  assumes "executeBuys e cash ps quotes recs regime d budget = (orders, events, ps')"
  obtains (legacy) events' where
    "buy_loop (legacy_candidate e quotes (max_per_position e regime cash)) (sc_max_open (en_constraints e)) d
       (sort_key rec_key (gated e cash ps recs)) cash budget ps = (orders, events', ps')"
  | (optimizer) wishes where
    "buy_loop (optimizer_candidate e quotes (max_per_position e regime cash) (gated e cash ps recs)) (sc_max_open (en_constraints e)) d
       wishes cash budget ps = (orders, events, ps')" "en_optimizer e \<noteq> None"
  using assms
  by (auto simp: executeBuys_def gated_def executeLegacyBuys_def executeOptimizerBuys_def Let_def split: option.splits prod.splits)

lemma executeBuys_adds: "executeBuys e cash ps quotes recs regime d budget = (orders, events, ps') \<Longrightarrow> adds ps orders ps'"
  by (erule executeBuys_cases) (auto intro: buy_loop_adds)

lemma buy_step_props:
  "buy_step e quotes recs regime d s = (orders, events, s') \<Longrightarrow> adds (ss_positions s) orders (ss_positions s') \<and> history s' = history s"
  by (auto simp: buy_step_def Let_def history_def split: prod.splits dest!: executeBuys_adds)

section \<open>Shares are conserved\<close>

lemma held_mark [simp]: "held y (map (mark_position quotes) ps) = held y ps"
  by (induction ps) (auto simp: mark_position_def split: option.split)

lemma trade_day_props:
  assumes "trade_day e quotes recs regime d s = ((orders, trades), events, s')"
  obtains sold bought s3 events' where "orders = sold @ bought"
    "sheds (map (mark_position quotes) (ss_positions s)) sold (ss_positions s3)" "adds (ss_positions s3) bought (ss_positions s')"
    "history s' = history s" "buy_step e quotes recs regime d s3 = (bought, events', s')"
proof -
  obtain o1 t1 v1 s1 where 1: "sell_step e quotes recs d (mark_to_market quotes s) = ((o1, t1), v1, s1)" by (metis prod.collapse)
  obtain o2 v2 s2 where 2: "trim_step e quotes d s1 = (o2, v2, s2)" by (metis prod.collapse)
  obtain o3 v3 s3 where 3: "holding_step e quotes d s2 = (o3, v3, s3)" by (metis prod.collapse)
  obtain o4 v4 s4 where 4: "buy_step e quotes recs regime d s3 = (o4, v4, s4)" by (metis prod.collapse)
  have eq: "orders = (o1 @ map fst o2 @ map fst o3) @ o4" "s' = s4" using assms 1 2 3 4 by (simp_all add: trade_day_def Let_def)
  have "sheds (ss_positions (mark_to_market quotes s)) (o1 @ map fst o2 @ map fst o3) (ss_positions s3)"
    using sell_step_props[OF 1] trim_step_props[OF 2] holding_step_props[OF 3] by (meson sheds_append)
  then have a: "sheds (map (mark_position quotes) (ss_positions s)) (o1 @ map fst o2 @ map fst o3) (ss_positions s3)"
    by (simp add: mark_to_market_def)
  have "history (mark_to_market quotes s) = history s" by (simp add: mark_to_market_def day_simps)
  then show thesis
    using that[OF eq(1) a] 4 eq(2) sell_step_props[OF 1] trim_step_props[OF 2] holding_step_props[OF 3] buy_step_props[OF 4] by metis
qed

lemma session_positions [simp]:
  "ss_positions (snd (rerun_session v s)) = ss_positions s" "ss_positions (snd (new_session key v prev s)) = ss_positions s"
  "ss_positions (track_peak v s) = ss_positions s"
  by (simp_all add: rerun_session_def new_session_def track_peak_def Let_def)

lemma record_session_positions [simp]: "ss_positions (snd (record_session key s)) = ss_positions s"
  by (simp add: record_session_def Let_def case_prod_beta)

definition balance :: "string \<Rightarrow> order list \<Rightarrow> int" where
  "balance y os = traded SideBuy y os - traded SideSell y os"

lemma trade_day_conserves:
  assumes "trade_day e quotes recs regime d s = ((orders, trades), events, s')"
  shows "2 ^ 64 dvd held y (ss_positions s') - (held y (ss_positions s) + balance y orders)"
proof -
  obtain sold bought s3 events' where p: "orders = sold @ bought"
    "sheds (map (mark_position quotes) (ss_positions s)) sold (ss_positions s3)" "adds (ss_positions s3) bought (ss_positions s')"
    "history s' = history s" "buy_step e quotes recs regime d s3 = (bought, events', s')"
    by (rule trade_day_props[OF assms])
  have "traded SideBuy y sold = 0" "traded SideSell y bought = 0"
    using p by (auto simp: sheds_def adds_def intro: traded_other_side)
  then have b: "balance y orders = traded SideBuy y bought - traded SideSell y sold" using p(1) by (simp add: balance_def)
  have "held y (ss_positions s3) + traded SideSell y sold = held y (ss_positions s)" using p(2) unfolding sheds_def held_mark by blast
  moreover have "2 ^ 64 dvd held y (ss_positions s') - (held y (ss_positions s3) + traded SideBuy y bought)" using p(3) unfolding adds_def by blast
  ultimately show ?thesis unfolding b by (metis add_diff_eq add_diff_cancel_right' diff_add_eq)
qed

lemma RunDay_conserves:
  "2 ^ 64 dvd held y (ss_positions (snd (snd (RunDay e visit rules z d regime qs recs s)))) -
     (held y (ss_positions s) + balance y (dr_orders (fst (RunDay e visit rules z d regime qs recs s))))"
  unfolding RunDay_orders RunDay_state record_session_positions
  by (rule trade_day_conserves[where trades = "snd (fst (trade_day _ _ _ _ _ _))"]) (simp add: prod_eq_iff)

text \<open>
  C19 (invariant). No shares appear or vanish: over any run of days, with whatever rules, optimizer, costs and quotes, the shares of a symbol
  at the end are those at the start plus the shares of all purchase orders minus those of all sale orders that the
  days report, up to the wrap-around of a 64-bit quantity.
\<close>

theorem shares_are_conserved:
  "2 ^ 64 dvd held y (ss_positions (snd (run_dates e regime quotesBy recsBy dates rules s))) -
     (held y (ss_positions s) +
      (\<Sum>dres \<leftarrow> fst (run_dates e regime quotesBy recsBy dates rules s).
         traded SideBuy y (dr_orders dres) - traded SideSell y (dr_orders dres)))"
proof (induction dates arbitrary: rules s)
  case (Cons date dates)
  obtain d z visit where date: "date = (d, z, visit)" by (metis prod.collapse)
  define qs where "qs = (case map_of quotesBy (format_date z d) of Some qs \<Rightarrow> qs | None \<Rightarrow> [])"
  define recs where "recs = (case map_of recsBy (format_date z d) of Some recs \<Rightarrow> recs | None \<Rightarrow> [])"
  obtain dres rules' s1 where 1: "RunDay e visit rules z d regime qs recs s = (dres, rules', s1)" by (metis prod.collapse)
  have "2 ^ 64 dvd held y (ss_positions s1) - (held y (ss_positions s) + balance y (dr_orders dres))"
    using RunDay_conserves[of y e visit rules z d regime qs recs s] 1 by simp
  from dvd_add[OF this Cons.IH[of rules' s1]] 1 show ?case
    by (simp add: date balance_def algebra_simps Let_def case_prod_beta flip: qs_def recs_def)
qed simp

end
