(* ===== verification/Sim_Buys.thy ===== *)
theory Sim_Buys
  imports Sim_Run "HOL-Library.Multiset"
begin

text \<open>
  The purchases of a simulated day: why an order exists, what it may cost, that the arrangement of the recommendations does not
  matter, and the exposure ceiling.
\<close>

section \<open>Every purchase has a reason\<close>

lemma buy_loop_full [simp]: "maxOpen \<le> int (length ps) \<Longrightarrow> buy_loop candidate maxOpen d cs cash budget ps = ([], [], ps)"
  by (cases cs) simp_all

lemma buy_loop_orders:
  "buy_loop candidate maxOpen d cs cash budget ps = (orders, events, ps') \<Longrightarrow> ord \<in> set orders \<Longrightarrow>
   \<exists>c \<in> set cs. \<exists>cash' budget' evs q. candidate c cash' budget' = (evs, Some (ord, q))"
proof (induction cs arbitrary: cash budget ps orders events ps')
  case (Cons c cs)
  show ?case
  proof (cases "maxOpen \<le> int (length ps)")
    case False
    obtain evs pick where c: "candidate c cash budget = (evs, pick)" by fastforce
    show ?thesis
    proof (cases pick)
      case None
      with Cons.prems False c Cons.IH show ?thesis by (fastforce simp: Let_def split: prod.splits)
    next
      case (Some oq)
      obtain o1 q where oq: "oq = (o1, q)" by fastforce
      obtain os es where r: "buy_loop candidate maxOpen d cs (fsub cash (order_cost o1)) (fsub budget (order_cost o1))
          (appendOrUpdatePosition ps (bought_position o1 q) d) = (os, es, ps')"
        and o: "orders = o1 # os" using Cons.prems(1) False c Some oq by (auto simp: Let_def split: prod.splits)
      show ?thesis
      proof (cases "ord = o1")
        case True
        with c Some oq show ?thesis by auto
      next
        case False
        with o Cons.prems(2) have "ord \<in> set os" by simp
        from Cons.IH[OF r this] show ?thesis by auto
      qed
    qed
  qed (use Cons.prems in simp)
qed simp

text \<open>What makes a purchase of the symbol \<open>y\<close> for the reason \<open>why\<close> legitimate.\<close>

definition buy_reason :: "sim_engine \<Rightarrow> quote_map \<Rightarrow> recommendation list \<Rightarrow> order \<Rightarrow> bool" where
  "buy_reason e quotes recs ord \<longleftrightarrow>
     0 < o_quantity ord \<and>
     (\<exists>q. map_of quotes (o_symbol ord) = Some q \<and> q_tradable q \<and> sc_min_volume (en_constraints e) \<le> q_volume q) \<and>
     (\<exists>rec \<in> set recs. rc_symbol rec = o_symbol ord \<and> effectiveConvictionFloor e \<le> rc_conviction rec \<and>
        (en_optimizer e = None \<longrightarrow> rc_side rec = SideBuy \<and> rc_reason rec = o_reason ord))"

lemma buyable_quote_cases:
  "buyable_quote e quotes y = Some q \<longleftrightarrow> map_of quotes y = Some q \<and> q_tradable q \<and> sc_min_volume (en_constraints e) \<le> q_volume q"
  by (auto simp: buyable_quote_def split: option.splits)

lemma executeBuys_reason:
  assumes "executeBuys e cash ps quotes recs regime d budget = (orders, events, ps')" "ord \<in> set orders"
  shows "buy_reason e quotes recs ord"
proof -
  have sub: "rec \<in> set recs" if "rec \<in> set (gated e cash ps recs)" for rec using that gated_subset by blast
  show ?thesis
    using assms(1)
  proof (cases rule: executeBuys_cases)
    case (legacy events')
    from buy_loop_orders[OF legacy assms(2)] obtain rec cash' budget' evs q where
      r: "rec \<in> set (gated e cash ps recs)" "legacy_candidate e quotes (max_per_position e regime cash) rec cash' budget' = (evs, Some (ord, q))"
      by auto
    from legacy_candidate_order[OF r(2)] sub[OF r(1)] show ?thesis by (auto simp: buy_reason_def buyable_quote_cases)
  next
    case (optimizer wishes)
    from buy_loop_orders[OF optimizer(1) assms(2)] obtain wish cash' budget' evs q where
      "optimizer_candidate e quotes (max_per_position e regime cash) (gated e cash ps recs) wish cash' budget' = (evs, Some (ord, q))"
      by auto
    from optimizer_candidate_order[OF this] sub optimizer(2) show ?thesis by (auto simp: buy_reason_def buyable_quote_cases)
  qed
qed

lemma trade_day_buys:
  assumes "trade_day e quotes recs regime d s = ((orders, trades), events, s')" "ord \<in> set orders" "o_side ord = SideBuy"
  shows "buy_reason e quotes recs ord"
proof -
  obtain sold bought s3 events' where p: "orders = sold @ bought"
    "sheds (map (mark_position quotes) (ss_positions s)) sold (ss_positions s3)" "adds (ss_positions s3) bought (ss_positions s')"
    "history s' = history s" "buy_step e quotes recs regime d s3 = (bought, events', s')"
    by (rule trade_day_props[OF assms(1)])
  have "ord \<notin> set sold" using p(2) assms(3) by (auto simp: sheds_def list_all_iff)
  then have "ord \<in> set bought" using assms(2) p(1) by simp
  with p(5) show ?thesis by (auto simp: buy_step_def Let_def split: prod.splits intro: executeBuys_reason)
qed

text \<open>
  C24 (safety). A purchase order of a day buys a positive number of shares of a symbol whose quote of that day is tradable with enough volume,
  and for which a recommendation reaches the conviction floor after the feedback rules; without an optimizer that
  recommendation is a purchase with the reason of the order.
\<close>

theorem purchases_are_justified:
  assumes "ord \<in> set (dr_orders (fst (RunDay e visit rules z d regime qs recs s)))" "o_side ord = SideBuy"
  shows "buy_reason e (quotes_by_symbol qs) (fst (apply_rules visit rules recs s (quotes_by_symbol qs))) ord"
  using assms unfolding RunDay_orders by (intro trade_day_buys[OF _ _ assms(2)]) (auto simp: prod_eq_iff)

section \<open>Purchases stay within the cash and the number of positions\<close>

text \<open>Orders that are paid one after the other: none costs more than the cash left.\<close>

fun paid :: "f64 \<Rightarrow> order list \<Rightarrow> bool" where
  "paid c [] = True"
| "paid c (ord # os) = (\<not> flt c (order_cost ord) \<and> paid (fsub c (order_cost ord)) os)"

lemma appendOrUpdate_length: "length (appendOrUpdatePosition ps new d) \<le> length ps + 1"
  by (induction ps) auto

lemma buy_loop_limits:
  assumes "\<And>c cash budget evs ord q. candidate c cash budget = (evs, Some (ord, q)) \<Longrightarrow> \<not> flt cash (order_cost ord)"
    and "buy_loop candidate maxOpen d cs cash budget ps = (orders, events, ps')"
  shows "paid cash orders \<and> int (length ps') \<le> max (int (length ps)) maxOpen"
  using assms(2)
proof (induction cs arbitrary: cash budget ps orders events ps')
  case (Cons c cs)
  show ?case
  proof (cases "maxOpen \<le> int (length ps)")
    case False
    obtain evs pick where c: "candidate c cash budget = (evs, pick)" by fastforce
    show ?thesis
    proof (cases pick)
      case None
      with Cons.prems False c Cons.IH show ?thesis by (fastforce simp: Let_def split: prod.splits)
    next
      case (Some oq)
      obtain o1 q where oq: "oq = (o1, q)" by fastforce
      obtain os es where r: "buy_loop candidate maxOpen d cs (fsub cash (order_cost o1)) (fsub budget (order_cost o1))
          (appendOrUpdatePosition ps (bought_position o1 q) d) = (os, es, ps')"
        and o: "orders = o1 # os" using Cons.prems False c Some oq by (auto simp: Let_def split: prod.splits)
      from Cons.IH[OF r] o assms(1) c Some oq appendOrUpdate_length[of ps "bought_position o1 q" d] False
      show ?thesis by fastforce
    qed
  qed (use Cons.prems in simp)
qed simp

text \<open>
  C34 (bounds). The purchases of a session can be paid one after the other from the available cash, on either buying path, and open no
  position beyond the limit.
\<close>

theorem purchases_within_limits:
  "paid cash (fst (executeBuys e cash ps quotes recs regime d budget)) \<and>
   int (length (snd (snd (executeBuys e cash ps quotes recs regime d budget)))) \<le> max (int (length ps)) (sc_max_open (en_constraints e))"
proof -
  obtain orders events ps' where x: "executeBuys e cash ps quotes recs regime d budget = (orders, events, ps')" by (metis prod.collapse)
  then show ?thesis
  proof (cases rule: executeBuys_cases)
    case (legacy events')
    from buy_loop_limits[OF _ legacy] legacy_candidate_order x show ?thesis by fastforce
  next
    case (optimizer wishes)
    from buy_loop_limits[OF _ optimizer(1)] optimizer_candidate_order x show ?thesis by fastforce
  qed
qed

section \<open>The arrangement of the recommendations\<close>

lemma buy_loop_skips:
  "buy_loop (legacy_candidate e quotes maxPer) maxOpen d rs cash budget ps =
   buy_loop (legacy_candidate e quotes maxPer) maxOpen d (buys rs) cash budget ps"
proof (induction rs arbitrary: cash budget ps)
  case (Cons rec rs)
  show ?case
  proof (cases "maxOpen \<le> int (length ps)")
    case False
    show ?thesis
    proof (cases "rc_side rec = SideBuy")
      case True
      then show ?thesis using False Cons.IH by (simp add: buys_def split: prod.split option.split)
    next
      case other: False
      then have "legacy_candidate e quotes maxPer rec cash budget = ([], None)" by (simp add: legacy_candidate_def)
      then show ?thesis using False other Cons.IH by (simp add: buys_def)
    qed
  qed simp
qed (simp add: buys_def)

lemma buy_loop_keys:
  assumes "map rec_key rs = map rec_key rs'" "list_all (\<lambda>rec. rc_side rec = SideBuy) rs" "list_all (\<lambda>rec. rc_side rec = SideBuy) rs'"
  shows "buy_loop (legacy_candidate e quotes maxPer) maxOpen d rs cash budget ps =
    buy_loop (legacy_candidate e quotes maxPer) maxOpen d rs' cash budget ps"
  using assms
proof (induction rs arbitrary: rs' cash budget ps)
  case (Cons rec rs)
  then obtain rec' rs1 where r: "rs' = rec' # rs1" "rec_key rec = rec_key rec'" "map rec_key rs = map rec_key rs1"
    by (cases rs') auto
  have "legacy_candidate e quotes maxPer rec cash budget = legacy_candidate e quotes maxPer rec' cash budget"
  proof -
    have "rc_conviction rec = rc_conviction rec'" "rc_symbol rec = rc_symbol rec'" "rc_reason rec = rc_reason rec'"
      using r(2) by (simp_all add: rec_key_def)
    moreover have "rc_side rec = rc_side rec'" using r(1) Cons.prems by simp
    ultimately show ?thesis by (simp only: legacy_candidate_def)
  qed
  then show ?case using Cons.IH[of rs1] Cons.prems r by (simp split: prod.split option.split)
qed simp

text \<open>
  C25 (equivalence). On the legacy buying path (no optimizer), for the recommendations that the pre-trade gate has let through:
  any arrangement of them that is sorted by conviction, symbol, agent and reason, whatever it does with recommendations that
  compare equal, gives the orders and the positions of the model.  So the unstable sort of this path does not matter, nor does
  the order in which it receives the recommendations.  The gate before it, which books cash and room in the order of the
  recommendations, the sales and the optimizer path are not part of the statement.
\<close>

theorem arrangement_does_not_matter:
  assumes "mset rs = mset recs" "sorted (map rec_key rs)"
  shows "buy_loop (legacy_candidate e quotes (max_per_position e regime cash)) (sc_max_open (en_constraints e)) d rs cash budget ps =
    executeLegacyBuys e cash ps quotes recs regime d budget"
proof -
  have sorted_buys: "sorted (map rec_key (buys xs))" if "sorted (map rec_key xs)" for xs
    using that by (simp add: buys_def sorted_filter)
  have "mset (map rec_key (buys rs)) = mset (map rec_key (buys (sort_key rec_key recs)))"
    using assms(1) by (simp add: buys_def)
  then have "map rec_key (buys rs) = map rec_key (buys (sort_key rec_key recs))"
    using sorted_buys[OF assms(2)] sorted_buys[of "sort_key rec_key recs"] by (metis properties_for_sort sorted_sort_key)
  then have "buy_loop (legacy_candidate e quotes m) x d (buys rs) cash budget ps =
      buy_loop (legacy_candidate e quotes m) x d (buys (sort_key rec_key recs)) cash budget ps" for m x
    by (rule buy_loop_keys) (simp_all add: buys_def list_all_iff)
  then show ?thesis unfolding executeLegacyBuys_def by (metis buy_loop_skips)
qed

section \<open>A day worked out\<close>

definition demo_constraints :: constraints where
  "demo_constraints =
     \<lparr>sc_starting_cash = Fin 819200, sc_max_weight = Fin (1 / 2), sc_max_open = 5, sc_min_volume = 0, sc_min_conviction = 50,
      sc_require_cro = False, sc_cost_bps = Fin 0, sc_discount_bps = Fin 0, sc_discount_threshold = Fin 0, sc_slippage_bps = Fin 0,
      sc_reserve = Fin 0, sc_stop_loss = Fin (1 / 8), sc_take_profit = Fin 0, sc_max_holding = 0\<rparr>"

definition demo_engine :: sim_engine where
  "demo_engine = NewEngine (Fin 1) demo_constraints"

definition demo_rec :: "string \<Rightarrow> recommendation" where
  "demo_rec side = \<lparr>rc_agent = ''a'', rc_symbol = ''2330'', rc_side = side, rc_conviction = 80, rc_target = Fin 0, rc_stop = Fin 0, rc_reason = ''up''\<rparr>"

definition demo_held :: sim_state where
  "demo_held = (NewSimulationState (Fin 819200))\<lparr>ss_positions := [\<lparr>p_symbol = ''2330'', p_quantity = 100, average_cost = Fin 128,
     current_price = Fin 128, market_value = Fin 12800, unrealized_pnl = Fin 0, entry_date = zero_time\<rparr>]\<rparr>"

definition demo_quotes :: "quote list" where
  "demo_quotes = [(demo_quote ''2330'' 5000)\<lparr>q_last := Fin 64\<rparr>]"

lemmas demo_defs =
  demo_engine_def demo_constraints_def NewEngine_def demo_held_def NewSimulationState_def demo_rec_def demo_quotes_def demo_quote_def

lemmas price_defs =
  applyBPS_def getSlippageBPS_def getImpactBPS_def transactionCostBPS_def IsEligibleForDiscountedCommission_def sell_price_bps_def buy_price_def

lemma seven_eighths: "rnd (7 / 8) = Fin (7 / 8)" "rnd (1 / 2) = Fin (1 / 2)"
  using rnd_dyadic[of 7 3] rnd_dyadic[of 1 1] by simp_all

lemma demo_sells:
  "sell_step demo_engine (quotes_by_symbol demo_quotes) [demo_rec SideBuy] 0 (mark_to_market (quotes_by_symbol demo_quotes) demo_held) =
     (([\<lparr>o_symbol = ''2330'', o_side = SideSell, o_quantity = 100, o_price = Fin 64, o_reason = ''stop_loss''\<rparr>],
       [\<lparr>tr_symbol = ''2330'', tr_side = SideSell, tr_quantity = 100, tr_price = Fin 64, tr_amount = Fin 6400, tr_reason = ''stop_loss''\<rparr>]), [],
      (NewSimulationState (Fin 819200))\<lparr>ss_cash := Fin 825600, ss_realized := Fin (- 6400),
        ss_locked := [\<lparr>lc_unlock = 172800000000000, lc_amount = Fin 6400\<rparr>]\<rparr>)"
  by (simp add: sell_step_def SellLogicEnabled_def demo_defs executeSells_def mark_to_market_def quotes_by_symbol_def mark_position_def
      tradable_quote_def shouldSellPosition_def f64_int fsub_def price_defs f64_simps creditCashWithTPlus2Lock_def Let_def rnd_neg
      seven_eighths sell_order_def sell_trade_def realize_def)

lemma demo_buys:
  "fst (buy_step demo_engine (quotes_by_symbol demo_quotes) [demo_rec SideBuy] [] 0
      ((NewSimulationState (Fin 819200))\<lparr>ss_cash := Fin 825600, ss_realized := Fin (- 6400),
        ss_locked := [\<lparr>lc_unlock = 172800000000000, lc_amount = Fin 6400\<rparr>]\<rparr>)) =
     [\<lparr>o_symbol = ''2330'', o_side = SideBuy, o_quantity = 6400, o_price = Fin 64, o_reason = ''up''\<rparr>]"
  by (simp add: buy_step_def executeBuys_def executeLegacyBuys_def AvailableCash_def exposureBudget_def demo_defs quotes_by_symbol_def
      legacy_candidate_def buyable_quote_def effectiveConvictionFloor_def max_per_position_def RegimeNeutral_def effectiveReserveCashFraction_def
      price_defs legacy_size_def lots_of_100_def buy_order_def order_cost_def fmin_def f64_max_def f64_int fsub_def f64_simps Let_def rnd_neg
      seven_eighths f64_to_i64_def i64_min_def i64_max_def case_prod_beta)

text \<open>
  A position that a stop loss closes is bought back in the same session, at the same price and in larger size, when a purchase is
  recommended.
\<close>

lemma bought_back_after_stop_loss:
  "fst (fst (trade_day demo_engine (quotes_by_symbol demo_quotes) [demo_rec SideBuy] [] 0 demo_held)) =
     [\<lparr>o_symbol = ''2330'', o_side = SideSell, o_quantity = 100, o_price = Fin 64, o_reason = ''stop_loss''\<rparr>,
      \<lparr>o_symbol = ''2330'', o_side = SideBuy, o_quantity = 6400, o_price = Fin 64, o_reason = ''up''\<rparr>]"
  using demo_buys
  by (simp add: trade_day_def demo_sells trim_step_def holding_step_def Let_def case_prod_beta)
    (simp add: demo_engine_def NewEngine_def demo_constraints_def)

lemma purchases_are_justified_witness:
  "buy_reason demo_engine (quotes_by_symbol demo_quotes) [demo_rec SideBuy]
     \<lparr>o_symbol = ''2330'', o_side = SideBuy, o_quantity = 6400, o_price = Fin 64, o_reason = ''up''\<rparr>"
  using purchases_are_justified[of "\<lparr>o_symbol = ''2330'', o_side = SideBuy, o_quantity = 6400, o_price = Fin 64, o_reason = ''up''\<rparr>"
      demo_engine "\<lambda>k qs. qs" "[]" 0 0 "[]" demo_quotes "[demo_rec SideBuy]" demo_held]
  by (simp add: RunDay_orders bought_back_after_stop_loss)

lemma arrangement_does_not_matter_witness:
  "buy_loop (legacy_candidate demo_engine (quotes_by_symbol demo_quotes) (max_per_position demo_engine [] (Fin 819200))) 5 0
     [demo_rec SideSell, demo_rec SideBuy] (Fin 819200) f64_max [] =
   executeLegacyBuys demo_engine (Fin 819200) [] (quotes_by_symbol demo_quotes) [demo_rec SideBuy, demo_rec SideSell] [] 0 f64_max"
  using arrangement_does_not_matter[of "[demo_rec SideSell, demo_rec SideBuy]" "[demo_rec SideBuy, demo_rec SideSell]" demo_engine
      "quotes_by_symbol demo_quotes" "[]" "Fin 819200" 0 f64_max "[]"]
  by (simp add: rec_key_def demo_rec_def demo_engine_def NewEngine_def demo_constraints_def add_mset_commute)

end
