(* ===== verification/Sim_Ceiling.thy ===== *)
theory Sim_Ceiling
  imports Sim_Buys
begin

text \<open>
  The exposure ceiling stops purchases, and the proceeds of a sale are available two calendar days later.
\<close>

section \<open>No purchase above the ceiling\<close>

abbreviation positive :: "f64 \<Rightarrow> bool" where
  "positive v \<equiv> flt (Fin 0) v"

lemma rnd_nonpos: "x \<le> 0 \<Longrightarrow> \<not> positive (rnd x)"
  using rnd_le[of 0 x] fle_not_flt by (simp add: is_f64_def)

lemma fdiv_nonpos: "\<not> positive a \<Longrightarrow> positive b \<Longrightarrow> \<not> positive (fdiv a b)"
  by (cases a; cases b) (auto simp: rnd_nonpos divide_nonpos_pos)

lemma fmul_nonpos: "\<not> positive a \<Longrightarrow> positive b \<Longrightarrow> \<not> positive (fmul a b)"
  by (cases a; cases b) (auto simp: rnd_nonpos mult_nonpos_nonneg inf_signed_def)

lemma ffloor_nonpos: "\<not> positive a \<Longrightarrow> \<not> positive (ffloor a)"
proof (cases a)
  case (Fin q)
  then show "\<not> positive a \<Longrightarrow> \<not> positive (ffloor a)" using of_int_floor_le[of q] by (auto intro: order_trans)
qed auto

lemma f64_to_i64_nonpos: "\<not> positive a \<Longrightarrow> f64_to_i64 a \<le> 0"
  by (cases a) (auto simp: f64_to_i64_def Let_def i64_min_def ceiling_le_iff floor_le_iff)

lemma fmin_nonpos: "\<not> positive b \<Longrightarrow> \<not> positive (fmin a b)"
  by (auto simp: fmin_def dest: flt_fle_trans not_flt_fle)

lemma lots_nonpos: "\<not> positive notional \<Longrightarrow> positive price \<Longrightarrow> lots_of_100 notional price \<le> 0"
  unfolding lots_of_100_def by (intro f64_to_i64_nonpos fmul_nonpos ffloor_nonpos fdiv_nonpos) simp_all

lemma fmul_positive:
  assumes "0 < n" "positive p" "is_f64 p"
  shows "positive (fmul (f64_of_int n) p)"
proof -
  have "is_f64 (Fin 1)" by simp
  then have one: "fle (Fin 1) (f64_of_int n)" unfolding f64_of_int_def using assms(1) by (intro rnd_ge) simp_all
  show ?thesis
  proof (cases p)
    case (Fin q)
    then have q: "0 < q" "is_f64 (Fin q)" using assms by simp_all
    show ?thesis
    proof (cases "f64_of_int n")
      case (Fin r)
      then have "q \<le> r * q" using one q(1) by simp
      with rnd_ge[OF q(2) this] q(1) Fin \<open>p = Fin q\<close> show ?thesis by (auto intro: flt_fle_trans[of "Fin 0" "Fin q"])
    qed (use one q \<open>p = Fin q\<close> in \<open>auto simp: inf_signed_def\<close>)
  next
    case PInf
    then show ?thesis using one by (cases "f64_of_int n") (auto simp: inf_signed_def)
  qed (use assms in auto)
qed

text \<open>Every quote has a positive price after costs.\<close>

definition positive_prices :: "sim_engine \<Rightarrow> quote_map \<Rightarrow> bool" where
  "positive_prices e quotes \<longleftrightarrow>
     (\<forall>y q notional. map_of quotes y = Some q \<longrightarrow> positive (buy_price e (fst (getSlippageBPS e y quotes)) notional q))"

lemma buy_price_is_f64: "is_f64 (buy_price e slip notional q)"
  by (simp add: buy_price_def applyBPS_def is_f64_fmul)

lemma legacy_candidate_none:
  assumes "positive_prices e quotes" "\<not> positive budget"
  shows "snd (legacy_candidate e quotes maxPer rec cash budget) = None"
proof -
  have "legacy_size (fmin maxPer budget) (buy_price e (fst (getSlippageBPS e (rc_symbol rec) quotes)) (fmin maxPer budget) q) = None"
    if "buyable_quote e quotes (rc_symbol rec) = Some q" for q
    using that assms(1) lots_nonpos[OF fmin_nonpos[OF assms(2)]]
    by (simp add: positive_prices_def buyable_quote_cases legacy_size_def Let_def)
  then show ?thesis by (auto simp: legacy_candidate_def Let_def case_prod_beta split: option.split)
qed

lemma optimizer_candidate_none:
  assumes "positive_prices e quotes" "\<not> positive budget" "budget \<noteq> NaN" "maxPer \<noteq> NaN"
  shows "snd (optimizer_candidate e quotes maxPer recs wish cash budget) = None"
proof -
  have limit: "\<not> positive (fmin maxPer budget)" "fmin maxPer budget \<noteq> NaN"
    by (rule fmin_nonpos[OF assms(2)]) (use assms(3,4) in \<open>simp add: fmin_def\<close>)
  have "optimizer_size n (fmin maxPer budget) (buy_price e (fst (getSlippageBPS e (o_symbol wish) quotes)) notional q) = None"
    if q: "buyable_quote e quotes (o_symbol wish) = Some q" for q n notional
  proof (cases "n \<le> 0")
    case False
    define price where "price = buy_price e (fst (getSlippageBPS e (o_symbol wish) quotes)) notional q"
    have price: "positive price" "is_f64 price" using assms(1) q by (simp_all add: positive_prices_def buyable_quote_cases price_def buy_price_is_f64)
    have "positive (fmul (f64_of_int n) price)" using False price by (intro fmul_positive) simp_all
    moreover have "fle (fmin maxPer budget) (Fin 0)" using limit by (intro not_flt_fle) simp_all
    ultimately have "flt (fmin maxPer budget) (fmul (f64_of_int n) price)" by (rule fle_flt_trans[rotated])
    moreover have "legacy_size (fmin maxPer budget) price = None" using lots_nonpos[OF limit(1) price(1)] by (simp add: legacy_size_def Let_def)
    ultimately show ?thesis using False by (simp add: optimizer_size_def flip: price_def)
  qed (simp add: optimizer_size_def)
  then show ?thesis by (auto simp: optimizer_candidate_def Let_def case_prod_beta split: option.split)
qed

lemma buy_loop_none:
  assumes "\<And>c. snd (candidate c cash budget) = None"
  shows "fst (buy_loop candidate maxOpen d cs cash budget ps) = [] \<and> snd (snd (buy_loop candidate maxOpen d cs cash budget ps)) = ps"
proof (induction cs)
  case (Cons c cs)
  obtain evs where "candidate c cash budget = (evs, None)" using assms[of c] by (cases "candidate c cash budget") simp
  with Cons show ?case by (simp add: Let_def case_prod_beta)
qed simp

lemma ceiling_budget:
  assumes "en_cap e = Some c" "flt c (Fin 1)" "exposure s = Fin x" "fle (fmul c (PortfolioValue s)) (Fin x)"
  shows "exposureBudget e s = Fin 0"
proof -
  have "\<not> fle (Fin 1) c" using assms(2) by (auto dest: fle_not_flt)
  moreover have "fsub (fmul c (PortfolioValue s)) (Fin x) = Fin 0 \<or> flt (fsub (fmul c (PortfolioValue s)) (Fin x)) (Fin 0)"
  proof (cases "fmul c (PortfolioValue s)")
    case (Fin a)
    then have "fle (rnd (a - x)) (Fin 0)" using assms(4) by (intro rnd_le) (simp_all add: is_f64_def)
    with Fin show ?thesis by (auto simp: fsub_def fle_def feq_def)
  qed (use assms(4) in \<open>auto simp: fsub_def\<close>)
  ultimately show ?thesis using assms(1,3) by (auto simp: exposureBudget_def Let_def)
qed

text \<open>
  While the positions are worth at least the ceiling times the portfolio, a session buys nothing, on either buying path and whatever is
  recommended or optimized, provided that prices after costs are positive and the limit per position is a number.
\<close>

lemma full_book_buys_nothing:
  assumes "en_cap e = Some c" "flt c (Fin 1)" "exposure s = Fin x" "fle (fmul c (PortfolioValue s)) (Fin x)"
    and "positive_prices e quotes" "max_per_position e regime (AvailableCash d s) \<noteq> NaN"
  shows "fst (buy_step e quotes recs regime d s) = [] \<and> ss_positions (snd (snd (buy_step e quotes recs regime d s))) = ss_positions s"
proof -
  let ?cash = "AvailableCash d s"
  have "\<not> positive (Fin 0)" by simp
  then have leg: "fst (executeLegacyBuys e ?cash ps quotes rs regime d (Fin 0)) = [] \<and>
      snd (snd (executeLegacyBuys e ?cash ps quotes rs regime d (Fin 0))) = ps" for ps rs
    unfolding executeLegacyBuys_def by (intro buy_loop_none legacy_candidate_none[OF assms(5)])
  have opt: "fst (executeOptimizerBuys e optimizer ?cash ps quotes rs regime d (Fin 0)) = [] \<and>
      snd (snd (executeOptimizerBuys e optimizer ?cash ps quotes rs regime d (Fin 0))) = ps" for optimizer ps rs
  proof (cases "optimizer rs quotes ?cash")
    case (Some wishes)
    have "snd (optimizer_candidate e quotes (max_per_position e regime ?cash) rs wish c (Fin 0)) = None" for wish c
      by (rule optimizer_candidate_none[OF assms(5) _ _ assms(6)]) simp_all
    from buy_loop_none[of "optimizer_candidate e quotes (max_per_position e regime ?cash) rs", OF this] Some show ?thesis
      by (simp add: executeOptimizerBuys_def)
  qed (use leg in \<open>simp add: executeOptimizerBuys_def Let_def case_prod_beta\<close>)
  show ?thesis
    using leg opt ceiling_budget[OF assms(1-4)] by (auto simp: buy_step_def executeBuys_def Let_def case_prod_beta split: option.split)
qed

definition demo_full :: sim_state where
  "demo_full = demo_held\<lparr>ss_cash := Fin 12800\<rparr>"

lemma quarter: "rnd (1 / 4) = Fin (1 / 4)"
  using rnd_dyadic[of 1 2] by simp

lemma full_book_facts:
  "exposure demo_full = Fin 12800" "fle (fmul (Fin (1 / 4)) (PortfolioValue demo_full)) (Fin 12800)"
  "positive_prices (WithExposureCap (Fin (1 / 4)) demo_engine) (quotes_by_symbol demo_quotes)"
  "max_per_position (WithExposureCap (Fin (1 / 4)) demo_engine) [] (AvailableCash 0 demo_full) \<noteq> NaN"
proof -
  show "exposure demo_full = Fin 12800" by (simp add: exposure_def demo_full_def demo_held_def f64_simps)
  show "fle (fmul (Fin (1 / 4)) (PortfolioValue demo_full)) (Fin 12800)"
    by (simp add: PortfolioValue_def demo_full_def demo_held_def f64_simps)
  show "positive_prices (WithExposureCap (Fin (1 / 4)) demo_engine) (quotes_by_symbol demo_quotes)"
    by (simp add: positive_prices_def WithExposureCap_def demo_engine_def NewEngine_def demo_constraints_def demo_quotes_def demo_quote_def
        quotes_by_symbol_def price_defs f64_simps)
  show "max_per_position (WithExposureCap (Fin (1 / 4)) demo_engine) [] (AvailableCash 0 demo_full) \<noteq> NaN"
    by (simp add: max_per_position_def effectiveReserveCashFraction_def WithExposureCap_def AvailableCash_def demo_full_def demo_defs
        RegimeNeutral_def fsub_def f64_simps)
qed

section \<open>Proceeds are locked for two calendar days\<close>

text \<open>
  The amounts of the sales of a day stay locked on that day and the next, and count as cash two calendar days later, at the weekend too: what is sold on
  a Friday is spent on the Monday, the next trading day.
\<close>

lemma proceeds_locked:
  "AvailableCash t (creditCashWithTPlus2Lock amt d s) =
     (let cash = AvailableCash t (s\<lparr>ss_cash := fadd (ss_cash s) amt\<rparr>) in if t < d + 48 * hour then fsub cash amt else cash)"
  by (simp add: AvailableCash_def creditCashWithTPlus2Lock_def Let_def)

end
