(* ===== verification/Sim_History.thy ===== *)
theory Sim_History
  imports Sim_Buys
begin

text \<open>
  What a run leaves behind: the equity curve has the closing value of every session, and the drawdown never recovers, so that the
  rule on losses dampens convictions for ever after the first deep loss.
\<close>

section \<open>One value per session\<close>

lemma RunDay_value:
  "dr_value (fst (RunDay e visit rules z d regime qs recs s)) =
   PortfolioValue (snd (snd (trade_day e (quotes_by_symbol qs) (fst (apply_rules visit rules recs s (quotes_by_symbol qs))) regime d s)))"
  by (simp add: RunDay_def Let_def case_prod_beta)

lemma trade_day_history: "history (snd (snd (trade_day e quotes recs regime d s))) = history s"
  by (rule trade_day_props[of e quotes recs regime d s "fst (fst (trade_day e quotes recs regime d s))"
        "snd (fst (trade_day e quotes recs regime d s))" "fst (snd (trade_day e quotes recs regime d s))"
        "snd (snd (trade_day e quotes recs regime d s))"]) simp_all

lemma record_session_equity:
  "ss_equity (snd (record_session key s)) =
     (if is_rerun key s then set_last (PortfolioValue s) (ss_equity s) else ss_equity s @ [PortfolioValue s])"
  "key \<noteq> [] \<Longrightarrow> ss_last_session (snd (record_session key s)) = key"
  by (simp_all add: record_session_def track_peak_def rerun_session_def new_session_def is_rerun_def Let_def case_prod_beta)

lemma RunDay_equity:
  fixes e visit rules z d regime qs recs s
  defines "v \<equiv> dr_value (fst (RunDay e visit rules z d regime qs recs s))"
    and "s' \<equiv> snd (snd (RunDay e visit rules z d regime qs recs s))"
  assumes "d \<noteq> zero_time"
  shows "ss_equity s' = (if ss_last_session s = format_date z d then set_last v (ss_equity s) else ss_equity s @ [v])"
    and "ss_last_session s' = format_date z d"
proof -
  define s1 where "s1 = snd (snd (trade_day e (quotes_by_symbol qs) (fst (apply_rules visit rules recs s (quotes_by_symbol qs))) regime d s))"
  have h: "ss_equity s1 = ss_equity s" "ss_last_session s1 = ss_last_session s"
    using trade_day_history[of e "quotes_by_symbol qs" "fst (apply_rules visit rules recs s (quotes_by_symbol qs))" regime d s]
    by (simp_all add: history_def s1_def)
  have key: "SessionDateKey z d = format_date z d" "format_date z d \<noteq> []"
    using assms(3) SessionDateKey_empty[of z d] by (auto simp: SessionDateKey_def)
  show "ss_equity s' = (if ss_last_session s = format_date z d then set_last v (ss_equity s) else ss_equity s @ [v])"
    "ss_last_session s' = format_date z d"
    using h key by (simp_all add: s'_def v_def RunDay_state RunDay_value record_session_equity is_rerun_def flip: s1_def)
qed

text \<open>The last value of every session in a sequence of dated values.\<close>

fun closes :: "(string \<times> f64) list \<Rightarrow> f64 list" where
  "closes [] = []"
| "closes [(k, v)] = [v]"
| "closes ((k, v) # (k', v') # r) = (if k = k' then closes ((k', v') # r) else v # closes ((k', v') # r))"

definition date_key :: "run_date \<Rightarrow> string" where
  "date_key x = (case x of (d, z, visit) \<Rightarrow> format_date z d)"

definition dated :: "run_date \<Rightarrow> bool" where
  "dated x \<longleftrightarrow> fst x \<noteq> zero_time"

lemma run_dates_equity:
  assumes "list_all dated dates" "ss_equity s = pre @ [v]" "ss_last_session s = k"
  shows "ss_equity (snd (run_dates e regime quotesBy recsBy dates rules s)) =
    pre @ closes ((k, v) # zip (map date_key dates) (map dr_value (fst (run_dates e regime quotesBy recsBy dates rules s))))"
  using assms
proof (induction dates arbitrary: rules s pre v k)
  case (Cons x dates)
  obtain d z visit where x: "x = (d, z, visit)" by (metis prod.collapse)
  define qs where "qs = (case map_of quotesBy (format_date z d) of Some qs \<Rightarrow> qs | None \<Rightarrow> [])"
  define recs where "recs = (case map_of recsBy (format_date z d) of Some recs \<Rightarrow> recs | None \<Rightarrow> [])"
  obtain dres rules' s1 where 1: "RunDay e visit rules z d regime qs recs s = (dres, rules', s1)" by (metis prod.collapse)
  have d: "d \<noteq> zero_time" "list_all dated dates" using Cons.prems(1) by (auto simp: x dated_def list_all_iff)
  note eq = RunDay_equity[OF d(1), of e visit rules z regime qs recs s, unfolded 1 fst_conv snd_conv]
  have run: "run_dates e regime quotesBy recsBy (x # dates) rules s =
      (dres # fst (run_dates e regime quotesBy recsBy dates rules' s1), snd (run_dates e regime quotesBy recsBy dates rules' s1))"
    using 1 by (simp add: x Let_def case_prod_beta flip: qs_def recs_def)
  show ?case
  proof (cases "k = format_date z d")
    case True
    then have "ss_equity s1 = pre @ [dr_value dres]" using eq(1) Cons.prems by (simp add: set_last_def)
    from Cons.IH[OF d(2) this eq(2)] show ?thesis unfolding run using True by (simp add: x date_key_def)
  next
    case False
    then have "ss_equity s1 = (pre @ [v]) @ [dr_value dres]" using eq(1) Cons.prems by auto
    from Cons.IH[OF d(2) this eq(2)] show ?thesis unfolding run using False by (simp add: x date_key_def)
  qed
qed simp

lemma run_dates_length: "length (fst (run_dates e regime quotesBy recsBy dates rules s)) = length dates"
  by (induction dates arbitrary: rules s) (simp_all add: Let_def case_prod_beta split_paired_all)

lemma run_equity_closes:
  assumes "list_all dated dates"
  shows "ss_equity (snd (run_dates e regime quotesBy recsBy dates rules (NewSimulationState cash))) =
    closes (zip (map date_key dates)
      (map dr_value (fst (run_dates e regime quotesBy recsBy dates rules (NewSimulationState cash)))))"
proof (cases dates)
  case (Cons x rest)
  obtain d z visit where x: "x = (d, z, visit)" by (metis prod.collapse)
  define qs where "qs = (case map_of quotesBy (format_date z d) of Some qs \<Rightarrow> qs | None \<Rightarrow> [])"
  define recs where "recs = (case map_of recsBy (format_date z d) of Some recs \<Rightarrow> recs | None \<Rightarrow> [])"
  obtain dres rules' s1 where 1: "RunDay e visit rules z d regime qs recs (NewSimulationState cash) = (dres, rules', s1)" by (metis prod.collapse)
  have d: "d \<noteq> zero_time" "list_all dated rest" using assms by (auto simp: Cons x dated_def list_all_iff)
  have key: "format_date z d \<noteq> []" using d(1) SessionDateKey_empty[of z d] by (auto simp: SessionDateKey_def)
  note eq = RunDay_equity[OF d(1), of e visit rules z regime qs recs "NewSimulationState cash", unfolded 1 fst_conv snd_conv]
  have "ss_equity s1 = [] @ [dr_value dres]" using eq(1) key by (auto simp: NewSimulationState_def)
  note r = run_dates_equity[OF d(2) this eq(2), of e regime quotesBy recsBy rules']
  show ?thesis using r 1 by (simp add: Cons x date_key_def Let_def case_prod_beta flip: qs_def recs_def)
qed (simp add: NewSimulationState_def)

text \<open>The value of the last run of a session.\<close>

definition last_value :: "(string \<times> f64) list \<Rightarrow> string \<Rightarrow> f64" where
  "last_value runs k = snd (List.last (filter (\<lambda>x. fst x = k) runs))"

lemma closes_last:
  "distinct (remdups_adj (map fst runs)) \<Longrightarrow> closes runs = map (last_value runs) (remdups_adj (map fst runs))"
proof (induction runs rule: closes.induct)
  case (3 k v k' v' r)
  show ?case
  proof (cases "k = k'")
    case True
    have "last_value ((k, v) # (k', v') # r) = last_value ((k', v') # r)" using True by (auto simp: last_value_def fun_eq_iff)
    with 3(1) [OF True] 3(3) True show ?thesis by simp
  next
    case False
    with 3(3) have d: "distinct (remdups_adj (map fst ((k', v') # r)))" "k \<notin> set (map fst ((k', v') # r))" by simp_all
    then have "filter (\<lambda>x. fst x = k) ((k', v') # r) = []" by (auto simp: filter_empty_conv)
    then have v: "last_value ((k, v) # (k', v') # r) k = v" by (simp add: last_value_def)
    have "map (last_value ((k, v) # (k', v') # r)) (remdups_adj (map fst ((k', v') # r))) =
        map (last_value ((k', v') # r)) (remdups_adj (map fst ((k', v') # r)))"
    proof (rule map_cong [OF refl])
      fix j assume "j \<in> set (remdups_adj (map fst ((k', v') # r)))"
      then have "j \<noteq> k" using d(2) by auto
      then show "last_value ((k, v) # (k', v') # r) j = last_value ((k', v') # r) j" by (simp add: last_value_def)
    qed
    with 3(2) [OF False d(1)] False v show ?thesis by simp
  qed
qed (simp_all add: last_value_def)

text \<open>
  C26 (invariant). A run over dated days, from a new state, in which the runs of one session (one local date) follow each other directly, as
  they do when the days come in order: the equity curve has exactly one value for each session, in the order of the sessions, and it
  is the portfolio value of the last run of that session. Running a session again replaces its value, and a new session appends one.
  When a session is run again after another session, it gets a second value; that is excluded.
\<close>

theorem equity_curve_has_one_value_per_session:
  assumes "list_all dated dates" "distinct (remdups_adj (map date_key dates))"
    and "run_dates e regime quotesBy recsBy dates rules (NewSimulationState cash) = (results, s)"
  shows "ss_equity s = map (last_value (zip (map date_key dates) (map dr_value results))) (remdups_adj (map date_key dates)) \<and>
    length (ss_equity s) = card (date_key ` set dates)"
proof -
  have len: "length results = length dates"
    using run_dates_length[of e regime quotesBy recsBy dates rules "NewSimulationState cash"] assms(3) by simp
  then have keys: "map fst (zip (map date_key dates) (map dr_value results)) = map date_key dates" by (simp add: map_fst_zip)
  have "ss_equity s = closes (zip (map date_key dates) (map dr_value results))"
    using run_equity_closes[OF assms(1), of e regime quotesBy recsBy rules cash] assms(3) by simp
  then have eq: "ss_equity s = map (last_value (zip (map date_key dates) (map dr_value results))) (remdups_adj (map date_key dates))"
    using closes_last[of "zip (map date_key dates) (map dr_value results)"] assms(2) unfolding keys by simp
  then have "length (ss_equity s) = card (set (remdups_adj (map date_key dates)))" using distinct_card[OF assms(2)] by simp
  with eq show ?thesis by simp
qed

section \<open>The drawdown never recovers\<close>

definition no_less :: "f64 \<Rightarrow> f64 \<Rightarrow> bool" where
  "no_less a b \<longleftrightarrow> b = a \<or> flt a b"

lemma no_less_trans: "no_less a b \<Longrightarrow> no_less b c \<Longrightarrow> no_less a c"
  by (auto simp: no_less_def intro: flt_trans)

lemma session_drawdown [simp]:
  "ss_drawdown (snd (rerun_session v s)) = ss_drawdown s" "ss_drawdown (snd (new_session key v prev s)) = ss_drawdown s"
  by (simp_all add: rerun_session_def new_session_def Let_def)

lemma record_session_drawdown: "no_less (ss_drawdown s) (ss_drawdown (snd (record_session key s)))"
  by (simp add: record_session_def track_peak_def no_less_def Let_def case_prod_beta)

lemma trade_day_drawdown [simp]: "ss_drawdown (snd (snd (trade_day e quotes recs regime d s))) = ss_drawdown s"
  using trade_day_history[of e quotes recs regime d s] by (simp add: history_def)

lemma RunDay_drawdown: "no_less (ss_drawdown s) (ss_drawdown (snd (snd (RunDay e visit rules z d regime qs recs s))))"
  unfolding RunDay_state by (rule record_session_drawdown[of "snd (snd (trade_day _ _ _ _ _ _))", unfolded trade_day_drawdown])

lemma run_dates_drawdown: "no_less (ss_drawdown s) (ss_drawdown (snd (run_dates e regime quotesBy recsBy dates rules s)))"
proof (induction dates arbitrary: rules s)
  case (Cons x dates)
  obtain d z visit where x: "x = (d, z, visit)" by (metis prod.collapse)
  show ?case
    unfolding x run_dates.simps Let_def case_prod_beta snd_conv by (rule no_less_trans[OF RunDay_drawdown Cons.IH])
qed (simp add: no_less_def)

text \<open>
  A run once below a tenth of its peak is damped for ever: whatever happens on later days, also when the portfolio reaches new
  peaks, the rule on losses takes a tenth off every conviction, because the drawdown of the state is the
  worst one so far.
\<close>

theorem deep_loss_damps_for_ever:
  assumes "\<not> fle (ss_drawdown s) (f64_const (10 / 100))"
  shows "fst (ApplyRule PnLBehaviorRule recs (snd (run_dates e regime quotesBy recsBy dates rules s)) quotes) = map (damp (90 / 100)) recs"
proof -
  have "\<not> fle (ss_drawdown (snd (run_dates e regime quotesBy recsBy dates rules s))) (f64_const (10 / 100))"
    using assms run_dates_drawdown[of s e regime quotesBy recsBy dates rules]
    by (auto simp: no_less_def flt_iff_fle dest: fle_trans)
  then show ?thesis by simp
qed

definition demo_dates :: "run_date list" where
  "demo_dates = [(5, 0, \<lambda>k quotes. quotes), (7, 0, \<lambda>k quotes. quotes)]"

lemma equity_curve_has_one_value_per_session_witness:
  "length (ss_equity (snd (run_dates demo_engine [] [] [] demo_dates [] (NewSimulationState (Fin 819200))))) = 1"
proof -
  have d: "list_all dated demo_dates" by (simp add: demo_dates_def dated_def zero_time_def)
  have key: "map date_key demo_dates = [format_date 0 5, format_date 0 5]"
    by (simp add: demo_dates_def date_key_def format_date_def local_day_def)
  then have "card (date_key ` set demo_dates) = 1" by (simp add: demo_dates_def date_key_def)
  obtain results s where run: "run_dates demo_engine [] [] [] demo_dates [] (NewSimulationState (Fin 819200)) = (results, s)"
    by (cases "run_dates demo_engine [] [] [] demo_dates [] (NewSimulationState (Fin 819200))")
  have "distinct (remdups_adj (map date_key demo_dates))" by (simp add: key)
  from conjunct2 [OF equity_curve_has_one_value_per_session[OF d this run]] \<open>card _ = 1\<close> run show ?thesis by simp
qed

lemma deep_loss_damps_for_ever_witness:
  "fst (ApplyRule PnLBehaviorRule [demo_rec SideBuy]
     (snd (run_dates demo_engine [] [] [] demo_dates [] (demo_held\<lparr>ss_drawdown := Fin (1 / 2)\<rparr>))) []) = [damp (9 / 10) (demo_rec SideBuy)]"
proof -
  have "is_f64 (Fin (1 / 4))" using rnd_dyadic[of 1 2] by (simp add: is_f64_def)
  then have "fle (f64_const (10 / 100)) (Fin (1 / 4))" unfolding f64_const_def by (rule rnd_le) simp
  then have "\<not> fle (Fin (1 / 2)) (f64_const (10 / 100))" using fle_trans[of "Fin (1 / 2)" "f64_const (10 / 100)" "Fin (1 / 4)"] by auto
  then show ?thesis
    using deep_loss_damps_for_ever[of "demo_held\<lparr>ss_drawdown := Fin (1 / 2)\<rparr>" "[demo_rec SideBuy]" demo_engine "[]" "[]" "[]" demo_dates "[]" "[]"]
    by simp
qed

end
