(* ===== verification/Sim_State.thy ===== *)
theory Sim_State
  imports Sim_Day
begin

text \<open>
  The state file of the simulation (\<open>internal/sim/state_persistence.go\<close>) and what a run leaves unaccounted.

  The file is the state it was written from.  JSON has no infinities and no NaN, so a state with such a number cannot be written;
  the number formats of Go and the times keep every other value exactly.  Whether the directory, the write of the
  temporary file and the rename succeed are arguments.
\<close>

section \<open>The file\<close>

datatype state_file = NoStateFile | UnreadableFile | BrokenFile | StateFile sim_state

datatype state_error = MkdirFailed | MarshalFailed | WriteFailed | RenameFailed | ReadFailed | UnmarshalFailed

fun is_finite :: "f64 \<Rightarrow> bool" where
  "is_finite (Fin q) = True"
| "is_finite v = False"

definition finite_position :: "position \<Rightarrow> bool" where
  "finite_position pos \<longleftrightarrow> list_all is_finite [average_cost pos, current_price pos, market_value pos, unrealized_pnl pos]"

definition marshals :: "sim_state \<Rightarrow> bool" where
  "marshals s \<longleftrightarrow>
     list_all is_finite [ss_cash s, ss_realized s, ss_starting_cash s, ss_max_equity s, ss_drawdown s, ss_session_base s] \<and>
     list_all is_finite (ss_equity s) \<and> list_all is_finite (ss_returns s) \<and> list_all finite_position (ss_positions s) \<and>
     list_all (\<lambda>(k, v). is_finite v) (ss_previous s) \<and> list_all (\<lambda>lc. is_finite (lc_amount lc)) (ss_locked s)"

definition SavePersistentState :: "bool \<Rightarrow> bool \<Rightarrow> bool \<Rightarrow> sim_state option \<Rightarrow> state_file \<Rightarrow> state_error option \<times> state_file" where
  "SavePersistentState mkdir written renamed st f =
     (case st of
        None \<Rightarrow> (None, f)
      | Some s \<Rightarrow>
          (if \<not> mkdir then (Some MkdirFailed, f)
           else if \<not> marshals s then (Some MarshalFailed, f)
           else if \<not> written then (Some WriteFailed, f)
           else if \<not> renamed then (Some RenameFailed, f)
           else (None, StateFile s)))"

definition LoadPersistentState :: "state_file \<Rightarrow> state_error + sim_state option" where
  "LoadPersistentState f =
     (case f of
        NoStateFile \<Rightarrow> Inr None
      | UnreadableFile \<Rightarrow> Inl ReadFailed
      | BrokenFile \<Rightarrow> Inl UnmarshalFailed
      | StateFile s \<Rightarrow> Inr (Some s))"

section \<open>Round trip\<close>

text \<open>
  Saving is all or nothing: either there is no error and the state that was saved is loaded again, or the file is what it
  was before, so that a failed save, at whatever step, loses nothing of the last saved state.
\<close>

theorem save_is_all_or_nothing:
  "(case SavePersistentState mkdir written renamed (Some s) f of
      (None, f') \<Rightarrow> LoadPersistentState f' = Inr (Some s)
    | (Some err, f') \<Rightarrow> f' = f)"
  by (simp add: SavePersistentState_def LoadPersistentState_def)

text \<open>A single number that is not finite makes every save fail.\<close>

lemma infinite_state_is_never_saved:
  "\<not> list_all is_finite (ss_returns s) \<Longrightarrow> SavePersistentState True True True (Some s) f = (Some MarshalFailed, f)"
  by (simp add: SavePersistentState_def marshals_def)

section \<open>Taxes and the gate in a run\<close>

text \<open>The taxes are those of selling what is still held; a portfolio that was sold has paid none.\<close>

lemma no_tax_after_liquidation: "ss_positions s = [] \<Longrightarrow> sr_tax_paid (computeTaxAdjustedResults e c s dres) = Fin 0"
  by (simp add: computeTaxAdjustedResults_def CalculatePortfolioTax_def Let_def)

text \<open>The gate of the simulation never sees a sector, and it books every order that passes as a purchase, sales included.\<close>

lemma sector_limit_unused: "rr_passed (ruleSectorExposure g (buildOrderIntent rec worth) pf)"
  by (simp add: ruleSectorExposure_def buildOrderIntent_def passing_def)

lemma sales_booked_as_purchases:
  "rc_side rec = SideSell \<Longrightarrow> pf_cash (applyOrderToState pf (buildOrderIntent rec worth)) = fsub (pf_cash pf) (oi_notional (buildOrderIntent rec worth))"
  by (simp add: applyOrderToState_def)

end
