(* ===== verification/Risk_Control.thy ===== *)
theory Risk_Control
  imports Risk_PreTrade
begin

text \<open>
  Controls around the portfolio: the breaker on daily returns, the approval requests and the capital phases
  (\<open>internal/risk/circuit_breaker.go\<close>, \<open>approval_workflow.go\<close>, \<open>capital_controller.go\<close>, the phase data of
  \<open>internal/domain/types.go\<close>).

  The reason texts are constructors.  The approvals file is its list of requests, or broken; how far a write comes is an
  argument.
\<close>

section \<open>The breaker on daily returns\<close>

record return_breaker =
  rb_max_loss :: f64
  rb_max_days :: int
  rb_losses :: int
  rb_tripped :: bool
  rb_tripped_at :: time
  rb_auto_reset :: duration

definition NewReturnBreaker :: "f64 \<Rightarrow> int \<Rightarrow> return_breaker" where
  "NewReturnBreaker maxLoss maxDays =
     \<lparr>rb_max_loss = maxLoss, rb_max_days = maxDays, rb_losses = 0, rb_tripped = False, rb_tripped_at = zero_time, rb_auto_reset = 24 * hour\<rparr>"

definition WithAutoResetAfter :: "duration \<Rightarrow> return_breaker \<Rightarrow> return_breaker" where
  "WithAutoResetAfter d cb = cb\<lparr>rb_auto_reset := d\<rparr>"

definition ResetReturns :: "return_breaker \<Rightarrow> return_breaker" where
  "ResetReturns cb = cb\<lparr>rb_tripped := False, rb_losses := 0, rb_tripped_at := zero_time\<rparr>"

datatype trip_reason = NoTrip | RemainsTripped time | LossTrip f64 f64 | DaysTrip int

text \<open>\<open>since\<close> is the clock of the test for the automatic reset, \<open>now\<close> the one of a new trip.\<close>

definition CheckReturn :: "time \<Rightarrow> time \<Rightarrow> f64 \<Rightarrow> return_breaker \<Rightarrow> (bool \<times> trip_reason) \<times> return_breaker" where
  "CheckReturn since now ret cb0 =
     (let cb = (if rb_tripped cb0 \<and> rb_auto_reset cb0 \<le> time_sub since (rb_tripped_at cb0) then ResetReturns cb0 else cb0)
      in if rb_tripped cb then ((True, RemainsTripped (rb_tripped_at cb)), cb)
         else
           (let cb1 = (if flt ret (Fin 0) then cb\<lparr>rb_losses := rb_losses cb + 1\<rparr> else cb\<lparr>rb_losses := 0\<rparr>)
            in if flt ret (Fin 0) \<and> fle (rb_max_loss cb1) (fneg ret)
               then ((True, LossTrip ret (rb_max_loss cb1)), cb1\<lparr>rb_tripped := True, rb_tripped_at := now\<rparr>)
               else if rb_max_days cb1 \<le> rb_losses cb1
               then ((True, DaysTrip (rb_max_days cb1)), cb1\<lparr>rb_tripped := True, rb_tripped_at := now, rb_losses := 0\<rparr>)
               else ((False, NoTrip), cb1)))"

definition IsTripped :: "return_breaker \<Rightarrow> bool" where
  "IsTripped cb = rb_tripped cb"

section \<open>Approval requests\<close>

datatype approval_status = StatusPending | StatusApproved | StatusRejected | StatusCancelled

record approval_request =
  ar_id :: string
  ar_type :: string
  ar_status :: approval_status
  ar_requested_by :: string
  ar_request_reason :: string
  ar_approved_by :: string
  ar_note :: string
  ar_created :: time
  ar_updated :: time

datatype approvals_file = NoApprovals | BrokenApprovals | Approvals "approval_request list"

datatype approval_error =
    TypeRequired | RequestedByRequired | PersistFailed | LoadFailed | AlreadyDecided string approval_status | RequestNotFound string

definition loadApprovals :: "approvals_file \<Rightarrow> approval_error + approval_request list" where
  "loadApprovals f = (case f of NoApprovals \<Rightarrow> Inr [] | BrokenApprovals \<Rightarrow> Inl LoadFailed | Approvals rs \<Rightarrow> Inr rs)"

definition approval_id :: "string \<Rightarrow> time \<Rightarrow> string" where
  "approval_id ty now = ''approval-'' @ ty @ ''-'' @ show_int now"

text \<open>
  A write goes through, fails before it touches the file, or is cut short: after some whole lines or inside a line, which then does
  not parse.
\<close>

datatype write_outcome = Written | NotOpened | CutAfter nat | CutInside

text \<open>A request appended to a file that does not parse leaves it so.\<close>

definition appendRequest :: "write_outcome \<Rightarrow> approval_request \<Rightarrow> approvals_file \<Rightarrow> approval_error option \<times> approvals_file" where
  "appendRequest w r f =
     (case w of
        Written \<Rightarrow> (None, case f of NoApprovals \<Rightarrow> Approvals [r] | BrokenApprovals \<Rightarrow> BrokenApprovals | Approvals rs \<Rightarrow> Approvals (rs @ [r]))
      | CutInside \<Rightarrow> (Some PersistFailed, BrokenApprovals)
      | _ \<Rightarrow> (Some PersistFailed, f))"

definition RequestApproval ::
  "time \<Rightarrow> write_outcome \<Rightarrow> string \<Rightarrow> string \<Rightarrow> string \<Rightarrow> approvals_file \<Rightarrow> (approval_error + approval_request) \<times> approvals_file" where
  "RequestApproval now w ty by why f =
     (if ty = [] then (Inl TypeRequired, f)
      else if by = [] then (Inl RequestedByRequired, f)
      else
        (let r = \<lparr>ar_id = approval_id ty now, ar_type = ty, ar_status = StatusPending, ar_requested_by = by, ar_request_reason = why,
                  ar_approved_by = [], ar_note = [], ar_created = now, ar_updated = now\<rparr>
         in case appendRequest w r f of (Some e, f') \<Rightarrow> (Inl e, f') | (None, f') \<Rightarrow> (Inr r, f')))"

text \<open>The loop of \<open>Approve\<close> and \<open>Reject\<close>: the first request of the given id.\<close>

fun decide_in :: "time \<Rightarrow> approval_status \<Rightarrow> string \<Rightarrow> string \<Rightarrow> string \<Rightarrow> approval_request list \<Rightarrow> approval_error + approval_request list" where
  "decide_in now st i by note [] = Inl (RequestNotFound i)"
| "decide_in now st i by note (r # rs) =
     (if ar_id r = i then
        (if ar_status r \<noteq> StatusPending then Inl (AlreadyDecided i (ar_status r))
         else Inr (r\<lparr>ar_status := st, ar_approved_by := by, ar_note := note, ar_updated := now\<rparr> # rs))
      else map_sum (\<lambda>e. e) (\<lambda>rs'. r # rs') (decide_in now st i by note rs))"

text \<open>\<open>rewriteAll\<close> truncates the file before it writes the requests one by one.\<close>

definition rewriteAll :: "write_outcome \<Rightarrow> approval_request list \<Rightarrow> approvals_file \<Rightarrow> approval_error option \<times> approvals_file" where
  "rewriteAll w rs f =
     (case w of
        Written \<Rightarrow> (None, Approvals rs)
      | NotOpened \<Rightarrow> (Some PersistFailed, f)
      | CutAfter n \<Rightarrow> (Some PersistFailed, Approvals (take n rs))
      | CutInside \<Rightarrow> (Some PersistFailed, BrokenApprovals))"

definition decide ::
  "time \<Rightarrow> write_outcome \<Rightarrow> approval_status \<Rightarrow> string \<Rightarrow> string \<Rightarrow> string \<Rightarrow> approvals_file \<Rightarrow> approval_error option \<times> approvals_file" where
  "decide now w st i by note f =
     (case loadApprovals f of
        Inl e \<Rightarrow> (Some e, f)
      | Inr rs \<Rightarrow> (case decide_in now st i by note rs of Inl e \<Rightarrow> (Some e, f) | Inr rs' \<Rightarrow> rewriteAll w rs' f))"

definition Approve :: "time \<Rightarrow> write_outcome \<Rightarrow> string \<Rightarrow> string \<Rightarrow> string \<Rightarrow> approvals_file \<Rightarrow> approval_error option \<times> approvals_file" where
  "Approve now w i by note f = decide now w StatusApproved i by note f"

definition Reject :: "time \<Rightarrow> write_outcome \<Rightarrow> string \<Rightarrow> string \<Rightarrow> string \<Rightarrow> approvals_file \<Rightarrow> approval_error option \<times> approvals_file" where
  "Reject now w i by note f = decide now w StatusRejected i by note f"

definition GetRequest :: "string \<Rightarrow> approvals_file \<Rightarrow> approval_error + approval_request" where
  "GetRequest i f =
     (case loadApprovals f of
        Inl e \<Rightarrow> Inl e
      | Inr rs \<Rightarrow> (case find (\<lambda>r. ar_id r = i) rs of Some r \<Rightarrow> Inr r | None \<Rightarrow> Inl (RequestNotFound i)))"

definition PendingRequests :: "approvals_file \<Rightarrow> approval_error + approval_request list" where
  "PendingRequests f = map_sum (\<lambda>e. e) (filter (\<lambda>r. ar_status r = StatusPending)) (loadApprovals f)"

section \<open>Capital phases\<close>

text \<open>A phase is a string; a state file can hold any other.\<close>

datatype capital_phase = PhaseSimulation | PhasePaper | PhaseLive | PhaseFull | PhaseOther string

record capital_config =
  kc_phase :: capital_phase
  kc_start :: time
  kc_min_days :: int
  kc_max_drawdown :: f64
  kc_sharpe :: f64
  kc_limits :: "(capital_phase \<times> f64) list"
  kc_max_losses :: int

datatype advance_reason =
    AllCriteriaMet | DaysNotMet int int | DrawdownAbove f64 f64 | SharpeBelow f64 f64 | LossesReached int int

record capital_snapshot =
  ks_phase :: capital_phase
  ks_start :: time
  ks_days :: int
  ks_sharpe :: f64
  ks_drawdown :: f64
  ks_losses :: int
  ks_can_advance :: bool
  ks_reason :: "advance_reason option"

text \<open>The state file, when there is a path for it: \<open>Some None\<close> is a path without a readable file.\<close>

record capital_controller =
  kk_config :: capital_config
  kk_snapshot :: capital_snapshot
  kk_file :: "(capital_config \<times> capital_snapshot) option option"

definition DefaultCapitalPhaseConfig :: "time \<Rightarrow> capital_config" where
  "DefaultCapitalPhaseConfig now =
     \<lparr>kc_phase = PhaseSimulation, kc_start = now, kc_min_days = 30, kc_max_drawdown = f64_const (10 / 100), kc_sharpe = Fin 1,
      kc_limits = [(PhaseSimulation, Fin 1), (PhasePaper, f64_const (10 / 100)), (PhaseLive, f64_const (30 / 100)), (PhaseFull, Fin 1)],
      kc_max_losses = 5\<rparr>"

definition NewCapitalPhaseController :: "capital_config \<Rightarrow> capital_controller" where
  "NewCapitalPhaseController cfg =
     \<lparr>kk_config = cfg,
      kk_snapshot = \<lparr>ks_phase = kc_phase cfg, ks_start = kc_start cfg, ks_days = 0, ks_sharpe = Fin 0, ks_drawdown = Fin 0, ks_losses = 0,
                     ks_can_advance = False, ks_reason = None\<rparr>,
      kk_file = None\<rparr>"

definition NewCapitalPhaseControllerWithPersistence ::
  "capital_config \<Rightarrow> (capital_config \<times> capital_snapshot) option option \<Rightarrow> capital_controller" where
  "NewCapitalPhaseControllerWithPersistence cfg f =
     (let k = (NewCapitalPhaseController cfg)\<lparr>kk_file := f\<rparr>
      in case f of Some (Some (c, s)) \<Rightarrow> k\<lparr>kk_config := c, kk_snapshot := s\<rparr> | _ \<Rightarrow> k)"

definition evaluateAdvanceCriteria :: "time \<Rightarrow> capital_controller \<Rightarrow> bool \<times> advance_reason" where
  "evaluateAdvanceCriteria now k =
     (let c = kk_config k; s = kk_snapshot k; days = whole_days (time_sub now (kc_start c))
      in if days < kc_min_days c then (False, DaysNotMet days (kc_min_days c))
         else if flt (kc_max_drawdown c) (ks_drawdown s) then (False, DrawdownAbove (ks_drawdown s) (kc_max_drawdown c))
         else if flt (ks_sharpe s) (kc_sharpe c) then (False, SharpeBelow (ks_sharpe s) (kc_sharpe c))
         else if kc_max_losses c \<le> ks_losses s then (False, LossesReached (ks_losses s) (kc_max_losses c))
         else (True, AllCriteriaMet))"

definition SaveState :: "write_outcome \<Rightarrow> capital_controller \<Rightarrow> bool \<times> capital_controller" where
  "SaveState w k =
     (case kk_file k of
        None \<Rightarrow> (True, k)
      | Some _ \<Rightarrow>
          (case w of
             Written \<Rightarrow> (True, k\<lparr>kk_file := Some (Some (kk_config k, kk_snapshot k))\<rparr>)
           | NotOpened \<Rightarrow> (False, k)
           | _ \<Rightarrow> (False, k\<lparr>kk_file := Some None\<rparr>)))"

definition UpdateMetrics :: "time \<Rightarrow> time \<Rightarrow> f64 \<Rightarrow> f64 \<Rightarrow> capital_controller \<Rightarrow> capital_controller" where
  "UpdateMetrics now1 now2 sharpe drawdown k =
     (let k1 = k\<lparr>kk_snapshot := (kk_snapshot k)\<lparr>ks_sharpe := sharpe, ks_drawdown := drawdown,
                 ks_days := whole_days (time_sub now1 (kc_start (kk_config k)))\<rparr>\<rparr>;
                (advance, why) = evaluateAdvanceCriteria now2 k1
      in k1\<lparr>kk_snapshot := (kk_snapshot k1)\<lparr>ks_can_advance := advance, ks_reason := Some why\<rparr>\<rparr>)"

fun nextPhase :: "capital_phase \<Rightarrow> capital_phase option" where
  "nextPhase PhaseSimulation = Some PhasePaper"
| "nextPhase PhasePaper = Some PhaseLive"
| "nextPhase PhaseLive = Some PhaseFull"
| "nextPhase p = None"

datatype advance_error = CannotAdvance advance_reason | FinalPhase capital_phase | SaveFailed

definition AdvancePhase :: "time \<Rightarrow> time \<Rightarrow> write_outcome \<Rightarrow> capital_controller \<Rightarrow> advance_error option \<times> capital_controller" where
  "AdvancePhase now1 now2 w k =
     (case evaluateAdvanceCriteria now1 k of
        (False, why) \<Rightarrow> (Some (CannotAdvance why), k)
      | (True, _) \<Rightarrow>
          (case nextPhase (kc_phase (kk_config k)) of
             None \<Rightarrow> (Some (FinalPhase (kc_phase (kk_config k))), k)
           | Some p \<Rightarrow>
               (let k1 = k\<lparr>kk_config := (kk_config k)\<lparr>kc_phase := p, kc_start := now2\<rparr>,
                           kk_snapshot := (kk_snapshot k)\<lparr>ks_phase := p, ks_start := now2, ks_days := 0, ks_can_advance := False, ks_reason := None,
                             ks_losses := 0\<rparr>\<rparr>;
                    (saved, k2) = SaveState w k1
                in (if saved then None else Some SaveFailed, k2))))"

definition GetCapitalLimit :: "capital_controller \<Rightarrow> f64" where
  "GetCapitalLimit k = (case map_of (kc_limits (kk_config k)) (kc_phase (kk_config k)) of Some l \<Rightarrow> l | None \<Rightarrow> Fin 1)"

definition CalculateMaxPositionSize :: "f64 \<Rightarrow> capital_controller \<Rightarrow> f64" where
  "CalculateMaxPositionSize capital k = fmul capital (GetCapitalLimit k)"

definition RecordLoss :: "write_outcome \<Rightarrow> capital_controller \<Rightarrow> capital_controller" where
  "RecordLoss w k = snd (SaveState w (k\<lparr>kk_snapshot := (kk_snapshot k)\<lparr>ks_losses := ks_losses (kk_snapshot k) + 1\<rparr>\<rparr>))"

definition RecordWin :: "write_outcome \<Rightarrow> capital_controller \<Rightarrow> capital_controller" where
  "RecordWin w k = snd (SaveState w (k\<lparr>kk_snapshot := (kk_snapshot k)\<lparr>ks_losses := 0\<rparr>\<rparr>))"

section \<open>The breaker counts a streak\<close>

text \<open>The losing days since the last day without a loss.\<close>

definition streak_after :: "f64 \<Rightarrow> int \<Rightarrow> int" where
  "streak_after ret n = (if flt ret (Fin 0) then n + 1 else 0)"

lemma CheckReturn_untripped:
  assumes "\<not> rb_tripped cb"
  shows "rb_tripped (snd (CheckReturn since now ret cb)) \<longleftrightarrow>
      flt ret (Fin 0) \<and> fle (rb_max_loss cb) (fneg ret) \<or> rb_max_days cb \<le> streak_after ret (rb_losses cb)"
    and "\<not> rb_tripped (snd (CheckReturn since now ret cb)) \<Longrightarrow>
      rb_losses (snd (CheckReturn since now ret cb)) = streak_after ret (rb_losses cb)"
  using assms by (auto simp: CheckReturn_def Let_def streak_after_def)

lemma CheckReturn_keeps [simp]:
  "rb_max_loss (snd (CheckReturn since now ret cb)) = rb_max_loss cb" "rb_max_days (snd (CheckReturn since now ret cb)) = rb_max_days cb"
  by (simp_all add: CheckReturn_def Let_def ResetReturns_def)

text \<open>Without a wait for the automatic reset, a tripped breaker answers every return with a trip.\<close>

lemma CheckReturn_stays:
  "rb_tripped cb \<Longrightarrow> time_sub since (rb_tripped_at cb) < rb_auto_reset cb \<Longrightarrow>
   CheckReturn since now ret cb = ((True, RemainsTripped (rb_tripped_at cb)), cb)"
  by (simp add: CheckReturn_def)

section \<open>Decisions are final\<close>

datatype approval_op =
    RequestOp time write_outcome string string string
  | ApproveOp time write_outcome string string string
  | RejectOp time write_outcome string string string

fun approval_step :: "approval_op \<Rightarrow> approvals_file \<Rightarrow> approvals_file" where
  "approval_step (RequestOp now w ty by why) f = snd (RequestApproval now w ty by why f)"
| "approval_step (ApproveOp now w i by note) f = snd (Approve now w i by note f)"
| "approval_step (RejectOp now w i by note) f = snd (Reject now w i by note f)"

text \<open>A write that is not cut short.\<close>

definition whole :: "write_outcome \<Rightarrow> bool" where
  "whole w \<longleftrightarrow> w = Written \<or> w = NotOpened"

fun op_write :: "approval_op \<Rightarrow> write_outcome" where
  "op_write (RequestOp now w ty by why) = w"
| "op_write (ApproveOp now w i by note) = w"
| "op_write (RejectOp now w i by note) = w"

lemma decide_in_length: "decide_in now st i by note rs = Inr rs' \<Longrightarrow> length rs' = length rs"
  by (induction rs arbitrary: rs') (auto split: if_splits sum.splits simp: map_sum_def)

lemma decide_in_nth:
  "decide_in now st i by note rs = Inr rs' \<Longrightarrow> k < length rs \<Longrightarrow>
   rs' ! k = rs ! k \<or> ar_id (rs ! k) = i \<and> ar_status (rs ! k) = StatusPending \<and>
     rs' ! k = (rs ! k)\<lparr>ar_status := st, ar_approved_by := by, ar_note := note, ar_updated := now\<rparr>"
proof (induction rs arbitrary: rs' k)
  case (Cons r rs)
  show ?case
  proof (cases "ar_id r = i")
    case True
    with Cons.prems show ?thesis by (cases k) (auto split: if_splits)
  next
    case False
    with Cons.prems obtain qs where qs: "decide_in now st i by note rs = Inr qs" "rs' = r # qs"
      by (auto simp: map_sum_def split: sum.splits)
    with Cons.IH[OF qs(1)] Cons.prems(2) show ?thesis by (cases k) auto
  qed
qed simp

lemma decide_keeps:
  assumes "k < length rs" "ar_status (rs ! k) \<noteq> StatusPending" "whole w"
  shows "\<exists>rs'. snd (decide now w st i by note (Approvals rs)) = Approvals rs' \<and> length rs \<le> length rs' \<and> rs' ! k = rs ! k"
proof (cases "decide_in now st i by note rs")
  case (Inr rs')
  then show ?thesis
    using assms decide_in_length[OF Inr] decide_in_nth[OF Inr assms(1)]
    by (auto simp: decide_def loadApprovals_def rewriteAll_def whole_def)
qed (use assms in \<open>simp add: decide_def loadApprovals_def\<close>)

lemma approval_step_keeps:
  assumes "k < length rs" "ar_status (rs ! k) \<noteq> StatusPending" "whole (op_write e)"
  shows "\<exists>rs'. approval_step e (Approvals rs) = Approvals rs' \<and> length rs \<le> length rs' \<and> rs' ! k = rs ! k"
proof (cases e)
  case (RequestOp now w ty by' why)
  then show ?thesis using assms(1,3) by (auto simp: RequestApproval_def Let_def appendRequest_def nth_append whole_def)
next
  case (ApproveOp now w i by' note')
  then show ?thesis using decide_keeps[OF assms(1,2)] assms(3) by (simp add: Approve_def)
next
  case (RejectOp now w i by' note')
  then show ?thesis using decide_keeps[OF assms(1,2)] assms(3) by (simp add: Reject_def)
qed

text \<open>
  C33 (safety). A decision on an approval request is final: whatever is requested, approved or rejected afterwards, under the same
  or another id, the request that was decided stays in its place with its status, its decider and its note, as long as no write to
  the file is cut short.
\<close>

theorem decisions_are_final:
  assumes "k < length rs" "ar_status (rs ! k) \<noteq> StatusPending" "list_all (\<lambda>e. whole (op_write e)) es"
  shows "\<exists>rs'. fold approval_step es (Approvals rs) = Approvals rs' \<and> k < length rs' \<and> rs' ! k = rs ! k"
  using assms
proof (induction es arbitrary: rs)
  case (Cons e es)
  then have "whole (op_write e)" by simp
  from approval_step_keeps[OF Cons.prems(1,2) this] obtain rs1 where
    rs1: "approval_step e (Approvals rs) = Approvals rs1" "length rs \<le> length rs1" "rs1 ! k = rs ! k" by blast
  with Cons.IH[of rs1] Cons.prems show ?case by auto
qed simp

definition demo_request :: "string \<Rightarrow> approval_status \<Rightarrow> approval_request" where
  "demo_request i st = \<lparr>ar_id = i, ar_type = ''capital'', ar_status = st, ar_requested_by = ''cro'', ar_request_reason = [],
     ar_approved_by = ''ceo'', ar_note = [], ar_created = 0, ar_updated = 0\<rparr>"

lemma decisions_are_final_witness:
  "\<exists>rs'. fold approval_step [RejectOp 7 Written ''a1'' ''eve'' [], ApproveOp 8 NotOpened ''a2'' ''eve'' []]
     (Approvals [demo_request ''a1'' StatusApproved, demo_request ''a2'' StatusPending]) = Approvals rs' \<and>
     0 < length rs' \<and> rs' ! 0 = demo_request ''a1'' StatusApproved"
  using decisions_are_final[of 0 "[demo_request ''a1'' StatusApproved, demo_request ''a2'' StatusPending]"
      "[RejectOp 7 Written ''a1'' ''eve'' [], ApproveOp 8 NotOpened ''a2'' ''eve'' []]"]
  by (simp add: demo_request_def whole_def)

text \<open>A rewrite that is cut short loses requests that nobody decided on.\<close>

lemma failed_decision_loses_requests:
  "decide now (CutAfter 1) StatusApproved (ar_id r) by note (Approvals [r\<lparr>ar_status := StatusPending\<rparr>, q]) =
     (Some PersistFailed, Approvals [r\<lparr>ar_status := StatusApproved, ar_approved_by := by, ar_note := note, ar_updated := now\<rparr>])"
  by (simp add: decide_def loadApprovals_def rewriteAll_def)

section \<open>Phases\<close>

fun phase_rank :: "capital_phase \<Rightarrow> nat" where
  "phase_rank PhaseSimulation = 0"
| "phase_rank PhasePaper = 1"
| "phase_rank PhaseLive = 2"
| "phase_rank PhaseFull = 3"
| "phase_rank (PhaseOther p) = 4"

lemma SaveState_frame [simp]:
  "kk_config (snd (SaveState w k)) = kk_config k" "kk_snapshot (snd (SaveState w k)) = kk_snapshot k"
  by (simp_all add: SaveState_def split: option.split write_outcome.split)

text \<open>An advance moves one phase on, and only when every criterion holds at that time.\<close>

lemma AdvancePhase_step:
  assumes "AdvancePhase now1 now2 w k = (err, k')" "kc_phase (kk_config k') \<noteq> kc_phase (kk_config k)"
  shows "fst (evaluateAdvanceCriteria now1 k) \<and> phase_rank (kc_phase (kk_config k')) = phase_rank (kc_phase (kk_config k)) + 1 \<and>
    phase_rank (kc_phase (kk_config k)) < 3 \<and> kc_start (kk_config k') = now2"
proof -
  have rank: "nextPhase p = Some q \<Longrightarrow> phase_rank q = phase_rank p + 1 \<and> phase_rank p < 3" for p q
    by (cases p) auto
  show ?thesis
    using assms rank by (cases "evaluateAdvanceCriteria now1 k")
      (auto simp: AdvancePhase_def Let_def case_prod_beta split: if_splits option.splits bool.splits)
qed

text \<open>
  The metrics of a phase count for the next one: after an advance the criteria are met again as soon as the days have passed,
  although no metric of the new phase was ever measured.
\<close>

lemma metrics_carry_over:
  assumes "fst (evaluateAdvanceCriteria now1 k)" "nextPhase (kc_phase (kk_config k)) = Some p" "0 < kc_max_losses (kk_config k)"
    and "kc_min_days (kk_config k) \<le> whole_days (time_sub now3 now2)"
  shows "fst (evaluateAdvanceCriteria now3 (snd (AdvancePhase now1 now2 w k)))"
proof -
  obtain why where why: "evaluateAdvanceCriteria now1 k = (True, why)" using assms(1) by (metis prod.collapse)
  then have "\<not> flt (kc_max_drawdown (kk_config k)) (ks_drawdown (kk_snapshot k))" "\<not> flt (ks_sharpe (kk_snapshot k)) (kc_sharpe (kk_config k))"
    by (auto simp: evaluateAdvanceCriteria_def Let_def split: if_splits)
  then show ?thesis using assms(2-4) why
    by (simp add: AdvancePhase_def Let_def case_prod_beta) (simp add: evaluateAdvanceCriteria_def Let_def)
qed

end
