(* ===== verification/Session_Risk.thy ===== *)
theory Session_Risk
  imports Strategy_Evolver Sim_Ceiling Sim_History Sim_State Risk_Control
begin

text \<open>
  What the system does around a simulated session (\<open>orchestrator/system_risk_session.go\<close>): the human overrides on the
  recommendations, the macro pipeline that sets the exposure ceiling of the engine before the session and evaluates the strategy
  and the capital phase after it, and the series of values and returns kept beside the simulation state.
\<close>

section \<open>Human overrides\<close>

record intervention =
  iv_type :: string
  iv_agent :: string
  iv_model :: string
  iv_sector :: string
  iv_symbol :: string
  iv_value :: f64
  iv_expires :: time

definition IsExpired :: "time \<Rightarrow> intervention \<Rightarrow> bool" where
  "IsExpired now iv \<longleftrightarrow> iv_expires iv \<noteq> zero_time \<and> iv_expires iv < now"

text \<open>The sets that the loop over the interventions fills; the approvals are collected, but nothing reads them.\<close>

record overrides =
  ho_paused :: "string set"
  ho_banned :: "string set"
  ho_approved :: "(string \<times> string) set"
  ho_rejected :: "(string \<times> string) set"
  ho_weights :: "(string \<times> f64) list"

definition apply_intervention :: "time \<times> intervention \<Rightarrow> overrides \<Rightarrow> overrides" where
  "apply_intervention = (\<lambda>(now, iv) h.
     (if IsExpired now iv then h
      else if iv_type iv = ''pause_agent'' then h\<lparr>ho_paused := insert (iv_agent iv) (ho_paused h)\<rparr>
      else if iv_type iv = ''resume_agent'' then h\<lparr>ho_paused := ho_paused h - {iv_agent iv}\<rparr>
      else if iv_type iv = ''sector_ban'' then h\<lparr>ho_banned := insert (iv_sector iv) (ho_banned h)\<rparr>
      else if iv_type iv = ''sector_unban'' then h\<lparr>ho_banned := ho_banned h - {iv_sector iv}\<rparr>
      else if iv_type iv = ''approve_rec'' then h\<lparr>ho_approved := insert (iv_agent iv, iv_symbol iv) (ho_approved h)\<rparr>
      else if iv_type iv = ''reject_rec'' then h\<lparr>ho_rejected := insert (iv_agent iv, iv_symbol iv) (ho_rejected h)\<rparr>
      else if iv_type iv = ''set_model_weight'' then
        (if iv_model iv \<noteq> [] then h\<lparr>ho_weights := ho_weights h @ [(iv_model iv, iv_value iv)]\<rparr> else h)
      else h))"

definition collect_overrides :: "(time \<times> intervention) list \<Rightarrow> overrides" where
  "collect_overrides ivs =
     fold apply_intervention ivs \<lparr>ho_paused = {}, ho_banned = {}, ho_approved = {}, ho_rejected = {}, ho_weights = []\<rparr>"

text \<open>The agents of the registry as pairs of identifier and skill; the configuration maps a skill to its sectors.\<close>

definition isRecommendationInBannedSector ::
    "(string \<times> string) list \<Rightarrow> (string \<times> string list) list option \<Rightarrow> string set \<Rightarrow> recommendation \<Rightarrow> bool" where
  "isRecommendationInBannedSector registry mappings banned rec =
     (if banned = {} then False
      else (case mappings of
         None \<Rightarrow> False
       | Some m \<Rightarrow>
           (let skill = (case map_of registry (rc_agent rec) of Some s \<Rightarrow> s | None \<Rightarrow> [])
            in list_ex (\<lambda>sector. sector \<in> banned) (case map_of m skill of Some sectors \<Rightarrow> sectors | None \<Rightarrow> []))))"

definition kept :: "(string \<times> string) list \<Rightarrow> (string \<times> string list) list option \<Rightarrow> overrides \<Rightarrow> recommendation \<Rightarrow> bool" where
  "kept registry mappings h rec \<longleftrightarrow>
     (rc_agent rec, rc_symbol rec) \<notin> ho_rejected h \<and> rc_agent rec \<notin> ho_paused h
     \<and> \<not> isRecommendationInBannedSector registry mappings (ho_banned h) rec"

text \<open>
  \<open>applyHumanOverrides\<close>: without a ledger, or when the interventions cannot be read, nothing is filtered.  The interventions
  come with the clock readings of their expiry checks; the weights of the models are the second result.
\<close>

datatype ledger_read = NoLedger | ReadFailed | Interventions "(time \<times> intervention) list"

definition applyHumanOverrides ::
    "(string \<times> string) list \<Rightarrow> (string \<times> string list) list option \<Rightarrow> ledger_read \<Rightarrow> recommendation list \<Rightarrow>
     recommendation list \<times> (string \<times> f64) list" where
  "applyHumanOverrides registry mappings ledger recs =
     (case ledger of
        Interventions ivs \<Rightarrow> (filter (kept registry mappings (collect_overrides ivs)) recs, ho_weights (collect_overrides ivs))
      | _ \<Rightarrow> (recs, []))"

text \<open>
  The recommendations a session trades on: the narrative context, the overrides, then what the alpha discovery adds, and the
  plugins of the host (functions here).
\<close>

definition session_recommendations ::
    "(recommendation list \<Rightarrow> recommendation list) \<Rightarrow> (recommendation list \<Rightarrow> recommendation list) \<Rightarrow> (recommendation list \<Rightarrow> recommendation list) \<Rightarrow>
     (string \<times> string) list \<Rightarrow> (string \<times> string list) list option \<Rightarrow> ledger_read \<Rightarrow> recommendation list \<Rightarrow> recommendation list \<Rightarrow> recommendation list" where
  "session_recommendations narrative alpha host registry mappings ledger raw final =
     (let raw' = fst (applyHumanOverrides registry mappings ledger (narrative raw));
          final' = fst (applyHumanOverrides registry mappings ledger (narrative final))
      in host (final' @ alpha raw'))"

section \<open>Regimes and narratives\<close>

definition RegimeRiskOff :: string where "RegimeRiskOff = ''RISK_OFF''"
definition RegimeRiskOn :: string where "RegimeRiskOn = ''RISK_ON''"

definition risk_off_themes :: "string list" where
  "risk_off_themes = [''US_rates_up'', ''geopolitical_risk_spike'', ''oil_price_shock'', ''JPY_carry_unwind'']"

definition AdjustRegimeFromNarrative :: "string \<Rightarrow> string list \<Rightarrow> string" where
  "AdjustRegimeFromNarrative base themes =
     (if list_ex (\<lambda>t. t \<in> set risk_off_themes) themes then RegimeRiskOff
      else if list_ex (\<lambda>t. t = ''AI_capex_surge'') themes \<and> base = RegimeNeutral then RegimeRiskOn
      else if list_ex (\<lambda>t. t = ''AI_capex_surge'') themes \<and> base = RegimeRiskOff then RegimeNeutral
      else base)"

section \<open>The macro pipeline\<close>

text \<open>The engines the system may hold; the sector data is what its provider answers, an error of it is ignored.\<close>

record risk_system =
  rs_macro :: "macro_config option"
  rs_sectors :: "sector_snapshot option"
  rs_drawdown :: "drawdown_engine option"

definition assessMacroRisk :: "risk_system \<Rightarrow> quote list \<Rightarrow> macro_assessment option" where
  "assessMacroRisk sys quotes = map_option (\<lambda>c. AssessMacro c (QuotesToMacroDataSnapshot quotes)) (rs_macro sys)"

definition assessStructuralTrends :: "risk_system \<Rightarrow> structural_assessment option" where
  "assessStructuralTrends sys = map_option AssessTrends (rs_sectors sys)"

text \<open>The outer \<open>None\<close> is the nil dereference of the evaluation, the inner one a missing engine or assessment.\<close>

definition evaluateDrawdown ::
    "risk_system \<Rightarrow> macro_assessment option \<Rightarrow> structural_assessment option \<Rightarrow> drawdown_decision option option" where
  "evaluateDrawdown sys macro structural =
     (case (rs_drawdown sys, macro) of
        (Some de, Some m) \<Rightarrow> map_option Some (EvaluateDrawdown de m structural)
      | _ \<Rightarrow> Some None)"

definition applyExposureCapForDecision :: "drawdown_decision option \<Rightarrow> sim_engine \<Rightarrow> sim_engine" where
  "applyExposureCapForDecision decision e =
     (case decision of None \<Rightarrow> e | Some d \<Rightarrow> WithExposureCap (GetPositionSizeAdjustment d) e)"

definition applyDrawdownExposureCap :: "risk_system \<Rightarrow> quote list \<Rightarrow> sim_engine \<Rightarrow> sim_engine option" where
  "applyDrawdownExposureCap sys quotes e =
     (if rs_drawdown sys = None then Some e
      else (case assessMacroRisk sys quotes of
        None \<Rightarrow> Some e
      | Some m \<Rightarrow>
          map_option (\<lambda>d. applyExposureCapForDecision d e) (evaluateDrawdown sys (Some m) (assessStructuralTrends sys))))"

section \<open>The series beside the state\<close>

record session_series =
  sx_values :: "f64 list"
  sx_returns :: "f64 list"

definition hydrateHistory :: "sim_state \<Rightarrow> session_series \<Rightarrow> session_series" where
  "hydrateHistory s x =
     (if sx_values x \<noteq> [] \<or> sx_returns x \<noteq> [] then x else \<lparr>sx_values = ss_equity s, sx_returns = ss_returns s\<rparr>)"

text \<open>Replacing the last entry of a series, or starting it.\<close>

definition replace_last :: "f64 \<Rightarrow> f64 list \<Rightarrow> f64 list" where
  "replace_last v xs = (if xs = [] then [v] else butlast xs @ [v])"

definition recordSessionHistory :: "day_result \<Rightarrow> session_series \<Rightarrow> session_series" where
  "recordSessionHistory r x =
     (if dr_rerun r
      then \<lparr>sx_values = replace_last (dr_value r) (sx_values x),
            sx_returns = (if dr_return_recorded r then replace_last (dr_return r) (sx_returns x) else sx_returns x)\<rparr>
      else (let vs = sx_values x @ [dr_value r]
            in \<lparr>sx_values = vs,
                sx_returns = (if 1 < length vs \<and> flt (Fin 0) (vs ! (length vs - 2))
                  then sx_returns x @ [fdiv (fsub (dr_value r) (vs ! (length vs - 2))) (vs ! (length vs - 2))]
                  else sx_returns x)\<rparr>))"

section \<open>After the session\<close>

definition max_decline :: "f64 \<Rightarrow> f64 \<times> f64 \<Rightarrow> f64 \<times> f64" where
  "max_decline v = (\<lambda>(peak, dd).
     (let peak = (if flt peak v then v else peak); decline = fdiv (fsub peak v) peak
      in (peak, if flt dd decline then decline else dd)))"

definition CalculateMaxDrawdown :: "f64 list \<Rightarrow> f64" where
  "CalculateMaxDrawdown values = (case values of [] \<Rightarrow> Fin 0 | v # _ \<Rightarrow> snd (fold max_decline values (v, Fin 0)))"

definition CalculateSharpeRatio :: "f64 list \<Rightarrow> f64" where
  "CalculateSharpeRatio returns =
     ComputeSharpe returns \<lparr>sh_frequency = FrequencyPerDay, sh_risk_free = Fin 0, sh_min_samples = 2, sh_guard = Fin 0\<rparr>"

text \<open>
  \<open>updateCapitalMetrics\<close> without the sector rotation at its end, which only reads the new state: nothing happens without a
  controller or with fewer than two returns.  \<open>None\<close> is a nil dereference.
\<close>

definition updateCapitalMetrics ::
    "time \<times> time \<Rightarrow> write_outcome \<Rightarrow> clock \<Rightarrow> risk_system \<Rightarrow> quote list \<Rightarrow> f64 \<Rightarrow> session_series \<Rightarrow>
     capital_controller option \<times> strategy_evolver option \<Rightarrow> (capital_controller option \<times> strategy_evolver option) option" where
  "updateCapitalMetrics nows w ck sys quotes afterTax x = (\<lambda>(controller, evolver).
     (case controller of
        None \<Rightarrow> Some (controller, evolver)
      | Some k \<Rightarrow>
          (if length (sx_returns x) < 2 then Some (controller, evolver)
           else
             (let k1 = UpdateMetrics (fst nows) (snd nows) (CalculateSharpeRatio (sx_returns x)) (CalculateMaxDrawdown (sx_values x)) k;
                  k2 = (if flt afterTax (Fin 0) then RecordLoss w k1 else RecordWin w k1)
              in case assessMacroRisk sys quotes of
                   None \<Rightarrow> Some (Some k2, evolver)
                 | Some m \<Rightarrow>
                     (case evaluateDrawdown sys (Some m) (assessStructuralTrends sys) of
                        None \<Rightarrow> None
                      | Some d \<Rightarrow>
                          (case evolver of
                             None \<Rightarrow> Some (Some k2, None)
                           | Some ev \<Rightarrow>
                               map_option (\<lambda>(r, ev'). (Some k2, Some ev')) (EvaluateStrategy ck m (assessStructuralTrends sys) d ev)))))))"

section \<open>An override holds until it is taken back\<close>

text \<open>The last intervention in force on a target decides, the one that switches it on or the one that switches it off.\<close>

definition in_force :: "string \<Rightarrow> string \<Rightarrow> (intervention \<Rightarrow> string) \<Rightarrow> string \<Rightarrow> (time \<times> intervention) list \<Rightarrow> bool" where
  "in_force on off target t ivs =
     (case find (\<lambda>(now, iv). \<not> IsExpired now iv \<and> iv_type iv \<in> {on, off} \<and> target iv = t) (rev ivs) of
        Some (now, iv) \<Rightarrow> iv_type iv = on
      | None \<Rightarrow> False)"

definition rejected :: "(time \<times> intervention) list \<Rightarrow> recommendation \<Rightarrow> bool" where
  "rejected ivs rec \<longleftrightarrow> list_ex (\<lambda>(now, iv). \<not> IsExpired now iv \<and> iv_type iv = ''reject_rec'' \<and>
     iv_agent iv = rc_agent rec \<and> iv_symbol iv = rc_symbol rec) ivs"

definition sectors_of :: "(string \<times> string) list \<Rightarrow> (string \<times> string list) list option \<Rightarrow> recommendation \<Rightarrow> string list" where
  "sectors_of registry mappings rec =
     (case mappings of
        None \<Rightarrow> []
      | Some m \<Rightarrow> (case map_of m (case map_of registry (rc_agent rec) of Some s \<Rightarrow> s | None \<Rightarrow> []) of Some ss \<Rightarrow> ss | None \<Rightarrow> []))"

lemma banned_sectors:
  "isRecommendationInBannedSector registry mappings banned rec \<longleftrightarrow> list_ex (\<lambda>s. s \<in> banned) (sectors_of registry mappings rec)"
  by (auto simp: isRecommendationInBannedSector_def sectors_of_def Let_def list_ex_iff split: option.splits)

lemma collect_snoc: "collect_overrides (ivs @ [x]) = apply_intervention x (collect_overrides ivs)"
  by (simp add: collect_overrides_def)

lemma in_force_snoc:
  "in_force on off target t (ivs @ [(now, iv)]) =
     (if \<not> IsExpired now iv \<and> iv_type iv \<in> {on, off} \<and> target iv = t then iv_type iv = on else in_force on off target t ivs)"
  by (simp add: in_force_def)

lemma collected:
  "(a \<in> ho_paused (collect_overrides ivs) \<longleftrightarrow> in_force ''pause_agent'' ''resume_agent'' iv_agent a ivs)
   \<and> (s \<in> ho_banned (collect_overrides ivs) \<longleftrightarrow> in_force ''sector_ban'' ''sector_unban'' iv_sector s ivs)
   \<and> ((rc_agent rec, rc_symbol rec) \<in> ho_rejected (collect_overrides ivs) \<longleftrightarrow> rejected ivs rec)"
proof (induction ivs rule: rev_induct)
  case (snoc x ivs)
  obtain now iv where x: "x = (now, iv)" by fastforce
  show ?case using snoc unfolding x collect_snoc in_force_snoc rejected_def
    by (auto simp: apply_intervention_def)
qed (simp add: collect_overrides_def in_force_def rejected_def)

text \<open>
  A recommendation passes the human overrides exactly when no rejection in force names its agent and symbol, the last
  intervention in force on its agent is not a pause, and for none of the sectors of its agent the last one is a ban.  An approval
  never takes a rejection back.
\<close>

theorem overrides_keep_what_nobody_stopped:
  "rec \<in> set (fst (applyHumanOverrides registry mappings (Interventions ivs) recs)) \<longleftrightarrow>
     rec \<in> set recs \<and> \<not> rejected ivs rec \<and> \<not> in_force ''pause_agent'' ''resume_agent'' iv_agent (rc_agent rec) ivs
     \<and> \<not> list_ex (\<lambda>s. in_force ''sector_ban'' ''sector_unban'' iv_sector s ivs) (sectors_of registry mappings rec)"
  using collected[of _ ivs _ rec] by (auto simp: applyHumanOverrides_def kept_def banned_sectors list_ex_iff)

text \<open>When the interventions cannot be read, the bans and pauses are gone.\<close>

lemma unreadable_overrides: "applyHumanOverrides registry mappings ReadFailed recs = (recs, [])"
  by (simp add: applyHumanOverrides_def)

text \<open>What the alpha discovery adds is not filtered: a rejection or a ban does not reach it.\<close>

lemma alpha_is_not_filtered:
  "set (alpha (fst (applyHumanOverrides registry mappings ledger (narrative raw)))) \<subseteq>
     set (session_recommendations narrative alpha (\<lambda>recs. recs) registry mappings ledger raw final)"
  by (auto simp: session_recommendations_def Let_def)

section \<open>The series mirror the state\<close>

text \<open>
  One simulated session: what the system sets on its engine before the run (the exposure cap, for one, as a function of the engine that it
  has), what the session is given, and whether the steps of saving its state succeed.
\<close>

record session_input =
  si_prepare :: "sim_engine \<Rightarrow> sim_engine"
  si_visit :: "nat \<Rightarrow> quote_map \<Rightarrow> quote_map"
  si_zone :: int
  si_regime :: string
  si_quotes :: "quote list"
  si_recs :: "recommendation list"
  si_saves :: "bool \<times> bool \<times> bool"

text \<open>
  The part of the system that lives as long as the process, the settings of its engine and the streaks of the feedback rules included, and the
  state file.
\<close>

record system =
  sy_mode :: string
  sy_cash :: f64
  sy_state :: "sim_state option"
  sy_injected :: bool
  sy_engine :: sim_engine
  sy_rules :: "reflex_rule list"
  sy_series :: session_series
  sy_file :: state_file

definition boot :: "string \<Rightarrow> f64 \<Rightarrow> sim_engine \<Rightarrow> reflex_rule list \<Rightarrow> state_file \<Rightarrow> system" where
  "boot mode cash e rules f =
     \<lparr>sy_mode = mode, sy_cash = cash, sy_state = None, sy_injected = False, sy_engine = e, sy_rules = rules, sy_series = \<lparr>sx_values = [], sx_returns = []\<rparr>, sy_file = f\<rparr>"

definition persists :: "system \<Rightarrow> bool" where
  "persists sy \<longleftrightarrow> sy_mode sy = ''daily'' \<or> sy_mode sy = ''replay''"

definition ensurePersistentStateLoaded :: "system \<Rightarrow> state_error + system" where
  "ensurePersistentStateLoaded sy =
     (if \<not> persists sy \<or> sy_state sy \<noteq> None then Inr sy
      else (case LoadPersistentState (sy_file sy) of
        Inl err \<Rightarrow> Inl err
      | Inr loaded \<Rightarrow>
          (let s = (case loaded of Some s \<Rightarrow> s | None \<Rightarrow> NewSimulationState (sy_cash sy))
           in Inr (sy\<lparr>sy_state := Some s, sy_series := hydrateHistory s (sy_series sy)\<rparr>))))"

definition WithPersistentState :: "sim_state \<Rightarrow> system \<Rightarrow> system" where
  "WithPersistentState s sy = sy\<lparr>sy_state := Some s, sy_injected := True, sy_series := hydrateHistory s (sy_series sy)\<rparr>"

definition persistPersistentState :: "bool \<times> bool \<times> bool \<Rightarrow> system \<Rightarrow> state_error option \<times> system" where
  "persistPersistentState saves sy =
     (if \<not> persists sy \<or> sy_state sy = None \<or> sy_injected sy then (None, sy)
      else (let (err, f) = SavePersistentState (fst saves) (fst (snd saves)) (snd (snd saves)) (sy_state sy) (sy_file sy)
            in (err, sy\<lparr>sy_file := f\<rparr>)))"

text \<open>
  The run of the engine in a session, on the state of the system or, without one, from scratch; then the series, then the save, whose
  failure is only logged.
\<close>

definition engine_run :: "session_input \<Rightarrow> system \<Rightarrow> system" where
  "engine_run i sy =
     (let e = si_prepare i (sy_engine sy)
      in case sy_state sy of
        Some s \<Rightarrow>
          (let (res, rules', s') = RunWithState e (si_visit i) (sy_rules sy) (si_zone i) (si_regime i) (si_quotes i) (si_recs i) s
           in sy\<lparr>sy_state := Some s', sy_engine := e, sy_rules := rules', sy_series := recordSessionHistory (sr_day res) (sy_series sy)\<rparr>)
      | None \<Rightarrow>
          (let (res, rules', s') = Run e (si_visit i) (sy_rules sy) (si_zone i) (si_regime i) (si_quotes i) (si_recs i)
           in sy\<lparr>sy_engine := e, sy_rules := rules', sy_series := recordSessionHistory (sr_day res) (sy_series sy)\<rparr>))"

definition run_session :: "session_input \<Rightarrow> system \<Rightarrow> state_error + (state_error option \<times> system)" where
  "run_session i sy =
     (case ensurePersistentStateLoaded sy of
        Inl err \<Rightarrow> Inl err
      | Inr sy1 \<Rightarrow> Inr (persistPersistentState (si_saves i) (engine_run i sy1)))"

text \<open>The sessions of one process; the flag tells whether every save succeeded.\<close>

fun run_process :: "session_input list \<Rightarrow> system \<Rightarrow> state_error + (bool \<times> system)" where
  "run_process [] sy = Inr (True, sy)"
| "run_process (i # is) sy =
     (case run_session i sy of
        Inl err \<Rightarrow> Inl err
      | Inr (err, sy1) \<Rightarrow> (case run_process is sy1 of Inl err' \<Rightarrow> Inl err' | Inr (ok, sy2) \<Rightarrow> Inr (err = None \<and> ok, sy2)))"

text \<open>A state whose last recorded value is the end of its equity curve, and series that mirror the state.\<close>

definition sound_state :: "sim_state \<Rightarrow> bool" where
  "sound_state s \<longleftrightarrow> amount ''_portfolio_'' (ss_previous s) = (if ss_equity s = [] then Fin 0 else List.last (ss_equity s)) \<and>
     (ss_last_session s \<noteq> [] \<longrightarrow> ss_equity s \<noteq> [])"

definition mirrors :: "sim_state \<Rightarrow> session_series \<Rightarrow> bool" where
  "mirrors s x \<longleftrightarrow> sx_values x = ss_equity s \<and> sx_returns x = ss_returns s"

definition sound_file :: "state_file \<Rightarrow> bool" where
  "sound_file f \<longleftrightarrow> (case f of StateFile s \<Rightarrow> sound_state s | _ \<Rightarrow> True)"

lemma replace_last_set_last: "xs \<noteq> [] \<Longrightarrow> replace_last v xs = set_last v xs"
  by (simp add: replace_last_def set_last_def)

lemma RunWithState_day:
  "snd (snd (RunWithState e visit rules z regime qs recs s)) = snd (snd (RunDay e visit rules z (deriveSimDay qs) regime qs recs s))"
  "recordSessionHistory (sr_day (fst (RunWithState e visit rules z regime qs recs s))) x =
   recordSessionHistory (fst (RunDay e visit rules z (deriveSimDay qs) regime qs recs s)) x"
  by (simp_all add: RunWithState_def computeTaxAdjustedResults_def recordSessionHistory_def Let_def case_prod_beta split: option.split)

lemma amount_update: "amount k (AList.update k v m) = v"
  by (simp add: amount_def update_conv')

lemma last_set_last [simp]: "List.last (set_last v xs) = v" "set_last v xs \<noteq> []"
  by (simp_all add: set_last_def)

lemma record_session_sound:
  assumes "sound_state s"
  shows "sound_state (snd (record_session key s))"
proof (cases "is_rerun key s")
  case True
  then have "ss_equity s \<noteq> []" using assms by (auto simp: is_rerun_def sound_state_def)
  with True show ?thesis
    by (simp add: sound_state_def record_session_def track_peak_def rerun_session_def amount_update Let_def case_prod_beta)
next
  case False
  then show ?thesis
    by (simp add: sound_state_def record_session_def track_peak_def new_session_def amount_update Let_def case_prod_beta)
qed

lemma record_session_mirrors:
  assumes "sound_state s" "mirrors s x" "record_session key s = ((rerun, r, recorded), s')"
    and "dr_value res = PortfolioValue s" "dr_rerun res = rerun" "dr_return res = r" "dr_return_recorded res = recorded"
  shows "mirrors s' (recordSessionHistory res x)"
proof (cases "is_rerun key s")
  case True
  then have "ss_equity s \<noteq> []" using assms(1) by (auto simp: is_rerun_def sound_state_def)
  with True assms show ?thesis
    by (auto simp: mirrors_def record_session_def rerun_session_def track_peak_def recordSessionHistory_def replace_last_set_last Let_def
        split: if_splits)
next
  case False
  define prev where "prev = amount ''_portfolio_'' (ss_previous s)"
  have prev: "prev = (if ss_equity s = [] then Fin 0 else List.last (ss_equity s))" using assms(1) by (simp add: prev_def sound_state_def)
  have nth: "(ss_equity s @ [v]) ! (length (ss_equity s @ [v]) - 2) = List.last (ss_equity s)" if "ss_equity s \<noteq> []" for v
    using that by (simp add: nth_append last_conv_nth)
  show ?thesis
  proof (cases "ss_equity s = []")
    case True
    with False assms prev show ?thesis
      by (auto simp: mirrors_def record_session_def new_session_def track_peak_def recordSessionHistory_def Let_def prev_def split: if_splits)
  next
    case ne: False
    with False assms prev nth[OF ne] show ?thesis
      by (auto simp: mirrors_def record_session_def new_session_def track_peak_def recordSessionHistory_def Let_def case_prod_beta
          prev_def split: if_splits)
  qed
qed

lemma trade_day_keeps:
  defines "after \<equiv> \<lambda>e quotes recs regime d s. snd (snd (trade_day e quotes recs regime d s))"
  shows "sound_state s \<Longrightarrow> sound_state (after e quotes recs regime d s)" "mirrors s x \<Longrightarrow> mirrors (after e quotes recs regime d s) x"
  using trade_day_history[of e quotes recs regime d s] by (simp_all add: after_def sound_state_def mirrors_def history_def)

lemma RunDay_mirrors:
  assumes "sound_state s" "mirrors s x" "RunDay e visit rules z d regime qs recs s = (res, rules', s')"
  shows "sound_state s' \<and> mirrors s' (recordSessionHistory res x)"
proof -
  define s1 where "s1 = snd (snd (trade_day e (quotes_by_symbol qs) (fst (apply_rules visit rules recs s (quotes_by_symbol qs))) regime d s))"
  have s1: "sound_state s1" "mirrors s1 x" using assms(1,2) by (simp_all add: s1_def trade_day_keeps)
  obtain rerun r recorded s2 where rec: "record_session (SessionDateKey z d) s1 = ((rerun, r, recorded), s2)" by (metis prod.collapse)
  have "s' = s2" "dr_value res = PortfolioValue s1" "dr_rerun res = rerun" "dr_return res = r" "dr_return_recorded res = recorded"
    using assms(3) rec by (auto simp: RunDay_def Let_def case_prod_beta s1_def)
  with record_session_mirrors[OF s1 rec] record_session_sound[OF s1(1), of "SessionDateKey z d"] rec show ?thesis by simp
qed

lemma engine_run_mirrors:
  assumes "sy_state sy = Some s" "sound_state s" "mirrors s (sy_series sy)"
  shows "\<exists>s'. sy_state (engine_run i sy) = Some s' \<and> sound_state s' \<and> mirrors s' (sy_series (engine_run i sy))"
proof -
  obtain res rules' s' where run: "RunDay (si_prepare i (sy_engine sy)) (si_visit i) (sy_rules sy) (si_zone i) (deriveSimDay (si_quotes i)) (si_regime i)
      (si_quotes i) (si_recs i) s = (res, rules', s')" by (metis prod.collapse)
  from RunDay_mirrors[OF assms(2,3) run] assms(1) run show ?thesis
    by (auto simp: engine_run_def RunWithState_day Let_def case_prod_beta)
qed

lemma engine_run_frame [simp]:
  "sy_file (engine_run i sy) = sy_file sy" "sy_mode (engine_run i sy) = sy_mode sy" "sy_cash (engine_run i sy) = sy_cash sy"
  "sy_injected (engine_run i sy) = sy_injected sy"
  by (simp_all add: engine_run_def Let_def case_prod_beta split: option.split)

text \<open>A system whose state is saved: a new process that boots from its file is the same system after loading.\<close>

definition saved :: "system \<Rightarrow> bool" where
  "saved sy \<longleftrightarrow> persists sy \<and> \<not> sy_injected sy \<and>
     (\<exists>s. sy_state sy = Some s \<and> sy_file sy = StateFile s \<and> sound_state s \<and> mirrors s (sy_series sy))"

lemma saved_restart:
  assumes "saved sy"
  shows "ensurePersistentStateLoaded (boot (sy_mode sy) (sy_cash sy) e (sy_rules sy) (sy_file sy)) = Inr (sy\<lparr>sy_engine := e\<rparr>) \<and>
    ensurePersistentStateLoaded sy = Inr sy"
  using assms
  by (cases sy) (auto simp: saved_def persists_def boot_def ensurePersistentStateLoaded_def LoadPersistentState_def hydrateHistory_def mirrors_def Let_def)

lemma run_session_saved:
  assumes "run_session i sy = Inr (None, sy')" "persists sy" "\<not> sy_injected sy"
    and "\<And>s. sy_state sy = Some s \<Longrightarrow> sound_state s \<and> mirrors s (sy_series sy)"
    and "sy_state sy = None \<Longrightarrow> sound_file (sy_file sy) \<and> sy_series sy = \<lparr>sx_values = [], sx_returns = []\<rparr>"
  shows "saved sy' \<and> sy_mode sy' = sy_mode sy \<and> sy_cash sy' = sy_cash sy"
proof -
  obtain sy1 where load: "ensurePersistentStateLoaded sy = Inr sy1" and save: "persistPersistentState (si_saves i) (engine_run i sy1) = (None, sy')"
    using assms(1) by (auto simp: run_session_def split: sum.splits)
  have fresh: "sound_state (NewSimulationState c)" for c by (simp add: sound_state_def NewSimulationState_def amount_def)
  have "\<exists>s. sy_state sy1 = Some s \<and> sound_state s \<and> mirrors s (sy_series sy1)"
    using load assms(2-5) fresh
    by (cases "sy_state sy")
       (auto simp: ensurePersistentStateLoaded_def LoadPersistentState_def hydrateHistory_def mirrors_def sound_file_def Let_def
         split: sum.splits option.splits state_file.splits)
  then obtain s where "sy_state (engine_run i sy1) = Some s" "sound_state s" "mirrors s (sy_series (engine_run i sy1))"
    using engine_run_mirrors by blast
  moreover have "persists sy1" "\<not> sy_injected sy1" "sy_mode sy1 = sy_mode sy" "sy_cash sy1 = sy_cash sy"
    using load assms(2,3) by (auto simp: ensurePersistentStateLoaded_def persists_def Let_def split: sum.splits if_splits)
  ultimately show ?thesis using save
    by (auto simp: saved_def persistPersistentState_def SavePersistentState_def persists_def Let_def case_prod_beta split: if_splits)
qed

lemma run_process_append:
  "run_process (is1 @ is2) sy =
     (case run_process is1 sy of
        Inl err \<Rightarrow> Inl err
      | Inr (ok, sy1) \<Rightarrow> (case run_process is2 sy1 of Inl err \<Rightarrow> Inl err | Inr (ok', sy2) \<Rightarrow> Inr (ok \<and> ok', sy2)))"
  by (induction is1 arbitrary: sy) (auto split: sum.splits)

lemma run_process_saved:
  "run_process is sy = Inr (True, sy') \<Longrightarrow> saved sy \<Longrightarrow> saved sy' \<and> sy_mode sy' = sy_mode sy \<and> sy_cash sy' = sy_cash sy"
proof (induction "is" arbitrary: sy)
  case (Cons i "is")
  obtain sy1 where step: "run_session i sy = Inr (None, sy1)" "run_process is sy1 = Inr (True, sy')"
    using Cons.prems(1) by (auto split: sum.splits)
  have "saved sy1 \<and> sy_mode sy1 = sy_mode sy \<and> sy_cash sy1 = sy_cash sy"
    by (rule run_session_saved[OF step(1)]) (use Cons.prems(2) in \<open>auto simp: saved_def\<close>)
  with Cons.IH[OF step(2)] show ?case by simp
qed simp

lemma boot_fields [simp]:
  "sy_mode (boot mode cash e rules f) = mode" "sy_cash (boot mode cash e rules f) = cash" "sy_state (boot mode cash e rules f) = None"
  "sy_file (boot mode cash e rules f) = f" "\<not> sy_injected (boot mode cash e rules f)" "sy_engine (boot mode cash e rules f) = e"
  "sy_rules (boot mode cash e rules f) = rules" "sy_series (boot mode cash e rules f) = \<lparr>sx_values = [], sx_returns = []\<rparr>"
  by (simp_all add: boot_def)

lemma engine_run_prepared: "si_prepare i e = si_prepare i (sy_engine sy) \<Longrightarrow> engine_run i (sy\<lparr>sy_engine := e\<rparr>) = engine_run i sy"
  by (simp add: engine_run_def Let_def case_prod_beta split: option.split)

text \<open>
  C21 (refinement). The state file holds all that a session needs of the sessions before it, apart from the streaks of the feedback rules.
  In daily or replay mode, from a file that is missing or sound, and as long as every save succeeds: stop a process between two sessions
  and boot another one from its state file, with the same cash parameter, rules in the state that the old process had reached, and
  an engine from which the next session prepares the same settings. The new process runs the remaining sessions, given the same inputs, to
  the same state, series of values and returns, engine settings, streaks and file as one process that runs all sessions. A restart
  with new rules loses their streaks (lemma restart_forgets_streaks).
\<close>

theorem state_file_carries_sessions:
  assumes "run_process (is1 @ is2) (boot mode cash e rules f) = Inr (True, sy)" "mode \<in> {''daily'', ''replay''}" "sound_file f" "is2 \<noteq> []"
  shows "\<exists>sy1. run_process is1 (boot mode cash e rules f) = Inr (True, sy1) \<and>
    (\<forall>e1. si_prepare (hd is2) e1 = si_prepare (hd is2) (sy_engine sy1) \<longrightarrow>
       run_process is2 (boot mode cash e1 (sy_rules sy1) (sy_file sy1)) = Inr (True, sy))"
proof (cases is1)
  case Nil
  obtain j js where is2: "is2 = j # js" using assms(4) by (cases is2) auto
  have same: "run_session j (boot mode cash e1 rules f) = run_session j (boot mode cash e rules f)" if "si_prepare j e1 = si_prepare j e" for e1
  proof -
    let ?b = "boot mode cash e rules f"
    have b: "boot mode cash e1 rules f = ?b\<lparr>sy_engine := e1\<rparr>" by (simp add: boot_def)
    have l: "ensurePersistentStateLoaded (?b\<lparr>sy_engine := e1\<rparr>) = map_sum id (\<lambda>x. x\<lparr>sy_engine := e1\<rparr>) (ensurePersistentStateLoaded ?b)"
      by (auto simp: ensurePersistentStateLoaded_def persists_def Let_def split: sum.split option.split)
    show ?thesis
    proof (cases "ensurePersistentStateLoaded ?b")
      case (Inr sy1)
      then have "sy_engine sy1 = e" by (auto simp: ensurePersistentStateLoaded_def Let_def split: sum.splits if_splits)
      with that have "engine_run j (sy1\<lparr>sy_engine := e1\<rparr>) = engine_run j sy1" by (intro engine_run_prepared) simp
      with Inr show ?thesis unfolding run_session_def b l by simp
    qed (simp add: run_session_def b l)
  qed
  show ?thesis
  proof (intro exI conjI allI impI)
    show "run_process is1 (boot mode cash e rules f) = Inr (True, boot mode cash e rules f)" by (simp add: Nil)
    fix e1 assume "si_prepare (hd is2) e1 = si_prepare (hd is2) (sy_engine (boot mode cash e rules f))"
    then have "si_prepare j e1 = si_prepare j e" by (simp add: is2)
    from same [OF this] assms(1)
    show "run_process is2 (boot mode cash e1 (sy_rules (boot mode cash e rules f)) (sy_file (boot mode cash e rules f))) = Inr (True, sy)"
      by (simp add: Nil is2)
  qed
next
  case (Cons i is1')
  obtain sy1 where one: "run_process is1 (boot mode cash e rules f) = Inr (True, sy1)" "run_process is2 sy1 = Inr (True, sy)"
    using assms(1) by (auto simp: run_process_append split: sum.splits)
  then obtain sy0 where step: "run_session i (boot mode cash e rules f) = Inr (None, sy0)" "run_process is1' sy0 = Inr (True, sy1)"
    by (auto simp: Cons split: sum.splits)
  have "saved sy0 \<and> sy_mode sy0 = sy_mode (boot mode cash e rules f) \<and> sy_cash sy0 = sy_cash (boot mode cash e rules f)"
    by (rule run_session_saved[OF step(1)]) (use assms(2,3) in \<open>auto simp: persists_def\<close>)
  with run_process_saved[OF step(2)] have sy1: "saved sy1" "sy_mode sy1 = mode" "sy_cash sy1 = cash" by simp_all
  obtain j js where is2: "is2 = j # js" using assms(4) by (cases is2) auto
  have "run_session j (boot mode cash e1 (sy_rules sy1) (sy_file sy1)) = run_session j sy1"
    if "si_prepare j e1 = si_prepare j (sy_engine sy1)" for e1
    using saved_restart[OF sy1(1), of e1] sy1(2,3) engine_run_prepared [OF that] by (simp add: run_session_def)
  with one is2 show ?thesis by simp
qed

text \<open>What a restart forgets: a fifth recommendation in a row is damped by the rules that have counted four, and not by new ones.\<close>

lemma restart_forgets_streaks:
  assumes "map_of m (rc_symbol rec) = Some 4" "rc_side rec = SideBuy"
  shows "fst (ApplyRule (ReversalDetectionRule m) [rec] s quotes) = [damp (85 / 100) rec] \<and>
    fst (ApplyRule NewReversalDetectionRule [rec] s quotes) = [rec]"
proof -
  have w: "wrap64 5 = 5" "wrap64 1 = 1" by (intro wrap64_id, simp_all add: i64_min_def i64_max_def)+
  have "map_of (filter (\<lambda>(y, n). y = rc_symbol rec) (AList.update (rc_symbol rec) v m)) (rc_symbol rec) = Some v" for v and m :: "(string \<times> int) list"
    using map_of_filter_keys [of "\<lambda>y. y = rc_symbol rec" "AList.update (rc_symbol rec) v m" "rc_symbol rec"] by (simp add: update_conv')
  then show ?thesis using assms
    by (simp add: NewReversalDetectionRule_def next_streaks_def buys_def count_streak_def extreme_def w Let_def)
qed

section \<open>The ceiling\<close>

text \<open>
  At the red level the evaluation needs no structural assessment: unless a dominant trend reaches the red threshold, the action is
  severe.
\<close>

definition withstands_red :: "risk_system \<Rightarrow> drawdown_engine \<Rightarrow> bool" where
  "withstands_red sys de \<longleftrightarrow> canWithstandMacroRisk de MacroRiskRed (assessStructuralTrends sys)"

lemma crisis_decision:
  assumes "rs_macro sys = Some mc" "rs_drawdown sys = Some de" "\<not> withstands_red sys de"
    and "fle (Fin 35) (mp_value (md_vix (QuotesToMacroDataSnapshot quotes)))"
  shows "\<exists>d. evaluateDrawdown sys (assessMacroRisk sys quotes) (assessStructuralTrends sys) = Some (Some d)
     \<and> dd_action d = DrawdownSevere \<and> dd_exposure d = dl_exposure (level_of de DrawdownSevere)"
  using assms
  by (simp add: evaluateDrawdown_def assessMacroRisk_def AssessMacro_def EvaluateDrawdown_def withstands_red_def determineAction_def
      macro_levels Let_def case_prod_beta)

lemma crisis_ceiling:
  assumes "rs_macro sys = Some mc" "rs_drawdown sys = Some de" "\<not> withstands_red sys de"
    and "fle (Fin 35) (mp_value (md_vix (QuotesToMacroDataSnapshot quotes)))"
  shows "applyDrawdownExposureCap sys quotes e = Some (WithExposureCap (dl_exposure (level_of de DrawdownSevere)) e)"
  using crisis_decision[OF assms] assms(1,2)
  by (auto simp: applyDrawdownExposureCap_def applyExposureCapForDecision_def GetPositionSizeAdjustment_def assessMacroRisk_def)

lemma cap_set: "fle (Fin 0) c \<Longrightarrow> flt c (Fin 1) \<Longrightarrow> en_cap (WithExposureCap c e) = Some c"
  by (cases c) (auto simp: WithExposureCap_def fmin_def fmax_def)

text \<open>The state at the buying step of a day: after the sales, the trims and the forced closings.\<close>

definition before_purchases :: "sim_engine \<Rightarrow> quote_map \<Rightarrow> recommendation list \<Rightarrow> time \<Rightarrow> sim_state \<Rightarrow> sim_state" where
  "before_purchases e quotes recs d s =
     (let s1 = snd (snd (sell_step e quotes recs d (mark_to_market quotes s))); s2 = snd (snd (trim_step e quotes d s1))
      in snd (snd (holding_step e quotes d s2)))"

lemma sells_only_day:
  assumes "fst (buy_step e quotes recs regime d (before_purchases e quotes recs d s)) = []"
    "ord \<in> set (fst (fst (trade_day e quotes recs regime d s)))"
  shows "o_side ord = SideSell"
proof -
  obtain o1 t1 e1 s1 where 1: "sell_step e quotes recs d (mark_to_market quotes s) = ((o1, t1), e1, s1)" by (metis prod.collapse)
  obtain o2 e2 s2 where 2: "trim_step e quotes d s1 = (o2, e2, s2)" by (metis prod.collapse)
  obtain o3 e3 s3 where 3: "holding_step e quotes d s2 = (o3, e3, s3)" by (metis prod.collapse)
  have "before_purchases e quotes recs d s = s3" by (simp add: before_purchases_def 1 2 3)
  then have "fst (fst (trade_day e quotes recs regime d s)) = o1 @ map fst o2 @ map fst o3"
    using assms(1) by (simp add: trade_day_def 1 2 3 case_prod_beta)
  moreover have "list_all (\<lambda>ord. o_side ord = SideSell) (o1 @ map fst o2 @ map fst o3)"
    using sell_step_props [OF 1] trim_step_props [OF 2] holding_step_props [OF 3] by (simp add: sheds_def)
  ultimately show ?thesis using assms(2) by (simp add: list_all_iff)
qed

lemma RunWithState_orders:
  "dr_orders (sr_day (fst (RunWithState e visit rules z regime qs recs s))) =
     fst (fst (trade_day e (quotes_by_symbol qs) (fst (apply_rules visit rules recs s (quotes_by_symbol qs))) regime (deriveSimDay qs) s))"
  using RunDay_orders [of e visit rules z "deriveSimDay qs" regime qs recs s]
  by (simp add: RunWithState_def computeTaxAdjustedResults_def Let_def case_prod_beta split: option.split)

text \<open>
  C20 (safety). In a crisis a session with a full book buys nothing. The system has a macro engine and a drawdown engine, the quotes of the
  session put the volatility index at 35 or more, and no trend withstands a red level: then the ceiling of the severe level is set on the
  engine before the run. If after the sales, trims and forced closings of the session the positions (of finite worth) are still
  worth at least that share of the portfolio, every order of the session is a sale, whatever is recommended or optimized. The ceiling
  is at least 0 and below 1, prices after costs are positive, and the limit per position is a number. Room that the sales of the session
  have made under the ceiling may be used for purchases.
\<close>

theorem crisis_stops_purchases:
  assumes "rs_macro sys = Some mc" "rs_drawdown sys = Some de" "\<not> withstands_red sys de"
    and "fle (Fin 35) (mp_value (md_vix (QuotesToMacroDataSnapshot quotes)))"
    and "dl_exposure (level_of de DrawdownSevere) = c" "fle (Fin 0) c" "flt c (Fin 1)"
    and "s1 = before_purchases (WithExposureCap c e) (quotes_by_symbol quotes) (fst (apply_rules visit rules recs s (quotes_by_symbol quotes)))
      (deriveSimDay quotes) s"
    and "exposure s1 = Fin x" "fle (fmul c (PortfolioValue s1)) (Fin x)"
    and "positive_prices (WithExposureCap c e) (quotes_by_symbol quotes)"
    and "max_per_position (WithExposureCap c e) regime (AvailableCash (deriveSimDay quotes) s1) \<noteq> NaN"
  shows "\<exists>e'. applyDrawdownExposureCap sys quotes e = Some e' \<and>
    (\<forall>ord \<in> set (dr_orders (sr_day (fst (RunWithState e' visit rules z regime quotes recs s)))). o_side ord = SideSell)"
proof -
  let ?qm = "quotes_by_symbol quotes"
  have "fst (buy_step (WithExposureCap c e) ?qm rs regime (deriveSimDay quotes) s1) = []" for rs
    using full_book_buys_nothing[OF cap_set[OF assms(6,7)] assms(7,9,10,11,12)] by simp
  then have "o_side ord = SideSell"
    if "ord \<in> set (dr_orders (sr_day (fst (RunWithState (WithExposureCap c e) visit rules z regime quotes recs s))))" for ord
    using that unfolding RunWithState_orders assms(8) by (rule sells_only_day)
  with crisis_ceiling[OF assms(1-4), of e] assms(5) show ?thesis by auto
qed

definition demo_risk :: risk_system where
  "demo_risk = \<lparr>rs_macro = Some demo_macro_config, rs_sectors = None, rs_drawdown = Some (NewMacroAwareDrawdownEngine demo_drawdown_config)\<rparr>"

definition demo_vix_quote :: quote where
  "demo_vix_quote = (demo_quote ''^VIX'' 0)\<lparr>q_last := Fin 40, q_open := Fin 40\<rparr>"

definition crisis_quotes :: "quote list" where
  "crisis_quotes = [(demo_quote ''2330'' 5000)\<lparr>q_last := Fin 128\<rparr>, demo_vix_quote]"

lemma demo_severe: "level_of (NewMacroAwareDrawdownEngine demo_drawdown_config) DrawdownSevere = \<lparr>dl_percentage = Fin (3 / 4), dl_exposure = Fin (1 / 4)\<rparr>"
  by (simp add: level_of_def NewMacroAwareDrawdownEngine_def NewDefaultDrawdownLevels_def demo_drawdown_config_def demo_levels_def)

lemma crisis_book:
  "before_purchases (WithExposureCap (Fin (1 / 4)) demo_engine) (quotes_by_symbol crisis_quotes) [demo_rec SideBuy] d demo_full = demo_full"
  by (simp add: before_purchases_def Let_def sell_step_def SellLogicEnabled_def WithExposureCap_def demo_full_def demo_defs executeSells_def
      mark_to_market_def crisis_quotes_def demo_vix_quote_def quotes_by_symbol_def mark_position_def tradable_quote_def shouldSellPosition_def
      f64_int fsub_def price_defs f64_simps rnd_neg seven_eighths trim_step_def holding_step_def)

lemma crisis_positive: "positive_prices (WithExposureCap (Fin (1 / 4)) demo_engine) (quotes_by_symbol crisis_quotes)"
  by (simp add: positive_prices_def WithExposureCap_def demo_engine_def NewEngine_def demo_constraints_def crisis_quotes_def demo_vix_quote_def
      demo_quote_def quotes_by_symbol_def price_defs f64_simps)

lemma crisis_limit: "max_per_position (WithExposureCap (Fin (1 / 4)) demo_engine) [] (AvailableCash d demo_full) \<noteq> NaN"
  by (simp add: max_per_position_def effectiveReserveCashFraction_def WithExposureCap_def AvailableCash_def demo_full_def demo_defs
      RegimeNeutral_def fsub_def f64_simps)

lemma crisis_stops_purchases_witness:
  "\<exists>e'. applyDrawdownExposureCap demo_risk crisis_quotes demo_engine = Some e'
     \<and> (\<forall>ord \<in> set (dr_orders (sr_day (fst (RunWithState e' (\<lambda>_ q. q) [] 0 [] crisis_quotes [demo_rec SideBuy] demo_full)))).
          o_side ord = SideSell)"
proof -
  have vix: "mp_value (md_vix (QuotesToMacroDataSnapshot crisis_quotes)) = Fin 40"
    by (simp add: QuotesToMacroDataSnapshot_def snapshot_quote_def quoteChangePct_def IsUsablePrice_def crisis_quotes_def demo_vix_quote_def demo_quote_def)
  have red: "\<not> withstands_red demo_risk (NewMacroAwareDrawdownEngine demo_drawdown_config)"
    by (simp add: withstands_red_def canWithstandMacroRisk_def assessStructuralTrends_def demo_risk_def macro_levels)
  show ?thesis
    by (rule crisis_stops_purchases [where c = "Fin (1 / 4)" and mc = demo_macro_config and
          de = "NewMacroAwareDrawdownEngine demo_drawdown_config" and x = 12800, OF _ _ red _ _ _ _ refl])
      (simp_all add: demo_risk_def demo_severe vix crisis_book full_book_facts crisis_positive crisis_limit)
qed

section \<open>Two sessions in two processes\<close>

definition demo_session :: session_input where
  "demo_session = \<lparr>si_prepare = (\<lambda>_. demo_engine), si_visit = (\<lambda>_ q. q), si_zone = 0, si_regime = [], si_quotes = [],
     si_recs = [], si_saves = (True, True, True)\<rparr>"

definition idle_state :: "f64 list \<Rightarrow> f64 list \<Rightarrow> sim_state" where
  "idle_state equity returns = (NewSimulationState (Fin 819200))\<lparr>ss_equity := equity, ss_returns := returns,
     ss_previous := (if equity = [] then [] else [(''_portfolio_'', Fin 819200)])\<rparr>"

lemma idle_trade_day: "trade_day demo_engine [] [] [] zero_time (idle_state eq rs) = (([], []), [], idle_state eq rs)"
  by (simp add: trade_day_def mark_to_market_def sell_step_def SellLogicEnabled_def executeSells_def trim_step_def holding_step_def buy_step_def
      executeBuys_def executeLegacyBuys_def demo_engine_def NewEngine_def demo_constraints_def idle_state_def NewSimulationState_def Let_def case_prod_beta
      totalCost_def fsub_def f64_simps)

lemma idle_values:
  "PortfolioValue (idle_state eq rs) = Fin 819200" "SessionDateKey 0 zero_time = []" "quotes_by_symbol [] = []"
  "apply_rules v [] [] s q = ([], [])" "amount ''_portfolio_'' (ss_previous (idle_state eq rs)) = (if eq = [] then Fin 0 else Fin 819200)"
  by (simp_all add: PortfolioValue_def idle_state_def NewSimulationState_def SessionDateKey_def quotes_by_symbol_def amount_def)

definition idle_next :: "f64 list \<Rightarrow> f64 list \<Rightarrow> sim_state" where
  "idle_next eq rs = idle_state (eq @ [Fin 819200]) (if eq = [] then rs else rs @ [Fin 0])"

lemma idle_record: "snd (record_session [] (idle_state eq rs)) = idle_next eq rs"
proof (cases "eq = []")
  case True
  then show ?thesis
    by (simp add: record_session_def is_rerun_def new_session_def track_peak_def idle_values(1,5) Let_def idle_next_def)
      (simp add: idle_state_def NewSimulationState_def fsub_def f64_simps)
next
  case False
  then show ?thesis
    by (simp add: record_session_def is_rerun_def new_session_def track_peak_def idle_values(1,5) Let_def idle_next_def fsub_def f64_simps)
      (simp add: idle_state_def NewSimulationState_def fsub_def f64_simps)
qed

lemma idle_day: "snd (snd (RunDay demo_engine (\<lambda>_ q. q) [] 0 zero_time [] [] [] (idle_state eq rs))) = idle_next eq rs"
  by (simp add: RunDay_state idle_values idle_trade_day idle_record)

lemma idle_rules: "fst (snd (RunDay demo_engine (\<lambda>_ q. q) [] 0 zero_time [] [] [] (idle_state eq rs))) = []"
  by (simp add: RunDay_def Let_def case_prod_beta idle_values)

lemma RunWithState_rules:
  "fst (snd (RunWithState e visit rules z regime qs recs s)) = fst (snd (RunDay e visit rules z (deriveSimDay qs) regime qs recs s))"
  by (simp add: RunWithState_def computeTaxAdjustedResults_def Let_def case_prod_beta split: option.split)

lemma idle_marshals: "list_all is_finite eq \<Longrightarrow> list_all is_finite rs \<Longrightarrow> marshals (idle_next eq rs)"
  by (simp add: marshals_def idle_next_def idle_state_def NewSimulationState_def)

lemma demo_session_saves:
  assumes "ensurePersistentStateLoaded sy = Inr sy1" "sy_state sy1 = Some (idle_state eq rs)" "persists sy1" "\<not> sy_injected sy1" "sy_rules sy1 = []"
    "list_all is_finite eq" "list_all is_finite rs"
  shows "\<exists>sy'. run_session demo_session sy = Inr (None, sy') \<and> sy_state sy' = Some (idle_next eq rs) \<and> persists sy' \<and> \<not> sy_injected sy'
    \<and> sy_rules sy' = [] \<and> sy_engine sy' = demo_engine"
  using assms idle_marshals[OF assms(6,7)] idle_rules[of eq rs]
  by (simp add: run_session_def engine_run_def demo_session_def RunWithState_day RunWithState_rules idle_day deriveSimDay_def
      persistPersistentState_def SavePersistentState_def persists_def Let_def case_prod_beta)

lemma demo_two_sessions:
  "\<exists>sy. run_process ([demo_session] @ [demo_session]) (boot ''daily'' (Fin 819200) demo_engine [] NoStateFile) = Inr (True, sy)
     \<and> sy_state sy = Some (idle_next [Fin 819200] [])"
proof -
  let ?sy0 = "boot ''daily'' (Fin 819200) demo_engine [] NoStateFile"
  obtain sy where load: "ensurePersistentStateLoaded ?sy0 = Inr sy" "sy_state sy = Some (idle_state [] [])" "persists sy" "\<not> sy_injected sy"
    "sy_rules sy = []"
    by (simp add: ensurePersistentStateLoaded_def persists_def LoadPersistentState_def boot_def idle_state_def NewSimulationState_def Let_def)
  from demo_session_saves[OF load] obtain sy1 where 1: "run_session demo_session ?sy0 = Inr (None, sy1)"
    "sy_state sy1 = Some (idle_state [Fin 819200] [])" "persists sy1" "\<not> sy_injected sy1" "sy_rules sy1 = []"
    by (auto simp: idle_next_def)
  have "ensurePersistentStateLoaded sy1 = Inr sy1" using 1(2) by (simp add: ensurePersistentStateLoaded_def)
  from demo_session_saves[OF this 1(2-5)] obtain sy2 where 2: "run_session demo_session sy1 = Inr (None, sy2)"
    "sy_state sy2 = Some (idle_next [Fin 819200] [])" by auto
  with 1(1) show ?thesis by simp
qed

lemma state_file_carries_sessions_witness:
  "\<exists>sy sy1. run_process [demo_session] (boot ''daily'' (Fin 819200) demo_engine [] NoStateFile) = Inr (True, sy1)
     \<and> run_process [demo_session] (boot ''daily'' (Fin 819200) (demo_engine\<lparr>en_cap := None\<rparr>) (sy_rules sy1) (sy_file sy1)) = Inr (True, sy)
     \<and> map_option ss_equity (sy_state sy) = Some [Fin 819200, Fin 819200] \<and> map_option ss_returns (sy_state sy) = Some [Fin 0]"
proof -
  obtain sy where sy: "run_process ([demo_session] @ [demo_session]) (boot ''daily'' (Fin 819200) demo_engine [] NoStateFile) = Inr (True, sy)"
    "sy_state sy = Some (idle_next [Fin 819200] [])" using demo_two_sessions by blast
  have "si_prepare demo_session x = si_prepare demo_session y" for x y by (simp add: demo_session_def)
  with state_file_carries_sessions[OF sy(1)] obtain sy1 where
    "run_process [demo_session] (boot ''daily'' (Fin 819200) demo_engine [] NoStateFile) = Inr (True, sy1)"
    "run_process [demo_session] (boot ''daily'' (Fin 819200) (demo_engine\<lparr>en_cap := None\<rparr>) (sy_rules sy1) (sy_file sy1)) = Inr (True, sy)"
    by (auto simp: sound_file_def)
  with sy(2) show ?thesis by (auto simp: idle_next_def idle_state_def)
qed

end
