(* ===== verification/Exp_Contract.thy ===== *)
theory Exp_Contract
  imports Live_Agents Float64
begin

text \<open>
  The contract of a prompt experiment: \<open>internal/domain/experiment/experiment.go\<close>, \<open>state_machine.go\<close> and
  \<open>contract.go\<close>.  A status is the string that the JSON document holds, so that a record read from a file may carry any.
  The optional parts of a result that only reports read (data metadata, factor importance) are left out; a map of regime counts is
  an association list with distinct keys.
\<close>

section \<open>Data\<close>

definition ExperimentPlanned :: string where "ExperimentPlanned = ''planned''"
definition ExperimentRunning :: string where "ExperimentRunning = ''running''"
definition ExperimentAccepted :: string where "ExperimentAccepted = ''accepted''"
definition ExperimentRejected :: string where "ExperimentRejected = ''rejected''"
definition ExperimentExpired :: string where "ExperimentExpired = ''expired''"

lemmas status_defs =
  ExperimentPlanned_def ExperimentRunning_def ExperimentAccepted_def ExperimentRejected_def ExperimentExpired_def

record experiment_record =
  xr_id :: string
  xr_proposal :: string
  xr_commit :: string
  xr_approval :: string
  xr_target :: string
  xr_skill :: string
  xr_hypothesis :: string
  xr_version_from :: string
  xr_version_to :: string
  xr_mutation :: string
  xr_gates :: "string list"
  xr_window_start :: time
  xr_window_end :: time
  xr_metric :: string
  xr_baseline :: f64
  xr_candidate :: f64
  xr_baseline_ntd :: f64
  xr_candidate_ntd :: f64
  xr_status :: string
  xr_revert_reason :: string

record mutation_brief =
  mb_version :: int
  mb_proposal :: string
  mb_window :: string
  mb_target :: string
  mb_skill :: string
  mb_layer :: string
  mb_prompt_file :: string
  mb_mutation :: string
  mb_failure :: string
  mb_hypothesis :: string
  mb_metric :: string
  mb_gates :: "string list"
  mb_forbidden :: "string list"
  mb_required :: "string list"
  mb_windows :: int
  mb_maturity :: string
  mb_guidance :: "string list"
  mb_recommended :: string
  mb_rsi :: f64
  mb_generated :: time
  mb_stage :: string
  mb_action :: string

record oos_result =
  oos_passed :: bool
  oos_baseline :: f64
  oos_candidate :: f64
  oos_improvement :: f64
  oos_observations :: int
  oos_start :: time
  oos_end :: time
  oos_fallback :: bool
  oos_at :: time
  oos_reason :: string

record eval_result =
  ev_r2 :: f64
  ev_sharpe :: f64
  ev_cumulative :: f64
  ev_max_dd :: f64

record experiment_result =
  er_experiment :: experiment_record
  er_brief :: mutation_brief
  er_prompt :: string
  er_mode :: string
  er_policy_checks :: "string list"
  er_notes :: "string list"
  er_judge_checks :: "string list"
  er_baseline_obs :: int
  er_candidate_obs :: int
  er_fallback_window :: bool
  er_recorded_at :: time
  er_oos :: "oos_result option"
  er_baseline_returns :: "f64 list"
  er_candidate_returns :: "f64 list"
  er_snapshot :: string
  er_baseline_fallbacks :: int
  er_candidate_fallbacks :: int
  er_baseline_factors :: int
  er_candidate_factors :: int
  er_baseline_ntd :: f64
  er_candidate_ntd :: f64
  er_eval :: "eval_result option"
  er_regimes :: "(string \<times> int) list"
  er_regime_days :: int

section \<open>The state machine of a status\<close>

definition CanTransitionExperimentStatus :: "string \<Rightarrow> string \<Rightarrow> bool" where
  "CanTransitionExperimentStatus f t =
     (if f = t then True
      else if f = [] then t = ExperimentPlanned \<or> t = ExperimentRunning
      else if f = ExperimentPlanned then t = ExperimentRunning \<or> t = ExperimentRejected \<or> t = ExperimentExpired
      else if f = ExperimentRunning then t = ExperimentAccepted \<or> t = ExperimentRejected \<or> t = ExperimentExpired
      else False)"

datatype contract_error =
    InvalidTransition string string
  | UnsupportedVersion int
  | Required string
  | InvalidLayer string
  | InvalidMutation string
  | NegativeWindows
  | InvalidMaturity string
  | InvalidBrief contract_error

definition TransitionExperimentStatus :: "string \<Rightarrow> experiment_record \<Rightarrow> contract_error + experiment_record" where
  "TransitionExperimentStatus next r =
     (if CanTransitionExperimentStatus (xr_status r) next then Inr (r\<lparr>xr_status := next\<rparr>)
      else Inl (InvalidTransition (xr_status r) next))"

section \<open>The contract of a brief and of a result\<close>

definition supportedMutationTypes :: "string list" where
  "supportedMutationTypes =
     [''prompt_tightening'', ''risk_rule_change'', ''portfolio_constraint_revision'', ''onboarding'', ''promote_spawned'',
      ''auto_prompt_optimization'']"

definition IsSupportedMutationType :: "string \<Rightarrow> bool" where
  "IsSupportedMutationType mt \<longleftrightarrow> mt \<in> set supportedMutationTypes"

definition validMaturityLevels :: "string list" where
  "validMaturityLevels = [''level_1_exploratory'', ''level_2_validated'', ''level_2_window_validated'', ''level_3_regime_aware'']"

definition isValidAgentLayer :: "string \<Rightarrow> bool" where
  "isValidAgentLayer l \<longleftrightarrow> l \<in> {LayerContext, ''macro'', LayerSector, LayerStyle, LayerSuperinvestor, LayerControl}"

definition blank :: "string \<Rightarrow> bool" where
  "blank s \<longleftrightarrow> trim_space s = []"

definition NormalizeAndValidate :: "mutation_brief \<Rightarrow> contract_error + mutation_brief" where
  "NormalizeAndValidate b0 =
     (let b = (if mb_version b0 = 0 then b0\<lparr>mb_version := 1\<rparr> else b0)
      in if mb_version b \<noteq> 1 then Inl (UnsupportedVersion (mb_version b))
         else if blank (mb_window b) then Inl (Required ''window_id'')
         else
           (let b = (if blank (mb_proposal b) then b\<lparr>mb_proposal := ''proposal-'' @ trim_space (mb_window b)\<rparr> else b)
            in if blank (mb_target b) then Inl (Required ''target_agent_id'')
               else if blank (mb_skill b) then Inl (Required ''target_skill'')
               else if \<not> isValidAgentLayer (mb_layer b) then Inl (InvalidLayer (mb_layer b))
               else if blank (mb_prompt_file b) then Inl (Required ''prompt_file'')
               else if \<not> IsSupportedMutationType (mb_mutation b) then Inl (InvalidMutation (mb_mutation b))
               else if blank (mb_metric b) then Inl (Required ''acceptance_metric'')
               else if mb_gates b = [] then Inl (Required ''acceptance_gates'')
               else if mb_windows b < 0 then Inl NegativeWindows
               else if mb_maturity b \<noteq> [] \<and> mb_maturity b \<notin> set validMaturityLevels then Inl (InvalidMaturity (mb_maturity b))
               else Inr b))"

definition fill :: "string \<Rightarrow> string \<Rightarrow> string" where
  "fill other s = (if blank s then other else s)"

text \<open>The fields of the experiment that are blank are taken from its brief.\<close>

definition filled_experiment :: "mutation_brief \<Rightarrow> experiment_record \<Rightarrow> experiment_record" where
  "filled_experiment b x =
     x\<lparr>xr_target := fill (mb_target b) (xr_target x),
       xr_proposal := fill (''proposal-'' @ xr_id x) (fill (mb_proposal b) (xr_proposal x)),
       xr_skill := fill (mb_skill b) (xr_skill x),
       xr_mutation := fill (mb_mutation b) (xr_mutation x),
       xr_gates := (if xr_gates x = [] then mb_gates b else xr_gates x),
       xr_metric := fill (mb_metric b) (xr_metric x),
       xr_commit := fill (''commit-'' @ xr_id x) (xr_commit x)\<rparr>"

definition NormalizeAndValidateForJudge :: "experiment_result \<Rightarrow> contract_error + experiment_result" where
  "NormalizeAndValidateForJudge r =
     (if blank (xr_id (er_experiment r)) then Inl (Required ''experiment.id'')
      else if blank (er_prompt r) then Inl (Required ''candidate_prompt'')
      else (case NormalizeAndValidate (er_brief r) of
              Inl err \<Rightarrow> Inl (InvalidBrief err)
            | Inr b \<Rightarrow>
                (let x = filled_experiment b (er_experiment r)
                 in if blank (xr_target x) then Inl (Required ''experiment.target_agent_id'')
                    else if blank (xr_skill x) then Inl (Required ''experiment.skill'')
                    else if \<not> IsSupportedMutationType (xr_mutation x) then Inl (InvalidMutation (xr_mutation x))
                    else Inr (r\<lparr>er_experiment := x, er_brief := b\<rparr>))))"

section \<open>Facts\<close>

definition final_status :: "string \<Rightarrow> bool" where
  "final_status s \<longleftrightarrow> s = ExperimentAccepted \<or> s = ExperimentRejected \<or> s = ExperimentExpired"

lemma final_stays: "final_status s \<Longrightarrow> CanTransitionExperimentStatus s t \<longleftrightarrow> s = t"
  by (auto simp: final_status_def CanTransitionExperimentStatus_def status_defs)

lemma accepted_from_running:
  "CanTransitionExperimentStatus s ExperimentAccepted \<longleftrightarrow> s = ExperimentRunning \<or> s = ExperimentAccepted"
  by (auto simp: CanTransitionExperimentStatus_def status_defs)

text \<open>A status that is none of the five can never change.\<close>

lemma unknown_status_stays:
  "s \<noteq> [] \<Longrightarrow> s \<noteq> ExperimentPlanned \<Longrightarrow> s \<noteq> ExperimentRunning \<Longrightarrow> CanTransitionExperimentStatus s t \<longleftrightarrow> s = t"
  by (auto simp: CanTransitionExperimentStatus_def)

lemma trim_keeps:
  "c \<in> set s \<Longrightarrow> \<not> ascii_space c \<Longrightarrow> (\<And>p. p \<in> set ws \<Longrightarrow> c \<notin> set p) \<Longrightarrow> c \<in> set (trim_by ws s)"
proof (induction ws s rule: trim_by.induct)
  case (1 ws s)
  show ?case
  proof (cases "lead_space ws s = 0")
    case True
    with 1(2) show ?thesis by (simp add: trim_by.simps [of ws s])
  next
    case False
    have "c \<notin> set (take (lead_space ws s) s)"
    proof (cases s)
      case (Cons a as)
      show ?thesis
      proof (cases "ascii_space a")
        case True
        with Cons 1(3) show ?thesis by (auto simp: lead_space_def)
      next
        case not_ascii: False
        with Cons False obtain p where p: "find (starts_with s) ws = Some p" "lead_space ws s = length p"
          by (auto simp: lead_space_def split: option.splits)
        then have "p \<in> set ws" "take (length p) s = p" by (auto simp: find_Some_iff starts_with_def)
        with p 1(4) show ?thesis by simp
      qed
    qed simp
    with 1(2) have "c \<in> set (drop (lead_space ws s) s)" by (metis Un_iff append_take_drop_id set_append)
    with 1(1) [OF False _ 1(3) 1(4)] False show ?thesis by (simp add: trim_by.simps [of ws s])
  qed
qed

lemma not_blank_ascii:
  assumes "c \<in> set s" "\<not> ascii_space c" "c \<notin> \<Union> (set ` set wide_spaces)"
  shows "\<not> blank s"
proof -
  have 1: "c \<in> set (trim_by wide_spaces s)" using assms by (intro trim_keeps) auto
  have "c \<in> set (trim_by (map rev wide_spaces) (rev (trim_by wide_spaces s)))" using 1 assms by (intro trim_keeps) auto
  then show ?thesis by (auto simp: blank_def trim_space_def)
qed

lemma proposal_not_blank: "\<not> blank (''proposal-'' @ s)"
  by (rule not_blank_ascii [of "CHR ''p''"]) (simp_all add: ascii_space_def wide_spaces_def)

text \<open>What a validated brief satisfies, and that validating it again changes nothing.\<close>

definition valid_brief :: "mutation_brief \<Rightarrow> bool" where
  "valid_brief b \<longleftrightarrow> mb_version b = 1 \<and> \<not> blank (mb_window b) \<and> \<not> blank (mb_proposal b) \<and> \<not> blank (mb_target b) \<and>
     \<not> blank (mb_skill b) \<and> isValidAgentLayer (mb_layer b) \<and> \<not> blank (mb_prompt_file b) \<and> IsSupportedMutationType (mb_mutation b) \<and>
     \<not> blank (mb_metric b) \<and> mb_gates b \<noteq> [] \<and> 0 \<le> mb_windows b \<and> (mb_maturity b = [] \<or> mb_maturity b \<in> set validMaturityLevels)"

lemma valid_brief_returned: "valid_brief b \<Longrightarrow> NormalizeAndValidate b = Inr b"
  unfolding NormalizeAndValidate_def valid_brief_def Let_def by (elim conjE) simp

lemma validated_brief: "NormalizeAndValidate b = Inr b' \<Longrightarrow> valid_brief b'"
  unfolding NormalizeAndValidate_def valid_brief_def
  by (cases "mb_version b = 0"; cases "blank (mb_proposal b)") (simp_all add: Let_def split: if_split_asm, auto simp: proposal_not_blank [simplified])

lemma normalized_again: "NormalizeAndValidate b = Inr b' \<Longrightarrow> NormalizeAndValidate b' = Inr b'"
  by (intro valid_brief_returned validated_brief)

text \<open>A brief for the mutation type of the pipeline stages is refused.\<close>

lemma stage_toggle_unsupported: "valid_brief b \<Longrightarrow> mb_mutation b \<noteq> ''pipeline_stage_toggle''"
  by (auto simp: valid_brief_def IsSupportedMutationType_def supportedMutationTypes_def)

section \<open>A result\<close>

definition demo_accepted :: "string \<Rightarrow> string \<Rightarrow> experiment_result" where
  "demo_accepted ident mutation =
     \<lparr>er_experiment =
        \<lparr>xr_id = ident, xr_proposal = [], xr_commit = [], xr_approval = [], xr_target = ''agent'', xr_skill = ''momentum'', xr_hypothesis = [],
         xr_version_from = [], xr_version_to = [], xr_mutation = mutation, xr_gates = [''improve_sharpe_like''], xr_window_start = 0,
         xr_window_end = 0, xr_metric = [], xr_baseline = Fin 0, xr_candidate = Fin 1, xr_baseline_ntd = Fin 0, xr_candidate_ntd = Fin 0,
         xr_status = ExperimentAccepted, xr_revert_reason = []\<rparr>,
      er_brief =
        \<lparr>mb_version = 1, mb_proposal = [], mb_window = ''w'', mb_target = ''agent'', mb_skill = ''momentum'', mb_layer = ''style'',
         mb_prompt_file = ''p'', mb_mutation = mutation, mb_failure = [], mb_hypothesis = [], mb_metric = ''sharpe_like'',
         mb_gates = [''improve_sharpe_like''], mb_forbidden = [], mb_required = [], mb_windows = 1, mb_maturity = [], mb_guidance = [],
         mb_recommended = [], mb_rsi = Fin 0, mb_generated = 0, mb_stage = [], mb_action = []\<rparr>,
      er_prompt = ''candidate'', er_mode = [], er_policy_checks = [], er_notes = [], er_judge_checks = [], er_baseline_obs = 0,
      er_candidate_obs = 0, er_fallback_window = False, er_recorded_at = 0, er_oos = None, er_baseline_returns = [],
      er_candidate_returns = [], er_snapshot = [], er_baseline_fallbacks = 0, er_candidate_fallbacks = 0, er_baseline_factors = 0,
      er_candidate_factors = 0, er_baseline_ntd = Fin 0, er_candidate_ntd = Fin 0, er_eval = None, er_regimes = [],
      er_regime_days = 0\<rparr>"

end
