(* ===== verification/Go_Strconv.thy ===== *)
theory Go_Strconv
  imports Atlas_Prelude Float64
begin

text \<open>
  The parsers of package \<open>strconv\<close> that the policy code calls: \<open>ParseInt(s, 10, 64)\<close> (which \<open>Atoi\<close> agrees with),
  \<open>ParseBool\<close> and \<open>ParseFloat(s, 64)\<close>, each \<open>None\<close> where Go returns an error; and cutting a text at a byte.
\<close>

section \<open>Cutting\<close>

text \<open>\<open>strings.Split\<close> at one byte, and what follows its first occurrence.\<close>

fun split_at :: "char \<Rightarrow> string \<Rightarrow> string list" where
  "split_at d [] = [[]]"
| "split_at d (c # s) = (if c = d then [] # split_at d s else (case split_at d s of [] \<Rightarrow> [[c]] | l # ls \<Rightarrow> (c # l) # ls))"

definition lines_of :: "string \<Rightarrow> string list" where
  "lines_of s = split_at (CHR 0x0A) s"

definition after_char :: "char \<Rightarrow> string \<Rightarrow> string option" where
  "after_char d s = (case dropWhile (\<lambda>c. c \<noteq> d) s of [] \<Rightarrow> None | _ # r \<Rightarrow> Some r)"

section \<open>Integers and truth values\<close>

definition digit_of :: "char \<Rightarrow> nat" where
  "digit_of c = (of_char c :: nat) - 48"

definition is_digit :: "char \<Rightarrow> bool" where
  "is_digit c \<longleftrightarrow> 48 \<le> (of_char c :: nat) \<and> (of_char c :: nat) \<le> 57"

definition number_of :: "nat \<Rightarrow> (char \<Rightarrow> nat) \<Rightarrow> string \<Rightarrow> nat" where
  "number_of base digit s = fold (\<lambda>c v. v * base + digit c) s 0"

text \<open>The sign of a number, and the rest.\<close>

fun cut_sign :: "string \<Rightarrow> bool \<times> string" where
  "cut_sign [] = (False, [])"
| "cut_sign (c # s) = (if c = CHR ''-'' then (True, s) else if c = CHR ''+'' then (False, s) else (False, c # s))"

definition parse_int :: "string \<Rightarrow> int option" where
  "parse_int s =
     (let (neg, ds) = cut_sign s; n = int (number_of 10 digit_of ds); v = (if neg then - n else n)
      in if ds \<noteq> [] \<and> list_all is_digit ds \<and> i64_min \<le> v \<and> v \<le> i64_max then Some v else None)"

definition parse_bool :: "string \<Rightarrow> bool option" where
  "parse_bool s =
     (if s \<in> {''1'', ''t'', ''T'', ''true'', ''TRUE'', ''True''} then Some True
      else if s \<in> {''0'', ''f'', ''F'', ''false'', ''FALSE'', ''False''} then Some False
      else None)"

section \<open>Floating-point numbers\<close>

definition hex_digit :: "char \<Rightarrow> nat" where
  "hex_digit c = (if is_digit c then digit_of c else (of_char (lower_char c) :: nat) - 87)"

definition is_hex :: "char \<Rightarrow> bool" where
  "is_hex c \<longleftrightarrow> is_digit c \<or> lower_char c \<in> set ''abcdef''"

text \<open>Underscores stand between digits, or between a base prefix and a digit.\<close>

datatype seen = SeenStart | SeenDigit | SeenUnderscore | SeenOther

fun underscores_ok :: "bool \<Rightarrow> seen \<Rightarrow> string \<Rightarrow> bool" where
  "underscores_ok hex i [] = (i \<noteq> SeenUnderscore)"
| "underscores_ok hex i (c # s) =
     (if is_digit c \<or> hex \<and> is_hex c then underscores_ok hex SeenDigit s
      else if c = CHR ''_'' then i = SeenDigit \<and> underscores_ok hex SeenUnderscore s
      else i \<noteq> SeenUnderscore \<and> underscores_ok hex SeenOther s)"

definition underscoreOK :: "string \<Rightarrow> bool" where
  "underscoreOK s =
     (let t = snd (cut_sign s); p = map lower_char (take 2 t)
      in if p = ''0x'' then underscores_ok True SeenDigit (drop 2 t)
         else if p = ''0b'' \<or> p = ''0o'' then underscores_ok False SeenDigit (drop 2 t)
         else underscores_ok False SeenStart t)"

text \<open>The digits before and after a point, and the rest.\<close>

definition cut_mantissa :: "(char \<Rightarrow> bool) \<Rightarrow> string \<Rightarrow> string \<times> string \<times> string" where
  "cut_mantissa dig s =
     (let a = takeWhile dig s; r = dropWhile dig s
      in case r of
           CHR ''.'' # r' \<Rightarrow> (a, takeWhile dig r', dropWhile dig r')
         | _ \<Rightarrow> (a, [], r))"

text \<open>An exponent after the letter given; it stops growing at five digits.  \<open>None\<close> is a malformed rest.\<close>

definition exponent_value :: "string \<Rightarrow> int" where
  "exponent_value ds = fold (\<lambda>c e. if e < 10000 then e * 10 + int (digit_of c) else e) ds 0"

definition cut_exponent :: "char \<Rightarrow> string \<Rightarrow> int option" where
  "cut_exponent letter s =
     (case s of
        [] \<Rightarrow> None
      | c # r \<Rightarrow>
          (let (neg, ds) = cut_sign r
           in if lower_char c = letter \<and> ds \<noteq> [] \<and> list_all is_digit ds
              then Some (if neg then - exponent_value ds else exponent_value ds) else None))"

text \<open>The number of an unsigned text without underscores: decimal with an optional exponent, hexadecimal with one.\<close>

definition unsigned_value :: "string \<Rightarrow> rat option" where
  "unsigned_value t =
     (if map lower_char (take 2 t) = ''0x'' then
        (let (a, b, r) = cut_mantissa is_hex (drop 2 t)
         in if a = [] \<and> b = [] then None
            else map_option (\<lambda>e. of_nat (number_of 16 hex_digit (a @ b)) * 2 powi (e - 4 * int (length b))) (cut_exponent (CHR ''p'') r))
      else
        (let (a, b, r) = cut_mantissa is_digit t
         in if a = [] \<and> b = [] then None
            else map_option (\<lambda>e. of_nat (number_of 10 digit_of (a @ b)) * 10 powi (e - int (length b)))
                   (if r = [] then Some 0 else cut_exponent (CHR ''e'') r)))"

definition parse_float :: "string \<Rightarrow> f64 option" where
  "parse_float s =
     (let (neg, t) = cut_sign s
      in if map lower_char t = ''inf'' \<or> map lower_char t = ''infinity'' then Some (if neg then NInf else PInf)
         else if map lower_char s = ''nan'' then Some NaN
         else if \<not> underscoreOK s then None
         else (case unsigned_value (filter (\<lambda>c. c \<noteq> CHR ''_'') t) of
                 None \<Rightarrow> None
               | Some q \<Rightarrow> (case rnd q of Fin x \<Rightarrow> Some (if neg then fneg (Fin x) else Fin x) | _ \<Rightarrow> None)))"

lemma parse_int_bounds: "parse_int s = Some v \<Longrightarrow> i64_min \<le> v \<and> v \<le> i64_max"
  by (auto simp: parse_int_def Let_def case_prod_beta split: if_splits)

lemma parse_float_is_f64: "parse_float s = Some v \<Longrightarrow> is_f64 v"
proof -
  assume "parse_float s = Some v"
  moreover have "is_f64 (Fin x)" if "rnd q = Fin x" for q x using is_f64_rnd [of q] that by simp
  ultimately show ?thesis
    by (auto simp: parse_float_def Let_def case_prod_beta is_f64_def[of NInf] intro: is_f64_fneg simp del: fneg.simps
        split: if_splits option.splits f64.splits)
qed

end
