(* ===== verification/Base_Policy.thy ===== *)
theory Base_Policy
  imports Exp_Contract Sim_Types Go_Strconv
begin

text \<open>
  The baseline policy, \<open>internal/baseline/policy.go\<close> and \<open>manager.go\<close>, with the locked write of
  \<open>internal/config/locker_registry.go\<close>: the file of the policy, its loading and saving, the constraint patches and the
  promotion of an accepted experiment.

  Package \<open>encoding/json\<close> is represented by what it decodes to: the file holds a document, which is a policy or, when the key
  \<open>version\<close> is missing, a policy of the old layout.  Texts are valid UTF-8, so that a saved policy is read back as it was.  Encoding
  fails on a number that is not finite.  A map is nil (\<open>None\<close>) or a function of its keys.  The parameters of the configuration are
  an argument.  Every step of a write that the operating system may refuse is an argument that tells whether it succeeds.
\<close>

section \<open>Data\<close>

record execution_policy =
  xp_floor :: int
  xp_require_cro :: bool
  xp_crash_protection :: bool
  xp_normalization :: bool

record promotion =
  pm_experiment :: string
  pm_target :: string
  pm_skill :: string
  pm_mutation :: string
  pm_path :: string
  pm_at :: time
  pm_status :: string
  pm_version :: int
  pm_constraints :: "constraints option"
  pm_prompt :: string

record revert_record =
  rv_from :: int
  rv_to :: int
  rv_experiments :: "string list"
  rv_reason :: string
  rv_at :: time

record policy =
  bp_version :: int
  bp_overrides :: "(string \<rightharpoonup> string) option"
  bp_constraints :: constraints
  bp_execution :: execution_policy
  bp_promotions :: "promotion list"
  bp_reverts :: "revert_record list"
  bp_updated :: time

text \<open>The old layout.\<close>

record legacy_constraints =
  lg_starting_cash :: f64
  lg_max_weight :: f64
  lg_max_open :: int
  lg_min_volume :: int
  lg_min_conviction :: int
  lg_require_cro :: bool
  lg_cost_bps :: f64
  lg_slippage_bps :: f64
  lg_reserve :: f64
  lg_stop_loss :: f64
  lg_take_profit :: f64
  lg_max_holding :: int

record legacy_promotion =
  lp_experiment :: string
  lp_target :: string
  lp_skill :: string
  lp_mutation :: string
  lp_path :: string
  lp_at :: time
  lp_status :: string
  lp_version :: int

record legacy_policy =
  lg_version :: int
  lg_overrides :: "(string \<rightharpoonup> string) option"
  lg_constraints :: legacy_constraints
  lg_execution :: execution_policy
  lg_promotions :: "legacy_promotion list"
  lg_reverts :: "revert_record list"
  lg_updated :: time

datatype policy_doc = CurrentDoc policy | LegacyDoc legacy_policy

datatype policy_file = FileMissing | FileUnreadable | FileGarbage | FilePolicy policy_doc

record policy_files =
  pf_main :: policy_file
  pf_backup :: policy_file

datatype policy_error =
    PolicyUnreadable
  | PolicyGarbage
  | BaselineNotLoaded
  | EmptyPolicyPath
  | NotEncodable
  | WriteRefused string
  | NotAccepted
  | ResultUnreadable
  | PromptUnreadable

section \<open>Defaults\<close>

record baseline_params =
  bl_starting_cash :: f64
  bl_max_weight :: f64
  bl_max_open :: int
  bl_min_volume :: f64
  bl_min_conviction :: int
  bl_require_cro :: bool
  bl_cost_bps :: f64
  bl_discount_bps :: f64
  bl_discount_threshold :: f64
  bl_slippage_bps :: f64
  bl_reserve :: f64

definition ExecutionPolicyFromConstraints :: "baseline_params \<Rightarrow> constraints \<Rightarrow> execution_policy" where
  "ExecutionPolicyFromConstraints cfg c =
     \<lparr>xp_floor = (if sc_min_conviction c \<le> 0 then bl_min_conviction cfg else sc_min_conviction c), xp_require_cro = sc_require_cro c,
      xp_crash_protection = True, xp_normalization = True\<rparr>"

definition default_constraints :: "baseline_params \<Rightarrow> constraints" where
  "default_constraints cfg =
     \<lparr>sc_starting_cash = bl_starting_cash cfg, sc_max_weight = bl_max_weight cfg, sc_max_open = bl_max_open cfg,
      sc_min_volume = f64_to_i64 (bl_min_volume cfg), sc_min_conviction = bl_min_conviction cfg, sc_require_cro = bl_require_cro cfg,
      sc_cost_bps = bl_cost_bps cfg, sc_discount_bps = bl_discount_bps cfg, sc_discount_threshold = bl_discount_threshold cfg,
      sc_slippage_bps = bl_slippage_bps cfg, sc_reserve = bl_reserve cfg, sc_stop_loss = Fin 0, sc_take_profit = Fin 0,
      sc_max_holding = 0\<rparr>"

definition DefaultPolicy :: "baseline_params \<Rightarrow> policy" where
  "DefaultPolicy cfg =
     \<lparr>bp_version = 1, bp_overrides = Some Map.empty, bp_constraints = default_constraints cfg,
      bp_execution = ExecutionPolicyFromConstraints cfg (default_constraints cfg), bp_promotions = [], bp_reverts = [],
      bp_updated = zero_time\<rparr>"

section \<open>Loading\<close>

text \<open>A document of the old layout has no discount of the commission, and its promotions have no snapshots.\<close>

definition migrate_constraints :: "legacy_constraints \<Rightarrow> constraints" where
  "migrate_constraints l =
     \<lparr>sc_starting_cash = lg_starting_cash l, sc_max_weight = lg_max_weight l, sc_max_open = lg_max_open l, sc_min_volume = lg_min_volume l,
      sc_min_conviction = lg_min_conviction l, sc_require_cro = lg_require_cro l, sc_cost_bps = lg_cost_bps l, sc_discount_bps = Fin 0,
      sc_discount_threshold = Fin 0, sc_slippage_bps = lg_slippage_bps l, sc_reserve = lg_reserve l, sc_stop_loss = lg_stop_loss l,
      sc_take_profit = lg_take_profit l, sc_max_holding = lg_max_holding l\<rparr>"

definition migrate_promotion :: "legacy_promotion \<Rightarrow> promotion" where
  "migrate_promotion p =
     \<lparr>pm_experiment = lp_experiment p, pm_target = lp_target p, pm_skill = lp_skill p, pm_mutation = lp_mutation p, pm_path = lp_path p,
      pm_at = lp_at p, pm_status = lp_status p, pm_version = lp_version p, pm_constraints = None, pm_prompt = []\<rparr>"

fun decode_policy :: "policy_doc \<Rightarrow> policy" where
  "decode_policy (CurrentDoc p) = p"
| "decode_policy (LegacyDoc l) =
     \<lparr>bp_version = lg_version l, bp_overrides = lg_overrides l, bp_constraints = migrate_constraints (lg_constraints l),
      bp_execution = lg_execution l, bp_promotions = map migrate_promotion (lg_promotions l), bp_reverts = lg_reverts l,
      bp_updated = lg_updated l\<rparr>"

definition zero_execution :: execution_policy where
  "zero_execution = \<lparr>xp_floor = 0, xp_require_cro = False, xp_crash_protection = False, xp_normalization = False\<rparr>"

definition complete_policy :: "baseline_params \<Rightarrow> policy \<Rightarrow> policy" where
  "complete_policy cfg p =
     p\<lparr>bp_overrides := Some (case bp_overrides p of None \<Rightarrow> Map.empty | Some m \<Rightarrow> m),
       bp_version := (if bp_version p = 0 then 1 else bp_version p),
       bp_execution := (if bp_execution p = zero_execution then ExecutionPolicyFromConstraints cfg (bp_constraints p) else bp_execution p)\<rparr>"

definition Load :: "baseline_params \<Rightarrow> string \<Rightarrow> policy_files \<Rightarrow> policy_error + policy" where
  "Load cfg path fs =
     (if path = [] then Inr (DefaultPolicy cfg)
      else (case pf_main fs of
              FileMissing \<Rightarrow> Inr (DefaultPolicy cfg)
            | FileUnreadable \<Rightarrow> Inl PolicyUnreadable
            | FileGarbage \<Rightarrow> Inl PolicyGarbage
            | FilePolicy d \<Rightarrow> Inr (complete_policy cfg (decode_policy d))))"

definition LoadStrict :: "baseline_params \<Rightarrow> string \<Rightarrow> policy_files \<Rightarrow> policy_error + policy" where
  "LoadStrict cfg path fs =
     (if path = [] then Inl EmptyPolicyPath
      else (case pf_main fs of
              FileMissing \<Rightarrow> Inl BaselineNotLoaded
            | FileUnreadable \<Rightarrow> Inl PolicyUnreadable
            | FileGarbage \<Rightarrow> Inl PolicyGarbage
            | FilePolicy d \<Rightarrow> Inr (complete_policy cfg (decode_policy d))))"

section \<open>Saving\<close>

definition finite_number :: "f64 \<Rightarrow> bool" where
  "finite_number v = (case v of Fin _ \<Rightarrow> True | _ \<Rightarrow> False)"

definition encodable_constraints :: "constraints \<Rightarrow> bool" where
  "encodable_constraints c \<longleftrightarrow>
     list_all finite_number
       [sc_starting_cash c, sc_max_weight c, sc_cost_bps c, sc_discount_bps c, sc_discount_threshold c, sc_slippage_bps c, sc_reserve c,
        sc_stop_loss c, sc_take_profit c]"

definition encodable :: "policy \<Rightarrow> bool" where
  "encodable p \<longleftrightarrow> encodable_constraints (bp_constraints p) \<and>
     list_all (\<lambda>q. case pm_constraints q of None \<Rightarrow> True | Some c \<Rightarrow> encodable_constraints c) (bp_promotions p)"

text \<open>Which steps of a write the operating system lets through.\<close>

record write_steps =
  ws_mkdir :: bool
  ws_temp :: bool
  ws_open :: bool
  ws_backup :: bool
  ws_promote :: bool
  ws_restore :: bool

definition LockedWriteFileWithRollback :: "write_steps \<Rightarrow> policy_file \<Rightarrow> policy_files \<Rightarrow> policy_error option \<times> policy_files" where
  "LockedWriteFileWithRollback w new fs =
     (if \<not> ws_mkdir w then (Some (WriteRefused ''create parent dir''), fs)
      else if \<not> ws_temp w then (Some (WriteRefused ''write temp file''), fs)
      else if \<not> ws_open w then (Some (WriteRefused ''open temp file for sync''), fs)
      else if pf_main fs \<noteq> FileMissing \<and> \<not> ws_backup w then (Some (WriteRefused ''backup existing file''), fs)
      else
        (let moved = (if pf_main fs \<noteq> FileMissing then \<lparr>pf_main = FileMissing, pf_backup = pf_main fs\<rparr> else fs)
         in if ws_promote w then (None, \<lparr>pf_main = new, pf_backup = FileMissing\<rparr>)
            else (Some (WriteRefused ''promote temp file''),
                  if pf_backup moved \<noteq> FileMissing \<and> ws_restore w
                  then \<lparr>pf_main = pf_backup moved, pf_backup = FileMissing\<rparr> else moved)))"

definition SaveWithLock :: "time \<Rightarrow> write_steps \<Rightarrow> string \<Rightarrow> policy \<Rightarrow> policy_files \<Rightarrow> policy_error option \<times> policy_files" where
  "SaveWithLock now w path p fs =
     (if path = [] then (Some EmptyPolicyPath, fs)
      else if \<not> encodable p then (Some NotEncodable, fs)
      else LockedWriteFileWithRollback w (FilePolicy (CurrentDoc (p\<lparr>bp_updated := now\<rparr>))) fs)"

text \<open>The plain write; refused halfway, it may leave anything.\<close>

definition Save :: "time \<Rightarrow> bool \<Rightarrow> policy_file option \<Rightarrow> string \<Rightarrow> policy \<Rightarrow> policy_files \<Rightarrow> policy_error option \<times> policy_files" where
  "Save now mkdir torn path p fs =
     (if path = [] then (Some EmptyPolicyPath, fs)
      else if \<not> mkdir then (Some (WriteRefused ''mkdir''), fs)
      else if \<not> encodable p then (Some NotEncodable, fs)
      else (case torn of
              None \<Rightarrow> (None, fs\<lparr>pf_main := FilePolicy (CurrentDoc (p\<lparr>bp_updated := now\<rparr>))\<rparr>)
            | Some f \<Rightarrow> (Some (WriteRefused ''write''), fs\<lparr>pf_main := f\<rparr>)))"

section \<open>Prompt overrides\<close>

definition overrides :: "policy \<Rightarrow> string \<rightharpoonup> string" where
  "overrides p = (case bp_overrides p of None \<Rightarrow> Map.empty | Some m \<Rightarrow> m)"

definition ResolvePromptOverride :: "policy \<Rightarrow> string \<Rightarrow> string \<Rightarrow> string" where
  "ResolvePromptOverride p agent skill =
     (case overrides p agent of
        Some (c # s) \<Rightarrow> c # s
      | _ \<Rightarrow> (case overrides p skill of Some s \<Rightarrow> s | None \<Rightarrow> []))"

section \<open>Constraint patches\<close>

text \<open>The value of a line \<open>key: value\<close>.\<close>

definition line_value :: "string \<Rightarrow> string option" where
  "line_value line = map_option trim_space (after_char (CHR '':'') line)"

definition parseIntValue :: "string \<Rightarrow> int option" where
  "parseIntValue line = Option.bind (line_value line) parse_int"

definition parseInt64Value :: "string \<Rightarrow> int option" where
  "parseInt64Value line = Option.bind (line_value line) parse_int"

definition parseFloatValue :: "string \<Rightarrow> f64 option" where
  "parseFloatValue line = Option.bind (line_value line) parse_float"

definition parsePctFloatValue :: "string \<Rightarrow> f64 option" where
  "parsePctFloatValue line = map_option (\<lambda>v. if flt (Fin 1) v then fdiv v (Fin 100) else v) (parseFloatValue line)"

definition parseBoolValue :: "string \<Rightarrow> bool option" where
  "parseBoolValue line = Option.bind (line_value line) parse_bool"

definition set_if :: "'v option \<Rightarrow> ('v \<Rightarrow> constraints \<Rightarrow> constraints) \<Rightarrow> constraints \<Rightarrow> constraints" where
  "set_if v f c = (case v of None \<Rightarrow> c | Some x \<Rightarrow> f x c)"

definition apply_line :: "string \<Rightarrow> constraints \<Rightarrow> constraints" where
  "apply_line raw c =
     (let line = trim_space raw; key = starts_with line
      in if key ''conviction_floor:'' then set_if (parseIntValue line) (\<lambda>v. sc_min_conviction_update (\<lambda>_. v)) c
         else if key ''liquidity_floor:'' then set_if (parseInt64Value line) (\<lambda>v. sc_min_volume_update (\<lambda>_. v)) c
         else if key ''max_position_weight:'' then set_if (parseFloatValue line) (\<lambda>v. sc_max_weight_update (\<lambda>_. v)) c
         else if key ''reserve_cash_fraction:'' then set_if (parseFloatValue line) (\<lambda>v. sc_reserve_update (\<lambda>_. v)) c
         else if key ''require_cro_pass:'' then set_if (parseBoolValue line) (\<lambda>v. sc_require_cro_update (\<lambda>_. v)) c
         else if key ''stop_loss_pct:'' then set_if (parsePctFloatValue line) (\<lambda>v. sc_stop_loss_update (\<lambda>_. v)) c
         else if key ''take_profit_pct:'' then set_if (parsePctFloatValue line) (\<lambda>v. sc_take_profit_update (\<lambda>_. v)) c
         else if key ''max_open_positions:'' then set_if (parseIntValue line) (\<lambda>v. sc_max_open_update (\<lambda>_. v)) c
         else if key ''transaction_cost_bps:'' then set_if (parseFloatValue line) (\<lambda>v. sc_cost_bps_update (\<lambda>_. v)) c
         else if key ''slippage_bps:'' then set_if (parseFloatValue line) (\<lambda>v. sc_slippage_bps_update (\<lambda>_. v)) c
         else if key ''max_holding_days:'' then set_if (parseIntValue line) (\<lambda>v. sc_max_holding_update (\<lambda>_. v)) c
         else c)"

definition ApplyConstraintCandidate :: "constraints \<Rightarrow> string \<Rightarrow> constraints" where
  "ApplyConstraintCandidate base candidate = fold apply_line (lines_of candidate) base"

section \<open>Promotion\<close>

definition constraint_mutation :: "string \<Rightarrow> bool" where
  "constraint_mutation mt \<longleftrightarrow> mt = ''risk_rule_change'' \<or> mt = ''portfolio_constraint_revision''"

definition promoted_content :: "baseline_params \<Rightarrow> experiment_result \<Rightarrow> string \<Rightarrow> policy \<Rightarrow> policy" where
  "promoted_content cfg r candidate p =
     (if constraint_mutation (xr_mutation (er_experiment r)) then
        (let c = ApplyConstraintCandidate (bp_constraints p) candidate
         in p\<lparr>bp_overrides := Some (overrides p), bp_constraints := c, bp_execution := ExecutionPolicyFromConstraints cfg c\<rparr>)
      else p\<lparr>bp_overrides := Some ((overrides p)(xr_target (er_experiment r) \<mapsto> candidate))\<rparr>)"

definition promotion_record :: "time \<Rightarrow> experiment_result \<Rightarrow> string \<Rightarrow> policy \<Rightarrow> promotion" where
  "promotion_record now r candidate next =
     (let x = er_experiment r
      in \<lparr>pm_experiment = xr_id x, pm_target = xr_target x, pm_skill = xr_skill x, pm_mutation = xr_mutation x, pm_path = er_prompt r,
          pm_at = now, pm_status = xr_status x, pm_version = bp_version next,
          pm_constraints = (if constraint_mutation (xr_mutation x) then Some (bp_constraints next) else None),
          pm_prompt = (if xr_mutation x = ''prompt_tightening'' \<or> xr_mutation x = [] then candidate else [])\<rparr>)"

definition Promote :: "baseline_params \<Rightarrow> time \<Rightarrow> policy \<Rightarrow> experiment_result \<Rightarrow> string \<Rightarrow> policy_error + policy" where
  "Promote cfg now p r candidate =
     (if xr_status (er_experiment r) \<noteq> ExperimentAccepted then Inl NotAccepted
      else
        (let content = promoted_content cfg r candidate p; next = content\<lparr>bp_version := wrap64 (bp_version p + 1)\<rparr>
         in Inr (next\<lparr>bp_promotions := bp_promotions next @ [promotion_record now r candidate next]\<rparr>)))"

text \<open>What reading the result file and the candidate file gives is an argument.\<close>

definition PromoteResult ::
  "baseline_params \<Rightarrow> time \<Rightarrow> write_steps \<Rightarrow> string \<Rightarrow> experiment_result option \<Rightarrow> string option \<Rightarrow> policy_files
     \<Rightarrow> (policy_error + policy) \<times> policy_files" where
  "PromoteResult cfg now w path res_read cand_read fs =
     (case Load cfg path fs of
        Inl err \<Rightarrow> (Inl err, fs)
      | Inr p \<Rightarrow>
          (case res_read of
             None \<Rightarrow> (Inl ResultUnreadable, fs)
           | Some r \<Rightarrow>
               (case cand_read of
                  None \<Rightarrow> (Inl PromptUnreadable, fs)
                | Some candidate \<Rightarrow>
                    (case Promote cfg now p r candidate of
                       Inl err \<Rightarrow> (Inl err, fs)
                     | Inr next \<Rightarrow>
                         (case SaveWithLock now w path next fs of
                            (Some err, fs') \<Rightarrow> (Inl err, fs')
                          | (None, fs') \<Rightarrow> (Inr next, fs'))))))"

section \<open>Facts\<close>

text \<open>A refused write leaves the policy as it was, unless also moving the backup back is refused; then the backup holds it.\<close>

lemma refused_write_keeps_policy:
  assumes "LockedWriteFileWithRollback w new fs = (Some err, fs')"
  shows "pf_main fs' = pf_main fs \<or> (\<not> ws_promote w \<and> \<not> ws_restore w \<and> pf_main fs' = FileMissing \<and> pf_backup fs' = pf_main fs)
     \<or> (pf_main fs = FileMissing \<and> pf_main fs' = pf_backup fs)"
  using assms by (auto simp: LockedWriteFileWithRollback_def Let_def split: if_splits)

lemma write_succeeds: "LockedWriteFileWithRollback w new fs = (None, fs') \<Longrightarrow> pf_main fs' = new"
  by (auto simp: LockedWriteFileWithRollback_def Let_def split: if_splits)

lemma saved_policy:
  "SaveWithLock now w path p fs = (None, fs') \<Longrightarrow> encodable p \<and> pf_main fs' = FilePolicy (CurrentDoc (p\<lparr>bp_updated := now\<rparr>))"
  by (auto simp: SaveWithLock_def dest: write_succeeds split: if_splits)

definition well_formed :: "policy \<Rightarrow> bool" where
  "well_formed p \<longleftrightarrow> bp_overrides p \<noteq> None \<and> bp_version p \<noteq> 0 \<and> bp_execution p \<noteq> zero_execution"

lemma well_formed_complete: "well_formed p \<Longrightarrow> complete_policy cfg p = p"
  by (auto simp: well_formed_def complete_policy_def)

lemma execution_not_zero [simp]: "ExecutionPolicyFromConstraints cfg c \<noteq> zero_execution"
  by (simp add: ExecutionPolicyFromConstraints_def zero_execution_def)

lemma well_formed_default [simp]: "well_formed (DefaultPolicy cfg)"
  by (simp add: well_formed_def DefaultPolicy_def)

lemma well_formed_loaded: "Load cfg path fs = Inr p \<Longrightarrow> well_formed p"
  by (auto simp: Load_def well_formed_def complete_policy_def DefaultPolicy_def split: if_splits policy_file.splits)

text \<open>A saved policy is read back.\<close>

lemma policy_load_saved:
  "SaveWithLock now w path p fs = (None, fs') \<Longrightarrow> path \<noteq> [] \<Longrightarrow> well_formed p \<Longrightarrow> Load cfg path fs' = Inr (p\<lparr>bp_updated := now\<rparr>)"
  by (drule saved_policy) (simp add: Load_def well_formed_complete well_formed_def)

lemma set_if_keeps:
  "(\<And>x. sc_starting_cash (f x c) = sc_starting_cash c) \<Longrightarrow> sc_starting_cash (set_if v f c) = sc_starting_cash c"
  "(\<And>x. sc_discount_bps (f x c) = sc_discount_bps c) \<Longrightarrow> sc_discount_bps (set_if v f c) = sc_discount_bps c"
  "(\<And>x. sc_discount_threshold (f x c) = sc_discount_threshold c) \<Longrightarrow> sc_discount_threshold (set_if v f c) = sc_discount_threshold c"
  by (simp_all add: set_if_def split: option.split)

lemma if_pres: "g x = y \<Longrightarrow> g z = y \<Longrightarrow> g (if b then x else z) = y"
  by simp

lemma apply_line_other_fields:
  shows "sc_starting_cash (apply_line l c) = sc_starting_cash c"
    and "sc_discount_bps (apply_line l c) = sc_discount_bps c"
    and "sc_discount_threshold (apply_line l c) = sc_discount_threshold c"
  unfolding apply_line_def Let_def
  subgoal by (intro if_pres [of sc_starting_cash] set_if_keeps(1)) simp_all
  subgoal by (intro if_pres [of sc_discount_bps] set_if_keeps(2)) simp_all
  subgoal by (intro if_pres [of sc_discount_threshold] set_if_keeps(3)) simp_all
  done

text \<open>A candidate never changes the starting cash nor the discount of the commission.\<close>

lemma patch_other_fields:
  "sc_starting_cash (ApplyConstraintCandidate c s) = sc_starting_cash c"
  "sc_discount_bps (ApplyConstraintCandidate c s) = sc_discount_bps c"
  "sc_discount_threshold (ApplyConstraintCandidate c s) = sc_discount_threshold c"
proof -
  have "sc_starting_cash (fold apply_line ls c) = sc_starting_cash c \<and> sc_discount_bps (fold apply_line ls c) = sc_discount_bps c \<and>
    sc_discount_threshold (fold apply_line ls c) = sc_discount_threshold c" for ls
    by (induction ls arbitrary: c) (simp_all add: apply_line_other_fields)
  then show "sc_starting_cash (ApplyConstraintCandidate c s) = sc_starting_cash c"
    "sc_discount_bps (ApplyConstraintCandidate c s) = sc_discount_bps c"
    "sc_discount_threshold (ApplyConstraintCandidate c s) = sc_discount_threshold c" by (simp_all add: ApplyConstraintCandidate_def)
qed

lemma promote_only_accepted: "Promote cfg now p r candidate = Inr q \<Longrightarrow> xr_status (er_experiment r) = ExperimentAccepted"
  by (simp add: Promote_def split: if_splits)

lemma PromoteResult_files:
  assumes "PromoteResult cfg now w path rr cr fs = (Inr q, fs')"
  obtains p r c where "rr = Some r" "cr = Some c" "Load cfg path fs = Inr p" "Promote cfg now p r c = Inr q"
    "SaveWithLock now w path q fs = (None, fs')"
  using assms by (auto simp: PromoteResult_def split: sum.splits option.splits prod.splits)

end
