(* ===== verification/Base_Revert.thy ===== *)
theory Base_Revert
  imports Base_Policy
begin

text \<open>
  Reverting the baseline policy, \<open>internal/baseline/rollback.go\<close>, and its abstract specification: the policy is an undo stack.
  A promotion pushes the contents it makes, a revert pops down to the version it names.  The refinement holds for experiments whose
  promotions keep what they made: patches of the constraints and tightened prompts with a text.  The lemmas at the end show what
  is lost for the other kinds.
\<close>

section \<open>Reverting\<close>

record revert_target =
  rt_type :: string
  rt_version :: int
  rt_experiment :: string

record revert_result =
  rr_from :: int
  rr_to :: int
  rr_experiments :: "string list"
  rr_reason :: string
  rr_at :: time
  rr_dry :: bool

datatype revert_error =
    LoadCurrent policy_error
  | NoPromotions
  | VersionBelowOne
  | ExperimentIdRequired
  | ExperimentNotFound string
  | UnknownRevertType string
  | AlreadyAtVersion
  | CannotRevertTo int int
  | SaveReverted policy_error

fun position_of :: "string \<Rightarrow> string list \<Rightarrow> nat option" where
  "position_of x [] = None"
| "position_of x (y # ys) = (if y = x then Some 0 else map_option Suc (position_of x ys))"

text \<open>The version a target names, given the experiments promoted so far in their order.\<close>

definition target_version :: "string list \<Rightarrow> revert_target \<Rightarrow> revert_error + int" where
  "target_version ids t =
     (if rt_type t = ''last'' then
        (if ids = [] then Inl NoPromotions else if length ids - 1 = 0 then Inr 1 else Inr (int (length ids - 1) + 1))
      else if rt_type t = ''version'' then (if rt_version t < 1 then Inl VersionBelowOne else Inr (rt_version t))
      else if rt_type t = ''experiment'' then
        (if rt_experiment t = [] then Inl ExperimentIdRequired
         else (case position_of (rt_experiment t) ids of
                 None \<Rightarrow> Inl (ExperimentNotFound (rt_experiment t))
               | Some i \<Rightarrow> if i = 0 then Inr 1 else Inr (int i + 1)))
      else Inl (UnknownRevertType (rt_type t)))"

definition resolveTargetVersion :: "policy \<Rightarrow> revert_target \<Rightarrow> revert_error + int" where
  "resolveTargetVersion p t = target_version (map pm_experiment (bp_promotions p)) t"

definition findRevertedExperiments :: "policy \<Rightarrow> int \<Rightarrow> string list" where
  "findRevertedExperiments p v = map (\<lambda>(i, q). pm_experiment q) (filter (\<lambda>(i, q). v < int i + 2) (enumerate 0 (bp_promotions p)))"

definition kept_promotions :: "int \<Rightarrow> promotion list \<Rightarrow> promotion list" where
  "kept_promotions v ps = map snd (takeWhile (\<lambda>(i, q). \<not> v < int i + 2) (enumerate 0 ps))"

definition snapshot_of :: "promotion \<Rightarrow> constraints option" where
  "snapshot_of q = (if constraint_mutation (pm_mutation q) then pm_constraints q else None)"

definition lastConstraintSnapshot :: "promotion list \<Rightarrow> constraints option" where
  "lastConstraintSnapshot ps = fold (\<lambda>q found. case snapshot_of q of Some c \<Rightarrow> Some c | None \<Rightarrow> found) ps None"

definition prompt_mutation :: "string \<Rightarrow> bool" where
  "prompt_mutation mt \<longleftrightarrow> mt = [] \<or> mt = ''prompt_tightening''"

definition restore_override :: "(string \<rightharpoonup> string) \<Rightarrow> promotion \<Rightarrow> (string \<rightharpoonup> string) \<Rightarrow> (string \<rightharpoonup> string)" where
  "restore_override current q m =
     (if prompt_mutation (pm_mutation q) then
        (if pm_prompt q \<noteq> [] then m(pm_target q \<mapsto> pm_prompt q)
         else (case current (pm_target q) of Some s \<Rightarrow> m(pm_target q \<mapsto> s) | None \<Rightarrow> m))
      else m)"

definition reconstructPolicyAtVersion :: "baseline_params \<Rightarrow> policy \<Rightarrow> int \<Rightarrow> policy" where
  "reconstructPolicyAtVersion cfg current v =
     (let kept = kept_promotions v (bp_promotions current);
          later = list_ex (\<lambda>(i, q). v < int i + 2 \<and> constraint_mutation (pm_mutation q)) (enumerate 0 (bp_promotions current));
          base = (DefaultPolicy cfg)\<lparr>bp_version := v\<rparr>;
          patched = (case lastConstraintSnapshot kept of
                       Some c \<Rightarrow> base\<lparr>bp_constraints := c, bp_execution := ExecutionPolicyFromConstraints cfg c\<rparr>
                     | None \<Rightarrow> if later then base
                               else base\<lparr>bp_constraints := bp_constraints current, bp_execution := bp_execution current\<rparr>)
      in patched\<lparr>bp_overrides := Some (fold (restore_override (overrides current)) kept Map.empty),
                 bp_promotions := kept\<rparr>)"

definition Revert ::
  "baseline_params \<Rightarrow> time \<Rightarrow> write_steps \<Rightarrow> string \<Rightarrow> revert_target \<Rightarrow> string \<Rightarrow> bool \<Rightarrow> policy_files
     \<Rightarrow> (revert_error + revert_result) \<times> policy_files" where
  "Revert cfg now w path target reason dry fs =
     (case Load cfg path fs of
        Inl err \<Rightarrow> (Inl (LoadCurrent err), fs)
      | Inr current \<Rightarrow>
          (case resolveTargetVersion current target of
             Inl err \<Rightarrow> (Inl err, fs)
           | Inr v \<Rightarrow>
               (if v = bp_version current then (Inl AlreadyAtVersion, fs)
                else if bp_version current < v then (Inl (CannotRevertTo v (bp_version current)), fs)
                else
                  (let ids = findRevertedExperiments current v;
                       res = \<lparr>rr_from = bp_version current, rr_to = v, rr_experiments = ids, rr_reason = reason, rr_at = now,
                              rr_dry = dry\<rparr>
                   in if dry then (Inr res, fs)
                      else
                        (let p = reconstructPolicyAtVersion cfg current v;
                             q = p\<lparr>bp_reverts := bp_reverts p @
                                     [\<lparr>rv_from = bp_version current, rv_to = v, rv_experiments = ids, rv_reason = reason, rv_at = now\<rparr>]\<rparr>
                         in (case SaveWithLock now w path q fs of
                               (Some err, fs') \<Rightarrow> (Inl (SaveReverted err), fs')
                             | (None, fs') \<Rightarrow> (Inr res, fs')))))))"

definition GetPromotionHistory :: "baseline_params \<Rightarrow> string \<Rightarrow> policy_files \<Rightarrow> policy_error + (promotion \<times> int) list" where
  "GetPromotionHistory cfg path fs =
     (case Load cfg path fs of Inl err \<Rightarrow> Inl err
      | Inr p \<Rightarrow> Inr (map (\<lambda>(i, q). (q, int i + 2)) (enumerate 0 (bp_promotions p))))"

definition GetRevertHistory :: "baseline_params \<Rightarrow> string \<Rightarrow> policy_files \<Rightarrow> policy_error + revert_record list" where
  "GetRevertHistory cfg path fs = map_sum (\<lambda>err. err) bp_reverts (Load cfg path fs)"

section \<open>Lists of promotions\<close>

lemma takeWhile_enumerate:
  "map snd (takeWhile (\<lambda>(i, q). \<not> v < int i + 2) (enumerate n ps)) = take (nat (v - 1) - n) ps"
proof (induction ps arbitrary: n)
  case (Cons q ps)
  show ?case
  proof (cases "v < int n + 2")
    case True
    then have "nat (v - 1) - n = 0" by linarith
    with True show ?thesis by simp
  next
    case False
    then have "nat (v - 1) - n = Suc (nat (v - 1) - Suc n)" by linarith
    with False Cons show ?thesis by simp
  qed
qed simp

lemma kept_take: "kept_promotions v ps = take (nat (v - 1)) ps"
  using takeWhile_enumerate [of v 0 ps] by (simp add: kept_promotions_def)

lemma filter_enumerate:
  "map snd (filter (\<lambda>(i, q). v < int i + 2) (enumerate n ps)) = drop (nat (v - 1) - n) ps"
proof (induction ps arbitrary: n)
  case (Cons q ps)
  show ?case
  proof (cases "v < int n + 2")
    case True
    then have "nat (v - 1) - n = 0" "nat (v - 1) - Suc n = 0" by linarith+
    with True Cons [of "Suc n"] show ?thesis by simp
  next
    case False
    then have "nat (v - 1) - n = Suc (nat (v - 1) - Suc n)" by linarith
    with False Cons show ?thesis by simp
  qed
qed simp

lemma reverted_drop: "findRevertedExperiments p v = map pm_experiment (drop (nat (v - 1)) (bp_promotions p))"
proof -
  have "map (\<lambda>(i, q). pm_experiment q) xs = map pm_experiment (map snd xs)" for xs :: "(nat \<times> promotion) list"
    by (induction xs) auto
  then show ?thesis by (simp only: findRevertedExperiments_def filter_enumerate) simp
qed

lemma later_drop:
  "list_ex (\<lambda>(i, q). v < int i + 2 \<and> P q) (enumerate 0 ps) \<longleftrightarrow> list_ex P (drop (nat (v - 1)) ps)"
proof -
  have "list_ex (\<lambda>(i, q). v < int i + 2 \<and> P q) xs \<longleftrightarrow> list_ex P (map snd (filter (\<lambda>(i, q). v < int i + 2) xs))"
    for xs :: "(nat \<times> 'a) list"
    by (auto simp: list_ex_iff)
  then show ?thesis using filter_enumerate [of v 0 ps] by simp
qed

lemma position_less: "position_of x ys = Some i \<Longrightarrow> i < length ys"
  by (induction ys arbitrary: i) (auto split: if_splits)

lemma target_positive: "target_version ids t = Inr v \<Longrightarrow> 1 \<le> v"
  by (auto simp: target_version_def split: if_splits option.splits)

section \<open>The undo stack\<close>

type_synonym content = "(string \<rightharpoonup> string) \<times> constraints \<times> execution_policy"

definition content_of :: "policy \<Rightarrow> content" where
  "content_of p = (overrides p, bp_constraints p, bp_execution p)"

datatype baseline_op = PromoteOp time experiment_result string | RevertOp time revert_target string bool

definition all_steps :: write_steps where
  "all_steps = \<lparr>ws_mkdir = True, ws_temp = True, ws_open = True, ws_backup = True, ws_promote = True, ws_restore = True\<rparr>"

text \<open>The policy file under promotions and reverts whose writes succeed.\<close>

fun baseline_step :: "baseline_params \<Rightarrow> string \<Rightarrow> baseline_op \<Rightarrow> policy_files \<Rightarrow> policy_files" where
  "baseline_step cfg path (PromoteOp now r candidate) fs = snd (PromoteResult cfg now all_steps path (Some r) (Some candidate) fs)"
| "baseline_step cfg path (RevertOp now t reason dry) fs = snd (Revert cfg now all_steps path t reason dry fs)"

text \<open>The specification: the versions above the first one, each with the experiment that made it and its contents.\<close>

definition top_content :: "baseline_params \<Rightarrow> (string \<times> content) list \<Rightarrow> content" where
  "top_content cfg st = (if st = [] then content_of (DefaultPolicy cfg) else snd (List.last st))"

definition new_content :: "baseline_params \<Rightarrow> experiment_record \<Rightarrow> string \<Rightarrow> content \<Rightarrow> content" where
  "new_content cfg x candidate c =
     (case c of (ov, con, ex) \<Rightarrow>
        if constraint_mutation (xr_mutation x)
        then (ov, ApplyConstraintCandidate con candidate, ExecutionPolicyFromConstraints cfg (ApplyConstraintCandidate con candidate))
        else (ov(xr_target x \<mapsto> candidate), con, ex))"

fun stack_step :: "baseline_params \<Rightarrow> baseline_op \<Rightarrow> (string \<times> content) list \<Rightarrow> (string \<times> content) list" where
  "stack_step cfg (PromoteOp now r candidate) st =
     (let x = er_experiment r; c = new_content cfg x candidate (top_content cfg st)
      in if xr_status x = ExperimentAccepted \<and> encodable_constraints (fst (snd c)) then st @ [(xr_id x, c)] else st)"
| "stack_step cfg (RevertOp now t reason dry) st =
     (case target_version (map fst st) t of
        Inl _ \<Rightarrow> st
      | Inr v \<Rightarrow> if dry then st else take (nat (v - 1)) st)"

definition restorable :: "baseline_op \<Rightarrow> bool" where
  "restorable op \<longleftrightarrow>
     (case op of
        PromoteOp now r candidate \<Rightarrow>
          constraint_mutation (xr_mutation (er_experiment r)) \<or> prompt_mutation (xr_mutation (er_experiment r)) \<and> candidate \<noteq> []
      | RevertOp now t reason dry \<Rightarrow> True)"

text \<open>The contents that a list of promotions keeps.\<close>

definition keeps :: "promotion \<Rightarrow> bool" where
  "keeps q \<longleftrightarrow>
     (if constraint_mutation (pm_mutation q) then (case pm_constraints q of None \<Rightarrow> False | Some c \<Rightarrow> encodable_constraints c)
      else prompt_mutation (pm_mutation q) \<and> pm_prompt q \<noteq> [] \<and> pm_constraints q = None)"

definition replayed_constraints :: "baseline_params \<Rightarrow> promotion list \<Rightarrow> constraints" where
  "replayed_constraints cfg ps = (case lastConstraintSnapshot ps of None \<Rightarrow> default_constraints cfg | Some c \<Rightarrow> c)"

definition replay :: "baseline_params \<Rightarrow> promotion list \<Rightarrow> content" where
  "replay cfg ps =
     (fold (restore_override Map.empty) ps Map.empty, replayed_constraints cfg ps,
      ExecutionPolicyFromConstraints cfg (replayed_constraints cfg ps))"

fun entries :: "baseline_params \<Rightarrow> promotion list \<Rightarrow> (string \<times> content) list" where
  "entries cfg ps = map (\<lambda>k. (pm_experiment (ps ! k), replay cfg (take (Suc k) ps))) [0..<length ps]"

declare entries.simps [simp del]

lemma length_entries [simp]: "length (entries cfg ps) = length ps"
  by (simp add: entries.simps)

lemma entries_snoc: "entries cfg (ps @ [q]) = entries cfg ps @ [(pm_experiment q, replay cfg (ps @ [q]))]"
  by (auto simp: entries.simps nth_append intro!: map_cong)

lemma take_entries: "take n (entries cfg ps) = entries cfg (take n ps)"
  by (auto simp: entries.simps take_map min_def intro!: nth_equalityI)

lemma fst_entries [simp]: "map fst (entries cfg ps) = map pm_experiment ps"
  by (auto simp: entries.simps intro!: nth_equalityI)

lemma replay_nil: "replay cfg [] = content_of (DefaultPolicy cfg)"
  by (simp add: replay_def content_of_def DefaultPolicy_def overrides_def replayed_constraints_def lastConstraintSnapshot_def)

lemma top_entries: "top_content cfg (entries cfg ps) = replay cfg ps"
  by (cases ps rule: rev_cases) (simp_all add: top_content_def replay_nil entries_snoc, simp add: entries.simps)

lemma mutation_kinds: "prompt_mutation mt \<Longrightarrow> \<not> constraint_mutation mt"
  by (auto simp: prompt_mutation_def constraint_mutation_def)

lemma last_snapshot_snoc:
  "lastConstraintSnapshot (ps @ [q]) = (case snapshot_of q of Some c \<Rightarrow> Some c | None \<Rightarrow> lastConstraintSnapshot ps)"
  by (simp add: lastConstraintSnapshot_def split: option.split)

lemma no_snapshot: "list_all keeps ps \<Longrightarrow> lastConstraintSnapshot ps = None \<longleftrightarrow> \<not> list_ex (\<lambda>q. constraint_mutation (pm_mutation q)) ps"
  by (induction ps rule: rev_induct)
    (auto simp: lastConstraintSnapshot_def snapshot_of_def keeps_def split: option.splits if_splits)

lemma restore_keeps: "list_all keeps ps \<Longrightarrow> fold (restore_override cur) ps m = fold (restore_override Map.empty) ps m"
proof (induction ps arbitrary: m)
  case (Cons q ps)
  then have "restore_override cur q m = restore_override Map.empty q m"
    by (auto simp: restore_override_def keeps_def mutation_kinds split: if_splits)
  with Cons show ?case by simp
qed simp

lemma replayed_encodable:
  "encodable_constraints (default_constraints cfg) \<Longrightarrow> list_all keeps ps \<Longrightarrow> encodable_constraints (replayed_constraints cfg ps)"
proof (induction ps rule: rev_induct)
  case (snoc q ps)
  then show ?case
    by (auto simp: replayed_constraints_def last_snapshot_snoc snapshot_of_def keeps_def split: option.splits if_splits)
qed (simp add: replayed_constraints_def lastConstraintSnapshot_def)

lemma encodable_kept: "list_all keeps (bp_promotions p) \<Longrightarrow> encodable p \<longleftrightarrow> encodable_constraints (bp_constraints p)"
  by (auto simp: encodable_def list_all_iff keeps_def split: option.splits if_splits)

text \<open>A reconstructed policy has the contents that its version had.\<close>

lemma reconstructed:
  fixes v :: int
  assumes "content_of p = replay cfg (bp_promotions p)" "list_all keeps (bp_promotions p)"
  defines "q \<equiv> reconstructPolicyAtVersion cfg p v" and "kept \<equiv> take (nat (v - 1)) (bp_promotions p)"
  shows "content_of q = replay cfg kept" and "bp_promotions q = kept" and "bp_version q = v" and "bp_reverts q = []"
proof -
  have keeps: "list_all keeps kept" "list_all keeps (drop (nat (v - 1)) (bp_promotions p))"
    using assms(2) by (auto simp: list_all_iff kept_def dest: in_set_takeD in_set_dropD)
  have all: "lastConstraintSnapshot (bp_promotions p) = None"
    if "lastConstraintSnapshot kept = None" "\<not> list_ex (\<lambda>q. constraint_mutation (pm_mutation q)) (drop (nat (v - 1)) (bp_promotions p))"
  proof -
    have "\<not> list_ex (\<lambda>q. constraint_mutation (pm_mutation q)) (kept @ drop (nat (v - 1)) (bp_promotions p))"
      using that no_snapshot [OF keeps(1)] by simp
    then show ?thesis using no_snapshot [OF assms(2)] by (simp add: kept_def)
  qed
  show "bp_promotions q = kept" "bp_version q = v" "bp_reverts q = []"
    by (simp_all add: q_def kept_def reconstructPolicyAtVersion_def kept_take DefaultPolicy_def Let_def split: option.split)
  have ov: "overrides q = fold (restore_override (overrides p)) kept Map.empty"
    by (simp add: q_def kept_def overrides_def reconstructPolicyAtVersion_def kept_take Let_def)
  have "bp_constraints q = replayed_constraints cfg kept \<and>
    bp_execution q = ExecutionPolicyFromConstraints cfg (replayed_constraints cfg kept)"
  proof (cases "lastConstraintSnapshot kept")
    case (Some c)
    then show ?thesis
      by (simp add: q_def reconstructPolicyAtVersion_def kept_take replayed_constraints_def Let_def flip: kept_def)
  next
    case None
    show ?thesis
    proof (cases "list_ex (\<lambda>q. constraint_mutation (pm_mutation q)) (drop (nat (v - 1)) (bp_promotions p))")
      case True
      with None show ?thesis
        by (simp add: q_def reconstructPolicyAtVersion_def kept_take later_drop replayed_constraints_def DefaultPolicy_def Let_def flip: kept_def)
    next
      case False
      with None all have "replayed_constraints cfg (bp_promotions p) = default_constraints cfg" by (simp add: replayed_constraints_def)
      then have "bp_constraints p = default_constraints cfg" "bp_execution p = ExecutionPolicyFromConstraints cfg (default_constraints cfg)"
        using assms(1) by (simp_all add: content_of_def replay_def)
      with None False show ?thesis
        by (simp add: q_def reconstructPolicyAtVersion_def kept_take later_drop replayed_constraints_def Let_def flip: kept_def)
    qed
  qed
  then show "content_of q = replay cfg kept"
    by (simp add: content_of_def replay_def ov restore_keeps [OF keeps(1), of "overrides p"])
qed

lemma write_all: "LockedWriteFileWithRollback all_steps new fs = (None, \<lparr>pf_main = new, pf_backup = FileMissing\<rparr>)"
  by (simp add: LockedWriteFileWithRollback_def all_steps_def)

lemma save_all:
  "path \<noteq> [] \<Longrightarrow> SaveWithLock now all_steps path p fs =
     (if encodable p then (None, \<lparr>pf_main = FilePolicy (CurrentDoc (p\<lparr>bp_updated := now\<rparr>)), pf_backup = FileMissing\<rparr>)
      else (Some NotEncodable, fs))"
  by (simp add: SaveWithLock_def write_all)

text \<open>The policy of the file is the replay of its promotions.\<close>

definition replays :: "baseline_params \<Rightarrow> string \<Rightarrow> policy_files \<Rightarrow> promotion list \<Rightarrow> bool" where
  "replays cfg path fs ps \<longleftrightarrow>
     (\<exists>p. Load cfg path fs = Inr p \<and> bp_promotions p = ps \<and> bp_version p = int (length ps) + 1 \<and> content_of p = replay cfg ps \<and>
          list_all keeps ps)"

lemma saved_replays:
  assumes "path \<noteq> []" "well_formed p" "encodable p" "bp_promotions p = ps" "bp_version p = int (length ps) + 1"
    "content_of p = replay cfg ps" "list_all keeps ps"
  shows "replays cfg path (snd (SaveWithLock now all_steps path p fs)) ps"
proof -
  have "Load cfg path (snd (SaveWithLock now all_steps path p fs)) = Inr (p\<lparr>bp_updated := now\<rparr>)"
    using assms policy_load_saved [of now all_steps path p fs] by (simp add: save_all)
  then show ?thesis using assms by (simp add: replays_def content_of_def overrides_def)
qed

lemma promoted_replay:
  assumes "content_of p = replay cfg ps" "restorable (PromoteOp now r candidate)"
    "new = promoted_content cfg r candidate p" "encodable_constraints (bp_constraints new)"
    "q = promotion_record now r candidate (new\<lparr>bp_version := v\<rparr>)"
  shows "keeps q" and "content_of new = replay cfg (ps @ [q])"
    and "content_of new = new_content cfg (er_experiment r) candidate (replay cfg ps)"
proof -
  have p: "overrides p = fold (restore_override Map.empty) ps Map.empty" "bp_constraints p = replayed_constraints cfg ps"
    "bp_execution p = ExecutionPolicyFromConstraints cfg (replayed_constraints cfg ps)"
    using assms(1) by (simp_all add: content_of_def replay_def)
  have "keeps q \<and> content_of new = replay cfg (ps @ [q]) \<and> content_of new = new_content cfg (er_experiment r) candidate (replay cfg ps)"
  proof (cases "constraint_mutation (xr_mutation (er_experiment r))")
    case True
    then have "\<not> prompt_mutation (xr_mutation (er_experiment r))" using mutation_kinds by blast
    with True assms(3-5) p show ?thesis
      by (simp add: keeps_def promotion_record_def promoted_content_def content_of_def replay_def new_content_def overrides_def
          replayed_constraints_def last_snapshot_snoc snapshot_of_def restore_override_def Let_def)
  next
    case False
    then have tight: "prompt_mutation (xr_mutation (er_experiment r))" "candidate \<noteq> []" using assms(2) by (simp_all add: restorable_def)
    then have fields: "pm_prompt q = candidate" "pm_mutation q = xr_mutation (er_experiment r)" "pm_target q = xr_target (er_experiment r)"
      "pm_constraints q = None"
      using assms(5) False by (auto simp: promotion_record_def prompt_mutation_def Let_def)
    with False tight assms(3) p show ?thesis
      by (simp add: keeps_def promoted_content_def content_of_def replay_def new_content_def overrides_def
          replayed_constraints_def last_snapshot_snoc snapshot_of_def restore_override_def)
  qed
  then show "keeps q" "content_of new = replay cfg (ps @ [q])"
    "content_of new = new_content cfg (er_experiment r) candidate (replay cfg ps)" by blast+
qed

lemma promote_step:
  assumes "replays cfg path fs ps" "path \<noteq> []" "restorable (PromoteOp now r candidate)" "int (length ps) + 2 \<le> i64_max"
  shows "\<exists>ps'. replays cfg path (baseline_step cfg path (PromoteOp now r candidate) fs) ps' \<and>
    stack_step cfg (PromoteOp now r candidate) (entries cfg ps) = entries cfg ps' \<and> length ps' \<le> Suc (length ps)"
proof -
  from assms(1) obtain p where p: "Load cfg path fs = Inr p" "bp_promotions p = ps" "bp_version p = int (length ps) + 1"
    "content_of p = replay cfg ps" "list_all keeps ps"
    unfolding replays_def by blast
  define x new v q nxt where "x = er_experiment r" and "new = promoted_content cfg r candidate p" and "v = int (length ps) + 2"
    and "q = promotion_record now r candidate (new\<lparr>bp_version := v\<rparr>)"
    and "nxt = new\<lparr>bp_version := v, bp_promotions := ps @ [q]\<rparr>"
  have v: "wrap64 (bp_version p + 1) = v" using assms(4) p(3) by (simp add: v_def wrap64_id i64_min_def)
  have proms: "bp_promotions new = ps" "bp_execution new = bp_execution p \<or> (\<exists>c. bp_execution new = ExecutionPolicyFromConstraints cfg c)"
    "bp_overrides new \<noteq> None"
    using p(2) by (auto simp: new_def promoted_content_def Let_def)
  have wf: "well_formed nxt" using well_formed_loaded [OF p(1)] proms(2,3) by (auto simp: well_formed_def nxt_def v_def)
  have nc: "content_of new = new_content cfg x candidate (replay cfg ps)"
    unfolding p(4) [symmetric] by (simp add: new_def x_def content_of_def new_content_def promoted_content_def overrides_def Let_def)
  have con: "fst (snd (new_content cfg x candidate (replay cfg ps))) = bp_constraints new" by (simp add: content_of_def flip: nc)
  have st: "baseline_step cfg path (PromoteOp now r candidate) fs =
      (if xr_status x = ExperimentAccepted then snd (SaveWithLock now all_steps path nxt fs) else fs)"
    using v proms(1)
    by (auto simp: PromoteResult_def p(1) Promote_def x_def nxt_def q_def new_def Let_def split: prod.splits option.splits)
  show ?thesis
  proof (cases "xr_status x = ExperimentAccepted \<and> encodable_constraints (bp_constraints new)")
    case True
    have k: "keeps q" "content_of new = replay cfg (ps @ [q])"
      using promoted_replay [OF p(4) assms(3) new_def _ q_def] True by simp_all
    have "encodable nxt" using True k(1) p(5) by (simp add: encodable_kept nxt_def)
    then have "replays cfg path (baseline_step cfg path (PromoteOp now r candidate) fs) (ps @ [q])"
      using True k p(5) wf assms(2) unfolding st
      by (auto intro!: saved_replays simp: nxt_def v_def content_of_def overrides_def)
    moreover have "stack_step cfg (PromoteOp now r candidate) (entries cfg ps) = entries cfg (ps @ [q])"
      using True k(2) nc con
      by (auto simp: top_entries entries_snoc q_def promotion_record_def Let_def simp flip: x_def)
    ultimately show ?thesis by (intro exI [of _ "ps @ [q]"]) simp
  next
    case False
    have "xr_status x = ExperimentAccepted \<Longrightarrow> \<not> encodable nxt" using False by (simp add: encodable_def nxt_def)
    then have "baseline_step cfg path (PromoteOp now r candidate) fs = fs"
      unfolding st using assms(2) by (simp add: save_all)
    moreover have "stack_step cfg (PromoteOp now r candidate) (entries cfg ps) = entries cfg ps"
      using False con by (auto simp: top_entries Let_def simp flip: x_def)
    ultimately show ?thesis using assms(1) by auto
  qed
qed

lemma well_formed_reconstructed: "1 \<le> v \<Longrightarrow> well_formed p \<Longrightarrow> well_formed (reconstructPolicyAtVersion cfg p v)"
  by (auto simp: well_formed_def reconstructPolicyAtVersion_def DefaultPolicy_def Let_def split: option.split)

lemma revert_step:
  assumes "replays cfg path fs ps" "path \<noteq> []" "encodable_constraints (default_constraints cfg)"
  shows "\<exists>ps'. replays cfg path (baseline_step cfg path (RevertOp now t reason dry) fs) ps' \<and>
    stack_step cfg (RevertOp now t reason dry) (entries cfg ps) = entries cfg ps' \<and> length ps' \<le> length ps"
proof -
  from assms(1) obtain p where p: "Load cfg path fs = Inr p" "bp_promotions p = ps" "bp_version p = int (length ps) + 1"
    "content_of p = replay cfg ps" "list_all keeps ps"
    unfolding replays_def by blast
  let ?step = "baseline_step cfg path (RevertOp now t reason dry) fs"
  show ?thesis
  proof (cases "target_version (map pm_experiment ps) t")
    case (Inl err)
    then show ?thesis using assms(1) p by (auto simp: Revert_def resolveTargetVersion_def)
  next
    case (Inr v)
    note v = target_positive [OF this]
    show ?thesis
    proof (cases "v < int (length ps) + 1 \<and> \<not> dry")
      case False
      then have "take (nat (v - 1)) ps = ps \<or> dry" by auto
      moreover have "?step = fs" using False p Inr by (auto simp: Revert_def resolveTargetVersion_def Let_def)
      ultimately show ?thesis using assms(1) Inr by (auto simp: take_entries)
    next
      case True
      let ?kept = "take (nat (v - 1)) ps"
      define q where "q = (let r = reconstructPolicyAtVersion cfg p v in r\<lparr>bp_reverts := bp_reverts r @
        [\<lparr>rv_from = bp_version p, rv_to = v, rv_experiments = findRevertedExperiments p v, rv_reason = reason, rv_at = now\<rparr>]\<rparr>)"
      have keeps: "list_all keeps ?kept" using p(5) by (auto simp: list_all_iff dest: in_set_takeD)
      have q: "content_of q = replay cfg ?kept" "bp_promotions q = ?kept" "bp_version q = int (length ?kept) + 1"
        using reconstructed [of p cfg v] p v True by (auto simp: q_def Let_def content_of_def overrides_def)
      have "encodable q"
        using replayed_encodable [OF assms(3) keeps] q keeps by (simp add: encodable_kept content_of_def replay_def)
      moreover have "well_formed q"
        using well_formed_reconstructed [OF v well_formed_loaded [OF p(1)]] by (simp add: q_def Let_def well_formed_def)
      moreover have "?step = snd (SaveWithLock now all_steps path q fs)"
        using True p Inr by (auto simp: Revert_def resolveTargetVersion_def q_def Let_def split: prod.splits option.splits)
      ultimately have "replays cfg path ?step ?kept" using q keeps assms(2) by (metis saved_replays)
      moreover have "stack_step cfg (RevertOp now t reason dry) (entries cfg ps) = entries cfg ?kept"
        using True Inr by (simp add: take_entries)
      ultimately show ?thesis by auto
    qed
  qed
qed

lemma undo_stack_runs:
  assumes "path \<noteq> []" "encodable_constraints (default_constraints cfg)" "list_all restorable ops"
    "replays cfg path fs ps" "int (length ps + length ops) + 1 \<le> i64_max"
  shows "\<exists>ps'. replays cfg path (fold (baseline_step cfg path) ops fs) ps' \<and>
    fold (stack_step cfg) ops (entries cfg ps) = entries cfg ps'"
  using assms(3-)
proof (induction ops arbitrary: fs ps)
  case (Cons op ops)
  have "\<exists>ps1. replays cfg path (baseline_step cfg path op fs) ps1 \<and> stack_step cfg op (entries cfg ps) = entries cfg ps1 \<and>
    length ps1 \<le> Suc (length ps)"
  proof (cases op)
    case (PromoteOp now r candidate)
    then show ?thesis using Cons.prems promote_step [OF Cons.prems(2) assms(1), of now r candidate] by auto
  next
    case (RevertOp now t reason dry)
    then show ?thesis using revert_step [OF Cons.prems(2) assms(1,2), of now t reason dry] le_SucI by blast
  qed
  then obtain ps1 where "replays cfg path (baseline_step cfg path op fs) ps1" "stack_step cfg op (entries cfg ps) = entries cfg ps1"
    "length ps1 \<le> Suc (length ps)" by blast
  then show ?case using Cons.IH [of "baseline_step cfg path op fs" ps1] Cons.prems by auto
qed auto

text \<open>C4 (refinement). The baseline policy is an undo stack.  Start without a policy file and run any promotions and reverts (to the
  last version, to a version or to before an experiment, also dry runs and those that fail) whose writes succeed: at every point the
  overrides, the constraints and the execution policy of the file are those on top of the stack that the promotions push and the
  reverts pop, the version is one more than its height, and the promotions are those of its entries.  The experiments promoted are
  patches of the constraints or tightened prompts with a text.\<close>
theorem baseline_is_an_undo_stack:
  assumes "path \<noteq> []" "encodable_constraints (default_constraints cfg)" "list_all restorable ops" "int (length ops) + 1 \<le> i64_max"
    "pf_main fs = FileMissing"
  shows "\<exists>p. Load cfg path (fold (baseline_step cfg path) ops fs) = Inr p \<and>
    content_of p = top_content cfg (fold (stack_step cfg) ops []) \<and>
    bp_version p = int (length (fold (stack_step cfg) ops [])) + 1 \<and>
    map pm_experiment (bp_promotions p) = map fst (fold (stack_step cfg) ops [])"
proof -
  have "replays cfg path fs []" using assms(1,5) by (simp add: replays_def Load_def replay_nil) (simp add: DefaultPolicy_def)
  then obtain ps where "replays cfg path (fold (baseline_step cfg path) ops fs) ps" "fold (stack_step cfg) ops [] = entries cfg ps"
    using undo_stack_runs [OF assms(1-3), of fs "[]"] assms(4) by (auto simp: entries.simps)
  then show ?thesis by (auto simp: replays_def top_entries)
qed

section \<open>A run\<close>

definition demo_params :: baseline_params where
  "demo_params =
     \<lparr>bl_starting_cash = Fin 3000000, bl_max_weight = Fin (1 / 4), bl_max_open = 5, bl_min_volume = Fin 1000000, bl_min_conviction = 60,
      bl_require_cro = True, bl_cost_bps = Fin (57 / 4), bl_discount_bps = Fin (17 / 2), bl_discount_threshold = Fin 500000,
      bl_slippage_bps = Fin 4, bl_reserve = Fin (1 / 8)\<rparr>"

definition demo_ops :: "baseline_op list" where
  "demo_ops =
     [PromoteOp 1 (demo_accepted ''e1'' ''risk_rule_change'') ''conviction_floor: 70'',
      PromoteOp 2 (demo_accepted ''e2'' ''prompt_tightening'') ''Require trend confirmation.'',
      RevertOp 3 \<lparr>rt_type = ''last'', rt_version = 0, rt_experiment = []\<rparr> ''worse'' False]"

lemma demo_patch: "ApplyConstraintCandidate c ''conviction_floor: 70'' = c\<lparr>sc_min_conviction := 70\<rparr>"
  by code_simp

lemma demo_stack:
  "\<exists>content. fold (stack_step demo_params) demo_ops [] = [(''e1'', content)] \<and> sc_min_conviction (fst (snd content)) = 70"
  by (simp add: demo_ops_def demo_accepted_def demo_patch Let_def new_content_def constraint_mutation_def top_content_def content_of_def
      DefaultPolicy_def default_constraints_def demo_params_def encodable_constraints_def finite_number_def target_version_def)

lemma baseline_is_an_undo_stack_witness:
  "\<exists>p. Load demo_params ''policy'' (fold (baseline_step demo_params ''policy'') demo_ops \<lparr>pf_main = FileMissing, pf_backup = FileMissing\<rparr>) = Inr p \<and>
    bp_version p = 2 \<and> sc_min_conviction (bp_constraints p) = 70"
proof -
  have "encodable_constraints (default_constraints demo_params)" "list_all restorable demo_ops" "int (length demo_ops) + 1 \<le> i64_max"
    by (simp_all add: encodable_constraints_def finite_number_def default_constraints_def demo_params_def restorable_def demo_ops_def
        demo_accepted_def constraint_mutation_def prompt_mutation_def i64_max_def)
  from baseline_is_an_undo_stack [OF _ this, of "''policy''" "\<lparr>pf_main = FileMissing, pf_backup = FileMissing\<rparr>"] demo_stack
  show ?thesis by (force simp: top_content_def content_of_def)
qed

section \<open>What a revert loses\<close>

text \<open>A revert forgets the reverts before it: after a successful revert the history of reverts holds that revert and
  nothing else.\<close>
theorem revert_history_is_forgotten:
  assumes "Revert cfg now w path target reason False fs = (Inr res, fs')"
  shows "GetRevertHistory cfg path fs' =
    Inr [\<lparr>rv_from = rr_from res, rv_to = rr_to res, rv_experiments = rr_experiments res, rv_reason = reason, rv_at = now\<rparr>]"
proof -
  from assms obtain p v where p: "Load cfg path fs = Inr p" "resolveTargetVersion p target = Inr v" "v < bp_version p"
    by (auto simp: Revert_def Let_def split: sum.splits if_splits)
  define q where "q = (let r = reconstructPolicyAtVersion cfg p v in r\<lparr>bp_reverts := bp_reverts r @
    [\<lparr>rv_from = bp_version p, rv_to = v, rv_experiments = findRevertedExperiments p v, rv_reason = reason, rv_at = now\<rparr>]\<rparr>)"
  have saved: "SaveWithLock now w path q fs = (None, fs')" and
    res: "res = \<lparr>rr_from = bp_version p, rr_to = v, rr_experiments = findRevertedExperiments p v, rr_reason = reason, rr_at = now, rr_dry = False\<rparr>"
    using assms p by (auto simp: Revert_def q_def Let_def split: prod.splits option.splits)
  then have path: "path \<noteq> []" by (auto simp: SaveWithLock_def)
  have "1 \<le> v" using p(2) target_positive by (auto simp: resolveTargetVersion_def)
  then have "well_formed q"
    using well_formed_reconstructed [OF _ well_formed_loaded [OF p(1)]] by (simp add: q_def Let_def well_formed_def)
  from policy_load_saved [OF saved path this]
  have "GetRevertHistory cfg path fs' = Inr (bp_reverts q)" by (simp add: GetRevertHistory_def)
  then show ?thesis
    by (simp add: res q_def reconstructPolicyAtVersion_def DefaultPolicy_def Let_def split: option.split)
qed

definition demo_promoted :: policy where
  "demo_promoted = (DefaultPolicy demo_params)\<lparr>bp_version := 2,
     bp_promotions := [\<lparr>pm_experiment = ''e1'', pm_target = ''agent'', pm_skill = [], pm_mutation = ''onboarding'', pm_path = [], pm_at = 0,
       pm_status = ExperimentAccepted, pm_version = 2, pm_constraints = None, pm_prompt = []\<rparr>],
     bp_reverts := [\<lparr>rv_from = 3, rv_to = 1, rv_experiments = [''e0''], rv_reason = [], rv_at = 0\<rparr>]\<rparr>"

lemma revert_history_is_forgotten_witness:
  "\<exists>res fs'. Revert demo_params 5 all_steps ''policy'' \<lparr>rt_type = ''last'', rt_version = 0, rt_experiment = []\<rparr> ''worse'' False
     \<lparr>pf_main = FilePolicy (CurrentDoc demo_promoted), pf_backup = FileMissing\<rparr> = (Inr res, fs') \<and>
   GetRevertHistory demo_params ''policy'' fs' =
     Inr [\<lparr>rv_from = 2, rv_to = 1, rv_experiments = [''e1''], rv_reason = ''worse'', rv_at = 5\<rparr>]"
proof -
  have wf: "well_formed demo_promoted" by (simp add: demo_promoted_def well_formed_def DefaultPolicy_def)
  have enc: "encodable ((reconstructPolicyAtVersion demo_params demo_promoted 1)\<lparr>bp_reverts := rs\<rparr>)" for rs
    by (simp add: reconstructPolicyAtVersion_def kept_take later_drop demo_promoted_def DefaultPolicy_def lastConstraintSnapshot_def
        encodable_def encodable_constraints_def default_constraints_def demo_params_def finite_number_def constraint_mutation_def Let_def)
  have "\<exists>res fs'. Revert demo_params 5 all_steps ''policy'' \<lparr>rt_type = ''last'', rt_version = 0, rt_experiment = []\<rparr> ''worse'' False
     \<lparr>pf_main = FilePolicy (CurrentDoc demo_promoted), pf_backup = FileMissing\<rparr> = (Inr res, fs') \<and>
     rr_from res = 2 \<and> rr_to res = 1 \<and> rr_experiments res = [''e1'']"
    by (simp add: Revert_def Load_def well_formed_complete [OF wf] resolveTargetVersion_def target_version_def save_all enc reverted_drop Let_def)
      (simp add: demo_promoted_def target_version_def save_all enc [unfolded demo_promoted_def])
  then obtain res fs' where run: "Revert demo_params 5 all_steps ''policy'' \<lparr>rt_type = ''last'', rt_version = 0, rt_experiment = []\<rparr> ''worse'' False
     \<lparr>pf_main = FilePolicy (CurrentDoc demo_promoted), pf_backup = FileMissing\<rparr> = (Inr res, fs')"
    and "rr_from res = 2" "rr_to res = 1" "rr_experiments res = [''e1'']" by blast
  with revert_history_is_forgotten [OF run] show ?thesis by (intro exI [of _ res] exI [of _ fs']) simp
qed

text \<open>The overrides of agents onboarded, spawned or optimized are lost by any revert, although their promotions stay in the list: a
  reconstructed policy has overrides only for the targets of tightened prompts.\<close>

lemma restored_targets: "dom (fold (restore_override cur) ps m) \<subseteq> dom m \<union> pm_target ` {q \<in> set ps. prompt_mutation (pm_mutation q)}"
proof (induction ps arbitrary: m)
  case (Cons q ps)
  have "dom (restore_override cur q m) \<subseteq> dom m \<union> (if prompt_mutation (pm_mutation q) then {pm_target q} else {})"
    by (auto simp: restore_override_def split: option.splits if_splits)
  with Cons [of "restore_override cur q m"] show ?case by (force split: if_splits)
qed simp

lemma other_overrides_are_lost:
  "dom (overrides (reconstructPolicyAtVersion cfg p v)) \<subseteq>
     pm_target ` {q \<in> set (kept_promotions v (bp_promotions p)). prompt_mutation (pm_mutation q)}"
  using restored_targets [of "overrides p" "kept_promotions v (bp_promotions p)" Map.empty]
  by (simp add: reconstructPolicyAtVersion_def overrides_def Let_def)

end
