(* ===== verification/Base_Charter.thy ===== *)
theory Base_Charter
  imports Base_Revert
begin

text \<open>
  Writing the charter experiments back into the baseline policy, \<open>internal/charter/delta.go\<close>, \<open>options.go\<close> and
  \<open>internal/baseline/writeback.go\<close>, and the trigger that watches positions, \<open>trigger.go\<close>.

  A report is what its JSON document decodes to.  The evidence text of a delta and its JSON text are only stored; they are the
  argument \<open>evidence\<close>, and encoding fails on numbers that are not finite.  The rules of the methodology file are the list
  of its regimes with their cash reserves.
\<close>

section \<open>Reports and verdicts\<close>

datatype delta_verdict = VerdictSignificantEnable | VerdictDirectionalWatch | VerdictInert | VerdictDegenerate

record metric_diffs =
  md_sharpe :: f64
  md_max_dd :: f64
  md_win_rate :: f64
  md_return :: f64
  md_raw_recs :: int

record paired_t =
  pt_t :: f64
  pt_df :: int
  pt_p :: f64
  pt_mean :: f64
  pt_significant :: bool

record bca_ci =
  ci_observed :: f64
  ci_low :: f64
  ci_high :: f64
  ci_resamples :: int
  ci_significant :: bool
  ci_degenerate :: bool

record charter_delta =
  cd_step :: int
  cd_switch :: string
  cd_start :: string
  cd_end :: string
  cd_days :: int
  cd_diffs :: metric_diffs
  cd_paired :: paired_t
  cd_sharpe :: bca_ci
  cd_dd_degenerate :: bool
  cd_verdict :: delta_verdict

record run_metrics =
  rm_win_rate :: f64
  rm_return :: f64
  rm_sharpe :: f64
  rm_max_dd :: f64

record step_report =
  rp_step :: int
  rp_switches :: "string list"
  rp_start :: string
  rp_end :: string
  rp_days :: int
  rp_baseline :: run_metrics
  rp_feature :: run_metrics
  rp_paired :: paired_t
  rp_sharpe :: bca_ci
  rp_max_dd :: bca_ci
  rp_recs_baseline :: int
  rp_recs_feature :: int

definition ExperimentID :: "charter_delta \<Rightarrow> string" where
  "ExperimentID d = ''charter-ab-step-'' @ show_int (cd_step d)"

definition tiny :: "f64 \<Rightarrow> bool" where
  "tiny v \<longleftrightarrow> flt (fabs v) (f64_const (1 / 10 ^ 9))"

definition isZeroEffect :: "charter_delta \<Rightarrow> bool" where
  "isZeroEffect d \<longleftrightarrow>
     (let m = cd_diffs d in tiny (md_sharpe m) \<and> tiny (md_max_dd m) \<and> tiny (md_win_rate m) \<and> tiny (md_return m) \<and> md_raw_recs m = 0)"

definition improving :: "charter_delta \<Rightarrow> nat" where
  "improving d = length (filter (flt (Fin 0)) [md_sharpe (cd_diffs d), md_max_dd (cd_diffs d), md_win_rate (cd_diffs d)])"

definition Classify :: "charter_delta \<Rightarrow> delta_verdict" where
  "Classify d =
     (if pt_significant (cd_paired d) \<and> flt (Fin 0) (pt_mean (cd_paired d)) then VerdictSignificantEnable
      else if 2 \<le> improving d then VerdictDirectionalWatch
      else if isZeroEffect d then VerdictInert
      else if cd_dd_degenerate d then VerdictDegenerate
      else VerdictInert)"

definition deltaFromReport :: "step_report \<Rightarrow> charter_delta" where
  "deltaFromReport rep =
     (let d = \<lparr>cd_step = rp_step rep, cd_switch = (if rp_switches rep = [] then [] else List.last (rp_switches rep)),
               cd_start = rp_start rep, cd_end = rp_end rep, cd_days = rp_days rep,
               cd_diffs = \<lparr>md_sharpe = fsub (rm_sharpe (rp_feature rep)) (rm_sharpe (rp_baseline rep)),
                           md_max_dd = fsub (rm_max_dd (rp_baseline rep)) (rm_max_dd (rp_feature rep)),
                           md_win_rate = fsub (rm_win_rate (rp_feature rep)) (rm_win_rate (rp_baseline rep)),
                           md_return = fsub (rm_return (rp_feature rep)) (rm_return (rp_baseline rep)),
                           md_raw_recs = wrap64 (rp_recs_feature rep - rp_recs_baseline rep)\<rparr>,
               cd_paired = rp_paired rep, cd_sharpe = rp_sharpe rep, cd_dd_degenerate = ci_degenerate (rp_max_dd rep),
               cd_verdict = VerdictInert\<rparr>
      in d\<lparr>cd_verdict := Classify d\<rparr>)"

datatype report_error = ReportUnreadable | MissingSwitches | MissingWindow | MissingStats | MissingBootstrap

definition ParseDeltaReport :: "step_report option \<Rightarrow> report_error + charter_delta" where
  "ParseDeltaReport data =
     (case data of
        None \<Rightarrow> Inl ReportUnreadable
      | Some rep \<Rightarrow>
          if rp_switches rep = [] then Inl MissingSwitches
          else if rp_start rep = [] \<or> rp_end rep = [] \<or> rp_days rep = 0 then Inl MissingWindow
          else if pt_df (rp_paired rep) = 0 \<and> feq (pt_t (rp_paired rep)) (Fin 0) then Inl MissingStats
          else if ci_resamples (rp_sharpe rep) = 0 \<and> ci_resamples (rp_max_dd rep) = 0 then Inl MissingBootstrap
          else Inr (deltaFromReport rep))"

text \<open>The reports of the steps; one that cannot be read or parsed stops the loading.\<close>

fun load_steps :: "(int \<Rightarrow> step_report option) \<Rightarrow> int list \<Rightarrow> report_error + charter_delta list" where
  "load_steps file [] = Inr []"
| "load_steps file (step # steps) =
     (case ParseDeltaReport (file step) of
        Inl err \<Rightarrow> Inl err
      | Inr d \<Rightarrow> (case load_steps file steps of Inl err \<Rightarrow> Inl err | Inr ds \<Rightarrow> Inr (d # ds)))"

definition LoadDeltasFromReports :: "(int \<Rightarrow> step_report option) \<Rightarrow> int \<Rightarrow> report_error + charter_delta list" where
  "LoadDeltasFromReports file steps = load_steps file [1..steps]"

section \<open>Writing back\<close>

definition ConvictionFloorDelta :: "string \<Rightarrow> int" where
  "ConvictionFloorDelta period =
     (if period = ''black_swan'' then 20 else if period = ''downturn'' \<or> period = ''turnaround_down'' then 10 else 0)"

definition allPeriods :: "string list" where
  "allPeriods = [''downturn'', ''turnaround_up'', ''bull'', ''plateau'', ''consolidation'', ''turnaround_down'', ''black_swan'']"

definition GetCashReserve :: "(string \<times> f64) list \<Rightarrow> string \<Rightarrow> f64" where
  "GetCashReserve regimes period = (case map_of regimes period of Some pct \<Rightarrow> pct | None \<Rightarrow> Fin 20)"

text \<open>The rules used when the file of the methodology cannot be loaded.\<close>

definition default_regimes :: "(string \<times> f64) list" where
  "default_regimes = [(''bull'', Fin 7), (''downturn'', Fin 45), (''black_swan'', Fin 90)]"

definition strictest_reserve :: "(string \<times> f64) list \<Rightarrow> f64" where
  "strictest_reserve regimes = fold (\<lambda>p m. if flt m (GetCashReserve regimes p) then GetCashReserve regimes p else m) allPeriods (Fin 0)"

definition applyCharterConstraint :: "baseline_params \<Rightarrow> (string \<times> f64) list \<Rightarrow> charter_delta \<Rightarrow> policy \<Rightarrow> policy" where
  "applyCharterConstraint cfg regimes d p =
     (if cd_switch d = ''CashReserve'' then
        (let m = strictest_reserve regimes
         in if flt (Fin 0) m then p\<lparr>bp_constraints := (bp_constraints p)\<lparr>sc_reserve := fdiv m (Fin 100)\<rparr>\<rparr> else p)
      else if cd_switch d = ''ConvictionFloor'' then
        (let c = (bp_constraints p)\<lparr>sc_min_conviction := wrap64 (sc_min_conviction (bp_constraints p) + ConvictionFloorDelta ''black_swan'')\<rparr>
         in p\<lparr>bp_constraints := c, bp_execution := ExecutionPolicyFromConstraints cfg c\<rparr>)
      else p)"

definition encodable_delta :: "charter_delta \<Rightarrow> bool" where
  "encodable_delta d \<longleftrightarrow>
     list_all finite_number
       [md_sharpe (cd_diffs d), md_max_dd (cd_diffs d), md_win_rate (cd_diffs d), md_return (cd_diffs d), pt_t (cd_paired d),
        pt_p (cd_paired d), pt_mean (cd_paired d), ci_observed (cd_sharpe d), ci_low (cd_sharpe d), ci_high (cd_sharpe d)]"

text \<open>\<open>filepath.Join\<close> of two elements on Unix: empty elements are dropped, and the result is cleaned element by element.\<close>

definition clean_step :: "bool \<Rightarrow> string \<Rightarrow> string list \<Rightarrow> string list" where
  "clean_step rooted part kept =
     (if part = [] \<or> part = ''.'' then kept
      else if part \<noteq> ''..'' then kept @ [part]
      else if kept \<noteq> [] \<and> List.last kept \<noteq> ''..'' then butlast kept
      else if rooted then kept else kept @ [part])"

definition filepath_clean :: "string \<Rightarrow> string" where
  "filepath_clean s =
     (let rooted = (s \<noteq> [] \<and> hd s = CHR ''/'');
          parts = fold (clean_step rooted) (split_at (CHR ''/'') s) [];
          body = drop 1 (concat (map (\<lambda>p. ''/'' @ p) parts))
      in if rooted then ''/'' @ body else if parts = [] then ''.'' else body)"

definition filepath_join :: "string \<Rightarrow> string \<Rightarrow> string" where
  "filepath_join dir name =
     (if dir = [] then if name = [] then [] else filepath_clean name else filepath_clean (dir @ ''/'' @ name))"

lemma filepath_join_examples:
  "filepath_join ''reports'' ''step-1.json'' = ''reports/step-1.json''" "filepath_join [] ''step-1.json'' = ''step-1.json''"
  "filepath_join ''/a/../reports/'' ''step-1.json'' = ''/reports/step-1.json''" "filepath_join ''../x/.'' ''s'' = ''../x/s''"
  by code_simp+

text \<open>The record of a delta and the policy with its constraint; the version of the record is set afterwards.\<close>

definition buildCharterRecord ::
  "baseline_params \<Rightarrow> (string \<times> f64) list \<Rightarrow> (charter_delta \<Rightarrow> string) \<Rightarrow> time \<Rightarrow> string \<Rightarrow> charter_delta \<Rightarrow> policy
     \<Rightarrow> (promotion \<times> policy) option" where
  "buildCharterRecord cfg regimes evidence now dir d p =
     (if \<not> encodable_delta d then None
      else
        (let r = \<lparr>pm_experiment = ExperimentID d, pm_target = ''charter'', pm_skill = cd_switch d, pm_mutation = ''charter_delta_recorded'',
                  pm_path = filepath_join dir (''step-'' @ show_int (cd_step d) @ ''.json''), pm_at = now, pm_status = ''recorded'', pm_version = 0,
                  pm_constraints = None, pm_prompt = evidence d\<rparr>
         in case cd_verdict d of
              VerdictSignificantEnable \<Rightarrow>
                (let q = applyCharterConstraint cfg regimes d p
                 in Some (r\<lparr>pm_mutation := ''charter_constraint'', pm_status := ''promoted'', pm_constraints := Some (bp_constraints q)\<rparr>, q))
            | VerdictDirectionalWatch \<Rightarrow> Some (r\<lparr>pm_status := ''watch''\<rparr>, p)
            | _ \<Rightarrow> Some (r, p)))"

definition hasExperimentID :: "promotion list \<Rightarrow> string \<Rightarrow> bool" where
  "hasExperimentID ps ident \<longleftrightarrow> list_ex (\<lambda>q. pm_experiment q = ident) ps"

datatype charter_error = CharterLoad policy_error | CharterPath | CharterRecord int | CharterSave policy_error

fun write_deltas ::
  "baseline_params \<Rightarrow> (string \<times> f64) list \<Rightarrow> (charter_delta \<Rightarrow> string) \<Rightarrow> time \<Rightarrow> string \<Rightarrow> charter_delta list \<Rightarrow> policy \<times> nat
     \<Rightarrow> charter_error + policy \<times> nat" where
  "write_deltas cfg regimes evidence now dir [] (p, n) = Inr (p, n)"
| "write_deltas cfg regimes evidence now dir (d # ds) (p, n) =
     (if hasExperimentID (bp_promotions p) (ExperimentID d) then write_deltas cfg regimes evidence now dir ds (p, n)
      else (case buildCharterRecord cfg regimes evidence now dir d p of
              None \<Rightarrow> Inl (CharterRecord (cd_step d))
            | Some (r, q) \<Rightarrow>
                (let v = wrap64 (bp_version q + 1)
                 in write_deltas cfg regimes evidence now dir ds
                      (q\<lparr>bp_version := v, bp_promotions := bp_promotions q @ [r\<lparr>pm_version := v\<rparr>]\<rparr>, Suc n))))"

definition WritebackCharter ::
  "baseline_params \<Rightarrow> (string \<times> f64) list \<Rightarrow> (charter_delta \<Rightarrow> string) \<Rightarrow> time \<Rightarrow> write_steps \<Rightarrow> string \<Rightarrow> charter_delta list \<Rightarrow> string
     \<Rightarrow> policy_files \<Rightarrow> (charter_error + policy) \<times> policy_files" where
  "WritebackCharter cfg regimes evidence now w path deltas dir fs =
     (if path = [] then (Inl CharterPath, fs)
      else (case LoadStrict cfg path fs of
              Inl err \<Rightarrow> (Inl (CharterLoad err), fs)
            | Inr p \<Rightarrow>
                (case write_deltas cfg regimes evidence now dir deltas (p, 0) of
                   Inl err \<Rightarrow> (Inl err, fs)
                 | Inr (q, n) \<Rightarrow>
                     (if n = 0 then (Inr q, fs)
                      else (case SaveWithLock now w path q fs of
                              (Some err, fs') \<Rightarrow> (Inl (CharterSave err), fs')
                            | (None, fs') \<Rightarrow> (Inr q, fs'))))))"

section \<open>The trigger\<close>

datatype violation_field = StopLossPct | TakeProfitPct | MaxHoldingDays

record violation =
  vi_symbol :: string
  vi_field :: violation_field
  vi_actual :: f64
  vi_limit :: f64
  vi_severity :: string

definition price_change :: "position \<Rightarrow> f64" where
  "price_change p = fdiv (fsub (current_price p) (average_cost p)) (average_cost p)"

definition holding_days :: "time \<Rightarrow> position \<Rightarrow> int" where
  "holding_days now p = whole_days (time_sub now (entry_date p))"

definition trigger_evaluate :: "time \<Rightarrow> position \<Rightarrow> policy \<Rightarrow> violation list" where
  "trigger_evaluate now p pol =
     (let c = bp_constraints pol; pct = price_change p; days = holding_days now p
      in if fle (average_cost p) (Fin 0) then []
         else
           (if flt (Fin 0) (sc_stop_loss c) \<and> fle pct (fneg (sc_stop_loss c))
            then [\<lparr>vi_symbol = p_symbol p, vi_field = StopLossPct, vi_actual = pct, vi_limit = fneg (sc_stop_loss c), vi_severity = ''error''\<rparr>]
            else []) @
           (if flt (Fin 0) (sc_take_profit c) \<and> fle (sc_take_profit c) pct
            then [\<lparr>vi_symbol = p_symbol p, vi_field = TakeProfitPct, vi_actual = pct, vi_limit = sc_take_profit c, vi_severity = ''warn''\<rparr>]
            else []) @
           (if 0 < sc_max_holding c \<and> entry_date p \<noteq> zero_time \<and> sc_max_holding c \<le> days
            then [\<lparr>vi_symbol = p_symbol p, vi_field = MaxHoldingDays, vi_actual = f64_of_int days, vi_limit = f64_of_int (sc_max_holding c),
                   vi_severity = ''warn''\<rparr>]
            else []))"

text \<open>A payload of another type, or a policy that cannot be loaded, gives no violation.\<close>

definition onPositionUpdate :: "baseline_params \<Rightarrow> string \<Rightarrow> policy_files \<Rightarrow> time \<Rightarrow> position option \<Rightarrow> violation list" where
  "onPositionUpdate cfg path fs now payload =
     (case payload of
        None \<Rightarrow> []
      | Some p \<Rightarrow> (case Load cfg path fs of Inl _ \<Rightarrow> [] | Inr pol \<Rightarrow> trigger_evaluate now p pol))"

section \<open>Facts about writing back\<close>

lemma built_record:
  assumes "buildCharterRecord cfg regimes evidence now dir d p = Some (r, q)"
  shows "pm_experiment r = ExperimentID d" and "bp_promotions q = bp_promotions p" and "bp_version q = bp_version p"
    and "\<not> constraint_mutation (pm_mutation r)" and "\<not> prompt_mutation (pm_mutation r)" and "bp_overrides q = bp_overrides p"
    and "bp_execution q = bp_execution p \<or> bp_execution q \<noteq> zero_execution"
    and "cd_verdict d \<noteq> VerdictSignificantEnable \<Longrightarrow> q = p"
  using assms
  by (auto simp: buildCharterRecord_def applyCharterConstraint_def constraint_mutation_def prompt_mutation_def Let_def
      split: if_splits delta_verdict.splits)

lemma write_deltas_grows:
  "write_deltas cfg regimes evidence now dir ds (p, n) = Inr (q, m) \<Longrightarrow>
     \<exists>rs. bp_promotions q = bp_promotions p @ rs \<and> m = n + length rs \<and>
       (\<forall>r \<in> set rs. \<not> constraint_mutation (pm_mutation r) \<and> \<not> prompt_mutation (pm_mutation r)) \<and>
       (\<forall>d \<in> set ds. hasExperimentID (bp_promotions q) (ExperimentID d)) \<and> bp_overrides q = bp_overrides p \<and>
       (bp_execution p \<noteq> zero_execution \<longrightarrow> bp_execution q \<noteq> zero_execution)"
proof (induction ds arbitrary: p n)
  case (Cons d ds)
  show ?case
  proof (cases "hasExperimentID (bp_promotions p) (ExperimentID d)")
    case True
    with Cons obtain rs where "bp_promotions q = bp_promotions p @ rs \<and> m = n + length rs \<and>
       (\<forall>r \<in> set rs. \<not> constraint_mutation (pm_mutation r) \<and> \<not> prompt_mutation (pm_mutation r)) \<and>
       (\<forall>d \<in> set ds. hasExperimentID (bp_promotions q) (ExperimentID d)) \<and> bp_overrides q = bp_overrides p \<and>
       (bp_execution p \<noteq> zero_execution \<longrightarrow> bp_execution q \<noteq> zero_execution)" by fastforce
    with True show ?thesis by (auto simp: hasExperimentID_def)
  next
    case False
    then obtain r p1 where b: "buildCharterRecord cfg regimes evidence now dir d p = Some (r, p1)"
      using Cons.prems by (auto split: option.splits)
    note bb = built_record [OF b]
    define v where "v = wrap64 (bp_version p1 + 1)"
    from False Cons.prems b Cons.IH [of "p1\<lparr>bp_version := v, bp_promotions := bp_promotions p1 @ [r\<lparr>pm_version := v\<rparr>]\<rparr>" "Suc n"]
    obtain rs where "bp_promotions q = bp_promotions p1 @ r\<lparr>pm_version := v\<rparr> # rs \<and> m = Suc n + length rs \<and>
       (\<forall>r \<in> set rs. \<not> constraint_mutation (pm_mutation r) \<and> \<not> prompt_mutation (pm_mutation r)) \<and>
       (\<forall>d \<in> set ds. hasExperimentID (bp_promotions q) (ExperimentID d)) \<and> bp_overrides q = bp_overrides p1 \<and>
       (bp_execution p1 \<noteq> zero_execution \<longrightarrow> bp_execution q \<noteq> zero_execution)"
      by (auto simp: v_def Let_def)
    with bb show ?thesis by (intro exI [of _ "r\<lparr>pm_version := v\<rparr> # rs"]) (auto simp: hasExperimentID_def)
  qed
qed simp

lemma write_deltas_again:
  "(\<And>d. d \<in> set ds \<Longrightarrow> hasExperimentID (bp_promotions p) (ExperimentID d)) \<Longrightarrow>
     write_deltas cfg regimes evidence now dir ds (p, n) = Inr (p, n)"
  by (induction ds) auto

lemma load_strict: "LoadStrict cfg path fs = Inr p \<Longrightarrow> Load cfg path fs = Inr p"
  by (auto simp: LoadStrict_def Load_def split: if_splits policy_file.splits)

lemma strict_saved:
  "SaveWithLock now w path p fs = (None, fs') \<Longrightarrow> path \<noteq> [] \<Longrightarrow> well_formed p \<Longrightarrow> LoadStrict cfg path fs' = Inr (p\<lparr>bp_updated := now\<rparr>)"
  by (drule saved_policy) (simp add: LoadStrict_def well_formed_complete well_formed_def)

text \<open>What loading the file gives after a successful run.\<close>

lemma writeback_loaded:
  assumes "WritebackCharter cfg regimes evidence now w path deltas dir fs = (Inr q, fs')"
  obtains p p' n where "LoadStrict cfg path fs = Inr p" "write_deltas cfg regimes evidence now dir deltas (p, 0) = Inr (q, n)" "path \<noteq> []"
    "LoadStrict cfg path fs' = Inr p'" "bp_promotions p' = bp_promotions q" "content_of p' = content_of q" "n = 0 \<Longrightarrow> fs' = fs"
proof -
  from assms obtain p n where p: "path \<noteq> []" "LoadStrict cfg path fs = Inr p"
    "write_deltas cfg regimes evidence now dir deltas (p, 0) = Inr (q, n)"
    by (auto simp: WritebackCharter_def split: if_splits sum.splits prod.splits option.splits)
  from write_deltas_grows [OF p(3)] obtain rs where rs: "bp_promotions q = bp_promotions p @ rs" "n = length rs"
    "bp_overrides q = bp_overrides p" "bp_execution p \<noteq> zero_execution \<longrightarrow> bp_execution q \<noteq> zero_execution" by auto
  have wf: "well_formed p" using well_formed_loaded [OF load_strict [OF p(2)]] .
  show thesis
  proof (cases "n = 0")
    case True
    then have "fs' = fs" "q = p"
      using assms p write_deltas_again [of deltas p cfg regimes evidence now dir 0] write_deltas_grows [OF p(3)] rs(1,2)
      by (auto simp: WritebackCharter_def)
    with that p show thesis by blast
  next
    case False
    then have "SaveWithLock now w path q fs = (None, fs')"
      using assms p by (auto simp: WritebackCharter_def split: prod.splits option.splits)
    then have "LoadStrict cfg path fs' = Inr (complete_policy cfg (q\<lparr>bp_updated := now\<rparr>))"
      using p(1) by (auto dest!: saved_policy simp: LoadStrict_def)
    moreover have "bp_overrides q \<noteq> None" "bp_execution q \<noteq> zero_execution" using wf rs by (auto simp: well_formed_def)
    then have "content_of (complete_policy cfg (q\<lparr>bp_updated := now\<rparr>)) = content_of q"
      by (auto simp: content_of_def complete_policy_def overrides_def)
    ultimately show thesis using that [OF p(2,3,1)] False by (simp add: complete_policy_def)
  qed
qed

text \<open>C12 (functional). Writing back is idempotent: after a successful run with some deltas, a second run with the same deltas, at
  whatever time and from whatever directory, succeeds, touches no file, and returns the same promotions, overrides, constraints and
  execution policy.\<close>
theorem writeback_is_idempotent:
  assumes "WritebackCharter cfg regimes evidence now w path deltas dir fs = (Inr q, fs')"
  shows "\<exists>q'. WritebackCharter cfg regimes' evidence' now' w' path deltas dir' fs' = (Inr q', fs') \<and>
    bp_promotions q' = bp_promotions q \<and> content_of q' = content_of q"
proof -
  from writeback_loaded [OF assms] obtain p p' n where p: "write_deltas cfg regimes evidence now dir deltas (p, 0) = Inr (q, n)"
    "path \<noteq> []" "LoadStrict cfg path fs' = Inr p'" "bp_promotions p' = bp_promotions q" "content_of p' = content_of q" by metis
  have "hasExperimentID (bp_promotions p') (ExperimentID d)" if "d \<in> set deltas" for d
    using write_deltas_grows [OF p(1)] that p(4) by auto
  then have "write_deltas cfg regimes' evidence' now' dir' deltas (p', 0) = Inr (p', 0)" by (rule write_deltas_again)
  with p show ?thesis by (simp add: WritebackCharter_def)
qed

text \<open>A finding or a watch entry changes no value of the policy.\<close>

lemma write_deltas_findings:
  "write_deltas cfg regimes evidence now dir ds (p, n) = Inr (q, m) \<Longrightarrow> (\<And>d. d \<in> set ds \<Longrightarrow> cd_verdict d \<noteq> VerdictSignificantEnable) \<Longrightarrow>
     content_of q = content_of p"
proof (induction ds arbitrary: p n)
  case (Cons d ds)
  show ?case
  proof (cases "hasExperimentID (bp_promotions p) (ExperimentID d)")
    case False
    then obtain r p1 where b: "buildCharterRecord cfg regimes evidence now dir d p = Some (r, p1)"
      using Cons.prems by (auto split: option.splits)
    with built_record(8) [OF b] Cons.prems(2) have "p1 = p" by simp
    with Cons False b show ?thesis by (fastforce simp: Let_def content_of_def overrides_def)
  qed (use Cons in auto)
qed simp

lemma findings_change_nothing:
  "WritebackCharter cfg regimes evidence now w path ds dir fs = (Inr q, fs') \<Longrightarrow> (\<And>d. d \<in> set ds \<Longrightarrow> cd_verdict d \<noteq> VerdictSignificantEnable) \<Longrightarrow>
     \<exists>p. LoadStrict cfg path fs = Inr p \<and> content_of q = content_of p"
  using writeback_loaded write_deltas_findings by metis

text \<open>No revert undoes a charter constraint (a fault: the writeback is documented to be revertable).  After a successful run on a policy into which no patch of the constraints was
  promoted, whatever version is reverted to, the constraints and the execution policy stay those that the run left.\<close>
theorem charter_constraint_survives_revert:
  assumes "WritebackCharter cfg regimes evidence now w path deltas dir fs = (Inr q, fs1)"
    "\<not> list_ex (\<lambda>r. constraint_mutation (pm_mutation r)) (bp_promotions q)"
    "Revert cfg now' w' path target reason False fs1 = (Inr res, fs2)"
  shows "\<exists>p. Load cfg path fs2 = Inr p \<and> bp_constraints p = bp_constraints q \<and> bp_execution p = bp_execution q"
proof -
  from writeback_loaded [OF assms(1)] obtain p' where p': "path \<noteq> []" "Load cfg path fs1 = Inr p'"
    "bp_promotions p' = bp_promotions q" "content_of p' = content_of q" by (metis load_strict)
  from assms(3) p'(2) obtain v where v: "resolveTargetVersion p' target = Inr v"
    by (auto simp: Revert_def split: sum.splits)
  define r where "r = reconstructPolicyAtVersion cfg p' v"
  define rs where "rs = bp_reverts r @ [\<lparr>rv_from = bp_version p', rv_to = v, rv_experiments = findRevertedExperiments p' v,
    rv_reason = reason, rv_at = now'\<rparr>]"
  have saved: "SaveWithLock now' w' path (r\<lparr>bp_reverts := rs\<rparr>) fs1 = (None, fs2)"
    using assms(3) p'(2) v by (auto simp: Revert_def r_def rs_def Let_def split: if_splits prod.splits option.splits)
  have none: "lastConstraintSnapshot kept = None" if "\<not> list_ex (\<lambda>r. constraint_mutation (pm_mutation r)) kept" for kept
    using that by (induction kept rule: rev_induct) (auto simp: lastConstraintSnapshot_def snapshot_of_def)
  have "\<not> list_ex (\<lambda>r. constraint_mutation (pm_mutation r)) (take n (bp_promotions q) @ drop n (bp_promotions q))" for n
    using assms(2) by simp
  then have "\<not> list_ex (\<lambda>r. constraint_mutation (pm_mutation r)) (take n (bp_promotions q)) \<and>
    \<not> list_ex (\<lambda>r. constraint_mutation (pm_mutation r)) (drop n (bp_promotions q))" for n
    unfolding list_ex_append by blast
  then have "bp_constraints r = bp_constraints p' \<and> bp_execution r = bp_execution p'"
    by (simp add: r_def reconstructPolicyAtVersion_def p'(3) kept_take later_drop none Let_def)
  moreover have "well_formed (r\<lparr>bp_reverts := rs\<rparr>)"
    using well_formed_reconstructed [OF _ well_formed_loaded [OF p'(2)]] v target_positive
    by (auto simp: r_def resolveTargetVersion_def well_formed_def)
  ultimately show ?thesis using policy_load_saved [OF saved p'(1)] p'(4) by (simp add: content_of_def)
qed

section \<open>A run\<close>

definition demo_ci :: bca_ci where
  "demo_ci = \<lparr>ci_observed = Fin 1, ci_low = Fin 1, ci_high = Fin 1, ci_resamples = 10000, ci_significant = True, ci_degenerate = False\<rparr>"

definition demo_report :: step_report where
  "demo_report =
     \<lparr>rp_step = 5, rp_switches = [''PeriodOnly'', ''ConvictionFloor''], rp_start = ''2026-01-02'', rp_end = ''2026-03-31'', rp_days = 58,
      rp_baseline = \<lparr>rm_win_rate = Fin 0, rm_return = Fin 0, rm_sharpe = Fin 0, rm_max_dd = Fin 0\<rparr>,
      rp_feature = \<lparr>rm_win_rate = Fin 0, rm_return = Fin 0, rm_sharpe = Fin 0, rm_max_dd = Fin 0\<rparr>,
      rp_paired = \<lparr>pt_t = Fin 3, pt_df = 57, pt_p = Fin 0, pt_mean = Fin 1, pt_significant = True\<rparr>,
      rp_sharpe = demo_ci, rp_max_dd = demo_ci, rp_recs_baseline = 4, rp_recs_feature = 3\<rparr>"

definition demo_delta :: charter_delta where
  "demo_delta = deltaFromReport demo_report"

definition demo_start :: policy_files where
  "demo_start = \<lparr>pf_main = FilePolicy (CurrentDoc (DefaultPolicy demo_params)), pf_backup = FileMissing\<rparr>"

abbreviation demo_writeback :: "time \<Rightarrow> policy_files \<Rightarrow> (charter_error + policy) \<times> policy_files" where
  "demo_writeback now \<equiv> WritebackCharter demo_params default_regimes (\<lambda>d. ''evidence'') now all_steps ''policy'' [demo_delta] ''reports''"

lemma demo_delta_facts:
  "ParseDeltaReport (Some demo_report) = Inr demo_delta" "cd_verdict demo_delta = VerdictSignificantEnable"
  "cd_switch demo_delta = ''ConvictionFloor''" "encodable_delta demo_delta"
  by (simp_all add: ParseDeltaReport_def demo_delta_def deltaFromReport_def demo_report_def demo_ci_def Classify_def encodable_delta_def
      finite_number_def fsub_def feq_def Let_def)

definition demo_written :: policy where
  "demo_written =
     (let c = (default_constraints demo_params)\<lparr>sc_min_conviction := 80\<rparr>
      in (DefaultPolicy demo_params)\<lparr>bp_version := 2, bp_constraints := c, bp_execution := ExecutionPolicyFromConstraints demo_params c,
           bp_promotions :=
             [\<lparr>pm_experiment = ExperimentID demo_delta, pm_target = ''charter'', pm_skill = ''ConvictionFloor'', pm_mutation = ''charter_constraint'',
               pm_path = filepath_join ''reports'' (''step-'' @ show_int (cd_step demo_delta) @ ''.json''), pm_at = 7, pm_status = ''promoted'', pm_version = 2,
               pm_constraints = Some c, pm_prompt = ''evidence''\<rparr>]\<rparr>)"

lemma demo_enc: "encodable demo_written"
  by (simp add: demo_written_def encodable_def encodable_constraints_def default_constraints_def demo_params_def finite_number_def Let_def)

lemma demo_run_written:
  "demo_writeback 7 demo_start = (Inr demo_written, \<lparr>pf_main = FilePolicy (CurrentDoc (demo_written\<lparr>bp_updated := 7\<rparr>)), pf_backup = FileMissing\<rparr>)"
proof -
  have load: "LoadStrict demo_params ''policy'' demo_start = Inr (DefaultPolicy demo_params)"
    by (simp add: LoadStrict_def demo_start_def well_formed_complete)
  have "wrap64 80 = 80" "wrap64 2 = 2" by (simp_all add: wrap64_def)
  then have "write_deltas demo_params default_regimes (\<lambda>d. ''evidence'') 7 ''reports'' [demo_delta] (DefaultPolicy demo_params, 0) =
    Inr (demo_written, 1)"
    by (simp add: demo_written_def DefaultPolicy_def hasExperimentID_def buildCharterRecord_def demo_delta_facts applyCharterConstraint_def
        ConvictionFloorDelta_def default_constraints_def demo_params_def Let_def)
  then show ?thesis using demo_enc by (simp add: WritebackCharter_def load save_all)
qed

lemma writeback_is_idempotent_witness:
  "\<exists>q' fs'. snd (demo_writeback 7 demo_start) = fs' \<and> demo_writeback 8 fs' = (Inr q', fs') \<and> content_of q' = content_of demo_written"
  using writeback_is_idempotent [OF demo_run_written, where regimes' = default_regimes and evidence' = "\<lambda>d. ''evidence''" and now' = 8
      and w' = all_steps and dir' = "''reports''"]
  by (auto simp: demo_run_written)

lemma charter_constraint_survives_revert_witness:
  "\<exists>res fs2 p. Revert demo_params 9 all_steps ''policy'' \<lparr>rt_type = ''last'', rt_version = 0, rt_experiment = []\<rparr> ''worse'' False
       (snd (demo_writeback 7 demo_start)) = (Inr res, fs2) \<and> rr_to res = 1 \<and>
     Load demo_params ''policy'' fs2 = Inr p \<and> sc_min_conviction (bp_constraints p) = 80"
proof -
  let ?fs1 = "\<lparr>pf_main = FilePolicy (CurrentDoc (demo_written\<lparr>bp_updated := 7\<rparr>)), pf_backup = FileMissing\<rparr>"
  let ?q = "demo_written\<lparr>bp_updated := 7\<rparr>"
  have wf: "well_formed ?q" by (simp add: demo_written_def well_formed_def DefaultPolicy_def Let_def)
  have enc: "encodable ((reconstructPolicyAtVersion demo_params ?q 1)\<lparr>bp_reverts := rs\<rparr>)" for rs
    using demo_enc
    by (simp add: reconstructPolicyAtVersion_def kept_take later_drop demo_written_def DefaultPolicy_def lastConstraintSnapshot_def
        encodable_def constraint_mutation_def Let_def)
  have none: "\<not> list_ex (\<lambda>r. constraint_mutation (pm_mutation r)) (bp_promotions demo_written)"
    and tgt: "resolveTargetVersion ?q \<lparr>rt_type = ''last'', rt_version = 0, rt_experiment = []\<rparr> = Inr 1" "bp_version ?q = 2"
    and floor: "sc_min_conviction (bp_constraints demo_written) = 80"
    by (simp_all add: demo_written_def constraint_mutation_def resolveTargetVersion_def target_version_def Let_def)
  obtain res fs2 where run: "Revert demo_params 9 all_steps ''policy'' \<lparr>rt_type = ''last'', rt_version = 0, rt_experiment = []\<rparr> ''worse'' False
      ?fs1 = (Inr res, fs2)" "rr_to res = 1"
    using tgt enc by (simp add: Revert_def Load_def well_formed_complete [OF wf] save_all Let_def)
  from charter_constraint_survives_revert [OF demo_run_written none run(1)] floor run show ?thesis by (auto simp: demo_run_written)
qed

end
