(* ===== verification/Exp_Ledger.thy ===== *)
theory Exp_Ledger
  imports Exp_Contract Go_Strconv
begin

text \<open>
  The record stream of the experiments and the stores that hold it: \<open>internal/ledger/experiments.go\<close>, the experiment records of
  \<open>ledger.go\<close>, \<open>postgres_ledger.go\<close> and \<open>outcome_store_sqlite.go\<close>, and the draining half of
  \<open>internal/experiment/auto.go\<close> (expiry of stale records, choice of the oldest pending one).

  The latest record of an identifier decides its status.  A Go map of statuses is a function of the identifiers; where the code ranges
  over it, the order of the range is an argument.  Each write has an outcome.
\<close>

section \<open>Folding the stream\<close>

definition LatestExperimentStatusByID :: "experiment_record list \<Rightarrow> string \<rightharpoonup> string" where
  "LatestExperimentStatusByID rs = fold (\<lambda>r m. if xr_id r = [] then m else m(xr_id r \<mapsto> xr_status r)) rs Map.empty"

definition CountUnresolvedPlannedIn :: "experiment_record list \<Rightarrow> int" where
  "CountUnresolvedPlannedIn rs =
     int (length (filter (\<lambda>i. LatestExperimentStatusByID rs i = Some ExperimentPlanned) (remdups (map xr_id rs))))"

text \<open>What follows the last hyphen of an identifier.\<close>

definition after_last :: "char \<Rightarrow> string \<Rightarrow> string option" where
  "after_last d s = (let parts = split_at d s in if length parts < 2 then None else Some (List.last parts))"

definition id_timestamp :: "string \<Rightarrow> int option" where
  "id_timestamp ident =
     (case after_last (CHR ''-'') ident of
        None \<Rightarrow> None
      | Some t \<Rightarrow> if t = [] then None else (case parse_int t of None \<Rightarrow> None | Some v \<Rightarrow> if v \<le> 1000000000 then None else Some v))"

definition experimentIDSuffix :: "string \<Rightarrow> int" where
  "experimentIDSuffix ident = (case id_timestamp ident of None \<Rightarrow> 0 | Some v \<Rightarrow> v)"

definition SortExperimentRecordsOldestFirst :: "experiment_record list \<Rightarrow> experiment_record list" where
  "SortExperimentRecordsOldestFirst rs = sort_key (\<lambda>r. experimentIDSuffix (xr_id r)) rs"

section \<open>The stores\<close>

text \<open>
  Without a store, \<open>experiments.jsonl\<close> is read as it is: lines that do not decode are skipped, and a file that cannot be read is an
  empty stream.  The file store refuses the whole file for one such line or for a line that is too long for its scanner; both append to
  the same file.  The SQL stores (PostgreSQL and SQLite) keep one row for each identifier: a write of a known identifier
  replaces the record in its row, and the rows come newest first; the text of a row may not decode.

  A line that a write has left without its end is continued by the next append: \<open>CutLine\<close> stops inside the record, \<open>OpenLine\<close> lacks only
  the line break.  The lines of written records are taken to be shorter than the limit of the scanner.
\<close>

datatype ledger_line = LineOf experiment_record | LongLine experiment_record | BadLine | CutLine | OpenLine experiment_record

datatype exp_store =
    NoStore "ledger_line list option"
  | FileStore "ledger_line list option"
  | TableStore "(string \<times> experiment_record option) list"

definition ledger_lines :: "ledger_line list option \<Rightarrow> ledger_line list" where
  "ledger_lines file = (case file of None \<Rightarrow> [] | Some ls \<Rightarrow> ls)"

definition ExperimentsJSONL :: "ledger_line list option \<Rightarrow> experiment_record list" where
  "ExperimentsJSONL file =
     concat (map (\<lambda>l. case l of LineOf r \<Rightarrow> [r] | LongLine r \<Rightarrow> [r] | OpenLine r \<Rightarrow> [r] | BadLine \<Rightarrow> [] | CutLine \<Rightarrow> []) (ledger_lines file))"

definition scanned_line :: "ledger_line \<Rightarrow> experiment_record option" where
  "scanned_line l = (case l of LineOf r \<Rightarrow> Some r | OpenLine r \<Rightarrow> Some r | LongLine r \<Rightarrow> None | BadLine \<Rightarrow> None | CutLine \<Rightarrow> None)"

text \<open>Whether the read of the file or the query succeeds is an argument.\<close>

definition LoadExperiments :: "bool \<Rightarrow> exp_store \<Rightarrow> experiment_record list option" where
  "LoadExperiments readable st =
     (case st of
        NoStore file \<Rightarrow> Some (if readable then ExperimentsJSONL file else [])
      | FileStore file \<Rightarrow>
          if file = None then Some [] else if readable then those (map scanned_line (ledger_lines file)) else None
      | TableStore rows \<Rightarrow> if readable then those (map snd (rev rows)) else None)"

definition LoadExperimentRecords :: "bool \<Rightarrow> exp_store \<Rightarrow> experiment_record list option" where
  "LoadExperimentRecords readable st = map_option SortExperimentRecordsOldestFirst (LoadExperiments readable st)"

text \<open>
  A write is done, or refused, or stops in the middle (the database then keeps nothing), or it is complete and still reports an error:
  the line break is missing, or the answer of the database is lost.  A record with a number that JSON does not have is refused.
\<close>

datatype record_outcome = RecordDone | RecordRefused | RecordPartial | RecordUnended

fun json_number :: "f64 \<Rightarrow> bool" where
  "json_number (Fin _) = True"
| "json_number _ = False"

definition record_marshals :: "experiment_record \<Rightarrow> bool" where
  "record_marshals r \<longleftrightarrow> json_number (xr_baseline r) \<and> json_number (xr_candidate r) \<and> json_number (xr_baseline_ntd r) \<and> json_number (xr_candidate_ntd r)"

definition lacks_end :: "ledger_line \<Rightarrow> bool" where
  "lacks_end l = (case l of CutLine \<Rightarrow> True | OpenLine r \<Rightarrow> True | _ \<Rightarrow> False)"

definition append_line :: "ledger_line list \<Rightarrow> ledger_line \<Rightarrow> ledger_line list" where
  "append_line ls l =
     (if ls \<noteq> [] \<and> lacks_end (List.last ls) then butlast ls @ [if lacks_end l then CutLine else BadLine] else ls @ [l])"

definition record_in_file ::
  "record_outcome \<Rightarrow> experiment_record \<Rightarrow> ledger_line list option \<Rightarrow> bool \<times> ledger_line list option" where
  "record_in_file w r file =
     (let ls = ledger_lines file
      in case w of
           RecordDone \<Rightarrow> (True, Some (append_line ls (LineOf r)))
         | RecordRefused \<Rightarrow> (False, file)
         | RecordPartial \<Rightarrow> (False, Some (append_line ls CutLine))
         | RecordUnended \<Rightarrow> (False, Some (append_line ls (OpenLine r))))"

definition upsert_row ::
  "experiment_record \<Rightarrow> (string \<times> experiment_record option) list \<Rightarrow> (string \<times> experiment_record option) list" where
  "upsert_row r rows =
     (if xr_id r \<in> fst ` set rows then map (\<lambda>(i, x). if i = xr_id r then (i, Some r) else (i, x)) rows else rows @ [(xr_id r, Some r)])"

definition record_in_table ::
  "record_outcome \<Rightarrow> experiment_record \<Rightarrow> (string \<times> experiment_record option) list \<Rightarrow> bool \<times> (string \<times> experiment_record option) list" where
  "record_in_table w r rows =
     (case w of
        RecordDone \<Rightarrow> (True, upsert_row r rows)
      | RecordUnended \<Rightarrow> (False, upsert_row r rows)
      | _ \<Rightarrow> (False, rows))"

definition RecordExperiment :: "record_outcome \<Rightarrow> experiment_record \<Rightarrow> exp_store \<Rightarrow> bool \<times> exp_store" where
  "RecordExperiment w r st =
     (if \<not> record_marshals r then (False, st)
      else (case st of
              NoStore file \<Rightarrow> map_prod id NoStore (record_in_file w r file)
            | FileStore file \<Rightarrow> map_prod id FileStore (record_in_file w r file)
            | TableStore rows \<Rightarrow> map_prod id TableStore (record_in_table w r rows)))"

section \<open>Expiry\<close>

definition stalePlannedTTL :: duration where
  "stalePlannedTTL = 30 * 24 * hour"

definition experimentRecordIsOld :: "experiment_record \<Rightarrow> time \<Rightarrow> bool" where
  "experimentRecordIsOld r cutoff = (case id_timestamp (xr_id r) of None \<Rightarrow> True | Some v \<Rightarrow> v * second < cutoff)"

definition first_record :: "experiment_record list \<Rightarrow> string \<Rightarrow> experiment_record option" where
  "first_record rs i = find (\<lambda>r. xr_id r \<noteq> [] \<and> xr_id r = i) rs"

definition zero_record :: experiment_record where
  "zero_record = \<lparr>xr_id = [], xr_proposal = [], xr_commit = [], xr_approval = [], xr_target = [], xr_skill = [], xr_hypothesis = [],
     xr_version_from = [], xr_version_to = [], xr_mutation = [], xr_gates = [], xr_window_start = zero_time, xr_window_end = zero_time,
     xr_metric = [], xr_baseline = Fin 0, xr_candidate = Fin 0, xr_baseline_ntd = Fin 0, xr_candidate_ntd = Fin 0, xr_status = [],
     xr_revert_reason = []\<rparr>"

definition expired_record :: "string \<Rightarrow> experiment_record \<Rightarrow> experiment_record" where
  "expired_record reason r =
     zero_record\<lparr>xr_id := xr_id r, xr_target := xr_target r, xr_skill := xr_skill r, xr_mutation := xr_mutation r,
       xr_status := ExperimentExpired, xr_revert_reason := reason\<rparr>"

text \<open>The records to write, for an order of the range over the statuses.\<close>

definition to_expire :: "string \<Rightarrow> string \<Rightarrow> time \<Rightarrow> string list \<Rightarrow> experiment_record list \<Rightarrow> experiment_record list" where
  "to_expire status reason cutoff order rs =
     concat (map (\<lambda>i. if LatestExperimentStatusByID rs i = Some status then
                        (case first_record rs i of
                           None \<Rightarrow> []
                         | Some r \<Rightarrow> if experimentRecordIsOld r cutoff then [expired_record reason r] else [])
                      else []) order)"

text \<open>The writes stop at the first failure; the count is then lost.\<close>

fun write_records ::
  "(record_outcome \<Rightarrow> experiment_record \<Rightarrow> 's \<Rightarrow> bool \<times> 's) \<Rightarrow> record_outcome list \<Rightarrow> experiment_record list \<Rightarrow> 's \<Rightarrow> bool \<times> 's" where
  "write_records rec ws [] st = (True, st)"
| "write_records rec ws (r # rs) st =
     (case rec (case ws of [] \<Rightarrow> RecordDone | w # _ \<Rightarrow> w) r st of
        (False, st') \<Rightarrow> (False, st')
      | (True, st') \<Rightarrow> write_records rec (drop 1 ws) rs st')"

definition expire_records ::
  "string \<Rightarrow> string \<Rightarrow> time \<Rightarrow> string list \<Rightarrow> bool \<Rightarrow> record_outcome list \<Rightarrow> exp_store \<Rightarrow> int option \<times> exp_store" where
  "expire_records status reason cutoff order readable ws st =
     (case LoadExperimentRecords readable st of
        None \<Rightarrow> (None, st)
      | Some rs \<Rightarrow>
          (let xs = to_expire status reason cutoff order rs
           in if xs = [] then (Some 0, st)
              else (case write_records RecordExperiment ws xs st of
                      (True, st') \<Rightarrow> (Some (int (length xs)), st')
                    | (False, st') \<Rightarrow> (None, st'))))"

definition ExpireStalePlannedWithStore ::
  "time \<Rightarrow> duration \<Rightarrow> string list \<Rightarrow> bool \<Rightarrow> record_outcome list \<Rightarrow> exp_store \<Rightarrow> int option \<times> exp_store" where
  "ExpireStalePlannedWithStore now age order readable ws st = expire_records ExperimentPlanned [] (now - age) order readable ws st"

definition ExpireStaleRunningWithStore ::
  "time \<Rightarrow> duration \<Rightarrow> string list \<Rightarrow> bool \<Rightarrow> record_outcome list \<Rightarrow> exp_store \<Rightarrow> int option \<times> exp_store" where
  "ExpireStaleRunningWithStore now age order readable ws st =
     expire_records ExperimentRunning ''expired: stuck in running beyond TTL'' (now - age) order readable ws st"

section \<open>The oldest pending experiment\<close>

record pending_experiment =
  pe_id :: string
  pe_target :: string
  pe_skill :: string
  pe_mutation :: string
  pe_baseline :: f64

definition pending_of :: "experiment_record \<Rightarrow> pending_experiment" where
  "pending_of r = \<lparr>pe_id = xr_id r, pe_target = xr_target r, pe_skill = xr_skill r, pe_mutation = xr_mutation r, pe_baseline = xr_baseline r\<rparr>"

definition unresolved :: "experiment_record list \<Rightarrow> experiment_record \<Rightarrow> bool" where
  "unresolved rs r \<longleftrightarrow> xr_status r = ExperimentPlanned \<and> xr_target r \<noteq> [] \<and>
     (case LatestExperimentStatusByID rs (xr_id r) of None \<Rightarrow> False | Some s \<Rightarrow> s = ExperimentPlanned)"

text \<open>The outer option is the error of the read.\<close>

definition loadOldestPendingExperiment :: "bool \<Rightarrow> exp_store \<Rightarrow> pending_experiment option option" where
  "loadOldestPendingExperiment readable st =
     map_option (\<lambda>rs. map_option pending_of (find (unresolved rs) rs)) (LoadExperimentRecords readable st)"

record registry_agent =
  ra_id :: string
  ra_skill :: string
  ra_enabled :: bool

record experiment_candidate =
  ec_agent :: registry_agent
  ec_sharpe :: f64
  ec_windows :: int
  ec_experiment :: experiment_record

definition toCandidate :: "registry_agent list \<Rightarrow> pending_experiment \<Rightarrow> experiment_candidate option" where
  "toCandidate agents p =
     (case find (\<lambda>a. ra_id a = pe_target p \<and> ra_enabled a) agents of
        None \<Rightarrow> None
      | Some a \<Rightarrow> Some \<lparr>ec_agent = a, ec_sharpe = pe_baseline p, ec_windows = 1,
                        ec_experiment = zero_record\<lparr>xr_id := pe_id p, xr_target := ra_id a, xr_skill := ra_skill a, xr_mutation := pe_mutation p,
                          xr_status := ExperimentPlanned, xr_baseline := pe_baseline p, xr_metric := ''sharpe_like''\<rparr>\<rparr>)"

section \<open>Facts\<close>

lemma latest_snoc [simp]:
  "LatestExperimentStatusByID (rs @ [r]) =
     (if xr_id r = [] then LatestExperimentStatusByID rs else (LatestExperimentStatusByID rs)(xr_id r \<mapsto> xr_status r))"
  by (simp add: LatestExperimentStatusByID_def)

text \<open>The latest status of an identifier is that of the last record with this identifier.\<close>

lemma latest_filter:
  "LatestExperimentStatusByID rs i =
     (let xs = filter (\<lambda>r. xr_id r = i \<and> i \<noteq> []) rs in if xs = [] then None else Some (xr_status (List.last xs)))"
proof (induction rs rule: rev_induct)
  case Nil
  show ?case by (simp add: LatestExperimentStatusByID_def)
next
  case (snoc r rs)
  then show ?case by (simp add: Let_def)
qed

text \<open>Sorting is stable and equal identifiers have equal keys, so the fold sees the same last record.\<close>

lemma sorted_fold: "LatestExperimentStatusByID (SortExperimentRecordsOldestFirst rs) = LatestExperimentStatusByID rs"
proof
  fix i
  have "filter (\<lambda>r. xr_id r = i \<and> i \<noteq> []) (SortExperimentRecordsOldestFirst rs) =
      filter (\<lambda>r. xr_id r = i \<and> i \<noteq> []) (filter (\<lambda>r. experimentIDSuffix (xr_id r) = experimentIDSuffix i) (SortExperimentRecordsOldestFirst rs))"
    unfolding filter_filter by (rule filter_cong) auto
  also have "\<dots> = filter (\<lambda>r. xr_id r = i \<and> i \<noteq> []) (filter (\<lambda>r. experimentIDSuffix (xr_id r) = experimentIDSuffix i) rs)"
    by (simp add: SortExperimentRecordsOldestFirst_def sort_key_stable)
  also have "\<dots> = filter (\<lambda>r. xr_id r = i \<and> i \<noteq> []) rs" unfolding filter_filter by (rule filter_cong) auto
  finally show "LatestExperimentStatusByID (SortExperimentRecordsOldestFirst rs) i = LatestExperimentStatusByID rs i"
    by (simp add: latest_filter)
qed

text \<open>Whether a record is old depends on its identifier alone.\<close>

definition stale :: "time \<Rightarrow> string \<Rightarrow> bool" where
  "stale cutoff i = (case id_timestamp i of None \<Rightarrow> True | Some v \<Rightarrow> v * second < cutoff)"

lemma old_stale: "experimentRecordIsOld r cutoff = stale cutoff (xr_id r)"
  by (simp add: experimentRecordIsOld_def stale_def)

lemma first_record_known: "LatestExperimentStatusByID rs i = Some s \<Longrightarrow> \<exists>r. first_record rs i = Some r \<and> xr_id r = i \<and> i \<noteq> []"
proof -
  assume "LatestExperimentStatusByID rs i = Some s"
  then have "filter (\<lambda>r. xr_id r = i \<and> i \<noteq> []) rs \<noteq> []" by (auto simp: latest_filter Let_def split: if_splits)
  then have "\<exists>r \<in> set rs. xr_id r \<noteq> [] \<and> xr_id r = i" by (auto simp: filter_empty_conv)
  then have "first_record rs i \<noteq> None" unfolding first_record_def find_None_iff by auto
  then obtain r where "first_record rs i = Some r" by blast
  moreover from this have "xr_id r = i" "xr_id r \<noteq> []" unfolding first_record_def find_Some_iff by auto
  ultimately show ?thesis by auto
qed

text \<open>The identifiers whose records are written, and their status.\<close>

definition due :: "string \<Rightarrow> time \<Rightarrow> experiment_record list \<Rightarrow> string \<Rightarrow> bool" where
  "due status cutoff rs i \<longleftrightarrow> LatestExperimentStatusByID rs i = Some status \<and> stale cutoff i"

lemma to_expire_ids: "map xr_id (to_expire status reason cutoff order rs) = filter (due status cutoff rs) order"
proof (induction order)
  case (Cons i order)
  show ?case
  proof (cases "LatestExperimentStatusByID rs i = Some status")
    case True
    from first_record_known [OF True] obtain r where "first_record rs i = Some r" "xr_id r = i" by blast
    with True Cons show ?thesis by (simp add: to_expire_def due_def old_stale expired_record_def)
  next
    case False
    with Cons show ?thesis by (simp add: to_expire_def due_def)
  qed
qed (simp add: to_expire_def)

lemma to_expire_status: "r \<in> set (to_expire status reason cutoff order rs) \<Longrightarrow> xr_status r = ExperimentExpired"
  by (auto simp: to_expire_def expired_record_def split: if_splits option.splits)

lemma due_named: "due status cutoff rs i \<Longrightarrow> i \<noteq> []"
  unfolding due_def using first_record_known by blast

section \<open>What the stores promise\<close>

text \<open>
  The contract of a store, as the expiry needs it: a write that reports success makes the record the latest one of its identifier and
  leaves all other identifiers alone; a write that reports an error changes nothing that can be read later, or it has been done.
\<close>

locale experiment_store =
  fixes load :: "'s \<Rightarrow> experiment_record list option"
    and put :: "record_outcome \<Rightarrow> experiment_record \<Rightarrow> 's \<Rightarrow> bool \<times> 's"
    and proper :: "'s \<Rightarrow> bool"
  assumes write_done: "proper st \<Longrightarrow> load st = Some rs \<Longrightarrow> xr_id r \<noteq> [] \<Longrightarrow> record_marshals r \<Longrightarrow>
      \<exists>st' rs'. put RecordDone r st = (True, st') \<and> proper st' \<and> load st' = Some rs' \<and>
        LatestExperimentStatusByID rs' = (LatestExperimentStatusByID rs)(xr_id r \<mapsto> xr_status r)"
    and write_failed: "proper st \<Longrightarrow> load st = Some rs \<Longrightarrow> xr_id r \<noteq> [] \<Longrightarrow> record_marshals r \<Longrightarrow> w \<noteq> RecordDone \<Longrightarrow>
      \<exists>st'. put w r st = (False, st') \<and> (\<forall>rs'. load st' = Some rs' \<longrightarrow>
        LatestExperimentStatusByID rs' = LatestExperimentStatusByID rs \<or>
        LatestExperimentStatusByID rs' = (LatestExperimentStatusByID rs)(xr_id r \<mapsto> xr_status r))"
begin

lemma written_statuses:
  assumes "write_records put ws xs st = (ok, st')" "proper st" "load st = Some rs"
    "\<And>x. x \<in> set xs \<Longrightarrow> xr_id x \<noteq> [] \<and> record_marshals x \<and> xr_status x = s"
  shows "\<exists>ids \<subseteq> xr_id ` set xs. (ok \<longrightarrow> ids = xr_id ` set xs \<and> proper st' \<and> load st' \<noteq> None) \<and>
    (\<forall>rs'. load st' = Some rs' \<longrightarrow> (\<forall>i. LatestExperimentStatusByID rs' i = (if i \<in> ids then Some s else LatestExperimentStatusByID rs i)))"
  using assms
proof (induction xs arbitrary: ws st rs)
  case (Cons x xs)
  have x: "xr_id x \<noteq> []" "record_marshals x" "xr_status x = s" using Cons.prems(4) by auto
  define w where "w = (case ws of [] \<Rightarrow> RecordDone | w # _ \<Rightarrow> w)"
  show ?case
  proof (cases "w = RecordDone")
    case True
    from write_done [OF Cons.prems(2,3) x(1,2)] obtain st1 rs1 where s1: "put RecordDone x st = (True, st1)" "proper st1"
      "load st1 = Some rs1" "LatestExperimentStatusByID rs1 = (LatestExperimentStatusByID rs)(xr_id x \<mapsto> s)" using x(3) by blast
    have "write_records put (drop 1 ws) xs st1 = (ok, st')"
      using Cons.prems(1) True s1(1) unfolding w_def by simp
    from Cons.IH [OF this s1(2,3)] Cons.prems(4) obtain ids where ids: "ids \<subseteq> xr_id ` set xs"
      "ok \<longrightarrow> ids = xr_id ` set xs \<and> proper st' \<and> load st' \<noteq> None"
      "\<forall>rs'. load st' = Some rs' \<longrightarrow> (\<forall>i. LatestExperimentStatusByID rs' i = (if i \<in> ids then Some s else LatestExperimentStatusByID rs1 i))"
      by auto
    then show ?thesis by (intro exI [of _ "insert (xr_id x) ids"]) (auto simp: s1(4))
  next
    case False
    from write_failed [OF Cons.prems(2,3) x(1,2) False] obtain st1 where s1: "put w x st = (False, st1)"
      "\<forall>rs'. load st1 = Some rs' \<longrightarrow> LatestExperimentStatusByID rs' = LatestExperimentStatusByID rs \<or>
        LatestExperimentStatusByID rs' = (LatestExperimentStatusByID rs)(xr_id x \<mapsto> s)" using x(3) by blast
    have r: "ok = False" "st' = st1" using Cons.prems(1) s1(1) unfolding w_def by simp_all
    show ?thesis
    proof (cases "\<exists>rs'. load st1 = Some rs' \<and> LatestExperimentStatusByID rs' = (LatestExperimentStatusByID rs)(xr_id x \<mapsto> s)")
      case True
      then show ?thesis using r by (intro exI [of _ "{xr_id x}"]) auto
    next
      case no: False
      then show ?thesis using r s1(2) by (intro exI [of _ "{}"]) auto
    qed
  qed
qed auto

lemma all_written:
  assumes "proper st" "load st = Some rs" "\<And>x. x \<in> set xs \<Longrightarrow> xr_id x \<noteq> [] \<and> record_marshals x"
  shows "fst (write_records put [] xs st)"
  using assms
proof (induction xs arbitrary: st rs)
  case (Cons x xs)
  then have "xr_id x \<noteq> []" "record_marshals x" by auto
  from write_done [OF Cons.prems(1,2) this] obtain st1 rs1 where "put RecordDone x st = (True, st1)" "proper st1" "load st1 = Some rs1" by blast
  with Cons.IH [of st1 rs1] Cons.prems(3) show ?case by simp
qed simp

end

text \<open>The file must not end with a line that lacks its end; a table has one row for each identifier, with a record of this identifier.\<close>

definition ended :: "ledger_line list option \<Rightarrow> bool" where
  "ended file \<longleftrightarrow> ledger_lines file = [] \<or> \<not> lacks_end (List.last (ledger_lines file))"

definition proper_store :: "exp_store \<Rightarrow> bool" where
  "proper_store st =
     (case st of
        NoStore file \<Rightarrow> ended file
      | FileStore file \<Rightarrow> ended file
      | TableStore rows \<Rightarrow> distinct (map fst rows) \<and> (\<forall>(i, x) \<in> set rows. \<forall>r. x = Some r \<longrightarrow> xr_id r = i))"

lemma those_append: "those (xs @ ys) = (case those xs of None \<Rightarrow> None | Some a \<Rightarrow> map_option (\<lambda>b. a @ b) (those ys))"
proof (cases "those ys")
  case None
  then show ?thesis by (induction xs) (auto split: option.splits)
next
  case (Some b)
  then show ?thesis by (induction xs) (auto split: option.splits)
qed

lemma those_some: "those xs = Some ys \<longleftrightarrow> xs = map Some ys"
  by (induction xs arbitrary: ys) (auto split: option.splits)

lemma loaded_sorted:
  "LoadExperimentRecords True st = Some rs \<Longrightarrow>
     \<exists>rs0. LoadExperiments True st = Some rs0 \<and> LatestExperimentStatusByID rs = LatestExperimentStatusByID rs0"
  by (auto simp: LoadExperimentRecords_def sorted_fold)

text \<open>Appends to a file.\<close>

lemma append_ended: "ended file \<Longrightarrow> append_line (ledger_lines file) l = ledger_lines file @ [l]"
  by (auto simp: append_line_def ended_def)

lemma jsonl_append: "ExperimentsJSONL (Some (ls @ [l])) = ExperimentsJSONL (Some ls) @ ExperimentsJSONL (Some [l])"
  by (simp add: ExperimentsJSONL_def ledger_lines_def)

lemma jsonl_lines: "ExperimentsJSONL (Some (ledger_lines file)) = ExperimentsJSONL file"
  by (simp add: ExperimentsJSONL_def ledger_lines_def split: option.split)

lemma file_appended:
  assumes "ended file" "kind \<in> {NoStore, FileStore}" "LoadExperiments True (kind file) = Some rs0"
  shows "LoadExperiments True (kind (Some (append_line (ledger_lines file) (LineOf r)))) = Some (rs0 @ [r])"
    "LoadExperiments True (kind (Some (append_line (ledger_lines file) (OpenLine r)))) = Some (rs0 @ [r])"
    "LoadExperiments True (kind (Some (append_line (ledger_lines file) CutLine))) = Some rs1 \<Longrightarrow> rs1 = rs0"
  using assms unfolding append_ended [OF assms(1)]
  by (auto simp: LoadExperiments_def jsonl_append jsonl_lines those_append scanned_line_def ExperimentsJSONL_def ledger_lines_def
      split: option.splits if_splits)

text \<open>One row for each identifier.\<close>

lemma latest_distinct:
  "distinct (map xr_id rs) \<Longrightarrow> LatestExperimentStatusByID rs i = Some s \<longleftrightarrow> i \<noteq> [] \<and> (\<exists>r \<in> set rs. xr_id r = i \<and> xr_status r = s)"
proof (induction rs rule: rev_induct)
  case Nil
  show ?case by (simp add: LatestExperimentStatusByID_def)
next
  case (snoc r rs)
  then have "distinct (map xr_id rs)" "xr_id r \<notin> xr_id ` set rs" by simp_all
  with snoc.IH show ?case by (auto simp: image_iff)
qed

lemma table_loaded:
  assumes "proper_store (TableStore rows)" "LoadExperiments True (TableStore rows) = Some rs0"
  shows "rows = map (\<lambda>r. (xr_id r, Some r)) (rev rs0)" "distinct (map xr_id rs0)"
proof -
  from assms(2) have "map snd (rev rows) = map Some rs0" by (simp add: LoadExperiments_def those_some)
  then have rs: "map snd rows = map Some (rev rs0)" by (metis rev_map rev_rev_ident)
  have "map fst rows = map xr_id (rev rs0)"
  proof (rule nth_equalityI)
    show len: "length (map fst rows) = length (map xr_id (rev rs0))" using arg_cong [OF rs, of length] by simp
    fix k assume k: "k < length (map fst rows)"
    then have "snd (rows ! k) = Some (rev rs0 ! k)" using arg_cong [OF rs, of "\<lambda>xs. xs ! k"] len by simp
    moreover have "rows ! k \<in> set rows" using k by simp
    ultimately show "map fst rows ! k = map xr_id (rev rs0) ! k"
      using assms(1) k len by (cases "rows ! k") (auto simp: proper_store_def)
  qed
  moreover have "rows = zip (map fst rows) (map snd rows)" by (simp add: zip_map_fst_snd)
  ultimately show "rows = map (\<lambda>r. (xr_id r, Some r)) (rev rs0)" unfolding rs by (simp add: zip_map_map zip_same_conv_map)
  show "distinct (map xr_id rs0)" using assms(1) \<open>map fst rows = map xr_id (rev rs0)\<close>
    by (simp add: proper_store_def rev_map [symmetric])
qed

lemma table_upserted:
  assumes "proper_store (TableStore rows)" "LoadExperiments True (TableStore rows) = Some rs0" "xr_id r \<noteq> []"
  shows "\<exists>rs1. LoadExperiments True (TableStore (upsert_row r rows)) = Some rs1 \<and> proper_store (TableStore (upsert_row r rows)) \<and>
    LatestExperimentStatusByID rs1 = (LatestExperimentStatusByID rs0)(xr_id r \<mapsto> xr_status r)"
proof -
  note t = table_loaded [OF assms(1,2)]
  define rs1 where "rs1 = (if xr_id r \<in> xr_id ` set rs0 then map (\<lambda>x. if xr_id x = xr_id r then r else x) rs0 else r # rs0)"
  have ids: "map xr_id rs1 = (if xr_id r \<in> xr_id ` set rs0 then map xr_id rs0 else xr_id r # map xr_id rs0)"
    by (auto simp: rs1_def)
  have mem: "x \<in> set rs1 \<longleftrightarrow> x = r \<or> x \<in> set rs0 \<and> xr_id x \<noteq> xr_id r" for x
  proof (cases "xr_id r \<in> xr_id ` set rs0")
    case True
    then show ?thesis by (auto simp: rs1_def)
  next
    case False
    then have "xr_id y \<noteq> xr_id r" if "y \<in> set rs0" for y using that by (metis image_eqI)
    with False show ?thesis by (auto simp: rs1_def)
  qed
  have d: "distinct (map xr_id rs1)" using t(2) unfolding ids by auto
  have rows: "upsert_row r rows = map (\<lambda>x. (xr_id x, Some x)) (rev rs1)"
    by (auto simp: upsert_row_def rs1_def t(1) image_iff rev_map)
  have "LoadExperiments True (TableStore (upsert_row r rows)) = Some rs1"
    by (simp add: LoadExperiments_def rows those_some rev_map [symmetric] comp_def)
  moreover have "proper_store (TableStore (upsert_row r rows))"
    using d by (auto simp: proper_store_def rows comp_def rev_map [symmetric])
  moreover have "LatestExperimentStatusByID rs1 i = ((LatestExperimentStatusByID rs0)(xr_id r \<mapsto> xr_status r)) i" for i
  proof -
    have "LatestExperimentStatusByID rs1 i = Some s \<longleftrightarrow> ((LatestExperimentStatusByID rs0)(xr_id r \<mapsto> xr_status r)) i = Some s" for s
      unfolding latest_distinct [OF d] using assms(3) latest_distinct [OF t(2), of i s] by (auto simp: mem)
    then show ?thesis by (metis option.exhaust)
  qed
  ultimately show ?thesis by blast
qed

lemma ended_line: "ended (Some (ls @ [LineOf r]))"
  by (simp add: ended_def ledger_lines_def lacks_end_def)

lemma file_recorded:
  assumes "ended file" "kind \<in> {NoStore, FileStore}" "LoadExperimentRecords True (kind file) = Some rs" "xr_id r \<noteq> []"
  shows "\<exists>file'. record_in_file RecordDone r file = (True, file') \<and> ended file' \<and> (\<exists>rs'. LoadExperimentRecords True (kind file') = Some rs' \<and>
      LatestExperimentStatusByID rs' = (LatestExperimentStatusByID rs)(xr_id r \<mapsto> xr_status r))"
    "w \<noteq> RecordDone \<Longrightarrow> \<exists>file'. record_in_file w r file = (False, file') \<and> (\<forall>rs'. LoadExperimentRecords True (kind file') = Some rs' \<longrightarrow>
      LatestExperimentStatusByID rs' = LatestExperimentStatusByID rs \<or>
      LatestExperimentStatusByID rs' = (LatestExperimentStatusByID rs)(xr_id r \<mapsto> xr_status r))"
proof -
  from loaded_sorted [OF assms(3)] obtain rs0 where rs0: "LoadExperiments True (kind file) = Some rs0"
    "LatestExperimentStatusByID rs = LatestExperimentStatusByID rs0" by blast
  note f = file_appended [OF assms(1,2) rs0(1)]
  show "\<exists>file'. record_in_file RecordDone r file = (True, file') \<and> ended file' \<and> (\<exists>rs'. LoadExperimentRecords True (kind file') = Some rs' \<and>
      LatestExperimentStatusByID rs' = (LatestExperimentStatusByID rs)(xr_id r \<mapsto> xr_status r))"
    using assms(4) f(1) [of r] by (simp add: record_in_file_def Let_def LoadExperimentRecords_def sorted_fold rs0(2) append_ended [OF assms(1)] ended_line)
  assume "w \<noteq> RecordDone"
  then show "\<exists>file'. record_in_file w r file = (False, file') \<and> (\<forall>rs'. LoadExperimentRecords True (kind file') = Some rs' \<longrightarrow>
      LatestExperimentStatusByID rs' = LatestExperimentStatusByID rs \<or>
      LatestExperimentStatusByID rs' = (LatestExperimentStatusByID rs)(xr_id r \<mapsto> xr_status r))"
    using rs0(1) f(2) [of r] f(3)
    by (cases w) (auto simp: record_in_file_def Let_def LoadExperimentRecords_def sorted_fold rs0(2) latest_snoc assms(4))
qed

interpretation ledger: experiment_store "LoadExperimentRecords True" RecordExperiment proper_store
proof
  fix st rs r
  assume a: "proper_store st" "LoadExperimentRecords True st = Some rs" "xr_id r \<noteq> []" "record_marshals r"
  show "\<exists>st' rs'. RecordExperiment RecordDone r st = (True, st') \<and> proper_store st' \<and> LoadExperimentRecords True st' = Some rs' \<and>
      LatestExperimentStatusByID rs' = (LatestExperimentStatusByID rs)(xr_id r \<mapsto> xr_status r)"
  proof (cases st)
    case (TableStore rows)
    from loaded_sorted [OF a(2)] obtain rs0 where "LoadExperiments True st = Some rs0"
      "LatestExperimentStatusByID rs = LatestExperimentStatusByID rs0" by blast
    with table_upserted [of rows rs0 r] a TableStore show ?thesis
      by (fastforce simp: RecordExperiment_def record_in_table_def LoadExperimentRecords_def sorted_fold)
  qed (use file_recorded(1) [of _ NoStore rs r] file_recorded(1) [of _ FileStore rs r] a in
      \<open>fastforce simp: RecordExperiment_def proper_store_def\<close>)+
next
  fix st rs r and w :: record_outcome
  assume a: "proper_store st" "LoadExperimentRecords True st = Some rs" "xr_id r \<noteq> []" "record_marshals r" "w \<noteq> RecordDone"
  show "\<exists>st'. RecordExperiment w r st = (False, st') \<and> (\<forall>rs'. LoadExperimentRecords True st' = Some rs' \<longrightarrow>
      LatestExperimentStatusByID rs' = LatestExperimentStatusByID rs \<or>
      LatestExperimentStatusByID rs' = (LatestExperimentStatusByID rs)(xr_id r \<mapsto> xr_status r))"
  proof (cases st)
    case (TableStore rows)
    from loaded_sorted [OF a(2)] obtain rs0 where "LoadExperiments True st = Some rs0"
      "LatestExperimentStatusByID rs = LatestExperimentStatusByID rs0" by blast
    with table_upserted [of rows rs0 r] a TableStore show ?thesis
      by (cases w) (fastforce simp: RecordExperiment_def record_in_table_def LoadExperimentRecords_def sorted_fold)+
  qed (use file_recorded(2) [of _ NoStore rs r w] file_recorded(2) [of _ FileStore rs r w] a in
      \<open>fastforce simp: RecordExperiment_def proper_store_def\<close>)+
qed

lemma expired_marshals: "r \<in> set (to_expire status reason cutoff order rs) \<Longrightarrow> record_marshals r"
  by (auto simp: to_expire_def expired_record_def record_marshals_def zero_record_def split: if_splits option.splits)

lemma to_expire_written:
  "r \<in> set (to_expire status reason cutoff order rs) \<Longrightarrow> xr_id r \<noteq> [] \<and> record_marshals r \<and> xr_status r = ExperimentExpired"
proof -
  assume r: "r \<in> set (to_expire status reason cutoff order rs)"
  then have "xr_id r \<in> set (map xr_id (to_expire status reason cutoff order rs))" by simp
  then have "due status cutoff rs (xr_id r)" unfolding to_expire_ids by simp
  then show ?thesis using due_named to_expire_status [OF r] expired_marshals [OF r] by blast
qed

lemma unreadable_empty: "LoadExperimentRecords False st = Some rs \<Longrightarrow> rs = []"
  by (auto simp: LoadExperimentRecords_def LoadExperiments_def SortExperimentRecordsOldestFirst_def split: exp_store.splits if_splits)

lemma none_to_expire: "to_expire status reason cutoff order [] = []"
  by (simp add: to_expire_def LatestExperimentStatusByID_def)

lemma expired_statuses:
  assumes "expire_records status reason cutoff order readable ws st = (res, st')" "proper_store st" "LoadExperimentRecords True st = Some rs"
  shows "\<exists>ids \<subseteq> {i. due status cutoff rs i}.
    (\<forall>rs'. LoadExperimentRecords True st' = Some rs' \<longrightarrow> (\<forall>i. LatestExperimentStatusByID rs' i =
       (if i \<in> ids then Some ExperimentExpired else LatestExperimentStatusByID rs i))) \<and>
    (readable \<and> res \<noteq> None \<longrightarrow> ids = {i \<in> set order. due status cutoff rs i} \<and> LoadExperimentRecords True st' \<noteq> None)"
proof (cases readable)
  case False
  then have "st' = st" using assms(1) unreadable_empty [of st]
    by (auto simp: expire_records_def none_to_expire split: option.splits)
  with False assms(3) show ?thesis by (intro exI [of _ "{}"]) auto
next
  case True
  define xs where "xs = to_expire status reason cutoff order rs"
  have idset: "xr_id ` set xs = {i \<in> set order. due status cutoff rs i}"
    using arg_cong [OF to_expire_ids [of status reason cutoff order rs], of set] by (auto simp: xs_def)
  show ?thesis
  proof (cases "xs = []")
    case none: True
    then have "st' = st" using assms True by (simp add: expire_records_def xs_def)
    with none idset assms(3) show ?thesis by (intro exI [of _ "{}"]) auto
  next
    case False
    obtain ok st1 where w: "write_records RecordExperiment ws xs st = (ok, st1)" by (cases "write_records RecordExperiment ws xs st")
    have r: "st' = st1" "res \<noteq> None \<longrightarrow> ok" using assms True False w
      by (auto simp: expire_records_def Let_def xs_def [symmetric] split: bool.splits)
    have "xr_id x \<noteq> [] \<and> record_marshals x \<and> xr_status x = ExperimentExpired" if "x \<in> set xs" for x
      using to_expire_written that unfolding xs_def .
    from ledger.written_statuses [OF w assms(2,3) this] obtain ids where "ids \<subseteq> xr_id ` set xs"
      "ok \<longrightarrow> ids = xr_id ` set xs \<and> proper_store st1 \<and> LoadExperimentRecords True st1 \<noteq> None"
      "\<forall>rs'. LoadExperimentRecords True st1 = Some rs' \<longrightarrow>
        (\<forall>i. LatestExperimentStatusByID rs' i = (if i \<in> ids then Some ExperimentExpired else LatestExperimentStatusByID rs i))" by blast
    with r idset show ?thesis by (intro exI [of _ ids]) auto
  qed
qed

text \<open>C11 (functional). The expiry of planned records, without a store, on the file store and on the SQL stores, for a store whose
  contents decode, a file that does not end in the middle of a line and a table whose rows hold records of their own identifiers. Whatever the order of the range over the
  statuses and whatever reads and writes fail, are cut short or are done but reported as failed, a later read that succeeds finds each
  identifier with its latest status as before, or it was planned with an old or missing time stamp and is now expired. When the records
  could be read and no error is returned, none of them is planned and old any more, and a second expiry with the same cutoff returns
  zero and writes nothing.\<close>
theorem expiry_settles:
  assumes "ExpireStalePlannedWithStore now age order readable ws st = (res, st')" "proper_store st" "LoadExperimentRecords True st = Some rs"
    "set order = dom (LatestExperimentStatusByID rs)"
  shows "(\<forall>rs'. LoadExperimentRecords True st' = Some rs' \<longrightarrow>
      (\<forall>i. LatestExperimentStatusByID rs' i = LatestExperimentStatusByID rs i \<or>
         due ExperimentPlanned (now - age) rs i \<and> LatestExperimentStatusByID rs' i = Some ExperimentExpired)) \<and>
    (readable \<and> res \<noteq> None \<longrightarrow>
      (\<exists>rs'. LoadExperimentRecords True st' = Some rs' \<and> (\<forall>i. \<not> due ExperimentPlanned (now - age) rs' i)) \<and>
      ExpireStalePlannedWithStore now age order' True ws' st' = (Some 0, st'))"
proof -
  from expired_statuses [OF assms(1) [unfolded ExpireStalePlannedWithStore_def] assms(2,3)] obtain ids where
    sub: "ids \<subseteq> {i. due ExperimentPlanned (now - age) rs i}"
    and latest: "\<forall>rs'. LoadExperimentRecords True st' = Some rs' \<longrightarrow> (\<forall>i. LatestExperimentStatusByID rs' i =
      (if i \<in> ids then Some ExperimentExpired else LatestExperimentStatusByID rs i))"
    and all: "readable \<and> res \<noteq> None \<longrightarrow> ids = {i \<in> set order. due ExperimentPlanned (now - age) rs i} \<and> LoadExperimentRecords True st' \<noteq> None"
    by (elim exE conjE)
  have "(\<exists>rs'. LoadExperimentRecords True st' = Some rs' \<and> (\<forall>i. \<not> due ExperimentPlanned (now - age) rs' i)) \<and>
      ExpireStalePlannedWithStore now age order' True ws' st' = (Some 0, st')" if ok: "readable \<and> res \<noteq> None"
  proof -
    from mp [OF all ok] obtain rs' where rs': "LoadExperimentRecords True st' = Some rs'" by blast
    have none: "\<not> due ExperimentPlanned (now - age) rs' i" for i
      using spec [OF mp [OF spec [OF latest] rs'], of i] mp [OF all ok] assms(4) by (auto simp: due_def status_defs split: if_splits)
    then have "map xr_id (to_expire ExperimentPlanned [] (now - age) order' rs') = []"
      unfolding to_expire_ids filter_empty_conv by blast
    with none rs' show ?thesis by (auto simp: ExpireStalePlannedWithStore_def expire_records_def)
  qed
  with latest sub show ?thesis by (auto split: if_splits)
qed

lemma expiry_count:
  assumes "proper_store st" "LoadExperimentRecords True st = Some rs"
  shows "fst (expire_records status reason cutoff order True [] st) = Some (int (length (filter (due status cutoff rs) order)))"
proof -
  have "length (to_expire status reason cutoff order rs) = length (filter (due status cutoff rs) order)"
    using arg_cong [OF to_expire_ids [of status reason cutoff order rs], of length] by simp
  moreover have "fst (write_records RecordExperiment [] (to_expire status reason cutoff order rs) st)"
    by (rule ledger.all_written [OF assms]) (use to_expire_written in blast)
  ultimately show ?thesis by (auto simp: expire_records_def Let_def assms(2) split: prod.split bool.split)
qed

definition demo_records :: "experiment_record list" where
  "demo_records = [zero_record\<lparr>xr_id := ''exp-1700000000'', xr_target := ''agent'', xr_status := ''planned''\<rparr>,
     zero_record\<lparr>xr_id := ''exp-1799999999'', xr_target := ''agent'', xr_status := ''planned''\<rparr>]"

definition demo_store :: exp_store where
  "demo_store = TableStore (map (\<lambda>r. (xr_id r, Some r)) demo_records)"

definition demo_ids :: "string list" where
  "demo_ids = [''exp-1700000000'', ''exp-1799999999'']"

lemma demo_loaded: "proper_store demo_store" "LoadExperimentRecords True demo_store = Some (SortExperimentRecordsOldestFirst (rev demo_records))"
  by (simp_all add: demo_store_def demo_records_def proper_store_def zero_record_def LoadExperimentRecords_def LoadExperiments_def)

lemma expiry_settles_witness:
  "(case ExpireStalePlannedWithStore (1800000000 * second) stalePlannedTTL demo_ids True [] demo_store of (res, st') \<Rightarrow>
     res = Some 1 \<and> (\<exists>rs'. LoadExperimentRecords True st' = Some rs' \<and>
       LatestExperimentStatusByID rs' ''exp-1799999999'' = Some ExperimentPlanned) \<and>
     ExpireStalePlannedWithStore (1800000000 * second) stalePlannedTTL demo_ids True [] st' = (Some 0, st'))"
proof -
  let ?rs = "SortExperimentRecordsOldestFirst (rev demo_records)"
  obtain res st' where ev: "ExpireStalePlannedWithStore (1800000000 * second) stalePlannedTTL demo_ids True [] demo_store = (res, st')"
    by (cases "ExpireStalePlannedWithStore (1800000000 * second) stalePlannedTTL demo_ids True [] demo_store")
  have latest: "LatestExperimentStatusByID ?rs ''exp-1700000000'' = Some ExperimentPlanned"
    "LatestExperimentStatusByID ?rs ''exp-1799999999'' = Some ExperimentPlanned"
    unfolding sorted_fold by (simp_all add: LatestExperimentStatusByID_def demo_records_def zero_record_def ExperimentPlanned_def)
  have "stale (1800000000 * second - stalePlannedTTL) ''exp-1700000000''" "\<not> stale (1800000000 * second - stalePlannedTTL) ''exp-1799999999''"
    by (simp_all add: stale_def stalePlannedTTL_def id_timestamp_def after_last_def parse_int_def number_of_def digit_of_def is_digit_def
        i64_max_def i64_min_def)
  with latest have later: "due ExperimentPlanned (1800000000 * second - stalePlannedTTL) ?rs ''exp-1700000000''"
    "\<not> due ExperimentPlanned (1800000000 * second - stalePlannedTTL) ?rs ''exp-1799999999''" by (simp_all add: due_def)
  then have one: "res = Some 1"
    using expiry_count [OF demo_loaded, of ExperimentPlanned "[]" "1800000000 * second - stalePlannedTTL" demo_ids] ev
    by (simp add: ExpireStalePlannedWithStore_def demo_ids_def)
  have "set demo_ids = dom (LatestExperimentStatusByID ?rs)"
    unfolding sorted_fold by (auto simp: demo_ids_def demo_records_def LatestExperimentStatusByID_def zero_record_def)
  from expiry_settles [OF ev demo_loaded this, of demo_ids "[]"] one
  obtain rs' where rs': "LoadExperimentRecords True st' = Some rs'"
    and again: "ExpireStalePlannedWithStore (1800000000 * second) stalePlannedTTL demo_ids True [] st' = (Some 0, st')"
    and kept: "\<forall>i. LatestExperimentStatusByID rs' i = LatestExperimentStatusByID ?rs i \<or>
      due ExperimentPlanned (1800000000 * second - stalePlannedTTL) ?rs i \<and> LatestExperimentStatusByID rs' i = Some ExperimentExpired"
    by blast
  from kept [rule_format, of "''exp-1799999999''"] later(2) latest(2)
  have "LatestExperimentStatusByID rs' ''exp-1799999999'' = Some ExperimentPlanned" by simp
  with rs' again one show ?thesis unfolding ev prod.case by blast
qed

text \<open>A line that is cut short disables the file store, and swallows the next record also where the file is read directly, although that
  write is done.\<close>

lemma cut_disables_file_store: "LoadExperiments True (FileStore (Some (ls @ [CutLine]))) = None"
  by (simp add: LoadExperiments_def ledger_lines_def those_append scanned_line_def split: option.split)

lemma lost_after_cut:
  "record_in_file RecordDone r (Some (ls @ [CutLine])) = (True, file') \<Longrightarrow> ExperimentsJSONL file' = ExperimentsJSONL (Some ls)"
  by (auto simp: record_in_file_def ledger_lines_def append_line_def lacks_end_def ExperimentsJSONL_def)

text \<open>In a table the expiry is no append: the record of the row is gone.\<close>

lemma table_row_replaced:
  assumes "proper_store (TableStore rows)" "record_marshals r'" "RecordExperiment RecordDone r' (TableStore rows) = (ok, TableStore rows')"
  shows "map_of rows' (xr_id r') = Some (Some r')"
proof -
  have "map_of (map (\<lambda>(i, x). if i = k then (i, v) else (i, x)) rs) k = Some v" if "k \<in> fst ` set rs" for k v and rs :: "(string \<times> experiment_record option) list"
    using that by (induction rs) auto
  moreover have "map_of (rows @ [(xr_id r', Some r')]) (xr_id r') = Some (Some r')" if "xr_id r' \<notin> fst ` set rows"
    using that map_of_eq_None_iff [of rows "xr_id r'"] by (simp add: map_add_def)
  ultimately show ?thesis using assms map_of_eq_None_iff [of rows "xr_id r'"]
    by (auto simp: RecordExperiment_def record_in_table_def upsert_row_def map_add_def split: if_splits option.splits)
qed

text \<open>The candidate of a drain is planned, and no unresolved record has an older time stamp.\<close>

lemma find_sorted:
  assumes "sorted (map f xs)" "find P xs = Some x"
  shows "x \<in> set xs \<and> P x \<and> (\<forall>y \<in> set xs. P y \<longrightarrow> f x \<le> f y)"
  using assms by (induction xs) (auto split: if_splits)

lemma oldest_pending:
  assumes "loadOldestPendingExperiment readable st = Some (Some p)" "LoadExperimentRecords readable st = Some rs"
  shows "LatestExperimentStatusByID rs (pe_id p) = Some ExperimentPlanned"
    "\<And>r. r \<in> set rs \<Longrightarrow> unresolved rs r \<Longrightarrow> experimentIDSuffix (pe_id p) \<le> experimentIDSuffix (xr_id r)"
proof -
  from assms obtain x where x: "find (unresolved rs) rs = Some x" "p = pending_of x"
    by (auto simp: loadOldestPendingExperiment_def)
  have "sorted (map (\<lambda>r. experimentIDSuffix (xr_id r)) rs)"
    using assms(2) by (auto simp: LoadExperimentRecords_def SortExperimentRecordsOldestFirst_def)
  from find_sorted [OF this x(1)] have f: "unresolved rs x"
    "\<And>r. r \<in> set rs \<Longrightarrow> unresolved rs r \<Longrightarrow> experimentIDSuffix (xr_id x) \<le> experimentIDSuffix (xr_id r)" by simp_all
  then show "LatestExperimentStatusByID rs (pe_id p) = Some ExperimentPlanned"
    "\<And>r. r \<in> set rs \<Longrightarrow> unresolved rs r \<Longrightarrow> experimentIDSuffix (pe_id p) \<le> experimentIDSuffix (xr_id r)"
    by (auto simp: x(2) pending_of_def unresolved_def split: option.splits)
qed

end
