(* ===== verification/Exp_Stats.thy ===== *)
theory Exp_Stats
  imports Float64
begin

text \<open>
  The statistics that judge an experiment: \<open>internal/eval/metrics.go\<close>, the helpers of \<open>internal/experiment/judge.go\<close> and of
  \<open>internal/acceptance/builtin/builtin.go\<close>, \<open>sharpe_stability.go\<close> and the deflated Sharpe ratio of \<open>dsr.go\<close>.
  Sums run from left to right in double precision.  \<open>math.Log\<close>, \<open>math.Erfc\<close> and \<open>math.Pow\<close> are not correctly rounded; they
  are the functions of the record \<open>math_lib\<close>.
\<close>

section \<open>Moments\<close>

definition fsum :: "f64 list \<Rightarrow> f64" where
  "fsum xs = fold (\<lambda>v s. fadd s v) xs (Fin 0)"

definition flen :: "'a list \<Rightarrow> f64" where
  "flen xs = f64_of_int (int (length xs))"

definition meanAndVariance :: "f64 list \<Rightarrow> f64 \<times> f64" where
  "meanAndVariance xs =
     (if xs = [] then (Fin 0, Fin 0)
      else
        (let mean = fdiv (fsum xs) (flen xs)
         in if length xs < 2 then (mean, Fin 0)
            else (mean, fdiv (fsum (map (\<lambda>v. let d = fsub v mean in fmul d d) xs)) (f64_of_int (int (length xs) - 1)))))"

text \<open>Welch's t statistic and its degrees of freedom; \<open>(0, 0)\<close> below 63 returns on either side.\<close>

definition welchTTest :: "f64 list \<Rightarrow> f64 list \<Rightarrow> f64 \<times> f64" where
  "welchTTest base cand =
     (if length base < 63 \<or> length cand < 63 then (Fin 0, Fin 0)
      else
        (let (mean1, var1) = meanAndVariance base; (mean2, var2) = meanAndVariance cand;
             n1 = flen base; n2 = flen cand; se1 = fdiv var1 n1; se2 = fdiv var2 n2; se = fadd se1 se2; diff = fsqrt se
         in if feq diff (Fin 0) then (Fin 0, Fin 0)
            else (fdiv (fsub mean2 mean1) diff,
                  fdiv (fmul se se)
                    (fadd (fdiv (fmul se1 se1) (fsub n1 (Fin 1))) (fdiv (fmul se2 se2) (fsub n2 (Fin 1)))))))"

definition calculateVolatility :: "f64 list \<Rightarrow> f64" where
  "calculateVolatility xs = (if length xs < 30 then Fin 0 else fsqrt (snd (meanAndVariance xs)))"

definition positiveReturnRatio :: "f64 list \<Rightarrow> f64" where
  "positiveReturnRatio xs = (if xs = [] then Fin 0 else fdiv (flen (filter (flt (Fin 0)) xs)) (flen xs))"

definition negativeReturnRatio :: "f64 list \<Rightarrow> f64" where
  "negativeReturnRatio xs = (if xs = [] then Fin 0 else fdiv (flen (filter (\<lambda>r. flt r (Fin 0)) xs)) (flen xs))"

text \<open>The Sharpe ratio of package \<open>builtin\<close>.\<close>

definition computeSharpeRatio :: "f64 list \<Rightarrow> f64" where
  "computeSharpeRatio xs =
     (if length xs < 2 then Fin 0
      else (let (mean, var) = meanAndVariance xs
            in if feq var (Fin 0) then Fin 0 else fmul (fdiv mean (fsqrt var)) (fsqrt (Fin 252))))"

text \<open>Whether a series is stably estimated; \<open>None\<close> is the error of fewer than 30 values.\<close>

definition SharpeStabilityCheck :: "f64 list \<Rightarrow> f64 \<Rightarrow> bool option" where
  "SharpeStabilityCheck xs threshold =
     (if length xs < 30 then None
      else
        (let mean = fdiv (fsum xs) (flen xs);
             dev = fsqrt (fdiv (fsum (map (\<lambda>v. let d = fsub v mean in fmul d d) xs)) (f64_of_int (int (length xs) - 1)));
             err = fdiv dev (fsqrt (flen xs))
         in Some (\<not> fle threshold err \<and> \<not> (flt (Fin 0) dev \<and> flt (fdiv (fabs mean) dev) (Fin (1 / 2))))))"

section \<open>Evaluation metrics\<close>

definition OOSR2 :: "f64 list \<Rightarrow> f64 list \<Rightarrow> f64" where
  "OOSR2 yt yp =
     (if yt = [] \<or> length yp \<noteq> length yt then Fin 0
      else
        (let res = fsum (map (\<lambda>(a, b). let d = fsub a b in fmul d d) (zip yt yp)); tot = fsum (map (\<lambda>a. fmul a a) yt)
         in if feq tot (Fin 0) then Fin 0 else fsub (Fin 1) (fdiv res tot)))"

definition SharpeRatio :: "f64 list \<Rightarrow> f64 \<Rightarrow> f64" where
  "SharpeRatio xs rf =
     (if xs = [] then Fin 0
      else
        (let daily = fdiv rf (Fin 252); mean = fdiv (fsum (map (\<lambda>r. fsub r daily) xs)) (flen xs); centre = fadd mean daily;
             sq = fsum (map (\<lambda>r. let d = fsub r centre in fmul d d) xs);
             dev = fsqrt (fdiv sq (if 1 < length xs then f64_of_int (int (length xs) - 1) else flen xs))
         in if flt dev (f64_const (1 / 10 ^ 15)) then Fin 0 else fdiv (fmul mean (fsqrt (Fin 252))) dev))"

definition CumulativeReturn :: "f64 list \<Rightarrow> f64" where
  "CumulativeReturn xs = (if xs = [] then Fin 0 else fsub (fold (\<lambda>r p. fmul p (fadd (Fin 1) r)) xs (Fin 1)) (Fin 1))"

definition drawdown_step :: "f64 \<Rightarrow> f64 \<times> f64 \<times> f64 \<Rightarrow> f64 \<times> f64 \<times> f64" where
  "drawdown_step r s =
     (case s of (cum, peak, worst) \<Rightarrow>
        let cum = fmul cum (fadd (Fin 1) r); peak = (if flt peak cum then cum else peak); dd = fdiv (fsub peak cum) peak
        in (cum, peak, if flt worst dd then dd else worst))"

definition MaxDrawdown :: "f64 list \<Rightarrow> f64" where
  "MaxDrawdown xs = (if xs = [] then Fin 0 else snd (snd (fold drawdown_step xs (Fin 1, Fin 1, Fin 0))))"

section \<open>The deflated Sharpe ratio\<close>

record math_lib =
  ml_log :: "f64 \<Rightarrow> f64"
  ml_erfc :: "f64 \<Rightarrow> f64"
  ml_pow :: "f64 \<Rightarrow> f64 \<Rightarrow> f64"

definition SampleSkew :: "math_lib \<Rightarrow> f64 list \<Rightarrow> f64" where
  "SampleSkew ml xs =
     (if length xs < 3 then NaN
      else
        (let mean = fdiv (fsum xs) (flen xs); ds = map (\<lambda>v. fsub v mean) xs;
             m2 = fdiv (fsum (map (\<lambda>d. fmul d d) ds)) (flen xs); m3 = fdiv (fsum (map (\<lambda>d. fmul (fmul d d) d) ds)) (flen xs)
         in if fle m2 (Fin 0) then NaN else fdiv m3 (ml_pow ml m2 (Fin (3 / 2)))))"

definition SampleKurtosis :: "f64 list \<Rightarrow> f64" where
  "SampleKurtosis xs =
     (if length xs < 4 then NaN
      else
        (let mean = fdiv (fsum xs) (flen xs); ds = map (\<lambda>v. fsub v mean) xs;
             m2 = fdiv (fsum (map (\<lambda>d. fmul d d) ds)) (flen xs);
             m4 = fdiv (fsum (map (\<lambda>d. fmul (fmul (fmul d d) d) d) ds)) (flen xs)
         in if fle m2 (Fin 0) then NaN else fdiv m4 (fmul m2 m2)))"

text \<open>A polynomial with its coefficients from the highest power down, by Horner's rule.\<close>

definition horner :: "rat list \<Rightarrow> f64 \<Rightarrow> f64" where
  "horner cs x = (case cs of [] \<Rightarrow> Fin 0 | c # r \<Rightarrow> fold (\<lambda>c acc. fadd (fmul acc x) (f64_const c)) r (f64_const c))"

definition central_num :: "rat list" where
  "central_num = [- 3969683028665376 / 10 ^ 14, 220946098424520500 / 10 ^ 15, - 275928510446968700 / 10 ^ 15, 138357751867269000 / 10 ^ 15,
     - 3066479806614716 / 10 ^ 14, 2506628277459239 / 10 ^ 15]"

definition central_den :: "rat list" where
  "central_den = [- 5447609879822406 / 10 ^ 14, 161585836858040900 / 10 ^ 15, - 155698979859886600 / 10 ^ 15, 6680131188771972 / 10 ^ 14,
     - 1328068155288572 / 10 ^ 14, 1]"

definition tail_num :: "rat list" where
  "tail_num = [- 7784894002430293 / 10 ^ 18, - 322396458041136500 / 10 ^ 18, - 2400758277161838 / 10 ^ 15, - 2549732539343734 / 10 ^ 15,
     4374664141464968 / 10 ^ 15, 2938163982698783 / 10 ^ 15]"

definition tail_den :: "rat list" where
  "tail_den = [7784695709041462 / 10 ^ 18, 322467129070039800 / 10 ^ 18, 2445134137142996 / 10 ^ 15, 3754408661907416 / 10 ^ 15, 1]"

definition InverseNormalCDF :: "math_lib \<Rightarrow> f64 \<Rightarrow> f64" where
  "InverseNormalCDF ml p =
     (let plow = f64_const (2425 / 10 ^ 5); phigh = f64_const (97575 / 10 ^ 5)
      in if p = NaN \<or> fle p (Fin 0) \<or> fle (Fin 1) p then NaN
         else if flt p plow then
           (let q = fsqrt (fmul (Fin (- 2)) (ml_log ml p)) in fdiv (horner tail_num q) (horner tail_den q))
         else if fle p phigh then
           (let q = fsub p (Fin (1 / 2)); r = fmul q q in fdiv (fmul (horner central_num r) q) (horner central_den r))
         else
           (let q = fsqrt (fmul (Fin (- 2)) (ml_log ml (fsub (Fin 1) p))) in fdiv (fneg (horner tail_num q)) (horner tail_den q)))"

definition normalCDF :: "math_lib \<Rightarrow> f64 \<Rightarrow> f64" where
  "normalCDF ml x = fmul (Fin (1 / 2)) (ml_erfc ml (fdiv (fneg x) (fsqrt (Fin 2))))"

definition eulerGamma :: f64 where
  "eulerGamma = f64_const (5772156649015329 / 10 ^ 16)"

text \<open>The constant \<open>1 - eulerGamma\<close> is computed exactly before it is rounded.\<close>

definition ExpectedSharpeUnderNull :: "math_lib \<Rightarrow> f64 \<Rightarrow> f64 \<Rightarrow> int \<Rightarrow> f64" where
  "ExpectedSharpeUnderNull ml e var trials =
     (if trials < 2 \<or> flt var (Fin 0) \<or> var = NaN then NaN
      else
        (let k = f64_of_int trials
         in fmul (fsqrt var)
              (fadd (fmul (f64_const (1 - 5772156649015329 / 10 ^ 16)) (InverseNormalCDF ml (fsub (Fin 1) (fdiv (Fin 1) k))))
                    (fmul eulerGamma (InverseNormalCDF ml (fsub (Fin 1) (fdiv (Fin 1) (fmul k e))))))))"

definition DeflatedSharpeRatio :: "math_lib \<Rightarrow> f64 \<Rightarrow> f64 \<Rightarrow> f64 \<Rightarrow> int \<Rightarrow> int \<Rightarrow> f64 \<Rightarrow> f64 \<Rightarrow> f64" where
  "DeflatedSharpeRatio ml e sr var trials horizon skew kurt =
     (if trials < 2 \<or> horizon < 3 \<or> flt var (Fin 0) \<or> sr = NaN \<or> var = NaN \<or> skew = NaN \<or> kurt = NaN then NaN
      else
        (let sr0 = ExpectedSharpeUnderNull ml e var trials;
             den = fsqrt (fadd (fsub (Fin 1) (fmul skew sr)) (fmul (fmul (fdiv (fsub kurt (Fin 1)) (Fin 4)) sr) sr))
         in if sr0 = NaN \<or> den = NaN \<or> fle den (Fin 0) then NaN
            else normalCDF ml (fdiv (fmul (fsub sr sr0) (fsqrt (f64_of_int (horizon - 1)))) den)))"

definition DeflatedSharpeRatioAnnualized :: "math_lib \<Rightarrow> f64 \<Rightarrow> f64 \<Rightarrow> f64 \<Rightarrow> int \<Rightarrow> int \<Rightarrow> f64 \<Rightarrow> f64 \<Rightarrow> f64" where
  "DeflatedSharpeRatioAnnualized ml e sr var trials horizon skew kurt =
     (if sr = NaN \<or> var = NaN then NaN
      else DeflatedSharpeRatio ml e (fdiv sr (fsqrt (Fin 252))) (fdiv var (Fin 252)) trials horizon skew kurt)"

definition TrialSharpeVariance :: "f64 list \<Rightarrow> f64 option" where
  "TrialSharpeVariance xs =
     (if length xs < 2 then None
      else
        (let mean = fdiv (fsum xs) (flen xs)
         in Some (fdiv (fsum (map (\<lambda>v. let d = fsub v mean in fmul d d) xs)) (f64_of_int (int (length xs) - 1)))))"

definition dsrVerdict :: "math_lib \<Rightarrow> f64 \<Rightarrow> f64 list \<Rightarrow> f64 list \<Rightarrow> f64 \<times> int" where
  "dsrVerdict ml e returns history =
     (if length returns < 4 \<or> history = [] then (NaN, int (length history) + 1)
      else
        (let sr = SharpeRatio returns (Fin 0); trials = history @ [sr]
         in case TrialSharpeVariance trials of
              None \<Rightarrow> (NaN, int (length trials))
            | Some v \<Rightarrow>
                (DeflatedSharpeRatioAnnualized ml e sr v (int (length trials)) (int (length returns)) (SampleSkew ml returns)
                   (SampleKurtosis returns), int (length trials))))"

section \<open>Facts\<close>

text \<open>The statistic of fewer than 63 returns is zero.\<close>

lemma welch_short: "length base < 63 \<or> length cand < 63 \<Longrightarrow> welchTTest base cand = (Fin 0, Fin 0)"
  by (simp add: welchTTest_def)

text \<open>A drawdown is never negative, whatever the returns.\<close>

lemma drawdown_grows:
  "fle (Fin 0) (snd (snd s)) \<Longrightarrow> fle (Fin 0) (snd (snd (drawdown_step r s)))"
  by (auto simp: drawdown_step_def Let_def case_prod_beta dest: fle_flt_trans intro: fle_trans simp: flt_iff_fle)

lemma MaxDrawdown_nonneg: "fle (Fin 0) (MaxDrawdown xs)"
proof -
  have "fle (Fin 0) (snd (snd s)) \<Longrightarrow> fle (Fin 0) (snd (snd (fold drawdown_step xs s)))" for s
    by (induction xs arbitrary: s) (simp_all add: drawdown_grows)
  then show ?thesis by (simp add: MaxDrawdown_def)
qed

end
