(* ===== verification/Exp_Gates.thy ===== *)
theory Exp_Gates
  imports Exp_Contract Exp_Stats Risk_PreTrade
begin

text \<open>
  The acceptance gates of an experiment, twice: the switch of \<open>passesAcceptance\<close> in \<open>internal/experiment/judge.go\<close> and the
  registered evaluators of \<open>internal/acceptance/builtin/builtin.go\<close> run by \<open>runAcceptancePipeline\<close>.

  A gate that fails gives the reason of the rejection.  The parameter snapshots and the configured factor weights are arguments: the
  weights in the order in which the map is visited.
\<close>

section \<open>Parameters and reasons\<close>

record experiment_params =
  ep_level1 :: int
  ep_level2 :: int
  ep_level3 :: int
  ep_improvement :: f64
  ep_welch :: f64
  ep_drawdown :: f64
  ep_volatility :: f64
  ep_stability :: f64
  ep_max_fallback :: f64
  ep_weight_drift :: f64

definition default_experiment_params :: experiment_params where
  "default_experiment_params =
     \<lparr>ep_level1 = 3, ep_level2 = 8, ep_level3 = 12, ep_improvement = f64_const (5 / 10 ^ 4), ep_welch = Fin 2,
      ep_drawdown = f64_const (8 / 10), ep_volatility = Fin (3 / 2), ep_stability = Fin (1 / 2), ep_max_fallback = f64_const (6 / 10),
      ep_weight_drift = f64_const (15 / 100)\<rparr>"

datatype rejection =
    BurnInMode
  | FallbackWindowUsed
  | NoGates
  | InsufficientObservations int int int
  | EqualScores
  | NoImprovement
  | SmallImprovement
  | NotSignificant
  | DeflatedSharpe
  | SharpeGateFailed
  | InsufficientChecks
  | InvalidScore
  | StabilityError string
  | Unstable string
  | OosFailed string
  | SingleRegime
  | FewRegimes
  | DrawdownExceeds
  | VolatilityExceeds
  | FallbackRatio string
  | WeightDrift
  | FalsePositives
  | ObservationGrowth
  | SectorCoverage
  | IndustryCoverage
  | StyleDrift
  | MomentumCatch
  | RetailSentiment
  | NoHoldingPeriod
  | UnknownGate string
  | NoEvaluator string

definition requiredCheckCountForMaturity :: "string \<Rightarrow> nat" where
  "requiredCheckCountForMaturity maturity =
     (if maturity = ''level_3_regime_aware'' then 4
      else if maturity = ''level_2_window_validated'' \<or> maturity = ''level_2_validated'' then 3 else 2)"

definition requiredCheckCountForProfile :: "string \<Rightarrow> string \<Rightarrow> nat" where
  "requiredCheckCountForProfile maturity mt =
     requiredCheckCountForMaturity maturity +
       (if mt = ''risk_rule_change'' then 1 else if mt = ''portfolio_constraint_revision'' then 2 else 0)"

definition requiredObservationCountForMaturity :: "experiment_params \<Rightarrow> string \<Rightarrow> int" where
  "requiredObservationCountForMaturity ep maturity =
     (if maturity = ''level_3_regime_aware'' then ep_level3 ep
      else if maturity = ''level_2_window_validated'' \<or> maturity = ''level_2_validated'' then ep_level2 ep else ep_level1 ep)"

definition requiredObservationCountForProfile :: "experiment_params \<Rightarrow> string \<Rightarrow> string \<Rightarrow> int" where
  "requiredObservationCountForProfile ep maturity mt =
     requiredObservationCountForMaturity ep maturity +
       (if mt = ''risk_rule_change'' \<or> mt = ''portfolio_constraint_revision'' then 1 else 0)"

definition requiredImprovementForProfile :: "experiment_params \<Rightarrow> string \<Rightarrow> f64" where
  "requiredImprovementForProfile ep mt =
     (if mt = ''risk_rule_change'' \<or> mt = ''portfolio_constraint_revision'' then fmul (ep_improvement ep) (Fin 2)
      else if mt = ''pipeline_stage_toggle'' then fmul (ep_improvement ep) (Fin 3) else ep_improvement ep)"

text \<open>\<open>strings.Contains\<close>.\<close>

fun contains :: "string \<Rightarrow> string \<Rightarrow> bool" where
  "contains [] p = (p = [])"
| "contains (c # s) p = (starts_with (c # s) p \<or> contains s p)"

definition promptMentionsHoldingPeriod :: "string \<Rightarrow> bool" where
  "promptMentionsHoldingPeriod prompt =
     list_ex (contains (to_lower prompt)) [''holding_period'', ''max_holding_days'', ''holding days'', ''max holding'', ''exit_rule'']"

section \<open>Values the gates compare\<close>

definition ratio :: "int \<Rightarrow> int \<Rightarrow> f64" where
  "ratio a b = fdiv (f64_of_int a) (f64_of_int b)"

definition candidate_fallback_ratio :: "experiment_result \<Rightarrow> f64" where
  "candidate_fallback_ratio r = ratio (er_candidate_fallbacks r) (er_candidate_factors r)"

definition baseline_fallback_ratio :: "experiment_result \<Rightarrow> f64" where
  "baseline_fallback_ratio r = ratio (er_baseline_fallbacks r) (er_baseline_factors r)"

text \<open>The judge's drift of the factor weights: a snapshot with its weights, and the weights of the running configuration.\<close>

record weight_source =
  wt_snapshot :: "string \<Rightarrow> (string \<times> f64) list option"
  wt_current :: "(string \<times> f64) list option"

definition judgeWeightDrift :: "weight_source \<Rightarrow> experiment_result \<Rightarrow> f64" where
  "judgeWeightDrift ws r =
     (if er_snapshot r = [] then Fin 0
      else (case (wt_snapshot ws (er_snapshot r), wt_current ws) of
              (Some old, Some cur) \<Rightarrow>
                (let terms = List.map_filter (\<lambda>(k, v). case map_of old k of
                       Some w \<Rightarrow> if flt (Fin 0) w then Some (fdiv (fabs (fsub v w)) w) else None | None \<Rightarrow> None) cur
                 in if old = [] \<or> cur = [] \<or> terms = [] then Fin 0 else fdiv (fsum terms) (flen terms))
            | _ \<Rightarrow> Fin 0))"

text \<open>The drift of package \<open>builtin\<close>: the distance of the fallback ratios.\<close>

definition builtinWeightDrift :: "experiment_result \<Rightarrow> f64" where
  "builtinWeightDrift r =
     (if er_candidate_factors r = 0 \<or> er_baseline_factors r = 0 then Fin 0
      else (let d = fsub (candidate_fallback_ratio r) (baseline_fallback_ratio r) in if flt d (Fin 0) then fneg d else d))"

text \<open>The regimes of the window with at least a tenth of its days.\<close>

definition checkRegimeDiversified :: "experiment_result \<Rightarrow> rejection option" where
  "checkRegimeDiversified r =
     (if er_regime_days r = 0 then None
      else if length (er_regimes r) < 2 then Some SingleRegime
      else if length (filter (\<lambda>(_, c). fle (f64_const (1 / 10)) (ratio c (er_regime_days r))) (er_regimes r)) < 2 then Some FewRegimes
      else None)"

section \<open>The switch of the judge\<close>

definition stability_gate :: "string \<Rightarrow> f64 \<Rightarrow> f64 list \<Rightarrow> rejection option" where
  "stability_gate side threshold xs =
     (if length xs < 2 then None
      else (case SharpeStabilityCheck xs threshold of
              None \<Rightarrow> Some (StabilityError side) | Some False \<Rightarrow> Some (Unstable side) | Some True \<Rightarrow> None))"

definition first_rejection :: "rejection option list \<Rightarrow> rejection option" where
  "first_rejection rs = Option.bind (find (\<lambda>r. r \<noteq> None) rs) (\<lambda>r. r)"

definition reject_if :: "bool \<Rightarrow> rejection \<Rightarrow> rejection option" where
  "reject_if b why = (if b then Some why else None)"

definition coverage_gate :: "rejection \<Rightarrow> experiment_result \<Rightarrow> rejection option" where
  "coverage_gate why r =
     reject_if (er_candidate_obs r < er_baseline_obs r \<and> flt (ratio (er_candidate_obs r) (er_baseline_obs r)) (Fin (1 / 2))) why"

definition warns :: "experiment_params \<Rightarrow> experiment_result \<Rightarrow> bool" where
  "warns ep r \<longleftrightarrow> 0 < er_baseline_factors r \<and> flt (ep_max_fallback ep) (baseline_fallback_ratio r)"

text \<open>One gate of the switch; \<open>checks\<close> counts the judge checks so far.\<close>

definition switch_gate ::
  "experiment_params \<Rightarrow> weight_source \<Rightarrow> bool \<Rightarrow> string \<Rightarrow> experiment_result \<Rightarrow> nat \<Rightarrow> string \<Rightarrow> rejection option" where
  "switch_gate ep ws history prompt r checks gate =
     (let x = er_experiment r; br = er_baseline_returns r; cr = er_candidate_returns r
      in if gate = ''improve_sharpe_like'' then reject_if (fle (xr_candidate x) (xr_baseline x)) SharpeGateFailed
         else if gate = ''no_material_drawdown_degradation'' then
           reject_if (checks < requiredCheckCountForProfile (mb_maturity (er_brief r)) (xr_mutation x)) InsufficientChecks
         else if gate = ''no_constraint_bypass'' then reject_if (xr_candidate x = NaN) InvalidScore
         else if gate = ''maintain_sharpe_like'' then
           first_rejection [stability_gate ''baseline'' (ep_stability ep) br, stability_gate ''candidate'' (ep_stability ep) cr]
         else if gate = ''no_drawdown_spike'' then
           (case er_oos r of Some v \<Rightarrow> reject_if (\<not> oos_passed v) (OosFailed (oos_reason v)) | None \<Rightarrow> None)
         else if gate = ''regime_diversified'' then (if history then checkRegimeDiversified r else None)
         else if gate = ''preserve_downside_protection'' then
           reject_if (flt (fmul (MaxDrawdown br) (ep_drawdown ep)) (MaxDrawdown cr)) DrawdownExceeds
         else if gate = ''reduce_concentration_risk'' then
           reject_if (flt (fmul (calculateVolatility br) (ep_volatility ep)) (calculateVolatility cr)) VolatilityExceeds
         else if gate = ''factor_quality'' then
           reject_if (0 < er_candidate_factors r \<and> flt (ep_max_fallback ep) (candidate_fallback_ratio r)) (FallbackRatio ''candidate'')
         else if gate = ''factor_weight_stability'' then reject_if (flt (ep_weight_drift ep) (judgeWeightDrift ws r)) WeightDrift
         else if gate = ''reduce_false_positive_rate'' then
           reject_if (flt (fmul (negativeReturnRatio br) (ep_volatility ep)) (negativeReturnRatio cr)) FalsePositives
         else if gate = ''maintain_cro_authority'' then
           reject_if (0 < er_candidate_obs r \<and> 0 < er_baseline_obs r \<and>
             flt (ep_volatility ep) (ratio (er_candidate_obs r) (er_baseline_obs r))) ObservationGrowth
         else if gate = ''reduce_sector_blindspots'' then coverage_gate SectorCoverage r
         else if gate = ''maintain_industry_coverage'' then coverage_gate IndustryCoverage r
         else if gate = ''reduce_style_drift'' then
           reject_if (0 < er_candidate_factors r \<and> 0 < er_baseline_factors r \<and>
             flt (fadd (baseline_fallback_ratio r) (ep_weight_drift ep)) (candidate_fallback_ratio r)) StyleDrift
         else if gate = ''maintain_momentum_catch'' then
           reject_if (flt (positiveReturnRatio cr) (fsub (positiveReturnRatio br) (f64_const (1 / 10)))) MomentumCatch
         else if gate = ''retail_sentiment_filter'' then
           reject_if (fle (f64_const (7 / 10)) (fabs (mb_rsi (er_brief r)))) RetailSentiment
         else if gate = ''respect_holding_period'' then reject_if (\<not> promptMentionsHoldingPeriod prompt) NoHoldingPeriod
         else Some (UnknownGate gate))"

text \<open>The loop over the gates; the warning of \<open>factor_quality\<close> counts as a check for the gates after it.\<close>

fun switch_gates ::
  "experiment_params \<Rightarrow> weight_source \<Rightarrow> bool \<Rightarrow> string \<Rightarrow> experiment_result \<Rightarrow> nat \<Rightarrow> string list \<Rightarrow> rejection option" where
  "switch_gates ep ws history prompt r checks [] = None"
| "switch_gates ep ws history prompt r checks (gate # gates) =
     (case switch_gate ep ws history prompt r checks gate of
        Some why \<Rightarrow> Some why
      | None \<Rightarrow> switch_gates ep ws history prompt r (if gate = ''factor_quality'' \<and> warns ep r then Suc checks else checks) gates)"

section \<open>The registered evaluators\<close>

type_synonym evaluator = "experiment_params \<Rightarrow> string \<Rightarrow> experiment_result \<Rightarrow> rejection option"

definition ImproveSharpeLike :: evaluator where
  "ImproveSharpeLike ep prompt r = reject_if (fle (xr_candidate (er_experiment r)) (xr_baseline (er_experiment r))) SharpeGateFailed"

definition PreserveDownsideProtection :: evaluator where
  "PreserveDownsideProtection ep prompt r =
     reject_if (flt (fmul (MaxDrawdown (er_baseline_returns r)) (ep_drawdown ep)) (MaxDrawdown (er_candidate_returns r))) DrawdownExceeds"

definition NoDrawdownSpike :: evaluator where
  "NoDrawdownSpike ep prompt r =
     (case er_oos r of Some v \<Rightarrow> reject_if (\<not> oos_passed v) (OosFailed (oos_reason v)) | None \<Rightarrow> None)"

definition FactorWeightStability :: evaluator where
  "FactorWeightStability ep prompt r = reject_if (flt (ep_weight_drift ep) (builtinWeightDrift r)) WeightDrift"

definition RetailSentimentFilter :: evaluator where
  "RetailSentimentFilter ep prompt r = reject_if (fle (f64_const (7 / 10)) (fabs (mb_rsi (er_brief r)))) RetailSentiment"

definition NoMaterialDrawdownDegradation :: evaluator where
  "NoMaterialDrawdownDegradation ep prompt r =
     reject_if (length (er_judge_checks r) < requiredCheckCountForProfile (mb_maturity (er_brief r)) (xr_mutation (er_experiment r)))
       InsufficientChecks"

definition NoConstraintBypass :: evaluator where
  "NoConstraintBypass ep prompt r = reject_if (xr_candidate (er_experiment r) = NaN) InvalidScore"

definition sharpe_magnitude :: "string \<Rightarrow> f64 \<Rightarrow> f64 list \<Rightarrow> rejection option" where
  "sharpe_magnitude side threshold xs = reject_if (2 \<le> length xs \<and> flt (fabs (computeSharpeRatio xs)) threshold) (Unstable side)"

definition MaintainSharpeLike :: evaluator where
  "MaintainSharpeLike ep prompt r =
     first_rejection [sharpe_magnitude ''baseline'' (ep_stability ep) (er_baseline_returns r),
       sharpe_magnitude ''candidate'' (ep_stability ep) (er_candidate_returns r)]"

definition ReduceConcentrationRisk :: evaluator where
  "ReduceConcentrationRisk ep prompt r =
     reject_if (flt (fmul (calculateVolatility (er_baseline_returns r)) (ep_volatility ep)) (calculateVolatility (er_candidate_returns r)))
       VolatilityExceeds"

definition FactorQuality :: evaluator where
  "FactorQuality ep prompt r =
     first_rejection
       [reject_if (0 < er_baseline_factors r \<and> flt (ep_max_fallback ep) (baseline_fallback_ratio r)) (FallbackRatio ''baseline''),
        reject_if (0 < er_candidate_factors r \<and> flt (ep_max_fallback ep) (candidate_fallback_ratio r)) (FallbackRatio ''candidate'')]"

definition ReduceFalsePositiveRate :: evaluator where
  "ReduceFalsePositiveRate ep prompt r =
     reject_if (flt (fmul (negativeReturnRatio (er_baseline_returns r)) (ep_volatility ep)) (negativeReturnRatio (er_candidate_returns r)))
       FalsePositives"

definition MaintainCROAuthority :: evaluator where
  "MaintainCROAuthority ep prompt r =
     reject_if (0 < er_candidate_obs r \<and> 0 < er_baseline_obs r \<and>
       flt (ep_volatility ep) (ratio (er_candidate_obs r) (er_baseline_obs r))) ObservationGrowth"

definition ReduceSectorBlindspots :: evaluator where
  "ReduceSectorBlindspots ep prompt r = coverage_gate SectorCoverage r"

definition MaintainIndustryCoverage :: evaluator where
  "MaintainIndustryCoverage ep prompt r = coverage_gate IndustryCoverage r"

definition ReduceStyleDrift :: evaluator where
  "ReduceStyleDrift ep prompt r =
     reject_if (0 < er_candidate_factors r \<and> 0 < er_baseline_factors r \<and>
       flt (fadd (baseline_fallback_ratio r) (ep_weight_drift ep)) (candidate_fallback_ratio r)) StyleDrift"

definition MaintainMomentumCatch :: evaluator where
  "MaintainMomentumCatch ep prompt r =
     reject_if (flt (positiveReturnRatio (er_candidate_returns r)) (fsub (positiveReturnRatio (er_baseline_returns r)) (f64_const (1 / 10))))
       MomentumCatch"

definition RespectHoldingPeriod :: evaluator where
  "RespectHoldingPeriod ep prompt r = reject_if (\<not> promptMentionsHoldingPeriod prompt) NoHoldingPeriod"

text \<open>The registry that a run builds: a later registration of a name replaces an earlier one.\<close>

definition Register :: "string \<Rightarrow> evaluator \<Rightarrow> (string \<times> evaluator) list \<Rightarrow> (string \<times> evaluator) list" where
  "Register name e reg = AList.update name e reg"

definition Get :: "(string \<times> evaluator) list \<Rightarrow> string \<Rightarrow> evaluator option" where
  "Get reg name = map_of reg name"

definition registry :: "(string \<times> evaluator) list" where
  "registry = fold (\<lambda>(n, e). Register n e)
     [(''improve_sharpe_like'', ImproveSharpeLike), (''preserve_downside_protection'', PreserveDownsideProtection),
      (''no_drawdown_spike'', NoDrawdownSpike), (''factor_weight_stability'', FactorWeightStability),
      (''retail_sentiment_filter'', RetailSentimentFilter), (''no_material_drawdown_degradation'', NoMaterialDrawdownDegradation),
      (''no_constraint_bypass'', NoConstraintBypass), (''maintain_sharpe_like'', MaintainSharpeLike),
      (''reduce_concentration_risk'', ReduceConcentrationRisk), (''factor_quality'', FactorQuality),
      (''reduce_false_positive_rate'', ReduceFalsePositiveRate), (''maintain_cro_authority'', MaintainCROAuthority),
      (''reduce_sector_blindspots'', ReduceSectorBlindspots), (''maintain_industry_coverage'', MaintainIndustryCoverage),
      (''reduce_style_drift'', ReduceStyleDrift), (''maintain_momentum_catch'', MaintainMomentumCatch),
      (''respect_holding_period'', RespectHoldingPeriod)] []"

fun pipeline_gates :: "experiment_params \<Rightarrow> string \<Rightarrow> experiment_result \<Rightarrow> string list \<Rightarrow> rejection option" where
  "pipeline_gates ep prompt r [] = None"
| "pipeline_gates ep prompt r (gate # gates) =
     (case Get registry gate of
        None \<Rightarrow> Some (NoEvaluator gate)
      | Some e \<Rightarrow> (case e ep prompt r of Some why \<Rightarrow> Some why | None \<Rightarrow> pipeline_gates ep prompt r gates))"

section \<open>Where the two agree\<close>

definition agreeing_gates :: "string list" where
  "agreeing_gates =
     [''improve_sharpe_like'', ''preserve_downside_protection'', ''no_drawdown_spike'', ''retail_sentiment_filter'',
      ''no_material_drawdown_degradation'', ''no_constraint_bypass'', ''reduce_concentration_risk'', ''reduce_false_positive_rate'',
      ''maintain_cro_authority'', ''reduce_sector_blindspots'', ''maintain_industry_coverage'', ''reduce_style_drift'',
      ''maintain_momentum_catch'', ''respect_holding_period'']"

lemmas evaluator_defs =
  ImproveSharpeLike_def PreserveDownsideProtection_def NoDrawdownSpike_def RetailSentimentFilter_def NoMaterialDrawdownDegradation_def
  NoConstraintBypass_def ReduceConcentrationRisk_def ReduceFalsePositiveRate_def MaintainCROAuthority_def ReduceSectorBlindspots_def
  MaintainIndustryCoverage_def ReduceStyleDrift_def MaintainMomentumCatch_def RespectHoldingPeriod_def

lemma agreeing_gate:
  "gate \<in> set agreeing_gates \<Longrightarrow>
     \<exists>e. Get registry gate = Some e \<and> e ep prompt r = switch_gate ep ws history prompt r (length (er_judge_checks r)) gate"
  unfolding agreeing_gates_def
  by (simp only: set_simps insert_iff empty_iff, elim disjE FalseE)
    (simp_all add: Get_def registry_def Register_def switch_gate_def evaluator_defs Let_def)

text \<open>C10 (equivalence). For the fourteen gates that were ported without a change, the acceptance pipeline and the switch of the judge
  decide alike, on every list of these gates and every experiment: both accept it, or both reject it for the same reason.\<close>
theorem pipeline_agrees_with_switch:
  assumes "set gates \<subseteq> set agreeing_gates"
  shows "pipeline_gates ep prompt r gates = switch_gates ep ws history prompt r (length (er_judge_checks r)) gates"
  using assms
proof (induction gates)
  case (Cons gate gates)
  then have "gate \<noteq> ''factor_quality''" by (auto simp: agreeing_gates_def)
  with Cons agreeing_gate [of gate ep prompt r ws history] show ?case by (auto split: option.splits)
qed simp

definition demo_gates :: "string list" where
  "demo_gates = [''improve_sharpe_like'', ''no_constraint_bypass'', ''no_material_drawdown_degradation'']"

lemma pipeline_agrees_with_switch_witness:
  "pipeline_gates default_experiment_params ''p'' (demo_accepted ''e'' ''prompt_tightening'') demo_gates =
     switch_gates default_experiment_params \<lparr>wt_snapshot = \<lambda>s. None, wt_current = None\<rparr> False ''p''
       (demo_accepted ''e'' ''prompt_tightening'') 0 demo_gates \<and>
   pipeline_gates default_experiment_params ''p'' (demo_accepted ''e'' ''prompt_tightening'') demo_gates = Some InsufficientChecks"
proof -
  have "set demo_gates \<subseteq> set agreeing_gates" by (simp add: demo_gates_def agreeing_gates_def)
  from pipeline_agrees_with_switch [OF this, of default_experiment_params "''p''" "demo_accepted ''e'' ''prompt_tightening''"
      "\<lparr>wt_snapshot = \<lambda>s. None, wt_current = None\<rparr>" False]
  show ?thesis
    by (simp add: demo_accepted_def demo_gates_def switch_gate_def reject_if_def requiredCheckCountForProfile_def
        requiredCheckCountForMaturity_def)
qed

section \<open>Where they differ\<close>

text \<open>Between 2 and 29 returns, the switch refuses \<open>maintain_sharpe_like\<close> for lack of data; the evaluator passes any large Sharpe ratio.\<close>

lemma sharpe_gates_differ:
  assumes "length (er_baseline_returns r) < 2" "2 \<le> length (er_candidate_returns r)" "length (er_candidate_returns r) < 30"
    "\<not> flt (fabs (computeSharpeRatio (er_candidate_returns r))) (ep_stability ep)"
  shows "switch_gate ep ws history prompt r checks ''maintain_sharpe_like'' = Some (StabilityError ''candidate'')"
    and "MaintainSharpeLike ep prompt r = None"
  using assms
  by (simp_all add: switch_gate_def MaintainSharpeLike_def stability_gate_def sharpe_magnitude_def first_rejection_def reject_if_def
      SharpeStabilityCheck_def Let_def)

text \<open>A poor baseline is a warning for the switch and a rejection for the evaluator; the warning even counts as one more judge check.\<close>

lemma factor_quality_differs:
  assumes "warns ep r" "er_candidate_factors r = 0"
  shows "FactorQuality ep prompt r = Some (FallbackRatio ''baseline'')"
    and "switch_gates ep ws history prompt r checks (''factor_quality'' # gates) = switch_gates ep ws history prompt r (Suc checks) gates"
  using assms by (simp_all add: FactorQuality_def warns_def first_rejection_def reject_if_def switch_gate_def Let_def)

text \<open>The pipeline has no evaluator for the regimes: it rejects every experiment with that gate.\<close>

lemma no_regime_evaluator: "''regime_diversified'' \<in> set gates \<Longrightarrow> pipeline_gates ep prompt r gates \<noteq> None"
proof (induction gates)
  case (Cons gate gates)
  then show ?case by (auto split: option.splits) (simp add: Get_def registry_def Register_def)
qed simp

end
