(* ===== verification/Exp_Judge.thy ===== *)
theory Exp_Judge
  imports Exp_Gates Go_Strconv
begin

text \<open>
  The judge of an experiment, \<open>internal/experiment/judge.go\<close>, with the deflated Sharpe gate of \<open>dsr.go\<close> and the lifecycle
  publisher of \<open>lifecycle_publisher.go\<close>.

  What the judge reads is an argument: the result file and the candidate prompt, the summary of the window, the scores of the replay,
  the regime history, the parameter snapshot and the out-of-sample validation.  The texts with formatted numbers are the functions
  of \<open>judge_texts\<close>; only their number matters.
\<close>

section \<open>Judge checks\<close>

record judge_texts =
  jt_count :: "string \<Rightarrow> int \<Rightarrow> string"
  jt_reject :: "string \<Rightarrow> string \<Rightarrow> string"
  jt_drift :: "bool \<Rightarrow> f64 \<Rightarrow> string"
  jt_history :: string
  jt_regime :: "(string \<times> int) list \<Rightarrow> int \<Rightarrow> string"
  jt_note :: "rejection option \<Rightarrow> string"

definition found :: "string \<Rightarrow> string \<Rightarrow> string \<Rightarrow> string list" where
  "found text needle check = (if contains text needle then [check] else [])"

definition riskRuleJudgeChecks :: "string \<Rightarrow> string list" where
  "riskRuleJudgeChecks t =
     found t ''risk rule change proposal'' ''contains risk rule proposal header'' @
     found t ''candidate rule patch'' ''contains candidate rule patch section'' @
     (if contains t ''conviction_floor'' \<and> contains t ''liquidity_floor'' then [''contains structured risk rule fields''] else []) @
     found t ''guardrails'' ''contains control guardrails section''"

definition portfolioConstraintJudgeChecks :: "string \<Rightarrow> string list" where
  "portfolioConstraintJudgeChecks t =
     found t ''portfolio constraint revision proposal'' ''contains portfolio constraint proposal header'' @
     found t ''candidate constraint patch'' ''contains candidate constraint patch section'' @
     (if contains t ''max_position_weight'' \<and> contains t ''reserve_cash_fraction''
      then [''contains structured portfolio constraint fields''] else []) @
     found t ''require_cro_pass'' ''preserves CRO sequencing requirement''"

definition promptTighteningJudgeChecks :: "string \<Rightarrow> experiment_result \<Rightarrow> string list" where
  "promptTighteningJudgeChecks t r =
     (if mb_skill (er_brief r) = ''financials_desk'' then
        found t ''credit quality gate'' ''contains credit quality gate'' @
        found t ''spread sensitivity downgrade'' ''contains spread sensitivity downgrade'' @
        found t ''capital adequacy premium'' ''contains capital adequacy premium''
      else if mb_skill (er_brief r) = ''technical_breakout'' then
        found t ''structure-first breakout filter'' ''contains structure-first breakout filter'' @
        found t ''volume surge requirement'' ''contains volume surge requirement'' @
        found t ''late-breakout penalty'' ''contains late-breakout penalty'' @
        found t ''coverage expansion'' ''contains coverage expansion mode'' @
        found t ''catch-up momentum'' ''contains catch-up momentum'' @
        found t ''volume participation acceptance'' ''contains volume participation acceptance'' @
        found t ''close-strength tolerance'' ''contains close-strength tolerance'' @
        found t ''breakout confirmation bonus'' ''contains breakout confirmation bonus''
      else
        found t ''require trend confirmation'' ''contains stronger trend confirmation rule'' @
        found t ''downgrade conviction'' ''contains conviction downgrade logic'' @
        found t ''reject setups'' ''contains explicit rejection filter'')"

text \<open>The last values of the lines \<open>stage:\<close> and \<open>action:\<close>.\<close>

definition cut_prefix :: "string \<Rightarrow> string \<Rightarrow> string option" where
  "cut_prefix p s = (if starts_with s p then Some (drop (length p) s) else None)"

definition last_value :: "string \<Rightarrow> string \<Rightarrow> string" where
  "last_value key text =
     fold (\<lambda>line v. case cut_prefix key (trim_space line) of Some after \<Rightarrow> trim_space after | None \<Rightarrow> v) (lines_of text) []"

definition extractPipelineStageAction :: "string \<Rightarrow> string \<times> string" where
  "extractPipelineStageAction text = (last_value ''stage:'' text, last_value ''action:'' text)"

definition pipelineStageToggleJudgeChecks :: "judge_texts \<Rightarrow> string \<Rightarrow> experiment_result \<Rightarrow> string list" where
  "pipelineStageToggleJudgeChecks jt t r =
     found t ''pipeline_stage_toggle:'' ''contains pipeline stage toggle config patch'' @
     (if contains t ''stage:'' \<and> contains t ''action:'' then
        (let (stage, action) = extractPipelineStageAction t
         in [''contains structured stage + action fields''] @
            (if stage \<noteq> [] \<and> stage \<noteq> ''momentum_crash_protection'' then [jt_reject jt ''pipeline_stage'' stage] else []) @
            (if action \<noteq> [] \<and> action \<noteq> ''enable'' \<and> action \<noteq> ''disable'' then [jt_reject jt ''pipeline_action'' action] else []))
      else []) @
     (if xr_gates (er_experiment r) = [] then []
      else if ''regime_diversified'' \<in> set (xr_gates (er_experiment r))
      then [''regime_diversified gate required for architecture mutation'']
      else [''WARNING: architecture mutation should include regime_diversified gate''])"

definition judgeReplayChecks :: "judge_texts \<Rightarrow> string \<Rightarrow> experiment_result \<Rightarrow> string list" where
  "judgeReplayChecks jt prompt r =
     (let t = to_lower prompt; mt = xr_mutation (er_experiment r)
      in (if mt = ''risk_rule_change'' then riskRuleJudgeChecks t
          else if mt = ''portfolio_constraint_revision'' then portfolioConstraintJudgeChecks t
          else if mt = ''pipeline_stage_toggle'' then pipelineStageToggleJudgeChecks jt t r
          else promptTighteningJudgeChecks t r) @
         (if length (mb_required (er_brief r)) \<le> length (er_policy_checks r) then [''required skill policy checks preserved''] else []) @
         (if mb_forbidden (er_brief r) \<noteq> [] then [''forbidden actions still named in candidate prompt''] else []))"

section \<open>Acceptance\<close>

record trial_sharpe =
  ts_experiment :: string
  ts_target :: string
  ts_mutation :: string
  ts_sharpe :: f64

text \<open>The trials are missing without a store, without a loader and after a failed load.\<close>

record judge =
  jd_params :: experiment_params
  jd_weights :: weight_source
  jd_pipeline :: bool
  jd_history :: bool
  jd_maturity :: "maturity option"
  jd_trials :: "trial_sharpe list option"
  jd_math :: math_lib
  jd_e :: f64
  jd_publisher :: bool

definition trial_history :: "experiment_result \<Rightarrow> trial_sharpe list \<Rightarrow> f64 list" where
  "trial_history r ts =
     map ts_sharpe (filter (\<lambda>t. ts_target t = mb_target (er_brief r) \<and> ts_mutation t = mb_mutation (er_brief r)) ts)"

definition deflatedSharpeGate :: "judge \<Rightarrow> experiment_result \<Rightarrow> rejection option" where
  "deflatedSharpeGate j r =
     (if length (er_candidate_returns r) < 4 then None
      else (case jd_trials j of
              None \<Rightarrow> None
            | Some ts \<Rightarrow>
                (let (dsr, k) = dsrVerdict (jd_math j) (jd_e j) (er_candidate_returns r) (trial_history r ts)
                 in if dsr = NaN then None else reject_if (flt dsr (f64_const (95 / 100))) DeflatedSharpe)))"

definition required_observations :: "judge \<Rightarrow> experiment_result \<Rightarrow> int" where
  "required_observations j r =
     requiredObservationCountForProfile (jd_params j) (mb_maturity (er_brief r)) (xr_mutation (er_experiment r))"

text \<open>
  The decision: the reason of the rejection, or \<open>None\<close>.  The event of insufficient data is published with
  \<open>InsufficientObservations\<close> and with nothing else.
\<close>

definition passesAcceptance :: "judge \<Rightarrow> string \<Rightarrow> experiment_result \<Rightarrow> rejection option" where
  "passesAcceptance j prompt r =
     (let x = er_experiment r; base = xr_baseline x; cand = xr_candidate x; need = required_observations j r;
          br = er_baseline_returns r; cr = er_candidate_returns r
      in if jd_maturity j = Some MaturityBurnIn then Some BurnInMode
         else if er_fallback_window r \<and> jd_maturity j \<noteq> None then Some FallbackWindowUsed
         else if xr_gates x = [] then Some NoGates
         else if er_baseline_obs r < need \<or> er_candidate_obs r < need
           then Some (InsufficientObservations (er_baseline_obs r) (er_candidate_obs r) need)
         else if fle cand base then Some (if feq cand base then EqualScores else NoImprovement)
         else if flt (fsub cand base) (requiredImprovementForProfile (jd_params j) (xr_mutation x)) then Some SmallImprovement
         else if 2 \<le> length br \<and> 2 \<le> length cr \<and> flt (fabs (fst (welchTTest br cr))) (ep_welch (jd_params j)) then Some NotSignificant
         else (case deflatedSharpeGate j r of
                 Some why \<Rightarrow> Some why
               | None \<Rightarrow>
                   if jd_pipeline j then pipeline_gates (jd_params j) prompt r (xr_gates x)
                   else switch_gates (jd_params j) (jd_weights j) (jd_history j) prompt r (length (er_judge_checks r)) (xr_gates x)))"

section \<open>Evaluation\<close>

record replay_summary =
  rs_baseline :: f64
  rs_candidate :: f64
  rs_baseline_obs :: int
  rs_candidate_obs :: int
  rs_fallback :: bool
  rs_baseline_returns :: "f64 list"
  rs_candidate_returns :: "f64 list"
  rs_baseline_stats :: "int \<times> int"
  rs_candidate_stats :: "int \<times> int"
  rs_baseline_ntd :: f64
  rs_candidate_ntd :: f64

datatype snapshot_outcome = SnapshotMissing | SnapshotEmpty | SnapshotDiffs "string list"

record judge_input =
  ji_result :: "experiment_result option"
  ji_prompt :: "string option"
  ji_window :: "(time \<times> time) option"
  ji_summary :: "replay_summary option"
  ji_regimes :: "(time option \<times> string) list option"
  ji_snapshot :: snapshot_outcome
  ji_oos :: oos_result
  ji_oos_error :: "string option"
  ji_importance :: "string list"
  ji_now :: time
  ji_stored :: bool

datatype judge_error =
    ResultUnread
  | ResultInvalid contract_error
  | PromptUnread
  | WindowUnread
  | ReplayFailed
  | StatusError contract_error
  | StoreFailed

text \<open>An event carries the reason that the record holds when it is published.\<close>

record lifecycle_event =
  le_type :: string
  le_experiment :: string
  le_reason :: string

definition TransitionAndPublish :: "bool \<Rightarrow> string \<Rightarrow> experiment_record \<Rightarrow> contract_error + experiment_record \<times> lifecycle_event list" where
  "TransitionAndPublish publisher next x =
     (case TransitionExperimentStatus next x of
        Inl err \<Rightarrow> Inl err
      | Inr y \<Rightarrow>
          Inr (y, if publisher \<and> next = ExperimentAccepted
                  then [\<lparr>le_type = ''experiment_accepted'', le_experiment = xr_id y, le_reason = xr_revert_reason y\<rparr>]
                  else if publisher \<and> next = ExperimentRejected
                  then [\<lparr>le_type = ''experiment_rejected'', le_experiment = xr_id y, le_reason = xr_revert_reason y\<rparr>]
                  else []))"

definition scored_result :: "time \<Rightarrow> time \<times> time \<Rightarrow> replay_summary \<Rightarrow> string list \<Rightarrow> experiment_result \<Rightarrow> experiment_result" where
  "scored_result now w s checks r =
     r\<lparr>er_experiment := (er_experiment r)\<lparr>xr_baseline := rs_baseline s, xr_candidate := rs_candidate s,
         xr_baseline_ntd := rs_baseline_ntd s, xr_candidate_ntd := rs_candidate_ntd s, xr_window_start := fst w, xr_window_end := snd w\<rparr>,
       er_baseline_obs := rs_baseline_obs s, er_candidate_obs := rs_candidate_obs s, er_fallback_window := rs_fallback s,
       er_baseline_returns := rs_baseline_returns s, er_candidate_returns := rs_candidate_returns s,
       er_baseline_fallbacks := fst (rs_baseline_stats s), er_candidate_fallbacks := fst (rs_candidate_stats s),
       er_baseline_factors := snd (rs_baseline_stats s), er_candidate_factors := snd (rs_candidate_stats s),
       er_baseline_ntd := rs_baseline_ntd s, er_candidate_ntd := rs_candidate_ntd s,
       er_mode := ''prompt_aware_replay_judged'', er_judge_checks := checks, er_recorded_at := now\<rparr>"

definition with_metrics :: "experiment_result \<Rightarrow> experiment_result" where
  "with_metrics r =
     (let b = er_baseline_returns r; c = er_candidate_returns r
      in if c = [] then r
         else r\<lparr>er_eval := Some \<lparr>ev_r2 = (if length b = length c then OOSR2 b c else Fin 0), ev_sharpe = SharpeRatio c (Fin 0),
                                ev_cumulative = CumulativeReturn c, ev_max_dd = MaxDrawdown c\<rparr>\<rparr>)"

definition window_regimes :: "time \<times> time \<Rightarrow> (time option \<times> string) list \<Rightarrow> string list" where
  "window_regimes w rows =
     map snd (filter (\<lambda>(d, _). case d of None \<Rightarrow> False | Some t \<Rightarrow> fst w \<le> t \<and> t \<le> snd w) rows)"

definition addRegimeConditionalChecks ::
  "judge_texts \<Rightarrow> (time option \<times> string) list option \<Rightarrow> experiment_result \<Rightarrow> experiment_result" where
  "addRegimeConditionalChecks jt loaded r =
     (case loaded of
        None \<Rightarrow> r\<lparr>er_judge_checks := er_judge_checks r @ [jt_history jt]\<rparr>
      | Some rows \<Rightarrow>
          (let days = window_regimes (xr_window_start (er_experiment r), xr_window_end (er_experiment r)) rows;
               counts = map (\<lambda>g. (g, int (count_list days g)))
                          (filter (\<lambda>g. g \<in> set days) [''RISK_ON'', ''NEUTRAL'', ''RISK_OFF'', ''TRANSITIONAL''])
           in if days = [] then r\<lparr>er_judge_checks := er_judge_checks r @ [''regime: no regime data available for experiment window (gate skipped)'']\<rparr>
              else r\<lparr>er_regimes := counts, er_regime_days := int (length days),
                     er_judge_checks := er_judge_checks r @ [jt_regime jt counts (int (length days))] @
                       (case counts of [(g, c)] \<Rightarrow> [''WARNING: experiment window is single-regime ('' @ g @ ''); results may not generalize''] | _ \<Rightarrow> [])\<rparr>))"

definition snapshot_checks :: "snapshot_outcome \<Rightarrow> string \<Rightarrow> string list" where
  "snapshot_checks snap ident =
     (if ident = [] then []
      else (case snap of
              SnapshotMissing \<Rightarrow> [''parameter snapshot not found: '' @ ident]
            | SnapshotEmpty \<Rightarrow> [''parameter snapshot loaded: '' @ ident]
            | SnapshotDiffs changes \<Rightarrow>
                [''parameter snapshot loaded: '' @ ident] @
                (if changes = [] then [''parameters unchanged since experiment''] else (''WARNING: '' @ show_int (int (length changes)) @ '' parameters changed since experiment'') # changes)))"

definition drift_checks :: "judge_texts \<Rightarrow> f64 \<Rightarrow> string list" where
  "drift_checks jt drift =
     (if flt (f64_const (5 / 100)) drift then [jt_drift jt True drift] else if flt (Fin 0) drift then [jt_drift jt False drift] else [])"

definition first_checks :: "judge_texts \<Rightarrow> string \<Rightarrow> replay_summary \<Rightarrow> experiment_result \<Rightarrow> string list" where
  "first_checks jt prompt s r =
     judgeReplayChecks jt prompt r @
     [jt_count jt ''baseline observations'' (rs_baseline_obs s), jt_count jt ''candidate observations'' (rs_candidate_obs s)] @
     (if rs_fallback s then [''fallback replay window used due to sparse primary window''] else [])"

definition final_checks :: "judge \<Rightarrow> judge_texts \<Rightarrow> judge_input \<Rightarrow> string \<Rightarrow> replay_summary \<Rightarrow> experiment_result \<Rightarrow> string list" where
  "final_checks j jt inp prompt s r =
     first_checks jt prompt s r @ snapshot_checks (ji_snapshot inp) (er_snapshot r) @ drift_checks jt (judgeWeightDrift (jd_weights j) r)"

text \<open>The result that the acceptance looks at.\<close>

definition judged_result ::
  "judge \<Rightarrow> judge_texts \<Rightarrow> judge_input \<Rightarrow> string \<Rightarrow> time \<times> time \<Rightarrow> replay_summary \<Rightarrow> experiment_result \<Rightarrow> experiment_result" where
  "judged_result j jt inp prompt w s r =
     (let r1 = with_metrics (scored_result (ji_now inp) w s (first_checks jt prompt s r) r);
          r2 = (if jd_history j \<and> er_candidate_returns r1 \<noteq> [] then addRegimeConditionalChecks jt (ji_regimes inp) r1 else r1)
      in r2\<lparr>er_judge_checks := final_checks j jt inp prompt s r, er_oos := Some (ji_oos inp)\<rparr>)"

text \<open>The status, the reason and the notes that follow from the decision and the validation.\<close>

definition verdict_of :: "rejection option \<Rightarrow> judge_input \<Rightarrow> string \<times> string \<times> string list" where
  "verdict_of why inp =
     (if why \<noteq> None then
        (ExperimentRejected, ''Replay judge did not satisfy maturity-aware acceptance gates.'', [''Replay judge rejected the candidate.''])
      else (case ji_oos_error inp of
              Some err \<Rightarrow>
                (ExperimentRejected, ''OOS validation error: '' @ err, [''Replay judge rejected due to OOS validation error.''])
            | None \<Rightarrow>
                if \<not> oos_passed (ji_oos inp) then
                  (ExperimentRejected, ''OOS validation failed: '' @ oos_reason (ji_oos inp), [''Replay judge rejected on OOS gate: '' @ oos_reason (ji_oos inp) @ ''.''])
                else
                  (ExperimentAccepted, [], ''Replay judge accepted the candidate for the next baseline promotion step.'' # ji_importance inp)))"

definition Evaluate :: "judge \<Rightarrow> judge_texts \<Rightarrow> judge_input \<Rightarrow> judge_error + experiment_result \<times> lifecycle_event list" where
  "Evaluate j jt inp =
     (case ji_result inp of None \<Rightarrow> Inl ResultUnread
      | Some r0 \<Rightarrow>
     (case NormalizeAndValidateForJudge r0 of Inl err \<Rightarrow> Inl (ResultInvalid err)
      | Inr r \<Rightarrow>
     (case ji_prompt inp of None \<Rightarrow> Inl PromptUnread
      | Some prompt \<Rightarrow>
     (case ji_window inp of None \<Rightarrow> Inl WindowUnread
      | Some w \<Rightarrow>
     (case ji_summary inp of None \<Rightarrow> Inl ReplayFailed
      | Some s \<Rightarrow>
          (let q = judged_result j jt inp prompt w s r; why = passesAcceptance j prompt q; x = er_experiment q;
               x1 = (if xr_approval x = [] then x\<lparr>xr_approval := ''approval-'' @ xr_id x\<rparr> else x);
               (status, reason, lines) = verdict_of why inp
           in case TransitionAndPublish (jd_publisher j) status x1 of
                Inl err \<Rightarrow> Inl (StatusError err)
              | Inr (x2, events) \<Rightarrow>
                  if \<not> ji_stored inp then Inl StoreFailed
                  else Inr (q\<lparr>er_judge_checks := er_judge_checks q @ [jt_note jt why], er_notes := er_notes q @ lines,
                              er_experiment := (if status = ExperimentRejected then x2\<lparr>xr_revert_reason := reason\<rparr> else x2)\<rparr>,
                            events)))))))"

section \<open>Facts\<close>

text \<open>
  Welch's test gives zero below 63 returns, so between 2 and 62 returns no experiment passes; with fewer than two there are not enough
  observations.
\<close>

lemma short_samples_rejected:
  assumes "length (er_baseline_returns r) < 63" "er_baseline_obs r = int (length (er_baseline_returns r))"
    "er_candidate_obs r = int (length (er_candidate_returns r))"
    "flt (Fin 0) (ep_welch (jd_params j))" "2 \<le> required_observations j r"
  shows "passesAcceptance j prompt r \<noteq> None"
proof (cases "2 \<le> length (er_baseline_returns r) \<and> 2 \<le> length (er_candidate_returns r)")
  case True
  have "flt (fabs (fst (welchTTest (er_baseline_returns r) (er_candidate_returns r)))) (ep_welch (jd_params j))"
    using assms(1,4) by (simp add: welch_short)
  with True show ?thesis unfolding passesAcceptance_def Let_def by simp
next
  case False
  then have "er_baseline_obs r < required_observations j r \<or> er_candidate_obs r < required_observations j r"
    using assms(2,3,5) by auto
  then show ?thesis unfolding passesAcceptance_def Let_def by simp
qed

lemma judged_returns [simp]:
  "er_baseline_returns (judged_result j jt inp prompt w s r) = rs_baseline_returns s"
  "er_candidate_returns (judged_result j jt inp prompt w s r) = rs_candidate_returns s"
  "er_baseline_obs (judged_result j jt inp prompt w s r) = rs_baseline_obs s"
  "er_candidate_obs (judged_result j jt inp prompt w s r) = rs_candidate_obs s"
  "er_brief (judged_result j jt inp prompt w s r) = er_brief r"
  "xr_mutation (er_experiment (judged_result j jt inp prompt w s r)) = xr_mutation (er_experiment r)"
  "xr_status (er_experiment (judged_result j jt inp prompt w s r)) = xr_status (er_experiment r)"
  "xr_candidate (er_experiment (judged_result j jt inp prompt w s r)) = rs_candidate s"
  "xr_baseline (er_experiment (judged_result j jt inp prompt w s r)) = rs_baseline s"
  by (simp_all add: judged_result_def scored_result_def with_metrics_def addRegimeConditionalChecks_def Let_def split: option.split)

text \<open>The lines about the regimes are overwritten: the checks of the judged result do not depend on the regime history.\<close>

lemma regime_lines_overwritten: "er_judge_checks (judged_result j jt inp prompt w s r) = final_checks j jt inp prompt s r"
  by (simp add: judged_result_def Let_def)

lemma validated_status: "NormalizeAndValidateForJudge r0 = Inr r \<Longrightarrow> xr_status (er_experiment r) = xr_status (er_experiment r0)"
  by (auto simp: NormalizeAndValidateForJudge_def filled_experiment_def Let_def split: if_splits sum.splits)

lemma published_status:
  "TransitionAndPublish p next x = Inr (y, events) \<Longrightarrow> xr_status y = next \<and> CanTransitionExperimentStatus (xr_status x) next"
  by (auto simp: TransitionAndPublish_def TransitionExperimentStatus_def split: sum.splits if_splits)

lemma published_mutation: "TransitionAndPublish p next x = Inr (y, events) \<Longrightarrow> xr_mutation y = xr_mutation x"
  by (auto simp: TransitionAndPublish_def TransitionExperimentStatus_def split: sum.splits if_splits)

lemma judged_kept [simp]:
  "er_brief (judged_result j jt inp prompt w s r) = er_brief r"
  "xr_mutation (er_experiment (judged_result j jt inp prompt w s r)) = xr_mutation (er_experiment r)"
  by (simp_all add: judged_result_def scored_result_def with_metrics_def addRegimeConditionalChecks_def Let_def split: option.split)

lemma Evaluate_accepted:
  assumes "Evaluate j jt inp = Inr (r', events)" "xr_status (er_experiment r') = ExperimentAccepted"
  obtains r0 r prompt w s where "ji_result inp = Some r0" "NormalizeAndValidateForJudge r0 = Inr r" "ji_prompt inp = Some prompt"
    "ji_window inp = Some w" "ji_summary inp = Some s" "passesAcceptance j prompt (judged_result j jt inp prompt w s r) = None"
    "ji_oos_error inp = None" "oos_passed (ji_oos inp)" "CanTransitionExperimentStatus (xr_status (er_experiment r0)) ExperimentAccepted"
    "xr_mutation (er_experiment r') = xr_mutation (er_experiment r)"
proof -
  from assms(1) obtain r0 r prompt w s where in': "ji_result inp = Some r0" "NormalizeAndValidateForJudge r0 = Inr r" "ji_prompt inp = Some prompt"
    "ji_window inp = Some w" "ji_summary inp = Some s"
    unfolding Evaluate_def by (auto split: option.splits sum.splits)
  define q why where "q = judged_result j jt inp prompt w s r" and "why = passesAcceptance j prompt q"
  obtain status reason lines where v: "verdict_of why inp = (status, reason, lines)" by (cases "verdict_of why inp") auto
  define x1 where "x1 = (if xr_approval (er_experiment q) = [] then (er_experiment q)\<lparr>xr_approval := ''approval-'' @ xr_id (er_experiment q)\<rparr>
    else er_experiment q)"
  have ev: "Evaluate j jt inp = (case TransitionAndPublish (jd_publisher j) status x1 of
                Inl err \<Rightarrow> Inl (StatusError err)
              | Inr (x2, events) \<Rightarrow>
                  if \<not> ji_stored inp then Inl StoreFailed
                  else Inr (q\<lparr>er_judge_checks := er_judge_checks q @ [jt_note jt why], er_notes := er_notes q @ lines,
                              er_experiment := (if status = ExperimentRejected then x2\<lparr>xr_revert_reason := reason\<rparr> else x2)\<rparr>,
                            events))"
    unfolding Evaluate_def in' option.case sum.case Let_def q_def [symmetric] why_def [symmetric] v prod.case x1_def [symmetric] ..
  with assms(1) obtain x2 where x2: "TransitionAndPublish (jd_publisher j) status x1 = Inr (x2, events)"
    "r' = q\<lparr>er_judge_checks := er_judge_checks q @ [jt_note jt why], er_notes := er_notes q @ lines,
       er_experiment := (if status = ExperimentRejected then x2\<lparr>xr_revert_reason := reason\<rparr> else x2)\<rparr>"
    by (auto split: sum.splits prod.splits if_splits)
  have st: "status = ExperimentAccepted" using published_status [OF x2(1)] assms(2) x2(2) by (auto split: if_splits)
  then have "why = None" "ji_oos_error inp = None" "oos_passed (ji_oos inp)"
    using v by (auto simp: verdict_of_def status_defs split: if_splits option.splits)
  moreover have "CanTransitionExperimentStatus (xr_status (er_experiment r0)) ExperimentAccepted"
    using published_status [OF x2(1)] st validated_status [OF in'(2)] by (simp add: x1_def q_def split: if_splits)
  moreover have "xr_mutation (er_experiment r') = xr_mutation (er_experiment r)"
    using published_mutation [OF x2(1)] x2(2) by (simp add: x1_def q_def judged_kept)
  ultimately show thesis using that in' by (simp add: why_def q_def)
qed

lemma Evaluate_accepts:
  assumes "ji_result inp = Some r0" "NormalizeAndValidateForJudge r0 = Inr r" "ji_prompt inp = Some prompt" "ji_window inp = Some w"
    "ji_summary inp = Some s" "passesAcceptance j prompt (judged_result j jt inp prompt w s r) = None" "ji_oos_error inp = None"
    "oos_passed (ji_oos inp)" "ji_stored inp" "CanTransitionExperimentStatus (xr_status (er_experiment r0)) ExperimentAccepted"
  shows "\<exists>r' events. Evaluate j jt inp = Inr (r', events) \<and> xr_status (er_experiment r') = ExperimentAccepted"
proof -
  define q where "q = judged_result j jt inp prompt w s r"
  have "xr_status (er_experiment q) = xr_status (er_experiment r0)" using validated_status [OF assms(2)] by (simp add: q_def)
  then show ?thesis
    unfolding Evaluate_def assms(1-6) option.case sum.case Let_def verdict_of_def q_def [symmetric]
    using assms(6-10) by (simp add: q_def [symmetric] TransitionAndPublish_def TransitionExperimentStatus_def status_defs)
qed

text \<open>A running experiment with readable inputs is always decided.\<close>

lemma Evaluate_returns:
  assumes "ji_result inp = Some r0" "NormalizeAndValidateForJudge r0 = Inr r" "ji_prompt inp = Some prompt" "ji_window inp = Some w"
    "ji_summary inp = Some s" "ji_stored inp" "xr_status (er_experiment r0) = ExperimentRunning"
  shows "\<exists>r' events. Evaluate j jt inp = Inr (r', events)"
proof -
  define q why where "q = judged_result j jt inp prompt w s r" and "why = passesAcceptance j prompt q"
  have running: "xr_status (er_experiment q) = ExperimentRunning" using validated_status [OF assms(2)] assms(7) by (simp add: q_def)
  obtain status reason lines where v: "verdict_of why inp = (status, reason, lines)" by (cases "verdict_of why inp") auto
  then have "status = ExperimentAccepted \<or> status = ExperimentRejected" by (auto simp: verdict_of_def split: if_splits option.splits)
  then have "CanTransitionExperimentStatus ExperimentRunning status"
    by (auto simp: CanTransitionExperimentStatus_def status_defs)
  then show ?thesis
    unfolding Evaluate_def assms(1-5) option.case sum.case Let_def q_def [symmetric] why_def [symmetric] v prod.case
    using assms(6) running by (simp add: TransitionAndPublish_def TransitionExperimentStatus_def)
qed

lemma passing_result:
  assumes "passesAcceptance j prompt r = None"
  shows "jd_maturity j \<noteq> Some MaturityBurnIn" "xr_gates (er_experiment r) \<noteq> []"
    "required_observations j r \<le> er_baseline_obs r" "required_observations j r \<le> er_candidate_obs r"
    "\<not> fle (xr_candidate (er_experiment r)) (xr_baseline (er_experiment r))"
  using assms unfolding passesAcceptance_def Let_def by (auto split: if_splits)

text \<open>The smallest number of observations that any maturity level asks for.\<close>

definition least_observations :: "experiment_params \<Rightarrow> int" where
  "least_observations ep = min (ep_level1 ep) (min (ep_level2 ep) (ep_level3 ep))"

lemma least_required: "least_observations (jd_params j) \<le> required_observations j r"
  by (simp add: least_observations_def required_observations_def requiredObservationCountForProfile_def
      requiredObservationCountForMaturity_def min_def)

text \<open>The numbers of observations that the maturity of a brief and the type of a mutation ask for, as a table.\<close>

definition observations_asked :: "experiment_params \<Rightarrow> string \<Rightarrow> string \<Rightarrow> int" where
  "observations_asked ep maturity mutation =
     (if maturity = ''level_3_regime_aware'' then ep_level3 ep
      else if maturity \<in> {''level_2_window_validated'', ''level_2_validated''} then ep_level2 ep
      else ep_level1 ep) +
     (if mutation \<in> {''risk_rule_change'', ''portfolio_constraint_revision''} then 1 else 0)"

lemma observations_required:
  "required_observations j r = observations_asked (jd_params j) (mb_maturity (er_brief r)) (xr_mutation (er_experiment r))"
  by (simp add: observations_asked_def required_observations_def requiredObservationCountForProfile_def
      requiredObservationCountForMaturity_def)

lemma validated_maturity: "NormalizeAndValidateForJudge r0 = Inr r \<Longrightarrow> mb_maturity (er_brief r) = mb_maturity (er_brief r0)"
  by (auto simp: NormalizeAndValidateForJudge_def NormalizeAndValidate_def Let_def split: if_splits sum.splits)

text \<open>C5 (safety). The judge accepts an experiment only when it was running (or accepted already), outside burn-in, on at least the number
  of observations on both sides that the maturity level of its brief asks for (one more for a risk rule change or a portfolio constraint
  revision, the mutation type being that of the stored result), with a candidate score that does not compare as less than or equal to the
  baseline score, and after an out-of-sample validation that ran without an error and passed.\<close>
theorem accepted_experiments_are_validated:
  assumes "Evaluate j jt inp = Inr (r', events)" "xr_status (er_experiment r') = ExperimentAccepted"
  shows "\<exists>r0 s. ji_result inp = Some r0 \<and> ji_summary inp = Some s \<and>
    xr_status (er_experiment r0) \<in> {ExperimentRunning, ExperimentAccepted} \<and> jd_maturity j \<noteq> Some MaturityBurnIn \<and>
    observations_asked (jd_params j) (mb_maturity (er_brief r0)) (xr_mutation (er_experiment r')) \<le> rs_baseline_obs s \<and>
    observations_asked (jd_params j) (mb_maturity (er_brief r0)) (xr_mutation (er_experiment r')) \<le> rs_candidate_obs s \<and>
    \<not> fle (rs_candidate s) (rs_baseline s) \<and> ji_oos_error inp = None \<and> oos_passed (ji_oos inp)"
proof -
  from Evaluate_accepted [OF assms] obtain r0 r prompt w s where e: "ji_result inp = Some r0" "ji_summary inp = Some s"
    "NormalizeAndValidateForJudge r0 = Inr r"
    "passesAcceptance j prompt (judged_result j jt inp prompt w s r) = None" "ji_oos_error inp = None" "oos_passed (ji_oos inp)"
    "CanTransitionExperimentStatus (xr_status (er_experiment r0)) ExperimentAccepted"
    "xr_mutation (er_experiment r') = xr_mutation (er_experiment r)" by metis
  then have "required_observations j (judged_result j jt inp prompt w s r) =
      observations_asked (jd_params j) (mb_maturity (er_brief r0)) (xr_mutation (er_experiment r'))"
    by (simp add: observations_required validated_maturity)
  with e passing_result [OF e(4)] show ?thesis by (auto simp: accepted_from_running)
qed

definition demo_judge :: judge where
  "demo_judge = \<lparr>jd_params = default_experiment_params, jd_weights = \<lparr>wt_snapshot = \<lambda>s. None, wt_current = None\<rparr>, jd_pipeline = True,
     jd_history = False, jd_maturity = Some MaturityFullAuto, jd_trials = None,
     jd_math = \<lparr>ml_log = \<lambda>x. x, ml_erfc = \<lambda>x. x, ml_pow = \<lambda>x y. x\<rparr>, jd_e = Fin (27 / 10), jd_publisher = True\<rparr>"

definition demo_texts :: judge_texts where
  "demo_texts = \<lparr>jt_count = \<lambda>s n. s, jt_reject = \<lambda>s v. v, jt_drift = \<lambda>b x. [], jt_history = [], jt_regime = \<lambda>rs n. [], jt_note = \<lambda>w. []\<rparr>"

definition demo_running :: experiment_result where
  "demo_running = (let r = demo_accepted ''e'' ''prompt_tightening'' in r\<lparr>er_experiment := (er_experiment r)\<lparr>xr_status := ExperimentRunning\<rparr>, er_brief := (er_brief r)\<lparr>mb_proposal := ''p''\<rparr>\<rparr>)"

definition demo_oos :: oos_result where
  "demo_oos = \<lparr>oos_passed = True, oos_baseline = Fin 0, oos_candidate = Fin 1, oos_improvement = Fin 1, oos_observations = 5, oos_start = 0,
     oos_end = 0, oos_fallback = False, oos_at = 0, oos_reason = ''OOS validation passed''\<rparr>"

definition demo_summary :: replay_summary where
  "demo_summary = \<lparr>rs_baseline = Fin 0, rs_candidate = Fin 1, rs_baseline_obs = 5, rs_candidate_obs = 5, rs_fallback = False,
     rs_baseline_returns = [], rs_candidate_returns = [], rs_baseline_stats = (0, 0), rs_candidate_stats = (0, 0),
     rs_baseline_ntd = Fin 0, rs_candidate_ntd = Fin 0\<rparr>"

definition demo_input :: judge_input where
  "demo_input = \<lparr>ji_result = Some demo_running, ji_prompt = Some ''p'', ji_window = Some (0, 0), ji_summary = Some demo_summary,
     ji_regimes = None, ji_snapshot = SnapshotMissing, ji_oos = demo_oos, ji_oos_error = None, ji_importance = [], ji_now = 0,
     ji_stored = True\<rparr>"

lemma demo_brief: "valid_brief (er_brief demo_running)"
proof -
  have b: "\<not> blank [c]" if "\<not> ascii_space c" "c \<notin> \<Union> (set ` set wide_spaces)" for c
    using that by (intro not_blank_ascii [of c]) auto
  have "\<not> blank ''w''" "\<not> blank ''p''" by (rule b, simp add: ascii_space_def, simp add: wide_spaces_def)+
  moreover have "\<not> blank ''agent''" "\<not> blank ''momentum''" "\<not> blank ''sharpe_like''"
    by (rule not_blank_ascii [of "CHR ''e''"], simp, simp add: ascii_space_def, simp add: wide_spaces_def)+
  ultimately show ?thesis
    by (simp add: valid_brief_def demo_running_def Let_def demo_accepted_def IsSupportedMutationType_def supportedMutationTypes_def
        isValidAgentLayer_def LayerStyle_def)
qed

lemma demo_valid: "NormalizeAndValidateForJudge demo_running =
  Inr (demo_running\<lparr>er_experiment := filled_experiment (er_brief demo_running) (er_experiment demo_running)\<rparr>)"
proof -
  have "\<not> blank ''e''" "\<not> blank ''candidate''" "\<not> blank ''agent''" "\<not> blank ''momentum''"
    by (rule not_blank_ascii [of "CHR ''e''"], simp, simp add: ascii_space_def, simp add: wide_spaces_def)+
  then show ?thesis using demo_brief
    by (simp add: NormalizeAndValidateForJudge_def valid_brief_returned)
      (simp add: demo_running_def Let_def demo_accepted_def filled_experiment_def fill_def IsSupportedMutationType_def supportedMutationTypes_def)
qed

lemma demo_passes:
  assumes "xr_gates (er_experiment r) = [''improve_sharpe_like'']"
    "mb_maturity (er_brief r) = []" "xr_mutation (er_experiment r) = ''prompt_tightening''"
  shows "passesAcceptance demo_judge prompt (judged_result demo_judge jt inp prompt w demo_summary r) = None"
proof -
  let ?q = "judged_result demo_judge jt inp prompt w demo_summary r"
  have g: "xr_gates (er_experiment ?q) = [''improve_sharpe_like'']" using assms(1)
    by (simp add: judged_result_def scored_result_def with_metrics_def Let_def demo_summary_def demo_judge_def)
  have req: "required_observations demo_judge ?q = 3"
    using assms(2,3) by (simp add: required_observations_def requiredObservationCountForProfile_def requiredObservationCountForMaturity_def
        demo_judge_def default_experiment_params_def)
  have imp: "\<not> flt (fsub (Fin 1) (Fin 0)) (requiredImprovementForProfile default_experiment_params ''prompt_tightening'')"
  proof -
    have "is_f64 (Fin 1)" using is_f64_rnd [of 1] by simp
    then have "fle (f64_const (5 / 10 ^ 4)) (Fin 1)" unfolding f64_const_def by (rule rnd_le) simp
    moreover have "fsub (Fin 1) (Fin 0) = Fin 1" by (simp add: fsub_def)
    ultimately show ?thesis
      by (cases "f64_const (5 / 10 ^ 4)") (simp_all add: requiredImprovementForProfile_def default_experiment_params_def)
  qed
  have d: "jd_maturity demo_judge = Some MaturityFullAuto" "jd_pipeline demo_judge" "jd_params demo_judge = default_experiment_params"
    by (simp_all add: demo_judge_def)
  have m: "rs_baseline demo_summary = Fin 0" "rs_candidate demo_summary = Fin 1" "rs_baseline_obs demo_summary = 5"
    "rs_candidate_obs demo_summary = 5" "rs_baseline_returns demo_summary = []" "rs_candidate_returns demo_summary = []"
    by (simp_all add: demo_summary_def)
  have f: "er_fallback_window ?q = False"
    by (simp add: judged_result_def scored_result_def with_metrics_def Let_def demo_summary_def demo_judge_def)
  have gates: "pipeline_gates default_experiment_params prompt ?q [''improve_sharpe_like''] = None"
    by (simp add: Get_def registry_def Register_def ImproveSharpeLike_def reject_if_def m)
  have dsr: "deflatedSharpeGate demo_judge ?q = None" by (simp add: deflatedSharpeGate_def m)
  show ?thesis unfolding passesAcceptance_def Let_def judged_returns m g req d f assms(3) gates dsr
    using imp d(2) by simp
qed

lemma accepted_experiments_are_validated_witness:
  "\<exists>r' events. Evaluate demo_judge demo_texts demo_input = Inr (r', events) \<and> xr_status (er_experiment r') = ExperimentAccepted \<and>
     (\<exists>r0 s. ji_result demo_input = Some r0 \<and> ji_summary demo_input = Some s \<and>
        observations_asked (jd_params demo_judge) (mb_maturity (er_brief r0)) (xr_mutation (er_experiment r')) \<le> rs_candidate_obs s)"
proof -
  let ?r = "demo_running\<lparr>er_experiment := filled_experiment (er_brief demo_running) (er_experiment demo_running)\<rparr>"
  have "passesAcceptance demo_judge ''p'' (judged_result demo_judge demo_texts demo_input ''p'' (0, 0) demo_summary ?r) = None"
    by (rule demo_passes) (simp_all add: demo_running_def Let_def demo_accepted_def filled_experiment_def fill_def)
  moreover have "ji_result demo_input = Some demo_running" "ji_prompt demo_input = Some ''p''" "ji_window demo_input = Some (0, 0)"
    "ji_summary demo_input = Some demo_summary" "ji_oos_error demo_input = None" "oos_passed (ji_oos demo_input)" "ji_stored demo_input"
    by (simp_all add: demo_input_def demo_oos_def)
  moreover have "CanTransitionExperimentStatus (xr_status (er_experiment demo_running)) ExperimentAccepted"
    by (simp add: demo_running_def Let_def accepted_from_running)
  ultimately have "\<exists>r' events. Evaluate demo_judge demo_texts demo_input = Inr (r', events) \<and> xr_status (er_experiment r') = ExperimentAccepted"
    using demo_valid by (intro Evaluate_accepts)
  with accepted_experiments_are_validated [of demo_judge demo_texts demo_input] show ?thesis by blast
qed

end
