(* ===== verification/Exp_Auto.thy ===== *)
theory Exp_Auto
  imports Exp_Judge Base_Revert
begin

text \<open>
  The daily pass over the pending experiments, \<open>internal/experiment/auto_judge_promoter.go\<close>, the choice of the pending results in
  \<open>auto.go\<close> and the expiry of result files, \<open>ttl.go\<close>.

  What the world answers during one promotion is an \<open>attempt\<close>: the clock, whether the temporary copy of the result could be written
  (numbers that are not finite cannot), the candidate file that the promotion reads, and the steps of the policy write.
\<close>

section \<open>Pending results\<close>

definition staleRunningTTL :: duration where
  "staleRunningTTL = 30 * 24 * hour"

definition stuck_running :: "time \<Rightarrow> experiment_result \<Rightarrow> bool" where
  "stuck_running now r \<longleftrightarrow> xr_status (er_experiment r) = ExperimentRunning \<and> er_recorded_at r \<noteq> zero_time \<and>
     staleRunningTTL < time_sub now (er_recorded_at r)"

text \<open>The files of the directory in the order of their names; one that is not read or not decoded is skipped.\<close>

definition LoadPendingExperiments :: "time \<Rightarrow> experiment_result option list \<Rightarrow> experiment_result list" where
  "LoadPendingExperiments now files =
     filter (\<lambda>r. xr_status (er_experiment r) \<notin> {ExperimentAccepted, ExperimentRejected, ExperimentExpired} \<and> \<not> stuck_running now r)
       (List.map_filter (\<lambda>f. f) files)"

text \<open>One file of \<open>ExpireOldExperiments\<close>: what was read, whether it could be written, and whether the file counts as expired.\<close>

definition expire_file :: "time \<Rightarrow> duration \<Rightarrow> (duration \<Rightarrow> string) \<Rightarrow> bool \<Rightarrow> experiment_result option \<Rightarrow> bool \<times> experiment_result option" where
  "expire_file now ttl ttl_text written f =
     (case f of
        None \<Rightarrow> (False, None)
      | Some r \<Rightarrow>
          (if xr_status (er_experiment r) \<noteq> ExperimentPlanned \<and> xr_status (er_experiment r) \<noteq> ExperimentRunning then (False, f)
           else if er_recorded_at r = zero_time \<or> now - ttl < er_recorded_at r then (False, f)
           else (case TransitionExperimentStatus ExperimentExpired (er_experiment r) of
                   Inl _ \<Rightarrow> (False, f)
                 | Inr x \<Rightarrow>
                     if \<not> written then (False, f)
                     else (True, Some (r\<lparr>er_experiment := x\<lparr>xr_revert_reason := ''Auto-expired after '' @ ttl_text ttl\<rparr>, er_recorded_at := now\<rparr>)))))"

definition ExpireOldExperiments ::
  "time \<Rightarrow> duration \<Rightarrow> (duration \<Rightarrow> string) \<Rightarrow> (bool \<times> experiment_result option) list \<Rightarrow> int \<times> experiment_result option list" where
  "ExpireOldExperiments now ttl ttl_text files =
     (let out = map (\<lambda>(w, f). expire_file now ttl ttl_text w f) files in (int (length (filter fst out)), map snd out))"

section \<open>The promoter\<close>

record promoter =
  ap_judge :: judge
  ap_manager :: bool
  ap_tracker :: "maturity option"
  ap_min :: int
  ap_cooldown :: duration
  ap_recorder :: bool

definition NewAutoJudgePromoter :: "judge \<Rightarrow> bool \<Rightarrow> promoter" where
  "NewAutoJudgePromoter j mgr = \<lparr>ap_judge = j, ap_manager = mgr, ap_tracker = None, ap_min = 63, ap_cooldown = 7 * 24 * hour, ap_recorder = False\<rparr>"

text \<open>What the passes change: the files of the policy, the time of the last promotion and the promotions reported to the recorder.\<close>

record promoter_state =
  as_files :: policy_files
  as_last :: time
  as_recorded :: "string list"

record attempt =
  at_now :: time
  at_copied :: bool
  at_candidate :: "string option"
  at_steps :: write_steps

datatype promote_error = NoManager | CopyRefused | PromoteRefused policy_error

datatype auto_outcome = Deferred | Promoted | PromoteFailed promote_error | Reverted

record evaluation =
  av_experiment :: string
  av_accepted :: bool
  av_why :: "rejection option"
  av_outcome :: auto_outcome
  av_at :: time

definition isJudgeable :: "promoter \<Rightarrow> time \<Rightarrow> experiment_result \<Rightarrow> bool" where
  "isJudgeable p now r \<longleftrightarrow> ap_min p \<le> er_baseline_obs r \<and> ap_min p \<le> er_candidate_obs r \<and> 3 * 24 * hour \<le> time_sub now (er_recorded_at r)"

definition autoPromote ::
  "baseline_params \<Rightarrow> string \<Rightarrow> promoter \<Rightarrow> attempt \<Rightarrow> experiment_result \<Rightarrow> promoter_state \<Rightarrow> promote_error option \<times> promoter_state" where
  "autoPromote cfg path p a r s =
     (if \<not> ap_manager p then (Some NoManager, s)
      else if \<not> at_copied a then (Some CopyRefused, s)
      else (case PromoteResult cfg (at_now a) (at_steps a) path (Some r) (at_candidate a) (as_files s) of
              (Inl err, fs) \<Rightarrow> (Some (PromoteRefused err), s\<lparr>as_files := fs\<rparr>)
            | (Inr _, fs) \<Rightarrow>
                (None, s\<lparr>as_files := fs,
                  as_recorded := (if ap_recorder p then as_recorded s @ [xr_id (er_experiment r)] else as_recorded s)\<rparr>)))"

definition last_target :: revert_target where
  "last_target = \<lparr>rt_type = ''last'', rt_version = 0, rt_experiment = []\<rparr>"

definition autoRevert ::
  "baseline_params \<Rightarrow> string \<Rightarrow> promoter \<Rightarrow> attempt \<Rightarrow> string \<Rightarrow> promoter_state \<Rightarrow> promoter_state" where
  "autoRevert cfg path p a reason s =
     (if \<not> ap_manager p then s
      else s\<lparr>as_files := snd (Revert cfg (at_now a) (at_steps a) path last_target reason False (as_files s))\<rparr>)"

text \<open>One pending experiment; the decision is made without a prompt.  \<open>note\<close> renders the reason.\<close>

definition judge_pending ::
  "baseline_params \<Rightarrow> string \<Rightarrow> promoter \<Rightarrow> (rejection option \<Rightarrow> string) \<Rightarrow> time \<Rightarrow> attempt \<Rightarrow> experiment_result \<Rightarrow> promoter_state
     \<Rightarrow> evaluation option \<times> promoter_state" where
  "judge_pending cfg path p note now a r s =
     (if stuck_running now r \<or> xr_status (er_experiment r) = ExperimentExpired \<or> \<not> isJudgeable p now r then (None, s)
      else
        (let why = passesAcceptance (ap_judge p) [] r;
             ev = (\<lambda>out. Some \<lparr>av_experiment = xr_id (er_experiment r), av_accepted = (why = None), av_why = why, av_outcome = out, av_at = now\<rparr>)
         in if why = None then
              (if time_sub now (as_last s) < ap_cooldown p then (ev Deferred, s)
               else (case autoPromote cfg path p a r s of
                       (Some err, s') \<Rightarrow> (ev (PromoteFailed err), s')
                     | (None, s') \<Rightarrow> (ev Promoted, s'\<lparr>as_last := now\<rparr>)))
            else (ev Reverted, autoRevert cfg path p a (note why) s)))"

fun judge_all ::
  "baseline_params \<Rightarrow> string \<Rightarrow> promoter \<Rightarrow> (rejection option \<Rightarrow> string) \<Rightarrow> time \<Rightarrow> (attempt \<times> experiment_result) list \<Rightarrow> promoter_state
     \<Rightarrow> evaluation list \<times> promoter_state" where
  "judge_all cfg path p note now [] s = ([], s)"
| "judge_all cfg path p note now ((a, r) # rest) s =
     (let (e, s1) = judge_pending cfg path p note now a r s; (es, s2) = judge_all cfg path p note now rest s1
      in (case e of None \<Rightarrow> es | Some ev \<Rightarrow> ev # es, s2))"

definition RunDaily ::
  "baseline_params \<Rightarrow> string \<Rightarrow> promoter \<Rightarrow> (rejection option \<Rightarrow> string) \<Rightarrow> time \<Rightarrow> (attempt \<times> experiment_result) list \<Rightarrow> promoter_state
     \<Rightarrow> evaluation list \<times> promoter_state" where
  "RunDaily cfg path p note now pending s =
     (if ap_tracker p = Some MaturityBurnIn then ([], s) else judge_all cfg path p note now pending s)"

text \<open>A promotion from a result file; \<open>t1\<close> is the clock at the check and \<open>t2\<close> the clock after the promotion.\<close>

datatype try_outcome = TryNoManager | TryCooling | TryFailed policy_error | TryPromoted

definition TryPromoteFromPath ::
  "baseline_params \<Rightarrow> string \<Rightarrow> promoter \<Rightarrow> time \<Rightarrow> time \<Rightarrow> write_steps \<Rightarrow> experiment_result option \<Rightarrow> string option \<Rightarrow> promoter_state
     \<Rightarrow> try_outcome \<times> promoter_state" where
  "TryPromoteFromPath cfg path p t1 t2 w res cand s =
     (if \<not> ap_manager p then (TryNoManager, s)
      else if time_sub t1 (as_last s) < ap_cooldown p then (TryCooling, s)
      else (case PromoteResult cfg t1 w path res cand (as_files s) of
              (Inl err, fs) \<Rightarrow> (TryFailed err, s\<lparr>as_files := fs\<rparr>)
            | (Inr _, fs) \<Rightarrow> (TryPromoted, s\<lparr>as_files := fs, as_last := t2\<rparr>)))"

section \<open>Policies only lose promotions\<close>

text \<open>A policy that was loaded stays loadable and keeps a prefix of its promotions; one that was not loaded is not written.\<close>

definition shrinks :: "baseline_params \<Rightarrow> string \<Rightarrow> policy_files \<Rightarrow> policy_files \<Rightarrow> bool" where
  "shrinks cfg path fs fs' \<longleftrightarrow>
     (case Load cfg path fs of
        Inl _ \<Rightarrow> fs' = fs
      | Inr p \<Rightarrow> \<exists>p' n. Load cfg path fs' = Inr p' \<and> bp_promotions p' = take n (bp_promotions p))"

lemma shrinks_refl [simp]: "shrinks cfg path fs fs"
  unfolding shrinks_def by (cases "Load cfg path fs") (auto intro: take_all [symmetric])

lemma shrinks_trans: "shrinks cfg path fs fs' \<Longrightarrow> shrinks cfg path fs' fs'' \<Longrightarrow> shrinks cfg path fs fs''"
  unfolding shrinks_def by (auto split: sum.splits simp: take_take)

lemma saving_shrinks:
  assumes "Load cfg path fs = Inr p" "SaveWithLock now w path q fs = (err, fs')" "well_formed q" "bp_promotions q = take n (bp_promotions p)"
    "path \<noteq> [] \<Longrightarrow> pf_main fs \<noteq> FileMissing"
  shows "shrinks cfg path fs fs'"
proof (cases err)
  case None
  have "path \<noteq> []" using assms(2) None by (auto simp: SaveWithLock_def)
  then have "Load cfg path fs' = Inr (q\<lparr>bp_updated := now\<rparr>)"
    using policy_load_saved [OF assms(2) [unfolded None] _ assms(3)] by simp
  with assms(1,4) show ?thesis by (auto simp: shrinks_def)
next
  case (Some e)
  show ?thesis
  proof (cases "fs' = fs")
    case True
    then show ?thesis by simp
  next
    case False
    then have path: "path \<noteq> []" using assms(2) by (auto simp: SaveWithLock_def)
    with False assms(5) have "pf_main fs' = pf_main fs \<or> pf_main fs' = FileMissing"
      using assms(2) Some by (auto simp: SaveWithLock_def LockedWriteFileWithRollback_def Let_def split: if_splits)
    then show ?thesis
    proof
      assume "pf_main fs' = pf_main fs"
      then have "Load cfg path fs' = Load cfg path fs" unfolding Load_def by simp
      then have "Load cfg path fs' = Inr p" using assms(1) by simp
      with assms(1) show ?thesis by (auto simp: shrinks_def intro: exI [of _ "length (bp_promotions p)"])
    next
      assume "pf_main fs' = FileMissing"
      then have "Load cfg path fs' = Inr (DefaultPolicy cfg)" using path by (simp add: Load_def)
      with assms(1) show ?thesis by (auto simp: shrinks_def DefaultPolicy_def intro: exI [of _ 0])
    qed
  qed
qed

lemma revert_shrinks: "shrinks cfg path fs (snd (Revert cfg now w path target reason False fs))"
proof (cases "Load cfg path fs")
  case (Inl err)
  then show ?thesis by (simp add: Revert_def)
next
  case (Inr p)
  show ?thesis
  proof (cases "resolveTargetVersion p target")
    case (Inl err)
    with Inr show ?thesis by (simp add: Revert_def)
  next
    case v: (Inr v)
    have v1: "1 \<le> v" using v target_positive by (auto simp: resolveTargetVersion_def)
    show ?thesis
    proof (cases "v < bp_version p")
      case True
      define q where "q = (let r = reconstructPolicyAtVersion cfg p v in r\<lparr>bp_reverts := bp_reverts r @
        [\<lparr>rv_from = bp_version p, rv_to = v, rv_experiments = findRevertedExperiments p v, rv_reason = reason, rv_at = now\<rparr>]\<rparr>)"
      have wf: "well_formed q"
        using well_formed_reconstructed [OF v1 well_formed_loaded [OF Inr]] by (simp add: q_def Let_def well_formed_def)
      have pq: "bp_promotions q = take (nat (v - 1)) (bp_promotions p)"
        by (simp add: q_def Let_def reconstructPolicyAtVersion_def kept_take split: option.split)
      have main: "pf_main fs \<noteq> FileMissing" if "path \<noteq> []"
        using Inr True v1 that by (auto simp: Load_def DefaultPolicy_def)
      have "snd (Revert cfg now w path target reason False fs) = snd (SaveWithLock now w path q fs)"
        using Inr v True by (auto simp: Revert_def q_def Let_def split: prod.splits option.splits)
      with saving_shrinks [OF Inr _ wf pq main] show ?thesis by (metis prod.collapse)
    next
      case False
      then have "snd (Revert cfg now w path target reason False fs) = fs" using Inr v by (auto simp: Revert_def)
      then show ?thesis by simp
    qed
  qed
qed

lemma not_accepted_not_promoted:
  assumes "xr_status (er_experiment r) \<noteq> ExperimentAccepted"
  shows "\<exists>err. PromoteResult cfg now w path (Some r) cand fs = (Inl err, fs)"
  using assms by (auto simp: PromoteResult_def Promote_def split: sum.split option.split)

lemma autoPromote_not_accepted:
  assumes "xr_status (er_experiment r) \<noteq> ExperimentAccepted"
  shows "\<exists>err. autoPromote cfg path p a r s = (Some err, s)"
  using not_accepted_not_promoted [OF assms, of cfg "at_now a" "at_steps a" path "at_candidate a" "as_files s"]
  by (auto simp: autoPromote_def)

lemma judge_not_accepted:
  assumes "xr_status (er_experiment r) \<noteq> ExperimentAccepted" "judge_pending cfg path p note now a r s = (e, s')"
  shows "as_last s' = as_last s \<and> as_recorded s' = as_recorded s \<and> shrinks cfg path (as_files s) (as_files s') \<and>
    (case e of None \<Rightarrow> True | Some ev \<Rightarrow> av_outcome ev \<noteq> Promoted)"
proof -
  obtain err where "autoPromote cfg path p a r s = (Some err, s)" using autoPromote_not_accepted [OF assms(1)] by blast
  then show ?thesis using assms(2)
    by (auto simp: judge_pending_def Let_def autoRevert_def revert_shrinks split: if_splits)
qed

lemma judge_all_not_accepted:
  assumes "\<forall>(a, r) \<in> set pending. xr_status (er_experiment r) \<noteq> ExperimentAccepted" "judge_all cfg path p note now pending s = (es, s')"
  shows "as_last s' = as_last s \<and> as_recorded s' = as_recorded s \<and> shrinks cfg path (as_files s) (as_files s') \<and>
    Promoted \<notin> av_outcome ` set es"
  using assms
proof (induction pending arbitrary: s es s')
  case (Cons x pending)
  obtain a r where x: "x = (a, r)" by (cases x)
  obtain e s1 where 1: "judge_pending cfg path p note now a r s = (e, s1)" by (cases "judge_pending cfg path p note now a r s")
  obtain es2 s2 where 2: "judge_all cfg path p note now pending s1 = (es2, s2)" by (cases "judge_all cfg path p note now pending s1")
  have st: "xr_status (er_experiment r) \<noteq> ExperimentAccepted" using Cons.prems(1) x by simp
  have "es = (case e of None \<Rightarrow> es2 | Some ev \<Rightarrow> ev # es2)" "s' = s2" using Cons.prems(2) by (auto simp: x 1 2)
  with judge_not_accepted [OF st 1] Cons.IH [OF _ 2] Cons.prems(1) show ?case
    by (auto intro: shrinks_trans split: option.splits)
qed simp

section \<open>The daily pass\<close>

text \<open>The pending results of a directory, each with what the world answers.\<close>

definition pending_pass :: "(nat \<Rightarrow> attempt) \<Rightarrow> time \<Rightarrow> experiment_result option list \<Rightarrow> (attempt \<times> experiment_result) list" where
  "pending_pass answers t files = map (\<lambda>(i, r). (answers i, r)) (enumerate 0 (LoadPendingExperiments t files))"

lemma pending_not_accepted: "\<forall>(a, r) \<in> set (pending_pass answers t files). xr_status (er_experiment r) \<noteq> ExperimentAccepted"
  by (auto simp: pending_pass_def LoadPendingExperiments_def dest!: in_set_enumerate_eq [THEN iffD1] nth_mem)

text \<open>The daily pass over the pending results of the state directory never promotes (a fault: the promoter is documented to
  promote the accepted ones): whatever the results, the judge and the
  refused writes, no evaluation ends in a promotion, the cooldown does not start and nothing is reported to the recorder. All that can
  happen to a policy that loads is that it loses its last promotions.\<close>
theorem pending_are_never_promoted:
  "case RunDaily cfg path p note now (pending_pass answers t files) s of
     (es, s') \<Rightarrow> as_last s' = as_last s \<and> as_recorded s' = as_recorded s \<and> Promoted \<notin> av_outcome ` set es \<and>
       shrinks cfg path (as_files s) (as_files s')"
  using judge_all_not_accepted [OF pending_not_accepted]
  by (auto simp: RunDaily_def split: prod.split)

section \<open>The cooldown\<close>

datatype pass =
    DailyPass time "(attempt \<times> experiment_result) list"
  | PathPass time time write_steps "experiment_result option" "string option"

fun run_passes ::
  "baseline_params \<Rightarrow> string \<Rightarrow> promoter \<Rightarrow> (rejection option \<Rightarrow> string) \<Rightarrow> pass list \<Rightarrow> promoter_state \<Rightarrow> time list" where
  "run_passes cfg path p note [] s = []"
| "run_passes cfg path p note (DailyPass now pending # ops) s =
     (let (es, s') = RunDaily cfg path p note now pending s
      in map av_at (filter (\<lambda>e. av_outcome e = Promoted) es) @ run_passes cfg path p note ops s')"
| "run_passes cfg path p note (PathPass t1 t2 w res cand # ops) s =
     (let (out, s') = TryPromoteFromPath cfg path p t1 t2 w res cand s
      in (if out = TryPromoted then [t2] else []) @ run_passes cfg path p note ops s')"

fun clock_runs :: "pass \<Rightarrow> bool" where
  "clock_runs (DailyPass now pending) = True"
| "clock_runs (PathPass t1 t2 w res cand) = (t1 \<le> t2)"

definition apart :: "duration \<Rightarrow> time \<Rightarrow> time \<Rightarrow> bool" where
  "apart c s t \<longleftrightarrow> c \<le> time_sub t s"

lemma apart_trans: "0 < c \<Longrightarrow> apart c s t \<Longrightarrow> apart c t u \<Longrightarrow> apart c s u"
  by (auto simp: apart_def time_sub_def i64_max_def i64_min_def split: if_splits)

lemma judge_cooldown:
  assumes "0 < ap_cooldown p" "judge_pending cfg path p note now a r s = (e, s')"
  shows "(case e of None \<Rightarrow> as_last s' = as_last s
          | Some ev \<Rightarrow> if av_outcome ev = Promoted then av_at ev = now \<and> apart (ap_cooldown p) (as_last s) now \<and> as_last s' = now
                       else as_last s' = as_last s)"
  using assms
  by (auto simp: judge_pending_def Let_def autoRevert_def autoPromote_def apart_def split: if_splits prod.splits sum.splits option.splits)

lemma judge_all_cooldown:
  assumes "0 < ap_cooldown p" "judge_all cfg path p note now pending s = (es, s')"
  shows "(map av_at (filter (\<lambda>e. av_outcome e = Promoted) es) = [] \<and> as_last s' = as_last s) \<or>
    (map av_at (filter (\<lambda>e. av_outcome e = Promoted) es) = [now] \<and> as_last s' = now \<and> apart (ap_cooldown p) (as_last s) now)"
  using assms(2)
proof (induction pending arbitrary: s es s')
  case (Cons x pending)
  obtain a r where x: "x = (a, r)" by (cases x)
  obtain e s1 where 1: "judge_pending cfg path p note now a r s = (e, s1)" by (cases "judge_pending cfg path p note now a r s")
  obtain es2 s2 where 2: "judge_all cfg path p note now pending s1 = (es2, s2)" by (cases "judge_all cfg path p note now pending s1")
  have eq: "es = (case e of None \<Rightarrow> es2 | Some ev \<Rightarrow> ev # es2)" "s' = s2" using Cons.prems by (auto simp: x 1 2)
  have self: "\<not> apart (ap_cooldown p) now now" using assms(1) by (simp add: apart_def time_sub_def i64_max_def i64_min_def)
  from judge_cooldown [OF assms(1) 1] Cons.IH [OF 2] eq self show ?case
    by (cases e) (auto split: if_splits)
qed simp

text \<open>C9 (bounds). Over any sequence of daily passes and promotions from a path, in the life of one promoter, two promotions are
  at least the cooldown apart (seven days as it is built), and so is the first from the time recorded before.\<close>
theorem promotions_keep_the_cooldown:
  assumes "0 < ap_cooldown p" "\<forall>op \<in> set ops. clock_runs op"
  shows "sorted_wrt (\<lambda>s t. ap_cooldown p \<le> time_sub t s) (as_last s # run_passes cfg path p note ops s)"
proof -
  let ?R = "apart (ap_cooldown p)"
  have tr: "transp ?R" using apart_trans [OF assms(1)] by (blast intro: transpI)
  have step: "sorted_wrt ?R (t # ts) \<Longrightarrow> ?R t0 t \<Longrightarrow> sorted_wrt ?R (t0 # t # ts)" for t0 t ts
    using sorted_wrt2 [OF tr] by blast
  have "sorted_wrt ?R (as_last s # run_passes cfg path p note ops s)"
    using assms(2)
  proof (induction ops arbitrary: s)
    case (Cons op ops)
    show ?case
    proof (cases op)
      case (DailyPass now pending)
      obtain es s' where r: "RunDaily cfg path p note now pending s = (es, s')" by (cases "RunDaily cfg path p note now pending s")
      have "(map av_at (filter (\<lambda>e. av_outcome e = Promoted) es) = [] \<and> as_last s' = as_last s) \<or>
          (map av_at (filter (\<lambda>e. av_outcome e = Promoted) es) = [now] \<and> as_last s' = now \<and> ?R (as_last s) now)"
        using judge_all_cooldown [OF assms(1)] r by (auto simp: RunDaily_def split: if_splits)
      with Cons.IH [of s'] Cons.prems show ?thesis
        by (elim disjE conjE) (simp_all add: DailyPass r step del: sorted_wrt.simps)
    next
      case (PathPass t1 t2 w res cand)
      obtain out s' where r: "TryPromoteFromPath cfg path p t1 t2 w res cand s = (out, s')"
        by (cases "TryPromoteFromPath cfg path p t1 t2 w res cand s")
      have "t1 \<le> t2" using Cons.prems PathPass by simp
      then have "if out = TryPromoted then ?R (as_last s) t2 \<and> as_last s' = t2 else as_last s' = as_last s"
        using r by (auto simp: TryPromoteFromPath_def apart_def time_sub_def i64_max_def i64_min_def split: if_splits sum.splits prod.splits)
      with Cons.IH [of s'] Cons.prems show ?thesis
        by (simp add: PathPass r step split: if_splits del: sorted_wrt.simps)
    qed
  qed simp
  then show ?thesis unfolding apart_def [abs_def] .
qed

definition demo_promoter :: promoter where
  "demo_promoter = NewAutoJudgePromoter demo_judge True"

definition demo_fresh :: promoter_state where
  "demo_fresh = \<lparr>as_files = \<lparr>pf_main = FileMissing, pf_backup = FileMissing\<rparr>, as_last = zero_time, as_recorded = []\<rparr>"

definition demo_passes_ops :: "pass list" where
  "demo_passes_ops =
     [PathPass 0 1 all_steps (Some (demo_accepted ''e1'' ''prompt_tightening'')) (Some ''p''),
      PathPass day day all_steps (Some (demo_accepted ''e2'' ''prompt_tightening'')) (Some ''p'')]"

lemma demo_try:
  "\<exists>s'. TryPromoteFromPath demo_params ''policy'' demo_promoter 0 1 all_steps (Some (demo_accepted ''e1'' ''prompt_tightening'')) (Some ''p'')
     demo_fresh = (TryPromoted, s') \<and> as_last s' = 1"
proof -
  have "\<exists>q fs'. PromoteResult demo_params 0 all_steps ''policy'' (Some (demo_accepted ''e1'' ''prompt_tightening'')) (Some ''p'')
      \<lparr>pf_main = FileMissing, pf_backup = FileMissing\<rparr> = (Inr q, fs')"
    by (simp add: PromoteResult_def Load_def Promote_def demo_accepted_def promoted_content_def constraint_mutation_def SaveWithLock_def
        promotion_record_def encodable_def encodable_constraints_def DefaultPolicy_def default_constraints_def demo_params_def
        finite_number_def LockedWriteFileWithRollback_def all_steps_def Let_def)
  then obtain q fs' where "PromoteResult demo_params 0 all_steps ''policy'' (Some (demo_accepted ''e1'' ''prompt_tightening'')) (Some ''p'')
      \<lparr>pf_main = FileMissing, pf_backup = FileMissing\<rparr> = (Inr q, fs')" by blast
  then show ?thesis
    by (simp add: TryPromoteFromPath_def demo_promoter_def NewAutoJudgePromoter_def demo_fresh_def time_sub_def zero_time_def
        i64_max_def i64_min_def)
qed

lemma promotions_keep_the_cooldown_witness:
  "run_passes demo_params ''policy'' demo_promoter (\<lambda>w. []) demo_passes_ops demo_fresh = [1] \<and>
   sorted_wrt (\<lambda>s t. 7 * day \<le> time_sub t s) (zero_time # run_passes demo_params ''policy'' demo_promoter (\<lambda>w. []) demo_passes_ops demo_fresh)"
proof -
  from demo_try obtain s' where s': "TryPromoteFromPath demo_params ''policy'' demo_promoter 0 1 all_steps
      (Some (demo_accepted ''e1'' ''prompt_tightening'')) (Some ''p'') demo_fresh = (TryPromoted, s')" "as_last s' = 1" by blast
  then have "run_passes demo_params ''policy'' demo_promoter (\<lambda>w. []) demo_passes_ops demo_fresh = [1]"
    by (simp add: demo_passes_ops_def) (simp add: TryPromoteFromPath_def demo_promoter_def NewAutoJudgePromoter_def time_sub_def i64_max_def
        i64_min_def)
  moreover have "0 < ap_cooldown demo_promoter" "\<forall>op \<in> set demo_passes_ops. clock_runs op" "ap_cooldown demo_promoter = 7 * day"
    "as_last demo_fresh = zero_time"
    by (simp_all add: demo_promoter_def NewAutoJudgePromoter_def demo_passes_ops_def demo_fresh_def)
  ultimately show ?thesis
    using promotions_keep_the_cooldown [of demo_promoter demo_passes_ops demo_fresh demo_params "''policy''" "\<lambda>w. []"] by simp
qed

end
