(* ===== verification/Auto_Rollback.thy ===== *)
theory Auto_Rollback
  imports Exp_Auto
begin

text \<open>
  The daily rollback, \<open>internal/scheduler/auto_rollback.go\<close>.

  The weight manager is missing or is its list of agents with their rolling Sharpe ratios, in the order in which the manager returns
  them; a method of a missing manager panics.  The snapshots are a map, given here as the list of its entries in the order in which
  the pass visits them.  The agents' failure counts are a function, zero where the map has no key.  Restoring the parameters from
  their backup is an argument.  The texts of the reasons are arguments too.
\<close>

datatype rollback_failure =
    NoWeights
  | NoBaseline
  | RevertRefused revert_error
  | NoSnapshot
  | NoParametersPath
  | RestoreRefused
  | ReloadRefused
  | UnknownAction string

record rollback_texts =
  rx_sharpe :: "f64 \<Rightarrow> string"
  rx_agent :: "int \<Rightarrow> string"
  rx_score :: "f64 \<Rightarrow> string"
  rx_failed :: "string \<Rightarrow> rollback_failure \<Rightarrow> string"

record rollback_result =
  rb_action :: string
  rb_target :: string
  rb_reason :: string
  rb_pre :: f64
  rb_post :: f64
  rb_at :: time

record rollback =
  ar_manager :: bool
  ar_agents :: "(string \<times> f64) list option"
  ar_tracker :: "maturity option"
  ar_bus :: bool
  ar_snapshots :: "(string \<times> f64) list"
  ar_fails :: "string \<Rightarrow> int"
  ar_calibration :: f64
  ar_history :: "rollback_result list"
  ar_events :: "(string \<times> f64 \<times> time) list"
  ar_files :: policy_files

definition computeSystemSharpe :: "(string \<times> f64) list \<Rightarrow> f64" where
  "computeSystemSharpe agents = (if agents = [] then Fin 0 else fdiv (fsum (map snd agents)) (flen agents))"

definition RecordPromotion :: "time \<Rightarrow> string \<Rightarrow> f64 \<Rightarrow> rollback \<Rightarrow> rollback" where
  "RecordPromotion now ident pre r =
     (let v = (case ar_agents r of None \<Rightarrow> pre | Some agents \<Rightarrow> computeSystemSharpe agents)
      in r\<lparr>ar_snapshots := AList.update ident v (ar_snapshots r),
           ar_events := (if ar_bus r then ar_events r @ [(ident, v, now)] else ar_events r)\<rparr>)"

definition RecordCalibration :: "f64 \<Rightarrow> rollback \<Rightarrow> rollback" where
  "RecordCalibration score r = r\<lparr>ar_calibration := score\<rparr>"

definition percent_drop :: "f64 \<Rightarrow> f64 \<Rightarrow> f64" where
  "percent_drop cur pre = fmul (fsub (Fin 1) (fdiv cur pre)) (Fin 100)"

definition degraded :: "(string \<times> f64) list \<Rightarrow> string \<times> f64 \<Rightarrow> bool" where
  "degraded agents s = flt (computeSystemSharpe agents) (fmul (snd s) (f64_const (8 / 10)))"

text \<open>\<open>None\<close> is the panic of a missing weight manager.\<close>

definition checkPromotedDegradation :: "rollback_texts \<Rightarrow> time \<Rightarrow> rollback \<Rightarrow> (rollback_result list \<times> rollback) option" where
  "checkPromotedDegradation rx now r =
     (if ar_snapshots r = [] then Some ([], r)
      else (case ar_agents r of
              None \<Rightarrow> None
            | Some agents \<Rightarrow>
                (let cur = computeSystemSharpe agents
                 in Some (map (\<lambda>(i, pre). \<lparr>rb_action = ''revert_baseline'', rb_target = i, rb_reason = rx_sharpe rx (percent_drop cur pre),
                                          rb_pre = pre, rb_post = cur, rb_at = now\<rparr>) (filter (degraded agents) (ar_snapshots r)),
                          r\<lparr>ar_snapshots := filter (\<lambda>s. \<not> degraded agents s) (ar_snapshots r)\<rparr>))))"

fun check_agents :: "rollback_texts \<Rightarrow> time \<Rightarrow> (string \<times> f64) list \<Rightarrow> (string \<Rightarrow> int) \<Rightarrow> rollback_result list \<times> (string \<Rightarrow> int)" where
  "check_agents rx now [] fails = ([], fails)"
| "check_agents rx now ((a, sharpe) # rest) fails =
     (if flt sharpe (Fin (- 1)) then
        (let n = wrap64 (fails a + 1)
         in if 30 \<le> n then
              (let (out, fails') = check_agents rx now rest (fails(a := 0))
               in (\<lparr>rb_action = ''disable_agent'', rb_target = a, rb_reason = rx_agent rx n, rb_pre = sharpe, rb_post = Fin 0, rb_at = now\<rparr> # out, fails'))
            else check_agents rx now rest (fails(a := n)))
      else check_agents rx now rest (fails(a := 0)))"

definition checkAgentFailures :: "rollback_texts \<Rightarrow> time \<Rightarrow> rollback \<Rightarrow> rollback_result list \<times> rollback" where
  "checkAgentFailures rx now r =
     (case ar_agents r of
        None \<Rightarrow> ([], r)
      | Some agents \<Rightarrow> (let (out, fails) = check_agents rx now agents (ar_fails r) in (out, r\<lparr>ar_fails := fails\<rparr>)))"

definition checkCalibrationDegradation :: "rollback_texts \<Rightarrow> time \<Rightarrow> rollback \<Rightarrow> (rollback_result list \<times> rollback) option" where
  "checkCalibrationDegradation rx now r =
     (if feq (ar_calibration r) (Fin 0) then Some ([], r)
      else (case ar_agents r of
              None \<Rightarrow> None
            | Some agents \<Rightarrow>
                (let cur = computeSystemSharpe agents; pre = ar_calibration r
                 in if flt (Fin 0) pre \<and> flt cur (fmul pre (f64_const (85 / 100)))
                    then Some ([\<lparr>rb_action = ''revert_calibration'', rb_target = ''last_calibration'', rb_reason = rx_score rx (percent_drop cur pre),
                                rb_pre = pre, rb_post = cur, rb_at = now\<rparr>], r\<lparr>ar_calibration := Fin 0\<rparr>)
                    else Some ([], r))))"

text \<open>What restoring the parameters meets.\<close>

record restore_env =
  rn_path :: bool
  rn_restored :: bool
  rn_reloaded :: bool

definition executeRollback ::
  "baseline_params \<Rightarrow> string \<Rightarrow> time \<times> write_steps \<Rightarrow> restore_env \<Rightarrow> rollback_result \<Rightarrow> rollback \<Rightarrow> rollback_failure option \<times> rollback" where
  "executeRollback cfg path tw env x r =
     (let done = (\<lambda>r'. (None, r'\<lparr>ar_history := ar_history r' @ [x]\<rparr>))
      in if rb_action x = ''disable_agent'' then
           (case ar_agents r of
              None \<Rightarrow> (Some NoWeights, r)
            | Some agents \<Rightarrow> done (r\<lparr>ar_agents := Some (filter (\<lambda>(a, _). a \<noteq> rb_target x) agents)\<rparr>))
         else if rb_action x = ''revert_baseline'' then
           (if \<not> ar_manager r then (Some NoBaseline, r)
            else (case Revert cfg (fst tw) (snd tw) path \<lparr>rt_type = ''experiment'', rt_version = 0, rt_experiment = rb_target x\<rparr> (rb_reason x)
                         False (ar_files r) of
                    (Inl err, fs) \<Rightarrow> (Some (RevertRefused err), r\<lparr>ar_files := fs\<rparr>)
                  | (Inr _, fs) \<Rightarrow> done (r\<lparr>ar_files := fs\<rparr>)))
         else if rb_action x = ''revert_calibration'' then
           (if fle (rb_pre x) (Fin 0) then (Some NoSnapshot, r)
            else if \<not> rn_path env then (Some NoParametersPath, r)
            else if \<not> rn_restored env then (Some RestoreRefused, r)
            else if \<not> rn_reloaded env then (Some ReloadRefused, r)
            else done r)
         else (Some (UnknownAction (rb_action x)), r))"

fun execute_all ::
  "baseline_params \<Rightarrow> string \<Rightarrow> rollback_texts \<Rightarrow> (nat \<Rightarrow> time \<times> write_steps) \<Rightarrow> restore_env \<Rightarrow> nat \<Rightarrow> rollback_result list \<Rightarrow> rollback
     \<Rightarrow> rollback_result list \<times> rollback" where
  "execute_all cfg path rx tw env i [] r = ([], r)"
| "execute_all cfg path rx tw env i (x # xs) r =
     (let (err, r1) = executeRollback cfg path (tw i) env x r;
          y = (case err of None \<Rightarrow> x | Some e \<Rightarrow> x\<lparr>rb_reason := rx_failed rx (rb_reason x) e\<rparr>);
          (ys, r2) = execute_all cfg path rx tw env (Suc i) xs r1
      in (y # ys, r2))"

definition rollback_daily ::
  "baseline_params \<Rightarrow> string \<Rightarrow> rollback_texts \<Rightarrow> (nat \<Rightarrow> time \<times> write_steps) \<Rightarrow> restore_env \<Rightarrow> time \<Rightarrow> rollback
     \<Rightarrow> (rollback_result list \<times> rollback) option" where
  "rollback_daily cfg path rx tw env now r =
     (if ar_tracker r = Some MaturityBurnIn then Some ([], r)
      else (case checkPromotedDegradation rx now r of
              None \<Rightarrow> None
            | Some (xs, r1) \<Rightarrow>
                (let (ys, r2) = checkAgentFailures rx now r1
                 in case checkCalibrationDegradation rx now r2 of
                      None \<Rightarrow> None
                    | Some (zs, r3) \<Rightarrow> Some (execute_all cfg path rx tw env 0 (xs @ ys @ zs) r3))))"

definition History :: "rollback \<Rightarrow> rollback_result list" where
  "History r = ar_history r"

section \<open>What is left of the promotions\<close>

lemma takeWhile_takeWhile: "takeWhile P (takeWhile Q xs) = takeWhile (\<lambda>x. P x \<and> Q x) xs"
  by (induction xs) auto

lemma take_position:
  "position_of x (map f xs) = Some i \<Longrightarrow> take i xs = takeWhile (\<lambda>y. f y \<noteq> x) xs"
  by (induction xs arbitrary: i) (auto split: if_splits)

lemma no_position: "position_of x (map f xs) = None \<Longrightarrow> takeWhile (\<lambda>y. f y \<noteq> x) xs = xs"
  by (induction xs) (auto split: if_splits)

text \<open>Reverting to an experiment pops the versions from the one it made on.\<close>

lemma revert_pops:
  assumes "x \<noteq> []"
  shows "stack_step cfg (RevertOp now \<lparr>rt_type = ''experiment'', rt_version = 0, rt_experiment = x\<rparr> reason False) st =
    takeWhile (\<lambda>e. fst e \<noteq> x) st"
proof (cases "position_of x (map fst st)")
  case None
  then show ?thesis using assms by (simp add: target_version_def no_position)
next
  case (Some i)
  then show ?thesis using assms take_position [OF Some] by (cases i) (simp_all add: target_version_def nat_add_distrib)
qed

definition reverted :: "rollback_result list \<Rightarrow> string set" where
  "reverted xs = rb_target ` {x \<in> set xs. rb_action x = ''revert_baseline''}"

lemma reverted_simps [simp]:
  "reverted [] = {}"
  "reverted (x # xs) = (if rb_action x = ''revert_baseline'' then insert (rb_target x) (reverted xs) else reverted xs)"
  "reverted (xs @ ys) = reverted xs \<union> reverted ys"
  by (auto simp: reverted_def)

lemma executeRollback_keeps:
  assumes "executeRollback cfg path tw env x r = (err, r')"
  shows "ar_manager r' = ar_manager r"
    and "rb_action x \<noteq> ''revert_baseline'' \<Longrightarrow> ar_files r' = ar_files r"
    and "rb_action x = ''revert_baseline'' \<Longrightarrow> ar_manager r \<Longrightarrow> ar_files r' =
      snd (Revert cfg (fst tw) (snd tw) path \<lparr>rt_type = ''experiment'', rt_version = 0, rt_experiment = rb_target x\<rparr> (rb_reason x) False (ar_files r))"
  using assms by (auto simp: executeRollback_def Let_def split: if_splits option.splits sum.splits prod.splits)

text \<open>The undo stack after a list of actions whose writes succeed.\<close>

lemma execute_all_pops:
  assumes "path \<noteq> []" "encodable_constraints (default_constraints cfg)" "\<And>i. snd (tw i) = all_steps"
    "replays cfg path (ar_files r) ps" "ar_manager r" "[] \<notin> reverted xs" "execute_all cfg path rx tw env i xs r = (out, r')"
  shows "\<exists>ps'. replays cfg path (ar_files r') ps' \<and> entries cfg ps' = takeWhile (\<lambda>e. fst e \<notin> reverted xs) (entries cfg ps)"
  using assms(4-7)
proof (induction xs arbitrary: i r ps out r')
  case Nil
  then show ?case by (auto intro!: exI [of _ ps] takeWhile_eq_all_conv [THEN iffD2, symmetric])
next
  case (Cons x xs)
  obtain err r1 where 1: "executeRollback cfg path (tw i) env x r = (err, r1)" by (cases "executeRollback cfg path (tw i) env x r")
  obtain ys r2 where 2: "execute_all cfg path rx tw env (Suc i) xs r1 = (ys, r2)" by (cases "execute_all cfg path rx tw env (Suc i) xs r1")
  have req: "r' = r2" using Cons.prems(4) by (simp add: 1 2)
  have m: "ar_manager r1" using executeRollback_keeps(1) [OF 1] Cons.prems(2) by simp
  have xs: "[] \<notin> reverted xs" using Cons.prems(3) by (simp split: if_splits)
  show ?case
  proof (cases "rb_action x = ''revert_baseline''")
    case False
    then have "ar_files r1 = ar_files r" by (rule executeRollback_keeps(2) [OF 1])
    with Cons.IH [OF _ m xs 2] Cons.prems(1) False show ?thesis by (simp add: req)
  next
    case True
    then have ne: "rb_target x \<noteq> []" using Cons.prems(3) by auto
    let ?op = "RevertOp (fst (tw i)) \<lparr>rt_type = ''experiment'', rt_version = 0, rt_experiment = rb_target x\<rparr> (rb_reason x) False"
    have "ar_files r1 = baseline_step cfg path ?op (ar_files r)"
      using executeRollback_keeps(3) [OF 1 True Cons.prems(2)] assms(3) by simp
    with revert_step [OF Cons.prems(1) assms(1,2)] obtain ps1 where
      "replays cfg path (ar_files r1) ps1" "stack_step cfg ?op (entries cfg ps) = entries cfg ps1" by metis
    with Cons.IH [OF _ m xs 2] obtain ps' where
      "replays cfg path (ar_files r2) ps'" "entries cfg ps' = takeWhile (\<lambda>e. fst e \<notin> reverted xs) (entries cfg ps1)"
      "entries cfg ps1 = takeWhile (\<lambda>e. fst e \<noteq> rb_target x) (entries cfg ps)"
      using revert_pops [OF ne] by metis
    with True show ?thesis by (auto simp: req takeWhile_takeWhile intro!: exI [of _ ps'] takeWhile_cong)
  qed
qed

text \<open>The experiments whose promotion counts as degraded.\<close>

definition degraded_experiments :: "rollback \<Rightarrow> string set" where
  "degraded_experiments r = (case ar_agents r of None \<Rightarrow> {} | Some agents \<Rightarrow> fst ` set (filter (degraded agents) (ar_snapshots r)))"

lemma checked_degradation:
  assumes "checkPromotedDegradation rx now r = Some (xs, r1)"
  shows "reverted xs = degraded_experiments r" "ar_manager r1 = ar_manager r" "ar_files r1 = ar_files r" "ar_agents r1 = ar_agents r"
proof -
  show "ar_manager r1 = ar_manager r" "ar_files r1 = ar_files r" "ar_agents r1 = ar_agents r"
    using assms by (auto simp: checkPromotedDegradation_def Let_def split: if_splits option.splits)
  show "reverted xs = degraded_experiments r"
  proof (cases "ar_snapshots r = []")
    case True
    then show ?thesis using assms by (auto simp: checkPromotedDegradation_def degraded_experiments_def split: option.split)
  next
    case False
    then obtain agents where a: "ar_agents r = Some agents" using assms by (auto simp: checkPromotedDegradation_def split: option.splits)
    have "reverted (map (\<lambda>(i, pre). \<lparr>rb_action = ''revert_baseline'', rb_target = i, rb_reason = g pre, rb_pre = pre, rb_post = c, rb_at = now\<rparr>) ss)
        = fst ` set ss" for g c and ss :: "(string \<times> f64) list"
      by (induction ss) auto
    moreover have "xs = map (\<lambda>(i, pre). \<lparr>rb_action = ''revert_baseline'', rb_target = i, rb_reason =
        rx_sharpe rx (percent_drop (computeSystemSharpe agents) pre), rb_pre = pre, rb_post = computeSystemSharpe agents, rb_at = now\<rparr>)
        (filter (degraded agents) (ar_snapshots r))"
      using assms False a by (auto simp: checkPromotedDegradation_def Let_def)
    ultimately show ?thesis by (simp only: degraded_experiments_def a option.case)
  qed
qed

lemma agent_actions: "check_agents rx now as fails = (out, fails') \<Longrightarrow> reverted out = {}"
  by (induction "as" arbitrary: fails out fails' rule: list.induct) (auto simp: Let_def split: if_splits prod.splits)

lemma checked_agents:
  assumes "checkAgentFailures rx now r = (xs, r1)"
  shows "reverted xs = {}" "ar_manager r1 = ar_manager r" "ar_files r1 = ar_files r"
  using assms agent_actions by (auto simp: checkAgentFailures_def Let_def split: option.splits prod.splits)

lemma checked_calibration:
  assumes "checkCalibrationDegradation rx now r = Some (xs, r1)"
  shows "reverted xs = {}" "ar_manager r1 = ar_manager r" "ar_files r1 = ar_files r"
  using assms by (auto simp: checkCalibrationDegradation_def Let_def split: option.splits if_splits)

text \<open>C7 (refinement). Outside burn-in, with a configured baseline manager, a policy file with a non-empty path that is the
  replay of a sequence of promotions of constraint patches or of tightened prompts with a text (no charter writeback and no other
  edit of the file), constraint defaults that can be encoded, writes that succeed and no degraded promotion with an empty identifier,
  a daily rollback that returns has popped the undo stack of the baseline down to below the first version that a degraded promotion
  made: the versions left, with their contents, are those before it, in whatever order the map of snapshots is visited, and the
  policy that loads afterwards is the one on top.\<close>
theorem degraded_promotions_are_undone:
  assumes "rollback_daily cfg path rx tw env now r = Some (out, r')" "ar_tracker r \<noteq> Some MaturityBurnIn" "ar_manager r"
    "path \<noteq> []" "encodable_constraints (default_constraints cfg)" "\<And>i. snd (tw i) = all_steps"
    "replays cfg path (ar_files r) ps" "[] \<notin> degraded_experiments r"
  shows "\<exists>ps' p. replays cfg path (ar_files r') ps' \<and> Load cfg path (ar_files r') = Inr p \<and>
    entries cfg ps' = takeWhile (\<lambda>e. fst e \<notin> degraded_experiments r) (entries cfg ps) \<and>
    content_of p = top_content cfg (takeWhile (\<lambda>e. fst e \<notin> degraded_experiments r) (entries cfg ps))"
proof -
  from assms(1,2) obtain xs r1 ys r2 zs r3 where
    1: "checkPromotedDegradation rx now r = Some (xs, r1)" and 2: "checkAgentFailures rx now r1 = (ys, r2)"
    and 3: "checkCalibrationDegradation rx now r2 = Some (zs, r3)" and 4: "execute_all cfg path rx tw env 0 (xs @ ys @ zs) r3 = (out, r')"
    by (auto simp: rollback_daily_def Let_def split: if_splits option.splits prod.splits)
  have d: "reverted (xs @ ys @ zs) = degraded_experiments r"
    using checked_degradation(1) [OF 1] checked_agents(1) [OF 2] checked_calibration(1) [OF 3] by simp
  have "ar_files r3 = ar_files r" "ar_manager r3"
    using assms(3) checked_degradation [OF 1] checked_agents [OF 2] checked_calibration [OF 3] by simp_all
  with assms(7) execute_all_pops [OF assms(4-6) _ _ _ 4, of ps] assms(8) obtain ps' where
    ps': "replays cfg path (ar_files r') ps'" "entries cfg ps' = takeWhile (\<lambda>e. fst e \<notin> degraded_experiments r) (entries cfg ps)"
    unfolding d by auto
  from ps'(1) obtain p where "Load cfg path (ar_files r') = Inr p" "content_of p = replay cfg ps'" unfolding replays_def by blast
  with ps' show ?thesis by (metis top_entries)
qed

section \<open>Facts\<close>

text \<open>With a negative ratio before the promotion, an unchanged ratio counts as a degradation.\<close>

lemma eight_tenths:
  obtains c where "f64_const (8 / 10) = Fin c" "rnd c = Fin c" "1 / 2 \<le> c" "c \<le> 7 / 8"
proof -
  have "is_f64 (Fin (7 / 8))" "is_f64 (Fin (1 / 2))" using rnd_dyadic [of 7 3] rnd_dyadic [of 1 1] by (simp_all add: is_f64_def)
  then have "fle (f64_const (8 / 10)) (Fin (7 / 8))" "fle (Fin (1 / 2)) (f64_const (8 / 10))"
    unfolding f64_const_def by (auto intro: rnd_le rnd_ge)
  then obtain c where c: "f64_const (8 / 10) = Fin c" "1 / 2 \<le> c" "c \<le> 7 / 8" by (cases "f64_const (8 / 10)") auto
  have "rnd c = Fin c" using c(1) unfolding f64_const_def by (rule rnd_idem)
  with c that show thesis by blast
qed

lemma negative_sharpe_degrades: "degraded [(''agent'', Fin (- 1))] (''e'', Fin (- 1))"
proof -
  obtain c where c: "f64_const (8 / 10) = Fin c" "rnd c = Fin c" "c \<le> 7 / 8" by (rule eight_tenths)
  have cur: "computeSystemSharpe [(''agent'', Fin (- 1))] = Fin (- 1)"
    by (simp add: computeSystemSharpe_def fsum_def flen_def f64_of_int_def f64_simps rnd_neg)
  show ?thesis unfolding degraded_def cur snd_conv c(1) using c(2,3) by (simp add: rnd_neg)
qed

section \<open>A run\<close>

definition demo_rollback :: rollback where
  "demo_rollback = \<lparr>ar_manager = True, ar_agents = Some [(''a'', Fin 0)], ar_tracker = None, ar_bus = False,
     ar_snapshots = [(''e2'', Fin 1)], ar_fails = (\<lambda>a. 0), ar_calibration = Fin 0, ar_history = [], ar_events = [],
     ar_files = fold (baseline_step demo_params ''policy'') (take 2 demo_ops) \<lparr>pf_main = FileMissing, pf_backup = FileMissing\<rparr>\<rparr>"

definition demo_rollback_texts :: rollback_texts where
  "demo_rollback_texts = \<lparr>rx_sharpe = \<lambda>v. [], rx_agent = \<lambda>n. [], rx_score = \<lambda>v. [], rx_failed = \<lambda>s e. s\<rparr>"

lemma demo_degraded: "degraded_experiments demo_rollback = {''e2''}"
proof -
  obtain c where c: "f64_const (8 / 10) = Fin c" "rnd c = Fin c" "1 / 2 \<le> c" by (rule eight_tenths)
  have cur: "computeSystemSharpe [(''a'', Fin 0)] = Fin 0" by (simp add: computeSystemSharpe_def fsum_def flen_def f64_of_int_def f64_simps)
  have "degraded [(''a'', Fin 0)] (''e2'', Fin 1)" unfolding degraded_def cur snd_conv c(1) using c(2,3) by simp
  then show ?thesis by (simp add: degraded_experiments_def demo_rollback_def)
qed

lemma degraded_promotions_are_undone_witness:
  "\<exists>out r' p. rollback_daily demo_params ''policy'' demo_rollback_texts (\<lambda>i. (4, all_steps))
      \<lparr>rn_path = True, rn_restored = True, rn_reloaded = True\<rparr> 4 demo_rollback = Some (out, r') \<and>
    Load demo_params ''policy'' (ar_files r') = Inr p \<and> sc_min_conviction (bp_constraints p) = 70"
proof -
  let ?env = "\<lparr>rn_path = True, rn_restored = True, rn_reloaded = True\<rparr>"
  have enc: "encodable_constraints (default_constraints demo_params)"
    by (simp add: encodable_constraints_def finite_number_def default_constraints_def demo_params_def)
  have ops: "list_all restorable (take 2 demo_ops)" "int (length ([] :: promotion list) + length (take 2 demo_ops)) + 1 \<le> i64_max"
    by (simp_all add: restorable_def demo_ops_def demo_accepted_def constraint_mutation_def prompt_mutation_def i64_max_def)
  have "replays demo_params ''policy'' \<lparr>pf_main = FileMissing, pf_backup = FileMissing\<rparr> []"
    by (simp add: replays_def Load_def replay_nil DefaultPolicy_def)
  from undo_stack_runs [OF _ enc ops(1) this ops(2)] obtain ps where
    ps: "replays demo_params ''policy'' (ar_files demo_rollback) ps" "fold (stack_step demo_params) (take 2 demo_ops) [] = entries demo_params ps"
    by (auto simp: demo_rollback_def entries.simps(1))
  have stack: "\<exists>c1 c2. entries demo_params ps = [(''e1'', c1), (''e2'', c2)] \<and> sc_min_conviction (fst (snd c1)) = 70"
    unfolding ps(2) [symmetric]
    by (simp add: demo_ops_def demo_accepted_def demo_patch Let_def new_content_def constraint_mutation_def top_content_def content_of_def
      DefaultPolicy_def default_constraints_def demo_params_def encodable_constraints_def finite_number_def)
  have "\<exists>out r'. rollback_daily demo_params ''policy'' demo_rollback_texts (\<lambda>i. (4, all_steps)) ?env 4 demo_rollback = Some (out, r')"
    by (simp add: rollback_daily_def demo_rollback_def checkPromotedDegradation_def checkAgentFailures_def checkCalibrationDegradation_def
        Let_def case_prod_beta)
  then obtain out r' where run: "rollback_daily demo_params ''policy'' demo_rollback_texts (\<lambda>i. (4, all_steps)) ?env 4 demo_rollback = Some (out, r')"
    by blast
  have "ar_tracker demo_rollback \<noteq> Some MaturityBurnIn" "ar_manager demo_rollback" by (simp_all add: demo_rollback_def)
  from degraded_promotions_are_undone [OF run this _ enc _ ps(1)] obtain p where
    "Load demo_params ''policy'' (ar_files r') = Inr p"
    "content_of p = top_content demo_params (takeWhile (\<lambda>e. fst e \<notin> {''e2''}) (entries demo_params ps))"
    by (auto simp: demo_degraded)
  with stack run show ?thesis by (force simp: top_content_def content_of_def)
qed

end
