(* ===== verification/Exp_Replay.thy ===== *)
theory Exp_Replay
  imports Exp_Judge Macro_Assess Sim_Day Base_Revert
begin

text \<open>
  The replay behind the judge: the dataset of \<open>internal/replay\<close>, the price gate (\<open>internal/pricegate\<close> and
  \<open>internal/domain/shared/price_gate.go\<close>), the comparison of a candidate with the baseline (\<open>replay_compare.go\<close>), the
  out-of-sample validation (\<open>oos_validator.go\<close>) and the window of an automatic experiment (\<open>validation.go\<close>), all of
  \<open>internal/experiment\<close>.

  What \<open>encoding/csv\<close> reads is an argument: the header and the records, each missing where reading fails.  The research of the
  orchestrator is the record \<open>research\<close> of functions of the quotes and the policy.
\<close>

section \<open>Numbers and dates of a record\<close>

text \<open>The values that Go's parsers return when their error is ignored: the limit after a range error, zero after a syntax error.\<close>

definition parse_int_ignoring :: "string \<Rightarrow> int" where
  "parse_int_ignoring s =
     (let (neg, ds) = cut_sign s; limit = (if neg then i64_min else i64_max)
      in case parse_int s of
           Some v \<Rightarrow> v
         | None \<Rightarrow> if 2 ^ 64 \<le> int (number_of 10 digit_of (takeWhile is_digit ds)) \<or> ds \<noteq> [] \<and> list_all is_digit ds then limit else 0)"

definition parse_float_ignoring :: "string \<Rightarrow> f64" where
  "parse_float_ignoring s =
     (let (neg, t) = cut_sign s
      in case parse_float s of
           Some v \<Rightarrow> v
         | None \<Rightarrow>
             if \<not> underscoreOK s then Fin 0
             else (case unsigned_value (filter (\<lambda>c. c \<noteq> CHR ''_'') t) of
                     None \<Rightarrow> Fin 0
                   | Some q \<Rightarrow> if neg then fneg (rnd q) else rnd q))"

definition bare :: "string \<Rightarrow> string" where
  "bare v = filter (\<lambda>c. c \<noteq> CHR '','') (trim_space v)"

definition cell_float :: "string \<Rightarrow> f64" where
  "cell_float v = (if bare v = [] \<or> bare v = ''--'' then Fin 0 else parse_float_ignoring (bare v))"

definition cell_int :: "string \<Rightarrow> int" where
  "cell_int v = (if bare v = [] \<or> bare v = ''--'' then 0 else parse_int_ignoring (bare v))"

text \<open>\<open>time.Parse\<close> with the layout \<open>2006-01-02\<close>.\<close>

definition parse_date :: "string \<Rightarrow> time option" where
  "parse_date s =
     (if length s \<noteq> 10 \<or> s ! 4 \<noteq> CHR ''-'' \<or> s ! 7 \<noteq> CHR ''-'' \<or> \<not> list_all is_digit (take 4 s @ take 2 (drop 5 s) @ drop 8 s) then None
      else
        (let y = int (number_of 10 digit_of (take 4 s)); m = int (number_of 10 digit_of (take 2 (drop 5 s))); d = int (number_of 10 digit_of (drop 8 s))
         in if m < 1 \<or> 12 < m then None
            else if d < 1 \<or> month_lengths y ! nat (m - 1) < d then None
            else Some (day_number y m d * day)))"

definition date_key :: "time \<Rightarrow> string" where
  "date_key t = format_date 0 t"

section \<open>The dataset\<close>

record bar =
  ba_date :: time
  ba_symbol :: string
  ba_name :: string
  ba_open :: f64
  ba_high :: f64
  ba_low :: f64
  ba_close :: f64
  ba_volume :: int
  ba_source :: string

record dataset =
  ds_by :: "string \<rightharpoonup> (string \<rightharpoonup> bar)"
  ds_dates :: "time list"

datatype csv_file = CsvMissing | CsvFile "string list option" "string list option list"

datatype load_error = ReplayDataMissing | CsvUnreadable | MissingColumn string | DateUnreadable

text \<open>The index of a column: the last one with that name, zero for none.\<close>

fun column_from :: "nat \<Rightarrow> string \<Rightarrow> string list \<Rightarrow> nat option" where
  "column_from i col [] = None"
| "column_from i col (h # hs) =
     (case column_from (Suc i) col hs of Some j \<Rightarrow> Some j | None \<Rightarrow> if trim_space h = col then Some i else None)"

definition column :: "string list \<Rightarrow> string \<Rightarrow> nat option" where
  "column header col = column_from 0 col header"

definition cell :: "string list \<Rightarrow> string list \<Rightarrow> string \<Rightarrow> string" where
  "cell header rec key =
     (let i = (case column header key of None \<Rightarrow> 0 | Some i \<Rightarrow> i) in if length rec \<le> i then [] else rec ! i)"

definition required_columns :: "string list" where
  "required_columns = [''Date'', ''Code'', ''Name'', ''TradeVolume'', ''Open'', ''High'', ''Low'', ''Close'']"

definition bar_of :: "string list \<Rightarrow> string list \<Rightarrow> time \<Rightarrow> bar" where
  "bar_of header rec d =
     \<lparr>ba_date = d, ba_symbol = trim_space (cell header rec ''Code'') @ ''.TW'', ba_name = trim_space (cell header rec ''Name''),
      ba_open = cell_float (cell header rec ''Open''), ba_high = cell_float (cell header rec ''High''),
      ba_low = cell_float (cell header rec ''Low''), ba_close = cell_float (cell header rec ''Close''),
      ba_volume = cell_int (cell header rec ''TradeVolume''), ba_source = ''twse_open_data_csv''\<rparr>"

fun load_rows ::
  "string list \<Rightarrow> string list option list \<Rightarrow> (string \<rightharpoonup> (string \<rightharpoonup> bar)) \<Rightarrow> time list
     \<Rightarrow> load_error + (string \<rightharpoonup> (string \<rightharpoonup> bar)) \<times> time list" where
  "load_rows header [] tbl seen = Inr (tbl, seen)"
| "load_rows header (None # rest) tbl seen = Inl CsvUnreadable"
| "load_rows header (Some rec # rest) tbl seen =
     (case parse_date (cell header rec ''Date'') of
        None \<Rightarrow> Inl DateUnreadable
      | Some d \<Rightarrow>
          (let b = bar_of header rec d; days = (case tbl (date_key d) of None \<Rightarrow> Map.empty | Some m \<Rightarrow> m)
           in load_rows header rest (tbl(date_key d \<mapsto> days(ba_symbol b \<mapsto> b))) (if tbl (date_key d) = None then seen @ [d] else seen)))"

definition LoadTWSEOpenDataCSV :: "csv_file \<Rightarrow> load_error + dataset" where
  "LoadTWSEOpenDataCSV f =
     (case f of
        CsvMissing \<Rightarrow> Inl ReplayDataMissing
      | CsvFile None rows \<Rightarrow> Inl CsvUnreadable
      | CsvFile (Some header) rows \<Rightarrow>
          (case find (\<lambda>c. column header c = None) required_columns of
             Some c \<Rightarrow> Inl (MissingColumn c)
           | None \<Rightarrow>
               (case load_rows header rows Map.empty [] of
                  Inl err \<Rightarrow> Inl err
                | Inr (tbl, seen) \<Rightarrow> Inr \<lparr>ds_by = tbl, ds_dates = sort seen\<rparr>)))"

definition bar_at :: "dataset \<Rightarrow> time \<Rightarrow> string \<Rightarrow> bar option" where
  "bar_at ds d symbol = (case ds_by ds (date_key d) of None \<Rightarrow> None | Some m \<Rightarrow> m symbol)"

definition QuotesForDate :: "dataset \<Rightarrow> time \<Rightarrow> string list \<Rightarrow> quote list" where
  "QuotesForDate ds d symbols =
     List.map_filter (\<lambda>y. case bar_at ds d y of
         None \<Rightarrow> None
       | Some b \<Rightarrow> Some \<lparr>q_symbol = ba_symbol b, q_last = ba_close b, q_open = ba_open b, q_high = ba_high b, q_low = ba_low b,
                         q_volume = ba_volume b, q_market = ''TW'', q_as_of = ba_date b,
                         q_tradable = (flt (Fin 0) (ba_close b) \<and> 0 < ba_volume b), q_source = ba_source b, q_complete = None,
                         q_trading_day = None\<rparr>) symbols"

text \<open>The first position of a date on the axis, compared by its text.\<close>

fun key_position :: "string \<Rightarrow> time list \<Rightarrow> nat option" where
  "key_position key [] = None"
| "key_position key (d # ds) = (if date_key d = key then Some 0 else map_option Suc (key_position key ds))"

definition dateIndex :: "dataset \<Rightarrow> time \<Rightarrow> int" where
  "dateIndex ds d = (case key_position (date_key d) (ds_dates ds) of None \<Rightarrow> -1 | Some i \<Rightarrow> int i)"

definition NextDate :: "dataset \<Rightarrow> time \<Rightarrow> int \<Rightarrow> time option" where
  "NextDate ds d offset =
     (case key_position (date_key d) (ds_dates ds) of
        None \<Rightarrow> None
      | Some i \<Rightarrow>
          (let target = wrap64 (int i + offset)
           in if 0 \<le> target \<and> target < int (length (ds_dates ds)) then Some (ds_dates ds ! nat target) else None))"

definition WindowDates :: "dataset \<Rightarrow> time \<Rightarrow> time \<Rightarrow> int \<Rightarrow> time list" where
  "WindowDates ds start end forward =
     filter (\<lambda>d. \<not> d < start \<and> \<not> end < d \<and> NextDate ds d forward \<noteq> None) (ds_dates ds)"

section \<open>The price gate\<close>

definition MaxPlausibleDailyReturn :: f64 where
  "MaxPlausibleDailyReturn = Fin (1 / 2)"

definition MaxPlausibleReturn :: "math_lib \<Rightarrow> int \<Rightarrow> f64" where
  "MaxPlausibleReturn lib horizon =
     (if horizon \<le> 1 then MaxPlausibleDailyReturn else fsub (ml_pow lib (Fin (3 / 2)) (f64_of_int horizon)) (Fin 1))"

definition PlausibleReturn :: "math_lib \<Rightarrow> f64 \<Rightarrow> int \<Rightarrow> bool" where
  "PlausibleReturn lib r horizon = (if r = NaN \<or> r = PInf \<or> r = NInf then False else fle (fabs r) (MaxPlausibleReturn lib horizon))"

definition InIPOExemptWindow :: "int \<Rightarrow> int \<Rightarrow> bool" where
  "InIPOExemptWindow pos horizon = (wrap64 (pos - (if horizon < 1 then 1 else horizon)) < 5)"

text \<open>The gate; only its log lines are left out.\<close>

definition Check :: "math_lib \<Rightarrow> f64 \<Rightarrow> f64 \<Rightarrow> int \<Rightarrow> int \<Rightarrow> bool" where
  "Check lib prev close pos horizon =
     (if \<not> IsUsablePrice prev \<or> \<not> IsUsablePrice close then False
      else
        (let r = fsub (fdiv close prev) (Fin 1)
         in if PlausibleReturn lib r horizon then True
            else if r = NaN \<or> r = PInf \<or> r = NInf then False
            else InIPOExemptWindow pos horizon))"

definition same_quote :: "bar \<Rightarrow> bar \<Rightarrow> bool" where
  "same_quote a b \<longleftrightarrow> feq (ba_open a) (ba_open b) \<and> feq (ba_high a) (ba_high b) \<and> feq (ba_low a) (ba_low b) \<and>
     feq (ba_close a) (ba_close b) \<and> ba_volume a = ba_volume b"

definition ForwardReturn :: "math_lib \<Rightarrow> dataset \<Rightarrow> string \<Rightarrow> time \<Rightarrow> int \<Rightarrow> f64 option" where
  "ForwardReturn lib ds symbol d window =
     (case bar_at ds d symbol of
        None \<Rightarrow> None
      | Some cur \<Rightarrow>
          if \<not> IsUsablePrice (ba_close cur) then None
          else (case NextDate ds d window of
                  None \<Rightarrow> None
                | Some nd \<Rightarrow>
                    (case bar_at ds nd symbol of
                       None \<Rightarrow> None
                     | Some nxt \<Rightarrow>
                         if \<not> IsUsablePrice (ba_close nxt) then None
                         else if \<not> Check lib (ba_close cur) (ba_close nxt) (dateIndex ds nd) window then None
                         else if same_quote cur nxt then None
                         else Some (fdiv (fsub (ba_close nxt) (ba_close cur)) (ba_close cur)))))"

section \<open>Scoring a window\<close>

text \<open>A recommendation with its skill and, when its factors are broken down, which of the four are fallbacks.\<close>

record replay_rec =
  rr_rec :: recommendation
  rr_skill :: string
  rr_breakdown :: "(bool \<times> bool \<times> bool \<times> bool) option"

record research =
  rq_skill_symbols :: "string \<Rightarrow> string list"
  rq_symbols :: "string list"
  rq_raw :: "quote list \<Rightarrow> string \<times> string \<Rightarrow> execution_policy \<Rightarrow> replay_rec list"
  rq_active :: "quote list \<Rightarrow> execution_policy \<Rightarrow> replay_rec list"
  rq_regime :: "quote list \<Rightarrow> execution_policy \<Rightarrow> string"
  rq_factor :: f64
  rq_visit :: "nat \<Rightarrow> quote_map \<Rightarrow> quote_map"
  rq_zone :: int
  rq_math :: math_lib

definition breakdown_counts :: "replay_rec list \<Rightarrow> int \<times> int" where
  "breakdown_counts recs =
     (let bs = List.map_filter rr_breakdown recs
      in (sum_list (map (\<lambda>(a, b, c, d). of_bool a + of_bool b + of_bool c + of_bool d) bs), 4 * int (length bs)))"

definition window_days :: "dataset \<Rightarrow> time \<Rightarrow> time \<Rightarrow> (time \<times> time) list" where
  "window_days ds start end =
     List.map_filter (\<lambda>d. if d < start \<or> end < d then None
        else (case NextDate ds d 1 of None \<Rightarrow> None | Some n \<Rightarrow> if end < n then None else Some (d, n))) (ds_dates ds)"

type_synonym scored = "f64 \<times> int \<times> f64 list \<times> int \<times> int"

definition add_counts :: "(int \<times> int) list \<Rightarrow> int \<times> int" where
  "add_counts cs = (sum_list (map fst cs), sum_list (map snd cs))"

definition score_of :: "f64 list \<Rightarrow> int \<times> int \<Rightarrow> scored" where
  "score_of returns counts =
     (if returns = [] then (Fin 0, 0, [], 0, 0) else (fdiv (fsum returns) (flen returns), int (length returns), returns, counts))"

definition prompt_day ::
  "research \<Rightarrow> dataset \<Rightarrow> string \<Rightarrow> string \<Rightarrow> execution_policy \<Rightarrow> time \<Rightarrow> f64 option \<times> int \<times> int" where
  "prompt_day rq ds skill prompt xp d =
     (let quotes = QuotesForDate ds d (rq_skill_symbols rq skill);
          recs = filter (\<lambda>r. rr_skill r = skill) (rq_raw rq quotes (skill, prompt) xp);
          parts = List.map_filter (\<lambda>r. map_option (\<lambda>v. fmul v (fdiv (f64_of_int (rc_conviction (rr_rec r))) (Fin 100)))
                    (ForwardReturn (rq_math rq) ds (rc_symbol (rr_rec r)) d 1)) recs
      in (if parts = [] then None else Some (fdiv (fsum parts) (flen parts)), breakdown_counts recs))"

definition scorePromptWindowWithObservations ::
  "research \<Rightarrow> dataset \<Rightarrow> string \<Rightarrow> string \<Rightarrow> execution_policy \<Rightarrow> time \<Rightarrow> time \<Rightarrow> scored" where
  "scorePromptWindowWithObservations rq ds skill prompt xp start end =
     (let days = map (\<lambda>(d, n). prompt_day rq ds skill prompt xp d) (window_days ds start end)
      in score_of (List.map_filter fst days) (add_counts (map snd days)))"

definition filterRecommendationsForConstraints :: "replay_rec list \<Rightarrow> constraints \<Rightarrow> replay_rec list" where
  "filterRecommendationsForConstraints recs c =
     (if sc_min_conviction c \<le> 0 then recs else filter (\<lambda>r. \<not> rc_conviction (rr_rec r) < sc_min_conviction c) recs)"

definition scoreSimulationResult :: "sim_result \<Rightarrow> quote list \<Rightarrow> f64 \<Rightarrow> f64" where
  "scoreSimulationResult res nextQuotes startingCash =
     (if feq startingCash (Fin 0) then Fin 0
      else if \<not> feq (sr_after_tax res) (Fin 0) \<or> \<not> feq (sr_tax_paid res) (Fin 0) then fdiv (sr_after_tax res) startingCash
      else
        (let quotes = quotes_by_symbol nextQuotes;
             endingValue = fold (\<lambda>p v. fadd v (case map_of quotes (p_symbol p) of
                                                 Some q \<Rightarrow> fmul (f64_of_int (p_quantity p)) (q_last q)
                                               | None \<Rightarrow> market_value p)) (dr_positions (sr_day res)) (dr_cash (sr_day res))
         in fdiv (fsub endingValue startingCash) startingCash))"

definition constraint_day ::
  "baseline_params \<Rightarrow> research \<Rightarrow> dataset \<Rightarrow> constraints \<Rightarrow> time \<times> time \<Rightarrow> f64 \<times> int \<times> int" where
  "constraint_day cfg rq ds c dn =
     (let quotes = QuotesForDate ds (fst dn) (rq_symbols rq); nextQuotes = QuotesForDate ds (snd dn) (rq_symbols rq);
          xp = ExecutionPolicyFromConstraints cfg c;
          recs = filterRecommendationsForConstraints (rq_active rq quotes xp) c;
          (res, rules, s) = Run (NewEngine (rq_factor rq) c) (rq_visit rq) [] (rq_zone rq) (rq_regime rq quotes xp) quotes (map rr_rec recs)
      in (scoreSimulationResult res nextQuotes (sc_starting_cash c), breakdown_counts recs))"

definition scoreConstraintWindowWithObservations ::
  "baseline_params \<Rightarrow> research \<Rightarrow> dataset \<Rightarrow> constraints \<Rightarrow> time \<Rightarrow> time \<Rightarrow> scored" where
  "scoreConstraintWindowWithObservations cfg rq ds c start end =
     (let days = map (constraint_day cfg rq ds c) (window_days ds start end)
      in score_of (map fst days) (add_counts (map snd days)))"

text \<open>The last days of the dataset, at least \<open>minDates\<close> of them if it has so many.\<close>

definition window_from :: "time list \<Rightarrow> int \<Rightarrow> time" where
  "window_from dates days = max (List.last dates - days * day) (hd dates)"

definition fallbackWindow :: "dataset \<Rightarrow> int \<Rightarrow> (time \<times> time) option" where
  "fallbackWindow ds minDates =
     (let dates = ds_dates ds
      in if dates = [] then None
         else
           (case find (\<lambda>days. minDates \<le> int (length (filter (\<lambda>d. \<not> d < window_from dates days \<and> \<not> List.last dates < d) dates)))
                   [30, 60, 90, 180, 365] of
              Some days \<Rightarrow> Some (window_from dates days, List.last dates)
            | None \<Rightarrow> Some (hd dates, List.last dates)))"

section \<open>Candidate against baseline\<close>

text \<open>Both are scored over the window, or both over the fallback when neither has an observation.\<close>

definition compare_on :: "(time \<Rightarrow> time \<Rightarrow> scored) \<Rightarrow> (time \<Rightarrow> time \<Rightarrow> scored) \<Rightarrow> dataset \<Rightarrow> f64 \<Rightarrow> time \<times> time \<Rightarrow> replay_summary" where
  "compare_on base cand ds cash w =
     (let b = base (fst w) (snd w); c = cand (fst w) (snd w);
          fb = (if fst (snd b) = 0 \<and> fst (snd c) = 0 then fallbackWindow ds 1 else None);
          (b', c') = (case fb of None \<Rightarrow> (b, c) | Some v \<Rightarrow> (base (fst v) (snd v), cand (fst v) (snd v)))
      in \<lparr>rs_baseline = fst b', rs_candidate = fst c', rs_baseline_obs = fst (snd b'), rs_candidate_obs = fst (snd c'),
          rs_fallback = (fb \<noteq> None), rs_baseline_returns = fst (snd (snd b')), rs_candidate_returns = fst (snd (snd c')),
          rs_baseline_stats = snd (snd (snd b')), rs_candidate_stats = snd (snd (snd c')),
          rs_baseline_ntd = fmul (fst b') cash, rs_candidate_ntd = fmul (fst c') cash\<rparr>)"

datatype compare_error = CompareDataset load_error | ComparePolicy policy_error | ComparePrompt | CompareCandidate

definition scorers ::
  "baseline_params \<Rightarrow> research \<Rightarrow> dataset \<Rightarrow> policy \<Rightarrow> mutation_brief \<Rightarrow> string \<Rightarrow> string \<Rightarrow> (time \<Rightarrow> time \<Rightarrow> scored) \<times> (time \<Rightarrow> time \<Rightarrow> scored)" where
  "scorers cfg rq ds p b baseline candidate =
     (if mb_mutation b = ''risk_rule_change'' \<or> mb_mutation b = ''portfolio_constraint_revision'' then
        (scoreConstraintWindowWithObservations cfg rq ds (bp_constraints p),
         scoreConstraintWindowWithObservations cfg rq ds (ApplyConstraintCandidate (bp_constraints p) candidate))
      else
        (scorePromptWindowWithObservations rq ds (mb_skill b) baseline (bp_execution p),
         scorePromptWindowWithObservations rq ds (mb_skill b) candidate (bp_execution p)))"

definition comparePromptPerformanceDetailed ::
  "baseline_params \<Rightarrow> research \<Rightarrow> csv_file \<Rightarrow> string \<Rightarrow> policy_files \<Rightarrow> mutation_brief \<Rightarrow> time \<times> time \<Rightarrow> string option \<Rightarrow> string option
     \<Rightarrow> compare_error + replay_summary" where
  "comparePromptPerformanceDetailed cfg rq csv path fs b w prompt_file candidate_file =
     (case LoadTWSEOpenDataCSV csv of
        Inl err \<Rightarrow> Inl (CompareDataset err)
      | Inr ds \<Rightarrow>
          (case Load cfg path fs of
             Inl err \<Rightarrow> Inl (ComparePolicy err)
           | Inr p \<Rightarrow>
               (let over = ResolvePromptOverride p (mb_target b) (mb_skill b)
                in case (if over \<noteq> [] then Some over else prompt_file) of
                     None \<Rightarrow> Inl ComparePrompt
                   | Some baseline \<Rightarrow>
                       (case candidate_file of
                          None \<Rightarrow> Inl CompareCandidate
                        | Some candidate \<Rightarrow>
                            (let (base, cand) = scorers cfg rq ds p b baseline candidate
                             in Inr (compare_on base cand ds (sc_starting_cash (bp_constraints p)) w))))))"

section \<open>Out-of-sample validation\<close>

record oos_params =
  op_embargo :: int
  op_days :: int
  op_observations :: int
  op_improvement :: f64

definition oosWindow :: "oos_params \<Rightarrow> time \<Rightarrow> time \<times> time" where
  "oosWindow op primaryEnd =
     (let embargo = (if 0 < op_embargo op then op_embargo op else 5); start = primaryEnd + (1 + embargo) * day
      in (start, start + op_days op * day))"

text \<open>The texts of the reasons, from what went wrong.\<close>

datatype oos_problem =
    OosDataset load_error
  | OosPolicy policy_error
  | OosCandidate
  | OosObservations int int
  | OosImprovement f64 f64
  | OosPassed

definition oos_gates :: "(oos_problem \<Rightarrow> string) \<Rightarrow> oos_params \<Rightarrow> time \<Rightarrow> time \<times> time \<Rightarrow> replay_summary \<Rightarrow> bool \<Rightarrow> oos_result" where
  "oos_gates text op now w s fallback =
     (let obs = min (rs_baseline_obs s) (rs_candidate_obs s); imp = fsub (rs_candidate s) (rs_baseline s);
          problem = (if obs < op_observations op then OosObservations obs (op_observations op)
                     else if flt imp (op_improvement op) then OosImprovement imp (op_improvement op) else OosPassed)
      in \<lparr>oos_passed = (problem = OosPassed), oos_baseline = rs_baseline s, oos_candidate = rs_candidate s, oos_improvement = imp,
          oos_observations = obs, oos_start = fst w, oos_end = snd w, oos_fallback = fallback, oos_at = now, oos_reason = text problem\<rparr>)"

definition oos_refused :: "(oos_problem \<Rightarrow> string) \<Rightarrow> time \<Rightarrow> time \<times> time \<Rightarrow> oos_problem \<Rightarrow> oos_result" where
  "oos_refused text now w problem =
     \<lparr>oos_passed = False, oos_baseline = Fin 0, oos_candidate = Fin 0, oos_improvement = Fin 0, oos_observations = 0, oos_start = fst w,
      oos_end = snd w, oos_fallback = False, oos_at = now, oos_reason = text problem\<rparr>"

definition ValidateWithBrief ::
  "baseline_params \<Rightarrow> research \<Rightarrow> oos_params \<Rightarrow> (oos_problem \<Rightarrow> string) \<Rightarrow> time \<Rightarrow> csv_file \<Rightarrow> string \<Rightarrow> policy_files \<Rightarrow> mutation_brief
     \<Rightarrow> string option \<Rightarrow> string option \<Rightarrow> time \<Rightarrow> oos_result" where
  "ValidateWithBrief cfg rq op text now csv path fs b prompt_file candidate_file primaryEnd =
     (let w = oosWindow op primaryEnd
      in case LoadTWSEOpenDataCSV csv of
           Inl err \<Rightarrow> oos_refused text now w (OosDataset err)
         | Inr ds \<Rightarrow>
             (case Load cfg path fs of
                Inl err \<Rightarrow> oos_refused text now w (OosPolicy err)
              | Inr p \<Rightarrow>
                  (case candidate_file of
                     None \<Rightarrow> oos_refused text now w OosCandidate
                   | Some candidate \<Rightarrow>
                       (let over = ResolvePromptOverride p (mb_target b) (mb_skill b);
                            baseline = (if over \<noteq> [] then over
                                        else if mb_prompt_file b = [] then []
                                        else (case prompt_file of None \<Rightarrow> [] | Some t \<Rightarrow> t));
                            (base, cand) = scorers cfg rq ds p b baseline candidate;
                            s = compare_on base cand ds (sc_starting_cash (bp_constraints p)) w;
                            none = (fst (snd (base (fst w) (snd w))) = 0 \<and> fst (snd (cand (fst w) (snd w))) = 0)
                        in oos_gates text op now w s none))))"

text \<open>The brief that \<open>Validate\<close> makes up from the extension of the candidate file.\<close>

definition validate_brief :: "string \<Rightarrow> mutation_brief \<Rightarrow> mutation_brief" where
  "validate_brief candidatePath zero =
     zero\<lparr>mb_mutation := (if suffix ''.json'' candidatePath \<or> suffix ''.yaml'' candidatePath then ''portfolio_constraint_revision''
                          else ''prompt_tightening''), mb_prompt_file := candidatePath\<rparr>"

section \<open>The window of an automatic experiment\<close>

datatype window_error = NotFresh load_error | NoDates | ReplayBehind int

text \<open>\<open>None\<close> for the dataset is an empty path.  A window is its start, its end, and whether it was deferred.\<close>

definition resolveExperimentWindow :: "int \<Rightarrow> time \<Rightarrow> csv_file option \<Rightarrow> window_error + time \<times> time \<times> bool" where
  "resolveExperimentWindow z now csv =
     (case csv of
        None \<Rightarrow> Inr (now - 7 * 24 * hour, now, False)
      | Some f \<Rightarrow>
          (case LoadTWSEOpenDataCSV f of
             Inl err \<Rightarrow> Inl (NotFresh err)
           | Inr ds \<Rightarrow>
               if ds_dates ds = [] then Inl NoDates
               else
                 (let latest = List.last (ds_dates ds); lag = time_sub (local_day z now * day) latest; delay = sgn lag * (\<bar>lag\<bar> div day)
                  in if 2 \<le> delay then Inl (ReplayBehind delay)
                     else if delay = 1 then Inr (latest - 6 * 24 * hour, latest, True)
                     else Inr (now - 7 * 24 * hour, now, False))))"

section \<open>The dates of a dataset\<close>

definition dates_ok :: "time list \<Rightarrow> bool" where
  "dates_ok ds \<longleftrightarrow> distinct ds \<and> (\<forall>d \<in> set ds. day dvd d)"

lemma parsed_midnight: "parse_date s = Some d \<Longrightarrow> day dvd d"
  by (auto simp: parse_date_def Let_def split: if_splits)

lemma loaded_rows:
  assumes "load_rows header rows tbl seen = Inr (tbl', seen')" "dates_ok seen" "\<forall>d \<in> set seen. tbl (date_key d) \<noteq> None"
  shows "dates_ok seen'"
  using assms
proof (induction header rows tbl seen rule: load_rows.induct)
  case (3 header rec rest tbl seen)
  then obtain d where d: "parse_date (cell header rec ''Date'') = Some d" by (auto split: option.splits)
  define b where "b = bar_of header rec d"
  define days where "days = (case tbl (date_key d) of None \<Rightarrow> Map.empty | Some m \<Rightarrow> m)"
  have run: "load_rows header rest (tbl(date_key d \<mapsto> days(ba_symbol b \<mapsto> b))) (if tbl (date_key d) = None then seen @ [d] else seen) = Inr (tbl', seen')"
    using 3(2) d by (simp add: b_def days_def Let_def)
  have "d \<notin> set seen" if "tbl (date_key d) = None" using 3(4) that by auto
  then have "dates_ok (if tbl (date_key d) = None then seen @ [d] else seen)"
    using 3(3) parsed_midnight [OF d] by (auto simp: dates_ok_def)
  moreover have "\<forall>x \<in> set (if tbl (date_key d) = None then seen @ [d] else seen). (tbl(date_key d \<mapsto> days(ba_symbol b \<mapsto> b))) (date_key x) \<noteq> None"
    using 3(4) by auto
  ultimately show ?case by (rule 3(1) [OF d b_def days_def run])
qed auto

lemma loaded_dates:
  assumes "LoadTWSEOpenDataCSV f = Inr ds"
  shows "dates_ok (ds_dates ds)" "sorted (ds_dates ds)"
proof -
  from assms obtain header rows tbl seen where "load_rows header rows Map.empty [] = Inr (tbl, seen)" "ds_dates ds = sort seen"
    by (auto simp: LoadTWSEOpenDataCSV_def split: csv_file.splits option.splits sum.splits)
  with loaded_rows [of header rows Map.empty "[]"] show "dates_ok (ds_dates ds)" "sorted (ds_dates ds)"
    by (auto simp: dates_ok_def)
qed

text \<open>Fewer than 63 dates fit in 61 days.\<close>

lemma few_dates:
  assumes "dates_ok ds" "end - start < 61 * day"
  shows "length (filter (\<lambda>d. start \<le> d \<and> d \<le> end) ds) < 63"
proof -
  let ?xs = "filter (\<lambda>d. start \<le> d \<and> d \<le> end) ds"
  have "inj_on (\<lambda>d. d div day) (set ?xs)"
  proof (rule inj_onI)
    fix x y assume x: "x \<in> set ?xs" and y: "y \<in> set ?xs" and eq: "x div day = y div day"
    have whole: "day * (d div day) = d" if "d \<in> set ?xs" for d
      by (rule dvd_mult_div_cancel) (use assms(1) that in \<open>simp add: dates_ok_def\<close>)
    show "x = y" using whole [OF x] whole [OF y] unfolding eq by (rule trans [OF sym])
  qed
  then have "card ((\<lambda>d. d div day) ` set ?xs) = card (set ?xs)" by (rule card_image)
  moreover have "card (set ?xs) = length ?xs" by (rule distinct_card) (use assms(1) in \<open>simp add: dates_ok_def\<close>)
  ultimately have "length ?xs = card ((\<lambda>d. d div day) ` set ?xs)" by (rule trans [THEN sym])
  also have "\<dots> \<le> card {start div day..end div day}"
    by (rule card_mono) (auto intro: zdiv_mono1)
  also have "\<dots> < 63"
  proof -
    have "start = day * (start div day) + start mod day" "end = day * (end div day) + end mod day" by simp_all
    moreover have "start mod day < day" "0 \<le> end mod day" by simp_all
    ultimately have "day * (end div day - start div day) < 62 * day" using assms(2) by (simp add: algebra_simps)
    then show ?thesis by auto
  qed
  finally show ?thesis .
qed

lemma length_map_filter_le: "length (List.map_filter f xs) \<le> length xs"
  by (induction xs) (auto simp: List.map_filter_simps split: option.split)

lemma window_days_few: "length (window_days ds start end) \<le> length (filter (\<lambda>d. start \<le> d \<and> d \<le> end) (ds_dates ds))"
proof -
  have "length (List.map_filter (\<lambda>d. if d < start \<or> end < d then None
        else (case NextDate ds d 1 of None \<Rightarrow> None | Some n \<Rightarrow> if end < n then None else Some (d, n))) xs)
      \<le> length (filter (\<lambda>d. start \<le> d \<and> d \<le> end) xs)" for xs
    by (induction xs) (auto simp: List.map_filter_simps split: option.split)
  then show ?thesis by (simp add: window_days_def)
qed

text \<open>A score has as many observations as returns, at most one for each day of its window.\<close>

definition scores_window :: "dataset \<Rightarrow> (time \<Rightarrow> time \<Rightarrow> scored) \<Rightarrow> bool" where
  "scores_window ds f \<longleftrightarrow> (\<forall>s e. case f s e of (v, n, rs, k) \<Rightarrow> n = int (length rs) \<and> length rs \<le> length (window_days ds s e))"

lemma score_of_counts: "case score_of rs k of (v, n, rs', k') \<Rightarrow> n = int (length rs') \<and> rs' = rs"
  by (simp add: score_of_def)

lemma scores_prompt: "scores_window ds (scorePromptWindowWithObservations rq ds skill prompt xp)"
  unfolding scores_window_def
proof (intro allI)
  fix s e
  let ?days = "map (\<lambda>(d, n). prompt_day rq ds skill prompt xp d) (window_days ds s e)"
  have "length (List.map_filter fst ?days) \<le> length (window_days ds s e)" using length_map_filter_le [of fst ?days] by simp
  then show "case scorePromptWindowWithObservations rq ds skill prompt xp s e of (v, n, rs, k) \<Rightarrow>
      n = int (length rs) \<and> length rs \<le> length (window_days ds s e)"
    using score_of_counts [of "List.map_filter fst ?days" "add_counts (map snd ?days)"]
    by (auto simp: scorePromptWindowWithObservations_def Let_def)
qed

lemma scores_constraint: "scores_window ds (scoreConstraintWindowWithObservations cfg rq ds c)"
  unfolding scores_window_def
proof (intro allI)
  fix s e
  let ?days = "map (constraint_day cfg rq ds c) (window_days ds s e)"
  show "case scoreConstraintWindowWithObservations cfg rq ds c s e of (v, n, rs, k) \<Rightarrow>
      n = int (length rs) \<and> length rs \<le> length (window_days ds s e)"
    using score_of_counts [of "map fst ?days" "add_counts (map snd ?days)"]
    by (auto simp: scoreConstraintWindowWithObservations_def Let_def)
qed

text \<open>The fallback is never longer than thirty days: the last date is always in it, so the longer lengths are never tried.\<close>

lemma fallback_thirty_days:
  assumes "sorted (ds_dates ds)" "fallbackWindow ds 1 = Some (s, e)"
  shows "s = max (e - 30 * day) (hd (ds_dates ds))" "e = List.last (ds_dates ds)" "e - s \<le> 30 * day"
proof -
  let ?dates = "ds_dates ds"
  have ne: "?dates \<noteq> []" using assms(2) by (auto simp: fallbackWindow_def Let_def)
  have "hd ?dates \<le> List.last ?dates" using assms(1) ne by (cases ?dates) (auto simp: sorted_simps)
  then have "window_from ?dates 30 \<le> List.last ?dates" by (simp add: window_from_def)
  then have "List.last ?dates \<in> set (filter (\<lambda>d. \<not> d < window_from ?dates 30 \<and> \<not> List.last ?dates < d) ?dates)"
    using ne by simp
  then have "1 \<le> int (length (filter (\<lambda>d. \<not> d < window_from ?dates 30 \<and> \<not> List.last ?dates < d) ?dates))"
    by (metis One_nat_def Suc_leI length_pos_if_in_set of_nat_1 of_nat_le_iff)
  with assms(2) ne have "s = window_from ?dates 30" "e = List.last ?dates" by (auto simp: fallbackWindow_def Let_def)
  then show "s = max (e - 30 * day) (hd ?dates)" "e = List.last ?dates" "e - s \<le> 30 * day" by (simp_all add: window_from_def)
qed

lemma compared_returns:
  assumes "dates_ok (ds_dates ds)" "sorted (ds_dates ds)" "scores_window ds base" "scores_window ds cand" "snd w - fst w < 61 * day"
    "compare_on base cand ds cash w = s"
  shows "rs_baseline_obs s = int (length (rs_baseline_returns s)) \<and> rs_candidate_obs s = int (length (rs_candidate_returns s)) \<and>
    length (rs_baseline_returns s) < 63"
proof -
  have scored: "fst (snd (f a b)) = int (length (fst (snd (snd (f a b))))) \<and>
      (b - a < 61 * day \<longrightarrow> length (fst (snd (snd (f a b)))) < 63)" if "scores_window ds f" for f a b
  proof -
    obtain v n rs k where f: "f a b = (v, n, rs, k)" by (cases "f a b") auto
    have "case f a b of (v, n, rs, k) \<Rightarrow> n = int (length rs) \<and> length rs \<le> length (window_days ds a b)"
      using that by (simp add: scores_window_def)
    then have "n = int (length rs)" "length rs \<le> length (window_days ds a b)" by (simp_all add: f)
    moreover have "length (window_days ds a b) < 63" if "b - a < 61 * day"
      using window_days_few [of ds a b] few_dates [OF assms(1) that] by linarith
    ultimately show ?thesis using f by auto
  qed
  show ?thesis
  proof (cases "if fst (snd (base (fst w) (snd w))) = 0 \<and> fst (snd (cand (fst w) (snd w))) = 0 then fallbackWindow ds 1 else None")
    case None
    then show ?thesis using assms(6) scored [OF assms(3), of "fst w" "snd w"] scored [OF assms(4), of "fst w" "snd w"] assms(5)
      by (auto simp: compare_on_def Let_def)
  next
    case (Some v)
    then have "fallbackWindow ds 1 = Some (fst v, snd v)" by (auto split: if_splits)
    from fallback_thirty_days(3) [OF assms(2) this] have "snd v - fst v < 61 * day" by simp
    then show ?thesis using assms(6) Some scored [OF assms(3), of "fst v" "snd v"] scored [OF assms(4), of "fst v" "snd v"]
      by (auto simp: compare_on_def Let_def)
  qed
qed

lemma compared_short:
  assumes "comparePromptPerformanceDetailed cfg rq csv path fs b w prompt_file candidate_file = Inr s" "snd w - fst w < 61 * day"
  shows "rs_baseline_obs s = int (length (rs_baseline_returns s)) \<and> rs_candidate_obs s = int (length (rs_candidate_returns s)) \<and>
    length (rs_baseline_returns s) < 63"
proof -
  from assms(1) obtain ds p baseline candidate base cand where ds: "LoadTWSEOpenDataCSV csv = Inr ds"
    and bc: "scorers cfg rq ds p b baseline candidate = (base, cand)"
    and s: "s = compare_on base cand ds (sc_starting_cash (bp_constraints p)) w"
    by (auto simp: comparePromptPerformanceDetailed_def Let_def split: sum.splits option.splits prod.splits)
  from bc have "scores_window ds base" "scores_window ds cand"
    by (auto simp: scorers_def scores_prompt scores_constraint split: if_splits)
  from compared_returns [OF loaded_dates [OF ds] this assms(2)] s show ?thesis by simp
qed

section \<open>The validation of a fresh experiment\<close>

text \<open>When the dataset ends by the end of the primary window, the out-of-sample window has no day: both scores come from the fallback,
  the last thirty days of the same dataset.\<close>

lemma sorted_last: "sorted xs \<Longrightarrow> d \<in> set xs \<Longrightarrow> d \<le> List.last (xs :: time list)"
  by (induction xs) (auto split: if_splits)

lemma fresh_oos_window_empty:
  assumes "sorted (ds_dates ds)" "List.last (ds_dates ds) \<le> primaryEnd"
  shows "window_days ds (fst (oosWindow op primaryEnd)) (snd (oosWindow op primaryEnd)) = []"
proof -
  have start: "primaryEnd < fst (oosWindow op primaryEnd)" by (simp add: oosWindow_def Let_def)
  have "filter (\<lambda>d. fst (oosWindow op primaryEnd) \<le> d \<and> d \<le> snd (oosWindow op primaryEnd)) (ds_dates ds) = []"
    unfolding filter_empty_conv using sorted_last [OF assms(1)] assms(2) start by fastforce
  then show ?thesis using window_days_few [of ds "fst (oosWindow op primaryEnd)" "snd (oosWindow op primaryEnd)"] by simp
qed

section \<open>Short windows\<close>

text \<open>The window of an automatic experiment is at most seven days long.\<close>

lemma auto_window_short: "resolveExperimentWindow z now csv = Inr (s, e, deferred) \<Longrightarrow> e - s \<le> 7 * day"
  by (auto simp: resolveExperimentWindow_def Let_def split: option.splits sum.splits if_splits)

text \<open>C6 (safety). No experiment whose window is shorter than 61 days is ever accepted, whatever its candidate, its prompts, its gates and
  the dataset, as long as the threshold of Welch's test is positive and every maturity level asks for at least two observations (the
  defaults are 2 and 3, 8, 12): the replay gives at most one return for each day of the window (or of the fallback, at most thirty days),
  and the test gives zero for fewer than 63 returns. The windows of the automatic experiments are seven days long.\<close>
theorem short_windows_are_never_accepted:
  assumes "Evaluate j jt inp = Inr (r', events)" "ji_window inp = Some w" "snd w - fst w < 61 * day"
    "ji_summary inp = (case comparePromptPerformanceDetailed cfg rq csv path fs b w prompt_file candidate_file of Inl _ \<Rightarrow> None | Inr s \<Rightarrow> Some s)"
    "flt (Fin 0) (ep_welch (jd_params j))" "2 \<le> least_observations (jd_params j)"
  shows "xr_status (er_experiment r') \<noteq> ExperimentAccepted"
proof
  assume "xr_status (er_experiment r') = ExperimentAccepted"
  from Evaluate_accepted [OF assms(1) this] obtain r prompt w' s where
    s: "ji_summary inp = Some s" and pass: "passesAcceptance j prompt (judged_result j jt inp prompt w' s r) = None" by metis
  from s assms(4) have "comparePromptPerformanceDetailed cfg rq csv path fs b w prompt_file candidate_file = Inr s"
    by (auto split: sum.splits)
  from compared_short [OF this assms(3)] have "passesAcceptance j prompt (judged_result j jt inp prompt w' s r) \<noteq> None"
    using assms(5,6) least_required [of j "judged_result j jt inp prompt w' s r"] by (intro short_samples_rejected) simp_all
  with pass show False by simp
qed

definition demo_research :: research where
  "demo_research = \<lparr>rq_skill_symbols = \<lambda>s. [], rq_symbols = [], rq_raw = \<lambda>q v x. [], rq_active = \<lambda>q x. [], rq_regime = \<lambda>q x. [],
     rq_factor = Fin 1, rq_visit = \<lambda>n m. m, rq_zone = 0, rq_math = jd_math demo_judge\<rparr>"

definition demo_csv :: csv_file where
  "demo_csv = CsvFile (Some required_columns) []"

definition demo_compared :: "compare_error + replay_summary" where
  "demo_compared = comparePromptPerformanceDetailed demo_params demo_research demo_csv [] \<lparr>pf_main = FileMissing, pf_backup = FileMissing\<rparr>
     (er_brief demo_running) (0, 7 * day) (Some ''b'') (Some ''c'')"

definition demo_short :: judge_input where
  "demo_short = demo_input\<lparr>ji_window := Some (0, 7 * day), ji_summary := (case demo_compared of Inl _ \<Rightarrow> None | Inr s \<Rightarrow> Some s)\<rparr>"

lemma demo_compared_returns: "\<exists>s. demo_compared = Inr s"
proof -
  have "find (\<lambda>c. column required_columns c = None) required_columns = None" by code_simp
  then have "LoadTWSEOpenDataCSV demo_csv = Inr \<lparr>ds_by = Map.empty, ds_dates = []\<rparr>"
    by (simp add: LoadTWSEOpenDataCSV_def demo_csv_def)
  then show ?thesis by (simp add: demo_compared_def comparePromptPerformanceDetailed_def Load_def Let_def split: prod.split)
qed

lemma short_windows_are_never_accepted_witness:
  "\<exists>r' events. Evaluate demo_judge demo_texts demo_short = Inr (r', events) \<and> xr_status (er_experiment r') \<noteq> ExperimentAccepted"
proof -
  obtain s where s: "demo_compared = Inr s" using demo_compared_returns by blast
  have "ji_result demo_short = Some demo_running" "ji_prompt demo_short = Some ''p''" "ji_window demo_short = Some (0, 7 * day)"
    "ji_summary demo_short = Some s" "ji_stored demo_short"
    by (simp_all add: demo_short_def demo_input_def s)
  moreover have "xr_status (er_experiment demo_running) = ExperimentRunning" by (simp add: demo_running_def Let_def)
  ultimately obtain r' events where run: "Evaluate demo_judge demo_texts demo_short = Inr (r', events)"
    using Evaluate_returns demo_valid by metis
  have "flt (Fin 0) (ep_welch (jd_params demo_judge))" "2 \<le> least_observations (jd_params demo_judge)"
    by (simp_all add: demo_judge_def default_experiment_params_def least_observations_def)
  moreover have "ji_summary demo_short = (case comparePromptPerformanceDetailed demo_params demo_research demo_csv []
      \<lparr>pf_main = FileMissing, pf_backup = FileMissing\<rparr> (er_brief demo_running) (0, 7 * day) (Some ''b'') (Some ''c'') of Inl _ \<Rightarrow> None | Inr s \<Rightarrow> Some s)"
    by (simp add: demo_short_def demo_compared_def)
  moreover have "ji_window demo_short = Some (0, 7 * day)" by (simp add: demo_short_def)
  ultimately have "xr_status (er_experiment r') \<noteq> ExperimentAccepted"
    by (intro short_windows_are_never_accepted [OF run]) simp_all
  with run show ?thesis by blast
qed

end
