(* ===== verification/Alert_Store.thy ===== *)
theory Alert_Store
  imports Atlas_Prelude Float64
begin

text \<open>
  The alert store, \<open>internal/monitoring/alert_store.go\<close>, with its expiry (\<open>alert_ttl.go\<close>) and its compliance
  statistics (\<open>alert_sla.go\<close>).

  The store is a file of lines.  A line is a record, or it does not decode; a torn line is one that a write which was cut short
  has left without its end, so that the next append continues it.  Every write has an outcome, an argument.  Of a record, the
  value, the threshold and the first sighting are left out: no operation of the store reads them.  The requests of
  \<open>alert_api.go\<close> that change the store are here too.
\<close>

section \<open>Records\<close>

definition AlertStatusTriggered :: string where "AlertStatusTriggered = ''triggered''"
definition AlertStatusAcknowledged :: string where "AlertStatusAcknowledged = ''acknowledged''"
definition AlertStatusResolved :: string where "AlertStatusResolved = ''resolved''"
definition AlertStatusSilenced :: string where "AlertStatusSilenced = ''silenced''"

lemmas alert_status_defs =
  AlertStatusTriggered_def AlertStatusAcknowledged_def AlertStatusResolved_def AlertStatusSilenced_def

record alert_record =
  al_id :: string
  al_at :: time
  al_rule :: string
  al_severity :: string
  al_message :: string
  al_breakdown :: "string option"
  al_acked :: bool
  al_acked_at :: "time option"
  al_acked_by :: string
  al_status :: string
  al_dedup :: string
  al_last_seen :: "time option"
  al_count :: int
  al_resolved_at :: "time option"
  al_resolved_by :: string
  al_within :: "int option"
  al_silenced :: "time option"

datatype alert_line = Row alert_record | Garbled | Torn

datatype alert_file = AlertsMissing | AlertsUnreadable | AlertLines "alert_line list"

datatype store_error = LoadFailed | AlertNotFound string | AppendFailed | RewriteFailed

section \<open>Reading\<close>

definition heal :: "alert_record \<Rightarrow> alert_record" where
  "heal r = (if al_acked r \<and> al_status r = AlertStatusTriggered then r\<lparr>al_status := AlertStatusAcknowledged\<rparr> else r)"

fun decode_lines :: "alert_line list \<Rightarrow> alert_record list option" where
  "decode_lines [] = Some []"
| "decode_lines (Row r # ls) = map_option (\<lambda>rs. r # rs) (decode_lines ls)"
| "decode_lines (Garbled # ls) = None"
| "decode_lines (Torn # ls) = None"

definition loadFromFile :: "alert_file \<Rightarrow> store_error + alert_record list" where
  "loadFromFile f =
     (case f of
        AlertsMissing \<Rightarrow> Inr []
      | AlertsUnreadable \<Rightarrow> Inl LoadFailed
      | AlertLines ls \<Rightarrow> (case decode_lines ls of None \<Rightarrow> Inl LoadFailed | Some rs \<Rightarrow> Inr (map heal rs)))"

definition LoadAll :: "alert_file \<Rightarrow> store_error + alert_record list" where
  "LoadAll f = loadFromFile f"

definition LoadUnacknowledged :: "alert_file \<Rightarrow> store_error + alert_record list" where
  "LoadUnacknowledged f =
     (case loadFromFile f of
        Inl e \<Rightarrow> Inl e
      | Inr rs \<Rightarrow> Inr (filter (\<lambda>r. \<not> al_acked r \<and> al_status r \<noteq> AlertStatusResolved \<and> al_status r \<noteq> AlertStatusSilenced) rs))"

definition FindByDedupKey :: "string \<Rightarrow> alert_file \<Rightarrow> store_error + alert_record option" where
  "FindByDedupKey key f =
     (case loadFromFile f of Inl e \<Rightarrow> Inl e | Inr rs \<Rightarrow> Inr (find (\<lambda>r. al_dedup r = key) rs))"

section \<open>Writing\<close>

text \<open>A write succeeds, is refused before it begins, or stops after some lines, in the middle of the next one or not.\<close>

datatype write_outcome = Written | Refused | CutAfter nat bool

definition torn :: "bool \<Rightarrow> alert_line list" where
  "torn p = (if p then [Torn] else [])"

definition rewriteAll :: "write_outcome \<Rightarrow> alert_record list \<Rightarrow> alert_file \<Rightarrow> store_error option \<times> alert_file" where
  "rewriteAll w rs f =
     (case w of
        Written \<Rightarrow> (None, AlertLines (map Row rs))
      | Refused \<Rightarrow> (Some RewriteFailed, f)
      | CutAfter n p \<Rightarrow> (Some RewriteFailed, AlertLines (map Row (take n rs) @ torn p)))"

definition lines_of :: "alert_file \<Rightarrow> alert_line list" where
  "lines_of f = (case f of AlertLines ls \<Rightarrow> ls | _ \<Rightarrow> [])"

text \<open>What an append makes of a torn last line does not decode either.\<close>

definition add_line :: "alert_line list \<Rightarrow> alert_line \<Rightarrow> alert_line list" where
  "add_line ls l =
     (if ls \<noteq> [] \<and> List.last ls = Torn then butlast ls @ [if l = Torn then Torn else Garbled] else ls @ [l])"

definition append_alert :: "write_outcome \<Rightarrow> alert_record \<Rightarrow> alert_file \<Rightarrow> store_error option \<times> alert_file" where
  "append_alert w r f =
     (case w of
        Written \<Rightarrow> (None, if f = AlertsUnreadable then f else AlertLines (add_line (lines_of f) (Row r)))
      | Refused \<Rightarrow> (Some AppendFailed, f)
      | CutAfter n p \<Rightarrow>
          (Some AppendFailed, if f = AlertsUnreadable then f else AlertLines (if p then add_line (lines_of f) Torn else lines_of f)))"

definition is_open :: "string \<Rightarrow> alert_record \<Rightarrow> bool" where
  "is_open key r \<longleftrightarrow> al_dedup r = key \<and> al_status r = AlertStatusTriggered"

definition newer_open :: "alert_record list \<Rightarrow> string \<Rightarrow> nat \<Rightarrow> nat option \<Rightarrow> nat option" where
  "newer_open rs key i idx =
     (if \<not> is_open key (rs ! i) then idx
      else (case idx of None \<Rightarrow> Some i | Some j \<Rightarrow> if al_at (rs ! j) < al_at (rs ! i) then Some i else idx))"

definition openRecordIndex :: "alert_record list \<Rightarrow> string \<Rightarrow> nat option" where
  "openRecordIndex rs key = fold (newer_open rs key) [0..<length rs] None"

definition mergeIntoOpenRecord :: "alert_record \<Rightarrow> alert_record \<Rightarrow> alert_record" where
  "mergeIntoOpenRecord dst src =
     (let d = dst\<lparr>al_count := wrap64 (al_count dst + (if al_count src < 1 then 1 else al_count src))\<rparr>;
          d = (if al_at src \<noteq> zero_time then d\<lparr>al_at := al_at src, al_last_seen := Some (al_at src)\<rparr> else d);
          d = (if al_message src \<noteq> [] then d\<lparr>al_message := al_message src\<rparr> else d);
          d = (if al_severity src \<noteq> [] then d\<lparr>al_severity := al_severity src\<rparr> else d)
      in if al_breakdown src \<noteq> None then d\<lparr>al_breakdown := al_breakdown src\<rparr> else d)"

text \<open>\<open>Save\<close> in its two halves: what it decides on the records it has read, and the write.\<close>

definition save_decided ::
  "store_error + alert_record list \<Rightarrow> write_outcome \<Rightarrow> alert_record \<Rightarrow> alert_file \<Rightarrow> store_error option \<times> alert_file" where
  "save_decided loaded w a f =
     (if al_dedup a \<noteq> [] then
        (case loaded of
           Inl e \<Rightarrow> (Some e, f)
         | Inr rs \<Rightarrow>
             (case openRecordIndex rs (al_dedup a) of
                Some i \<Rightarrow> rewriteAll w (rs[i := mergeIntoOpenRecord (rs ! i) a]) f
              | None \<Rightarrow> append_alert w a f))
      else append_alert w a f)"

definition SaveAlert :: "write_outcome \<Rightarrow> alert_record \<Rightarrow> alert_file \<Rightarrow> store_error option \<times> alert_file" where
  "SaveAlert w a f = save_decided (loadFromFile f) w a f"

text \<open>The first record with an identifier.\<close>

fun modify_first :: "string \<Rightarrow> (alert_record \<Rightarrow> alert_record) \<Rightarrow> alert_record list \<Rightarrow> alert_record list option" where
  "modify_first i g [] = None"
| "modify_first i g (r # rs) = (if al_id r = i then Some (g r # rs) else map_option (\<lambda>ys. r # ys) (modify_first i g rs))"

definition UpdateAlert ::
  "write_outcome \<Rightarrow> string \<Rightarrow> (alert_record \<Rightarrow> alert_record) \<Rightarrow> alert_file \<Rightarrow> store_error option \<times> alert_file" where
  "UpdateAlert w i g f =
     (case loadFromFile f of
        Inl e \<Rightarrow> (Some e, f)
      | Inr rs \<Rightarrow> (case modify_first i g rs of None \<Rightarrow> (Some (AlertNotFound i), f) | Some rs' \<Rightarrow> rewriteAll w rs' f))"

definition acknowledged :: "time \<Rightarrow> string \<Rightarrow> alert_record \<Rightarrow> alert_record" where
  "acknowledged now user r =
     r\<lparr>al_within := Some (f64_to_i64 (duration_seconds (time_sub now (al_at r)))), al_acked := True, al_acked_at := Some now,
       al_acked_by := user, al_status := AlertStatusAcknowledged\<rparr>"

definition resolved :: "time \<Rightarrow> string \<Rightarrow> alert_record \<Rightarrow> alert_record" where
  "resolved now user r = r\<lparr>al_status := AlertStatusResolved, al_resolved_at := Some now, al_resolved_by := user\<rparr>"

definition AcknowledgeAlert :: "time \<Rightarrow> write_outcome \<Rightarrow> string \<Rightarrow> string \<Rightarrow> alert_file \<Rightarrow> store_error option \<times> alert_file" where
  "AcknowledgeAlert now w i user f = UpdateAlert w i (acknowledged now user) f"

definition ResolveAlert :: "time \<Rightarrow> write_outcome \<Rightarrow> string \<Rightarrow> string \<Rightarrow> alert_file \<Rightarrow> store_error option \<times> alert_file" where
  "ResolveAlert now w i user f = UpdateAlert w i (resolved now user) f"

text \<open>The bulk operations return the number of records they changed, also when the write fails.\<close>

definition change_where ::
  "write_outcome \<Rightarrow> (alert_record \<Rightarrow> bool) \<Rightarrow> (alert_record list \<Rightarrow> alert_record list) \<Rightarrow> alert_file
     \<Rightarrow> (int \<times> store_error option) \<times> alert_file" where
  "change_where w P g f =
     (case loadFromFile f of
        Inl e \<Rightarrow> ((0, Some e), f)
      | Inr rs \<Rightarrow>
          (let n = int (length (filter P rs))
           in if n = 0 then ((0, None), f) else (case rewriteAll w (g rs) f of (e, f') \<Rightarrow> ((n, e), f'))))"

definition DeleteWhere ::
  "write_outcome \<Rightarrow> (alert_record \<Rightarrow> bool) \<Rightarrow> alert_file \<Rightarrow> (int \<times> store_error option) \<times> alert_file" where
  "DeleteWhere w P f = change_where w P (filter (\<lambda>r. \<not> P r)) f"

definition AcknowledgeWhere ::
  "time \<Rightarrow> write_outcome \<Rightarrow> (alert_record \<Rightarrow> bool) \<Rightarrow> string \<Rightarrow> alert_file \<Rightarrow> (int \<times> store_error option) \<times> alert_file" where
  "AcknowledgeWhere now w P user f =
     change_where w P (map (\<lambda>r. if P r then r\<lparr>al_acked := True, al_acked_at := Some now, al_acked_by := user,
       al_status := AlertStatusAcknowledged\<rparr> else r)) f"

definition ResolveWhere ::
  "time \<Rightarrow> write_outcome \<Rightarrow> (alert_record \<Rightarrow> bool) \<Rightarrow> string \<Rightarrow> alert_file \<Rightarrow> (int \<times> store_error option) \<times> alert_file" where
  "ResolveWhere now w P user f = change_where w P (map (\<lambda>r. if P r then resolved now user r else r)) f"

section \<open>Expiry\<close>

definition ttl_expired :: "time \<Rightarrow> alert_record \<Rightarrow> bool" where
  "ttl_expired now r =
     (if al_status r \<noteq> AlertStatusTriggered then False
      else
        (let last = (case al_last_seen r of None \<Rightarrow> al_at r | Some t \<Rightarrow> if al_at r < t then t else al_at r)
         in if al_severity r = ''WARNING'' then 7 * 24 * hour < time_sub now last
            else if al_severity r = ''ERROR'' \<or> al_severity r = ''CRITICAL'' then 30 * 24 * hour < time_sub now last
            else False))"

definition runAlertTTLExpiry :: "time \<Rightarrow> write_outcome \<Rightarrow> alert_file \<Rightarrow> alert_file" where
  "runAlertTTLExpiry now w f = snd (ResolveWhere now w (ttl_expired now) ''ttl-expiry'' f)"

section \<open>Compliance statistics\<close>

record sla_parameters =
  sl_critical :: int
  sl_error :: int
  sl_warning :: int

record sla_bucket =
  sb_total :: int
  sb_violations :: int
  sb_rate :: f64

record sla_stats =
  ss_critical :: sla_bucket
  ss_error :: sla_bucket
  ss_warning :: sla_bucket
  ss_p50 :: int
  ss_p95 :: int

definition empty_bucket :: sla_bucket where
  "empty_bucket = \<lparr>sb_total = 0, sb_violations = 0, sb_rate = Fin 0\<rparr>"

definition empty_stats :: sla_stats where
  "empty_stats = \<lparr>ss_critical = empty_bucket, ss_error = empty_bucket, ss_warning = empty_bucket, ss_p50 = 0, ss_p95 = 0\<rparr>"

definition complianceRate :: "int \<Rightarrow> int \<Rightarrow> f64" where
  "complianceRate n violations =
     (if n = 0 then Fin 0 else fdiv (f64_of_int (n - violations)) (f64_of_int n))"

definition fceil :: "f64 \<Rightarrow> f64" where
  "fceil v = fneg (ffloor (fneg v))"

definition percentile :: "int list \<Rightarrow> int \<Rightarrow> int" where
  "percentile vals p =
     (if vals = [] then 0
      else
        (let n = int (length vals);
             rank = min (max (f64_to_i64 (fceil (fmul (fdiv (f64_of_int p) (Fin 100)) (f64_of_int n)))) 1) n
         in sort vals ! nat (rank - 1)))"

text \<open>How a record counts in its bucket, and the latency it adds.\<close>

definition counted :: "int \<Rightarrow> alert_record \<Rightarrow> sla_bucket \<Rightarrow> sla_bucket" where
  "counted threshold r b =
     b\<lparr>sb_total := sb_total b + 1,
       sb_violations := sb_violations b +
         (if \<not> al_acked r then 1 else (case al_within r of None \<Rightarrow> 0 | Some l \<Rightarrow> if threshold < l then 1 else 0))\<rparr>"

definition in_sla :: "alert_record \<Rightarrow> bool" where
  "in_sla r \<longleftrightarrow> al_status r \<noteq> AlertStatusSilenced \<and> al_status r \<noteq> AlertStatusResolved"

definition count_alert :: "sla_parameters \<Rightarrow> alert_record \<Rightarrow> sla_stats \<Rightarrow> sla_stats" where
  "count_alert p r s =
     (if \<not> in_sla r then s
      else if al_severity r = ''critical'' then s\<lparr>ss_critical := counted (sl_critical p) r (ss_critical s)\<rparr>
      else if al_severity r = ''error'' then s\<lparr>ss_error := counted (sl_error p) r (ss_error s)\<rparr>
      else s\<lparr>ss_warning := counted (sl_warning p) r (ss_warning s)\<rparr>)"

definition rated :: "sla_bucket \<Rightarrow> sla_bucket" where
  "rated b = b\<lparr>sb_rate := complianceRate (sb_total b) (sb_violations b)\<rparr>"

definition GetSLAStats :: "sla_parameters \<Rightarrow> alert_file \<Rightarrow> sla_stats" where
  "GetSLAStats p f =
     (case loadFromFile f of
        Inl _ \<Rightarrow> empty_stats
      | Inr rs \<Rightarrow>
          (let s = fold (count_alert p) rs empty_stats;
               latencies = List.map_filter (\<lambda>r. if in_sla r \<and> al_acked r then al_within r else None) rs
           in \<lparr>ss_critical = rated (ss_critical s), ss_error = rated (ss_error s), ss_warning = rated (ss_warning s),
               ss_p50 = percentile latencies 50, ss_p95 = percentile latencies 95\<rparr>))"

section \<open>The requests that change the store\<close>

datatype api_request =
    ReqAcknowledge string string
  | ReqResolve string string
  | ReqAcknowledgeBulk "string list"
  | ReqSilence string int string

datatype api_reply =
    BadRequest string
  | NotFound store_error
  | ServerError store_error
  | Succeeded string
  | BulkDone int int
  | SilencedRule string time string int

definition silenced :: "time \<Rightarrow> alert_record \<Rightarrow> alert_record" where
  "silenced t r = r\<lparr>al_status := AlertStatusSilenced, al_silenced := Some t\<rparr>"

text \<open>Updates one after the other, each with its own reading of the clock and outcome; a failed one does not stop the loop.\<close>

fun update_all ::
  "(nat \<Rightarrow> time \<times> write_outcome) \<Rightarrow> (time \<Rightarrow> alert_record \<Rightarrow> alert_record) \<Rightarrow> nat \<Rightarrow> string list \<Rightarrow> alert_file \<Rightarrow> int \<times> alert_file" where
  "update_all env g k [] f = (0, f)"
| "update_all env g k (i # ids) f =
     (case UpdateAlert (snd (env k)) i (g (fst (env k))) f of
        (e, f1) \<Rightarrow> (case update_all env g (Suc k) ids f1 of (n, f2) \<Rightarrow> (if e = None then n + 1 else n, f2)))"

definition handleAcknowledge :: "(nat \<Rightarrow> time \<times> write_outcome) \<Rightarrow> string \<Rightarrow> string \<Rightarrow> alert_file \<Rightarrow> api_reply \<times> alert_file" where
  "handleAcknowledge env i user f =
     (if i = [] then (BadRequest ''alert_id required'', f)
      else if user = [] then (BadRequest ''user required'', f)
      else (case AcknowledgeAlert (fst (env 0)) (snd (env 0)) i user f of
              (Some e, f') \<Rightarrow> (NotFound e, f')
            | (None, f') \<Rightarrow> (Succeeded i, f')))"

definition handleResolve :: "(nat \<Rightarrow> time \<times> write_outcome) \<Rightarrow> string \<Rightarrow> string \<Rightarrow> alert_file \<Rightarrow> api_reply \<times> alert_file" where
  "handleResolve env i user f =
     (if i = [] then (BadRequest ''alert_id required'', f)
      else if user = [] then (BadRequest ''user required'', f)
      else (case ResolveAlert (fst (env 0)) (snd (env 0)) i user f of
              (Some e, f') \<Rightarrow> (NotFound e, f')
            | (None, f') \<Rightarrow> (Succeeded i, f')))"

definition handleAcknowledgeBulk :: "(nat \<Rightarrow> time \<times> write_outcome) \<Rightarrow> string list \<Rightarrow> alert_file \<Rightarrow> api_reply \<times> alert_file" where
  "handleAcknowledgeBulk env ids f =
     (if ids = [] then (BadRequest ''ids required'', f)
      else (case update_all env (\<lambda>now. acknowledged now ''bulk'') 0 ids f of
              (n, f') \<Rightarrow> (BulkDone n (int (length ids) - n), f')))"

definition handleSilence ::
  "(nat \<Rightarrow> time \<times> write_outcome) \<Rightarrow> string \<Rightarrow> int \<Rightarrow> string \<Rightarrow> alert_file \<Rightarrow> api_reply \<times> alert_file" where
  "handleSilence env rule minutes reason f =
     (if rule = [] then (BadRequest ''rule required'', f)
      else if minutes \<le> 0 then (BadRequest ''duration_minutes must be > 0'', f)
      else
        (let till = fst (env 0) + wrap64 (minutes * minute)
         in case LoadAll f of
              Inl e \<Rightarrow> (ServerError e, f)
            | Inr rs \<Rightarrow>
                (case update_all env (\<lambda>now. silenced till) 1
                        (map al_id (filter (\<lambda>r. al_rule r = rule \<and> al_status r \<noteq> AlertStatusResolved) rs)) f of
                   (n, f') \<Rightarrow> (SilencedRule rule till reason n, f'))))"

definition serve :: "(nat \<Rightarrow> time \<times> write_outcome) \<Rightarrow> api_request \<Rightarrow> alert_file \<Rightarrow> api_reply \<times> alert_file" where
  "serve env q f =
     (case q of
        ReqAcknowledge i user \<Rightarrow> handleAcknowledge env i user f
      | ReqResolve i user \<Rightarrow> handleResolve env i user f
      | ReqAcknowledgeBulk ids \<Rightarrow> handleAcknowledgeBulk env ids f
      | ReqSilence rule minutes reason \<Rightarrow> handleSilence env rule minutes reason f)"

section \<open>Operations of all writers\<close>

text \<open>What the monitor, the users, the expiry and the recovery hooks do to the file.  The change that an update makes is any function;
  the ones that the program makes (another sighting, an acknowledgement, a resolution, a silence) never open a condition.\<close>

datatype store_op =
    OpSave alert_record
  | OpUpdate string "alert_record \<Rightarrow> alert_record"
  | OpAcknowledge string string
  | OpResolve string string
  | OpDeleteWhere "alert_record \<Rightarrow> bool"
  | OpAcknowledgeWhere "alert_record \<Rightarrow> bool" string
  | OpResolveWhere "alert_record \<Rightarrow> bool" string

definition run_op :: "time \<times> write_outcome \<Rightarrow> store_op \<Rightarrow> alert_file \<Rightarrow> alert_file" where
  "run_op e x f =
     (case x of
        OpSave a \<Rightarrow> snd (SaveAlert (snd e) a f)
      | OpUpdate i g \<Rightarrow> snd (UpdateAlert (snd e) i g f)
      | OpAcknowledge i u \<Rightarrow> snd (AcknowledgeAlert (fst e) (snd e) i u f)
      | OpResolve i u \<Rightarrow> snd (ResolveAlert (fst e) (snd e) i u f)
      | OpDeleteWhere P \<Rightarrow> snd (DeleteWhere (snd e) P f)
      | OpAcknowledgeWhere P u \<Rightarrow> snd (AcknowledgeWhere (fst e) (snd e) P u f)
      | OpResolveWhere P u \<Rightarrow> snd (ResolveWhere (fst e) (snd e) P u f))"

text \<open>A change that opens no condition which was not open, a record being read as the readers of the file do.\<close>

definition opens_none :: "(alert_record \<Rightarrow> alert_record) \<Rightarrow> bool" where
  "opens_none g \<longleftrightarrow> (\<forall>r key. is_open key (heal (g r)) \<longrightarrow> is_open key r)"

fun allowed_op :: "store_op \<Rightarrow> bool" where
  "allowed_op (OpUpdate i g) = opens_none g"
| "allowed_op _ = True"

definition run_ops :: "((time \<times> write_outcome) \<times> store_op) list \<Rightarrow> alert_file \<Rightarrow> alert_file" where
  "run_ops xs f = fold (\<lambda>(e, x). run_op e x) xs f"

section \<open>One open row for each condition\<close>

definition rows_of :: "alert_line list \<Rightarrow> alert_record list" where
  "rows_of ls = List.map_filter (\<lambda>l. case l of Row r \<Rightarrow> Some r | _ \<Rightarrow> None) ls"

lemma rows_of_simps [simp]:
  "rows_of [] = []" "rows_of (Row r # ls) = r # rows_of ls" "rows_of (Garbled # ls) = rows_of ls" "rows_of (Torn # ls) = rows_of ls"
  "rows_of (ls @ ms) = rows_of ls @ rows_of ms" "rows_of (map Row rs) = rs" "rows_of (torn p) = []"
  by (simp_all add: rows_of_def torn_def List.map_filter_def comp_def)

lemma decoded_rows: "decode_lines ls = Some rs \<Longrightarrow> rows_of ls = rs"
  by (induction ls arbitrary: rs rule: decode_lines.induct) auto

text \<open>The rows of a file as its readers see them.\<close>

definition records :: "alert_file \<Rightarrow> alert_record list" where
  "records f = map heal (rows_of (lines_of f))"

lemma loaded_records: "loadFromFile f = Inr rs \<Longrightarrow> records f = rs"
  by (auto simp: loadFromFile_def records_def lines_of_def decoded_rows split: alert_file.splits option.splits)

lemma heal_dedup [simp]: "al_dedup (heal r) = al_dedup r"
  by (simp add: heal_def)

lemma heal_heal [simp]: "heal (heal r) = heal r"
  by (auto simp: heal_def alert_status_defs)

lemma loaded_healed: "loadFromFile f = Inr rs \<Longrightarrow> map heal rs = rs"
  using loaded_records [of f rs] by (auto simp: records_def)

definition one_open_row :: "alert_record list \<Rightarrow> bool" where
  "one_open_row rs \<longleftrightarrow> (\<forall>key. key \<noteq> [] \<longrightarrow> length (filter (is_open key) rs) \<le> 1)"

lemma rows_add_line: "\<exists>xs. rows_of (add_line ls l) = rows_of ls @ xs \<and> (xs = [] \<or> l = Row (hd xs) \<and> tl xs = [])"
proof (cases "ls \<noteq> [] \<and> List.last ls = Torn")
  case True
  then have "rows_of ls = rows_of (butlast ls)" by (metis append_butlast_last_id append_Nil2 rows_of_simps(1,4,5))
  with True show ?thesis by (auto simp: add_line_def)
next
  case False
  then show ?thesis by (cases l) (auto simp: add_line_def)
qed

lemma records_append:
  assumes "append_alert w a f = (e, f')"
  shows "records f' = records f \<or> records f' = records f @ [heal a]"
proof -
  from rows_add_line [of "lines_of f" "Row a"] have 1: "rows_of (add_line (lines_of f) (Row a)) \<in> {rows_of (lines_of f), rows_of (lines_of f) @ [a]}"
    by (metis alert_line.inject append_Nil2 insert_iff list.collapse)
  from rows_add_line [of "lines_of f" Torn] have 2: "rows_of (add_line (lines_of f) Torn) = rows_of (lines_of f)" by auto
  have "lines_of (AlertLines ls) = ls" for ls by (simp add: lines_of_def)
  with assms 1 2 show ?thesis by (auto simp: append_alert_def records_def split: write_outcome.splits if_splits)
qed

lemma records_rewrite:
  assumes "rewriteAll w rs f = (e, f')"
  obtains "records f' = records f" | n where "records f' = map heal (take n rs)"
  using assms by (cases w) (auto simp: rewriteAll_def records_def lines_of_def intro: that(2) [of "length rs"])

lemma one_open_take: "one_open_row rs \<Longrightarrow> one_open_row (take n rs)"
  unfolding one_open_row_def
proof (intro allI impI)
  fix key :: string assume h: "\<forall>key. key \<noteq> [] \<longrightarrow> length (filter (is_open key) rs) \<le> 1" and k: "key \<noteq> []"
  have "length (filter (is_open key) (take n rs)) \<le> length (filter (is_open key) (take n rs @ drop n rs))" by (simp only: filter_append length_append)
  with h k show "length (filter (is_open key) (take n rs)) \<le> 1" by fastforce
qed

lemma one_open_rewrite:
  "rewriteAll w rs f = (e, f') \<Longrightarrow> one_open_row (records f) \<Longrightarrow> one_open_row (map heal rs) \<Longrightarrow> one_open_row (records f')"
  by (erule records_rewrite) (simp_all add: one_open_take take_map [symmetric])

text \<open>Fewer open rows.\<close>

lemma fewer_open:
  assumes "list_all2 (\<lambda>x y. \<forall>key. is_open key y \<longrightarrow> is_open key x) xs ys" "one_open_row xs"
  shows "one_open_row ys"
proof -
  from assms(1) have "length (filter (is_open key) ys) \<le> length (filter (is_open key) xs)" for key
    by (induction rule: list_all2_induct) auto
  with assms(2) show ?thesis unfolding one_open_row_def by (meson le_trans)
qed

lemma heal_open: "is_open key (heal r) \<longleftrightarrow> is_open key r \<and> \<not> al_acked r"
  by (auto simp: is_open_def heal_def alert_status_defs)

text \<open>The index that \<open>Save\<close> merges into.\<close>

lemma newer_open_cases:
  "newer_open rs key i acc = Some i \<and> is_open key (rs ! i) \<or> newer_open rs key i acc = acc \<and> (is_open key (rs ! i) \<longrightarrow> acc \<noteq> None)"
  by (simp add: newer_open_def split: option.split)

lemma newer_open_some:
  "fold (newer_open rs key) is acc = Some j \<Longrightarrow> j \<in> set is \<and> is_open key (rs ! j) \<or> acc = Some j"
proof (induction "is" arbitrary: acc)
  case (Cons i "is")
  from Cons.IH [of "newer_open rs key i acc"] Cons.prems newer_open_cases [of rs key i acc] show ?case by fastforce
qed simp

lemma newer_open_none:
  "fold (newer_open rs key) is acc = None \<Longrightarrow> acc = None \<and> (\<forall>i \<in> set is. \<not> is_open key (rs ! i))"
proof (induction "is" arbitrary: acc)
  case (Cons i "is")
  from Cons.IH [of "newer_open rs key i acc"] Cons.prems newer_open_cases [of rs key i acc] show ?case by fastforce
qed simp

lemma open_index_none: "openRecordIndex rs key = None \<Longrightarrow> filter (is_open key) rs = []"
  unfolding openRecordIndex_def by (drule newer_open_none) (auto simp: filter_empty_conv in_set_conv_nth)

lemma open_index_some: "openRecordIndex rs key = Some i \<Longrightarrow> i < length rs \<and> is_open key (rs ! i)"
  unfolding openRecordIndex_def by (drule newer_open_some) auto

lemma merged_condition [simp]:
  "al_dedup (mergeIntoOpenRecord d s) = al_dedup d" "al_status (mergeIntoOpenRecord d s) = al_status d"
  "al_acked (mergeIntoOpenRecord d s) = al_acked d" "al_id (mergeIntoOpenRecord d s) = al_id d"
  by (simp_all add: mergeIntoOpenRecord_def Let_def)

lemma merged_open [simp]: "is_open key (mergeIntoOpenRecord d s) = is_open key d"
  by (simp add: is_open_def)

lemma save_one_open:
  assumes "SaveAlert w a f = (e, f')" "one_open_row (records f)"
  shows "one_open_row (records f')"
proof -
  have append: "one_open_row (records f')" if "append_alert w a f = (e, f')" "al_dedup a = [] \<or> filter (is_open (al_dedup a)) (records f) = []"
  proof -
    have "filter (is_open key) (records f) = []" if "key \<noteq> []" "is_open key (heal a)" for key
      using that \<open>al_dedup a = [] \<or> _\<close> by (auto simp: heal_open is_open_def)
    with records_append [OF that(1)] assms(2) show ?thesis by (auto simp: one_open_row_def)
  qed
  show ?thesis
  proof (cases "al_dedup a = []")
    case True
    with assms(1) append show ?thesis by (auto simp: SaveAlert_def save_decided_def)
  next
    case False
    show ?thesis
    proof (cases "loadFromFile f")
      case (Inl err)
      with assms False show ?thesis by (simp add: SaveAlert_def save_decided_def)
    next
      case (Inr rs)
      note rs = loaded_records [OF Inr]
      show ?thesis
      proof (cases "openRecordIndex rs (al_dedup a)")
        case None
        then have "filter (is_open (al_dedup a)) rs = []" by (rule open_index_none)
        with assms(1) False Inr None rs append show ?thesis by (auto simp: SaveAlert_def save_decided_def)
      next
        case (Some i)
        let ?rs = "rs[i := mergeIntoOpenRecord (rs ! i) a]"
        have "list_all2 (\<lambda>x y. \<forall>key. is_open key y \<longrightarrow> is_open key x) rs (map heal ?rs)"
        proof -
          have "is_open key (rs ! k)" if "k < length rs" "is_open key (heal (?rs ! k))" for k key
            using that by (cases "k = i") (simp_all add: heal_open)
          then show ?thesis by (auto simp: list_all2_conv_all_nth)
        qed
        with assms(2) rs have "one_open_row (map heal ?rs)" by (auto intro: fewer_open)
        with assms False Inr Some show ?thesis by (auto simp: SaveAlert_def save_decided_def intro: one_open_rewrite)
      qed
    qed
  qed
qed

text \<open>A change of single records that opens none.\<close>

lemma modified_first: "modify_first i g rs = Some ys \<Longrightarrow> list_all2 (\<lambda>x y. y = x \<or> y = g x) rs ys"
proof (induction rs arbitrary: ys)
  case (Cons r rs)
  then show ?case by (auto split: if_splits intro: list_all2_refl)
qed simp

lemma update_one_open:
  assumes "UpdateAlert w i g f = (e, f')" "opens_none g" "one_open_row (records f)"
  shows "one_open_row (records f')"
proof (cases "loadFromFile f")
  case (Inr rs)
  show ?thesis
  proof (cases "modify_first i g rs")
    case (Some ys)
    from modified_first [OF Some] have "list_all2 (\<lambda>x y. \<forall>key. is_open key y \<longrightarrow> is_open key x) rs (map heal ys)"
      using assms(2) by (auto simp: list_all2_conv_all_nth opens_none_def heal_open)
    with assms(3) loaded_records [OF Inr] have "one_open_row (map heal ys)" by (auto intro: fewer_open)
    with assms Inr Some show ?thesis by (auto simp: UpdateAlert_def intro: one_open_rewrite)
  qed (use assms Inr in \<open>simp add: UpdateAlert_def\<close>)
qed (use assms in \<open>simp add: UpdateAlert_def\<close>)

lemma change_one_open:
  assumes "change_where w P g f = (res, f')" "\<And>rs. one_open_row rs \<Longrightarrow> one_open_row (map heal (g rs))" "one_open_row (records f)"
  shows "one_open_row (records f')"
  using assms(1,3) loaded_records [of f]
  by (auto simp: change_where_def Let_def split: sum.splits if_splits prod.splits intro: one_open_rewrite assms(2))

lemma map_one_open:
  assumes "opens_none g" "one_open_row rs"
  shows "one_open_row (map heal (map (\<lambda>r. if P r then g r else r) rs))"
  using assms(2) by (rule fewer_open [rotated]) (use assms(1) in \<open>auto simp: list_all2_conv_all_nth opens_none_def heal_open\<close>)

lemma filter_one_open: "one_open_row rs \<Longrightarrow> one_open_row (map heal (filter P rs))"
proof -
  assume one: "one_open_row rs"
  have "length (filter (is_open key) (map heal (filter P rs))) \<le> length (filter (is_open key) rs)" for key
    by (induction rs) (auto simp: heal_open)
  with one show ?thesis unfolding one_open_row_def by (meson le_trans)
qed

lemma opens_none_changes [simp]:
  "opens_none (acknowledged now u)" "opens_none (resolved now u)" "opens_none (silenced till)"
  "opens_none (\<lambda>r. r\<lparr>al_acked := True, al_acked_at := t, al_acked_by := u, al_status := AlertStatusAcknowledged\<rparr>)"
  unfolding opens_none_def heal_open by (auto simp: is_open_def acknowledged_def resolved_def silenced_def alert_status_defs)

lemma keeps_opens_none:
  "(\<And>r. al_dedup (g r) = al_dedup r \<and> al_status (g r) = al_status r \<and> al_acked (g r) = al_acked r) \<Longrightarrow> opens_none g"
  unfolding opens_none_def heal_open by (auto simp: is_open_def)

lemma op_one_open:
  assumes "allowed_op x" "one_open_row (records f)"
  shows "one_open_row (records (run_op e x f))"
proof (cases x)
  case (OpSave a)
  then show ?thesis using assms(2) by (auto simp: run_op_def intro: save_one_open surjective_pairing)
next
  case (OpUpdate i g)
  with assms show ?thesis by (auto simp: run_op_def intro: update_one_open surjective_pairing)
next
  case (OpAcknowledge i u)
  with assms(2) show ?thesis by (auto simp: run_op_def AcknowledgeAlert_def intro: update_one_open surjective_pairing)
next
  case (OpResolve i u)
  with assms(2) show ?thesis by (auto simp: run_op_def ResolveAlert_def intro: update_one_open surjective_pairing)
next
  case (OpDeleteWhere P)
  with assms(2) show ?thesis by (auto simp: run_op_def DeleteWhere_def intro: change_one_open surjective_pairing filter_one_open)
next
  case (OpAcknowledgeWhere P u)
  show ?thesis unfolding OpAcknowledgeWhere run_op_def store_op.case AcknowledgeWhere_def
    by (rule change_one_open [OF surjective_pairing map_one_open assms(2)]) simp_all
next
  case (OpResolveWhere P u)
  show ?thesis unfolding OpResolveWhere run_op_def store_op.case ResolveWhere_def
    by (rule change_one_open [OF surjective_pairing map_one_open assms(2)]) simp_all
qed

lemma ops_one_open:
  "list_all (\<lambda>(e, x). allowed_op x) xs \<Longrightarrow> one_open_row (records f) \<Longrightarrow> one_open_row (records (run_ops xs f))"
  unfolding run_ops_def by (induction xs arbitrary: f) (auto simp: op_one_open)

section \<open>Saving\<close>

lemma decode_append: "decode_lines ls = Some rs \<Longrightarrow> decode_lines (ls @ [Row r]) = Some (rs @ [r])"
  by (induction ls arbitrary: rs rule: decode_lines.induct) auto

lemma decoded_not_torn: "decode_lines ls = Some rs \<Longrightarrow> Torn \<notin> set ls \<and> Garbled \<notin> set ls"
  by (induction ls arbitrary: rs rule: decode_lines.induct) auto

lemma decode_rows [simp]: "decode_lines (map Row rs) = Some rs"
  by (induction rs) auto

lemma load_rewritten [simp]: "loadFromFile (AlertLines (map Row rs)) = Inr (map heal rs)"
  by (simp add: loadFromFile_def)

lemma load_appended:
  assumes "loadFromFile f = Inr rs"
  shows "append_alert Written a f = (None, AlertLines (lines_of f @ [Row a]))" "loadFromFile (AlertLines (lines_of f @ [Row a])) = Inr (rs @ [heal a])"
proof -
  from assms obtain rs0 where rs0: "decode_lines (lines_of f) = Some rs0" "rs = map heal rs0" "f \<noteq> AlertsUnreadable"
    by (auto simp: loadFromFile_def lines_of_def split: alert_file.splits option.splits)
  with decoded_not_torn [OF rs0(1)] show "append_alert Written a f = (None, AlertLines (lines_of f @ [Row a]))"
    by (auto simp: append_alert_def add_line_def) (metis last_in_set)
  show "loadFromFile (AlertLines (lines_of f @ [Row a])) = Inr (rs @ [heal a])"
    using decode_append [OF rs0(1)] rs0(2) by (simp add: loadFromFile_def)
qed

lemma filter_updated:
  assumes "i < length xs" "P (xs ! i)" "P m"
  shows "filter (\<lambda>x. \<not> P x) (xs[i := m]) = filter (\<lambda>x. \<not> P x) xs"
    "length (filter P xs) \<le> 1 \<Longrightarrow> filter P xs = [xs ! i] \<and> filter P (xs[i := m]) = [m]"
proof -
  note split = id_take_nth_drop [OF assms(1)] upd_conv_take_nth_drop [OF assms(1)]
  show "filter (\<lambda>x. \<not> P x) (xs[i := m]) = filter (\<lambda>x. \<not> P x) xs"
    unfolding split(2) using arg_cong [OF split(1), of "filter (\<lambda>x. \<not> P x)"] by (simp add: assms(2,3))
  assume one: "length (filter P xs) \<le> 1"
  have eq: "filter P xs = filter P (take i xs) @ xs ! i # filter P (drop (Suc i) xs)"
    using arg_cong [OF split(1), of "filter P"] by (simp add: assms(2))
  with one have "filter P (take i xs) = []" "filter P (drop (Suc i) xs) = []" by auto
  then show "filter P xs = [xs ! i] \<and> filter P (xs[i := m]) = [m]" using eq assms(3) unfolding split(2) by simp
qed

text \<open>The count of occurrences that a saved record carries into its row.\<close>

definition occurrences :: "alert_record \<Rightarrow> int" where
  "occurrences a = (if al_count a < 1 then 1 else al_count a)"

text \<open>C15 (functional). Into a readable file in which no condition has two open rows (C14 keeps it so), a save whose write succeeds, of
  an open and unacknowledged alert that has a key, leaves exactly one open row of the condition of this alert, and the row carries
  its occurrences: it is the alert itself when none was open, and otherwise the row that was open, with its identifier and with the
  occurrences added to its count (64 bits). All other rows, the closed rows of the same condition among them, stay as they are. For a
  file with two open rows of the condition, an unreadable file or a failed write nothing is claimed.\<close>
theorem saving_collapses_condition:
  assumes "SaveAlert Written a f = (err, f')" "loadFromFile f = Inr rs" "one_open_row rs" "al_dedup a \<noteq> []"
    "al_status a = AlertStatusTriggered" "\<not> al_acked a"
  shows "err = None \<and> (\<exists>rs' row. loadFromFile f' = Inr rs' \<and> filter (is_open (al_dedup a)) rs' = [row] \<and>
    filter (\<lambda>r. \<not> is_open (al_dedup a) r) rs' = filter (\<lambda>r. \<not> is_open (al_dedup a) r) rs \<and>
    (case filter (is_open (al_dedup a)) rs of
       [] \<Rightarrow> row = a
     | old # _ \<Rightarrow> al_id row = al_id old \<and> al_count row = wrap64 (al_count old + occurrences a)))"
proof (cases "openRecordIndex rs (al_dedup a)")
  case None
  from open_index_none [OF None] have "filter (is_open (al_dedup a)) rs = []" .
  moreover have "heal a = a" using assms(6) by (simp add: heal_def)
  moreover have "is_open (al_dedup a) a" using assms(5) by (simp add: is_open_def)
  ultimately show ?thesis using assms(1,2,4) None load_appended [OF assms(2), of a] by (auto simp: SaveAlert_def save_decided_def)
next
  case (Some i)
  let ?P = "is_open (al_dedup a)" and ?m = "mergeIntoOpenRecord (rs ! i) a"
  from open_index_some [OF Some] have i: "i < length rs" "?P (rs ! i)" by auto
  then have "heal (rs ! i) = rs ! i" using loaded_healed [OF assms(2)] by (metis nth_map)
  then have "\<not> al_acked (rs ! i)" using i(2) by (metis heal_open)
  then have "heal ?m = ?m" by (simp add: heal_def)
  then have "map heal (rs[i := ?m]) = rs[i := ?m]" using loaded_healed [OF assms(2)] by (simp add: map_update)
  moreover have "err = None" "f' = AlertLines (map Row (rs[i := ?m]))"
    using assms(1,2,4) Some by (auto simp: SaveAlert_def save_decided_def rewriteAll_def)
  moreover have "length (filter ?P rs) \<le> 1" using assms(3,4) by (simp add: one_open_row_def)
  moreover have "al_count ?m = wrap64 (al_count (rs ! i) + occurrences a)"
    by (simp add: mergeIntoOpenRecord_def occurrences_def Let_def)
  ultimately show ?thesis using filter_updated [of i rs ?P ?m] i by simp
qed

definition demo_alert :: "string \<Rightarrow> time \<Rightarrow> alert_record" where
  "demo_alert ident t = \<lparr>al_id = ident, al_at = t, al_rule = ''data_gap'', al_severity = ''WARNING'', al_message = ''missing dates'',
     al_breakdown = None, al_acked = False, al_acked_at = None, al_acked_by = [], al_status = AlertStatusTriggered,
     al_dedup = ''data_gap:WARNING:flow'', al_last_seen = None, al_count = 1, al_resolved_at = None, al_resolved_by = [], al_within = None,
     al_silenced = None\<rparr>"

lemma saving_collapses_condition_witness:
  "\<exists>f' rs' row. SaveAlert Written (demo_alert ''b'' 9) (AlertLines [Row (demo_alert ''a'' 5)]) = (None, f') \<and> loadFromFile f' = Inr rs' \<and>
     filter (is_open ''data_gap:WARNING:flow'') rs' = [row] \<and> al_id row = ''a'' \<and> al_count row = 2"
proof -
  let ?f = "AlertLines [Row (demo_alert ''a'' 5)]"
  obtain err f' where s: "SaveAlert Written (demo_alert ''b'' 9) ?f = (err, f')" by (cases "SaveAlert Written (demo_alert ''b'' 9) ?f")
  have load: "loadFromFile ?f = Inr [demo_alert ''a'' 5]" by (simp add: loadFromFile_def heal_def demo_alert_def)
  have "one_open_row [demo_alert ''a'' 5]" by (simp add: one_open_row_def)
  from saving_collapses_condition [OF s load this]
  have c: "err = None \<and> (\<exists>rs' row. loadFromFile f' = Inr rs' \<and> filter (is_open (al_dedup (demo_alert ''b'' 9))) rs' = [row] \<and>
    al_id row = ''a'' \<and> al_count row = wrap64 (1 + occurrences (demo_alert ''b'' 9)))"
    by (simp add: demo_alert_def is_open_def AlertStatusTriggered_def) blast
  have "wrap64 (1 + occurrences (demo_alert ''b'' 9)) = 2" by (simp add: occurrences_def demo_alert_def wrap64_def)
  with c s show ?thesis by (auto simp: demo_alert_def)
qed

section \<open>Facts\<close>

text \<open>Two writers that both read the file before either writes, which two processes can do, leave two open rows of one condition.\<close>

lemma two_processes_two_rows:
  "\<exists>f1 f2. save_decided (loadFromFile AlertsMissing) Written (demo_alert ''a'' 5) AlertsMissing = (None, f1) \<and>
     save_decided (loadFromFile AlertsMissing) Written (demo_alert ''b'' 5) f1 = (None, f2) \<and> \<not> one_open_row (records f2)"
proof -
  have "records (AlertLines [Row (demo_alert ''a'' 5), Row (demo_alert ''b'' 5)]) = [demo_alert ''a'' 5, demo_alert ''b'' 5]"
    by (simp add: records_def lines_of_def heal_def demo_alert_def)
  moreover have "\<not> one_open_row [demo_alert ''a'' 5, demo_alert ''b'' 5]"
    unfolding one_open_row_def by (auto simp: is_open_def demo_alert_def intro!: exI [of _ "''data_gap:WARNING:flow''"])
  ultimately show ?thesis
    by (simp add: save_decided_def loadFromFile_def openRecordIndex_def append_alert_def add_line_def lines_of_def demo_alert_def)
qed

text \<open>A write that stops inside a line disables the store for good.\<close>

definition broken :: "alert_file \<Rightarrow> bool" where
  "broken f \<longleftrightarrow> Torn \<in> set (lines_of f) \<or> Garbled \<in> set (lines_of f)"

lemma broken_unloadable: "broken f \<Longrightarrow> loadFromFile f = Inl LoadFailed"
  by (auto simp: broken_def loadFromFile_def lines_of_def split: alert_file.splits option.splits dest: decoded_not_torn)

lemma broken_add: "Torn \<in> set ls \<or> Garbled \<in> set ls \<Longrightarrow> Torn \<in> set (add_line ls l) \<or> Garbled \<in> set (add_line ls l)"
  by (auto simp: add_line_def)

lemma broken_append: "broken f \<Longrightarrow> append_alert w a f = (e, f') \<Longrightarrow> broken f'"
  using broken_add [of "lines_of f"]
  by (auto simp: broken_def append_alert_def lines_of_def split: write_outcome.splits if_splits alert_file.splits)

lemma broken_op:
  assumes "broken f"
  shows "broken (run_op e x f)"
proof -
  have "broken (snd (append_alert w a f))" for w a using broken_append [OF assms surjective_pairing] .
  with assms broken_unloadable [OF assms] show ?thesis
    by (cases x) (simp_all add: run_op_def SaveAlert_def save_decided_def UpdateAlert_def AcknowledgeAlert_def ResolveAlert_def change_where_def
        DeleteWhere_def AcknowledgeWhere_def ResolveWhere_def)
qed

lemma torn_write_disables_store:
  "append_alert (CutAfter n True) a f = (e, f') \<Longrightarrow> f \<noteq> AlertsUnreadable \<Longrightarrow> loadFromFile (run_ops xs f') = Inl LoadFailed"
proof -
  assume "append_alert (CutAfter n True) a f = (e, f')" "f \<noteq> AlertsUnreadable"
  then have "broken f'" by (auto simp: append_alert_def broken_def lines_of_def add_line_def)
  then have "broken (run_ops xs f')" unfolding run_ops_def by (induction xs arbitrary: f') (auto simp: broken_op)
  then show ?thesis by (rule broken_unloadable)
qed

text \<open>The severities that the monitor writes are in capitals: the statistics count every alert as a warning.\<close>

lemma sla_counts_warnings_only:
  assumes "loadFromFile f = Inr rs" "\<forall>r \<in> set rs. al_severity r \<in> {''INFO'', ''WARNING'', ''ERROR'', ''CRITICAL'', ''UNKNOWN''}"
  shows "sb_total (ss_critical (GetSLAStats p f)) = 0 \<and> sb_total (ss_error (GetSLAStats p f)) = 0"
proof -
  have "ss_critical (fold (count_alert p) rs s) = ss_critical s \<and> ss_error (fold (count_alert p) rs s) = ss_error s" for s
    using assms(2) by (induction rs arbitrary: s) (auto simp: count_alert_def)
  then show ?thesis using assms(1) by (simp add: GetSLAStats_def Let_def rated_def empty_stats_def empty_bucket_def)
qed

text \<open>An open alert of any other severity never expires.\<close>

lemma information_never_expires: "al_severity r \<notin> {''WARNING'', ''ERROR'', ''CRITICAL''} \<Longrightarrow> \<not> ttl_expired now r"
  by (auto simp: ttl_expired_def Let_def)

end
