(* ===== verification/Alert_Monitor.thy ===== *)
theory Alert_Monitor
  imports Alert_Store "HOL-Library.Sublist"
begin

text \<open>
  The alert monitor, \<open>internal/monitoring/monitor.go\<close>, with the deduplicator (\<open>dedup.go\<close>) and the automatic handler
  (\<open>autohandler.go\<close>); all of them work on one store, as the programs wire them.

  A call of \<open>Alert\<close> ends by starting a goroutine that saves the record; the model keeps it as a task that any later step may run,
  so that saves, resolutions and the operations of other users of the store interleave.  \<open>clk\<close> gives the readings of the clock in
  one step, \<open>w\<close> the outcomes of its writes.  Metadata are a list of keys with values, \<open>None\<close> for a value that is no string.
\<close>

section \<open>The deduplicator\<close>

record deduplicator =
  dd_window :: duration
  dd_recent :: "(string \<times> time) list"
  dd_store :: bool

record dedup_result =
  dr_skip :: bool
  dr_existing :: string
  dr_count :: int

definition NewAlertDeduplicator :: "duration \<Rightarrow> bool \<Rightarrow> deduplicator" where
  "NewAlertDeduplicator window store = \<lparr>dd_window = window, dd_recent = [], dd_store = store\<rparr>"

definition skip_result :: "bool \<Rightarrow> dedup_result" where
  "skip_result b = \<lparr>dr_skip = b, dr_existing = [], dr_count = 0\<rparr>"

definition CheckDedup :: "time \<Rightarrow> string \<Rightarrow> alert_file \<Rightarrow> deduplicator \<Rightarrow> dedup_result" where
  "CheckDedup now key f d =
     (case map_of (dd_recent d) key of
        None \<Rightarrow> skip_result False
      | Some t \<Rightarrow>
          if \<not> time_sub now t < dd_window d then skip_result False
          else if \<not> dd_store d then skip_result True
          else (case FindByDedupKey key f of
                  Inr (Some r) \<Rightarrow> skip_result (al_status r = AlertStatusTriggered)
                | _ \<Rightarrow> skip_result True))"

definition Track :: "time \<Rightarrow> string \<Rightarrow> deduplicator \<Rightarrow> deduplicator" where
  "Track now key d = d\<lparr>dd_recent := AList.update key now (dd_recent d)\<rparr>"

definition cleanup :: "time \<Rightarrow> deduplicator \<Rightarrow> deduplicator" where
  "cleanup now d = d\<lparr>dd_recent := filter (\<lambda>(k, t). \<not> t < now - dd_window d) (dd_recent d)\<rparr>"

section \<open>Alerts and the automatic handler\<close>

datatype alert_level = AlertLevelInfo | AlertLevelWarning | AlertLevelError | AlertLevelCritical | AlertLevelOther int

fun level_String :: "alert_level \<Rightarrow> string" where
  "level_String AlertLevelInfo = ''INFO''"
| "level_String AlertLevelWarning = ''WARNING''"
| "level_String AlertLevelError = ''ERROR''"
| "level_String AlertLevelCritical = ''CRITICAL''"
| "level_String (AlertLevelOther i) = ''UNKNOWN''"

record alert =
  ae_id :: string
  ae_level :: alert_level
  ae_category :: string
  ae_message :: string
  ae_at :: time
  ae_meta :: "(string \<times> string option) list"

record auto_handler =
  ah_until :: "(string \<times> time) list"
  ah_rules :: "(string \<times> duration) list"
  ah_store :: bool

definition NewAutoHandler :: "time \<Rightarrow> bool \<Rightarrow> (string \<times> duration) list \<Rightarrow> auto_handler" where
  "NewAutoHandler now store rules =
     \<lparr>ah_until = fold (\<lambda>(c, d) m. AList.update c (now + d) m) rules [], ah_rules = rules, ah_store = store\<rparr>"

definition Suppress :: "time \<Rightarrow> string \<Rightarrow> duration \<Rightarrow> auto_handler \<Rightarrow> auto_handler" where
  "Suppress now c d h = h\<lparr>ah_until := AList.update c (now + d) (ah_until h)\<rparr>"

definition suppressed_until :: "auto_handler \<Rightarrow> string \<Rightarrow> time" where
  "suppressed_until h c = (case map_of (ah_until h) c of None \<Rightarrow> zero_time | Some t \<Rightarrow> t)"

definition isSuppressed :: "time \<Rightarrow> alert \<Rightarrow> auto_handler \<Rightarrow> bool \<times> auto_handler" where
  "isSuppressed now a h =
     (let by_rule = (\<lambda>h. list_ex (\<lambda>(c, d). (c = [] \<or> c = ae_category a) \<and> now < suppressed_until h c) (ah_rules h))
      in case map_of (ah_until h) (ae_category a) of
           None \<Rightarrow> (by_rule h, h)
         | Some t \<Rightarrow>
             if now < t then (True, h)
             else (let h' = h\<lparr>ah_until := AList.delete (ae_category a) (ah_until h)\<rparr> in (by_rule h', h')))"

definition Handle :: "time \<Rightarrow> write_outcome \<Rightarrow> alert \<Rightarrow> auto_handler \<Rightarrow> alert_file \<Rightarrow> auto_handler \<times> alert_file" where
  "Handle now w a h f =
     (case isSuppressed now a h of
        (b, h') \<Rightarrow>
          if ae_level a = AlertLevelInfo
          then (h', if ah_store h then snd (AcknowledgeAlert now w (ae_id a) ''auto-handler'' f) else f)
          else (h', f))"

definition Recover :: "time \<Rightarrow> write_outcome \<Rightarrow> string \<Rightarrow> auto_handler \<Rightarrow> alert_file \<Rightarrow> alert_file" where
  "Recover now w c h f =
     (if \<not> ah_store h then f
      else snd (ResolveWhere now w (\<lambda>r. al_rule r = c \<and> al_status r = AlertStatusTriggered) ''auto-recovery'' f))"

section \<open>The monitor\<close>

record monitor =
  mo_handlers :: "string list"
  mo_history :: "alert list"
  mo_max :: nat
  mo_store :: bool
  mo_notifiers :: "(string \<times> bool) list"
  mo_dedup :: "deduplicator option"
  mo_handler :: "auto_handler option"
  mo_regime :: string

definition NewMonitor :: monitor where
  "NewMonitor = \<lparr>mo_handlers = [], mo_history = [], mo_max = 1000, mo_store = False, mo_notifiers = [], mo_dedup = None,
     mo_handler = None, mo_regime = []\<rparr>"

definition RegimeRiskOff :: string where "RegimeRiskOff = ''RISK_OFF''"

definition RegisterHandler :: "string \<Rightarrow> monitor \<Rightarrow> monitor" where
  "RegisterHandler n m = m\<lparr>mo_handlers := mo_handlers m @ [n]\<rparr>"

definition SetAlertStore :: "bool \<Rightarrow> monitor \<Rightarrow> monitor" where "SetAlertStore b m = m\<lparr>mo_store := b\<rparr>"
definition SetDeduplicator :: "deduplicator option \<Rightarrow> monitor \<Rightarrow> monitor" where "SetDeduplicator d m = m\<lparr>mo_dedup := d\<rparr>"
definition SetAutoHandler :: "auto_handler option \<Rightarrow> monitor \<Rightarrow> monitor" where "SetAutoHandler h m = m\<lparr>mo_handler := h\<rparr>"
definition SetRegime :: "string \<Rightarrow> monitor \<Rightarrow> monitor" where "SetRegime r m = m\<lparr>mo_regime := r\<rparr>"
definition AddNotifier :: "string \<times> bool \<Rightarrow> monitor \<Rightarrow> monitor" where "AddNotifier n m = m\<lparr>mo_notifiers := mo_notifiers m @ [n]\<rparr>"

fun identity_in :: "string list \<Rightarrow> (string \<times> string option) list \<Rightarrow> string" where
  "identity_in [] meta = []"
| "identity_in (k # ks) meta =
     (case map_of meta k of Some (Some v) \<Rightarrow> if v \<noteq> [] then v else identity_in ks meta | _ \<Rightarrow> identity_in ks meta)"

definition alertIdentity :: "(string \<times> string option) list \<Rightarrow> string" where
  "alertIdentity meta = identity_in [''task'', ''channel'', ''pillar'', ''agent'', ''symbol''] meta"

definition same_condition :: "string \<Rightarrow> string \<Rightarrow> alert_record \<Rightarrow> bool" where
  "same_condition category ident r \<longleftrightarrow>
     al_rule r = category \<and> al_status r = AlertStatusTriggered \<and>
     (ident = [] \<or> suffix (CHR '':'' # ident) (al_dedup r) \<or> sublist ident (al_message r))"

definition ResolveByIdentity :: "time \<Rightarrow> write_outcome \<Rightarrow> string \<Rightarrow> string \<Rightarrow> string \<Rightarrow> monitor \<Rightarrow> alert_file \<Rightarrow> int \<times> alert_file" where
  "ResolveByIdentity now w category ident reason m f =
     (if \<not> mo_store m then (0, f)
      else (case ResolveWhere now w (same_condition category ident) reason f of
              ((n, None), f') \<Rightarrow> (n, f')
            | ((n, Some e), f') \<Rightarrow> (0, f')))"

text \<open>The goroutine that saves a record: what it has captured.\<close>

record save_task =
  sk_record :: alert_record
  sk_alert :: alert
  sk_handler :: bool
  sk_notifiers :: "(string \<times> bool) list"

datatype monitor_out = Handled string alert | Notified string alert_record

definition notify_configured :: "(string \<times> bool) list \<Rightarrow> alert_record \<Rightarrow> monitor_out list" where
  "notify_configured ns r = map (\<lambda>(n, c). Notified n r) (filter snd ns)"

definition remembered :: "alert \<Rightarrow> monitor \<Rightarrow> monitor" where
  "remembered a m =
     (let h = mo_history m @ [a] in m\<lparr>mo_history := (if mo_max m < length h then drop (length h - mo_max m) h else h)\<rparr>)"

definition handled_inline :: "time \<Rightarrow> write_outcome \<Rightarrow> alert \<Rightarrow> monitor \<Rightarrow> alert_file \<Rightarrow> monitor \<times> alert_file" where
  "handled_inline now w a m f =
     (case mo_handler m of
        None \<Rightarrow> (m, f)
      | Some h \<Rightarrow> (case Handle now w a h f of (h', f') \<Rightarrow> (m\<lparr>mo_handler := Some h'\<rparr>, f')))"

definition new_record :: "alert \<Rightarrow> string option \<Rightarrow> bool \<Rightarrow> alert_record" where
  "new_record a breakdown dedup =
     (let c = ae_category a; l = level_String (ae_level a); i = alertIdentity (ae_meta a)
      in \<lparr>al_id = ae_id a, al_at = ae_at a, al_rule = c, al_severity = l, al_message = ae_message a, al_breakdown = breakdown,
          al_acked = False, al_acked_at = None, al_acked_by = [], al_status = AlertStatusTriggered,
          al_dedup = (if i \<noteq> [] then c @ '':'' @ l @ '':'' @ i else if dedup then c @ '':'' @ l else []),
          al_last_seen = None, al_count = 1, al_resolved_at = None, al_resolved_by = [], al_within = None,
          al_silenced = None\<rparr>)"

definition recounted :: "alert_record \<Rightarrow> int \<Rightarrow> alert_record \<Rightarrow> alert_record" where
  "recounted r n x =
     x\<lparr>al_count := n, al_last_seen := Some (al_at r), al_message := al_message r,
       al_breakdown := (if al_breakdown r \<noteq> None then al_breakdown r else al_breakdown x)\<rparr>"

definition seen_again :: "alert_record \<Rightarrow> alert_record \<Rightarrow> alert_record" where
  "seen_again r x =
     x\<lparr>al_count := wrap64 (al_count x + 1), al_last_seen := Some (al_at r), al_at := al_at r, al_message := al_message r,
       al_severity := al_severity r, al_breakdown := (if al_breakdown r \<noteq> None then al_breakdown r else al_breakdown x)\<rparr>"

text \<open>An open row of the condition, as far as the first record with its key is one.\<close>

definition open_first :: "monitor \<Rightarrow> string \<Rightarrow> alert_file \<Rightarrow> alert_record option" where
  "open_first m key f =
     (if \<not> mo_store m then None
      else (case FindByDedupKey key f of
              Inr (Some x) \<Rightarrow> if al_status x = AlertStatusTriggered then Some x else None
            | _ \<Rightarrow> None))"

definition start_save ::
  "(nat \<Rightarrow> time) \<Rightarrow> write_outcome \<Rightarrow> alert \<Rightarrow> alert_record \<Rightarrow> monitor_out list \<Rightarrow> monitor \<Rightarrow> alert_file
     \<Rightarrow> monitor_out list \<times> save_task list \<times> monitor \<times> alert_file" where
  "start_save clk w a r outs m f =
     (if mo_store m then
        (outs, [\<lparr>sk_record = r, sk_alert = a, sk_handler = (mo_handler m \<noteq> None), sk_notifiers = mo_notifiers m\<rparr>], m, f)
      else (case handled_inline (clk 3) w a m f of (m', f') \<Rightarrow> (outs @ notify_configured (mo_notifiers m) r, [], m', f')))"

definition alertWithBreakdown ::
  "(nat \<Rightarrow> time) \<Rightarrow> write_outcome \<Rightarrow> string \<Rightarrow> alert_level \<Rightarrow> string \<Rightarrow> string \<Rightarrow> (string \<times> string option) list \<Rightarrow> string option
     \<Rightarrow> monitor \<Rightarrow> alert_file \<Rightarrow> monitor_out list \<times> save_task list \<times> monitor \<times> alert_file" where
  "alertWithBreakdown clk w ident level category message meta breakdown m0 f =
     (let a = \<lparr>ae_id = ident, ae_level = level, ae_category = category, ae_message = message, ae_at = clk 0, ae_meta = meta\<rparr>;
          m = remembered a m0;
          outs = map (\<lambda>h. Handled h a) (mo_handlers m)
      in if mo_regime m = RegimeRiskOff \<and> (level = AlertLevelInfo \<or> level = AlertLevelWarning)
         then (case handled_inline (clk 1) w a m f of (m', f') \<Rightarrow> (outs, [], m', f'))
         else
           (let r = new_record a breakdown (mo_dedup m \<noteq> None)
            in case mo_dedup m of
                 None \<Rightarrow> start_save clk w a r outs m f
               | Some d \<Rightarrow>
                   (let res = CheckDedup (clk 1) (al_dedup r) f d
                    in if dr_skip res then
                         (outs, [], m, if dr_existing res \<noteq> [] \<and> mo_store m
                                       then snd (UpdateAlert w (dr_existing res) (recounted r (dr_count res)) f) else f)
                       else (case open_first m (al_dedup r) f of
                               Some x \<Rightarrow>
                                 (outs @ map (\<lambda>(n, c). Notified n r) (mo_notifiers m), [], m, snd (UpdateAlert w (al_id x) (seen_again r) f))
                             | None \<Rightarrow> start_save clk w a r outs (m\<lparr>mo_dedup := Some (Track (clk 2) (al_dedup r) d)\<rparr>) f))))"

definition run_save :: "time \<Rightarrow> write_outcome \<Rightarrow> write_outcome \<Rightarrow> save_task \<Rightarrow> monitor \<Rightarrow> alert_file \<Rightarrow> monitor_out list \<times> monitor \<times> alert_file" where
  "run_save now w w' t m f =
     (case SaveAlert w (sk_record t) f of
        (Some e, f') \<Rightarrow> ([], m, f')
      | (None, f') \<Rightarrow>
          (case (if sk_handler t then handled_inline now w' (sk_alert t) m f' else (m, f')) of
             (m', f'') \<Rightarrow> (notify_configured (sk_notifiers t) (sk_record t), m', f'')))"

definition GetHistory :: "int \<Rightarrow> monitor \<Rightarrow> alert list" where
  "GetHistory limit m =
     (let n = int (length (mo_history m)); l = (if limit \<le> 0 \<or> n < limit then n else limit) in drop (nat (n - l)) (mo_history m))"

definition GetHistoryByLevel :: "alert_level \<Rightarrow> int \<Rightarrow> monitor \<Rightarrow> alert list" where
  "GetHistoryByLevel level limit m = take (nat limit) (filter (\<lambda>a. ae_level a = level) (rev (mo_history m)))"

section \<open>The monitor and the other users of its store\<close>

record alert_system =
  sy_monitor :: monitor
  sy_file :: alert_file
  sy_tasks :: "save_task list"
  sy_out :: "monitor_out list"

datatype alert_action =
    StepAlert string alert_level string string "(string \<times> string option) list" "string option"
  | StepSave nat
  | StepResolve string string string
  | StepExpire
  | StepStore store_op
  | StepRequest "nat \<Rightarrow> time \<times> write_outcome" api_request

record step_env =
  en_clock :: "nat \<Rightarrow> time"
  en_write :: write_outcome
  en_second :: write_outcome

definition alert_step :: "step_env \<Rightarrow> alert_action \<Rightarrow> alert_system \<Rightarrow> alert_system" where
  "alert_step e x s =
     (case x of
        StepAlert i l c msg meta b \<Rightarrow>
          (case alertWithBreakdown (en_clock e) (en_write e) i l c msg meta b (sy_monitor s) (sy_file s) of
             (outs, ts, m, f) \<Rightarrow> s\<lparr>sy_monitor := m, sy_file := f, sy_tasks := sy_tasks s @ ts, sy_out := sy_out s @ outs\<rparr>)
      | StepSave n \<Rightarrow>
          (if n < length (sy_tasks s) then
             (case run_save (en_clock e 0) (en_write e) (en_second e) (sy_tasks s ! n) (sy_monitor s) (sy_file s) of
                (outs, m, f) \<Rightarrow>
                  s\<lparr>sy_monitor := m, sy_file := f, sy_tasks := take n (sy_tasks s) @ drop (Suc n) (sy_tasks s), sy_out := sy_out s @ outs\<rparr>)
           else s)
      | StepResolve c i reason \<Rightarrow>
          s\<lparr>sy_file := snd (ResolveByIdentity (en_clock e 0) (en_write e) c i reason (sy_monitor s) (sy_file s))\<rparr>
      | StepExpire \<Rightarrow> s\<lparr>sy_file := runAlertTTLExpiry (en_clock e 0) (en_write e) (sy_file s)\<rparr>
      | StepStore op \<Rightarrow> s\<lparr>sy_file := run_op (en_clock e 0, en_write e) op (sy_file s)\<rparr>
      | StepRequest env q \<Rightarrow> s\<lparr>sy_file := snd (serve env q (sy_file s))\<rparr>)"

definition alert_run :: "(step_env \<times> alert_action) list \<Rightarrow> alert_system \<Rightarrow> alert_system" where
  "alert_run xs s = fold (\<lambda>(e, x). alert_step e x) xs s"

definition started :: "monitor \<Rightarrow> alert_system" where
  "started m = \<lparr>sy_monitor = m, sy_file = AlertsMissing, sy_tasks = [], sy_out = []\<rparr>"

section \<open>Every step is a sequence of store operations\<close>

definition by_ops :: "alert_file \<Rightarrow> alert_file \<Rightarrow> bool" where
  "by_ops f f' \<longleftrightarrow> (\<exists>xs. list_all (\<lambda>(e, x). allowed_op x) xs \<and> f' = run_ops xs f)"

lemma by_ops_refl [simp]: "by_ops f f"
  unfolding by_ops_def by (rule exI [of _ "[]"]) (simp add: run_ops_def)

lemma by_ops_trans: "by_ops f g \<Longrightarrow> by_ops g h \<Longrightarrow> by_ops f h"
  unfolding by_ops_def
proof (elim exE conjE)
  fix xs ys
  assume "list_all (\<lambda>(e, x). allowed_op x) xs" "g = run_ops xs f" "list_all (\<lambda>(e, x). allowed_op x) ys" "h = run_ops ys g"
  then show "\<exists>zs. list_all (\<lambda>(e, x). allowed_op x) zs \<and> h = run_ops zs f"
    by (intro exI [of _ "xs @ ys"]) (simp add: run_ops_def)
qed

lemma by_op: "allowed_op x \<Longrightarrow> by_ops f (run_op e x f)"
  unfolding by_ops_def by (rule exI [of _ "[(e, x)]"]) (simp add: run_ops_def)

lemma by_save: "SaveAlert w a f = (e, f') \<Longrightarrow> by_ops f f'"
  using by_op [of "OpSave a" f "(0, w)"] by (simp add: run_op_def)

lemma by_acknowledge: "by_ops f (snd (AcknowledgeAlert now w i u f))"
  using by_op [of "OpAcknowledge i u" f "(now, w)"] by (simp add: run_op_def)

lemma by_resolve_where: "by_ops f (snd (ResolveWhere now w P u f))"
  using by_op [of "OpResolveWhere P u" f "(now, w)"] by (simp add: run_op_def)

lemma by_update: "opens_none g \<Longrightarrow> by_ops f (snd (UpdateAlert w i g f))"
  using by_op [of "OpUpdate i g" f "(0, w)"] by (simp add: run_op_def)

lemma monitor_updates: "opens_none (recounted r n)" "opens_none (seen_again r)"
  by (rule keeps_opens_none, simp add: recounted_def seen_again_def)+

lemma by_handler: "handled_inline now w a m f = (m', f') \<Longrightarrow> by_ops f f'"
  by (auto simp: handled_inline_def Handle_def by_acknowledge split: option.splits prod.splits if_splits)

lemma by_start: "start_save clk w a r outs m f = (outs', ts, m', f') \<Longrightarrow> by_ops f f'"
  by (auto simp: start_save_def split: if_splits prod.splits dest: by_handler)

lemma by_alert: "alertWithBreakdown clk w i l c msg meta b m f = (outs, ts, m', f') \<Longrightarrow> by_ops f f'"
  by (auto simp: alertWithBreakdown_def Let_def by_update monitor_updates split: if_splits prod.splits option.splits
      dest: by_handler by_start)

lemma by_run_save: "run_save now w w' t m f = (outs, m', f') \<Longrightarrow> by_ops f f'"
  by (auto simp: run_save_def split: prod.splits option.splits if_splits dest!: by_save by_handler intro: by_ops_trans)

lemma by_identity: "by_ops f (snd (ResolveByIdentity now w c i reason m f))"
  using by_resolve_where [of f now w "same_condition c i" reason]
  by (auto simp: ResolveByIdentity_def split: prod.splits option.splits)

text \<open>The requests of the users: acknowledgements, resolutions and silences of whole rules.\<close>

lemma by_update_all: "(\<And>now. opens_none (g now)) \<Longrightarrow> by_ops f (snd (update_all env g k ids f))"
proof (induction ids arbitrary: k f)
  case (Cons i ids)
  obtain e f1 where u: "UpdateAlert (snd (env k)) i (g (fst (env k))) f = (e, f1)"
    by (cases "UpdateAlert (snd (env k)) i (g (fst (env k))) f")
  with by_update [OF Cons.prems, of f "snd (env k)" i "fst (env k)"] have "by_ops f f1" by simp
  moreover have "by_ops f1 (snd (update_all env g (Suc k) ids f1))" using Cons by blast
  ultimately show ?case by (auto simp: u split: prod.split intro: by_ops_trans)
qed simp

lemma by_request: "by_ops f (snd (serve env q f))"
proof (cases q)
  case (ReqAcknowledge i user)
  with by_acknowledge [of f "fst (env 0)" "snd (env 0)" i user] show ?thesis
    by (auto simp: serve_def handleAcknowledge_def split: prod.split option.split)
next
  case (ReqResolve i user)
  with by_op [of "OpResolve i user" f "env 0"] show ?thesis
    by (auto simp: serve_def handleResolve_def run_op_def split: prod.split option.split)
next
  case (ReqAcknowledgeBulk ids)
  with by_update_all [of "\<lambda>now. acknowledged now ''bulk''" f env 0 ids] show ?thesis
    by (auto simp: serve_def handleAcknowledgeBulk_def split: prod.split)
next
  case (ReqSilence rule minutes reason)
  have s: "by_ops f (snd (update_all env (\<lambda>now. silenced t) 1 ids f))" for t ids by (rule by_update_all) simp
  show ?thesis unfolding ReqSilence serve_def api_request.case handleSilence_def Let_def
    using s by (auto simp: case_prod_unfold split: sum.split)
qed

fun allowed_step :: "alert_action \<Rightarrow> bool" where
  "allowed_step (StepStore op) = allowed_op op"
| "allowed_step _ = True"

lemma by_step: "allowed_step x \<Longrightarrow> by_ops (sy_file s) (sy_file (alert_step e x s))"
  by (cases x) (auto simp: alert_step_def runAlertTTLExpiry_def by_resolve_where by_identity by_op by_request split: prod.splits
      dest: by_alert by_run_save)

lemma by_run: "list_all (\<lambda>(e, x). allowed_step x) xs \<Longrightarrow> by_ops (sy_file s) (sy_file (alert_run xs s))"
  unfolding alert_run_def by (induction xs arbitrary: s) (auto intro: by_ops_trans by_step)

text \<open>C14 (invariant). One process with one store value for the file, which holds no two open rows of one condition at the start
  (a missing file holds none; records may wait to be saved). However the alerts, the goroutines that save them, resolutions by
  identity, expiries, the requests to acknowledge, to resolve, to acknowledge in bulk and to silence a rule, and single operations of
  the store interleave, and whichever writes are refused or cut short, the file never holds two open rows of one condition. The
  single operations are all of the store's, an Update with any change that opens no condition: so are another sighting, an
  acknowledgement, a resolution and a silence, hence a request may also be split into its updates. Two processes are excluded
  (lemma two_processes_two_rows of Alert_Store).\<close>
theorem one_open_row_per_condition:
  assumes "one_open_row (records (sy_file s))" "list_all (\<lambda>(e, x). allowed_step x) xs"
  shows "one_open_row (records (sy_file (alert_run xs s)))"
proof -
  from by_run [OF assms(2), of s] obtain ys where
    "list_all (\<lambda>(e, x). allowed_op x) ys" "sy_file (alert_run xs s) = run_ops ys (sy_file s)"
    by (auto simp: by_ops_def)
  with assms(1) show ?thesis by (metis ops_one_open)
qed

definition demo_env :: step_env where
  "demo_env = \<lparr>en_clock = (\<lambda>n. 100 + int n), en_write = Written, en_second = Written\<rparr>"

definition demo_monitor :: monitor where
  "demo_monitor = SetDeduplicator (Some (NewAlertDeduplicator (5 * minute) True)) (SetAlertStore True NewMonitor)"

definition demo_steps :: "(step_env \<times> alert_action) list" where
  "demo_steps =
     [(demo_env, StepAlert ''a'' AlertLevelWarning ''evolution'' ''no_judge_activity_in_24h'' [(''pillar'', Some ''judge'')] None),
      (demo_env, StepSave 0), (demo_env, StepStore (OpSave (demo_alert ''b'' 9))), (demo_env, StepStore (OpSave (demo_alert ''c'' 10))),
      (demo_env, StepRequest (\<lambda>n. (200, Written)) (ReqSilence ''data_gap'' 60 ''maintenance'')),
      (demo_env, StepStore (OpSave (demo_alert ''d'' 300)))]"

lemma one_open_row_per_condition_witness: "one_open_row (records (sy_file (alert_run demo_steps (started demo_monitor))))"
  by (rule one_open_row_per_condition) (simp_all add: demo_steps_def started_def records_def lines_of_def one_open_row_def)

section \<open>Facts\<close>

text \<open>The window of the deduplicator hides repetitions and counts none of them.\<close>

lemma no_existing: "dr_existing (CheckDedup now key f d) = []"
  by (auto simp: CheckDedup_def skip_result_def split: option.splits sum.splits)

lemma repetitions_are_not_counted:
  assumes "mo_dedup m = Some d" "mo_regime m \<noteq> RegimeRiskOff"
    "dr_skip (CheckDedup (clk 1) (al_dedup (new_record
       \<lparr>ae_id = i, ae_level = l, ae_category = c, ae_message = msg, ae_at = clk 0, ae_meta = meta\<rparr> b True)) f d)"
  shows "\<exists>outs m'. alertWithBreakdown clk w i l c msg meta b m f = (outs, [], m', f)"
  using assms by (auto simp: alertWithBreakdown_def Let_def remembered_def no_existing)

text \<open>Suppressing a category has no effect: only the acknowledgement of informations writes to the store.\<close>

lemma suppression_changes_nothing: "ae_level a \<noteq> AlertLevelInfo \<Longrightarrow> snd (Handle now w a h f) = f"
  by (simp add: Handle_def split: prod.split)

text \<open>The history keeps its bound.\<close>

lemma history_bounded: "length (mo_history m) \<le> mo_max m \<Longrightarrow> length (mo_history (remembered a m)) \<le> mo_max m"
  by (cases "mo_max m") (auto simp: remembered_def Let_def)

text \<open>Without an identity, a resolution closes every open row of the category.\<close>

lemma resolved_category:
  assumes "ResolveByIdentity now Written category [] reason m f = (n, f')" "mo_store m" "loadFromFile f = Inr rs"
  shows "\<exists>rs'. loadFromFile f' = Inr rs' \<and> (\<forall>r \<in> set rs'. al_rule r = category \<longrightarrow> al_status r \<noteq> AlertStatusTriggered)"
proof (cases "filter (same_condition category []) rs = []")
  case True
  with assms have "f' = f" by (simp add: ResolveByIdentity_def ResolveWhere_def change_where_def Let_def)
  with True assms(3) show ?thesis by (auto simp: filter_empty_conv same_condition_def)
next
  case False
  let ?g = "\<lambda>r. if same_condition category [] r then resolved now reason r else r"
  from False assms have "f' = AlertLines (map Row (map ?g rs))"
    by (simp add: ResolveByIdentity_def ResolveWhere_def change_where_def Let_def rewriteAll_def)
  then have "loadFromFile f' = Inr (map heal (map ?g rs))" by (simp only: load_rewritten)
  moreover have "al_status (heal (?g r)) \<noteq> AlertStatusTriggered" if "al_rule (heal (?g r)) = category" for r
    using that by (auto simp: heal_def same_condition_def resolved_def alert_status_defs split: if_splits)
  ultimately show ?thesis by auto
qed

end
