(* ===== verification/Exp_Health.thy ===== *)
theory Exp_Health
  imports Exp_Replay Exp_Ledger Alert_Monitor
begin

text \<open>
  Where experiments come from and how their loop is watched: the proposer, \<open>internal/experiment/auto_proposer.go\<close>, and the health
  check, \<open>evolution_health.go\<close>, with the adapter of \<open>cmd/atlas/bootstrap_helpers.go\<close> that carries its alerts to the monitor.

  The weight manager is the list of its agents, in the order in which it returns them, and its neutral weight; the health manager is
  what it answers; \<open>show\<close> renders a trigger.  The files that the check reads are a record.
\<close>

section \<open>The proposer\<close>

record agent_weight =
  aw_id :: string
  aw_skill :: string
  aw_weight :: f64
  aw_sharpe :: f64
  aw_volatility :: f64
  aw_signals :: int
  aw_hit_rate :: f64
  aw_at_min :: int

datatype trigger =
    WeightDrift f64 f64 int
  | WeightTrap f64 int
  | SharpeDegradation f64 int
  | HitRateCollapse f64 int
  | VolatilityPenalty f64 f64
  | HealthMuted f64

record auto_proposer =
  px_neutral :: "f64 option"
  px_health :: "(string \<Rightarrow> (bool \<times> f64) option) option"
  px_tracker :: "maturity option"
  px_last :: "(string \<times> time) list"
  px_cooldown :: duration

record proposal =
  pr_agent :: string
  pr_mutation :: string
  pr_reason :: string
  pr_brief :: mutation_brief

record propose_outcome =
  po_burn_in :: bool
  po_scanned :: int
  po_cooldown :: int
  po_no_trigger :: int
  po_generated :: int
  po_reason :: string

definition NewAutoProposer :: "f64 option \<Rightarrow> (string \<Rightarrow> (bool \<times> f64) option) option \<Rightarrow> auto_proposer" where
  "NewAutoProposer neutral health =
     \<lparr>px_neutral = neutral, px_health = health, px_tracker = None, px_last = [], px_cooldown = 7 * 24 * hour\<rparr>"

definition checkAgent :: "f64 \<Rightarrow> (string \<Rightarrow> (bool \<times> f64) option) option \<Rightarrow> agent_weight \<Rightarrow> trigger option" where
  "checkAgent neutral health a =
     (if aw_signals a < 30 \<and> flt (fmul (f64_const (3 / 10)) neutral) (fabs (fsub (aw_weight a) neutral))
        then Some (WeightDrift (aw_weight a) neutral (aw_signals a))
      else if fle (aw_weight a) (f64_const (31 / 100)) \<and> 5 \<le> aw_at_min a then Some (WeightTrap (aw_weight a) (aw_at_min a))
      else if flt (aw_sharpe a) (Fin (- 1 / 2)) \<and> 60 \<le> aw_signals a then Some (SharpeDegradation (aw_sharpe a) (aw_signals a))
      else if flt (aw_hit_rate a) (f64_const (4 / 10)) \<and> 30 \<le> aw_signals a
        then Some (HitRateCollapse (fmul (aw_hit_rate a) (Fin 100)) (aw_signals a))
      else if flt (f64_const (5 / 100)) (aw_volatility a) \<and> flt (aw_sharpe a) (Fin 0)
        then Some (VolatilityPenalty (aw_volatility a) (aw_sharpe a))
      else (case health of
              None \<Rightarrow> None
            | Some get \<Rightarrow> (case get (aw_id a) of Some (True, sharpe) \<Rightarrow> Some (HealthMuted sharpe) | _ \<Rightarrow> None)))"

definition zero_brief :: mutation_brief where
  "zero_brief = \<lparr>mb_version = 0, mb_proposal = [], mb_window = [], mb_target = [], mb_skill = [], mb_layer = [], mb_prompt_file = [],
     mb_mutation = [], mb_failure = [], mb_hypothesis = [], mb_metric = [], mb_gates = [], mb_forbidden = [], mb_required = [],
     mb_windows = 0, mb_maturity = [], mb_guidance = [], mb_recommended = [], mb_rsi = Fin 0, mb_generated = zero_time, mb_stage = [],
     mb_action = []\<rparr>"

definition buildBrief :: "time \<Rightarrow> auto_proposer \<Rightarrow> agent_weight \<Rightarrow> string \<Rightarrow> mutation_brief" where
  "buildBrief generated p a reason =
     zero_brief\<lparr>mb_mutation := ''auto_prompt_optimization'', mb_target := aw_id a, mb_skill := aw_skill a, mb_hypothesis := reason,
       mb_maturity := (case px_tracker p of
                         Some MaturityCalibrating \<Rightarrow> ''level_2_validated''
                       | Some MaturityFullAuto \<Rightarrow> ''level_3_production''
                       | _ \<Rightarrow> ''level_1_exploratory''),
       mb_generated := generated\<rparr>"

text \<open>One agent of the scan: it is in its cooldown, has no trigger, or is proposed.\<close>

datatype scanned = InCooldown | NoTrigger | Proposed proposal

definition scan_agent ::
  "(trigger \<Rightarrow> string) \<Rightarrow> (string \<Rightarrow> time) \<Rightarrow> time \<Rightarrow> f64 \<Rightarrow> auto_proposer \<Rightarrow> agent_weight \<Rightarrow> scanned" where
  "scan_agent show generated now neutral p a =
     (if (case map_of (px_last p) (aw_id a) of None \<Rightarrow> False | Some t \<Rightarrow> time_sub now t < px_cooldown p) then InCooldown
      else (case checkAgent neutral (px_health p) a of
              None \<Rightarrow> NoTrigger
            | Some t \<Rightarrow>
                Proposed \<lparr>pr_agent = aw_id a, pr_mutation = ''auto_prompt_optimization'', pr_reason = show t,
                          pr_brief = buildBrief (generated (aw_id a)) p a (show t)\<rparr>))"

fun scan ::
  "(trigger \<Rightarrow> string) \<Rightarrow> (string \<Rightarrow> time) \<Rightarrow> time \<Rightarrow> f64 \<Rightarrow> agent_weight list \<Rightarrow> auto_proposer \<Rightarrow> scanned list \<times> auto_proposer" where
  "scan show generated now neutral [] p = ([], p)"
| "scan show generated now neutral (a # as) p =
     (let x = scan_agent show generated now neutral p a;
          p' = (case x of Proposed pr \<Rightarrow> p\<lparr>px_last := AList.update (aw_id a) now (px_last p)\<rparr> | _ \<Rightarrow> p)
      in case scan show generated now neutral as p' of (xs, p'') \<Rightarrow> (x # xs, p''))"

definition proposed :: "scanned list \<Rightarrow> proposal list" where
  "proposed xs = List.map_filter (\<lambda>x. case x of Proposed pr \<Rightarrow> Some pr | _ \<Rightarrow> None) xs"

definition CheckAndPropose ::
  "(trigger \<Rightarrow> string) \<Rightarrow> (string \<Rightarrow> time) \<Rightarrow> time \<Rightarrow> agent_weight list \<Rightarrow> auto_proposer
     \<Rightarrow> (proposal list \<times> propose_outcome) option \<times> auto_proposer" where
  "CheckAndPropose show generated now agents p =
     (let empty = \<lparr>po_burn_in = False, po_scanned = 0, po_cooldown = 0, po_no_trigger = 0, po_generated = 0, po_reason = []\<rparr>
      in if px_tracker p = Some MaturityBurnIn then (Some ([], empty\<lparr>po_burn_in := True, po_reason := ''burn_in''\<rparr>), p)
         else (case px_neutral p of
                 None \<Rightarrow> (None, p)
               | Some neutral \<Rightarrow>
                   (case scan show generated now neutral agents p of
                      (xs, p') \<Rightarrow>
                        (let ps = proposed xs; n = int (length xs); c = int (length (filter (\<lambda>x. x = InCooldown) xs))
                         in (Some (ps, empty\<lparr>po_scanned := n, po_cooldown := c,
                               po_no_trigger := int (length (filter (\<lambda>x. x = NoTrigger) xs)), po_generated := int (length ps),
                               po_reason := (if ps \<noteq> [] then ''proposals'' else if c = n \<and> 0 < n then ''cooldown_only'' else ''no_trigger'')\<rparr>),
                             p')))))"

section \<open>The activity of the loop\<close>

datatype pillar = PillarProposal | PillarJudge | PillarPromote | PillarRevert

fun pillar_name :: "pillar \<Rightarrow> string" where
  "pillar_name PillarProposal = ''proposal''"
| "pillar_name PillarJudge = ''judge''"
| "pillar_name PillarPromote = ''promote''"
| "pillar_name PillarRevert = ''revert''"

definition AllPillars :: "pillar list" where
  "AllPillars = [PillarProposal, PillarJudge, PillarPromote, PillarRevert]"

record health_config =
  hc_ledger :: string
  hc_policy :: string
  hc_replay :: string
  hc_window :: duration
  hc_delay :: duration
  hc_now :: time

record evolution_files =
  ef_records :: "ledger_line list option"
  ef_outcomes :: "(string \<times> experiment_result option) list"
  ef_policy :: policy_files
  ef_replay :: csv_file

datatype replay_problem = ReplayMissing | NoValidDates

record health_result =
  hs_checked :: time
  hs_window :: duration
  hs_stale :: "pillar list"
  hs_last :: "pillar \<Rightarrow> time"
  hs_all_stale :: bool
  hs_fresh :: bool
  hs_days :: int
  hs_error :: "replay_problem option"

definition DefaultEvolutionHealthWindow :: duration where "DefaultEvolutionHealthWindow = 24 * hour"
definition DefaultReplayMaxDelay :: duration where "DefaultReplayMaxDelay = 48 * hour"

definition newest :: "time list \<Rightarrow> time \<Rightarrow> time" where
  "newest ts t0 = fold (\<lambda>t l. if t \<noteq> zero_time \<and> l < t then t else l) ts t0"

definition experimentRecordTime :: "experiment_record \<Rightarrow> time" where
  "experimentRecordTime r = (case id_timestamp (xr_id r) of Some v \<Rightarrow> v * second | None \<Rightarrow> xr_window_start r)"

definition lastProposalActivity :: "string \<Rightarrow> evolution_files \<Rightarrow> time" where
  "lastProposalActivity dir fs =
     (if dir = [] then zero_time else newest (map experimentRecordTime (ExperimentsJSONL (ef_records fs))) zero_time)"

definition judged_status :: "string \<Rightarrow> bool" where
  "judged_status s \<longleftrightarrow> s = ExperimentAccepted \<or> s = ExperimentRejected"

definition lastJudgeActivity :: "string \<Rightarrow> evolution_files \<Rightarrow> time" where
  "lastJudgeActivity dir fs =
     (if dir = [] then zero_time
      else
        (let outcomes = List.map_filter (\<lambda>(n, r). if suffix ''_metadata.json'' n then None
               else (case r of None \<Rightarrow> None
                             | Some x \<Rightarrow> if judged_status (xr_status (er_experiment x)) then Some (er_recorded_at x) else None)) (ef_outcomes fs);
             recorded = map experimentRecordTime (filter (\<lambda>r. judged_status (xr_status r)) (ExperimentsJSONL (ef_records fs)))
         in newest recorded (newest outcomes zero_time)))"

definition fileExists :: "string \<Rightarrow> policy_files \<Rightarrow> bool" where
  "fileExists path fs \<longleftrightarrow> path \<noteq> [] \<and> pf_main fs \<noteq> FileMissing"

definition lastPolicyActivity :: "baseline_params \<Rightarrow> string \<Rightarrow> bool \<Rightarrow> policy_files \<Rightarrow> time" where
  "lastPolicyActivity cfg path promote fs =
     (if path = [] then zero_time
      else (case LoadStrict cfg path fs of
              Inl _ \<Rightarrow> zero_time
            | Inr p \<Rightarrow> newest (if promote then map pm_at (bp_promotions p) else map rv_at (bp_reverts p)) zero_time))"

text \<open>The reader stops at the first record that it cannot read; what it reads of the header does not matter.\<close>

fun readable_rows :: "string list option list \<Rightarrow> string list list" where
  "readable_rows (Some r # rs) = r # readable_rows rs"
| "readable_rows _ = []"

definition latestReplayDate :: "csv_file \<Rightarrow> replay_problem + time" where
  "latestReplayDate f =
     (case f of
        CsvMissing \<Rightarrow> Inl ReplayMissing
      | CsvFile header rows \<Rightarrow>
          (let t = newest (List.map_filter (\<lambda>r. case r of [] \<Rightarrow> None | c # _ \<Rightarrow> parse_date (trim_space c)) (readable_rows rows)) zero_time
           in if t = zero_time then Inl NoValidDates else Inr t))"

definition replayFreshness :: "csv_file \<Rightarrow> time \<Rightarrow> duration \<Rightarrow> bool \<times> int \<times> replay_problem option" where
  "replayFreshness f now delay =
     (case latestReplayDate f of
        Inl e \<Rightarrow> (False, 0, Some e)
      | Inr t \<Rightarrow> (time_sub now t < (if delay \<le> 0 then DefaultReplayMaxDelay else delay), whole_days (time_sub now t), None))"

definition CheckEvolutionHealth :: "baseline_params \<Rightarrow> time \<Rightarrow> health_config \<Rightarrow> evolution_files \<Rightarrow> health_result" where
  "CheckEvolutionHealth cfg clock hc fs =
     (let now = (if hc_now hc = zero_time then clock else hc_now hc);
          window = (if hc_window hc \<le> 0 then DefaultEvolutionHealthWindow else hc_window hc);
          last = (\<lambda>p. case p of
                    PillarProposal \<Rightarrow> lastProposalActivity (hc_ledger hc) fs
                  | PillarJudge \<Rightarrow> lastJudgeActivity (hc_ledger hc) fs
                  | PillarPromote \<Rightarrow> lastPolicyActivity cfg (hc_policy hc) True (ef_policy fs)
                  | PillarRevert \<Rightarrow> lastPolicyActivity cfg (hc_policy hc) False (ef_policy fs));
          stale = filter (\<lambda>p. \<not> ((p = PillarPromote \<or> p = PillarRevert) \<and> \<not> fileExists (hc_policy hc) (ef_policy fs)) \<and>
                    last p < now - window) AllPillars;
          (fresh, days, err) = (if hc_replay hc \<noteq> [] then replayFreshness (ef_replay fs) now (hc_delay hc) else (True, 0, None))
      in \<lparr>hs_checked = now, hs_window = window, hs_stale = stale, hs_last = last, hs_all_stale = (length stale = length AllPillars),
          hs_fresh = fresh, hs_days = days, hs_error = err\<rparr>)"

section \<open>The alerts\<close>

datatype monitor_call =
    CallAlert string string string "(string \<times> string option) list"
  | CallResolve string string string

record health_texts =
  ht_time :: "time \<Rightarrow> string"
  ht_duration :: "duration \<Rightarrow> string"
  ht_error :: "replay_problem \<Rightarrow> string"

definition stale_call :: "health_texts \<Rightarrow> health_result \<Rightarrow> pillar \<Rightarrow> monitor_call" where
  "stale_call ht res p =
     CallAlert ''warning'' ''evolution'' (''no_'' @ pillar_name p @ ''_activity_in_24h'')
       [(''pillar'', Some (pillar_name p)),
        (''last_activity'', Some (if hs_last res p = zero_time then ''never'' else ht_time ht (hs_last res p))),
        (''window'', Some (ht_duration ht (hs_window res)))]"

definition RaiseEvolutionHealthAlerts :: "health_texts \<Rightarrow> bool \<Rightarrow> health_result \<Rightarrow> monitor_call list" where
  "RaiseEvolutionHealthAlerts ht resolver res =
     (if hs_all_stale res then
        [CallAlert ''error'' ''evolution''
           ''evolution_loop_inactive_24h: no proposal/judge/promote/revert activity in the last 24h'' [(''pillars'', None)]]
      else
        map (stale_call ht res) (hs_stale res) @
        (if resolver then
           map (\<lambda>p. CallResolve ''evolution'' (pillar_name p) ''pillar-active'') (filter (\<lambda>p. p \<notin> set (hs_stale res)) AllPillars) @
           (if hs_stale res = [] then [CallResolve ''evolution'' [] ''evolution-healthy''] else [])
         else [])) @
     (case hs_error res of
        Some e \<Rightarrow> [CallAlert ''warning'' ''evolution'' ''replay_data_unavailable'' [(''error'', Some (ht_error ht e))]]
      | None \<Rightarrow>
          if \<not> hs_fresh res then [CallAlert ''warning'' ''evolution'' ''replay_data_stale'' [(''days_behind'', None)]]
          else if resolver then [CallResolve ''evolution'' [] ''replay-fresh''] else [])"

text \<open>The adapter, which is a resolver: what a call does to the monitor.\<close>

definition adapter_level :: "string \<Rightarrow> alert_level" where
  "adapter_level l = (if l = ''error'' then AlertLevelError else if l = ''warning'' then AlertLevelWarning else AlertLevelInfo)"

definition adapter_action :: "string \<Rightarrow> monitor_call \<Rightarrow> alert_action" where
  "adapter_action ident c =
     (case c of
        CallAlert l cat msg meta \<Rightarrow> StepAlert ident (adapter_level l) cat msg meta None
      | CallResolve cat i reason \<Rightarrow> StepResolve cat i reason)"

section \<open>Checks over time\<close>

text \<open>The proposer lives for many checks; the weights, the answers of the health manager and the maturity differ from check to check.\<close>

record propose_check =
  pk_now :: time
  pk_generated :: "string \<Rightarrow> time"
  pk_agents :: "agent_weight list"
  pk_neutral :: "f64 option"
  pk_health :: "(string \<Rightarrow> (bool \<times> f64) option) option"
  pk_tracker :: "maturity option"

definition propose_once :: "(trigger \<Rightarrow> string) \<Rightarrow> propose_check \<Rightarrow> auto_proposer \<Rightarrow> (string \<times> time) list \<times> auto_proposer" where
  "propose_once show k p =
     (case CheckAndPropose show (pk_generated k) (pk_now k) (pk_agents k)
             (p\<lparr>px_neutral := pk_neutral k, px_health := pk_health k, px_tracker := pk_tracker k\<rparr>) of
        (None, p') \<Rightarrow> ([], p')
      | (Some (ps, out), p') \<Rightarrow> (map (\<lambda>pr. (pr_agent pr, pk_now k)) ps, p'))"

text \<open>The agents and the times of all proposals.\<close>

fun propose_run :: "(trigger \<Rightarrow> string) \<Rightarrow> propose_check list \<Rightarrow> auto_proposer \<Rightarrow> (string \<times> time) list \<times> auto_proposer" where
  "propose_run show [] p = ([], p)"
| "propose_run show (k # ks) p =
     (case propose_once show k p of (ps, p1) \<Rightarrow> (case propose_run show ks p1 of (qs, p2) \<Rightarrow> (ps @ qs, p2)))"

section \<open>Facts on proposals\<close>

lemma proposed_simps [simp]:
  "proposed [] = []" "proposed (InCooldown # xs) = proposed xs" "proposed (NoTrigger # xs) = proposed xs"
  "proposed (Proposed pr # xs) = pr # proposed xs"
  by (simp_all add: proposed_def List.map_filter_simps)

lemma counts_add_up:
  "int (length xs) = int (length (filter (\<lambda>x. x = InCooldown) xs)) + int (length (filter (\<lambda>x. x = NoTrigger) xs)) + int (length (proposed xs))"
proof (induction xs)
  case (Cons x xs)
  then show ?case by (cases x) auto
qed simp

text \<open>Every agent of a scan is counted once.\<close>

lemma outcome_counts:
  "CheckAndPropose show generated now agents p = (Some (ps, out), p') \<Longrightarrow>
   po_scanned out = po_cooldown out + po_no_trigger out + po_generated out"
proof -
  assume run: "CheckAndPropose show generated now agents p = (Some (ps, out), p')"
  show ?thesis
  proof (cases "px_tracker p = Some MaturityBurnIn")
    case False
    with run obtain neutral where "px_neutral p = Some neutral" by (auto simp: CheckAndPropose_def Let_def split: option.splits)
    moreover obtain xs q where "scan show generated now neutral agents p = (xs, q)" by (cases "scan show generated now neutral agents p")
    ultimately have "po_scanned out = int (length xs)" "po_cooldown out = int (length (filter (\<lambda>x. x = InCooldown) xs))"
      "po_no_trigger out = int (length (filter (\<lambda>x. x = NoTrigger) xs))" "po_generated out = int (length (proposed xs))"
      using run False by (simp_all add: CheckAndPropose_def Let_def) (auto simp: Let_def)
    with counts_add_up [of xs] show ?thesis by simp
  qed (use run in \<open>auto simp: CheckAndPropose_def\<close>)
qed

text \<open>A proposal starts the cooldown of its agent and comes after the end of the cooldown before.\<close>

lemma scan_spaced:
  assumes "scan show generated now neutral as p = (xs, p')" "0 < px_cooldown p" "pr \<in> set (proposed xs)"
  shows "map_of (px_last p') (pr_agent pr) = Some now \<and> (\<forall>t. map_of (px_last p) (pr_agent pr) = Some t \<longrightarrow> px_cooldown p \<le> time_sub now t)"
proof -
  have keeps: "px_cooldown p' = px_cooldown p \<and> (map_of (px_last p) i = Some now \<longrightarrow> map_of (px_last p') i = Some now)"
    if "scan show generated now neutral as p = (xs, p')" for as p xs p' i
    using that
  proof (induction as arbitrary: p xs)
    case (Cons a as)
    define q where "q = (case scan_agent show generated now neutral p a of Proposed pr \<Rightarrow> p\<lparr>px_last := AList.update (aw_id a) now (px_last p)\<rparr> | _ \<Rightarrow> p)"
    from Cons.prems obtain ys where "scan show generated now neutral as q = (ys, p')" by (auto simp: Let_def q_def split: prod.splits)
    from Cons.IH [OF this] show ?case by (auto simp: q_def split: scanned.splits if_splits)
  qed simp
  show ?thesis using assms
  proof (induction as arbitrary: p xs)
    case (Cons a as)
    let ?x = "scan_agent show generated now neutral p a"
    define q where "q = (case ?x of Proposed pr \<Rightarrow> p\<lparr>px_last := AList.update (aw_id a) now (px_last p)\<rparr> | _ \<Rightarrow> p)"
    from Cons.prems(1) obtain ys where run: "scan show generated now neutral as q = (ys, p')" and xs: "xs = ?x # ys"
      by (auto simp: Let_def q_def split: prod.splits)
    have q: "px_cooldown q = px_cooldown p" by (simp add: q_def split: scanned.split)
    show ?case
    proof (cases "pr \<in> set (proposed ys)")
      case True
      with Cons.IH [OF run] Cons.prems(2) q
      have "map_of (px_last p') (pr_agent pr) = Some now" "\<forall>t. map_of (px_last q) (pr_agent pr) = Some t \<longrightarrow> px_cooldown p \<le> time_sub now t" by auto
      with Cons.prems(2) show ?thesis by (auto simp: q_def split: scanned.splits if_splits)
    next
      case False
      with Cons.prems(3) xs have x: "?x = Proposed pr" by (cases ?x) auto
      then have pr: "pr_agent pr = aw_id a" and "\<forall>t. map_of (px_last p) (aw_id a) = Some t \<longrightarrow> px_cooldown p \<le> time_sub now t"
        by (auto simp: scan_agent_def split: if_splits option.splits)
      moreover have "map_of (px_last p') (aw_id a) = Some now" using keeps [OF run, of "aw_id a"] x by (simp add: q_def)
      ultimately show ?thesis by simp
    qed
  qed simp
qed

lemma proposals_keep_cooldown:
  assumes "CheckAndPropose show generated now agents p = (Some (ps, out), p')" "0 < px_cooldown p" "pr \<in> set ps"
  shows "map_of (px_last p') (pr_agent pr) = Some now \<and> (\<forall>t. map_of (px_last p) (pr_agent pr) = Some t \<longrightarrow> px_cooldown p \<le> time_sub now t)"
  using assms by (auto simp: CheckAndPropose_def Let_def split: if_splits option.splits prod.splits dest: scan_spaced)

lemma scan_keeps:
  "scan show generated now neutral as p = (xs, p') \<Longrightarrow> px_cooldown p' = px_cooldown p \<and>
     (\<forall>i. i \<notin> pr_agent ` set (proposed xs) \<longrightarrow> map_of (px_last p') i = map_of (px_last p) i) \<and>
     (map_of (px_last p) i = Some now \<longrightarrow> map_of (px_last p') i = Some now)"
proof (induction as arbitrary: p xs)
  case (Cons a as)
  define q where "q = (case scan_agent show generated now neutral p a of Proposed pr \<Rightarrow> p\<lparr>px_last := AList.update (aw_id a) now (px_last p)\<rparr> | _ \<Rightarrow> p)"
  from Cons.prems obtain ys where "scan show generated now neutral as q = (ys, p')" and xs: "xs = scan_agent show generated now neutral p a # ys"
    by (auto simp: Let_def q_def split: prod.splits)
  with Cons.IH [of q ys] show ?case
    by (cases "scan_agent show generated now neutral p a") (auto simp: q_def scan_agent_def update_conv' split: if_splits option.splits)
qed simp

text \<open>One scan proposes an agent at most once, also when it is listed twice.\<close>

lemma scan_distinct: "scan show generated now neutral as p = (xs, p') \<Longrightarrow> 0 < px_cooldown p \<Longrightarrow> distinct (map pr_agent (proposed xs))"
proof (induction as arbitrary: p xs)
  case (Cons a as)
  let ?x = "scan_agent show generated now neutral p a"
  define q where "q = (case ?x of Proposed pr \<Rightarrow> p\<lparr>px_last := AList.update (aw_id a) now (px_last p)\<rparr> | _ \<Rightarrow> p)"
  from Cons.prems(1) obtain ys where run: "scan show generated now neutral as q = (ys, p')" and xs: "xs = ?x # ys"
    by (auto simp: Let_def q_def split: prod.splits)
  have q: "px_cooldown q = px_cooldown p" by (simp add: q_def split: scanned.split)
  show ?case
  proof (cases ?x)
    case (Proposed pr)
    then have pr: "pr_agent pr = aw_id a" by (auto simp: scan_agent_def split: if_splits option.splits)
    have "map_of (px_last q) (aw_id a) = Some now" using Proposed by (simp add: q_def)
    then have "aw_id a \<notin> pr_agent ` set (proposed ys)" using scan_spaced [OF run] Cons.prems(2) q by fastforce
    with Cons.IH [OF run] Cons.prems(2) q Proposed xs pr show ?thesis by simp
  qed (use Cons.IH [OF run] Cons.prems(2) q xs in simp_all)
qed simp

lemma scan_justified:
  "scan show generated now neutral as p = (xs, p') \<Longrightarrow> pr \<in> set (proposed xs) \<Longrightarrow>
     \<exists>x \<in> set as. aw_id x = pr_agent pr \<and> checkAgent neutral (px_health p) x \<noteq> None"
proof (induction as arbitrary: p xs)
  case (Cons a as)
  define q where "q = (case scan_agent show generated now neutral p a of Proposed pr \<Rightarrow> p\<lparr>px_last := AList.update (aw_id a) now (px_last p)\<rparr> | _ \<Rightarrow> p)"
  from Cons.prems(1) obtain ys where "scan show generated now neutral as q = (ys, p')" "xs = scan_agent show generated now neutral p a # ys"
    by (auto simp: Let_def q_def split: prod.splits)
  moreover have "px_health q = px_health p" by (simp add: q_def split: scanned.split)
  ultimately show ?case using Cons.IH [of q ys] Cons.prems(2)
    by (cases "scan_agent show generated now neutral p a") (auto simp: scan_agent_def split: if_splits option.splits)
qed simp

lemma later_sub: "0 < c \<Longrightarrow> c \<le> time_sub b a \<Longrightarrow> c \<le> time_sub d b \<Longrightarrow> c \<le> time_sub d a"
  by (auto simp: time_sub_def i64_min_def i64_max_def)

lemma once_spaced:
  assumes "propose_once show k p = (ps, p')" "0 < px_cooldown p"
  shows "px_cooldown p' = px_cooldown p" "distinct (map fst ps)"
    "\<And>a t. (a, t) \<in> set ps \<Longrightarrow> t = pk_now k \<and> map_of (px_last p') a = Some t \<and>
       (\<forall>s. map_of (px_last p) a = Some s \<longrightarrow> px_cooldown p \<le> time_sub t s) \<and> pk_tracker k \<noteq> Some MaturityBurnIn \<and>
       (\<exists>neutral x. pk_neutral k = Some neutral \<and> x \<in> set (pk_agents k) \<and> aw_id x = a \<and> checkAgent neutral (pk_health k) x \<noteq> None)"
    "\<And>a. a \<notin> fst ` set ps \<Longrightarrow> map_of (px_last p') a = map_of (px_last p) a"
proof -
  let ?p = "p\<lparr>px_neutral := pk_neutral k, px_health := pk_health k, px_tracker := pk_tracker k\<rparr>"
  consider "ps = []" "p' = ?p"
    | neutral xs where "pk_tracker k \<noteq> Some MaturityBurnIn" "pk_neutral k = Some neutral"
      "scan show (pk_generated k) (pk_now k) neutral (pk_agents k) ?p = (xs, p')"
      "ps = map (\<lambda>pr. (pr_agent pr, pk_now k)) (proposed xs)"
    using assms(1) by (auto simp: propose_once_def CheckAndPropose_def Let_def split: if_splits option.splits prod.splits)
  then have "px_cooldown p' = px_cooldown p \<and> distinct (map fst ps) \<and> (\<forall>a t. (a, t) \<in> set ps \<longrightarrow>
       t = pk_now k \<and> map_of (px_last p') a = Some t \<and>
       (\<forall>s. map_of (px_last p) a = Some s \<longrightarrow> px_cooldown p \<le> time_sub t s) \<and> pk_tracker k \<noteq> Some MaturityBurnIn \<and>
       (\<exists>neutral x. pk_neutral k = Some neutral \<and> x \<in> set (pk_agents k) \<and> aw_id x = a \<and> checkAgent neutral (pk_health k) x \<noteq> None)) \<and>
    (\<forall>a. a \<notin> fst ` set ps \<longrightarrow> map_of (px_last p') a = map_of (px_last p) a)"
  proof cases
    case 1
    then show ?thesis by simp
  next
    case 2
    have fs: "map fst ps = map pr_agent (proposed xs)" "fst ` set ps = pr_agent ` set (proposed xs)" using 2(4) by (simp_all add: comp_def image_comp)
    have "\<forall>a t. (a, t) \<in> set ps \<longrightarrow> t = pk_now k \<and> map_of (px_last p') a = Some t \<and>
       (\<forall>s. map_of (px_last p) a = Some s \<longrightarrow> px_cooldown p \<le> time_sub t s) \<and>
       (\<exists>x. x \<in> set (pk_agents k) \<and> aw_id x = a \<and> checkAgent neutral (pk_health k) x \<noteq> None)"
      using scan_spaced [OF 2(3)] scan_justified [OF 2(3)] assms(2) 2(4) by (fastforce simp: Bex_def)
    with 2(1,2) fs scan_keeps [OF 2(3)] scan_distinct [OF 2(3)] assms(2) show ?thesis by auto
  qed
  then show "px_cooldown p' = px_cooldown p" "distinct (map fst ps)"
    "\<And>a t. (a, t) \<in> set ps \<Longrightarrow> t = pk_now k \<and> map_of (px_last p') a = Some t \<and>
       (\<forall>s. map_of (px_last p) a = Some s \<longrightarrow> px_cooldown p \<le> time_sub t s) \<and> pk_tracker k \<noteq> Some MaturityBurnIn \<and>
       (\<exists>neutral x. pk_neutral k = Some neutral \<and> x \<in> set (pk_agents k) \<and> aw_id x = a \<and> checkAgent neutral (pk_health k) x \<noteq> None)"
    "\<And>a. a \<notin> fst ` set ps \<Longrightarrow> map_of (px_last p') a = map_of (px_last p) a" by blast+
qed

definition spaced :: "duration \<Rightarrow> (string \<times> time) list \<Rightarrow> bool" where
  "spaced c xs \<longleftrightarrow> sorted_wrt (\<lambda>x y. fst x = fst y \<longrightarrow> c \<le> time_sub (snd y) (snd x)) xs"

lemma distinct_spaced: "distinct (map fst xs) \<Longrightarrow> spaced c xs"
  unfolding spaced_def
proof (induction xs)
  case (Cons x xs)
  then have "fst x \<noteq> fst y" if "y \<in> set xs" for y using that by (auto simp: image_iff)
  with Cons show ?case by simp
qed simp

lemma run_spaced:
  "propose_run show ks p = (made, p') \<Longrightarrow> 0 < px_cooldown p \<Longrightarrow> spaced (px_cooldown p) made \<and>
     (\<forall>a t s. (a, t) \<in> set made \<longrightarrow> map_of (px_last p) a = Some s \<longrightarrow> px_cooldown p \<le> time_sub t s)"
proof (induction ks arbitrary: p made)
  case Nil
  then show ?case by (simp add: spaced_def)
next
  case (Cons k ks)
  from Cons.prems(1) obtain ps p1 qs where one: "propose_once show k p = (ps, p1)" and rest: "propose_run show ks p1 = (qs, p')"
    and made: "made = ps @ qs" by (auto split: prod.splits)
  note o = once_spaced [OF one Cons.prems(2)]
  from Cons.IH [OF rest] o(1) Cons.prems(2) have ih: "spaced (px_cooldown p) qs"
    "\<And>a t s. (a, t) \<in> set qs \<Longrightarrow> map_of (px_last p1) a = Some s \<Longrightarrow> px_cooldown p \<le> time_sub t s" by auto
  have "spaced (px_cooldown p) made"
    unfolding made spaced_def sorted_wrt_append
  proof (intro conjI ballI impI)
    fix x y assume m: "x \<in> set ps" "y \<in> set qs" and eq: "fst x = fst y"
    have "map_of (px_last p1) (fst y) = Some (snd x)" using o(3) [of "fst x" "snd x"] m(1) unfolding eq [symmetric] by simp
    with ih(2) [of "fst y" "snd y"] m(2) show "px_cooldown p \<le> time_sub (snd y) (snd x)" by simp
  qed (use distinct_spaced [OF o(2), of "px_cooldown p"] ih(1) in \<open>simp_all add: spaced_def\<close>)
  moreover have "px_cooldown p \<le> time_sub t s" if m: "(a, t) \<in> set made" and s: "map_of (px_last p) a = Some s" for a t s
  proof (cases "(a, t) \<in> set ps")
    case True
    with o(3) s show ?thesis by blast
  next
    case False
    with m made have q: "(a, t) \<in> set qs" by simp
    show ?thesis
    proof (cases "a \<in> fst ` set ps")
      case True
      then obtain u where u: "(a, u) \<in> set ps" by auto
      from o(3) [OF u] s have "px_cooldown p \<le> time_sub u s" "map_of (px_last p1) a = Some u" by auto
      with ih(2) [OF q] later_sub [OF Cons.prems(2)] show ?thesis by blast
    next
      case False
      with o(4) s ih(2) [OF q] show ?thesis by simp
    qed
  qed
  ultimately show ?case by blast
qed

lemma run_justified:
  "propose_run show ks p = (made, p') \<Longrightarrow> 0 < px_cooldown p \<Longrightarrow> (a, t) \<in> set made \<Longrightarrow>
     \<exists>k neutral x. k \<in> set ks \<and> pk_now k = t \<and> pk_tracker k \<noteq> Some MaturityBurnIn \<and> pk_neutral k = Some neutral \<and>
       x \<in> set (pk_agents k) \<and> aw_id x = a \<and> checkAgent neutral (pk_health k) x \<noteq> None"
proof (induction ks arbitrary: p made)
  case (Cons k ks)
  from Cons.prems(1) obtain ps p1 qs where one: "propose_once show k p = (ps, p1)" and rest: "propose_run show ks p1 = (qs, p')"
    and made: "made = ps @ qs" by (auto split: prod.splits)
  note o = once_spaced [OF one Cons.prems(2)]
  show ?case
  proof (cases "(a, t) \<in> set ps")
    case True
    from o(3) [OF this] show ?thesis by (intro exI [of _ k]) auto
  next
    case False
    with Cons.prems(2,3) made Cons.IH [OF rest] o(1) show ?thesis by auto
  qed
qed simp

text \<open>C16 (invariant). One proposer with a positive cooldown over any number of checks, whatever the clock shows and whatever weights, health
  answers and maturity each check finds: two proposals for the same agent are at least the cooldown apart, and every proposal comes
  from a check outside burn-in at which an agent record of that name had a trigger. The times of the proposals are kept in the
  process: nothing is claimed across a restart.\<close>
theorem proposals_are_spaced:
  assumes "propose_run show ks p = (made, p')" "0 < px_cooldown p"
  shows "(\<forall>i j. i < j \<and> j < length made \<and> fst (made ! i) = fst (made ! j) \<longrightarrow> px_cooldown p \<le> time_sub (snd (made ! j)) (snd (made ! i))) \<and>
    (\<forall>(a, t) \<in> set made. \<exists>k neutral x. k \<in> set ks \<and> pk_now k = t \<and> pk_tracker k \<noteq> Some MaturityBurnIn \<and> pk_neutral k = Some neutral \<and>
       x \<in> set (pk_agents k) \<and> aw_id x = a \<and> checkAgent neutral (pk_health k) x \<noteq> None)"
proof
  show "\<forall>i j. i < j \<and> j < length made \<and> fst (made ! i) = fst (made ! j) \<longrightarrow> px_cooldown p \<le> time_sub (snd (made ! j)) (snd (made ! i))"
    using run_spaced [OF assms] by (auto simp: spaced_def sorted_wrt_iff_nth_less)
  show "\<forall>(a, t) \<in> set made. \<exists>k neutral x. k \<in> set ks \<and> pk_now k = t \<and> pk_tracker k \<noteq> Some MaturityBurnIn \<and> pk_neutral k = Some neutral \<and>
       x \<in> set (pk_agents k) \<and> aw_id x = a \<and> checkAgent neutral (pk_health k) x \<noteq> None"
    using run_justified [OF assms] by blast
qed

definition demo_check :: "time \<Rightarrow> propose_check" where
  "demo_check t = \<lparr>pk_now = t, pk_generated = (\<lambda>i. t),
     pk_agents = [\<lparr>aw_id = ''agent'', aw_skill = ''momentum'', aw_weight = Fin 0, aw_sharpe = Fin 0, aw_volatility = Fin 0, aw_signals = 40,
       aw_hit_rate = Fin 1, aw_at_min = 5\<rparr>], pk_neutral = Some (Fin 1), pk_health = None, pk_tracker = None\<rparr>"

text \<open>The agent is stuck at its minimum: it is proposed, hidden a day later, and proposed again after eight days.\<close>

lemma demo_trap: "fle (Fin 0) (f64_const (31 / 100))"
proof -
  have "is_f64 (Fin 0)" using is_f64_rnd [of 0] by simp
  then show ?thesis unfolding f64_const_def by (rule rnd_ge) simp
qed

lemma demo_proposals:
  "\<exists>p'. propose_run (\<lambda>t. ''trap'') [demo_check 0, demo_check (24 * hour), demo_check (8 * 24 * hour)] (NewAutoProposer None None) =
     ([(''agent'', 0), (''agent'', 8 * 24 * hour)], p')"
  using demo_trap
  by (auto simp: propose_once_def CheckAndPropose_def Let_def demo_check_def NewAutoProposer_def scan_agent_def checkAgent_def
      time_sub_def i64_min_def i64_max_def)

lemma proposals_are_spaced_witness:
  "\<exists>p'. propose_run (\<lambda>t. ''trap'') [demo_check 0, demo_check (24 * hour), demo_check (8 * 24 * hour)] (NewAutoProposer None None) =
     ([(''agent'', 0), (''agent'', 8 * 24 * hour)], p') \<and> 7 * 24 * hour \<le> time_sub (8 * 24 * hour) 0"
proof -
  from demo_proposals obtain p' where r: "propose_run (\<lambda>t. ''trap'') [demo_check 0, demo_check (24 * hour), demo_check (8 * 24 * hour)]
      (NewAutoProposer None None) = ([(''agent'', 0), (''agent'', 8 * 24 * hour)], p')" by blast
  have c: "px_cooldown (NewAutoProposer None None) = 7 * 24 * hour" by (simp add: NewAutoProposer_def)
  then have "0 < px_cooldown (NewAutoProposer None None)" by simp
  note sp = conjunct1 [OF proposals_are_spaced [OF r this]]
  from sp [rule_format, of 0 1] have "7 * 24 * hour \<le> time_sub (8 * 24 * hour) 0" unfolding c by simp
  with r show ?thesis by blast
qed

text \<open>The contract refuses every brief that the proposer builds: it names no window.\<close>

lemma proposed_brief_refused: "NormalizeAndValidate (buildBrief t p a reason) = Inl (Required ''window_id'')"
  by (simp add: NormalizeAndValidate_def buildBrief_def zero_brief_def blank_def Let_def)

section \<open>Facts on the health check\<close>

text \<open>As long as there is no policy file, the loop as a whole never counts as inactive.\<close>

lemma inactive_loop_needs_policy:
  "\<not> fileExists (hc_policy hc) (ef_policy fs) \<Longrightarrow> \<not> hs_all_stale (CheckEvolutionHealth cfg clock hc fs)"
  by (simp add: CheckEvolutionHealth_def AllPillars_def Let_def split: prod.split)

text \<open>The last call of a check that finds the replay data fresh resolves the whole category, although pillars may be stale.\<close>

lemma fresh_replay_resolves_category:
  "hs_fresh res \<Longrightarrow> hs_error res = None \<Longrightarrow>
     \<exists>cs. RaiseEvolutionHealthAlerts ht True res = cs @ [CallResolve ''evolution'' [] ''replay-fresh'']"
  by (simp add: RaiseEvolutionHealthAlerts_def)

end
