(* ===== verification/Spec2Isabelle.thy ===== *)
theory Spec2Isabelle
  imports Live_Engine Live_HTTP Live_Scheduler Live_Agents Live_BrokerMode Live_Store Live_Nonce Event_Bus Task_Lifecycle Gateway
    Risk_Gate Session_Risk Base_Charter Exp_Ledger Auto_Rollback Exp_Health
begin

text \<open>
  A verification library for atlas-go, a Go program that runs trading agents on the Taiwan stock
  market.  The program has a batch side, which simulates trading sessions on the recommendations of the agents
  (\<open>internal/orchestrator\<close>, \<open>internal/sim\<close>, \<open>internal/risk\<close>) and judges experiments that change the prompts and the
  constraints (\<open>internal/experiment\<close>, \<open>internal/baseline\<close>), a live trading engine (\<open>internal/live\<close>) on an event bus
  (\<open>internal/eventbus\<close>), and a service layer with a task manager (\<open>internal/taskexec\<close>) and a gateway to the data channels
  (\<open>internal/apigateway\<close>) that consults a trading calendar (\<open>internal/taiwanholidays\<close>).  This library models the simulation
  and its risk control, the life cycle of the experiments with the baseline policy, the live engine, the bus, the task manager
  and the gateway.

  How the parts work together.  A simulated session takes the quotes and the recommendations of a day.  Human overrides filter
  the recommendations; the macro assessment of the quotes and the structural trends give a drawdown decision, whose ceiling is handed to
  the simulation engine; the engine sells, trims, closes overdue positions, and buys within cash, limits and ceiling; then the session is
  recorded in the state and the state saved, and the strategy evolver and the capital phase are evaluated.

  An experiment is a mutation of a prompt or of the constraints with a brief that satisfies a contract.  Its record is written to a
  ledger, a file of lines or a table with one row for each experiment, where a pending one is picked up or expires.  The replay scores baseline and candidate on a window of the recorded prices;
  the judge validates the result, checks the texts, tests the returns, asks the out-of-sample validator and
  the acceptance gates, and moves the record to accepted or rejected.  An accepted result is promoted into the baseline policy, a file of
  prompt overrides, constraints and promotions that every change writes under a lock with a backup; a promotion can be reverted, by hand,
  by the daily pass over the pending experiments, or by the daily rollback when the Sharpe ratio falls.  The charter experiments write
  their findings into the same policy.  A proposer turns failing agents into new briefs, and a health check raises alerts when the loop
  stands still.  Alerts go through the monitor, which deduplicates them and saves them, each in a goroutine of its own, into the alert
  store, a file that the users, the expiry and the recovery hooks change as well.

  The orchestrator of the live engine holds a state store, a circuit
  breaker, a risk gate, an execution manager and a scheduler.  The scheduler watches the clock
  and calls the handlers of the trading day: open, intraday cycle, close, quote poll.  The
  handlers fetch quotes, write prices into the store, count stop losses in the breaker, evaluate
  the breaker, mirror it into the gate and publish events.  An order goes through the execution
  manager (breaker check) to the order manager (gate check before every attempt, retries) and
  from there to a broker: dry-run, or a guarded live broker around a mock, HTTP, TWSE or
  Fubon DMA adapter, which the configuration selects.

  Data comes through the gateway: a fetch asks the circuit breaker of its channel, then the cache,
  then the provider; the outcome goes into the health store, where failures are damped by the
  contract of the channel, and a verdict is derived from the record, the contract and the calendar.

  Theories and the code they model.
  \<^item> \<open>Atlas_Prelude\<close>, \<open>Float64\<close>: the Go types and library functions the code relies on:
    64-bit integers with wrap-around, times and durations in nanoseconds with saturating
    difference, \<open>strings.TrimSpace\<close>, \<open>ToLower\<close>, \<open>EqualFold\<close>, decimal printing; IEEE doubles as
    exact rationals, infinities and NaN, every operation rounded to the nearest even double.
    Signed zeros are one value, which no comparison of the code tells apart.
  \<^item> \<open>Sim_Types\<close>, \<open>Sim_Costs\<close>: the state and the results of a simulated day (\<open>domain/types.go\<close>), slippage, market impact and
    commission.  \<open>Sim_Rules\<close>: the feedback rules on the recommendations and the dynamic threshold.  \<open>Sim_Tax\<close>: taxes and lots.
  \<^item> \<open>Sim_Engine\<close>, \<open>Sim_Day\<close>: \<open>sim/engine.go\<close>: the engine, its gate filter and sales; purchases, a day, runs of days, the Sharpe
    ratio.  \<open>Sim_State\<close>: \<open>sim/state_persistence.go\<close>.  \<open>Sim_Run\<close>, \<open>Sim_Buys\<close>, \<open>Sim_Ceiling\<close>, \<open>Sim_History\<close>: properties of days
    and runs.
  \<^item> \<open>Risk_PreTrade\<close>, \<open>Risk_Gate\<close>: the gates before, during and after a trade (\<open>risk/pre_trade.go\<close>, \<open>in_trade.go\<close>,
    \<open>post_trade.go\<close>, \<open>gate.go\<close>).  \<open>Risk_Control\<close>: the breaker on returns, approvals and capital phases.
  \<^item> \<open>Macro_Assess\<close>: \<open>narrative/macro_assessment.go\<close>, \<open>structural_trend.go\<close>.  \<open>Risk_Drawdown\<close>: \<open>risk/macro_aware_drawdown.go\<close>.
    \<open>Strategy_Evolver\<close>: \<open>orchestrator/strategy_evolver.go\<close>.  \<open>Session_Risk\<close>: \<open>orchestrator/system_risk_session.go\<close>.
  \<^item> \<open>Exp_Contract\<close>: \<open>domain/experiment\<close>, briefs, records, results, their validation and the transitions of the status.
    \<open>Exp_Stats\<close>: \<open>eval/metrics.go\<close> and the statistics of the judge.  \<open>Exp_Gates\<close>: the acceptance gates, as the switch of
    \<open>experiment/judge.go\<close> and as the pipeline of \<open>acceptance\<close> and \<open>acceptance/builtin\<close>.  \<open>Exp_Judge\<close>: the rest of \<open>judge.go\<close>,
    \<open>dsr.go\<close>, \<open>lifecycle_publisher.go\<close>.  \<open>Exp_Ledger\<close>: \<open>ledger/experiments.go\<close>, the experiment records of \<open>ledger.go\<close>,
    \<open>postgres_ledger.go\<close> and \<open>outcome_store_sqlite.go\<close>, and the draining and expiry of pending experiments (\<open>auto.go\<close>).  \<open>Exp_Auto\<close>: \<open>auto_judge_promoter.go\<close>, \<open>ttl.go\<close>.  \<open>Auto_Rollback\<close>: \<open>scheduler/auto_rollback.go\<close>.
    \<open>Exp_Replay\<close>: \<open>replay_compare.go\<close>, \<open>oos_validator.go\<close>, \<open>validation.go\<close>, the dataset of \<open>replay\<close> and the price gate
    (\<open>pricegate\<close>, \<open>domain/shared/price_gate.go\<close>).  \<open>Exp_Health\<close>: \<open>auto_proposer.go\<close>, \<open>evolution_health.go\<close>.
  \<^item> \<open>Alert_Store\<close>: \<open>monitoring/alert_store.go\<close>, \<open>alert_ttl.go\<close>, \<open>alert_sla.go\<close> and the requests of \<open>alert_api.go\<close> that
    change the store.  \<open>Alert_Monitor\<close>: \<open>monitoring/monitor.go\<close>,
    \<open>dedup.go\<close>, \<open>autohandler.go\<close>, whose goroutines interleave with the other users of the store in \<open>alert_run\<close>.
  \<^item> \<open>Base_Policy\<close>: \<open>baseline/policy.go\<close>, \<open>manager.go\<close> and the locked write.  \<open>Base_Revert\<close>: \<open>baseline/rollback.go\<close> and the undo
    stack it refines.  \<open>Base_Charter\<close>: \<open>charter\<close>, \<open>baseline/writeback.go\<close>.  \<open>Go_Strconv\<close>: the number parsers of package
    \<open>strconv\<close> that the policy and the dataset use.
  \<^item> \<open>Event_Bus\<close>: \<open>eventbus.go\<close>, publishing with throttling, subscriptions, dispatch,
    handler runs, critical errors, closing.
  \<^item> \<open>Live_Types\<close>: the domain records, event payloads, publishing helpers and errors.
  \<^item> \<open>Live_Circuit\<close>: \<open>circuit_breaker.go\<close>.  \<open>Live_Risk\<close>: \<open>risk_gate.go\<close>, \<open>risk_audit.go\<close>.
  \<^item> \<open>Live_Broker\<close>, \<open>Live_HTTP\<close>, \<open>Live_TWSE\<close>, \<open>Live_Fubon\<close>: \<open>broker.go\<close> and the adapters
    \<open>mock_adapter.go\<close>, \<open>http_adapter.go\<close>, \<open>twse_adapter.go\<close>, \<open>fubon_dma.go\<close>;
    \<open>Live_Nonce\<close>: \<open>store/nonce_store.go\<close>; \<open>Live_BrokerMode\<close>: \<open>resolveBrokerMode\<close>.
  \<^item> \<open>Live_Orders\<close>: \<open>order_manager.go\<close>.  \<open>Live_Store\<close>: \<open>store/store.go\<close>.
    \<open>Live_Agents\<close>: \<open>agent_runner.go\<close>.  \<open>Live_Scheduler\<close>: \<open>scheduler.go\<close>.
  \<^item> \<open>Live_Engine\<close>: \<open>execution.go\<close> and \<open>orchestrator.go\<close>, with the step relation of the engine.
  \<^item> \<open>Task_Store\<close>: \<open>domain/task_execution.go\<close>, \<open>memory_store.go\<close>.  \<open>Task_Manager\<close>: \<open>manager.go\<close>,
    whose goroutines, cancellations and subscriptions interleave in \<open>tm_step\<close>; \<open>Task_Lifecycle\<close> has
    its properties.
  \<^item> \<open>Tw_Calendar\<close>: \<open>taiwan_holidays.go\<close>.  \<open>Gateway_Breaker\<close>: \<open>circuitbreaker.go\<close>.  \<open>Gateway_Contract\<close>:
    \<open>channel_contract.go\<close>.  \<open>Gateway_Health\<close>: \<open>channel_health.go\<close>, \<open>channel_status.go\<close>.  \<open>Gateway\<close>:
    \<open>gateway.go\<close>, \<open>cache_registry.go\<close>, and what they use of \<open>provider.go\<close>, \<open>health.go\<close>.

  Conventions.  A struct is a record with the same fields, a method a function on it that
  returns the new record; an error is a value of a datatype of errors
  with the data of its message, a nil dereference the result \<open>None\<close>.  A clock reading, a random nonce, the outcome of a file
  operation, the iteration order of a map and the choice of a \<open>select\<close> are arguments, and so is the offset of a time zone.  Code outside
  the repository (the network, Redis, the Python subprocess, hashes, JSON decoding, the agent
  plugins) is a function argument, and the theorems hold for every such function; the portfolio optimizer and the value-at-risk
  calculator, which are not modelled, are arguments of the engine in the same way.  Mutexes are not
  modelled where one method is one critical section; where the code gives the lock up in the
  middle, the interleaving is (\<open>dma_concurrent_submissions_cross\<close>, the argument \<open>interfere\<close> of
  \<open>Run\<close>).

  Interfaces.  Locales state what a client relies on and are interpreted on the model:
  \<open>circuit_ops\<close> (the breaker as its clients see it), \<open>nonce_guard\<close> (a replay guard; memory and
  file), \<open>broker_contract\<close> (an order that fails the validation changes nothing, an accepted one
  has a status; dry-run, guarded, TWSE and Fubon), \<open>task_store\<close> (what the task manager relies on; the
  in-memory store), \<open>channel_guard\<close> (what a fetch relies on of the breaker around it), \<open>experiment_store\<close> (what the expiry relies
  on of a ledger; the bare file, the file store and the SQL stores).

  What is shown.
  \<^item> Simulation: shares are conserved over whole runs; every purchase has a recommendation that passed the filters, within limits, and on
    the legacy path the arrangement of the recommendations behind the gate does not matter; the equity curve has one value per session when the
    runs of a session follow each other; the rules change convictions only;
    a drawdown once deep dampens convictions for ever.
  \<^item> Session: the ceiling falls when the volatility index rises, and in a crisis a book that is still full after the sales buys
    nothing; overrides hold until they expire; the state file carries the sessions over a restart, apart from the streaks of the rules; moves of the strategy within the cooldown
    are emergencies; the breakdown of a drawdown decision explains it; only one trend can override the macro risk.
  \<^item> Gates: the verdict before a trade is a table of six rules; a halt blocks orders, apart from a check after the trade that lifts it;
    every change of the mode is announced; checks never bring the normal mode back; a decision on an approval is final.
  \<^item> Experiments: an accepted result is valid, was running, has enough observations, a better score and every gate behind it; the pipeline and the
    switch agree on the gates they share; an expiry settles what is due and leaves the rest, on each of the stores; two proposals for
    an agent keep their distance; two promotions keep their
    distance; the dates of a loaded dataset are distinct and in order.
  \<^item> Baseline: promotions and reverts are pushes and pops of an undo stack, and the file on the disk is its encoding; a writeback done twice is
    done once; the daily rollback pops every degraded promotion.
  \<^item> Alerts: one open row for each condition, however the writers and the requests of the users interleave and whichever writes fail; a repetition is merged into
    that row and changes no other.
  \<^item> Breaker: \<open>Evaluate\<close> implements a specification that does not depend on the order of the
    rules; well-formedness and the peak; a breaker created from the files has the state; the log is the history.
  \<^item> Order path: nothing passes a breaker that cannot place, a halt between attempts stops the
    retries, an invalid order reaches no adapter, every run reports its outcome exactly once,
    a dry run fills at its price, real brokers need the settings that their choice looks at.
  \<^item> Replay guard: no nonce twice within its time to live; HTTP attempts are bounded and carry one
    nonce.
  \<^item> Store: round trip of \<open>Save\<close> and \<open>Load\<close>, canonical order of the positions.
  \<^item> Bus: throttled events keep their distance, no publication is lost without being counted,
    critical errors reach their reader.
  \<^item> Scheduler: openings and closings alternate and fall into their hours.
  \<^item> Tasks: every state that the interleavings reach has well-typed records and events numbered in
    order; a finished execution keeps its final status; a cancellation stored while the runner works
    is kept; a run whose goroutine is not starved ends.  Cancellations that come too early or too
    late are lost or erase the outcome.
  \<^item> Gateway: a breaker counts the failures since the last success, however its calls interleave;
    a freshness verdict is the question whether a publication deadline has passed; errors are
    reported after the grace of the contract only; the walk back to a trading day ends.
  \<^item> Behaviour of the code that its comments do not announce is stated as it is: the live engine never
    halts by itself, its order path is pinned to one broker and breaker, a restart clears a
    halt, stop losses count twice, the TWSE rate limit drifts, Fubon orders never leave, two empty
    probes wedge a half-open breaker, the fallback serves no payload that was good; a stopped-out position is bought back in the same
    session, proceeds unlock after two calendar days, an approval never takes a rejection back, a suspension ends as fast as
    it comes; experiments on short windows are never accepted, pending ones never promoted, a revert forgets the earlier
    reverts and keeps the constraints of the charter; a health check with fresh data resolves every open alert of its
    category; a cut append swallows the next record of an experiment.

  Loops are structural recursions: the retry loops recurse on the number of attempts left, the
  run of the scheduler on the list of clock readings, so no fuel is needed.  The bound of
  \<open>rate_limit_drifts\<close> (ten million requests) keeps its token count an exact double; the other bounds are those
  of 64-bit integers.

  Not modelled: metrics and log lines, the status maps for the dashboard, the texts of errors, reasons
  and event descriptions, the asynchronous event log of the store, the ticker loops of the
  scheduler, the summaries that a session writes for the pages, the storing of sector allocations; and as components the
  portfolio optimizer and the statistical risk estimators, the agents and their research pipeline, the data providers and
  their gateway adapters, the task runners, the LLM routing and the user interfaces.  Of the experiments: the research of the agents on a
  day of the replay is an argument (\<open>research\<close>); the executor that writes the candidates and the feature importance are left
  out for their size, and
  \<open>ValidateWithConstraints\<close> because it repeats the branch of \<open>ValidateWithBrief\<close> that is modelled.
\<close>

end
